(* ===== verification/Prelude.thy ===== *)
theory Prelude
  imports Main "HOL-Library.Word" "HOL-Library.List_Lexorder" "HOL-Library.Char_ord"
begin

text \<open>
  Shared vocabulary of the development: Python exceptions as values, the state-and-exception
  actions in which the services are written, insertion-ordered dictionaries, and the few string
  operations of the Python standard library that the code uses.

  A Python \<open>str\<close> is a HOL \<^typ>\<open>string\<close>; the model covers strings of ASCII code points, on which
  NFKC normalisation is the identity and UTF-8 encoding is one byte per character. A \<open>datetime\<close> is
  an \<^typ>\<open>int\<close> (microseconds since the epoch, UTC), a \<open>timedelta\<close> an \<^typ>\<open>int\<close> number of
  microseconds, so their comparison and arithmetic are those of Python.
\<close>

named_theorems act_simps \<open>unfolding rules of the state-and-exception actions\<close>

section \<open>Exceptions\<close>

datatype exn_class =
    ConstitutionalViolationError
  | IllegalStateTransitionError
  | ValueError
  | IndexError
  | KeyError
  | RuntimeError
  | TypeError
  | UnauthorizedConsentError
  | InvalidTaskStateError
  | ConcurrentModificationError
  | TwoPhaseEmitError
  | TwoPhaseEventTypeError
  | UnknownEventTypeError
  | UnknownActorError
  | WriteTimeIllegalStateTransitionError
  | HashChainBreakError
  | DBAPIError
  | AttributeError
  | HaltMessageRequiredError
  | UnauthorizedHaltError
  | HaltedException
  | InvalidStateTransitionError
  | PetitionAlreadyFatedError
  | InvalidPhaseTransitionError
  | ConsensusNotReachedError
  | SessionAlreadyCompleteError
  | InvalidArchonAssignmentError
  | InvalidPetitionStateError
  | SessionNotFoundError
  | ArchonPoolExhaustedError
  | PhaseExecutionError
  | PetitionSessionMismatchError
  | IncompleteWitnessChainError
  | PipelineRoutingError
  | PetitionNotFoundError
  | SystemHaltedError
  | SystemHaltedException
  | FateEventEmissionError
  | UnauthorizedWithdrawalError
  | InvalidRealmError
  | PetitionSubmissionNotFoundError
  | CoSignPetitionNotFoundError
  | CoSignPetitionFatedError
  | AlreadySignedError
  | CoSignRateLimitExceededError
  | IdentityNotFoundError
  | IdentitySuspendedError
  | IdentityServiceUnavailableError
  | PromotionBudgetExceededError
  | PetitionNotEscalatedException
  | RealmMismatchException
  | InsufficientBudgetException
  | UnauthorizedResultError
  | InvalidResultStateError
  | UnauthorizedAccessError
  | AlreadyExitedError
  | CessationAlreadyTriggeredError
  | ProofGenerationError
  | PartialExportError
  | PIIDetectedError
  | CessationRecordCreationError
  | CessationRecordAlreadyExistsError
  | InvalidArchonCountError
  | RationaleRequiredError
  | ReferenceRequiredError
  | PetitionNotInDeliberatingStateError
  | DeliberationSessionNotFoundError
  | DwellTimeNotElapsedError
  | InvalidReferencePetitionError
  | WitnessHashGenerationError
  | InsufficientArchonsError
  | AcknowledgmentAlreadyExistsError
  | PetitionNotEscalatedError
  | RealmMismatchError

text \<open>The class's \<open>__name__\<close>; two classes of the code share the name \<open>IllegalStateTransitionError\<close>.\<close>

fun exn_class_name :: "exn_class \<Rightarrow> string" where
  "exn_class_name ConstitutionalViolationError = ''ConstitutionalViolationError''"
| "exn_class_name IllegalStateTransitionError = ''IllegalStateTransitionError''"
| "exn_class_name ValueError = ''ValueError''"
| "exn_class_name IndexError = ''IndexError''"
| "exn_class_name KeyError = ''KeyError''"
| "exn_class_name RuntimeError = ''RuntimeError''"
| "exn_class_name TypeError = ''TypeError''"
| "exn_class_name UnauthorizedConsentError = ''UnauthorizedConsentError''"
| "exn_class_name InvalidTaskStateError = ''InvalidTaskStateError''"
| "exn_class_name ConcurrentModificationError = ''ConcurrentModificationError''"
| "exn_class_name TwoPhaseEmitError = ''TwoPhaseEmitError''"
| "exn_class_name TwoPhaseEventTypeError = ''TwoPhaseEventTypeError''"
| "exn_class_name UnknownEventTypeError = ''UnknownEventTypeError''"
| "exn_class_name UnknownActorError = ''UnknownActorError''"
| "exn_class_name WriteTimeIllegalStateTransitionError = ''IllegalStateTransitionError''"
| "exn_class_name HashChainBreakError = ''HashChainBreakError''"
| "exn_class_name DBAPIError = ''DBAPIError''"
| "exn_class_name AttributeError = ''AttributeError''"
| "exn_class_name HaltMessageRequiredError = ''HaltMessageRequiredError''"
| "exn_class_name UnauthorizedHaltError = ''UnauthorizedHaltError''"
| "exn_class_name HaltedException = ''HaltedException''"
| "exn_class_name InvalidStateTransitionError = ''InvalidStateTransitionError''"
| "exn_class_name PetitionAlreadyFatedError = ''PetitionAlreadyFatedError''"
| "exn_class_name InvalidPhaseTransitionError = ''InvalidPhaseTransitionError''"
| "exn_class_name ConsensusNotReachedError = ''ConsensusNotReachedError''"
| "exn_class_name SessionAlreadyCompleteError = ''SessionAlreadyCompleteError''"
| "exn_class_name InvalidArchonAssignmentError = ''InvalidArchonAssignmentError''"
| "exn_class_name InvalidPetitionStateError = ''InvalidPetitionStateError''"
| "exn_class_name SessionNotFoundError = ''SessionNotFoundError''"
| "exn_class_name ArchonPoolExhaustedError = ''ArchonPoolExhaustedError''"
| "exn_class_name PhaseExecutionError = ''PhaseExecutionError''"
| "exn_class_name PetitionSessionMismatchError = ''PetitionSessionMismatchError''"
| "exn_class_name IncompleteWitnessChainError = ''IncompleteWitnessChainError''"
| "exn_class_name PipelineRoutingError = ''PipelineRoutingError''"
| "exn_class_name PetitionNotFoundError = ''PetitionNotFoundError''"
| "exn_class_name SystemHaltedError = ''SystemHaltedError''"
| "exn_class_name SystemHaltedException = ''SystemHaltedException''"
| "exn_class_name FateEventEmissionError = ''FateEventEmissionError''"
| "exn_class_name UnauthorizedWithdrawalError = ''UnauthorizedWithdrawalError''"
| "exn_class_name InvalidRealmError = ''InvalidRealmError''"
| "exn_class_name PetitionSubmissionNotFoundError = ''PetitionSubmissionNotFoundError''"
| "exn_class_name CoSignPetitionNotFoundError = ''CoSignPetitionNotFoundError''"
| "exn_class_name CoSignPetitionFatedError = ''CoSignPetitionFatedError''"
| "exn_class_name AlreadySignedError = ''AlreadySignedError''"
| "exn_class_name CoSignRateLimitExceededError = ''CoSignRateLimitExceededError''"
| "exn_class_name IdentityNotFoundError = ''IdentityNotFoundError''"
| "exn_class_name IdentitySuspendedError = ''IdentitySuspendedError''"
| "exn_class_name IdentityServiceUnavailableError = ''IdentityServiceUnavailableError''"
| "exn_class_name PromotionBudgetExceededError = ''PromotionBudgetExceededError''"
| "exn_class_name PetitionNotEscalatedException = ''PetitionNotEscalatedException''"
| "exn_class_name RealmMismatchException = ''RealmMismatchException''"
| "exn_class_name InsufficientBudgetException = ''InsufficientBudgetException''"
| "exn_class_name UnauthorizedResultError = ''UnauthorizedResultError''"
| "exn_class_name InvalidResultStateError = ''InvalidResultStateError''"
| "exn_class_name UnauthorizedAccessError = ''UnauthorizedAccessError''"
| "exn_class_name AlreadyExitedError = ''AlreadyExitedError''"
| "exn_class_name CessationAlreadyTriggeredError = ''CessationAlreadyTriggeredError''"
| "exn_class_name ProofGenerationError = ''ProofGenerationError''"
| "exn_class_name PartialExportError = ''PartialExportError''"
| "exn_class_name PIIDetectedError = ''PIIDetectedError''"
| "exn_class_name CessationRecordCreationError = ''CessationRecordCreationError''"
| "exn_class_name CessationRecordAlreadyExistsError = ''CessationRecordAlreadyExistsError''"
| "exn_class_name InvalidArchonCountError = ''InvalidArchonCountError''"
| "exn_class_name RationaleRequiredError = ''RationaleRequiredError''"
| "exn_class_name ReferenceRequiredError = ''ReferenceRequiredError''"
| "exn_class_name PetitionNotInDeliberatingStateError = ''PetitionNotInDeliberatingStateError''"
| "exn_class_name DeliberationSessionNotFoundError = ''DeliberationSessionNotFoundError''"
| "exn_class_name DwellTimeNotElapsedError = ''DwellTimeNotElapsedError''"
| "exn_class_name InvalidReferencePetitionError = ''InvalidReferencePetitionError''"
| "exn_class_name WitnessHashGenerationError = ''WitnessHashGenerationError''"
| "exn_class_name InsufficientArchonsError = ''InsufficientArchonsError''"
| "exn_class_name AcknowledgmentAlreadyExistsError = ''AcknowledgmentAlreadyExistsError''"
| "exn_class_name PetitionNotEscalatedError = ''PetitionNotEscalatedError''"
| "exn_class_name RealmMismatchError = ''RealmMismatchError''"

text \<open>An exception value: its class and what \<open>str(e)\<close> gives.\<close>

datatype exn = Exn (exn_kind: exn_class) (exn_str: string)

section \<open>Actions: state and exceptions\<close>

text \<open>
  A method that mutates its object and may raise is an action: it returns the result or the
  exception, and in both cases the state it leaves behind (a raise does not roll back).
\<close>

type_synonym ('s, 'a) act = "'s \<Rightarrow> (exn + 'a) \<times> 's"

definition act_return :: "'a \<Rightarrow> ('s, 'a) act" where
  "act_return x = (\<lambda>s. (Inr x, s))"

definition act_raise :: "exn \<Rightarrow> ('s, 'a) act" where
  "act_raise e = (\<lambda>s. (Inl e, s))"

definition act_bind :: "('s, 'a) act \<Rightarrow> ('a \<Rightarrow> ('s, 'b) act) \<Rightarrow> ('s, 'b) act" where
  "act_bind m f = (\<lambda>s. case m s of (Inl e, s') \<Rightarrow> (Inl e, s') | (Inr x, s') \<Rightarrow> f x s')"

text \<open>\<open>try: m except: h\<close>, with \<open>h\<close> deciding which exceptions it handles.\<close>

definition act_try :: "('s, 'a) act \<Rightarrow> (exn \<Rightarrow> ('s, 'a) act) \<Rightarrow> ('s, 'a) act" where
  "act_try m h = (\<lambda>s. case m s of (Inl e, s') \<Rightarrow> h e s' | (Inr x, s') \<Rightarrow> (Inr x, s'))"

definition act_lift :: "exn + 'a \<Rightarrow> ('s, 'a) act" where
  "act_lift r = (\<lambda>s. (r, s))"

definition act_when :: "bool \<Rightarrow> ('s, unit) act \<Rightarrow> ('s, unit) act" where
  "act_when b m = (if b then m else act_return ())"

lemma act_return_run [simp]: "act_return x s = (Inr x, s)"
  by (simp add: act_return_def)

lemma act_raise_run [simp]: "act_raise e s = (Inl e, s)"
  by (simp add: act_raise_def)

lemma act_lift_run [simp]: "act_lift r s = (r, s)"
  by (simp add: act_lift_def)

lemma act_bind_Inl [simp]: "m s = (Inl e, t) \<Longrightarrow> act_bind m f s = (Inl e, t)"
  by (simp add: act_bind_def)

lemma act_bind_Inr [simp]: "m s = (Inr x, t) \<Longrightarrow> act_bind m f s = f x t"
  by (simp add: act_bind_def)

lemma act_try_Inl [simp]: "m s = (Inl e, t) \<Longrightarrow> act_try m h s = h e t"
  by (simp add: act_try_def)

lemma act_try_Inr [simp]: "m s = (Inr x, t) \<Longrightarrow> act_try m h s = (Inr x, t)"
  by (simp add: act_try_def)

lemma act_bind_InrE:
  assumes "act_bind m f s = (Inr y, t)"
  obtains x u where "m s = (Inr x, u)" and "f x u = (Inr y, t)"
  using assms by (auto simp: act_bind_def split: prod.splits sum.splits)

lemma act_bind_cases:
  assumes "act_bind m f s = (r, t)"
  obtains (raised) e where "m s = (Inl e, t)" and "r = Inl e"
    | (returned) x u where "m s = (Inr x, u)" and "f x u = (r, t)"
  using assms by (auto simp: act_bind_def split: prod.splits sum.splits)

lemma act_try_cases:
  assumes "act_try m h s = (r, t)"
  obtains (handled) e u where "m s = (Inl e, u)" and "h e u = (r, t)"
    | (normal) x where "m s = (Inr x, t)" and "r = Inr x"
  using assms by (auto simp: act_try_def split: prod.splits sum.splits)

subsection \<open>Frame relations\<close>

text \<open>\<open>framed R m\<close>: whatever \<open>m\<close> does, returning or raising, relates its states by \<open>R\<close>.\<close>

definition framed :: "('s \<Rightarrow> 's \<Rightarrow> bool) \<Rightarrow> ('s, 'a) act \<Rightarrow> bool" where
  "framed R m \<longleftrightarrow> (\<forall>s r t. m s = (r, t) \<longrightarrow> R s t)"

lemma framedI: "(\<And>s r t. m s = (r, t) \<Longrightarrow> R s t) \<Longrightarrow> framed R m"
  by (simp add: framed_def)

lemma framedD: "framed R m \<Longrightarrow> m s = (r, t) \<Longrightarrow> R s t"
  by (simp add: framed_def)

text \<open>\<open>act_post m s Q\<close>: running \<open>m\<close> from \<open>s\<close> ends, returning or raising, in a result and a state that satisfy \<open>Q\<close>.\<close>

definition act_post :: "('s, 'a) act \<Rightarrow> 's \<Rightarrow> (exn + 'a \<Rightarrow> 's \<Rightarrow> bool) \<Rightarrow> bool" where
  "act_post m s Q \<longleftrightarrow> (case m s of (r, t) \<Rightarrow> Q r t)"

lemma act_postI: "(\<And>r t. m s = (r, t) \<Longrightarrow> Q r t) \<Longrightarrow> act_post m s Q"
  by (auto simp: act_post_def split: prod.splits)

lemma act_postD: "act_post m s Q \<Longrightarrow> m s = (r, t) \<Longrightarrow> Q r t"
  by (simp add: act_post_def)

lemma act_post_return [simp]: "act_post (act_return x) s Q \<longleftrightarrow> Q (Inr x) s"
  by (simp add: act_post_def act_return_def)

lemma act_post_lift [simp]: "act_post (act_lift r) s Q \<longleftrightarrow> Q r s"
  by (simp add: act_post_def act_lift_def)

lemma act_post_bind:
  assumes "act_post m s P" and "\<And>e t. P (Inl e) t \<Longrightarrow> Q (Inl e) t"
    and "\<And>x t. P (Inr x) t \<Longrightarrow> act_post (f x) t Q"
  shows "act_post (act_bind m f) s Q"
proof (rule act_postI)
  fix r t assume "act_bind m f s = (r, t)"
  then show "Q r t"
  proof (cases rule: act_bind_cases)
    case (raised e)
    then show ?thesis using act_postD [OF assms(1)] assms(2) by blast
  next
    case (returned x u)
    then have "act_post (f x) u Q" using act_postD [OF assms(1)] assms(3) by blast
    then show ?thesis using returned(2) by (rule act_postD)
  qed
qed

lemma act_post_lift_bind:
  assumes "\<And>e. r = Inl e \<Longrightarrow> Q (Inl e) s" and "\<And>x. r = Inr x \<Longrightarrow> act_post (f x) s Q"
  shows "act_post (act_bind (act_lift r) f) s Q"
  using assms by (cases r) (auto simp: act_post_def act_bind_def)

lemma act_post_bind_framed:
  assumes "framed R m" and "\<And>e t. R s t \<Longrightarrow> Q (Inl e) t" and "\<And>x t. R s t \<Longrightarrow> act_post (f x) t Q"
  shows "act_post (act_bind m f) s Q"
  by (rule act_post_bind [where P = "\<lambda>_. R s"]) (use assms in \<open>auto intro!: act_postI dest: framedD\<close>)

lemma act_post_framed: "(\<And>s. act_post m s (\<lambda>_. R s)) \<Longrightarrow> framed R m"
  by (auto intro!: framedI dest: act_postD)

text \<open>\<open>act_returns m s Q\<close>: whenever \<open>m\<close> run from \<open>s\<close> returns (rather than raises), result and state satisfy \<open>Q\<close>.\<close>

definition act_returns :: "('s, 'a) act \<Rightarrow> 's \<Rightarrow> ('a \<Rightarrow> 's \<Rightarrow> bool) \<Rightarrow> bool" where
  "act_returns m s Q \<longleftrightarrow> (\<forall>x t. m s = (Inr x, t) \<longrightarrow> Q x t)"

lemma act_returnsD: "act_returns m s Q \<Longrightarrow> m s = (Inr x, t) \<Longrightarrow> Q x t"
  by (simp add: act_returns_def)

lemma act_returns_any: "(\<And>x t. Q x t) \<Longrightarrow> act_returns m s Q"
  by (simp add: act_returns_def)

lemma act_returns_return: "Q x s \<Longrightarrow> act_returns (act_return x) s Q"
  by (simp add: act_returns_def)

lemma act_returns_raise: "act_returns (act_raise e) s Q"
  by (simp add: act_returns_def act_raise_def)

lemma act_returns_lift: "(\<And>x. r = Inr x \<Longrightarrow> Q x s) \<Longrightarrow> act_returns (act_lift r) s Q"
  by (simp add: act_returns_def)

lemma act_returns_bind: "act_returns m s (\<lambda>x t. act_returns (f x) t Q) \<Longrightarrow> act_returns (act_bind m f) s Q"
  by (auto simp: act_returns_def elim!: act_bind_InrE)

lemma act_returns_mono: "act_returns m s P \<Longrightarrow> (\<And>x t. P x t \<Longrightarrow> Q x t) \<Longrightarrow> act_returns m s Q"
  by (auto simp: act_returns_def)

lemma act_returns_bind_any: "(\<And>x t. act_returns (f x) t Q) \<Longrightarrow> act_returns (act_bind m f) s Q"
  by (rule act_returns_bind) (rule act_returns_any)

lemma act_returns_bind_lift: "(\<And>x. r = Inr x \<Longrightarrow> act_returns (f x) s Q) \<Longrightarrow> act_returns (act_bind (act_lift r) f) s Q"
  by (rule act_returns_bind) (rule act_returns_lift)

lemma act_returns_if:
  "(b \<Longrightarrow> act_returns m s Q) \<Longrightarrow> (\<not> b \<Longrightarrow> act_returns n s Q) \<Longrightarrow> act_returns (if b then m else n) s Q"
  by simp

lemma act_returns_option:
  "(v = None \<Longrightarrow> act_returns m s Q) \<Longrightarrow> (\<And>x. v = Some x \<Longrightarrow> act_returns (f x) s Q)
    \<Longrightarrow> act_returns (case v of None \<Rightarrow> m | Some x \<Rightarrow> f x) s Q"
  by (cases v) simp_all

lemma act_returns_sum:
  "(\<And>e. v = Inl e \<Longrightarrow> act_returns (g e) s Q) \<Longrightarrow> (\<And>x. v = Inr x \<Longrightarrow> act_returns (f x) s Q)
    \<Longrightarrow> act_returns (case v of Inl e \<Rightarrow> g e | Inr x \<Rightarrow> f x) s Q"
  by (cases v) simp_all

lemma act_returns_step:
  "act_returns m s P \<Longrightarrow> (\<And>x t. P x t \<Longrightarrow> act_returns (f x) t Q) \<Longrightarrow> act_returns (act_bind m f) s Q"
  by (rule act_returns_bind) (rule act_returns_mono)

text \<open>
  A frame relation is a preorder on states; it is respected by every composite action whose parts
  respect it. Each store of the model has its own (the ledger only grows, a task only moves along
  the transition table), interpreted where the store is defined.
\<close>

locale frame_relation =
  fixes R :: "'s \<Rightarrow> 's \<Rightarrow> bool"
  assumes frame_refl: "R s s"
    and frame_trans: "R s t \<Longrightarrow> R t u \<Longrightarrow> R s u"
begin

lemma framed_return: "framed R (act_return x)"
  by (rule framedI) (auto intro: frame_refl)

lemma framed_raise: "framed R (act_raise e)"
  by (rule framedI) (auto intro: frame_refl)

lemma framed_lift: "framed R (act_lift r)"
  by (rule framedI) (auto intro: frame_refl)

lemma framed_bind:
  assumes "framed R m" and "\<And>x. framed R (f x)"
  shows "framed R (act_bind m f)"
proof (rule framedI)
  fix s r t
  assume "act_bind m f s = (r, t)"
  then show "R s t"
  proof (cases rule: act_bind_cases)
    case (raised e)
    with assms(1) show ?thesis by (auto dest: framedD)
  next
    case (returned x u)
    with assms have "R s u" and "R u t" by (auto dest: framedD)
    then show ?thesis by (rule frame_trans)
  qed
qed

lemma framed_try:
  assumes "framed R m" and "\<And>e. framed R (h e)"
  shows "framed R (act_try m h)"
proof (rule framedI)
  fix s r t
  assume "act_try m h s = (r, t)"
  then show "R s t"
  proof (cases rule: act_try_cases)
    case (handled e u)
    with assms have "R s u" and "R u t" by (auto dest: framedD)
    then show ?thesis by (rule frame_trans)
  next
    case (normal x)
    with assms(1) show ?thesis by (auto dest: framedD)
  qed
qed

lemma framed_when: "framed R m \<Longrightarrow> framed R (act_when b m)"
  by (simp add: act_when_def framed_return)

lemmas framed_intros =
  framed_return framed_raise framed_lift framed_bind framed_try framed_when

end

section \<open>Lists\<close>

text \<open>\<open>xs[i:j]\<close>: negative bounds count from the end, and both are clipped to the list.\<close>

definition py_slice_bound :: "nat \<Rightarrow> int \<Rightarrow> nat" where
  "py_slice_bound n k = (if k < 0 then nat (k + int n) else min (nat k) n)"

definition py_slice :: "'a list \<Rightarrow> int \<Rightarrow> int \<Rightarrow> 'a list" where
  "py_slice xs i j =
     (let a = py_slice_bound (length xs) i; b = py_slice_bound (length xs) j
      in take (b - a) (drop a xs))"

text \<open>A comprehension whose condition may raise.\<close>

fun filter_raise :: "('a \<Rightarrow> exn + bool) \<Rightarrow> 'a list \<Rightarrow> exn + 'a list" where
  "filter_raise p [] = Inr []"
| "filter_raise p (x # xs) =
     (case p x of
        Inl e \<Rightarrow> Inl e
      | Inr b \<Rightarrow>
          (case filter_raise p xs of
             Inl e \<Rightarrow> Inl e | Inr ys \<Rightarrow> Inr (if b then x # ys else ys)))"

fun map_raise :: "('a \<Rightarrow> exn + 'b) \<Rightarrow> 'a list \<Rightarrow> exn + 'b list" where
  "map_raise f [] = Inr []"
| "map_raise f (x # xs) =
     (case f x of
        Inl e \<Rightarrow> Inl e
      | Inr y \<Rightarrow> (case map_raise f xs of Inl e \<Rightarrow> Inl e | Inr ys \<Rightarrow> Inr (y # ys)))"

lemma py_slice_prefix: "0 \<le> n \<Longrightarrow> py_slice xs 0 n = take (nat n) xs"
  by (simp add: py_slice_def py_slice_bound_def min_def)

lemma set_py_slice: "set (py_slice xs i j) \<subseteq> set xs"
  by (auto simp: py_slice_def Let_def dest: in_set_takeD in_set_dropD)

section \<open>Insertion-ordered dictionaries\<close>

text \<open>
  A Python \<open>dict\<close> keeps its insertion order, and the code iterates over it. It is an association
  list; assignment replaces in place or appends.
\<close>

type_synonym ('k, 'v) dict = "('k \<times> 'v) list"

fun dict_set :: "'k \<Rightarrow> 'v \<Rightarrow> ('k, 'v) dict \<Rightarrow> ('k, 'v) dict" where
  "dict_set k v [] = [(k, v)]"
| "dict_set k v ((k', v') # d) = (if k' = k then (k, v) # d else (k', v') # dict_set k v d)"

definition dict_get :: "('k, 'v) dict \<Rightarrow> 'k \<Rightarrow> 'v option" where
  "dict_get d k = map_of d k"

definition dict_del :: "'k \<Rightarrow> ('k, 'v) dict \<Rightarrow> ('k, 'v) dict" where
  "dict_del k d = filter (\<lambda>p. fst p \<noteq> k) d"

definition dict_ok :: "('k, 'v) dict \<Rightarrow> bool" where
  "dict_ok d \<longleftrightarrow> distinct (map fst d)"

lemma dict_get_Nil [simp]: "dict_get [] k = None"
  by (simp add: dict_get_def)

lemma dict_get_set: "dict_get (dict_set k v d) k' = (if k' = k then Some v else dict_get d k')"
  by (induction k v d rule: dict_set.induct) (auto simp: dict_get_def)

lemma dict_get_set_same [simp]: "dict_get (dict_set k v d) k = Some v"
  by (simp add: dict_get_set)

lemma dict_get_set_other [simp]: "k' \<noteq> k \<Longrightarrow> dict_get (dict_set k v d) k' = dict_get d k'"
  by (simp add: dict_get_set)

lemma dict_set_set: "dict_set k v (dict_set k u d) = dict_set k v d"
  by (induction k u d rule: dict_set.induct) auto

lemma dict_get_del: "dict_get (dict_del k d) k' = (if k' = k then None else dict_get d k')"
  by (induction d) (auto simp: dict_get_def dict_del_def)

lemma keys_dict_set: "map fst (dict_set k v d) = (if k \<in> fst ` set d then map fst d else map fst d @ [k])"
  by (induction k v d rule: dict_set.induct) auto

lemma dict_ok_set: "dict_ok d \<Longrightarrow> dict_ok (dict_set k v d)"
  by (auto simp: dict_ok_def keys_dict_set)

lemma dict_ok_del: "dict_ok d \<Longrightarrow> dict_ok (dict_del k d)"
  by (auto simp: dict_ok_def dict_del_def intro: distinct_map_filter)

lemma dict_get_Some_iff: "dict_ok d \<Longrightarrow> dict_get d k = Some v \<longleftrightarrow> (k, v) \<in> set d"
  by (simp add: dict_ok_def dict_get_def)

lemma dict_get_None_iff: "dict_get d k = None \<longleftrightarrow> k \<notin> fst ` set d"
  by (simp add: dict_get_def map_of_eq_None_iff)

section \<open>Strings of the standard library\<close>

text \<open>The ASCII characters for which \<open>str.isspace\<close> holds.\<close>

definition is_py_space :: "char \<Rightarrow> bool" where
  "is_py_space c \<longleftrightarrow> (let n = (of_char c :: nat) in (9 \<le> n \<and> n \<le> 13) \<or> (28 \<le> n \<and> n \<le> 32))"

definition py_strip :: "string \<Rightarrow> string" where
  "py_strip s = rev (dropWhile is_py_space (rev (dropWhile is_py_space s)))"

text \<open>\<open>not s.strip()\<close>: the string is empty or blank.\<close>

definition blank :: "string \<Rightarrow> bool" where
  "blank s \<longleftrightarrow> py_strip s = []"

lemma blank_iff: "blank s \<longleftrightarrow> (\<forall>c\<in>set s. is_py_space c)"
proof
  assume "blank s"
  then have "\<forall>c\<in>set (dropWhile is_py_space s). is_py_space c"
    by (simp add: blank_def py_strip_def)
  then show "\<forall>c\<in>set s. is_py_space c"
    by (metis Un_iff set_append set_takeWhileD takeWhile_dropWhile_id)
next
  assume "\<forall>c\<in>set s. is_py_space c"
  then have "dropWhile is_py_space s = []"
    by (simp add: dropWhile_eq_Nil_conv)
  then show "blank s"
    unfolding blank_def py_strip_def by (simp only: rev.simps dropWhile.simps)
qed

lemma blank_Nil [simp]: "blank []"
  by (simp add: blank_iff)

lemma not_blankI: "c \<in> set s \<Longrightarrow> \<not> is_py_space c \<Longrightarrow> \<not> blank s"
  by (auto simp: blank_iff)

text \<open>\<open>s.split(sep, 1)\<close> on a string that contains \<open>sep\<close>: what is before and after the first one.\<close>

definition split_once :: "char \<Rightarrow> string \<Rightarrow> string \<times> string" where
  "split_once c s = (takeWhile (\<lambda>x. x \<noteq> c) s, drop 1 (dropWhile (\<lambda>x. x \<noteq> c) s))"

lemma split_once_append: "c \<notin> set a \<Longrightarrow> split_once c (a @ c # b) = (a, b)"
  by (auto simp: split_once_def takeWhile_append dropWhile_append)

lemma split_once_join: "c \<in> set s \<Longrightarrow> fst (split_once c s) @ c # snd (split_once c s) = s"
proof -
  assume "c \<in> set s"
  then have "dropWhile (\<lambda>x. x \<noteq> c) s \<noteq> []" and "hd (dropWhile (\<lambda>x. x \<noteq> c) s) = c"
    by (auto simp: dropWhile_eq_Nil_conv intro!: hd_dropWhile [where P = "\<lambda>x. x \<noteq> c", simplified])
  then have "c # drop 1 (dropWhile (\<lambda>x. x \<noteq> c) s) = dropWhile (\<lambda>x. x \<noteq> c) s"
    by (metis drop0 drop_Suc_Cons list.collapse One_nat_def)
  then show ?thesis
    by (simp add: split_once_def)
qed

text \<open>\<open>s.lower()\<close> on ASCII.\<close>

definition lower_char :: "char \<Rightarrow> char" where
  "lower_char c = (let n = (of_char c :: nat) in if 65 \<le> n \<and> n \<le> 90 then char_of (n + 32) else c)"

definition py_lower :: "string \<Rightarrow> string" where
  "py_lower = map lower_char"

end
