(* ===== verification/Py_Text.thy ===== *)
theory Py_Text
  imports Prelude
begin

text \<open>
  How the standard library renders integers, bytes, UUIDs and datetimes as text: the renderings
  that reach event payloads, hashes and error messages. Each is defined by computation and comes
  with the injectivity lemma that the hashing theorems need.
\<close>

section \<open>Digits\<close>

definition digit_char :: "nat \<Rightarrow> char" where
  "digit_char n = (if n < 10 then char_of (48 + n) else char_of (87 + n))"

lemma of_char_digit_char: "n < 16 \<Longrightarrow> (of_char (digit_char n) :: nat) = (if n < 10 then 48 + n else 87 + n)"
  by (simp add: digit_char_def of_char_of take_bit_eq_mod)

lemma digit_char_inj: "m < 16 \<Longrightarrow> n < 16 \<Longrightarrow> digit_char m = digit_char n \<longleftrightarrow> m = n"
proof
  assume "m < 16" "n < 16" "digit_char m = digit_char n"
  then have "(if m < 10 then 48 + m else 87 + m) = (if n < 10 then 48 + n else 87 + n)"
    by (metis of_char_digit_char)
  then show "m = n" using \<open>m < 16\<close> \<open>n < 16\<close>
    by (auto split: if_splits)
qed simp

definition is_digit :: "char \<Rightarrow> bool" where
  "is_digit c \<longleftrightarrow> 48 \<le> (of_char c :: nat) \<and> (of_char c :: nat) \<le> 57"

lemma is_digit_digit_char: "n < 10 \<Longrightarrow> is_digit (digit_char n)"
  by (simp add: is_digit_def of_char_digit_char)

section \<open>Decimal and hexadecimal numbers\<close>

text \<open>\<open>str(n)\<close> for a non-negative \<open>n\<close>, and for any int.\<close>

fun show_nat :: "nat \<Rightarrow> string" where
  "show_nat n = (if n < 10 then [digit_char n] else show_nat (n div 10) @ [digit_char (n mod 10)])"

declare show_nat.simps [simp del]

definition show_int :: "int \<Rightarrow> string" where
  "show_int i = (if i < 0 then CHR ''-'' # show_nat (nat (- i)) else show_nat (nat i))"

lemma show_nat_nonempty [simp]: "show_nat n \<noteq> []"
  by (subst show_nat.simps) simp

lemma show_nat_nonempty' [simp]: "[] \<noteq> show_nat n"
  by (metis show_nat_nonempty)

lemma show_nat_digits: "c \<in> set (show_nat n) \<Longrightarrow> is_digit c"
proof (induction n rule: show_nat.induct)
  case (1 n)
  then show ?case
    by (subst (asm) (2) show_nat.simps) (auto simp: is_digit_digit_char split: if_splits)
qed

lemma show_nat_inj: "show_nat m = show_nat n \<Longrightarrow> m = n"
proof (induction m arbitrary: n rule: show_nat.induct)
  case (1 m)
  have eq: "show_nat m = show_nat n" by (rule 1)
  show ?case
  proof (cases "m < 10 \<or> n < 10")
    case True
    then show ?thesis using eq show_nat_nonempty
      by (subst (asm) (1 2) show_nat.simps) (auto simp: digit_char_inj split: if_splits)
  next
    case False
    then have "show_nat (m div 10) = show_nat (n div 10)" and "m mod 10 = n mod 10"
      using eq by (subst (asm) (1 2) show_nat.simps, auto simp: digit_char_inj)+
    moreover have "m div 10 = n div 10"
      using 1(1) False \<open>show_nat (m div 10) = show_nat (n div 10)\<close> by simp
    ultimately show ?thesis by (metis div_mult_mod_eq)
  qed
qed

lemma minus_not_digit: "\<not> is_digit (CHR ''-'')"
  by (simp add: is_digit_def)

lemma show_int_inj: "show_int i = show_int j \<Longrightarrow> i = j"
proof -
  assume eq: "show_int i = show_int j"
  have neq: "CHR ''-'' # xs \<noteq> show_nat n" for xs n
    using show_nat_digits [of "CHR ''-''" n] minus_not_digit by (metis list.set_intros(1))
  consider (neg) "i < 0" "j < 0" | (pos) "0 \<le> i" "0 \<le> j" | (mixed) "(i < 0) \<noteq> (j < 0)"
    by linarith
  then show ?thesis
  proof cases
    case neg
    with eq have "nat (- i) = nat (- j)" by (simp add: show_int_def show_nat_inj)
    with neg show ?thesis by simp
  next
    case pos
    with eq have "nat i = nat j" by (simp add: show_int_def show_nat_inj)
    with pos show ?thesis by simp
  next
    case mixed
    with eq show ?thesis using neq [of _ "nat i"] neq [of _ "nat j"]
      by (simp add: show_int_def split: if_splits) (metis neq)
  qed
qed

lemma show_int_nonempty: "show_int i \<noteq> []"
  by (simp add: show_int_def show_nat_nonempty)

text \<open>Zero-padded digits of a number in base \<open>b\<close>, as \<open>{n:02d}\<close> and \<open>bytes.hex\<close> print them.\<close>

fun pad_digits :: "nat \<Rightarrow> nat \<Rightarrow> nat \<Rightarrow> string" where
  "pad_digits b 0 n = []"
| "pad_digits b (Suc k) n = pad_digits b k (n div b) @ [digit_char (n mod b)]"

lemma length_pad_digits [simp]: "length (pad_digits b k n) = k"
  by (induction k arbitrary: n) auto

lemma pad_digits_inj:
  assumes "0 < b" and "b \<le> 16"
  shows "m < b ^ k \<Longrightarrow> n < b ^ k \<Longrightarrow> pad_digits b k m = pad_digits b k n \<Longrightarrow> m = n"
proof (induction k arbitrary: m n)
  case (Suc k)
  have "m mod b < 16" and "n mod b < 16"
    using assms by (meson mod_less_divisor order_less_le_trans)+
  then have "m mod b = n mod b" and "pad_digits b k (m div b) = pad_digits b k (n div b)"
    using Suc.prems by (auto simp: digit_char_inj)
  moreover have "m div b < b ^ k" and "n div b < b ^ k"
    using Suc.prems by (simp_all add: less_mult_imp_div_less mult.commute)
  ultimately show ?case
    using Suc.IH by (metis div_mult_mod_eq)
qed simp

section \<open>Bytes\<close>

type_synonym bytes = "8 word list"

definition hex_byte :: "8 word \<Rightarrow> string" where
  "hex_byte w = pad_digits 16 2 (unat w)"

text \<open>\<open>bytes.hex()\<close>, and \<open>str.encode()\<close> on ASCII.\<close>

definition bytes_hex :: "bytes \<Rightarrow> string" where
  "bytes_hex bs = concat (map hex_byte bs)"

definition str_encode :: "string \<Rightarrow> bytes" where
  "str_encode s = map (\<lambda>c. word_of_nat (of_char c)) s"

lemma hex_byte_inj: "hex_byte v = hex_byte w \<Longrightarrow> v = w"
proof -
  assume "hex_byte v = hex_byte w"
  moreover have "unat v < 16 ^ 2" and "unat w < 16 ^ 2"
    using unsigned_less [of v] unsigned_less [of w] by simp_all
  ultimately have "unat v = unat w"
    unfolding hex_byte_def by (intro pad_digits_inj [of 16 _ 2]) auto
  then show ?thesis by (rule unsigned_word_eqI)
qed

lemma length_hex_byte [simp]: "length (hex_byte w) = 2"
  by (simp add: hex_byte_def)

lemma length_bytes_hex [simp]: "length (bytes_hex bs) = 2 * length bs"
  by (induction bs) (auto simp: bytes_hex_def)

lemma bytes_hex_inj: "bytes_hex xs = bytes_hex ys \<Longrightarrow> xs = ys"
proof (induction xs arbitrary: ys)
  case Nil
  then have "length (bytes_hex ys) = 0" by (metis length_bytes_hex list.size(3) mult_0_right)
  then show ?case by simp
next
  case (Cons x xs)
  have "length (bytes_hex ys) = 2 * length (x # xs)"
    using Cons.prems by (metis length_bytes_hex)
  then obtain y ys' where ys: "ys = y # ys'" by (cases ys) auto
  with Cons.prems have "hex_byte x @ bytes_hex xs = hex_byte y @ bytes_hex ys'"
    by (simp add: bytes_hex_def)
  then have "hex_byte x = hex_byte y" and "bytes_hex xs = bytes_hex ys'"
    by (simp_all add: append_eq_append_conv)
  then show ?case using Cons.IH ys by (auto dest: hex_byte_inj)
qed

lemma str_encode_append [simp]: "str_encode (s @ t) = str_encode s @ str_encode t"
  by (simp add: str_encode_def)

lemma length_str_encode [simp]: "length (str_encode s) = length s"
  by (simp add: str_encode_def)

lemma char_byte_inj: "(word_of_nat (of_char c) :: 8 word) = word_of_nat (of_char d) \<Longrightarrow> c = d"
proof -
  assume "(word_of_nat (of_char c) :: 8 word) = word_of_nat (of_char d)"
  then have "unat (word_of_nat (of_char c) :: 8 word) = unat (word_of_nat (of_char d) :: 8 word)"
    by simp
  moreover have "(of_char c :: nat) < 2 ^ LENGTH(8)" and "(of_char d :: nat) < 2 ^ LENGTH(8)"
    using nat_of_char_less_256 [of c] nat_of_char_less_256 [of d] by simp_all
  ultimately have "(of_char c :: nat) = of_char d"
    by (simp add: unat_of_nat take_bit_eq_mod)
  then show ?thesis by simp
qed

lemma str_encode_inj: "str_encode s = str_encode t \<longleftrightarrow> s = t"
proof
  show "str_encode s = str_encode t \<Longrightarrow> s = t"
  proof (induction s arbitrary: t)
    case (Cons c s)
    then show ?case by (cases t) (auto simp: str_encode_def dest: char_byte_inj)
  qed (simp add: str_encode_def)
qed simp

section \<open>UUIDs and datetimes\<close>

type_synonym uuid = "128 word"

text \<open>\<open>str(uuid)\<close>: lower-case hex with dashes, 8-4-4-4-12.\<close>

definition uuid_str :: "uuid \<Rightarrow> string" where
  "uuid_str u =
     (let h = pad_digits 16 32 (unat u) in
      take 8 h @ ''-'' @ take 4 (drop 8 h) @ ''-'' @ take 4 (drop 12 h) @ ''-'' @
      take 4 (drop 16 h) @ ''-'' @ drop 20 h)"

lemma uuid_str_inj: "uuid_str u = uuid_str v \<Longrightarrow> u = v"
proof -
  assume eq: "uuid_str u = uuid_str v"
  let ?h = "pad_digits 16 32 (unat u)" and ?k = "pad_digits 16 32 (unat v)"
  have split: "x = take 8 x @ take 4 (drop 8 x) @ take 4 (drop 12 x) @ take 4 (drop 16 x) @ drop 20 x"
    for x :: string
  proof -
    have "drop 20 x = drop 4 (drop 16 x)" "drop 16 x = drop 4 (drop 12 x)"
      "drop 12 x = drop 4 (drop 8 x)" by simp_all
    then show ?thesis by (metis append_take_drop_id)
  qed
  have "take 8 ?h = take 8 ?k \<and> take 4 (drop 8 ?h) = take 4 (drop 8 ?k) \<and>
      take 4 (drop 12 ?h) = take 4 (drop 12 ?k) \<and> take 4 (drop 16 ?h) = take 4 (drop 16 ?k) \<and>
      drop 20 ?h = drop 20 ?k"
    using eq by (auto simp: uuid_str_def Let_def append_eq_append_conv)
  then have "?h = ?k" using split [of ?h] split [of ?k] by simp
  moreover have "unat u < 16 ^ 32" and "unat v < 16 ^ 32"
    using unsigned_less [of u] unsigned_less [of v] by simp_all
  ultimately have "unat u = unat v" by (intro pad_digits_inj [of 16 _ 32]) auto
  then show ?thesis by (rule unsigned_word_eqI)
qed

lemma uuid_str_nonblank: "\<not> blank (uuid_str u)"
  by (rule not_blankI [where c = "CHR ''-''"]) (auto simp: uuid_str_def Let_def is_py_space_def)

type_synonym datetime = int
type_synonym timedelta = int

definition microseconds_per_second :: int where
  "microseconds_per_second = 1000000"

definition hours :: "int \<Rightarrow> timedelta" where
  "hours n = n * 3600 * microseconds_per_second"

definition days :: "int \<Rightarrow> timedelta" where
  "days n = n * 86400 * microseconds_per_second"

text \<open>
  \<open>datetime.isoformat()\<close> of a UTC datetime: the proleptic Gregorian date of the day number, then
  the time, with the microseconds only when they are not zero.
\<close>

definition civil_of_days :: "int \<Rightarrow> int \<times> int \<times> int" where
  "civil_of_days n =
     (let z = n + 719468; era = z div 146097; doe = z mod 146097;
          yoe = (doe - doe div 1460 + doe div 36524 - doe div 146096) div 365;
          doy = doe - (365 * yoe + yoe div 4 - yoe div 100);
          mp = (5 * doy + 2) div 153;
          d = doy - (153 * mp + 2) div 5 + 1;
          m = (if mp < 10 then mp + 3 else mp - 9);
          y = yoe + era * 400 + (if m \<le> 2 then 1 else 0)
      in (y, m, d))"

definition isoformat :: "datetime \<Rightarrow> string" where
  "isoformat t =
     (let us = t mod microseconds_per_second; s = t div microseconds_per_second;
          sod = s mod 86400; (y, m, d) = civil_of_days (s div 86400)
      in pad_digits 10 4 (nat y) @ ''-'' @ pad_digits 10 2 (nat m) @ ''-'' @ pad_digits 10 2 (nat d)
         @ ''T'' @ pad_digits 10 2 (nat (sod div 3600)) @ '':''
         @ pad_digits 10 2 (nat (sod mod 3600 div 60)) @ '':'' @ pad_digits 10 2 (nat (sod mod 60))
         @ (if us = 0 then [] else ''.'' @ pad_digits 10 6 (nat us)) @ ''+00:00'')"

lemma isoformat_examples:
  "isoformat 0 = ''1970-01-01T00:00:00+00:00''"
  "isoformat 1772323199000001 = ''2026-02-28T23:59:59.000001+00:00''"
  by code_simp+

section \<open>repr\<close>

text \<open>\<open>repr(s)\<close> of a string, for the error messages that quote their argument.\<close>

definition repr_char :: "char \<Rightarrow> char \<Rightarrow> string" where
  "repr_char q c =
     (let n = (of_char c :: nat) in
      if c = q \<or> c = CHR 0x5C then [CHR 0x5C, c]
      else if n = 10 then [CHR 0x5C, CHR ''n'']
      else if n = 13 then [CHR 0x5C, CHR ''r'']
      else if n = 9 then [CHR 0x5C, CHR ''t'']
      else if n < 32 \<or> n = 127 then [CHR 0x5C, CHR ''x''] @ pad_digits 16 2 n
      else [c])"

definition py_repr :: "string \<Rightarrow> string" where
  "py_repr s =
     (let q = (if CHR 0x27 \<in> set s \<and> CHR 0x22 \<notin> set s then CHR 0x22 else CHR 0x27)
      in [q] @ concat (map (repr_char q) s) @ [q])"

text \<open>\<open>sep.join(parts)\<close>.\<close>

fun str_join :: "string \<Rightarrow> string list \<Rightarrow> string" where
  "str_join sep [] = []"
| "str_join sep [s] = s"
| "str_join sep (s # t # ts) = s @ sep @ str_join sep (t # ts)"

text \<open>\<open>str(list_of_str)\<close>.\<close>

definition repr_str_list :: "string list \<Rightarrow> string" where
  "repr_str_list xs = ''['' @ str_join '', '' (map py_repr xs) @ '']''"

end
