(* ===== verification/Canonical_Json.thy ===== *)
theory Canonical_Json
  imports Py_Text "HOL-Library.Multiset"
begin

text \<open>
  Deterministic serialisation for hashing (\<open>src/domain/governance/events/canonical_json.py\<close>): the
  Python values that event payloads hold, their sanitisation, and \<open>json.dumps\<close> with sorted keys and
  no whitespace. The lemmas show that the text determines the sanitised value up to the order of
  dictionary keys, even when more text follows, and that key order does not change the text.
\<close>

section \<open>Values and sanitisation\<close>

text \<open>A finite float is represented by its \<open>repr\<close>, which is also its JSON text.\<close>

datatype pyfloat = FloatNaN | FloatInf bool | FloatFinite string

datatype pyval =
    PyNone
  | PyBool bool
  | PyInt int
  | PyFloat pyfloat
  | PyStr string
  | PyDatetime datetime
  | PyUUID uuid
  | PyBytes bytes
  | PyList "pyval list"
  | PyTuple "pyval list"
  | PyDict "(string \<times> pyval) list"

text \<open>What the JSON encoder is handed: the JSON-native values.\<close>

datatype json =
    JNull
  | JBool bool
  | JInt int
  | JFloat string
  | JStr string
  | JList "json list"
  | JObj "(string \<times> json) list"

text \<open>\<open>unicodedata.normalize("NFKC", s)\<close> is the identity on ASCII text.\<close>

definition nfkc :: "string \<Rightarrow> string" where
  "nfkc s = s"

definition float_repr :: "pyfloat \<Rightarrow> string" where
  "float_repr f = (case f of FloatNaN \<Rightarrow> ''nan'' | FloatInf neg \<Rightarrow> (if neg then ''-inf'' else ''inf'')
     | FloatFinite s \<Rightarrow> s)"

fun sanitize_value :: "pyval \<Rightarrow> exn + json"
  and sanitize_list :: "pyval list \<Rightarrow> exn + json list"
  and sanitize_items :: "(string \<times> pyval) list \<Rightarrow> exn + (string \<times> json) list" where
  "sanitize_value (PyStr s) = Inr (JStr (nfkc s))"
| "sanitize_value (PyDatetime t) = Inr (JStr (isoformat t))"
| "sanitize_value (PyUUID u) = Inr (JStr (py_lower (uuid_str u)))"
| "sanitize_value (PyFloat f) =
     (case f of
        FloatFinite s \<Rightarrow> Inr (JFloat s)
      | _ \<Rightarrow> Inl (Exn ConstitutionalViolationError
               (''NFR-AUDIT-06: Cannot serialize non-finite float value: '' @ float_repr f @
                ''. NaN and Infinity are not valid JSON for deterministic serialization.'')))"
| "sanitize_value (PyDict kvs) =
     (case sanitize_items kvs of Inl e \<Rightarrow> Inl e | Inr d \<Rightarrow> Inr (JObj d))"
| "sanitize_value (PyList vs) =
     (case sanitize_list vs of Inl e \<Rightarrow> Inl e | Inr js \<Rightarrow> Inr (JList js))"
| "sanitize_value (PyTuple vs) =
     (case sanitize_list vs of Inl e \<Rightarrow> Inl e | Inr js \<Rightarrow> Inr (JList js))"
| "sanitize_value (PyBytes bs) = Inr (JStr (bytes_hex bs))"
| "sanitize_value (PyInt i) = Inr (JInt i)"
| "sanitize_value (PyBool b) = Inr (JBool b)"
| "sanitize_value PyNone = Inr JNull"
| "sanitize_list [] = Inr []"
| "sanitize_list (v # vs) =
     (case sanitize_value v of Inl e \<Rightarrow> Inl e
      | Inr j \<Rightarrow> (case sanitize_list vs of Inl e \<Rightarrow> Inl e | Inr js \<Rightarrow> Inr (j # js)))"
| "sanitize_items [] = Inr []"
| "sanitize_items ((k, v) # kvs) =
     (case sanitize_value v of Inl e \<Rightarrow> Inl e
      | Inr j \<Rightarrow> (case sanitize_items kvs of Inl e \<Rightarrow> Inl e | Inr d \<Rightarrow> Inr ((nfkc k, j) # d)))"

section \<open>The JSON text\<close>

text \<open>\<open>json.dumps\<close> escapes the quote, the backslash and the control characters.\<close>

definition json_escape_char :: "char \<Rightarrow> string" where
  "json_escape_char c =
     (let n = (of_char c :: nat) in
      if n = 34 \<or> n = 92 then [CHR 0x5C, c]
      else if n = 8 then [CHR 0x5C, CHR ''b'']
      else if n = 12 then [CHR 0x5C, CHR ''f'']
      else if n = 10 then [CHR 0x5C, CHR ''n'']
      else if n = 13 then [CHR 0x5C, CHR ''r'']
      else if n = 9 then [CHR 0x5C, CHR ''t'']
      else if n < 32 then [CHR 0x5C, CHR ''u''] @ pad_digits 16 4 n
      else [c])"

fun json_escape :: "string \<Rightarrow> string" where
  "json_escape [] = [CHR 0x22]"
| "json_escape (c # s) = json_escape_char c @ json_escape s"

definition json_string :: "string \<Rightarrow> string" where
  "json_string s = CHR 0x22 # json_escape s"

text \<open>\<open>sort_keys=True\<close>, at every level.\<close>

fun json_sort :: "json \<Rightarrow> json"
  and json_sort_list :: "json list \<Rightarrow> json list"
  and json_sort_items :: "(string \<times> json) list \<Rightarrow> (string \<times> json) list" where
  "json_sort (JList js) = JList (json_sort_list js)"
| "json_sort (JObj kvs) = JObj (sort_key fst (json_sort_items kvs))"
| "json_sort JNull = JNull"
| "json_sort (JBool b) = JBool b"
| "json_sort (JInt i) = JInt i"
| "json_sort (JFloat s) = JFloat s"
| "json_sort (JStr s) = JStr s"
| "json_sort_list [] = []"
| "json_sort_list (j # js) = json_sort j # json_sort_list js"
| "json_sort_items [] = []"
| "json_sort_items ((k, j) # kvs) = (k, json_sort j) # json_sort_items kvs"

fun json_text :: "json \<Rightarrow> string"
  and json_list_tail :: "json list \<Rightarrow> string"
  and json_obj_tail :: "(string \<times> json) list \<Rightarrow> string" where
  "json_text JNull = ''null''"
| "json_text (JBool b) = (if b then ''true'' else ''false'')"
| "json_text (JInt i) = show_int i"
| "json_text (JFloat s) = s"
| "json_text (JStr s) = json_string s"
| "json_text (JList []) = ''[]''"
| "json_text (JList (j # js)) = ''['' @ json_text j @ json_list_tail js"
| "json_text (JObj []) = ''{}''"
| "json_text (JObj ((k, j) # kvs)) = ''{'' @ json_string k @ '':'' @ json_text j @ json_obj_tail kvs"
| "json_list_tail [] = '']''"
| "json_list_tail (j # js) = '','' @ json_text j @ json_list_tail js"
| "json_obj_tail [] = ''}''"
| "json_obj_tail ((k, j) # kvs) = '','' @ json_string k @ '':'' @ json_text j @ json_obj_tail kvs"

text \<open>
  The argument is the dictionary. \<open>_sanitize_value\<close> raises a \<open>ConstitutionalViolationError\<close>, which the
  \<open>except (TypeError, ValueError)\<close> lets through; the encoder itself never fails on a sanitised value.
\<close>

definition canonical_json :: "(string \<times> pyval) list \<Rightarrow> exn + string" where
  "canonical_json data =
     (case sanitize_value (PyDict data) of
        Inl e \<Rightarrow> Inl e
      | Inr sanitized \<Rightarrow> Inr (json_text (json_sort sanitized)))"

definition canonical_json_bytes :: "(string \<times> pyval) list \<Rightarrow> exn + bytes" where
  "canonical_json_bytes data =
     (case canonical_json data of Inl e \<Rightarrow> Inl e | Inr s \<Rightarrow> Inr (str_encode s))"

lemma canonical_json_example:
  "canonical_json [(''z'', PyDict [(''y'', PyInt 1), (''x'', PyInt 2)]), (''b'', PyBool True)]
   = Inr (concat [''{'', json_string ''b'', '':true,'', json_string ''z'', '':{'',
                  json_string ''x'', '':2,'', json_string ''y'', '':1}}''])"
  by code_simp

section \<open>The text determines the value\<close>

definition is_numchar :: "char \<Rightarrow> bool" where
  "is_numchar c \<longleftrightarrow> is_digit c \<or> c \<in> {CHR ''-'', CHR ''+'', CHR ''.'', CHR ''e''}"

text \<open>What \<open>repr\<close> gives for a finite float: digits, signs, and a point or an exponent.\<close>

definition float_text :: "string \<Rightarrow> bool" where
  "float_text s \<longleftrightarrow> list_all is_numchar s \<and> (CHR ''.'' \<in> set s \<or> CHR ''e'' \<in> set s)"

fun json_wf :: "json \<Rightarrow> bool"
  and json_wf_list :: "json list \<Rightarrow> bool"
  and json_wf_items :: "(string \<times> json) list \<Rightarrow> bool" where
  "json_wf (JFloat s) = float_text s"
| "json_wf (JList js) = json_wf_list js"
| "json_wf (JObj kvs) = json_wf_items kvs"
| "json_wf JNull = True"
| "json_wf (JBool b) = True"
| "json_wf (JInt i) = True"
| "json_wf (JStr s) = True"
| "json_wf_list [] = True"
| "json_wf_list (j # js) = (json_wf j \<and> json_wf_list js)"
| "json_wf_items [] = True"
| "json_wf_items ((k, j) # kvs) = (json_wf j \<and> json_wf_items kvs)"

subsection \<open>Strings\<close>

lemma json_escape_char_append:
  assumes "json_escape_char c @ x = json_escape_char d @ y"
  shows "c = d \<and> x = y"
proof -
  let ?m = "of_char c :: nat" and ?n = "of_char d :: nat"
  have pad: "?m < 32 \<Longrightarrow> ?n < 32 \<Longrightarrow> pad_digits 16 4 ?m = pad_digits 16 4 ?n \<Longrightarrow> ?m = ?n"
    by (rule pad_digits_inj [of 16 ?m 4 ?n]) simp_all
  have eqc: "c = d \<longleftrightarrow> ?m = ?n" by simp
  have ch: "c = CHR ''b'' \<Longrightarrow> ?m = 98" "c = CHR ''f'' \<Longrightarrow> ?m = 102" "c = CHR ''n'' \<Longrightarrow> ?m = 110"
    "c = CHR ''r'' \<Longrightarrow> ?m = 114" "c = CHR ''t'' \<Longrightarrow> ?m = 116" "c = CHR ''u'' \<Longrightarrow> ?m = 117"
    "c = CHR 0x5C \<Longrightarrow> ?m = 92"
    "d = CHR ''b'' \<Longrightarrow> ?n = 98" "d = CHR ''f'' \<Longrightarrow> ?n = 102" "d = CHR ''n'' \<Longrightarrow> ?n = 110"
    "d = CHR ''r'' \<Longrightarrow> ?n = 114" "d = CHR ''t'' \<Longrightarrow> ?n = 116" "d = CHR ''u'' \<Longrightarrow> ?n = 117"
    "d = CHR 0x5C \<Longrightarrow> ?n = 92" by simp_all
  show ?thesis using assms ch
    unfolding eqc json_escape_char_def Let_def
    by (simp only: split: if_splits) (auto dest: pad)
qed

lemma json_escape_char_head: "json_escape_char c @ x \<noteq> CHR 0x22 # y"
  by (auto simp: json_escape_char_def Let_def)

lemma json_escape_append: "json_escape s @ r = json_escape t @ r' \<Longrightarrow> s = t \<and> r = r'"
proof (induction s arbitrary: t)
  case Nil
  then show ?case by (cases t) (use json_escape_char_head in \<open>auto dest: sym\<close>)
next
  case (Cons c s)
  then obtain d t' where t: "t = d # t'" by (cases t) (use json_escape_char_head in auto)
  with Cons.prems have "c = d" and "json_escape s @ r = json_escape t' @ r'"
    using json_escape_char_append [of c "json_escape s @ r" d "json_escape t' @ r'"] by simp_all
  with Cons.IH t show ?case by simp
qed

lemma json_string_append: "json_string s @ r = json_string t @ r' \<Longrightarrow> s = t \<and> r = r'"
  by (auto simp: json_string_def dest: json_escape_append)

subsection \<open>Numbers\<close>

definition stops :: "string \<Rightarrow> bool" where
  "stops r \<longleftrightarrow> (r = [] \<or> \<not> is_numchar (hd r))"

lemma stops_Cons [simp]: "stops (c # r) \<longleftrightarrow> \<not> is_numchar c"
  by (simp add: stops_def)

lemma number_append:
  assumes "list_all is_numchar a" "list_all is_numchar b" "stops r" "stops r'" "a @ r = b @ r'"
  shows "a = b \<and> r = r'"
proof -
  have "takeWhile is_numchar (a @ r) = a" if "list_all is_numchar a" "stops r" for a r
    using that by (cases r) (auto simp: list_all_iff takeWhile_append)
  then have "a = b" using assms by metis
  with assms(5) show ?thesis by simp
qed

lemma numchar_show_int: "list_all is_numchar (show_int i)"
  by (auto simp: show_int_def list_all_iff is_numchar_def dest: show_nat_digits)

lemma show_int_no_point: "float_text s \<Longrightarrow> show_int i \<noteq> s"
proof
  assume s: "float_text s" and eq: "show_int i = s"
  have "c = CHR ''-'' \<or> is_digit c" if "c \<in> set (show_int i)" for c
    using that by (auto simp: show_int_def dest: show_nat_digits split: if_splits)
  from this [of "CHR ''.''"] this [of "CHR ''e''"] s eq show False
    by (auto simp: float_text_def is_digit_def)
qed

lemma float_text_D: "float_text s \<Longrightarrow> list_all is_numchar s \<and> s \<noteq> []"
  by (auto simp: float_text_def)

lemma number_head: "list_all is_numchar a \<Longrightarrow> a \<noteq> [] \<Longrightarrow> a @ r = c # x \<Longrightarrow> is_numchar c"
  by (cases a) auto

lemmas numchar_eval = is_numchar_def is_digit_def

subsection \<open>Values\<close>

lemma json_text_head:
  assumes "json_wf j" and "json_text j @ r = c # x"
  shows "c \<notin> {CHR '']'', CHR ''}'', CHR '','', CHR '':''}"
proof (cases j)
  case (JInt i)
  with assms have "is_numchar c"
    using number_head [OF numchar_show_int show_int_nonempty] by simp
  then show ?thesis by (auto simp: numchar_eval)
next
  case (JFloat s)
  with assms have "is_numchar c"
    using number_head float_text_D [of s] by auto
  then show ?thesis by (auto simp: numchar_eval)
next
  case (JList js)
  with assms show ?thesis by (cases js) auto
next
  case (JObj kvs)
  with assms show ?thesis by (cases kvs) auto
qed (use assms in \<open>auto simp: json_string_def split: if_splits\<close>)

text \<open>Each value's text starts with a character that tells its kind.\<close>

fun json_kind :: "json \<Rightarrow> char \<Rightarrow> bool" where
  "json_kind JNull c = (c = CHR ''n'')"
| "json_kind (JBool b) c = (c = (if b then CHR ''t'' else CHR ''f''))"
| "json_kind (JInt i) c = is_numchar c"
| "json_kind (JFloat s) c = is_numchar c"
| "json_kind (JStr s) c = (c = CHR 0x22)"
| "json_kind (JList js) c = (c = CHR ''['')"
| "json_kind (JObj kvs) c = (c = CHR ''{'')"

lemma json_text_kind: "json_wf j \<Longrightarrow> \<exists>c x. json_text j = c # x \<and> json_kind j c"
proof (cases j)
  case (JInt i)
  have "show_int i = hd (show_int i) # tl (show_int i)" by (simp add: show_int_nonempty)
  then show ?thesis using JInt numchar_show_int [of i]
    by (metis json_kind.simps(3) json_text.simps(3) list.pred_inject(2))
next
  case (JFloat s)
  moreover assume "json_wf j"
  ultimately show ?thesis using float_text_D [of s] by (cases s) auto
next
  case (JList js)
  then show ?thesis by (cases js) auto
next
  case (JObj kvs)
  then show ?thesis by (cases kvs) auto
qed (auto simp: json_string_def)

lemma json_same_kind:
  assumes "json_wf v" "json_wf w" "json_text v @ r = json_text w @ r'"
  shows "\<exists>c. json_kind v c \<and> json_kind w c"
  using json_text_kind [OF assms(1)] json_text_kind [OF assms(2)] assms(3) by auto

lemma json_kind_cases:
  assumes "json_kind v c" "json_kind w c"
  obtains "v = JNull" "w = JNull" | b where "v = JBool b" "w = JBool b"
    | i k where "v = JInt i" "w = JInt k" | i s where "v = JInt i" "w = JFloat s"
    | s k where "v = JFloat s" "w = JInt k" | s t where "v = JFloat s" "w = JFloat t"
    | s t where "v = JStr s" "w = JStr t" | js ks where "v = JList js" "w = JList ks"
    | xs ys where "v = JObj xs" "w = JObj ys"
  using assms by (cases v; cases w) (auto simp: numchar_eval split: if_splits)

lemma int_append: "show_int i @ r = show_int k @ r' \<Longrightarrow> stops r \<Longrightarrow> stops r' \<Longrightarrow> i = k \<and> r = r'"
  using number_append [OF numchar_show_int numchar_show_int] show_int_inj by blast

lemma int_float_append:
  "show_int i @ r = s @ r' \<Longrightarrow> float_text s \<Longrightarrow> stops r \<Longrightarrow> stops r' \<Longrightarrow> False"
  using number_append [OF numchar_show_int] float_text_D show_int_no_point by blast

lemma float_append:
  "s @ r = t @ r' \<Longrightarrow> float_text s \<Longrightarrow> float_text t \<Longrightarrow> stops r \<Longrightarrow> stops r' \<Longrightarrow> s = t \<and> r = r'"
  using number_append float_text_D by blast

lemma stops_list_tail: "stops (json_list_tail js @ r)"
  by (cases js) (auto simp: numchar_eval)

lemma stops_obj_tail: "stops (json_obj_tail xs @ r)"
  by (cases xs rule: json_obj_tail.cases) (auto simp: numchar_eval)

lemma json_text_append:
  "json_wf v \<Longrightarrow> json_wf w \<Longrightarrow> stops r \<Longrightarrow> stops r' \<Longrightarrow> json_text v @ r = json_text w @ r'
    \<Longrightarrow> v = w \<and> r = r'"
  and json_list_tail_append:
  "json_wf_list js \<Longrightarrow> json_wf_list ks \<Longrightarrow> json_list_tail js @ r = json_list_tail ks @ r'
    \<Longrightarrow> js = ks \<and> r = r'"
  and json_obj_tail_append:
  "json_wf_items xs \<Longrightarrow> json_wf_items ys \<Longrightarrow> json_obj_tail xs @ r = json_obj_tail ys @ r'
    \<Longrightarrow> xs = ys \<and> r = r'"
proof (induction v and js and xs arbitrary: w r r' and ks r r' and ys r r'
    rule: json_text_json_list_tail_json_obj_tail.induct)
  case 1
  then obtain c where "json_kind JNull c" "json_kind w c" using json_same_kind by blast
  then show ?case using 1 by (cases rule: json_kind_cases) simp_all
next
  case (2 b)
  then obtain c where "json_kind (JBool b) c" "json_kind w c" using json_same_kind by blast
  then show ?case using 2 by (cases rule: json_kind_cases) simp_all
next
  case (3 i)
  then obtain c where "json_kind (JInt i) c" "json_kind w c" using json_same_kind by blast
  then show ?case using 3 by (cases rule: json_kind_cases)
      (auto dest: int_append int_float_append int_float_append [OF sym] float_append)
next
  case (4 s)
  then obtain c where "json_kind (JFloat s) c" "json_kind w c" using json_same_kind by blast
  then show ?case using 4 by (cases rule: json_kind_cases)
      (auto dest: int_append int_float_append int_float_append [OF sym] float_append)
next
  case (5 s)
  then obtain c where "json_kind (JStr s) c" "json_kind w c" using json_same_kind by blast
  then show ?case using 5 by (cases rule: json_kind_cases) (auto dest: json_string_append)
next
  case 6
  then obtain c where "json_kind (JList []) c" "json_kind w c" using json_same_kind by blast
  then obtain ks where w: "w = JList ks" by (cases rule: json_kind_cases) auto
  then have "ks = []" using 6
  proof (cases ks)
    case (Cons k ks')
    with 6 w have "json_wf k" and "json_text k @ json_list_tail ks' @ r' = CHR '']'' # r"
      by simp_all
    then show ?thesis using json_text_head by blast
  qed simp
  with 6 w show ?case by simp
next
  case (7 j js)
  from json_same_kind [OF "7.prems"(1,2,5)]
  obtain c where "json_kind (JList (j # js)) c" "json_kind w c" by blast
  then obtain ks where w: "w = JList ks" by (cases rule: json_kind_cases) auto
  have "ks \<noteq> []"
  proof
    assume "ks = []"
    with 7 w have "json_wf j" and "json_text j @ json_list_tail js @ r = CHR '']'' # r'"
      by simp_all
    then show False using json_text_head by blast
  qed
  then obtain k ks' where ks: "ks = k # ks'" by (cases ks) auto
  have wf: "json_wf j" "json_wf_list js" "json_wf k" "json_wf_list ks'"
    and eq: "json_text j @ (json_list_tail js @ r) = json_text k @ (json_list_tail ks' @ r')"
    using "7.prems" w ks by simp_all
  have hd: "j = k \<and> json_list_tail js @ r = json_list_tail ks' @ r'"
    by (rule "7.IH"(1) [OF wf(1) wf(3) stops_list_tail stops_list_tail eq])
  then have "js = ks' \<and> r = r'" using "7.IH"(2) [OF wf(2) wf(4)] by blast
  with hd show ?case using w ks by simp
next
  case 8
  then obtain c where "json_kind (JObj []) c" "json_kind w c" using json_same_kind by blast
  then obtain ys where w: "w = JObj ys" by (cases rule: json_kind_cases) auto
  then show ?case using 8 by (cases ys) (auto simp: json_string_def)
next
  case (9 k j xs)
  from json_same_kind [OF "9.prems"(1,2,5)]
  obtain c where "json_kind (JObj ((k, j) # xs)) c" "json_kind w c" by blast
  then obtain ys where w: "w = JObj ys" by (cases rule: json_kind_cases) auto
  with "9.prems"(5) obtain k' j' ys' where ys: "ys = (k', j') # ys'"
    by (cases ys) (auto simp: json_string_def)
  have "k = k' \<and> json_text j @ json_obj_tail xs @ r = json_text j' @ json_obj_tail ys' @ r'"
    using "9.prems" w ys by (auto dest: json_string_append)
  then have wf: "json_wf j" "json_wf_items xs" "json_wf j'" "json_wf_items ys'" and k: "k = k'"
    and eq: "json_text j @ (json_obj_tail xs @ r) = json_text j' @ (json_obj_tail ys' @ r')"
    using "9.prems" w ys by simp_all
  have hd: "j = j' \<and> json_obj_tail xs @ r = json_obj_tail ys' @ r'"
    by (rule "9.IH"(1) [OF wf(1) wf(3) stops_obj_tail stops_obj_tail eq])
  then have "xs = ys' \<and> r = r'" using "9.IH"(2) [OF wf(2) wf(4)] by blast
  with hd show ?case using w ys k by simp
next
  case 10
  then show ?case by (cases ks) auto
next
  case (11 j js)
  from "11.prems"(3) obtain k ks' where ks: "ks = k # ks'" by (cases ks) auto
  have wf: "json_wf j" "json_wf_list js" "json_wf k" "json_wf_list ks'"
    and eq: "json_text j @ (json_list_tail js @ r) = json_text k @ (json_list_tail ks' @ r')"
    using "11.prems"  ks by simp_all
  have hd: "j = k \<and> json_list_tail js @ r = json_list_tail ks' @ r'"
    by (rule "11.IH"(1) [OF wf(1) wf(3) stops_list_tail stops_list_tail eq])
  then have "js = ks' \<and> r = r'" using "11.IH"(2) [OF wf(2) wf(4)] by blast
  with hd show ?case using  ks by simp
next
  case 12
  then show ?case by (cases ys rule: json_obj_tail.cases) auto
next
  case (13 k j xs)
  from "13.prems"(3) obtain k' j' ys' where ys: "ys = (k', j') # ys'"
    by (cases ys) auto
  have "k = k' \<and> json_text j @ json_obj_tail xs @ r = json_text j' @ json_obj_tail ys' @ r'"
    using "13.prems"  ys by (auto dest: json_string_append)
  then have wf: "json_wf j" "json_wf_items xs" "json_wf j'" "json_wf_items ys'" and k: "k = k'"
    and eq: "json_text j @ (json_obj_tail xs @ r) = json_text j' @ (json_obj_tail ys' @ r')"
    using "13.prems"  ys by simp_all
  have hd: "j = j' \<and> json_obj_tail xs @ r = json_obj_tail ys' @ r'"
    by (rule "13.IH"(1) [OF wf(1) wf(3) stops_obj_tail stops_obj_tail eq])
  then have "xs = ys' \<and> r = r'" using "13.IH"(2) [OF wf(2) wf(4)] by blast
  with hd show ?case using  ys k by simp
qed

section \<open>Canonical JSON of dictionaries\<close>

text \<open>Python's own guarantee about \<open>repr\<close> of the finite floats in a value.\<close>

fun py_floats_ok :: "pyval \<Rightarrow> bool"
  and py_floats_ok_list :: "pyval list \<Rightarrow> bool"
  and py_floats_ok_items :: "(string \<times> pyval) list \<Rightarrow> bool" where
  "py_floats_ok (PyFloat f) = (case f of FloatFinite s \<Rightarrow> float_text s | _ \<Rightarrow> True)"
| "py_floats_ok (PyList vs) = py_floats_ok_list vs"
| "py_floats_ok (PyTuple vs) = py_floats_ok_list vs"
| "py_floats_ok (PyDict kvs) = py_floats_ok_items kvs"
| "py_floats_ok PyNone = True"
| "py_floats_ok (PyBool b) = True"
| "py_floats_ok (PyInt i) = True"
| "py_floats_ok (PyStr s) = True"
| "py_floats_ok (PyDatetime t) = True"
| "py_floats_ok (PyUUID u) = True"
| "py_floats_ok (PyBytes bs) = True"
| "py_floats_ok_list [] = True"
| "py_floats_ok_list (v # vs) = (py_floats_ok v \<and> py_floats_ok_list vs)"
| "py_floats_ok_items [] = True"
| "py_floats_ok_items ((k, v) # kvs) = (py_floats_ok v \<and> py_floats_ok_items kvs)"

lemma sanitize_wf:
  "py_floats_ok v \<Longrightarrow> sanitize_value v = Inr j \<Longrightarrow> json_wf j"
  "py_floats_ok_list vs \<Longrightarrow> sanitize_list vs = Inr js \<Longrightarrow> json_wf_list js"
  "py_floats_ok_items kvs \<Longrightarrow> sanitize_items kvs = Inr d \<Longrightarrow> json_wf_items d"
  by (induction v and vs and kvs arbitrary: j and js and d
      rule: sanitize_value_sanitize_list_sanitize_items.induct)
    (auto split: sum.splits pyfloat.splits)

lemma json_wf_items_iff: "json_wf_items xs \<longleftrightarrow> (\<forall>p\<in>set xs. json_wf (snd p))"
  by (induction xs) auto

lemma json_sort_wf:
  "json_wf j \<Longrightarrow> json_wf (json_sort j)"
  "json_wf_list js \<Longrightarrow> json_wf_list (json_sort_list js)"
  "json_wf_items xs \<Longrightarrow> json_wf_items (json_sort_items xs)"
  by (induction j and js and xs rule: json_sort_json_sort_list_json_sort_items.induct)
    (auto simp: json_wf_items_iff)

text \<open>What a dictionary's canonical text stands for: its sanitised value with every key sorted.\<close>

definition canonical_value :: "(string \<times> pyval) list \<Rightarrow> exn + json" where
  "canonical_value d = (case sanitize_value (PyDict d) of Inl e \<Rightarrow> Inl e | Inr j \<Rightarrow> Inr (json_sort j))"

lemma canonical_json_value:
  "canonical_json d = Inr s \<longleftrightarrow> (\<exists>j. canonical_value d = Inr j \<and> s = json_text j)"
  by (auto simp: canonical_json_def canonical_value_def split: sum.splits)

lemma canonical_value_obj:
  assumes "canonical_value d = Inr j" and "py_floats_ok_items d"
  shows "json_wf j \<and> (\<exists>xs. j = JObj xs)"
proof -
  from assms(1) obtain xs where "sanitize_items d = Inr xs" and j: "j = json_sort (JObj xs)"
    by (auto simp: canonical_value_def split: sum.splits)
  then have "json_wf (JObj xs)" using sanitize_wf(3) assms(2) by simp
  then have "json_wf j" unfolding j by (rule json_sort_wf(1))
  then show ?thesis using j by auto
qed

lemma json_obj_stops: "stops (json_text (JObj xs) @ r)"
  by (cases xs rule: json_obj_tail.cases) (auto simp: numchar_eval)

text \<open>Two canonical texts written one after the other can be told apart again.\<close>

lemma canonical_json_concat:
  assumes "canonical_json m = Inr a" "canonical_json p = Inr b"
    and "canonical_json m' = Inr a'" "canonical_json p' = Inr b'"
    and ok: "py_floats_ok_items m" "py_floats_ok_items p" "py_floats_ok_items m'" "py_floats_ok_items p'"
    and eq: "a @ b = a' @ b'"
  shows "canonical_value m = canonical_value m' \<and> canonical_value p = canonical_value p'"
proof -
  obtain v w v' w' where
    v: "canonical_value m = Inr v" "a = json_text v" and w: "canonical_value p = Inr w" "b = json_text w" and
    v': "canonical_value m' = Inr v'" "a' = json_text v'" and
    w': "canonical_value p' = Inr w'" "b' = json_text w'"
    using assms(1-4) by (auto simp: canonical_json_value)
  note wf = canonical_value_obj [OF v(1) ok(1)] canonical_value_obj [OF w(1) ok(2)]
    canonical_value_obj [OF v'(1) ok(3)] canonical_value_obj [OF w'(1) ok(4)]
  have st: "stops b" "stops b'"
    using wf w w' json_obj_stops [of _ "[]"] by auto
  have "v = v' \<and> b = b'"
    using json_text_append [of v v' b b'] wf st eq v v' by auto
  moreover from this have "w = w'"
    using json_text_append [of w w' "[]" "[]"] wf w w' by (auto simp: stops_def)
  ultimately show ?thesis using v v' w w' by simp
qed

text \<open>Key order does not matter: items with distinct keys, in any order, give the same text.\<close>

lemma sanitize_items_iff:
  "sanitize_items kvs = Inr d \<longleftrightarrow>
     (\<forall>p\<in>set kvs. \<not> isl (sanitize_value (snd p))) \<and>
     d = map (\<lambda>p. (fst p, projr (sanitize_value (snd p)))) kvs"
proof (induction kvs arbitrary: d)
  case (Cons p kvs)
  show ?case
  proof (cases "sanitize_items kvs")
    case (Inl e)
    with Cons.IH [of "map (\<lambda>p. (fst p, projr (sanitize_value (snd p)))) kvs"] show ?thesis
      by (cases p) (auto split: sum.splits)
  next
    case (Inr d')
    with Cons.IH [of d'] show ?thesis
      by (cases p) (auto simp: nfkc_def split: sum.splits)
  qed
qed auto

lemma json_sort_items_map: "json_sort_items xs = map (\<lambda>p. (fst p, json_sort (snd p))) xs"
  by (induction xs) auto

lemma sort_items_cong:
  assumes "mset xs = mset ys" and "distinct (map fst xs)"
  shows "sort_key fst xs = sort_key fst (ys :: (string \<times> 'a) list)"
proof (rule sort_key_inj_key_eq)
  show "mset xs = mset (sort_key fst ys)" using assms(1) by simp
  show "inj_on fst (set xs)" using assms(2) by (simp add: distinct_map)
qed simp

lemma canonical_json_perm:
  assumes "mset d = mset d'" and "distinct (map fst d)" and "canonical_json d = Inr s"
  shows "canonical_json d' = Inr s"
proof -
  let ?f = "\<lambda>p. (fst p, json_sort (projr (sanitize_value (snd p))))"
  have eq: "canonical_json kvs = Inr (json_text (JObj (sort_key fst (map ?f kvs))))"
    if "\<forall>p\<in>set kvs. \<not> isl (sanitize_value (snd p))" for kvs
  proof -
    have "sanitize_items kvs = Inr (map (\<lambda>p. (fst p, projr (sanitize_value (snd p)))) kvs)"
      using that by (simp add: sanitize_items_iff)
    then show ?thesis by (simp add: canonical_json_def json_sort_items_map o_def)
  qed
  have ok: "\<forall>p\<in>set d. \<not> isl (sanitize_value (snd p))"
    using assms(3) by (auto simp: canonical_json_def sanitize_items_iff split: sum.splits)
  have ok': "\<forall>p\<in>set d'. \<not> isl (sanitize_value (snd p))"
    using ok assms(1) by (metis set_mset_mset)
  have "sort_key fst (map ?f d) = sort_key fst (map ?f d')"
    by (rule sort_items_cong) (use assms in \<open>simp_all add: o_def\<close>)
  then show ?thesis using eq [OF ok] eq [OF ok'] assms(3) by simp
qed

end
