(* ===== verification/Event_Types.thy ===== *)
theory Event_Types
  imports Py_Text
begin

text \<open>
  Event type and schema version formats (\<open>src/domain/governance/events/event_types.py\<close> and
  \<open>schema_versions.py\<close>): the two regular expressions as matchers over strings, the vocabulary of
  known types, validation, and the branch of an event type.
\<close>

section \<open>The regular expressions\<close>

text \<open>
  Both patterns are three runs of a character class separated by dots, anchored by \<open>^\<close> and \<open>$\<close>.
  No class contains the dot, so a greedy run never has to give characters back; Python's \<open>$\<close> also
  matches before a final newline.
\<close>

definition run_of :: "(char \<Rightarrow> bool) \<Rightarrow> string \<Rightarrow> string option" where
  "run_of p s = (case s of [] \<Rightarrow> None | c # _ \<Rightarrow> if p c then Some (dropWhile p s) else None)"

definition eat_dot :: "string \<Rightarrow> string option" where
  "eat_dot s = (case s of [] \<Rightarrow> None | c # r \<Rightarrow> if c = CHR ''.'' then Some r else None)"

definition at_dollar :: "string \<Rightarrow> bool" where
  "at_dollar r \<longleftrightarrow> r = [] \<or> r = [CHR 0x0A]"

definition matches_dotted :: "(char \<Rightarrow> bool) \<Rightarrow> (char \<Rightarrow> bool) \<Rightarrow> (char \<Rightarrow> bool) \<Rightarrow> string \<Rightarrow> bool" where
  "matches_dotted p q t s =
     (case run_of p s of None \<Rightarrow> False | Some s1 \<Rightarrow>
      case eat_dot s1 of None \<Rightarrow> False | Some s2 \<Rightarrow>
      case run_of q s2 of None \<Rightarrow> False | Some s3 \<Rightarrow>
      case eat_dot s3 of None \<Rightarrow> False | Some s4 \<Rightarrow>
      case run_of t s4 of None \<Rightarrow> False | Some s5 \<Rightarrow> at_dollar s5)"

definition is_lower_alpha :: "char \<Rightarrow> bool" where
  "is_lower_alpha c \<longleftrightarrow> 97 \<le> (of_char c :: nat) \<and> (of_char c :: nat) \<le> 122"

definition event_type_pattern :: "string \<Rightarrow> bool" where
  "event_type_pattern = matches_dotted is_lower_alpha is_lower_alpha
     (\<lambda>c. is_lower_alpha c \<or> c = CHR ''_'')"

definition semver_pattern :: "string \<Rightarrow> bool" where
  "semver_pattern = matches_dotted is_digit is_digit is_digit"

lemma run_of_append:
  assumes "a \<noteq> []" "\<forall>c\<in>set a. p c" "r = [] \<or> \<not> p (hd r)"
  shows "run_of p (a @ r) = Some r"
proof -
  obtain c a' where "a = c # a'" using assms(1) by (cases a) auto
  with assms show ?thesis by (cases r) (auto simp: run_of_def dropWhile_append)
qed

lemma run_of_Some:
  "run_of p s = Some r \<Longrightarrow> \<exists>a. a \<noteq> [] \<and> (\<forall>c\<in>set a. p c) \<and> s = a @ r"
  by (intro exI [of _ "takeWhile p s"])
    (auto simp: run_of_def dest: set_takeWhileD split: list.splits if_splits)

lemma eat_dot_Some: "eat_dot s = Some r \<longleftrightarrow> s = CHR ''.'' # r"
  by (auto simp: eat_dot_def split: list.splits if_splits)

lemma matches_dottedD:
  assumes "matches_dotted p q t s"
  obtains a b c r where "a \<noteq> []" "\<forall>x\<in>set a. p x" "b \<noteq> []" "\<forall>x\<in>set b. q x"
    "c \<noteq> []" "\<forall>x\<in>set c. t x" "at_dollar r" "s = a @ ''.'' @ b @ ''.'' @ c @ r"
  using assms by (fastforce simp: matches_dotted_def eat_dot_Some split: option.splits dest!: run_of_Some)

section \<open>Event types\<close>

text \<open>The values of the enum \<open>GovernanceEventType\<close>, in its order.\<close>

definition governance_event_types :: "string list" where
  "governance_event_types = [
    ''executive.task.activated'', ''executive.task.accepted'', ''executive.task.declined'',
    ''executive.task.completed'', ''executive.task.expired'', ''executive.task.reminder_sent'',
    ''judicial.panel.convened'', ''judicial.finding.issued'', ''judicial.finding.preserved'',
    ''witness.observation.recorded'', ''witness.statement.routed'', ''witness.violation.recorded'',
    ''filter.message.blocked'', ''filter.message.passed'', ''filter.pattern.detected'',
    ''consent.task.requested'', ''consent.task.granted'', ''consent.task.refused'',
    ''consent.task.withdrawn'',
    ''legitimacy.band.decayed'', ''legitimacy.band.restored'', ''legitimacy.band.assessed'',
    ''exit.request.submitted'', ''exit.obligation.released'', ''exit.contribution.preserved'',
    ''safety.halt.triggered'', ''safety.halt.cleared'',
    ''system.cessation.triggered'', ''system.reconstitution.validated'',
    ''ledger.integrity.hash_break_detected'', ''ledger.integrity.gap_detected'',
    ''ledger.integrity.verification_passed'', ''ledger.integrity.orphaned_intent_detected'',
    ''executive.intent.emitted'', ''judicial.intent.emitted'', ''witness.intent.emitted'',
    ''filter.intent.emitted'', ''consent.intent.emitted'', ''legitimacy.intent.emitted'',
    ''exit.intent.emitted'', ''safety.intent.emitted'', ''system.intent.emitted'',
    ''executive.commit.confirmed'', ''judicial.commit.confirmed'', ''witness.commit.confirmed'',
    ''filter.commit.confirmed'', ''consent.commit.confirmed'', ''legitimacy.commit.confirmed'',
    ''exit.commit.confirmed'', ''safety.commit.confirmed'', ''system.commit.confirmed'',
    ''executive.failure.recorded'', ''judicial.failure.recorded'', ''witness.failure.recorded'',
    ''filter.failure.recorded'', ''consent.failure.recorded'', ''legitimacy.failure.recorded'',
    ''exit.failure.recorded'', ''safety.failure.recorded'', ''system.failure.recorded'']"

definition validate_event_type :: "string \<Rightarrow> bool \<Rightarrow> exn + unit" where
  "validate_event_type event_type strict =
     (if event_type = [] then
        Inl (Exn ConstitutionalViolationError ''AD-5: Event type must be non-empty string'')
      else if \<not> event_type_pattern event_type then
        Inl (Exn ConstitutionalViolationError
          (''AD-5: Event type must match branch.noun.verb pattern '' @
           ''(lowercase, underscore allowed in verb), got '' @ [CHR 0x27] @ event_type @ [CHR 0x27]))
      else if strict \<and> event_type \<notin> set governance_event_types then
        Inl (Exn ConstitutionalViolationError
          (''AD-5: Unknown event type '' @ [CHR 0x27] @ event_type @ [CHR 0x27] @ ''. '' @
           ''Use strict=False to allow custom event types.''))
      else Inr ())"

text \<open>\<open>event_type.split(".")[0]\<close>.\<close>

definition first_segment :: "string \<Rightarrow> string" where
  "first_segment s = takeWhile (\<lambda>c. c \<noteq> CHR ''.'') s"

definition derive_branch :: "string \<Rightarrow> exn + string" where
  "derive_branch event_type =
     (case validate_event_type event_type False of
        Inl e \<Rightarrow> Inl e
      | Inr _ \<Rightarrow> Inr (first_segment event_type))"

section \<open>Schema versions\<close>

definition current_schema_version :: string where
  "current_schema_version = ''1.0.0''"

definition validate_schema_version :: "string \<Rightarrow> exn + unit" where
  "validate_schema_version version =
     (if \<not> semver_pattern version then
        Inl (Exn ConstitutionalViolationError
          (''AD-17: Schema version must be semver format (X.Y.Z), got '' @ [CHR 0x27] @ version @ [CHR 0x27]))
      else Inr ())"

section \<open>Lemmas\<close>

lemma current_schema_version_ok [simp]: "validate_schema_version current_schema_version = Inr ()"
  by code_simp

lemma first_segment_dotted: "CHR ''.'' \<notin> set a \<Longrightarrow> first_segment (a @ CHR ''.'' # s) = a"
  by (simp add: first_segment_def takeWhile_append)

lemma lower_alpha_no_dot: "\<forall>c\<in>set a. is_lower_alpha c \<Longrightarrow> CHR ''.'' \<notin> set a"
  by (auto simp: is_lower_alpha_def)

text \<open>A valid type's branch is a non-empty run of lower-case letters and a prefix of the type.\<close>

lemma derive_branch_Inr:
  assumes "derive_branch t = Inr b"
  shows "b \<noteq> [] \<and> (\<forall>c\<in>set b. is_lower_alpha c) \<and> (\<exists>rest. t = b @ ''.'' @ rest)"
proof -
  have "event_type_pattern t" and b: "b = first_segment t"
    using assms by (auto simp: derive_branch_def validate_event_type_def split: if_splits)
  then obtain a s where "a \<noteq> []" "\<forall>x\<in>set a. is_lower_alpha x" "t = a @ ''.'' @ s"
    unfolding event_type_pattern_def by (auto elim!: matches_dottedD)
  moreover from this have "b = a"
    using b first_segment_dotted lower_alpha_no_dot by simp
  ultimately show ?thesis by auto
qed

text \<open>The anchors of the pattern let one trailing newline through.\<close>

lemma event_type_trailing_newline:
  "validate_event_type (''executive.task.accepted'' @ [CHR 0x0A]) False = Inr ()"
  by code_simp

end
