(* ===== verification/Event_Envelope.thy ===== *)
theory Event_Envelope
  imports Canonical_Json Event_Types
begin

text \<open>
  The event envelope (\<open>src/domain/governance/events/event_envelope.py\<close>): metadata and payload, the
  validation of \<open>__post_init__\<close>, and the factory \<open>GovernanceEvent.create\<close>. Type checks by \<open>isinstance\<close>
  hold by typing.
\<close>

record event_metadata =
  em_event_id :: uuid
  em_event_type :: string
  em_timestamp :: datetime
  em_actor_id :: string
  em_schema_version :: string
  em_trace_id :: string
  em_prev_hash :: string
  em_hash :: string

type_synonym payload = "(string \<times> pyval) list"

record governance_event =
  ge_metadata :: event_metadata
  ge_payload :: payload

text \<open>Construction of \<open>EventMetadata\<close>: the checks of \<open>__post_init__\<close>, in its order.\<close>

definition mk_event_metadata :: "event_metadata \<Rightarrow> exn + event_metadata" where
  "mk_event_metadata m =
     (case validate_event_type (em_event_type m) False of
        Inl e \<Rightarrow> Inl e
      | Inr _ \<Rightarrow>
          if blank (em_actor_id m) then
            Inl (Exn ConstitutionalViolationError
              ''AD-4: Event metadata validation failed - actor_id must be non-empty string'')
          else
            (case validate_schema_version (em_schema_version m) of
               Inl e \<Rightarrow> Inl e
             | Inr _ \<Rightarrow>
                 if blank (em_trace_id m) then
                   Inl (Exn ConstitutionalViolationError
                     ''AD-4: Event metadata validation failed - trace_id must be non-empty string'')
                 else Inr m))"

definition governance_event_create ::
  "uuid \<Rightarrow> string \<Rightarrow> datetime \<Rightarrow> string \<Rightarrow> string \<Rightarrow> payload \<Rightarrow> string \<Rightarrow> exn + governance_event" where
  "governance_event_create event_id event_type timestamp actor_id trace_id payload schema_version =
     (case mk_event_metadata
             \<lparr>em_event_id = event_id, em_event_type = event_type, em_timestamp = timestamp,
              em_actor_id = actor_id, em_schema_version = schema_version, em_trace_id = trace_id,
              em_prev_hash = [], em_hash = []\<rparr> of
        Inl e \<Rightarrow> Inl e
      | Inr m \<Rightarrow> Inr \<lparr>ge_metadata = m, ge_payload = payload\<rparr>)"

text \<open>The convenience accessors.\<close>

definition ge_event_id :: "governance_event \<Rightarrow> uuid" where
  "ge_event_id e = em_event_id (ge_metadata e)"

definition ge_event_type :: "governance_event \<Rightarrow> string" where
  "ge_event_type e = em_event_type (ge_metadata e)"

definition ge_actor_id :: "governance_event \<Rightarrow> string" where
  "ge_actor_id e = em_actor_id (ge_metadata e)"

definition ge_trace_id :: "governance_event \<Rightarrow> string" where
  "ge_trace_id e = em_trace_id (ge_metadata e)"

definition ge_prev_hash :: "governance_event \<Rightarrow> string" where
  "ge_prev_hash e = em_prev_hash (ge_metadata e)"

definition ge_hash :: "governance_event \<Rightarrow> string" where
  "ge_hash e = em_hash (ge_metadata e)"

definition ge_branch :: "governance_event \<Rightarrow> exn + string" where
  "ge_branch e = derive_branch (ge_event_type e)"

definition has_hash :: "governance_event \<Rightarrow> bool" where
  "has_hash e \<longleftrightarrow> ge_prev_hash e \<noteq> [] \<and> ge_hash e \<noteq> []"

lemmas ge_accessors = ge_event_id_def ge_event_type_def ge_actor_id_def ge_trace_id_def
  ge_prev_hash_def ge_hash_def

text \<open>What every constructed event satisfies.\<close>

definition metadata_ok :: "event_metadata \<Rightarrow> bool" where
  "metadata_ok m \<longleftrightarrow> mk_event_metadata m = Inr m"

lemma mk_event_metadata_Inr: "mk_event_metadata m = Inr m' \<Longrightarrow> m' = m \<and> metadata_ok m"
  by (auto simp: mk_event_metadata_def metadata_ok_def split: sum.splits if_splits)

lemma metadata_ok_iff:
  "metadata_ok m \<longleftrightarrow> validate_event_type (em_event_type m) False = Inr () \<and> \<not> blank (em_actor_id m)
     \<and> validate_schema_version (em_schema_version m) = Inr () \<and> \<not> blank (em_trace_id m)"
  by (auto simp: metadata_ok_def mk_event_metadata_def split: sum.splits)

lemma governance_event_create_Inr:
  assumes "governance_event_create i ty t a tr p v = Inr e"
  shows "e = \<lparr>ge_metadata = \<lparr>em_event_id = i, em_event_type = ty, em_timestamp = t, em_actor_id = a,
      em_schema_version = v, em_trace_id = tr, em_prev_hash = [], em_hash = []\<rparr>, ge_payload = p\<rparr>
    \<and> metadata_ok (ge_metadata e)"
  using assms by (auto simp: governance_event_create_def split: sum.splits dest!: mk_event_metadata_Inr)

lemma governance_event_create_iff:
  "isl (governance_event_create i ty t a tr p v) \<longleftrightarrow>
     \<not> (validate_event_type ty False = Inr () \<and> \<not> blank a \<and> validate_schema_version v = Inr ()
        \<and> \<not> blank tr)"
  by (auto simp: governance_event_create_def mk_event_metadata_def split: sum.splits)

lemma created_event_unhashed:
  "governance_event_create i ty t a tr p v = Inr e \<Longrightarrow> \<not> has_hash e"
  by (auto dest!: governance_event_create_Inr simp: has_hash_def ge_accessors)

text \<open>An event for the examples of the development.\<close>

definition example_event :: "uuid \<Rightarrow> governance_event" where
  "example_event i = \<lparr>ge_metadata = \<lparr>em_event_id = i, em_event_type = ''executive.task.accepted'',
     em_timestamp = 0, em_actor_id = ''cluster-1'', em_schema_version = ''1.0.0'', em_trace_id = ''t'',
     em_prev_hash = [], em_hash = []\<rparr>, ge_payload = [(''task_id'', PyStr ''7'')]\<rparr>"

end
