(* ===== verification/Hash_Algorithms.thy ===== *)
theory Hash_Algorithms
  imports Py_Text
begin

text \<open>
  Hash algorithms and the prefixed hash format
  (\<open>src/domain/governance/events/hash_algorithms.py\<close>). The digest functions themselves belong to the
  packages \<open>blake3\<close> and \<open>hashlib\<close>: they are a parameter of every definition that hashes.
\<close>

section \<open>The digest libraries\<close>

text \<open>\<open>blake3_lib\<close> is \<^term>\<open>None\<close> when \<open>import blake3\<close> failed (\<open>_BLAKE3_AVAILABLE\<close> is false).\<close>

record hash_lib =
  blake3_lib :: "(bytes \<Rightarrow> bytes) option"
  sha256_lib :: "bytes \<Rightarrow> bytes"

definition default_algorithm :: string where
  "default_algorithm = ''blake3''"

definition supported_algorithms :: "string set" where
  "supported_algorithms = {''blake3'', ''sha256''}"

definition zeros64 :: string where
  "zeros64 = replicate 64 (CHR ''0'')"

definition genesis_prev_hash :: string where
  "genesis_prev_hash = ''blake3:'' @ zeros64"

definition supported_list :: string where
  "supported_list = str_join '', '' [''blake3'', ''sha256'']"

definition blake3_hasher :: "hash_lib \<Rightarrow> bytes \<Rightarrow> exn + bytes" where
  "blake3_hasher lib data =
     (case blake3_lib lib of
        None \<Rightarrow> Inl (Exn RuntimeError
          ''BLAKE3 library not available. Install with: pip install blake3'')
      | Some f \<Rightarrow> Inr (f data))"

definition sha256_hasher :: "hash_lib \<Rightarrow> bytes \<Rightarrow> exn + bytes" where
  "sha256_hasher lib data = Inr (sha256_lib lib data)"

definition get_hasher :: "hash_lib \<Rightarrow> string \<Rightarrow> exn + (bytes \<Rightarrow> exn + bytes)" where
  "get_hasher lib algorithm =
     (if algorithm \<notin> supported_algorithms then
        Inl (Exn ValueError (''Unsupported hash algorithm: '' @ py_repr algorithm @ ''. '' @
          ''Supported algorithms: '' @ supported_list))
      else if algorithm = ''blake3'' then Inr (blake3_hasher lib)
      else Inr (sha256_hasher lib))"

section \<open>Prefixed hashes\<close>

definition invalid_format :: "string \<Rightarrow> exn" where
  "invalid_format h = Exn ValueError (''Invalid hash format: '' @ py_repr h @ ''. '' @
     ''Expected format: algorithm:hex_digest'')"

definition extract_algorithm_from_hash :: "string \<Rightarrow> exn + string" where
  "extract_algorithm_from_hash h =
     (if CHR '':'' \<notin> set h then Inl (invalid_format h)
      else
        let algorithm = fst (split_once (CHR '':'') h) in
        if algorithm \<notin> supported_algorithms then
          Inl (Exn ValueError (''Unsupported hash algorithm in prefix: '' @ py_repr algorithm @ ''. '' @
            ''Supported algorithms: '' @ supported_list))
        else Inr algorithm)"

definition extract_hex_digest :: "string \<Rightarrow> exn + string" where
  "extract_hex_digest h =
     (if CHR '':'' \<notin> set h then Inl (invalid_format h)
      else Inr (snd (split_once (CHR '':'') h)))"

definition prefixed :: "string \<Rightarrow> bytes \<Rightarrow> string" where
  "prefixed algorithm digest = algorithm @ '':'' @ bytes_hex digest"

definition compute_hash :: "hash_lib \<Rightarrow> bytes \<Rightarrow> string \<Rightarrow> exn + string" where
  "compute_hash lib data algorithm =
     (case get_hasher lib algorithm of
        Inl e \<Rightarrow> Inl e
      | Inr hasher \<Rightarrow>
          (case hasher data of
             Inl e \<Rightarrow> Inl e
           | Inr digest \<Rightarrow> Inr (prefixed algorithm digest)))"

definition verify_hash :: "hash_lib \<Rightarrow> bytes \<Rightarrow> string \<Rightarrow> exn + bool" where
  "verify_hash lib data h =
     (case extract_algorithm_from_hash h of
        Inl e \<Rightarrow> Inl e
      | Inr algorithm \<Rightarrow>
          (case extract_hex_digest h of
             Inl e \<Rightarrow> Inl e
           | Inr expected_hex \<Rightarrow>
               (case get_hasher lib algorithm of
                  Inl e \<Rightarrow> Inl e
                | Inr hasher \<Rightarrow>
                    (case hasher data of
                       Inl e \<Rightarrow> Inl e
                     | Inr actual \<Rightarrow> Inr (bytes_hex actual = expected_hex)))))"

text \<open>\<open>except ValueError: return False\<close>; the only exception of \<open>extract_hex_digest\<close> is a \<open>ValueError\<close>.\<close>

definition is_genesis_hash :: "string \<Rightarrow> bool" where
  "is_genesis_hash h =
     (case extract_hex_digest h of Inl _ \<Rightarrow> False | Inr hex_digest \<Rightarrow> hex_digest = zeros64)"

definition make_genesis_hash :: "string \<Rightarrow> exn + string" where
  "make_genesis_hash algorithm =
     (if algorithm \<notin> supported_algorithms then
        Inl (Exn ValueError (''Unsupported hash algorithm: '' @ py_repr algorithm @ ''. '' @
          ''Supported algorithms: '' @ supported_list))
      else Inr (algorithm @ '':'' @ zeros64))"

subsection \<open>\<open>int(s, 16)\<close>\<close>

text \<open>
  The strings \<open>int(s, 16)\<close> accepts: surrounding white space, a sign, a prefix \<open>0x\<close>, then hex digits
  with single underscores between them (one more is allowed after the prefix).
\<close>

definition is_hex_digit :: "char \<Rightarrow> bool" where
  "is_hex_digit c \<longleftrightarrow> is_digit c \<or> (let n = (of_char (lower_char c) :: nat) in 97 \<le> n \<and> n \<le> 102)"

fun hex_digits_tail :: "string \<Rightarrow> bool" where
  "hex_digits_tail [] = True"
| "hex_digits_tail [c] = is_hex_digit c"
| "hex_digits_tail (c # d # s) =
     (if c = CHR ''_'' then is_hex_digit d \<and> hex_digits_tail s
      else is_hex_digit c \<and> hex_digits_tail (d # s))"

definition hex_digits :: "string \<Rightarrow> bool" where
  "hex_digits s = (case s of [] \<Rightarrow> False | c # r \<Rightarrow> is_hex_digit c \<and> hex_digits_tail r)"

definition py_int16_accepts :: "string \<Rightarrow> bool" where
  "py_int16_accepts s0 =
     (let s1 = py_strip s0;
          s2 = (if take 1 s1 = ''+'' \<or> take 1 s1 = ''-'' then drop 1 s1 else s1)
      in if py_lower (take 2 s2) = ''0x'' then
           (let s3 = drop 2 s2 in hex_digits (if take 1 s3 = ''_'' then drop 1 s3 else s3))
         else hex_digits s2)"

definition validate_hash_format :: "string \<Rightarrow> bool" where
  "validate_hash_format h =
     (if CHR '':'' \<notin> set h then False
      else
        let (algorithm, hex_digest) = split_once (CHR '':'') h in
        if algorithm \<notin> supported_algorithms then False
        else if length hex_digest \<noteq> 64 then False
        else if \<not> py_int16_accepts hex_digest then False
        else hex_digest = py_lower hex_digest)"

section \<open>Lemmas\<close>

lemma supported_no_colon: "a \<in> supported_algorithms \<Longrightarrow> CHR '':'' \<notin> set a"
  by (auto simp: supported_algorithms_def)

lemma split_prefixed: "a \<in> supported_algorithms \<Longrightarrow> split_once (CHR '':'') (a @ '':'' @ x) = (a, x)"
  using supported_no_colon [of a] by (simp add: split_once_append)

lemma extract_algorithm_prefixed [simp]:
  "a \<in> supported_algorithms \<Longrightarrow> extract_algorithm_from_hash (a @ CHR '':'' # x) = Inr a"
  using split_prefixed [of a x] by (simp add: extract_algorithm_from_hash_def)

lemma extract_hex_prefixed [simp]:
  "a \<in> supported_algorithms \<Longrightarrow> extract_hex_digest (a @ CHR '':'' # x) = Inr x"
  using split_prefixed [of a x] by (simp add: extract_hex_digest_def)

lemma extract_algorithm_Inr:
  "extract_algorithm_from_hash h = Inr a \<Longrightarrow> a \<in> supported_algorithms \<and> (\<exists>x. h = a @ CHR '':'' # x)"
  using split_once_join [of "CHR '':''" h]
  by (auto simp: extract_algorithm_from_hash_def Let_def split: if_splits) metis

text \<open>The digest function an algorithm name selects, when it can be called at all.\<close>

definition digest_of :: "hash_lib \<Rightarrow> string \<Rightarrow> (bytes \<Rightarrow> bytes) option" where
  "digest_of lib algorithm =
     (if algorithm = ''blake3'' then blake3_lib lib
      else if algorithm = ''sha256'' then Some (sha256_lib lib) else None)"

lemma compute_hash_Inr:
  "compute_hash lib data a = Inr h \<longleftrightarrow>
     (\<exists>f. digest_of lib a = Some f \<and> h = prefixed a (f data))"
  by (auto simp: compute_hash_def get_hasher_def digest_of_def supported_algorithms_def
      blake3_hasher_def sha256_hasher_def split: option.splits)

lemma compute_hash_supported: "compute_hash lib data a = Inr h \<Longrightarrow> a \<in> supported_algorithms"
  by (auto simp: compute_hash_Inr digest_of_def supported_algorithms_def split: if_splits)

lemma compute_hash_format:
  assumes "compute_hash lib data a = Inr h"
  shows "extract_algorithm_from_hash h = Inr a" and "h \<noteq> []"
  using assms compute_hash_supported [OF assms] by (auto simp: compute_hash_Inr prefixed_def)

lemma prefixed_inj:
  assumes "a \<in> supported_algorithms" "b \<in> supported_algorithms" "prefixed a x = prefixed b y"
  shows "a = b \<and> x = y"
proof -
  have "split_once (CHR '':'') (prefixed a x) = (a, bytes_hex x)"
    and "split_once (CHR '':'') (prefixed b y) = (b, bytes_hex y)"
    using assms(1,2) split_prefixed by (simp_all add: prefixed_def)
  then show ?thesis using assms(3) bytes_hex_inj by auto
qed

lemma make_genesis_hash_Inr:
  "make_genesis_hash a = Inr h \<Longrightarrow> is_genesis_hash h \<and> h \<noteq> []"
  by (auto simp: make_genesis_hash_def is_genesis_hash_def split: if_splits)

lemma genesis_prev_hash_ok: "is_genesis_hash genesis_prev_hash \<and> validate_hash_format genesis_prev_hash"
  by code_simp

text \<open>A computed hash is recognised: computing and verifying agree.\<close>

lemma verify_computed_hash:
  "compute_hash lib data a = Inr h \<Longrightarrow> verify_hash lib data' h = Inr v \<Longrightarrow>
     v \<longleftrightarrow> compute_hash lib data' a = Inr h"
proof -
  assume c: "compute_hash lib data a = Inr h" and v: "verify_hash lib data' h = Inr v"
  have a: "a \<in> supported_algorithms" by (rule compute_hash_supported [OF c])
  from c obtain f where f: "digest_of lib a = Some f" "h = prefixed a (f data)"
    by (auto simp: compute_hash_Inr)
  have "v \<longleftrightarrow> bytes_hex (f data') = bytes_hex (f data)"
    using v a f by (auto simp: verify_hash_def prefixed_def get_hasher_def digest_of_def
        supported_algorithms_def blake3_hasher_def sha256_hasher_def split: if_splits)
  then show ?thesis using f by (auto simp: compute_hash_Inr prefixed_def)
qed

text \<open>
  \<open>validate_hash_format\<close> promises 64 lower-case hex characters, but \<open>int(s, 16)\<close> takes more than hex
  digits: a \<open>0x\<close> prefix, underscores and surrounding blanks pass as well.
\<close>

lemma validate_hash_format_accepts_nonhex:
  "validate_hash_format (''sha256:0x'' @ replicate 62 (CHR ''a''))"
  "validate_hash_format (''sha256:'' @ replicate 31 (CHR '' '') @ ''1_1'' @ replicate 30 (CHR '' ''))"
  by code_simp+

subsection \<open>Computed hashes are well formed\<close>

lemma hex_char_code: "n < 16 \<Longrightarrow> (of_char (digit_char n) :: nat) \<in> {48..57} \<union> {97..102}"
  by (auto simp: of_char_digit_char)

lemma hex_char_facts:
  assumes "n < 16"
  shows "is_hex_digit (digit_char n)" "lower_char (digit_char n) = digit_char n"
    "\<not> is_py_space (digit_char n)" "digit_char n \<noteq> CHR ''_''" "digit_char n \<noteq> CHR ''+''"
    "digit_char n \<noteq> CHR ''-''" "digit_char n \<noteq> CHR ''x''"
proof -
  note code = hex_char_code [OF assms]
  show low: "lower_char (digit_char n) = digit_char n"
    using code by (auto simp: lower_char_def Let_def)
  show "is_hex_digit (digit_char n)"
    using code by (auto simp: is_hex_digit_def is_digit_def low Let_def)
  show "\<not> is_py_space (digit_char n)"
    using code by (auto simp: is_py_space_def Let_def)
  show "digit_char n \<noteq> CHR ''_''" "digit_char n \<noteq> CHR ''+''" "digit_char n \<noteq> CHR ''-''" "digit_char n \<noteq> CHR ''x''"
    using code by auto
qed

lemma bytes_hex_chars: "c \<in> set (bytes_hex bs) \<Longrightarrow> \<exists>n<16. c = digit_char n"
proof -
  assume "c \<in> set (bytes_hex bs)"
  then obtain w where "c \<in> set (hex_byte w)" by (auto simp: bytes_hex_def)
  moreover have "\<exists>n<16. c = digit_char n" if "c \<in> set (pad_digits 16 k m)" for k m
    using that
  proof (induction k arbitrary: m)
    case (Suc k)
    have "m mod 16 < 16" by simp
    then have "\<exists>n<16. digit_char (m mod 16) = digit_char n" by blast
    then show ?case using Suc by auto
  qed simp
  ultimately show ?thesis by (auto simp: hex_byte_def)
qed

lemma hex_digits_tail_all: "\<forall>c\<in>set s. is_hex_digit c \<and> c \<noteq> CHR ''_'' \<Longrightarrow> hex_digits_tail s"
  by (induction s rule: hex_digits_tail.induct) simp_all

lemma py_strip_no_space: "\<forall>c\<in>set s. \<not> is_py_space c \<Longrightarrow> py_strip s = s"
  by (simp add: py_strip_def dropWhile_eq_self_iff hd_rev) (metis dropWhile_eq_self_iff hd_in_set rev_rev_ident set_rev)

lemma py_int16_accepts_hex:
  assumes "s \<noteq> []" "\<forall>c\<in>set s. \<exists>n<16. c = digit_char n"
  shows "py_int16_accepts s"
proof -
  have facts: "is_hex_digit c \<and> lower_char c = c \<and> \<not> is_py_space c \<and> c \<noteq> CHR ''_'' \<and> c \<noteq> CHR ''+'' \<and>
      c \<noteq> CHR ''-'' \<and> c \<noteq> CHR ''x''"
    if "c \<in> set s" for c
    using assms(2) that hex_char_facts by (metis (no_types))
  obtain c r where s: "s = c # r" using assms(1) by (cases s) auto
  have "py_lower (take 2 s) = take 2 s"
    using facts by (auto simp: py_lower_def intro!: map_idI dest: in_set_takeD)
  moreover have "CHR ''x'' \<notin> set (take 2 s)" using facts by (metis in_set_takeD)
  then have "take 2 s \<noteq> ''0x''" by (metis list.set_intros(1,2))
  ultimately have "py_lower (take 2 s) \<noteq> ''0x''" by simp
  moreover have "hex_digits_tail r" using facts s by (intro hex_digits_tail_all) auto
  then have "hex_digits s" using facts [of c] s by (simp add: hex_digits_def)
  moreover have "py_strip s = s" using facts by (intro py_strip_no_space) blast
  moreover have "take 1 s \<noteq> ''+''" "take 1 s \<noteq> ''-''" using facts [of c] s by auto
  ultimately show ?thesis by (simp add: py_int16_accepts_def)
qed

lemma validate_prefixed:
  assumes "a \<in> supported_algorithms" "length x = 32"
  shows "validate_hash_format (prefixed a x)"
proof -
  have "bytes_hex x \<noteq> []" using assms(2) by (metis length_bytes_hex list.size(3) mult_is_0 zero_neq_numeral)
  then have "py_int16_accepts (bytes_hex x)" using bytes_hex_chars by (intro py_int16_accepts_hex) auto
  moreover have "py_lower (bytes_hex x) = bytes_hex x"
    using bytes_hex_chars hex_char_facts by (auto simp: py_lower_def intro!: map_idI)
  ultimately show ?thesis
    using assms split_prefixed [OF assms(1), of "bytes_hex x"]
    by (simp add: validate_hash_format_def prefixed_def)
qed

section \<open>A concrete library for the examples\<close>

text \<open>
  A 32-byte checksum in place of the digest, with no \<open>blake3\<close> installed: the instance at which the
  examples of the development evaluate the model.
\<close>

definition checksum32 :: "bytes \<Rightarrow> bytes" where
  "checksum32 bs = sum_list bs # of_nat (length bs) # replicate 30 7"

definition example_lib :: hash_lib where
  "example_lib = \<lparr>blake3_lib = None, sha256_lib = checksum32\<rparr>"

lemma length_checksum32 [simp]: "length (checksum32 bs) = 32"
  by (simp add: checksum32_def)

lemma digest_of_example [simp]: "digest_of example_lib ''sha256'' = Some checksum32"
  by (simp add: digest_of_def example_lib_def)

end
