(* ===== verification/Hash_Chain.thy ===== *)
theory Hash_Chain
  imports Event_Envelope Hash_Algorithms
begin

text \<open>
  The hash chain (\<open>src/domain/governance/events/hash_chain.py\<close>) and the detector of hash breaks
  (\<open>hash_break_detection.py\<close>): computing an event's hash, verifying an event and its link, hashing
  and chaining events, and checking a sequence.
\<close>

record hash_verification_result =
  hv_is_valid :: bool
  hv_event_hash_valid :: bool
  hv_chain_link_valid :: bool
  hv_error_message :: string
  hv_expected_hash :: string
  hv_actual_hash :: string

definition hv_result :: "bool \<Rightarrow> bool \<Rightarrow> bool \<Rightarrow> string \<Rightarrow> hash_verification_result" where
  "hv_result v e c msg = \<lparr>hv_is_valid = v, hv_event_hash_valid = e, hv_chain_link_valid = c,
     hv_error_message = msg, hv_expected_hash = [], hv_actual_hash = []\<rparr>"

section \<open>Computing hashes\<close>

definition metadata_to_dict_for_hash :: "event_metadata \<Rightarrow> payload" where
  "metadata_to_dict_for_hash m = [
     (''event_id'', PyUUID (em_event_id m)),
     (''event_type'', PyStr (em_event_type m)),
     (''timestamp'', PyDatetime (em_timestamp m)),
     (''actor_id'', PyStr (em_actor_id m)),
     (''schema_version'', PyStr (em_schema_version m)),
     (''trace_id'', PyStr (em_trace_id m)),
     (''prev_hash'', PyStr (em_prev_hash m))]"

text \<open>\<open>canonical_json_bytes(metadata_dict) + canonical_json_bytes(payload_dict)\<close>.\<close>

definition hash_content :: "event_metadata \<Rightarrow> payload \<Rightarrow> exn + bytes" where
  "hash_content m p =
     (case canonical_json_bytes (metadata_to_dict_for_hash m) of
        Inl e \<Rightarrow> Inl e
      | Inr a \<Rightarrow>
          (case canonical_json_bytes p of
             Inl e \<Rightarrow> Inl e
           | Inr b \<Rightarrow> Inr (a @ b)))"

definition compute_event_hash :: "hash_lib \<Rightarrow> governance_event \<Rightarrow> string \<Rightarrow> exn + string" where
  "compute_event_hash lib event algorithm =
     (if ge_prev_hash event = [] then
        Inl (Exn ConstitutionalViolationError
          (''AD-6: Cannot compute event hash without prev_hash. '' @
           ''Use compute_event_hash_with_prev() for events without prev_hash.''))
      else
        (case hash_content (ge_metadata event) (ge_payload event) of
           Inl e \<Rightarrow> Inl e
         | Inr content \<Rightarrow> compute_hash lib content algorithm))"

definition compute_event_hash_with_prev ::
  "hash_lib \<Rightarrow> governance_event \<Rightarrow> string \<Rightarrow> string \<Rightarrow> exn + string" where
  "compute_event_hash_with_prev lib event prev_hash algorithm =
     (if \<not> validate_hash_format prev_hash \<and> \<not> is_genesis_hash prev_hash then
        Inl (Exn ConstitutionalViolationError
          (''AD-6: Invalid prev_hash format: '' @ py_repr prev_hash @ ''. '' @
           ''Expected format: algorithm:hex_digest''))
      else
        (case hash_content ((ge_metadata event)\<lparr>em_prev_hash := prev_hash\<rparr>) (ge_payload event) of
           Inl e \<Rightarrow> Inl e
         | Inr content \<Rightarrow> compute_hash lib content algorithm))"

section \<open>Verifying\<close>

text \<open>
  The \<open>try\<close> block of \<open>verify_event_hash\<close> turns \<open>ValueError\<close> and \<open>ConstitutionalViolationError\<close> into an
  invalid result; any other exception (the \<open>RuntimeError\<close> of a missing \<open>blake3\<close>) leaves the function.
\<close>

definition verify_event_hash :: "hash_lib \<Rightarrow> governance_event \<Rightarrow> exn + hash_verification_result" where
  "verify_event_hash lib event =
     (if ge_hash event = [] then
        Inr (hv_result False False True ''Event has no hash to verify'')
      else if ge_prev_hash event = [] then
        Inr (hv_result False False False ''Event has no prev_hash'')
      else
        (case
           (case extract_algorithm_from_hash (ge_hash event) of
              Inl e \<Rightarrow> Inl e
            | Inr algorithm \<Rightarrow>
                (case hash_content (ge_metadata event) (ge_payload event) of
                   Inl e \<Rightarrow> Inl e
                 | Inr content \<Rightarrow> compute_hash lib content algorithm)) of
           Inl e \<Rightarrow>
             if exn_kind e \<in> {ValueError, ConstitutionalViolationError} then
               Inr (hv_result False False False (exn_str e))
             else Inl e
         | Inr computed_hash \<Rightarrow>
             let is_valid = (computed_hash = ge_hash event) in
             Inr \<lparr>hv_is_valid = is_valid, hv_event_hash_valid = is_valid, hv_chain_link_valid = True,
               hv_error_message =
                 (if is_valid then [] else ''Hash mismatch - event may have been tampered''),
               hv_expected_hash = ge_hash event, hv_actual_hash = computed_hash\<rparr>))"

definition verify_chain_link ::
  "governance_event \<Rightarrow> governance_event option \<Rightarrow> hash_verification_result" where
  "verify_chain_link current_event previous_event =
     (case previous_event of
        None \<Rightarrow>
          if is_genesis_hash (ge_prev_hash current_event) then hv_result True True True []
          else (hv_result False True False
                 (''Genesis event should have null prev_hash, got: '' @ py_repr (ge_prev_hash current_event)))
               \<lparr>hv_expected_hash := genesis_prev_hash, hv_actual_hash := ge_prev_hash current_event\<rparr>
      | Some previous \<Rightarrow>
          if ge_hash previous = [] then
            hv_result False True False ''Previous event has no hash to link to''
          else if ge_prev_hash current_event = ge_hash previous then hv_result True True True []
          else (hv_result False True False
                 ''Chain link broken - prev_hash does not match previous event's hash'')
               \<lparr>hv_expected_hash := ge_hash previous, hv_actual_hash := ge_prev_hash current_event\<rparr>)"

definition verify_event_full ::
  "hash_lib \<Rightarrow> governance_event \<Rightarrow> governance_event option \<Rightarrow> exn + hash_verification_result" where
  "verify_event_full lib event previous_event =
     (case verify_event_hash lib event of
        Inl e \<Rightarrow> Inl e
      | Inr hash_result \<Rightarrow>
          if \<not> hv_is_valid hash_result then Inr hash_result
          else
            let link_result = verify_chain_link event previous_event in
            if \<not> hv_is_valid link_result then
              Inr \<lparr>hv_is_valid = False, hv_event_hash_valid = True, hv_chain_link_valid = False,
                hv_error_message = hv_error_message link_result,
                hv_expected_hash = hv_expected_hash link_result,
                hv_actual_hash = hv_actual_hash link_result\<rparr>
            else Inr (hv_result True True True []))"

section \<open>Hashing and chaining events\<close>

definition add_hash_to_event ::
  "hash_lib \<Rightarrow> governance_event \<Rightarrow> string option \<Rightarrow> string \<Rightarrow> exn + governance_event" where
  "add_hash_to_event lib event prev_hash algorithm =
     (if has_hash event then
        Inl (Exn ConstitutionalViolationError
          (''NFR-CONST-02: Cannot re-hash an event that already has hash fields. '' @
           ''Events are immutable once hashed.''))
      else
        (case (case prev_hash of
                 None \<Rightarrow> make_genesis_hash algorithm
               | Some p \<Rightarrow> if p = [] then make_genesis_hash algorithm else Inr p) of
           Inl e \<Rightarrow> Inl e
         | Inr actual_prev_hash \<Rightarrow>
             (case compute_event_hash_with_prev lib event actual_prev_hash algorithm of
                Inl e \<Rightarrow> Inl e
              | Inr event_hash \<Rightarrow>
                  (case mk_event_metadata
                          ((ge_metadata event)\<lparr>em_prev_hash := actual_prev_hash, em_hash := event_hash\<rparr>) of
                     Inl e \<Rightarrow> Inl e
                   | Inr new_metadata \<Rightarrow>
                       Inr \<lparr>ge_metadata = new_metadata, ge_payload = ge_payload event\<rparr>))))"

text \<open>The loop of \<open>chain_events\<close>, with the previous hash as its variable.\<close>

fun chain_loop :: "hash_lib \<Rightarrow> string option \<Rightarrow> string \<Rightarrow> governance_event list
    \<Rightarrow> exn + governance_event list" where
  "chain_loop lib prev_hash algorithm [] = Inr []"
| "chain_loop lib prev_hash algorithm (event # events) =
     (case add_hash_to_event lib event prev_hash algorithm of
        Inl e \<Rightarrow> Inl e
      | Inr hashed_event \<Rightarrow>
          (case chain_loop lib (Some (ge_hash hashed_event)) algorithm events of
             Inl e \<Rightarrow> Inl e
           | Inr result \<Rightarrow> Inr (hashed_event # result)))"

definition chain_events ::
  "hash_lib \<Rightarrow> governance_event list \<Rightarrow> string \<Rightarrow> exn + governance_event list" where
  "chain_events lib events algorithm = (if events = [] then Inr [] else chain_loop lib None algorithm events)"

text \<open>\<open>GovernanceEvent.create_with_hash\<close>.\<close>

definition create_with_hash ::
  "hash_lib \<Rightarrow> uuid \<Rightarrow> string \<Rightarrow> datetime \<Rightarrow> string \<Rightarrow> string \<Rightarrow> payload \<Rightarrow> governance_event option
    \<Rightarrow> string \<Rightarrow> string \<Rightarrow> exn + governance_event" where
  "create_with_hash lib event_id event_type timestamp actor_id trace_id payload prev_event
     algorithm schema_version =
     (case governance_event_create event_id event_type timestamp actor_id trace_id payload
             schema_version of
        Inl e \<Rightarrow> Inl e
      | Inr event \<Rightarrow>
          add_hash_to_event lib event (map_option ge_hash prev_event) algorithm)"

section \<open>Break detection\<close>

datatype hash_break_type = HASH_MISMATCH | CHAIN_BREAK | SEQUENCE_GAP

record hash_break_info =
  hb_break_type :: hash_break_type
  hb_sequence :: int
  hb_event_id :: uuid
  hb_expected_hash :: string
  hb_actual_hash :: string
  hb_detected_at :: datetime
  hb_detector_id :: string
  hb_details :: string

record hash_break_detection_result =
  has_break :: bool
  break_info :: "hash_break_info option"
  events_verified :: nat

definition break_found ::
  "hash_break_type \<Rightarrow> governance_event \<Rightarrow> hash_verification_result \<Rightarrow> string \<Rightarrow> datetime
    \<Rightarrow> hash_break_detection_result" where
  "break_found ty event result detector_id detected_at =
     \<lparr>has_break = True,
      break_info = Some \<lparr>hb_break_type = ty, hb_sequence = 0, hb_event_id = ge_event_id event,
        hb_expected_hash = hv_expected_hash result, hb_actual_hash = hv_actual_hash result,
        hb_detected_at = detected_at, hb_detector_id = detector_id,
        hb_details = hv_error_message result\<rparr>,
      events_verified = 1\<rparr>"

definition check_event ::
  "hash_lib \<Rightarrow> string \<Rightarrow> governance_event \<Rightarrow> governance_event option \<Rightarrow> datetime
    \<Rightarrow> exn + hash_break_detection_result" where
  "check_event lib detector_id event previous_event detected_at =
     (case verify_event_hash lib event of
        Inl e \<Rightarrow> Inl e
      | Inr hash_result \<Rightarrow>
          if \<not> hv_is_valid hash_result then
            Inr (break_found HASH_MISMATCH event hash_result detector_id detected_at)
          else
            let link_result = verify_chain_link event previous_event in
            if \<not> hv_is_valid link_result then
              Inr (break_found CHAIN_BREAK event link_result detector_id detected_at)
            else Inr \<lparr>has_break = False, break_info = None, events_verified = 1\<rparr>)"

text \<open>The loop of \<open>check_sequence\<close>: the first break ends it; \<open>n\<close> is \<open>len(events)\<close>.\<close>

fun check_loop ::
  "hash_lib \<Rightarrow> string \<Rightarrow> nat \<Rightarrow> datetime \<Rightarrow> governance_event option \<Rightarrow> governance_event list
    \<Rightarrow> exn + hash_break_detection_result" where
  "check_loop lib detector_id n detected_at previous_event [] =
     Inr \<lparr>has_break = False, break_info = None, events_verified = n\<rparr>"
| "check_loop lib detector_id n detected_at previous_event (event # events) =
     (case check_event lib detector_id event previous_event detected_at of
        Inl e \<Rightarrow> Inl e
      | Inr result \<Rightarrow>
          if has_break result then Inr result
          else check_loop lib detector_id n detected_at (Some event) events)"

definition check_sequence ::
  "hash_lib \<Rightarrow> string \<Rightarrow> governance_event list \<Rightarrow> datetime \<Rightarrow> exn + hash_break_detection_result" where
  "check_sequence lib detector_id events detected_at =
     (if events = [] then Inr \<lparr>has_break = False, break_info = None, events_verified = 0\<rparr>
      else check_loop lib detector_id (length events) detected_at None events)"

fun hash_break_type_value :: "hash_break_type \<Rightarrow> string" where
  "hash_break_type_value HASH_MISMATCH = ''hash_mismatch''"
| "hash_break_type_value CHAIN_BREAK = ''chain_break''"
| "hash_break_type_value SEQUENCE_GAP = ''sequence_gap''"

definition create_break_event_payload :: "hash_break_detection_result \<Rightarrow> exn + payload" where
  "create_break_event_payload detection_result =
     (case (has_break detection_result, break_info detection_result) of
        (True, Some info) \<Rightarrow> Inr [
          (''break_type'', PyStr (hash_break_type_value (hb_break_type info))),
          (''broken_at_sequence'', PyInt (hb_sequence info)),
          (''affected_event_id'', PyStr (uuid_str (hb_event_id info))),
          (''expected_hash'', PyStr (hb_expected_hash info)),
          (''actual_hash'', PyStr (hb_actual_hash info)),
          (''detected_at'', PyStr (isoformat (hb_detected_at info))),
          (''detector_id'', PyStr (hb_detector_id info)),
          (''details'', PyStr (hb_details info))]
      | _ \<Rightarrow> Inl (Exn ValueError ''Cannot create break event for result with no break''))"

section \<open>What a valid event and a valid chain are\<close>

text \<open>The declarative reading of the checks: a stored hash that the content reproduces, and a link.\<close>

definition event_hash_ok :: "hash_lib \<Rightarrow> governance_event \<Rightarrow> bool" where
  "event_hash_ok lib e \<longleftrightarrow> ge_hash e \<noteq> [] \<and> ge_prev_hash e \<noteq> [] \<and>
     (\<exists>a x. extract_algorithm_from_hash (ge_hash e) = Inr a \<and>
        hash_content (ge_metadata e) (ge_payload e) = Inr x \<and> compute_hash lib x a = Inr (ge_hash e))"

definition link_ok :: "governance_event option \<Rightarrow> governance_event \<Rightarrow> bool" where
  "link_ok prev e \<longleftrightarrow>
     (case prev of None \<Rightarrow> is_genesis_hash (ge_prev_hash e)
      | Some p \<Rightarrow> ge_hash p \<noteq> [] \<and> ge_prev_hash e = ge_hash p)"

fun chain_ok :: "hash_lib \<Rightarrow> governance_event option \<Rightarrow> governance_event list \<Rightarrow> bool" where
  "chain_ok lib prev [] = True"
| "chain_ok lib prev (e # es) = (event_hash_ok lib e \<and> link_ok prev e \<and> chain_ok lib (Some e) es)"

lemma verify_event_hash_valid:
  "(\<exists>r. verify_event_hash lib e = Inr r \<and> hv_is_valid r) \<longleftrightarrow> event_hash_ok lib e"
  by (auto simp: verify_event_hash_def event_hash_ok_def hv_result_def Let_def split: sum.splits)

lemma verify_event_hash_Inr:
  "verify_event_hash lib e = Inr r \<Longrightarrow> hv_is_valid r \<longleftrightarrow> event_hash_ok lib e"
  using verify_event_hash_valid [of lib e] by auto

lemma verify_chain_link_valid: "hv_is_valid (verify_chain_link e prev) \<longleftrightarrow> link_ok prev e"
  by (auto simp: verify_chain_link_def link_ok_def hv_result_def split: option.splits)

lemma event_hash_ok_verifies: "event_hash_ok lib e \<Longrightarrow> \<exists>r. verify_event_hash lib e = Inr r"
  using verify_event_hash_valid by blast

lemma check_event_ok:
  "event_hash_ok lib e \<Longrightarrow> link_ok prev e \<Longrightarrow>
     check_event lib d e prev t = Inr \<lparr>has_break = False, break_info = None, events_verified = 1\<rparr>"
  using event_hash_ok_verifies [of lib e] verify_event_hash_Inr verify_chain_link_valid
  by (fastforce simp: check_event_def)

lemma check_event_Inr:
  "check_event lib d e prev t = Inr r \<Longrightarrow> has_break r \<longleftrightarrow> \<not> (event_hash_ok lib e \<and> link_ok prev e)"
  by (auto simp: check_event_def break_found_def verify_event_hash_Inr verify_chain_link_valid
      split: sum.splits if_splits)

lemma check_loop_ok:
  "chain_ok lib prev es \<Longrightarrow>
     check_loop lib d n t prev es = Inr \<lparr>has_break = False, break_info = None, events_verified = n\<rparr>"
  by (induction es arbitrary: prev) (auto simp: check_event_ok)

lemma check_loop_Inr:
  "check_loop lib d n t prev es = Inr r \<Longrightarrow> has_break r \<longleftrightarrow> \<not> chain_ok lib prev es"
  by (induction es arbitrary: prev) (auto dest: check_event_Inr split: sum.splits if_splits)

lemma check_sequence_Inr:
  "check_sequence lib d es t = Inr r \<Longrightarrow> has_break r \<longleftrightarrow> \<not> chain_ok lib None es"
  by (auto simp: check_sequence_def dest: check_loop_Inr split: if_splits)

lemma check_sequence_ok:
  "chain_ok lib None es \<Longrightarrow>
     check_sequence lib d es t = Inr \<lparr>has_break = False, break_info = None, events_verified = length es\<rparr>"
  by (auto simp: check_sequence_def check_loop_ok)

lemma chain_ok_append:
  "chain_ok lib prev (es @ fs) \<longleftrightarrow>
     chain_ok lib prev es \<and> chain_ok lib (if es = [] then prev else Some (last es)) fs"
  by (induction es arbitrary: prev) auto

lemma chain_ok_last: "chain_ok lib prev es \<Longrightarrow> es \<noteq> [] \<Longrightarrow> event_hash_ok lib (last es)"
  by (metis append_butlast_last_id chain_ok.simps(2) chain_ok_append)

section \<open>Hashing produces valid chains\<close>

text \<open>Two metadata records that differ only in the hash fields.\<close>

definition same_envelope :: "governance_event \<Rightarrow> governance_event \<Rightarrow> bool" where
  "same_envelope e f \<longleftrightarrow> ge_payload e = ge_payload f \<and>
     (ge_metadata e)\<lparr>em_prev_hash := [], em_hash := []\<rparr> = (ge_metadata f)\<lparr>em_prev_hash := [], em_hash := []\<rparr>"

lemma same_envelope_fields:
  "same_envelope e f \<Longrightarrow> ge_event_id f = ge_event_id e \<and> ge_event_type f = ge_event_type e \<and>
     ge_actor_id f = ge_actor_id e \<and> ge_trace_id f = ge_trace_id e \<and> ge_payload f = ge_payload e"
  by (cases "ge_metadata e"; cases "ge_metadata f") (auto simp: same_envelope_def ge_accessors)

lemma metadata_to_dict_hash_irrelevant [simp]:
  "metadata_to_dict_for_hash (m\<lparr>em_hash := h\<rparr>) = metadata_to_dict_for_hash m"
  by (simp add: metadata_to_dict_for_hash_def)

lemma hash_content_hash_irrelevant [simp]: "hash_content (m\<lparr>em_hash := h\<rparr>) p = hash_content m p"
  by (simp add: hash_content_def)

lemma add_hash_Inr:
  assumes "add_hash_to_event lib e prev a = Inr e'"
  shows "same_envelope e e'" and "event_hash_ok lib e'" and "\<not> has_hash e"
    and "prev = None \<or> prev = Some [] \<Longrightarrow> is_genesis_hash (ge_prev_hash e')"
    and "prev = Some p \<Longrightarrow> p \<noteq> [] \<Longrightarrow> ge_prev_hash e' = p"
proof -
  from assms obtain q h m where
    q: "(case prev of None \<Rightarrow> make_genesis_hash a
         | Some p \<Rightarrow> if p = [] then make_genesis_hash a else Inr p) = Inr q" and
    h: "compute_event_hash_with_prev lib e q a = Inr h" and
    m: "mk_event_metadata ((ge_metadata e)\<lparr>em_prev_hash := q, em_hash := h\<rparr>) = Inr m" and
    e': "e' = \<lparr>ge_metadata = m, ge_payload = ge_payload e\<rparr>" and nh: "\<not> has_hash e"
    by (auto simp: add_hash_to_event_def split: if_splits sum.splits)
  have m': "m = (ge_metadata e)\<lparr>em_prev_hash := q, em_hash := h\<rparr>"
    using mk_event_metadata_Inr [OF m] by simp
  from h obtain x where x: "hash_content ((ge_metadata e)\<lparr>em_prev_hash := q\<rparr>) (ge_payload e) = Inr x"
    and hx: "compute_hash lib x a = Inr h"
    by (auto simp: compute_event_hash_with_prev_def split: if_splits sum.splits)
  have content: "hash_content (ge_metadata e') (ge_payload e') = Inr x"
    using x hash_content_hash_irrelevant [where m = "(ge_metadata e)\<lparr>em_prev_hash := q\<rparr>" and h = h]
    by (simp add: e' m')
  have qne: "q \<noteq> []"
    using q by (auto split: option.splits if_splits dest: make_genesis_hash_Inr)
  show "same_envelope e e'" by (simp add: same_envelope_def e' m')
  show "event_hash_ok lib e'"
    using compute_hash_format [OF hx] content hx qne
    by (auto simp: event_hash_ok_def ge_accessors e' m')
  show "\<not> has_hash e" by (rule nh)
  show "prev = None \<or> prev = Some [] \<Longrightarrow> is_genesis_hash (ge_prev_hash e')"
    using q by (auto simp: ge_accessors e' m' dest: make_genesis_hash_Inr)
  show "prev = Some p \<Longrightarrow> p \<noteq> [] \<Longrightarrow> ge_prev_hash e' = p"
    using q by (auto simp: ge_accessors e' m')
qed

lemma event_hash_okD: "event_hash_ok lib e \<Longrightarrow> ge_hash e \<noteq> [] \<and> ge_prev_hash e \<noteq> []"
  by (simp add: event_hash_ok_def)

lemma chain_loop_Inr:
  assumes "chain_loop lib (Some p) a es = Inr fs" and "p \<noteq> []" and "p = ge_hash q"
  shows "chain_ok lib (Some q) fs \<and> list_all2 same_envelope es fs"
  using assms
proof (induction es arbitrary: p q fs)
  case (Cons e es)
  from Cons.prems(1) obtain e' fs' where e': "add_hash_to_event lib e (Some p) a = Inr e'"
    and fs': "chain_loop lib (Some (ge_hash e')) a es = Inr fs'" and fs: "fs = e' # fs'"
    by (auto split: sum.splits)
  note ok = add_hash_Inr [OF e']
  have "chain_ok lib (Some e') fs' \<and> list_all2 same_envelope es fs'"
    using Cons.IH [OF fs' _ refl] event_hash_okD [OF ok(2)] by simp
  moreover have "link_ok (Some q) e'"
    using ok(5) Cons.prems(2,3) by (simp add: link_ok_def)
  ultimately show ?case using ok(1,2) fs by simp
qed simp

lemma chain_events_Inr:
  assumes "chain_events lib es a = Inr fs"
  shows "chain_ok lib None fs \<and> list_all2 same_envelope es fs"
proof (cases es)
  case (Cons e es')
  with assms obtain e' fs' where e': "add_hash_to_event lib e None a = Inr e'"
    and fs': "chain_loop lib (Some (ge_hash e')) a es' = Inr fs'" and fs: "fs = e' # fs'"
    by (auto simp: chain_events_def split: sum.splits)
  note ok = add_hash_Inr [OF e']
  have "chain_ok lib (Some e') fs' \<and> list_all2 same_envelope es' fs'"
    using chain_loop_Inr [OF fs' _ refl] event_hash_okD [OF ok(2)] by simp
  then show ?thesis using ok(1,2,4) fs Cons by (simp add: link_ok_def)
qed (use assms in \<open>simp add: chain_events_def\<close>)

text \<open>Hashing cannot fail on a valid event without hashes whose payload can be serialised.\<close>

definition hashable :: "governance_event \<Rightarrow> bool" where
  "hashable e \<longleftrightarrow> \<not> has_hash e \<and> metadata_ok (ge_metadata e) \<and> (\<exists>s. canonical_json (ge_payload e) = Inr s)"

lemma metadata_to_dict_canonical: "\<exists>s. canonical_json (metadata_to_dict_for_hash m) = Inr s"
  by (simp add: canonical_json_def metadata_to_dict_for_hash_def)

lemma metadata_ok_hash_fields [simp]: "metadata_ok (m\<lparr>em_prev_hash := p, em_hash := h\<rparr>) = metadata_ok m"
  by (simp add: metadata_ok_iff)

lemma add_hash_to_event_total:
  assumes "hashable e" and "digest_of lib a = Some d"
    and "prev = None \<or> (\<exists>p. prev = Some p \<and> validate_hash_format p)"
  shows "\<exists>e'. add_hash_to_event lib e prev a = Inr e'"
proof -
  have a: "a \<in> supported_algorithms"
    using assms(2) by (auto simp: digest_of_def supported_algorithms_def split: if_splits)
  obtain q where q: "(case prev of None \<Rightarrow> make_genesis_hash a
      | Some p \<Rightarrow> if p = [] then make_genesis_hash a else Inr p) = Inr q"
    "validate_hash_format q \<or> is_genesis_hash q"
  proof (cases prev)
    case None
    then show ?thesis using that a by (simp add: make_genesis_hash_def is_genesis_hash_def)
  next
    case (Some p)
    moreover from this have "validate_hash_format p" "p \<noteq> []"
      using assms(3) by (auto simp: validate_hash_format_def)
    ultimately show ?thesis using that [of p] by simp
  qed
  obtain x where x: "hash_content ((ge_metadata e)\<lparr>em_prev_hash := q\<rparr>) (ge_payload e) = Inr x"
    using assms(1) metadata_to_dict_canonical [of "(ge_metadata e)\<lparr>em_prev_hash := q\<rparr>"]
    by (auto simp: hashable_def hash_content_def canonical_json_bytes_def)
  have "compute_event_hash_with_prev lib e q a = Inr (prefixed a (d x))"
    using q(2) x assms(2) by (auto simp: compute_event_hash_with_prev_def compute_hash_Inr)
  moreover have "mk_event_metadata ((ge_metadata e)\<lparr>em_prev_hash := q, em_hash := h\<rparr>) =
      Inr ((ge_metadata e)\<lparr>em_prev_hash := q, em_hash := h\<rparr>)" for h
    using assms(1) metadata_ok_hash_fields by (simp add: hashable_def flip: metadata_ok_def)
  ultimately show ?thesis
    using q(1) assms(1) by (simp add: add_hash_to_event_def hashable_def)
qed

lemma add_hash_to_event_hash:
  assumes "add_hash_to_event lib e prev a = Inr e'" and "digest_of lib a = Some d" and "\<And>x. length (d x) = 32"
  shows "validate_hash_format (ge_hash e')"
proof -
  obtain q h m where "compute_event_hash_with_prev lib e q a = Inr h"
    and m: "mk_event_metadata ((ge_metadata e)\<lparr>em_prev_hash := q, em_hash := h\<rparr>) = Inr m"
    and "e' = \<lparr>ge_metadata = m, ge_payload = ge_payload e\<rparr>"
    using assms(1) by (auto simp: add_hash_to_event_def split: if_splits sum.splits)
  moreover from this obtain x where "compute_hash lib x a = Inr h"
    by (auto simp: compute_event_hash_with_prev_def split: if_splits sum.splits)
  ultimately have "compute_hash lib x a = Inr (ge_hash e')"
    using mk_event_metadata_Inr [OF m] by (simp add: ge_accessors)
  moreover from this have "ge_hash e' = prefixed a (d x)" "a \<in> supported_algorithms"
    using assms(2) compute_hash_supported [of lib x a] by (auto simp: compute_hash_Inr)
  ultimately show ?thesis using validate_prefixed assms(3) by simp
qed

lemma chain_loop_total:
  assumes "digest_of lib a = Some d" and "\<And>x. length (d x) = 32"
  shows "\<forall>e\<in>set es. hashable e \<Longrightarrow> prev = None \<or> (\<exists>p. prev = Some p \<and> validate_hash_format p) \<Longrightarrow>
    \<exists>fs. chain_loop lib prev a es = Inr fs"
proof (induction es arbitrary: prev)
  case (Cons e es)
  obtain e' where e': "add_hash_to_event lib e prev a = Inr e'"
    using add_hash_to_event_total [OF _ assms(1) Cons.prems(2), of e] Cons.prems(1) by auto
  then have "validate_hash_format (ge_hash e')" using add_hash_to_event_hash assms by blast
  then obtain fs where "chain_loop lib (Some (ge_hash e')) a es = Inr fs" using Cons by auto
  then show ?case using e' by simp
qed simp

lemma chain_events_total:
  assumes "digest_of lib a = Some d" and "\<And>x. length (d x) = 32" and "\<forall>e\<in>set es. hashable e"
  shows "\<exists>fs. chain_events lib es a = Inr fs"
  using chain_loop_total [OF assms(1,2,3)] by (auto simp: chain_events_def)

section \<open>The last hash commits to the whole chain\<close>

text \<open>The content two events share when their canonical texts are the same.\<close>

definition same_content :: "governance_event \<Rightarrow> governance_event \<Rightarrow> bool" where
  "same_content e f \<longleftrightarrow>
     canonical_value (metadata_to_dict_for_hash (ge_metadata e)) =
       canonical_value (metadata_to_dict_for_hash (ge_metadata f)) \<and>
     canonical_value (ge_payload e) = canonical_value (ge_payload f)"

text \<open>Two events whose hashed bytes differ while a digest function of the code maps them to one value.\<close>

definition digest_collision :: "hash_lib \<Rightarrow> governance_event \<Rightarrow> governance_event \<Rightarrow> bool" where
  "digest_collision lib e f \<longleftrightarrow>
     (\<exists>a d x y. digest_of lib a = Some d \<and> hash_content (ge_metadata e) (ge_payload e) = Inr x \<and>
        hash_content (ge_metadata f) (ge_payload f) = Inr y \<and> x \<noteq> y \<and> d x = d y)"

text \<open>An event whose hashed bytes are mapped to the all-zero digest that marks the genesis.\<close>

definition digest_zero :: "hash_lib \<Rightarrow> governance_event \<Rightarrow> bool" where
  "digest_zero lib e \<longleftrightarrow>
     (\<exists>a d x. digest_of lib a = Some d \<and> hash_content (ge_metadata e) (ge_payload e) = Inr x \<and>
        bytes_hex (d x) = zeros64)"

definition payload_floats_ok :: "governance_event \<Rightarrow> bool" where
  "payload_floats_ok e \<longleftrightarrow> py_floats_ok_items (ge_payload e)"

lemma metadata_floats_ok [simp]: "py_floats_ok_items (metadata_to_dict_for_hash m)"
  by (simp add: metadata_to_dict_for_hash_def)

lemma canonical_value_metadata:
  "canonical_value (metadata_to_dict_for_hash m) = Inr (JObj [
     (''actor_id'', JStr (em_actor_id m)), (''event_id'', JStr (py_lower (uuid_str (em_event_id m)))),
     (''event_type'', JStr (em_event_type m)), (''prev_hash'', JStr (em_prev_hash m)),
     (''schema_version'', JStr (em_schema_version m)), (''timestamp'', JStr (isoformat (em_timestamp m))),
     (''trace_id'', JStr (em_trace_id m))])"
  by (simp add: canonical_value_def metadata_to_dict_for_hash_def nfkc_def sort_key_def)

lemma same_content_prev_hash: "same_content e f \<Longrightarrow> ge_prev_hash e = ge_prev_hash f"
  by (simp add: same_content_def canonical_value_metadata ge_accessors)

lemma hash_content_Inr:
  "hash_content m p = Inr x \<longleftrightarrow>
     (\<exists>a b. canonical_json (metadata_to_dict_for_hash m) = Inr a \<and> canonical_json p = Inr b \<and>
        x = str_encode (a @ b))"
  by (auto simp: hash_content_def canonical_json_bytes_def split: sum.splits)

lemma same_bytes_same_content:
  assumes "hash_content (ge_metadata e) (ge_payload e) = Inr x"
    and "hash_content (ge_metadata f) (ge_payload f) = Inr x"
    and "payload_floats_ok e" "payload_floats_ok f"
  shows "same_content e f"
proof -
  obtain a b a' b' where
    "canonical_json (metadata_to_dict_for_hash (ge_metadata e)) = Inr a"
    "canonical_json (ge_payload e) = Inr b"
    "canonical_json (metadata_to_dict_for_hash (ge_metadata f)) = Inr a'"
    "canonical_json (ge_payload f) = Inr b'" and "str_encode (a @ b) = str_encode (a' @ b')"
    using assms(1,2) unfolding hash_content_Inr by metis
  moreover from this have "a @ b = a' @ b'" by (simp only: str_encode_inj)
  ultimately show ?thesis
    using canonical_json_concat assms(3,4) unfolding same_content_def payload_floats_ok_def
    by (metis metadata_floats_ok)
qed

lemma equal_hash_same_content:
  assumes "event_hash_ok lib e" "event_hash_ok lib f" "ge_hash e = ge_hash f"
    and "payload_floats_ok e" "payload_floats_ok f"
  shows "same_content e f \<or> digest_collision lib e f"
proof -
  from assms(1) obtain a x where e: "extract_algorithm_from_hash (ge_hash e) = Inr a"
    "hash_content (ge_metadata e) (ge_payload e) = Inr x" "compute_hash lib x a = Inr (ge_hash e)"
    by (auto simp: event_hash_ok_def)
  from assms(2) obtain b y where f: "extract_algorithm_from_hash (ge_hash f) = Inr b"
    "hash_content (ge_metadata f) (ge_payload f) = Inr y" "compute_hash lib y b = Inr (ge_hash f)"
    by (auto simp: event_hash_ok_def)
  from e f assms(3) have ab: "a = b" by simp
  from e(3) obtain d where d: "digest_of lib a = Some d" "ge_hash e = prefixed a (d x)"
    by (auto simp: compute_hash_Inr)
  with f(3) ab have "ge_hash f = prefixed a (d y)" by (auto simp: compute_hash_Inr)
  then have dxy: "d x = d y"
    using d(2) assms(3) prefixed_inj compute_hash_supported [OF e(3)] by metis
  show ?thesis
  proof (cases "x = y")
    case True
    then show ?thesis using same_bytes_same_content e f assms(4,5) by blast
  next
    case False
    then show ?thesis using d(1) e(2) f(2) dxy unfolding digest_collision_def by blast
  qed
qed

lemma genesis_hash_digest_zero:
  assumes "event_hash_ok lib e" and "is_genesis_hash (ge_hash e)"
  shows "digest_zero lib e"
proof -
  from assms(1) obtain a x where x: "hash_content (ge_metadata e) (ge_payload e) = Inr x"
    "compute_hash lib x a = Inr (ge_hash e)"
    by (auto simp: event_hash_ok_def)
  then obtain d where d: "digest_of lib a = Some d" "ge_hash e = prefixed a (d x)"
    by (auto simp: compute_hash_Inr)
  have "extract_hex_digest (ge_hash e) = Inr (bytes_hex (d x))"
    using compute_hash_supported [OF x(2)] d(2) by (simp add: prefixed_def)
  then show ?thesis
    using assms(2) d(1) x(1) by (auto simp: is_genesis_hash_def digest_zero_def)
qed

text \<open>The exception to every commitment: a collision or an all-zero digest among the given events.\<close>

definition digest_failure :: "hash_lib \<Rightarrow> governance_event list \<Rightarrow> governance_event list \<Rightarrow> bool" where
  "digest_failure lib es fs \<longleftrightarrow>
     (\<exists>e\<in>set es. \<exists>f\<in>set fs. digest_collision lib e f) \<or> (\<exists>e\<in>set es \<union> set fs. digest_zero lib e)"

lemma digest_failure_mono:
  "digest_failure lib es fs \<Longrightarrow> set es \<subseteq> set es' \<Longrightarrow> set fs \<subseteq> set fs' \<Longrightarrow> digest_failure lib es' fs'"
  unfolding digest_failure_def by blast

lemma chain_commits:
  assumes "chain_ok lib None es" "chain_ok lib None fs" "es \<noteq> []" "fs \<noteq> []"
    and "ge_hash (last es) = ge_hash (last fs)"
    and "\<forall>e\<in>set es \<union> set fs. payload_floats_ok e"
  shows "list_all2 same_content es fs \<or> digest_failure lib es fs"
  using assms
proof (induction es arbitrary: fs rule: rev_induct)
  case (snoc e es)
  obtain f fs' where fs: "fs = fs' @ [f]" using snoc.prems(4) by (metis append_butlast_last_id)
  have ok: "chain_ok lib None es" "event_hash_ok lib e" "link_ok (if es = [] then None else Some (last es)) e"
    "chain_ok lib None fs'" "event_hash_ok lib f" "link_ok (if fs' = [] then None else Some (last fs')) f"
    using snoc.prems(1,2) fs by (simp_all add: chain_ok_append)
  have last_ok: "event_hash_ok lib (last gs)" if "chain_ok lib None gs" "gs \<noteq> []" for gs
    using that by (metis append_butlast_last_id chain_ok.simps(2) chain_ok_append)
  consider (diff) "digest_collision lib e f" | (same) "same_content e f"
    using equal_hash_same_content [OF ok(2,5)] snoc.prems(5,6) fs by auto
  then show ?case
  proof cases
    case diff
    then show ?thesis using fs by (auto simp: digest_failure_def)
  next
    case same
    then have prev: "ge_prev_hash e = ge_prev_hash f" by (rule same_content_prev_hash)
    show ?thesis
    proof (cases "es = [] \<or> fs' = []")
      case True
      then consider "es = []" "fs' = []" | "es = []" "fs' \<noteq> []" | "es \<noteq> []" "fs' = []" by blast
      then show ?thesis
      proof cases
        case 1
        with same fs show ?thesis by simp
      next
        case 2
        then have "digest_zero lib (last fs')"
          using ok prev last_ok genesis_hash_digest_zero by (auto simp: link_ok_def)
        then show ?thesis using 2 fs by (auto simp: digest_failure_def)
      next
        case 3
        then have "digest_zero lib (last es)"
          using ok prev last_ok genesis_hash_digest_zero by (auto simp: link_ok_def)
        then show ?thesis using 3 by (auto simp: digest_failure_def)
      qed
    next
      case False
      then have "ge_hash (last es) = ge_hash (last fs')"
        using ok prev by (simp add: link_ok_def)
      then have "list_all2 same_content es fs' \<or> digest_failure lib es fs'"
        using snoc.IH [OF ok(1,4)] False snoc.prems(6) fs by auto
      then show ?thesis
        using same fs digest_failure_mono [of lib es fs' "es @ [e]" fs] by (auto simp: list_all2_appendI)
    qed
  qed
qed simp

section \<open>Where the detector stops\<close>

lemma check_event_break:
  "check_event lib d e prev t = Inr r \<Longrightarrow> has_break r \<Longrightarrow>
     \<exists>info. break_info r = Some info \<and> hb_event_id info = ge_event_id e \<and> hb_detected_at info = t \<and>
       hb_detector_id info = d \<and> hb_break_type info = (if event_hash_ok lib e then CHAIN_BREAK else HASH_MISMATCH)"
  by (auto simp: check_event_def break_found_def verify_event_hash_Inr Let_def split: sum.splits if_splits)

lemma check_loop_break:
  "check_loop lib d n t prev es = Inr r \<Longrightarrow> has_break r \<Longrightarrow>
     \<exists>i<length es. chain_ok lib prev (take i es) \<and> \<not> chain_ok lib prev (take (Suc i) es) \<and>
       (\<exists>info. break_info r = Some info \<and> hb_event_id info = ge_event_id (es ! i) \<and>
          hb_break_type info = (if event_hash_ok lib (es ! i) then CHAIN_BREAK else HASH_MISMATCH))"
proof (induction es arbitrary: prev)
  case (Cons e es)
  obtain q where q: "check_event lib d e prev t = Inr q" using Cons.prems(1) by (auto split: sum.splits)
  show ?case
  proof (cases "has_break q")
    case True
    then show ?thesis
      using q Cons.prems(1) check_event_break [OF q True] check_event_Inr [OF q] by (intro exI [of _ 0]) auto
  next
    case False
    then have "check_loop lib d n t (Some e) es = Inr r" using q Cons.prems(1) by simp
    from Cons.IH [OF this Cons.prems(2)] obtain i where i: "i < length es" "chain_ok lib (Some e) (take i es)"
      "\<not> chain_ok lib (Some e) (take (Suc i) es)" "\<exists>info. break_info r = Some info \<and>
        hb_event_id info = ge_event_id (es ! i) \<and>
        hb_break_type info = (if event_hash_ok lib (es ! i) then CHAIN_BREAK else HASH_MISMATCH)"
      by blast
    moreover have "event_hash_ok lib e \<and> link_ok prev e" using False check_event_Inr [OF q] by blast
    ultimately show ?thesis by (intro exI [of _ "Suc i"]) simp
  qed
qed auto

section \<open>Properties\<close>

lemma example_hashable: "hashable (example_event i)"
proof -
  have "metadata_ok (ge_metadata (example_event i))"
  proof -
    have "metadata_ok (ge_metadata (example_event 0))" by code_simp
    then show ?thesis by (simp add: metadata_ok_iff example_event_def)
  qed
  then show ?thesis
    by (simp add: hashable_def example_event_def has_hash_def ge_accessors canonical_json_def)
qed

lemma example_chain:
  obtains e f where "chain_events example_lib [example_event 1, example_event 2] ''sha256'' = Inr [e, f]"
    and "chain_ok example_lib None [e, f]"
    and "ge_payload e = [(''task_id'', PyStr ''7'')]" "ge_payload f = [(''task_id'', PyStr ''7'')]"
    and "payload_floats_ok e" "payload_floats_ok f"
proof -
  have h: "\<forall>e\<in>set [example_event 1, example_event 2]. hashable e" using example_hashable by simp
  obtain fs where fs: "chain_events example_lib [example_event 1, example_event 2] ''sha256'' = Inr fs"
    using chain_events_total [OF digest_of_example length_checksum32 h] by blast
  note ok = chain_events_Inr [OF fs]
  then obtain e f where ef: "fs = [e, f]" "same_envelope (example_event 1) e" "same_envelope (example_event 2) f"
    by (auto simp: list_all2_Cons1)
  then have "ge_payload e = [(''task_id'', PyStr ''7'')]" "ge_payload f = [(''task_id'', PyStr ''7'')]"
    by (auto simp: same_envelope_def example_event_def)
  with fs ok ef that show thesis by (simp add: payload_floats_ok_def)
qed

text \<open>
  C2: chaining valid events without hashes, whose payloads can be serialised, over a digest function of
  32 bytes always succeeds; it changes nothing but the hash fields, and the break detector verifies
  every event of the result.
\<close>

theorem chain_events_verified:
  assumes "digest_of lib a = Some d" and "\<And>x. length (d x) = 32" and "\<forall>e\<in>set es. hashable e"
  shows "\<exists>fs. chain_events lib es a = Inr fs \<and> list_all2 same_envelope es fs \<and>
    check_sequence lib detector fs now = Inr \<lparr>has_break = False, break_info = None, events_verified = length es\<rparr>"
proof -
  obtain fs where fs: "chain_events lib es a = Inr fs" using chain_events_total [OF assms] by blast
  note ok = chain_events_Inr [OF fs]
  then have "length fs = length es" using list_all2_lengthD by metis
  then show ?thesis using fs ok check_sequence_ok [of lib fs detector now] by auto
qed

theorem chain_events_verified_witness:
  "\<exists>fs. chain_events example_lib [example_event 1, example_event 2] ''sha256'' = Inr fs \<and>
     check_sequence example_lib ''d'' fs 0 = Inr \<lparr>has_break = False, break_info = None, events_verified = 2\<rparr>"
proof -
  have "\<forall>e\<in>set [example_event 1, example_event 2]. hashable e" using example_hashable by simp
  from chain_events_verified [OF digest_of_example length_checksum32 this, of "''d''" 0]
  show ?thesis by (metis length_Cons list.size(3) numeral_2_eq_2)
qed

text \<open>
  C3: the break detector is exact. Its answer says \<open>no break\<close> just for the sequences whose events carry
  the hash of their content and link to the event before (the first to a genesis hash); a break is
  reported at the first event where the sequence stops being such a chain, with that event's id, as a
  hash mismatch when its own hash is wrong and as a broken link otherwise.
\<close>

theorem check_sequence_exact:
  assumes "check_sequence lib detector es now = Inr r"
  shows "(has_break r \<longleftrightarrow> \<not> chain_ok lib None es) \<and>
    (has_break r \<longrightarrow> (\<exists>i<length es. chain_ok lib None (take i es) \<and> \<not> chain_ok lib None (take (Suc i) es) \<and>
       (\<exists>info. break_info r = Some info \<and> hb_event_id info = ge_event_id (es ! i) \<and>
          hb_break_type info = (if event_hash_ok lib (es ! i) then CHAIN_BREAK else HASH_MISMATCH))))"
proof (intro conjI impI)
  show "has_break r \<longleftrightarrow> \<not> chain_ok lib None es" by (rule check_sequence_Inr [OF assms])
next
  assume break: "has_break r"
  have "check_loop lib detector (length es) now None es = Inr r"
  proof (cases "es = []")
    case True
    then have "r = \<lparr>has_break = False, break_info = None, events_verified = 0\<rparr>"
      using assms by (simp add: check_sequence_def)
    with break show ?thesis by simp
  next
    case False
    with assms show ?thesis by (simp add: check_sequence_def)
  qed
  with break show "\<exists>i<length es. chain_ok lib None (take i es) \<and> \<not> chain_ok lib None (take (Suc i) es) \<and>
       (\<exists>info. break_info r = Some info \<and> hb_event_id info = ge_event_id (es ! i) \<and>
          hb_break_type info = (if event_hash_ok lib (es ! i) then CHAIN_BREAK else HASH_MISMATCH))"
    using check_loop_break by blast
qed

theorem check_sequence_exact_witness:
  "\<exists>r. check_sequence example_lib ''d'' [example_event 1] 0 = Inr r \<and> has_break r \<and> \<not> chain_ok example_lib None [example_event 1]"
proof -
  have r: "check_sequence example_lib ''d'' [example_event 1] 0 =
      Inr (projr (check_sequence example_lib ''d'' [example_event 1] 0))"
    and "has_break (projr (check_sequence example_lib ''d'' [example_event 1] 0))"
    by code_simp+
  with check_sequence_exact [OF r] show ?thesis by blast
qed

text \<open>
  C4: the last hash of a verified chain commits to the whole of it: two verified chains, both not empty,
  that end in the same hash have the same length and event by event the same canonical content, unless
  two of their events exhibit a collision of a digest function or one hashes to the all-zero digest.
\<close>

theorem head_commits_to_chain:
  assumes "check_sequence lib detector es now = Inr \<lparr>has_break = False, break_info = None, events_verified = n\<rparr>"
    and "check_sequence lib detector fs now = Inr \<lparr>has_break = False, break_info = None, events_verified = m\<rparr>"
    and "es \<noteq> []" and "fs \<noteq> []" and "ge_hash (last es) = ge_hash (last fs)"
    and "\<forall>e\<in>set es \<union> set fs. payload_floats_ok e"
  shows "list_all2 same_content es fs \<or> digest_failure lib es fs"
  using chain_commits [OF _ _ assms(3-6)] check_sequence_Inr [OF assms(1)] check_sequence_Inr [OF assms(2)] by simp

theorem head_commits_to_chain_witness:
  "\<exists>fs. chain_events example_lib [example_event 1, example_event 2] ''sha256'' = Inr fs \<and>
     (list_all2 same_content fs fs \<or> digest_failure example_lib fs fs)"
proof (rule example_chain)
  fix e f assume *: "chain_events example_lib [example_event 1, example_event 2] ''sha256'' = Inr [e, f]"
    "chain_ok example_lib None [e, f]" "payload_floats_ok e" "payload_floats_ok f"
  have "list_all2 same_content [e, f] [e, f] \<or> digest_failure example_lib [e, f] [e, f]"
    by (rule head_commits_to_chain [OF check_sequence_ok [OF *(2)] check_sequence_ok [OF *(2)]])
      (use * in auto)
  with * show ?thesis by blast
qed

text \<open>Replacing an event of a verified chain.\<close>

lemma tampered_chain_breaks:
  assumes "chain_ok lib None es" and "i + 1 < length es" and "\<not> same_content (es ! i) e'"
    and "\<forall>e\<in>set es. payload_floats_ok e" and "payload_floats_ok e'"
  shows "(\<forall>n. check_sequence lib detector (es[i := e']) now \<noteq>
      Inr \<lparr>has_break = False, break_info = None, events_verified = n\<rparr>) \<or> digest_failure lib es (es[i := e'])"
proof (rule disjCI)
  assume no_failure: "\<not> digest_failure lib es (es[i := e'])"
  show "\<forall>n. check_sequence lib detector (es[i := e']) now \<noteq>
      Inr \<lparr>has_break = False, break_info = None, events_verified = n\<rparr>"
  proof (intro allI notI)
    fix n assume "check_sequence lib detector (es[i := e']) now =
      Inr \<lparr>has_break = False, break_info = None, events_verified = n\<rparr>"
    from check_sequence_Inr [OF this] have "chain_ok lib None (es[i := e'])" by simp
    moreover have "es \<noteq> []" "es[i := e'] \<noteq> []" "last es = last (es[i := e'])"
      using assms(2) last_list_update [of es i e'] by fastforce+
    moreover have "\<forall>e\<in>set es \<union> set (es[i := e']). payload_floats_ok e"
      using assms(4,5) set_update_subset_insert [of es i e'] by auto
    ultimately have "list_all2 same_content es (es[i := e'])"
      using chain_commits [OF assms(1)] no_failure by metis
    then have "same_content (es ! i) (es[i := e'] ! i)"
      by (rule list_all2_nthD) (use assms(2) in simp)
    then show False using assms(2,3) by simp
  qed
qed

text \<open>
  C1: replacing an event of a verified chain, other than the last, by one with other content makes the
  detector not answer \<open>no break\<close>, whatever hashes the new event carries, unless a digest function fails.
\<close>

theorem tampering_detected:
  assumes "chain_ok lib None es" and "i + 1 < length es" and "\<not> same_content (es ! i) e'"
    and "\<forall>e\<in>set es. payload_floats_ok e" and "payload_floats_ok e'"
  shows "(\<forall>n. check_sequence lib detector (es[i := e']) now \<noteq>
      Inr \<lparr>has_break = False, break_info = None, events_verified = n\<rparr>) \<or> digest_failure lib es (es[i := e'])"
  using tampered_chain_breaks [OF assms] .

theorem tampering_detected_witness:
  "\<exists>fs. chain_events example_lib [example_event 1, example_event 2] ''sha256'' = Inr fs \<and>
     ((\<forall>n. check_sequence example_lib ''d'' (fs[0 := (fs ! 0)\<lparr>ge_payload := []\<rparr>]) 0 \<noteq>
         Inr \<lparr>has_break = False, break_info = None, events_verified = n\<rparr>) \<or>
      digest_failure example_lib fs (fs[0 := (fs ! 0)\<lparr>ge_payload := []\<rparr>]))"
proof (rule example_chain)
  fix e f assume *: "chain_events example_lib [example_event 1, example_event 2] ''sha256'' = Inr [e, f]"
    "chain_ok example_lib None [e, f]" "ge_payload e = [(''task_id'', PyStr ''7'')]"
    "payload_floats_ok e" "payload_floats_ok f"
  then have "\<not> same_content e (e\<lparr>ge_payload := []\<rparr>)" "payload_floats_ok (e\<lparr>ge_payload := []\<rparr>)"
    by (simp_all add: payload_floats_ok_def same_content_def canonical_value_def)
  then have "(\<forall>n. check_sequence example_lib ''d'' ([e, f][0 := ([e, f] ! 0)\<lparr>ge_payload := []\<rparr>]) 0 \<noteq>
         Inr \<lparr>has_break = False, break_info = None, events_verified = n\<rparr>) \<or>
      digest_failure example_lib [e, f] ([e, f][0 := ([e, f] ! 0)\<lparr>ge_payload := []\<rparr>])"
    using tampering_detected [OF *(2), where i = 0 and e' = "e\<lparr>ge_payload := []\<rparr>" and detector = "''d''" and now = 0] *
    by simp
  with * show ?thesis by blast
qed

end
