(* ===== verification/Merkle.thy ===== *)
theory Merkle
  imports Hash_Algorithms "HOL-Library.While_Combinator"
begin

unbundle bit_operations_syntax

text \<open>
  Merkle trees over event hashes and their inclusion proofs
  (\<open>src/domain/governance/events/merkle_tree.py\<close>). A leaf hashes the byte 0 and the event hash, an
  inner node the byte 1 and its two children; the leaves are padded to a power of two by repeating
  the last one.
\<close>

record merkle_proof =
  mp_event_id :: uuid
  mp_event_hash :: string
  mp_merkle_path :: "string list"
  mp_merkle_root :: string
  mp_epoch :: int
  mp_leaf_index :: int
  mp_algorithm :: string

record merkle_verification_result =
  mv_is_valid :: bool
  mv_reconstructed_root :: string
  mv_error_message :: string

definition leaf_input :: "string \<Rightarrow> bytes" where
  "leaf_input event_hash = 0 # str_encode event_hash"

definition node_input :: "string \<Rightarrow> string \<Rightarrow> bytes" where
  "node_input left right = 1 # str_encode left @ str_encode right"

definition compute_leaf_hash :: "hash_lib \<Rightarrow> string \<Rightarrow> string \<Rightarrow> exn + string" where
  "compute_leaf_hash lib event_hash algorithm =
     (case get_hasher lib algorithm of
        Inl e \<Rightarrow> Inl e
      | Inr hasher \<Rightarrow>
          (case hasher (leaf_input event_hash) of
             Inl e \<Rightarrow> Inl e
           | Inr digest \<Rightarrow> Inr (prefixed algorithm digest)))"

definition compute_internal_hash :: "hash_lib \<Rightarrow> string \<Rightarrow> string \<Rightarrow> string \<Rightarrow> exn + string" where
  "compute_internal_hash lib left right algorithm =
     (case get_hasher lib algorithm of
        Inl e \<Rightarrow> Inl e
      | Inr hasher \<Rightarrow>
          (case hasher (node_input left right) of
             Inl e \<Rightarrow> Inl e
           | Inr digest \<Rightarrow> Inr (prefixed algorithm digest)))"

definition next_power_of_two :: "int \<Rightarrow> int" where
  "next_power_of_two n =
     (if n \<le> 0 then 1
      else if n AND (n - 1) = 0 then n
      else while (\<lambda>power. power < n) (\<lambda>power. power * 2) 1)"

section \<open>Building the tree\<close>

record merkle_tree =
  mt_algorithm :: string
  mt_original_leaf_count :: int
  mt_event_hashes :: "string list"
  mt_leaves :: "string list"
  mt_tree :: "string list list"

definition pad_to_power_of_two :: "string list \<Rightarrow> string list" where
  "pad_to_power_of_two leaves =
     (if leaves = [] then []
      else
        let target = next_power_of_two (int (length leaves)) in
        if int (length leaves) = target then leaves
        else leaves @ replicate (nat (target - int (length leaves))) (last leaves))"

text \<open>The inner loop, \<open>for i in range(0, len(current_level), 2)\<close>.\<close>

fun next_level :: "hash_lib \<Rightarrow> string \<Rightarrow> string list \<Rightarrow> exn + string list" where
  "next_level lib algorithm [] = Inr []"
| "next_level lib algorithm [left] = Inl (Exn IndexError ''list index out of range'')"
| "next_level lib algorithm (left # right # rest) =
     (case compute_internal_hash lib left right algorithm of
        Inl e \<Rightarrow> Inl e
      | Inr parent \<Rightarrow>
          (case next_level lib algorithm rest of
             Inl e \<Rightarrow> Inl e
           | Inr parents \<Rightarrow> Inr (parent # parents)))"

lemma next_level_length: "next_level lib a xs = Inr ys \<Longrightarrow> length xs = 2 * length ys"
  by (induction lib a xs arbitrary: ys rule: next_level.induct) (auto split: sum.splits)

text \<open>The outer loop, \<open>while len(current_level) > 1\<close>: the levels above the current one.\<close>

function upper_levels :: "hash_lib \<Rightarrow> string \<Rightarrow> string list \<Rightarrow> exn + string list list" where
  "upper_levels lib algorithm current_level =
     (if length current_level > 1 then
        (case next_level lib algorithm current_level of
           Inl e \<Rightarrow> Inl e
         | Inr level \<Rightarrow>
             (case upper_levels lib algorithm level of
                Inl e \<Rightarrow> Inl e
              | Inr levels \<Rightarrow> Inr (level # levels)))
      else Inr [])"
  by pat_completeness auto
termination
  by (relation "measure (\<lambda>(_, _, xs). length xs)") (auto, drule next_level_length, auto)

declare upper_levels.simps [simp del]

definition build_tree :: "hash_lib \<Rightarrow> string \<Rightarrow> string list \<Rightarrow> exn + string list list" where
  "build_tree lib algorithm leaves =
     (if leaves = [] then Inr [[]]
      else
        let padded_leaves = pad_to_power_of_two leaves in
        (case upper_levels lib algorithm padded_leaves of
           Inl e \<Rightarrow> Inl e
         | Inr levels \<Rightarrow> Inr (padded_leaves # levels)))"

fun leaf_hashes :: "hash_lib \<Rightarrow> string \<Rightarrow> string list \<Rightarrow> exn + string list" where
  "leaf_hashes lib algorithm [] = Inr []"
| "leaf_hashes lib algorithm (h # hs) =
     (case compute_leaf_hash lib h algorithm of
        Inl e \<Rightarrow> Inl e
      | Inr l \<Rightarrow>
          (case leaf_hashes lib algorithm hs of Inl e \<Rightarrow> Inl e | Inr ls \<Rightarrow> Inr (l # ls)))"

definition mk_merkle_tree :: "hash_lib \<Rightarrow> string list \<Rightarrow> string \<Rightarrow> exn + merkle_tree" where
  "mk_merkle_tree lib event_hashes algorithm =
     (if algorithm \<notin> supported_algorithms then
        Inl (Exn ValueError (''Unsupported hash algorithm: '' @ py_repr algorithm @ ''. '' @
          ''Supported: '' @ supported_list))
      else
        (case leaf_hashes lib algorithm event_hashes of
           Inl e \<Rightarrow> Inl e
         | Inr leaves \<Rightarrow>
             (case build_tree lib algorithm leaves of
                Inl e \<Rightarrow> Inl e
              | Inr tree \<Rightarrow> Inr \<lparr>mt_algorithm = algorithm,
                  mt_original_leaf_count = int (length event_hashes),
                  mt_event_hashes = event_hashes, mt_leaves = leaves, mt_tree = tree\<rparr>)))"

definition merkle_root :: "merkle_tree \<Rightarrow> string" where
  "merkle_root t =
     (if mt_tree t = [] \<or> last (mt_tree t) = [] then mt_algorithm t @ '':empty''
      else hd (last (mt_tree t)))"

definition compute_merkle_root :: "hash_lib \<Rightarrow> string list \<Rightarrow> string \<Rightarrow> exn + string" where
  "compute_merkle_root lib event_hashes algorithm =
     (case mk_merkle_tree lib event_hashes algorithm of
        Inl e \<Rightarrow> Inl e | Inr tree \<Rightarrow> Inr (merkle_root tree))"

section \<open>Proofs\<close>

text \<open>The loop of \<open>generate_proof\<close> over the levels below the root.\<close>

fun sibling_path :: "string list list \<Rightarrow> int \<Rightarrow> string list" where
  "sibling_path [] index = []"
| "sibling_path (level # levels) index =
     (let sibling_index = index XOR 1 in
      (if sibling_index < int (length level) then [level ! nat sibling_index] else [])
        @ sibling_path levels (index div 2))"

definition generate_proof :: "merkle_tree \<Rightarrow> int \<Rightarrow> uuid \<Rightarrow> int \<Rightarrow> exn + merkle_proof" where
  "generate_proof t leaf_index event_id epoch =
     (if mt_tree t = [] \<or> mt_event_hashes t = [] then
        Inl (Exn ValueError ''Cannot generate proof from empty tree'')
      else if leaf_index < 0 \<or> mt_original_leaf_count t \<le> leaf_index then
        Inl (Exn IndexError (''Leaf index '' @ show_int leaf_index @ '' out of range [0, '' @
          show_int (mt_original_leaf_count t) @ '')''))
      else Inr \<lparr>mp_event_id = event_id, mp_event_hash = mt_event_hashes t ! nat leaf_index,
        mp_merkle_path = sibling_path (butlast (mt_tree t)) leaf_index,
        mp_merkle_root = merkle_root t, mp_epoch = epoch, mp_leaf_index = leaf_index,
        mp_algorithm = mt_algorithm t\<rparr>)"

text \<open>The loop of \<open>verify_merkle_proof\<close>.\<close>

fun walk_path :: "hash_lib \<Rightarrow> string \<Rightarrow> string \<Rightarrow> int \<Rightarrow> string list \<Rightarrow> exn + string" where
  "walk_path lib algorithm current index [] = Inr current"
| "walk_path lib algorithm current index (sibling # path) =
     (case (if index mod 2 = 0 then compute_internal_hash lib current sibling algorithm
            else compute_internal_hash lib sibling current algorithm) of
        Inl e \<Rightarrow> Inl e
      | Inr parent \<Rightarrow> walk_path lib algorithm parent (index div 2) path)"

definition verify_merkle_proof :: "hash_lib \<Rightarrow> merkle_proof \<Rightarrow> merkle_verification_result" where
  "verify_merkle_proof lib prf =
     (if mp_algorithm prf \<notin> supported_algorithms then
        \<lparr>mv_is_valid = False, mv_reconstructed_root = [],
         mv_error_message = ''Unsupported algorithm: '' @ mp_algorithm prf\<rparr>
      else
        (case
           (case compute_leaf_hash lib (mp_event_hash prf) (mp_algorithm prf) of
              Inl e \<Rightarrow> Inl e
            | Inr current \<Rightarrow>
                walk_path lib (mp_algorithm prf) current (mp_leaf_index prf) (mp_merkle_path prf)) of
           Inl e \<Rightarrow> \<lparr>mv_is_valid = False, mv_reconstructed_root = [],
             mv_error_message = ''Verification error: '' @ exn_str e\<rparr>
         | Inr current \<Rightarrow>
             let is_valid = (current = mp_merkle_root prf) in
             \<lparr>mv_is_valid = is_valid, mv_reconstructed_root = current,
              mv_error_message = (if is_valid then []
                else ''Reconstructed root does not match provided merkle_root'')\<rparr>))"

section \<open>The padding\<close>

text \<open>The target is the least power of two that is at least \<open>n\<close>: the one below twice \<open>n\<close>.\<close>

lemma and_pred_power:
  assumes "0 < (n::int)" and "n AND (n - 1) = 0"
  shows "\<exists>k. n = 2 ^ k"
  using assms
proof (induction "nat n" arbitrary: n rule: less_induct)
  case less
  show ?case
  proof (cases "even n")
    case True
    then obtain q where q: "n = 2 * q" by (auto elim: evenE)
    have h: "(n - 1) div 2 = q - 1" using q by simp
    have "n AND (n - 1) = 2 * (q AND (q - 1))"
      by (subst and_rec) (simp only: h, simp add: q)
    then have "q AND (q - 1) = 0" using less.prems(2) by simp
    moreover have "0 < q" "nat q < nat n" using q less.prems(1) by auto
    ultimately obtain k where "q = 2 ^ k" using less.hyps by blast
    then have "n = 2 ^ Suc k" using q by simp
    then show ?thesis by blast
  next
    case False
    then obtain q where q: "n = 2 * q + 1" by (auto elim: oddE)
    have "n AND (n - 1) = 2 * (q AND q)"
      by (subst and_rec) (simp add: q)
    then have "n = 2 ^ 0" using less.prems(2) q by simp
    then show ?thesis by blast
  qed
qed

lemma next_power_of_two_spec:
  assumes "0 < n"
  shows "\<exists>k. next_power_of_two n = 2 ^ k \<and> n \<le> 2 ^ k \<and> 2 ^ k < 2 * n"
proof (cases "n AND (n - 1) = 0")
  case True
  with assms and_pred_power show ?thesis by (force simp: next_power_of_two_def)
next
  case False
  let ?w = "while (\<lambda>power. power < n) (\<lambda>power. power * 2) 1"
  have "\<exists>k. ?w = 2 ^ k \<and> n \<le> 2 ^ k \<and> 2 ^ k < 2 * n"
  proof (rule while_rule [where P = "\<lambda>p. 1 \<le> p \<and> p < 2 * n \<and> (\<exists>k. p = 2 ^ k)"
        and r = "measure (\<lambda>p. nat (n - p))"])
    show "1 \<le> p * 2 \<and> p * 2 < 2 * n \<and> (\<exists>k. p * 2 = 2 ^ k)"
      if "1 \<le> p \<and> p < 2 * n \<and> (\<exists>k. p = 2 ^ k)" "p < n" for p
      using that by (auto intro: power_Suc2 [symmetric])
    show "\<exists>k. p = 2 ^ k \<and> n \<le> 2 ^ k \<and> 2 ^ k < 2 * n"
      if "1 \<le> p \<and> p < 2 * n \<and> (\<exists>k. p = 2 ^ k)" "\<not> p < n" for p
      using that by auto
  qed (use assms in \<open>auto intro: exI [of _ 0]\<close>)
  with assms False show ?thesis by (simp add: next_power_of_two_def)
qed

lemma power_window_unique:
  assumes "n \<le> 2 ^ k" "2 ^ k < 2 * n" "n \<le> 2 ^ j" "2 ^ j < 2 * (n::int)"
  shows "k = j"
proof -
  have False if "(2::int) ^ (a::nat) < 2 * n" "n \<le> 2 ^ b" "b < a" for a b
  proof -
    have "(2::int) * 2 ^ b \<le> 2 ^ a"
      using that(3) power_increasing [of "Suc b" a "2::int"] by simp
    with that show False by simp
  qed
  then show ?thesis using assms by (metis linorder_neqE_nat)
qed

lemma pad_to_power_of_two_spec:
  assumes "xs \<noteq> []"
  obtains k m where "pad_to_power_of_two xs = xs @ replicate m (last xs)"
    and "length (pad_to_power_of_two xs) = 2 ^ k"
    and "int (length xs) \<le> 2 ^ k" and "2 ^ k < 2 * int (length xs)"
proof -
  let ?n = "int (length xs)"
  from assms have "0 < ?n" by simp
  then obtain k where k: "next_power_of_two ?n = 2 ^ k" "?n \<le> 2 ^ k" "2 ^ k < 2 * ?n"
    using next_power_of_two_spec by blast
  have "pad_to_power_of_two xs = xs @ replicate (nat (2 ^ k - ?n)) (last xs)"
    using assms k by (auto simp: pad_to_power_of_two_def)
  moreover from this have "int (length (pad_to_power_of_two xs)) = 2 ^ k"
    using k(2) by simp
  then have "length (pad_to_power_of_two xs) = 2 ^ k"
    by (metis of_nat_eq_iff of_nat_numeral of_nat_power)
  ultimately show thesis using that k by blast
qed

section \<open>The tree over available digests\<close>

text \<open>
  When the digest function of the tree's algorithm is available no step raises, and the levels are
  those of the following functions over the node operation.
\<close>

fun pairs :: "(string \<Rightarrow> string \<Rightarrow> string) \<Rightarrow> string list \<Rightarrow> string list" where
  "pairs f (x # y # xs) = f x y # pairs f xs"
| "pairs f [x] = []"
| "pairs f [] = []"

fun tower :: "(string \<Rightarrow> string \<Rightarrow> string) \<Rightarrow> nat \<Rightarrow> string list \<Rightarrow> string list list" where
  "tower f 0 xs = []"
| "tower f (Suc k) xs = pairs f xs # tower f k (pairs f xs)"

fun apex :: "(string \<Rightarrow> string \<Rightarrow> string) \<Rightarrow> nat \<Rightarrow> string list \<Rightarrow> string" where
  "apex f 0 xs = hd xs"
| "apex f (Suc k) xs = apex f k (pairs f xs)"

fun climb :: "(string \<Rightarrow> string \<Rightarrow> string) \<Rightarrow> string \<Rightarrow> int \<Rightarrow> string list \<Rightarrow> string" where
  "climb f c i [] = c"
| "climb f c i (s # p) = climb f (if i mod 2 = 0 then f c s else f s c) (i div 2) p"

definition node_of :: "(bytes \<Rightarrow> bytes) \<Rightarrow> string \<Rightarrow> string \<Rightarrow> string \<Rightarrow> string" where
  "node_of d a l r = prefixed a (d (node_input l r))"

definition leaf_of :: "(bytes \<Rightarrow> bytes) \<Rightarrow> string \<Rightarrow> string \<Rightarrow> string" where
  "leaf_of d a h = prefixed a (d (leaf_input h))"

lemma get_hasher_available:
  assumes "digest_of lib a = Some d"
  shows "\<exists>h. get_hasher lib a = Inr h \<and> (\<forall>x. h x = Inr (d x))"
  using assms by (auto simp: get_hasher_def digest_of_def supported_algorithms_def
      blake3_hasher_def sha256_hasher_def split: if_splits)

lemma digest_of_supported: "digest_of lib a = Some d \<Longrightarrow> a \<in> supported_algorithms"
  by (auto simp: digest_of_def supported_algorithms_def split: if_splits)

lemma compute_internal_hash_available:
  "digest_of lib a = Some d \<Longrightarrow> compute_internal_hash lib l r a = Inr (node_of d a l r)"
  using get_hasher_available [of lib a d] by (auto simp: compute_internal_hash_def node_of_def)

lemma compute_leaf_hash_available:
  "digest_of lib a = Some d \<Longrightarrow> compute_leaf_hash lib h a = Inr (leaf_of d a h)"
  using get_hasher_available [of lib a d] by (auto simp: compute_leaf_hash_def leaf_of_def)

lemma leaf_hashes_available:
  "digest_of lib a = Some d \<Longrightarrow> leaf_hashes lib a hs = Inr (map (leaf_of d a) hs)"
  by (induction hs) (simp_all add: compute_leaf_hash_available)

lemma walk_path_available:
  "digest_of lib a = Some d \<Longrightarrow> walk_path lib a c i p = Inr (climb (node_of d a) c i p)"
  by (induction p arbitrary: c i) (simp_all add: compute_internal_hash_available)

lemma next_level_available:
  "digest_of lib a = Some d \<Longrightarrow> even (length xs) \<Longrightarrow> next_level lib a xs = Inr (pairs (node_of d a) xs)"
  by (induction lib a xs rule: next_level.induct) (simp_all add: compute_internal_hash_available)

lemma length_pairs [simp]: "length (pairs f xs) = length xs div 2"
  by (induction f xs rule: pairs.induct) simp_all

lemma upper_levels_available:
  "digest_of lib a = Some d \<Longrightarrow> length xs = 2 ^ k \<Longrightarrow> upper_levels lib a xs = Inr (tower (node_of d a) k xs)"
proof (induction k arbitrary: xs)
  case 0
  then show ?case by (subst upper_levels.simps) simp
next
  case (Suc k)
  then have "1 < length xs" "even (length xs)"
    using one_less_power [of "2::nat" "Suc k"] by (simp_all del: power_Suc)
  moreover have "length (pairs (node_of d a) xs) = 2 ^ k" using Suc.prems(2) by simp
  ultimately show ?case
    using Suc by (subst upper_levels.simps) (simp add: next_level_available)
qed

lemma last_tower: "length xs = 2 ^ k \<Longrightarrow> last (xs # tower f k xs) = [apex f k xs]"
proof (induction k arbitrary: xs)
  case 0
  then show ?case by (cases xs) simp_all
next
  case (Suc k)
  then have "length (pairs f xs) = 2 ^ k" by simp
  from Suc.IH [OF this] show ?case by simp
qed

text \<open>The tree that the constructor builds over available digests.\<close>

lemma mk_merkle_tree_available:
  assumes "digest_of lib a = Some d" and "hs \<noteq> []"
  obtains k t where "mk_merkle_tree lib hs a = Inr t"
    and "mt_algorithm t = a" and "mt_original_leaf_count t = int (length hs)" and "mt_event_hashes t = hs"
    and "let xs = pad_to_power_of_two (map (leaf_of d a) hs) in
      length xs = 2 ^ k \<and> mt_tree t = xs # tower (node_of d a) k xs"
    and "merkle_root t = apex (node_of d a) k (pad_to_power_of_two (map (leaf_of d a) hs))"
    and "int (length hs) \<le> 2 ^ k" and "2 ^ k < 2 * int (length hs)"
proof -
  define xs where "xs = pad_to_power_of_two (map (leaf_of d a) hs)"
  from assms(2) obtain k where k: "length xs = 2 ^ k" "int (length hs) \<le> 2 ^ k" "2 ^ k < 2 * int (length hs)"
    using pad_to_power_of_two_spec [of "map (leaf_of d a) hs"] unfolding xs_def
    by (metis Nil_is_map_conv length_map)
  let ?t = "\<lparr>mt_algorithm = a, mt_original_leaf_count = int (length hs), mt_event_hashes = hs,
    mt_leaves = map (leaf_of d a) hs, mt_tree = xs # tower (node_of d a) k xs\<rparr>"
  have "build_tree lib a (map (leaf_of d a) hs) = Inr (xs # tower (node_of d a) k xs)"
    using assms upper_levels_available [OF assms(1) k(1)] by (simp add: build_tree_def xs_def Let_def)
  then have "mk_merkle_tree lib hs a = Inr ?t"
    using assms leaf_hashes_available digest_of_supported by (simp add: mk_merkle_tree_def)
  moreover have "merkle_root ?t = apex (node_of d a) k xs"
    using last_tower [OF k(1), of "node_of d a"] by (simp add: merkle_root_def del: last.simps)
  ultimately show thesis
    using that [of ?t k] k by (simp add: xs_def Let_def)
qed

section \<open>Completeness of the proofs\<close>

lemma pairs_nth: "2 * i + 1 < length xs \<Longrightarrow> pairs f xs ! i = f (xs ! (2 * i)) (xs ! (2 * i + 1))"
proof (induction f xs arbitrary: i rule: pairs.induct)
  case (1 f x y xs)
  then show ?case by (cases i) simp_all
qed simp_all

lemma xor_one: "i XOR 1 = (if i mod 2 = 0 then i + 1 else i - 1)" for i :: int
  by (simp add: xor_one_eq even_iff_mod_2_eq_zero)

lemma climb_sibling_path:
  "length xs = 2 ^ k \<Longrightarrow> 0 \<le> i \<Longrightarrow> i < 2 ^ k \<Longrightarrow>
     climb f (xs ! nat i) i (sibling_path (butlast (xs # tower f k xs)) i) = apex f k xs"
proof (induction k arbitrary: xs i)
  case 0
  then show ?case by (cases xs) simp_all
next
  case (Suc k)
  let ?ys = "pairs f xs"
  have len: "length ?ys = 2 ^ k" using Suc.prems(1) by simp
  define j where "j = nat (i div 2)"
  have j: "2 * j + 1 < length xs" "int j = i div 2"
  proof -
    have "int (length xs) = 2 * 2 ^ k" using Suc.prems(1) by simp
    moreover show "int j = i div 2" using Suc.prems(2) by (simp add: j_def)
    moreover have "i div 2 < 2 ^ k" using Suc.prems(3) by simp
    ultimately show "2 * j + 1 < length xs" by linarith
  qed
  have IH: "climb f (?ys ! j) (i div 2) (sibling_path (butlast (?ys # tower f k ?ys)) (i div 2)) = apex f k ?ys"
    using Suc.IH [OF len, of "i div 2"] Suc.prems j_def by simp
  have split: "butlast (xs # tower f (Suc k) xs) = xs # butlast (?ys # tower f k ?ys)" by simp
  show ?case
  proof (cases "i mod 2 = 0")
    case True
    then have "i = 2 * int j" using j(2) mult_div_mod_eq [of 2 i] by simp
    then have "nat i = 2 * j" "i + 1 < int (length xs)" "nat (i + 1) = 2 * j + 1"
      using j(1) by simp_all
    then show ?thesis
      using True IH pairs_nth [OF j(1), of f] Suc.prems
      by (simp only: simp_thms split sibling_path.simps xor_one Let_def if_True climb.simps append_Cons append_Nil apex.simps)
  next
    case False
    then have "i = 2 * int j + 1" using j(2) mult_div_mod_eq [of 2 i] by presburger
    then have "nat i = 2 * j + 1" "i - 1 < int (length xs)" "nat (i - 1) = 2 * j"
      using j(1) by simp_all
    then show ?thesis
      using False IH pairs_nth [OF j(1), of f] Suc.prems
      by (simp only: simp_thms split sibling_path.simps xor_one Let_def if_True if_False climb.simps append_Cons append_Nil apex.simps)
  qed
qed

section \<open>Soundness of the proofs\<close>

text \<open>The inputs hashed for the nodes of a tower, and along a path.\<close>

fun pair_inputs :: "string list \<Rightarrow> bytes list" where
  "pair_inputs (x # y # xs) = node_input x y # pair_inputs xs"
| "pair_inputs [x] = []"
| "pair_inputs [] = []"

definition tree_inputs :: "merkle_tree \<Rightarrow> bytes list" where
  "tree_inputs t = map leaf_input (mt_event_hashes t) @ concat (map pair_inputs (mt_tree t))"

fun path_inputs :: "(bytes \<Rightarrow> bytes) \<Rightarrow> string \<Rightarrow> string \<Rightarrow> int \<Rightarrow> string list \<Rightarrow> bytes list" where
  "path_inputs d a c i [] = []"
| "path_inputs d a c i (s # p) =
     (let x = (if i mod 2 = 0 then node_input c s else node_input s c)
      in x # path_inputs d a (prefixed a (d x)) (i div 2) p)"

definition proof_inputs :: "(bytes \<Rightarrow> bytes) \<Rightarrow> merkle_proof \<Rightarrow> bytes list" where
  "proof_inputs d prf = leaf_input (mp_event_hash prf) #
     path_inputs d (mp_algorithm prf) (leaf_of d (mp_algorithm prf) (mp_event_hash prf))
       (mp_leaf_index prf) (mp_merkle_path prf)"

text \<open>Two different inputs, one hashed by the tree and one by the verifier, with one digest.\<close>

definition merkle_collision :: "(bytes \<Rightarrow> bytes) \<Rightarrow> bytes set \<Rightarrow> bytes set \<Rightarrow> bool" where
  "merkle_collision d X Y \<longleftrightarrow> (\<exists>x\<in>X. \<exists>y\<in>Y. x \<noteq> y \<and> d x = d y)"

lemma merkle_collisionI:
  "x \<in> X \<Longrightarrow> y \<in> Y \<Longrightarrow> x \<noteq> y \<Longrightarrow> d x = d y \<Longrightarrow> merkle_collision d X Y"
  unfolding merkle_collision_def by blast

lemma merkle_collision_mono:
  "merkle_collision d X Y \<Longrightarrow> X \<subseteq> X' \<Longrightarrow> Y \<subseteq> Y' \<Longrightarrow> merkle_collision d X' Y'"
  unfolding merkle_collision_def by blast

fun tower_inputs :: "(string \<Rightarrow> string \<Rightarrow> string) \<Rightarrow> nat \<Rightarrow> string list \<Rightarrow> bytes set" where
  "tower_inputs f 0 xs = {}"
| "tower_inputs f (Suc k) xs = set (pair_inputs xs) \<union> tower_inputs f k (pairs f xs)"

lemma tower_inputs_concat:
  "length xs = 2 ^ k \<Longrightarrow> tower_inputs f k xs = set (concat (map pair_inputs (xs # tower f k xs)))"
proof (induction k arbitrary: xs)
  case 0
  then show ?case by (cases xs) simp_all
next
  case (Suc k)
  then have "length (pairs f xs) = 2 ^ k" by simp
  from Suc.IH [OF this] show ?case by simp
qed

text \<open>A tower over two halves is a node over the towers of the halves.\<close>

lemma pairs_take_drop:
  "pairs f (take (2 * n) xs) = take n (pairs f xs)"
  "pairs f (drop (2 * n) xs) = drop n (pairs f xs)"
proof (induction f xs arbitrary: n rule: pairs.induct)
  case (1 f x y xs)
  { case 1 show ?case using "1.IH"(1) [of "n - 1"] by (cases n) simp_all }
  { case 2 show ?case using "1.IH"(2) [of "n - 1"] by (cases n) simp_all }
next
  case (2 f x)
  { case 1 show ?case by (cases n) simp_all }
  { case 2 show ?case by (cases n) simp_all }
qed simp_all

lemma pair_inputs_take_drop:
  "set (pair_inputs (take (2 * n) xs)) \<union> set (pair_inputs (drop (2 * n) xs)) \<subseteq> set (pair_inputs xs)"
proof (induction xs arbitrary: n rule: pair_inputs.induct)
  case (1 x y xs)
  show ?case using "1.IH" [of "n - 1"] by (cases n) auto
next
  case (2 x)
  show ?case by (cases n) simp_all
qed simp

lemma apex_halves:
  assumes "length xs = 2 ^ Suc k"
  shows "apex f (Suc k) xs = f (apex f k (take (2 ^ k) xs)) (apex f k (drop (2 ^ k) xs))"
    and "node_input (apex f k (take (2 ^ k) xs)) (apex f k (drop (2 ^ k) xs)) \<in> tower_inputs f (Suc k) xs"
    and "tower_inputs f k (take (2 ^ k) xs) \<union> tower_inputs f k (drop (2 ^ k) xs) \<subseteq> tower_inputs f (Suc k) xs"
  using assms
proof (induction k arbitrary: xs)
  case 0
  {
    case 1 then show ?case
      by (cases xs rule: pair_inputs.cases) auto
  next
    case 2 then show ?case by (cases xs rule: pair_inputs.cases) auto
  next
    case 3 then show ?case by simp
  }
next
  case (Suc k)
  {
    case 1
    then show ?case
      using Suc.IH(1) [of "pairs f xs"] by (simp add: pairs_take_drop [of f "2 ^ k", simplified])
  next
    case 2
    then show ?case
      using Suc.IH(2) [of "pairs f xs"] by (simp add: pairs_take_drop [of f "2 ^ k", simplified])
  next
    case 3
    then show ?case
      using Suc.IH(3) [of "pairs f xs"] pair_inputs_take_drop [of "2 ^ k" xs]
      by (auto simp: pairs_take_drop [of f "2 ^ k", simplified])
  }
qed

lemma climb_snoc:
  "climb f c i (p @ [s]) =
     (if i div 2 ^ length p mod 2 = 0 then f (climb f c i p) s else f s (climb f c i p))"
  by (induction p arbitrary: c i) (simp_all add: zdiv_zmult2_eq)

lemma path_inputs_snoc:
  "path_inputs d a c i (p @ [s]) = path_inputs d a c i p @
     [if i div 2 ^ length p mod 2 = 0 then node_input (climb (node_of d a) c i p) s
      else node_input s (climb (node_of d a) c i p)]"
  by (induction p arbitrary: c i) (simp_all add: zdiv_zmult2_eq Let_def node_of_def)

text \<open>Every hash of a tower and of a path is a prefixed digest, so all have one length.\<close>

lemma apex_prefixed:
  "length xs = 2 ^ k \<Longrightarrow> \<forall>x\<in>set xs. \<exists>y. x = prefixed a (d y) \<Longrightarrow> \<exists>y. apex (node_of d a) k xs = prefixed a (d y)"
proof (induction k arbitrary: xs)
  case 0
  then show ?case by (cases xs) auto
next
  case (Suc k)
  have "\<forall>x\<in>set (pairs (node_of d a) xs). \<exists>y. x = prefixed a (d y)"
    by (induction "node_of d a" xs rule: pairs.induct) (auto simp: node_of_def)
  then show ?case using Suc by simp
qed

lemma climb_prefixed:
  "\<exists>y. c = prefixed a (d y) \<Longrightarrow> \<exists>y. climb (node_of d a) c i p = prefixed a (d y)"
proof (induction p arbitrary: c i)
  case (Cons s p)
  have "\<exists>y. (if i mod 2 = 0 then node_of d a c s else node_of d a s c) = prefixed a (d y)"
    by (auto simp: node_of_def)
  then show ?case using Cons.IH by simp
qed simp

lemma prefixed_same_algorithm: "prefixed a x = prefixed a y \<longleftrightarrow> x = y"
  using bytes_hex_inj by (auto simp: prefixed_def)

lemma length_prefixed: "length (prefixed a x) = length a + 1 + 2 * length x"
  by (simp add: prefixed_def)

lemma node_input_eq_left: "node_input l r = node_input l' r' \<Longrightarrow> length l = length l' \<Longrightarrow> l = l'"
  by (simp add: node_input_def str_encode_inj)

lemma node_input_eq_right: "node_input l r = node_input l' r' \<Longrightarrow> length r = length r' \<Longrightarrow> r = r'"
  by (simp add: node_input_def str_encode_inj)

lemma leaf_node_input: "leaf_input h \<noteq> node_input l r"
  by (simp add: leaf_input_def node_input_def)

lemma mod_power_Suc:
  "(i::int) mod 2 ^ Suc k = (if i div 2 ^ k mod 2 = 0 then i mod 2 ^ k else 2 ^ k + i mod 2 ^ k)"
  using zmod_zmult2_eq [of 2 i "2 ^ k"] by (auto simp: mult.commute not_mod_2_eq_0_eq_1)

lemma climb_sound:
  assumes same_length: "\<And>x y. length (d x) = length (d y)"
  shows "length xs = 2 ^ k \<Longrightarrow> set xs \<subseteq> leaf_of d a ` H \<Longrightarrow>
      climb (node_of d a) (leaf_of d a h) i p = apex (node_of d a) k xs \<Longrightarrow>
    length p = k \<and> xs ! nat (i mod 2 ^ k) = leaf_of d a h \<or>
    merkle_collision d (leaf_input ` H \<union> tower_inputs (node_of d a) k xs)
      (set (leaf_input h # path_inputs d a (leaf_of d a h) i p))"
proof (induction k arbitrary: xs p)
  case 0
  then obtain h0 where xs: "xs = [leaf_of d a h0]" "h0 \<in> H"
    by (cases xs) auto
  show ?case
  proof (cases p rule: rev_cases)
    case Nil
    with 0 xs show ?thesis by simp
  next
    case (snoc ps s)
    let ?cur = "climb (node_of d a) (leaf_of d a h) i ps"
    let ?inp = "if i div 2 ^ length ps mod 2 = 0 then node_input ?cur s else node_input s ?cur"
    have inp: "?inp \<in> set (path_inputs d a (leaf_of d a h) i p)" by (simp add: snoc path_inputs_snoc)
    have dig: "d (leaf_input h0) = d ?inp"
      using "0.prems"(3) unfolding snoc xs climb_snoc
      by (simp add: node_of_def leaf_of_def prefixed_same_algorithm split: if_splits)
    have "leaf_input h0 \<noteq> ?inp" by (simp add: leaf_node_input)
    then have "merkle_collision d (leaf_input ` H \<union> tower_inputs (node_of d a) 0 xs)
        (set (leaf_input h # path_inputs d a (leaf_of d a h) i p))"
      by (rule merkle_collisionI [rotated 2]) (use xs(2) inp dig in simp_all)
    then show ?thesis ..
  qed
next
  case (Suc k)
  let ?N = "node_of d a" and ?c = "leaf_of d a h"
  let ?ls = "take (2 ^ k) xs" and ?rs = "drop (2 ^ k) xs"
  let ?l = "apex ?N k ?ls" and ?r = "apex ?N k ?rs"
  note halves = apex_halves [OF Suc.prems(1), of ?N]
  have len: "length ?ls = 2 ^ k" "length ?rs = 2 ^ k" using Suc.prems(1) by simp_all
  have sub: "set ?ls \<subseteq> leaf_of d a ` H" "set ?rs \<subseteq> leaf_of d a ` H"
    using Suc.prems(2) by (auto dest: in_set_takeD in_set_dropD)
  show ?case
  proof (cases p rule: rev_cases)
    case Nil
    have dig: "d (node_input ?l ?r) = d (leaf_input h)"
      using Suc.prems(3) unfolding Nil halves(1)
      by (simp add: node_of_def leaf_of_def prefixed_same_algorithm)
    have "node_input ?l ?r \<noteq> leaf_input h" using leaf_node_input by metis
    then have "merkle_collision d (leaf_input ` H \<union> tower_inputs ?N (Suc k) xs)
        (set (leaf_input h # path_inputs d a ?c i p))"
      by (rule merkle_collisionI [rotated 2]) (use halves(2) dig in simp_all)
    then show ?thesis ..
  next
    case (snoc ps s)
    let ?cur = "climb ?N ?c i ps"
    let ?even = "i div 2 ^ length ps mod 2 = 0"
    let ?inp = "if ?even then node_input ?cur s else node_input s ?cur"
    have inp: "?inp \<in> set (path_inputs d a ?c i p)" by (simp add: snoc path_inputs_snoc)
    have dig: "d (node_input ?l ?r) = d ?inp"
      using Suc.prems(3) unfolding snoc halves(1) climb_snoc
      by (simp add: node_of_def prefixed_same_algorithm split: if_splits)
    show ?thesis
    proof (cases "?inp = node_input ?l ?r")
      case False
      then have "node_input ?l ?r \<noteq> ?inp" by metis
      then have "merkle_collision d (leaf_input ` H \<union> tower_inputs ?N (Suc k) xs)
          (set (leaf_input h # path_inputs d a ?c i p))"
        by (rule merkle_collisionI [rotated 2]) (use halves(2) inp dig in simp_all)
      then show ?thesis ..
    next
      case True
      have prefixed: "\<forall>x\<in>set ys. \<exists>y. x = prefixed a (d y)" if "set ys \<subseteq> leaf_of d a ` H" for ys
        using that by (auto simp: leaf_of_def)
      obtain yl yr yc where "?l = prefixed a (d yl)" "?r = prefixed a (d yr)" "?cur = prefixed a (d yc)"
        using apex_prefixed [OF len(1) prefixed [OF sub(1)]] apex_prefixed [OF len(2) prefixed [OF sub(2)]]
          climb_prefixed [of ?c a d i ps] by (auto simp: leaf_of_def)
      then have lengths: "length ?cur = length ?l" "length ?cur = length ?r"
        using same_length [of yc yl] same_length [of yc yr] by (simp_all add: length_prefixed)
      let ?ys = "if ?even then ?ls else ?rs"
      have "?cur = apex ?N k ?ys"
        using True lengths node_input_eq_left node_input_eq_right by (auto split: if_splits)
      then have IH: "length ps = k \<and> ?ys ! nat (i mod 2 ^ k) = ?c \<or>
          merkle_collision d (leaf_input ` H \<union> tower_inputs ?N k ?ys) (set (leaf_input h # path_inputs d a ?c i ps))"
        using Suc.IH [of ?ys ps] len sub by (simp split: if_splits)
      have mono: "tower_inputs ?N k ?ys \<subseteq> tower_inputs ?N (Suc k) xs"
        using halves(3) by (simp split: if_splits)
      from IH show ?thesis
      proof
        assume k: "length ps = k \<and> ?ys ! nat (i mod 2 ^ k) = ?c"
        have "nat (i mod 2 ^ k) < 2 ^ k" by (simp add: nat_less_iff)
        moreover have "nat (2 ^ k + i mod 2 ^ k) = 2 ^ k + nat (i mod 2 ^ k)" by (simp add: nat_add_distrib nat_power_eq)
        ultimately have "xs ! nat (i mod 2 ^ Suc k) = ?c"
          using k Suc.prems(1) by (auto simp: mod_power_Suc simp del: power_Suc split: if_splits)
        then show ?thesis using k snoc by simp
      next
        assume "merkle_collision d (leaf_input ` H \<union> tower_inputs ?N k ?ys) (set (leaf_input h # path_inputs d a ?c i ps))"
        then have "merkle_collision d (leaf_input ` H \<union> tower_inputs ?N (Suc k) xs) (set (leaf_input h # path_inputs d a ?c i p))"
          by (rule merkle_collision_mono) (use mono in \<open>auto simp: snoc path_inputs_snoc\<close>)
        then show ?thesis ..
      qed
    qed
  qed
qed

lemma mk_merkle_tree_digest:
  assumes "mk_merkle_tree lib hs a = Inr t" and "hs \<noteq> []"
  shows "\<exists>d. digest_of lib a = Some d"
proof (cases hs)
  case (Cons h hs')
  then obtain l where "compute_leaf_hash lib h a = Inr l"
    using assms(1) by (auto simp: mk_merkle_tree_def split: if_splits sum.splits)
  then show ?thesis
    by (auto simp: compute_leaf_hash_def get_hasher_def digest_of_def supported_algorithms_def
        blake3_hasher_def sha256_hasher_def split: if_splits sum.splits option.splits)
qed (use assms in simp)

lemma verify_merkle_proof_available:
  "digest_of lib (mp_algorithm p) = Some d \<Longrightarrow> mv_is_valid (verify_merkle_proof lib p) \<longleftrightarrow>
     climb (node_of d (mp_algorithm p)) (leaf_of d (mp_algorithm p) (mp_event_hash p)) (mp_leaf_index p)
       (mp_merkle_path p) = mp_merkle_root p"
  by (simp add: verify_merkle_proof_def digest_of_supported compute_leaf_hash_available walk_path_available Let_def)

lemma padded_nth:
  assumes "hs \<noteq> []" and "j < length (pad_to_power_of_two (map f hs))"
  shows "pad_to_power_of_two (map f hs) ! j = f (hs ! min j (length hs - 1))"
proof -
  obtain m where m: "pad_to_power_of_two (map f hs) = map f hs @ replicate m (f (last hs))"
    using pad_to_power_of_two_spec [of "map f hs"] assms(1) by (metis Nil_is_map_conv last_map)
  show ?thesis
  proof (cases "j < length hs")
    case True
    then show ?thesis by (simp add: m nth_append min_absorb1)
  next
    case False
    then show ?thesis
      using assms by (simp add: m nth_append min_absorb2 last_conv_nth)
  qed
qed

lemma set_padded:
  assumes "hs \<noteq> []"
  shows "set (pad_to_power_of_two (map f hs)) \<subseteq> f ` set hs"
proof (rule pad_to_power_of_two_spec [of "map f hs"])
  show "map f hs \<noteq> []" using assms by simp
  fix m assume "pad_to_power_of_two (map f hs) = map f hs @ replicate m (last (map f hs))"
  then show ?thesis using assms by (auto simp: last_map split: if_splits)
qed

lemma generated_proof_verifies:
  assumes "mk_merkle_tree lib hs a = Inr t" and "0 \<le> i" and "i < int (length hs)"
  shows "\<exists>p. generate_proof t i event_id epoch = Inr p \<and> mp_event_hash p = hs ! nat i \<and>
    mp_algorithm p = a \<and> mp_merkle_root p = merkle_root t \<and> mv_is_valid (verify_merkle_proof lib p)"
proof -
  have ne: "hs \<noteq> []" using assms(2,3) by auto
  then obtain d where d: "digest_of lib a = Some d" using mk_merkle_tree_digest assms(1) by blast
  let ?xs = "pad_to_power_of_two (map (leaf_of d a) hs)"
  from mk_merkle_tree_available [OF d ne] assms(1) obtain k where
    t: "mt_algorithm t = a" "mt_original_leaf_count t = int (length hs)" "mt_event_hashes t = hs"
      "length ?xs = 2 ^ k" "mt_tree t = ?xs # tower (node_of d a) k ?xs"
      "merkle_root t = apex (node_of d a) k ?xs" "int (length hs) \<le> 2 ^ k"
    by (metis sum.inject(2))
  have i: "i < 2 ^ k" using assms(3) t(7) by linarith
  then have "nat i < 2 ^ k" using assms(2) by (simp add: nat_less_iff)
  then have "?xs ! nat i = leaf_of d a (hs ! nat i)"
    using padded_nth [OF ne, of "nat i" "leaf_of d a"] t(4) assms(2,3) by (simp add: min_absorb1)
  then show ?thesis
    using climb_sibling_path [OF t(4) assms(2) i, of "node_of d a"] assms(2,3) t d ne
    by (simp add: generate_proof_def verify_merkle_proof_available del: butlast.simps)
qed

lemma pad_to_power_of_two_duplicate:
  assumes "xs \<noteq> []" and "\<And>k. length xs \<noteq> 2 ^ k"
  shows "pad_to_power_of_two (xs @ [last xs]) = pad_to_power_of_two xs"
proof -
  obtain k m where k: "pad_to_power_of_two xs = xs @ replicate m (last xs)"
    "length (pad_to_power_of_two xs) = 2 ^ k" "int (length xs) \<le> 2 ^ k" "2 ^ k < 2 * int (length xs)"
    using pad_to_power_of_two_spec [OF assms(1)] by metis
  obtain j m' where j: "pad_to_power_of_two (xs @ [last xs]) = xs @ replicate (Suc m') (last xs)"
    "length (pad_to_power_of_two (xs @ [last xs])) = 2 ^ j"
    "int (length xs) + 1 \<le> 2 ^ j" "2 ^ j < 2 * (int (length xs) + 1)"
    by (rule pad_to_power_of_two_spec [of "xs @ [last xs]"]) (auto simp: add.commute)
  have "int (length xs) \<noteq> 2 ^ k" using assms(2) [of k] by (metis of_nat_eq_iff of_nat_numeral of_nat_power)
  then have "int (length xs) + 1 \<le> 2 ^ k" using k(3) by linarith
  moreover have "2 ^ k < 2 * (int (length xs) + 1)" using k(4) by simp
  ultimately have "k = j" using j(3,4) by (rule power_window_unique)
  then have "m = Suc m'" using k(1,2) j(1,2) by simp
  then show ?thesis using k(1) j(1) by simp
qed

lemma leaf_hashes_snoc:
  "leaf_hashes lib a (hs @ [h]) =
     (case leaf_hashes lib a hs of
        Inl e \<Rightarrow> Inl e
      | Inr ls \<Rightarrow> (case compute_leaf_hash lib h a of Inl e \<Rightarrow> Inl e | Inr l \<Rightarrow> Inr (ls @ [l])))"
  by (induction hs) (auto split: sum.splits)

lemma leaf_hashes_Inr:
  "leaf_hashes lib a hs = Inr ls \<Longrightarrow> length ls = length hs \<and> (\<forall>i<length hs. compute_leaf_hash lib (hs ! i) a = Inr (ls ! i))"
  by (induction hs arbitrary: ls) (auto simp: nth_Cons split: sum.splits nat.splits)

section \<open>Properties\<close>

text \<open>
  C8: every event of a tree has an inclusion proof, and the proof verifies against the tree's root.
\<close>

theorem merkle_complete:
  assumes "mk_merkle_tree lib hs a = Inr t" and "0 \<le> i" and "i < int (length hs)"
  shows "\<exists>p. generate_proof t i event_id epoch = Inr p \<and> mp_event_hash p = hs ! nat i \<and>
    mp_merkle_root p = merkle_root t \<and> mv_is_valid (verify_merkle_proof lib p)"
  using generated_proof_verifies [OF assms] by blast

theorem merkle_complete_witness:
  "\<exists>t p. mk_merkle_tree example_lib [''a'', ''b'', ''c''] ''sha256'' = Inr t \<and> generate_proof t 2 5 0 = Inr p \<and>
     mp_event_hash p = ''c'' \<and> mv_is_valid (verify_merkle_proof example_lib p)"
proof -
  obtain t where t: "mk_merkle_tree example_lib [''a'', ''b'', ''c''] ''sha256'' = Inr t"
    using mk_merkle_tree_available [of example_lib "''sha256''"] by (metis digest_of_example list.distinct(1))
  then show ?thesis using merkle_complete [OF t, of 2 5 0] by auto
qed

text \<open>What a proof shows that verifies against the root of a tree.\<close>

lemma verified_proof_sound:
  assumes "mk_merkle_tree lib hs (mp_algorithm p) = Inr t" and "hs \<noteq> []"
    and "digest_of lib (mp_algorithm p) = Some d" and "\<And>x. length (d x) = 32"
    and "mp_merkle_root p = merkle_root t" and "mv_is_valid (verify_merkle_proof lib p)"
  shows "int (length hs) \<le> 2 ^ length (mp_merkle_path p) \<and>
      2 ^ length (mp_merkle_path p) < 2 * int (length hs) \<and>
      mp_event_hash p = hs ! min (nat (mp_leaf_index p mod 2 ^ length (mp_merkle_path p))) (length hs - 1) \<or>
    merkle_collision d (set (tree_inputs t)) (set (proof_inputs d p))"
proof -
  let ?a = "mp_algorithm p" and ?h = "mp_event_hash p" and ?i = "mp_leaf_index p"
  let ?N = "node_of d ?a" and ?L = "leaf_of d ?a"
  let ?xs = "pad_to_power_of_two (map ?L hs)"
  from mk_merkle_tree_available [OF assms(3,2)] assms(1) obtain k where
    t: "mt_event_hashes t = hs" "length ?xs = 2 ^ k" "mt_tree t = ?xs # tower ?N k ?xs"
      "merkle_root t = apex ?N k ?xs" "int (length hs) \<le> 2 ^ k" "2 ^ k < 2 * int (length hs)"
    by (metis sum.inject(2))
  have inputs: "leaf_input ` set hs \<union> tower_inputs ?N k ?xs = set (tree_inputs t)"
    unfolding tower_inputs_concat [OF t(2)] by (simp add: tree_inputs_def t(1,3))
  have "climb ?N (?L ?h) ?i (mp_merkle_path p) = apex ?N k ?xs"
    using assms(3,5,6) t(4) by (simp add: verify_merkle_proof_available)
  then have "length (mp_merkle_path p) = k \<and> ?xs ! nat (?i mod 2 ^ k) = ?L ?h \<or>
      merkle_collision d (set (tree_inputs t)) (set (proof_inputs d p))"
    using climb_sound [of d ?xs k ?a "set hs" ?h ?i "mp_merkle_path p"] assms(4) t(2) set_padded [OF assms(2)]
    by (simp add: inputs proof_inputs_def)
  then show ?thesis
  proof
    assume k: "length (mp_merkle_path p) = k \<and> ?xs ! nat (?i mod 2 ^ k) = ?L ?h"
    let ?j = "min (nat (?i mod 2 ^ k)) (length hs - 1)"
    have "?i mod 2 ^ k < 2 ^ k" by simp
    then have "nat (?i mod 2 ^ k) < 2 ^ k" by (simp add: nat_less_iff)
    then have "?L (hs ! ?j) = ?L ?h"
      using k padded_nth [OF assms(2), of _ ?L] t(2) by simp
    then have same: "d (leaf_input (hs ! ?j)) = d (leaf_input ?h)"
      by (simp add: leaf_of_def prefixed_same_algorithm)
    have j: "?j < length hs" using assms(2) by (simp add: min_less_iff_disj)
    show ?thesis
    proof (cases "leaf_input (hs ! ?j) = leaf_input ?h")
      case True
      then show ?thesis using k t(5,6) by (simp add: leaf_input_def str_encode_inj)
    next
      case False
      have "merkle_collision d (set (tree_inputs t)) (set (proof_inputs d p))"
        by (rule merkle_collisionI [OF _ _ False same])
          (use j t(1) in \<open>auto simp: tree_inputs_def proof_inputs_def\<close>)
      then show ?thesis ..
    qed
  qed simp
qed

text \<open>
  Two trees of the same size and root have the same event hashes; otherwise the one tree and an inclusion proof
  of the other exhibit a collision.
\<close>

definition trees_collide :: "(bytes \<Rightarrow> bytes) \<Rightarrow> merkle_tree \<Rightarrow> merkle_tree \<Rightarrow> bool" where
  "trees_collide d t u \<longleftrightarrow>
     (\<exists>i event_id epoch p. generate_proof t i event_id epoch = Inr p \<and>
        merkle_collision d (set (tree_inputs u)) (set (proof_inputs d p)))"

lemma same_root_same_hashes:
  assumes "digest_of lib a = Some d" and "\<And>x. length (d x) = 32"
    and t: "mk_merkle_tree lib hs a = Inr t" and u: "mk_merkle_tree lib gs a = Inr u"
    and root: "merkle_root t = merkle_root u" and len: "length hs = length gs"
  shows "hs = gs \<or> trees_collide d t u"
proof (rule disjCI)
  assume no: "\<not> trees_collide d t u"
  show "hs = gs"
  proof (rule nth_equalityI [OF len])
    fix i assume i: "i < length hs"
    then have ne: "gs \<noteq> []" using len by auto
    obtain p where p: "generate_proof t (int i) 0 0 = Inr p" "mp_event_hash p = hs ! i" "mp_algorithm p = a"
        "mp_merkle_root p = merkle_root u" "mv_is_valid (verify_merkle_proof lib p)"
      using generated_proof_verifies [OF t, of "int i" 0 0] i root by auto
    have index: "mp_leaf_index p = int i" using p(1) by (auto simp: generate_proof_def split: if_splits)
    have "\<not> merkle_collision d (set (tree_inputs u)) (set (proof_inputs d p))"
      using no p(1) unfolding trees_collide_def by blast
    then have *: "int (length gs) \<le> 2 ^ length (mp_merkle_path p)"
        "hs ! i = gs ! min (nat (int i mod 2 ^ length (mp_merkle_path p))) (length gs - 1)"
      using verified_proof_sound [of lib gs p u d] assms(1,2) u ne p index by auto
    have "int i mod 2 ^ length (mp_merkle_path p) = int i" using *(1) i len by simp
    then show "hs ! i = gs ! i" using *(2) i len by (simp add: min_absorb1)
  qed
qed

text \<open>
  C7: a proof that verifies against the root of a tree, over a digest whose values have 32 bytes, has
  a path as long as the tree is high and shows the event that stands at its index (taken modulo the
  padded size, the padding repeating the last event); otherwise the tree and the verifier exhibit two
  different inputs with one digest.
\<close>

theorem merkle_sound:
  assumes "mk_merkle_tree lib hs (mp_algorithm p) = Inr t" and "hs \<noteq> []"
    and "digest_of lib (mp_algorithm p) = Some d" and "\<And>x. length (d x) = 32"
    and "mp_merkle_root p = merkle_root t" and "mv_is_valid (verify_merkle_proof lib p)"
  shows "int (length hs) \<le> 2 ^ length (mp_merkle_path p) \<and>
      2 ^ length (mp_merkle_path p) < 2 * int (length hs) \<and>
      mp_event_hash p = hs ! min (nat (mp_leaf_index p mod 2 ^ length (mp_merkle_path p))) (length hs - 1) \<or>
    merkle_collision d (set (tree_inputs t)) (set (proof_inputs d p))"
  using verified_proof_sound [OF assms] .

theorem merkle_sound_witness:
  "\<exists>t p. mk_merkle_tree example_lib [''a'', ''b'', ''c''] ''sha256'' = Inr t \<and>
     mv_is_valid (verify_merkle_proof example_lib p) \<and> mp_merkle_root p = merkle_root t \<and>
     (3 \<le> (2::int) ^ length (mp_merkle_path p) \<or>
        merkle_collision checksum32 (set (tree_inputs t)) (set (proof_inputs checksum32 p)))"
proof -
  obtain t where t: "mk_merkle_tree example_lib [''a'', ''b'', ''c''] ''sha256'' = Inr t"
    using mk_merkle_tree_available [of example_lib "''sha256''"] by (metis digest_of_example list.distinct(1))
  then obtain p where p: "mp_algorithm p = ''sha256''" "mp_merkle_root p = merkle_root t"
    "mv_is_valid (verify_merkle_proof example_lib p)"
    using generated_proof_verifies [OF t, of 2 5 0] by auto
  show ?thesis
    using merkle_sound [of example_lib "[''a'', ''b'', ''c'']" p t checksum32] t p by auto
qed

text \<open>
  the verifier reads the index only modulo the padded size: a proof that verifies also verifies
  with its index moved by a multiple of \<open>2 ^ len(merkle_path)\<close>.
\<close>

theorem merkle_index_malleable:
  "mv_is_valid (verify_merkle_proof lib (p\<lparr>mp_leaf_index := mp_leaf_index p + m * 2 ^ length (mp_merkle_path p)\<rparr>))
     \<longleftrightarrow> mv_is_valid (verify_merkle_proof lib p)"
proof -
  have "walk_path lib a c (i + m * 2 ^ length path) path = walk_path lib a c i path" for a c i path
  proof (induction path arbitrary: c i)
    case (Cons s path)
    have "(i + m * 2 ^ length (s # path)) div 2 = i div 2 + m * 2 ^ length path"
      and "(i + m * 2 ^ length (s # path)) mod 2 = i mod 2"
      by (simp_all add: mult.left_commute [of m 2])
    then show ?case by (simp add: Cons.IH del: length_Cons split: sum.split)
  qed simp
  then show ?thesis by (simp add: verify_merkle_proof_def Let_def split: sum.split)
qed

text \<open>
  Because the padding repeats the last leaf, appending a copy of the last event to a list whose
  length is not a power of two leaves the root as it was.
\<close>

theorem merkle_root_duplicate:
  assumes "hs \<noteq> []" and "\<And>k. length hs \<noteq> 2 ^ k"
  shows "compute_merkle_root lib (hs @ [last hs]) a = compute_merkle_root lib hs a"
proof -
  have "leaf_hashes lib a (hs @ [last hs]) =
      (case leaf_hashes lib a hs of Inl e \<Rightarrow> Inl e | Inr ls \<Rightarrow> Inr (ls @ [last ls]))"
  proof (cases "leaf_hashes lib a hs")
    case (Inr ls)
    note ls = leaf_hashes_Inr [OF Inr]
    then have "compute_leaf_hash lib (last hs) a = Inr (last ls)"
      using assms(1) by (metis diff_less last_conv_nth length_0_conv length_greater_0_conv zero_less_one)
    with Inr show ?thesis by (simp add: leaf_hashes_snoc)
  qed (simp add: leaf_hashes_snoc)
  moreover have "build_tree lib a (ls @ [last ls]) = build_tree lib a ls" if "leaf_hashes lib a hs = Inr ls" for ls
  proof -
    have "length ls = length hs" using leaf_hashes_Inr [OF that] by simp
    then have "ls \<noteq> []" "\<And>k. length ls \<noteq> 2 ^ k" using assms by auto
    then show ?thesis using pad_to_power_of_two_duplicate [of ls] by (simp add: build_tree_def)
  qed
  ultimately show ?thesis
    by (cases "leaf_hashes lib a hs")
      (auto simp: compute_merkle_root_def mk_merkle_tree_def merkle_root_def split: sum.splits)
qed

theorem merkle_root_duplicate_witness:
  "compute_merkle_root example_lib [''a'', ''b'', ''c'', ''c''] ''sha256'' =
     compute_merkle_root example_lib [''a'', ''b'', ''c''] ''sha256''"
proof -
  have "length [''a'', ''b'', ''c''] \<noteq> 2 ^ k" for k by (cases k) (simp_all, presburger)
  from merkle_root_duplicate [OF _ this, of example_lib "''sha256''"] show ?thesis by simp
qed

end
