(* ===== verification/Ledger.thy ===== *)
theory Ledger
  imports Event_Envelope
begin

text \<open>
  The append-only ledger: the port (\<open>src/application/ports/governance/ledger_port.py\<close>) as a locale,
  and its two implementations, \<open>InMemoryGovernanceLedger\<close>
  (\<open>src/infrastructure/adapters/governance/in_memory_adapters.py\<close>) and
  \<open>PostgresGovernanceLedgerAdapter\<close> (\<open>postgres_ledger_adapter.py\<close>) over the table of
  \<open>migrations/009_create_ledger_schema.sql\<close>.
\<close>

section \<open>Persisted events\<close>

record persisted_event =
  pe_event :: governance_event
  pe_sequence :: int

definition mk_persisted_event :: "governance_event \<Rightarrow> int \<Rightarrow> exn + persisted_event" where
  "mk_persisted_event event sequence =
     (if sequence \<le> 0 then
        Inl (Exn ValueError (''Sequence must be positive, got '' @ show_int sequence))
      else Inr \<lparr>pe_event = event, pe_sequence = sequence\<rparr>)"

record ledger_read_options =
  ro_start_sequence :: "int option"
  ro_end_sequence :: "int option"
  ro_branch :: "string option"
  ro_event_type :: "string option"
  ro_limit :: int
  ro_offset :: int

definition default_read_options :: ledger_read_options where
  "default_read_options = \<lparr>ro_start_sequence = None, ro_end_sequence = None, ro_branch = None,
     ro_event_type = None, ro_limit = 100, ro_offset = 0\<rparr>"

section \<open>The in-memory ledger\<close>

record memory_ledger =
  ml_events :: "persisted_event list"
  ml_next_sequence :: int

definition memory_ledger_init :: memory_ledger where
  "memory_ledger_init = \<lparr>ml_events = [], ml_next_sequence = 1\<rparr>"

definition memory_append_event :: "governance_event \<Rightarrow> (memory_ledger, persisted_event) act" where
  "memory_append_event event = (\<lambda>l.
     case mk_persisted_event event (ml_next_sequence l) of
       Inl e \<Rightarrow> (Inl e, l)
     | Inr persisted \<Rightarrow>
         (Inr persisted, l\<lparr>ml_events := ml_events l @ [persisted],
            ml_next_sequence := ml_next_sequence l + 1\<rparr>))"

text \<open>The filters apply when their option is truthy: \<open>0\<close> and the empty string count as absent.\<close>

definition memory_read_events ::
  "memory_ledger \<Rightarrow> ledger_read_options option \<Rightarrow> exn + persisted_event list" where
  "memory_read_events l options =
     (case options of
        None \<Rightarrow> Inr (ml_events l)
      | Some o' \<Rightarrow>
          (case (case ro_branch o' of
                   None \<Rightarrow> Inr (ml_events l)
                 | Some b \<Rightarrow>
                     if b = [] then Inr (ml_events l)
                     else filter_raise (\<lambda>e. case ge_branch (pe_event e) of
                            Inl x \<Rightarrow> Inl x | Inr b' \<Rightarrow> Inr (b' = b)) (ml_events l)) of
             Inl x \<Rightarrow> Inl x
           | Inr r1 \<Rightarrow>
               let r2 = (case ro_event_type o' of
                           None \<Rightarrow> r1
                         | Some t \<Rightarrow> if t = [] then r1
                             else filter (\<lambda>e. ge_event_type (pe_event e) = t) r1);
                   r3 = (case ro_start_sequence o' of
                           None \<Rightarrow> r2
                         | Some k \<Rightarrow> if k = 0 then r2 else filter (\<lambda>e. k \<le> pe_sequence e) r2);
                   r4 = (case ro_end_sequence o' of
                           None \<Rightarrow> r3
                         | Some k \<Rightarrow> if k = 0 then r3 else filter (\<lambda>e. pe_sequence e \<le> k) r3);
                   offset = ro_offset o';
                   limit = (if ro_limit o' = 0 then 100 else ro_limit o')
               in Inr (py_slice r4 offset (offset + limit))))"

definition memory_get_latest_sequence :: "memory_ledger \<Rightarrow> int" where
  "memory_get_latest_sequence l = ml_next_sequence l - 1"

definition memory_get_event_by_id :: "memory_ledger \<Rightarrow> uuid \<Rightarrow> persisted_event option" where
  "memory_get_event_by_id l event_id = find (\<lambda>e. ge_event_id (pe_event e) = event_id) (ml_events l)"

section \<open>The PostgreSQL ledger\<close>

text \<open>
  The columns of \<open>ledger.governance_events\<close>. There is none for \<open>prev_hash\<close> and \<open>hash\<close>. \<open>lt_next\<close> is the
  identity column's counter, which an attempted insert consumes even when it fails.
\<close>

record ledger_row =
  lr_sequence :: int
  lr_event_id :: uuid
  lr_event_type :: string
  lr_branch :: string
  lr_schema_version :: string
  lr_timestamp :: datetime
  lr_actor_id :: string
  lr_trace_id :: string
  lr_payload :: payload

record ledger_table =
  lt_rows :: "ledger_row list"
  lt_next :: int

definition ledger_table_init :: ledger_table where
  "ledger_table_init = \<lparr>lt_rows = [], lt_next = 1\<rparr>"

text \<open>PostgreSQL's \<open>$\<close> matches at the end only, not before a final newline.\<close>

definition sql_matches :: "(string \<Rightarrow> bool) \<Rightarrow> string \<Rightarrow> bool" where
  "sql_matches p s \<longleftrightarrow> p s \<and> last s \<noteq> CHR 0x0A"

text \<open>
  The insert with the trigger that derives the branch, the three \<open>CHECK\<close> constraints and the unique
  \<open>event_id\<close>. The exception is the driver's; its text here is the constraint's name.
\<close>

definition insert_governance_event :: "ledger_row \<Rightarrow> (ledger_table, ledger_row) act" where
  "insert_governance_event new = (\<lambda>t.
     let row = new\<lparr>lr_sequence := lt_next t, lr_branch := first_segment (lr_event_type new)\<rparr>;
         t' = t\<lparr>lt_next := lt_next t + 1\<rparr>
     in if lr_branch row = [] \<or> lr_branch row = lr_event_type row then
          (Inl (Exn DBAPIError ''AD-5: Invalid event_type format''), t')
        else if \<not> sql_matches event_type_pattern (lr_event_type row) then
          (Inl (Exn DBAPIError ''chk_event_type_format''), t')
        else if lr_branch row \<noteq> first_segment (lr_event_type row) then
          (Inl (Exn DBAPIError ''chk_branch_matches_event_type''), t')
        else if \<not> sql_matches semver_pattern (lr_schema_version row) then
          (Inl (Exn DBAPIError ''chk_schema_version_format''), t')
        else if lr_event_id row \<in> lr_event_id ` set (lt_rows t) then
          (Inl (Exn DBAPIError ''governance_events_event_id_key''), t')
        else (Inr row, t'\<lparr>lt_rows := lt_rows t @ [row]\<rparr>))"

text \<open>\<open>jsonb\<close> is what reading the payload column gives back for a written payload.\<close>

definition postgres_append_event ::
  "(payload \<Rightarrow> payload) \<Rightarrow> governance_event \<Rightarrow> (ledger_table, persisted_event) act" where
  "postgres_append_event jsonb event =
     act_bind (act_lift (ge_branch event)) (\<lambda>branch.
     act_bind (insert_governance_event
       \<lparr>lr_sequence = 0, lr_event_id = ge_event_id event, lr_event_type = ge_event_type event,
        lr_branch = branch, lr_schema_version = em_schema_version (ge_metadata event),
        lr_timestamp = em_timestamp (ge_metadata event), lr_actor_id = ge_actor_id event,
        lr_trace_id = ge_trace_id event, lr_payload = jsonb (ge_payload event)\<rparr>) (\<lambda>row.
     act_lift (mk_persisted_event event (lr_sequence row))))"

definition row_to_persisted_event :: "ledger_row \<Rightarrow> exn + persisted_event" where
  "row_to_persisted_event row =
     (case mk_event_metadata
             \<lparr>em_event_id = lr_event_id row, em_event_type = lr_event_type row,
              em_timestamp = lr_timestamp row, em_actor_id = lr_actor_id row,
              em_schema_version = lr_schema_version row, em_trace_id = lr_trace_id row,
              em_prev_hash = [], em_hash = []\<rparr> of
        Inl e \<Rightarrow> Inl e
      | Inr metadata \<Rightarrow>
          mk_persisted_event \<lparr>ge_metadata = metadata, ge_payload = lr_payload row\<rparr> (lr_sequence row))"

text \<open>\<open>ORDER BY sequence ASC\<close>.\<close>

definition rows_by_sequence :: "ledger_table \<Rightarrow> ledger_row list" where
  "rows_by_sequence t = sort_key lr_sequence (lt_rows t)"

definition row_option :: "ledger_row option \<Rightarrow> exn + persisted_event option" where
  "row_option r =
     (case r of
        None \<Rightarrow> Inr None
      | Some row \<Rightarrow>
          (case row_to_persisted_event row of Inl e \<Rightarrow> Inl e | Inr p \<Rightarrow> Inr (Some p)))"

definition postgres_get_latest_event :: "ledger_table \<Rightarrow> exn + persisted_event option" where
  "postgres_get_latest_event t =
     row_option (if lt_rows t = [] then None else Some (last (rows_by_sequence t)))"

definition postgres_get_max_sequence :: "ledger_table \<Rightarrow> int" where
  "postgres_get_max_sequence t =
     (if lt_rows t = [] then 0 else lr_sequence (last (rows_by_sequence t)))"

definition row_matches :: "ledger_read_options \<Rightarrow> ledger_row \<Rightarrow> bool" where
  "row_matches options row \<longleftrightarrow>
     (case ro_start_sequence options of None \<Rightarrow> True | Some k \<Rightarrow> k \<le> lr_sequence row) \<and>
     (case ro_end_sequence options of None \<Rightarrow> True | Some k \<Rightarrow> lr_sequence row \<le> k) \<and>
     (case ro_branch options of None \<Rightarrow> True | Some b \<Rightarrow> lr_branch row = b) \<and>
     (case ro_event_type options of None \<Rightarrow> True | Some t \<Rightarrow> lr_event_type row = t)"

definition postgres_read_events ::
  "ledger_table \<Rightarrow> ledger_read_options option \<Rightarrow> exn + persisted_event list" where
  "postgres_read_events t options =
     (let o' = (case options of None \<Rightarrow> default_read_options | Some x \<Rightarrow> x)
      in if ro_limit o' < 0 then Inl (Exn DBAPIError ''LIMIT must not be negative'')
         else if ro_offset o' < 0 then Inl (Exn DBAPIError ''OFFSET must not be negative'')
         else map_raise row_to_persisted_event
           (take (nat (ro_limit o')) (drop (nat (ro_offset o')) (filter (row_matches o') (rows_by_sequence t)))))"

definition postgres_get_event_by_sequence :: "ledger_table \<Rightarrow> int \<Rightarrow> exn + persisted_event option" where
  "postgres_get_event_by_sequence t sequence =
     row_option (find (\<lambda>row. lr_sequence row = sequence) (lt_rows t))"

definition postgres_get_event_by_id :: "ledger_table \<Rightarrow> uuid \<Rightarrow> exn + persisted_event option" where
  "postgres_get_event_by_id t event_id =
     row_option (find (\<lambda>row. lr_event_id row = event_id) (lt_rows t))"

definition postgres_count_events :: "ledger_table \<Rightarrow> ledger_read_options option \<Rightarrow> int" where
  "postgres_count_events t options =
     (let o' = (case options of None \<Rightarrow> default_read_options | Some x \<Rightarrow> x)
      in int (length (filter (row_matches o') (lt_rows t))))"

section \<open>The port\<close>

text \<open>
  What a client of \<open>append_event\<close> relies on: a success adds one record at the end of the log, with a
  sequence number above all others and the event as the store keeps it (\<open>stored\<close>); a failure leaves
  the log as it was.
\<close>

locale ledger_port =
  fixes append_event :: "governance_event \<Rightarrow> ('l, persisted_event) act"
    and log :: "'l \<Rightarrow> persisted_event list"
    and stored :: "governance_event \<Rightarrow> governance_event"
    and valid :: "'l \<Rightarrow> bool"
  assumes append_success: "valid l \<Longrightarrow> append_event e l = (Inr p, l') \<Longrightarrow>
      valid l' \<and> pe_event p = e \<and> log l' = log l @ [p\<lparr>pe_event := stored e\<rparr>] \<and>
      0 < pe_sequence p \<and> (\<forall>q\<in>set (log l). pe_sequence q < pe_sequence p)"
    and append_failure: "valid l \<Longrightarrow> append_event e l = (Inl x, l') \<Longrightarrow> valid l' \<and> log l' = log l"

text \<open>Attempted appends, one after the other, and their results.\<close>

fun append_run ::
  "(governance_event \<Rightarrow> ('l, persisted_event) act) \<Rightarrow> governance_event list \<Rightarrow> 'l
    \<Rightarrow> (exn + persisted_event) list \<times> 'l" where
  "append_run append_event [] l = ([], l)"
| "append_run append_event (e # es) l =
     (let (r, l1) = append_event e l; (rs, l2) = append_run append_event es l1 in (r # rs, l2))"

definition appended :: "(exn + persisted_event) list \<Rightarrow> persisted_event list" where
  "appended rs = concat (map (\<lambda>r. case r of Inl _ \<Rightarrow> [] | Inr p \<Rightarrow> [p]) rs)"

definition ledger_grows :: "('l \<Rightarrow> persisted_event list) \<Rightarrow> ('l \<Rightarrow> bool) \<Rightarrow> 'l \<Rightarrow> 'l \<Rightarrow> bool" where
  "ledger_grows log valid l l' \<longleftrightarrow> (valid l \<longrightarrow> valid l' \<and> (\<exists>qs. log l' = log l @ qs))"

interpretation ledger_grows: frame_relation "ledger_grows log valid"
proof
  show "ledger_grows log valid s s" for s by (auto simp: ledger_grows_def)
  show "ledger_grows log valid s u" if "ledger_grows log valid s t" "ledger_grows log valid t u" for s t u
    using that by (fastforce simp: ledger_grows_def)
qed

context ledger_port
begin

lemma append_grows: "framed (ledger_grows log valid) (append_event e)"
proof (rule framedI)
  fix s r t assume "append_event e s = (r, t)"
  then show "ledger_grows log valid s t"
    by (cases r) (auto simp: ledger_grows_def dest: append_success append_failure)
qed

lemma append_run_log:
  "valid l \<Longrightarrow> append_run append_event es l = (rs, l') \<Longrightarrow>
     valid l' \<and> log l' = log l @ map (\<lambda>p. p\<lparr>pe_event := stored (pe_event p)\<rparr>) (appended rs)"
proof (induction es arbitrary: l rs)
  case (Cons e es)
  obtain r l1 rs' where r: "append_event e l = (r, l1)" "append_run append_event es l1 = (rs', l')" "rs = r # rs'"
    using Cons.prems(2) by (auto split: prod.splits)
  show ?case
  proof (cases r)
    case (Inl x)
    then show ?thesis using r Cons.prems(1) Cons.IH [OF _ r(2)] append_failure by (auto simp: appended_def)
  next
    case (Inr p)
    then show ?thesis using r Cons.prems(1) Cons.IH [OF _ r(2)] append_success by (auto simp: appended_def)
  qed
qed (simp add: appended_def)

lemma append_run_sorted:
  "valid l \<Longrightarrow> sorted_wrt (<) (map pe_sequence (log l)) \<Longrightarrow> append_run append_event es l = (rs, l') \<Longrightarrow>
     sorted_wrt (<) (map pe_sequence (log l'))"
proof (induction es arbitrary: l rs)
  case (Cons e es)
  obtain r l1 rs' where r: "append_event e l = (r, l1)" "append_run append_event es l1 = (rs', l')" "rs = r # rs'"
    using Cons.prems(3) by (auto split: prod.splits)
  have "valid l1 \<and> sorted_wrt (<) (map pe_sequence (log l1))"
    using r(1) Cons.prems(1,2) by (cases r) (auto simp: sorted_wrt_append dest: append_success append_failure)
  then show ?case using Cons.IH [OF _ _ r(2)] by blast
qed simp

end

section \<open>Both ledgers implement the port\<close>

definition memory_inv :: "memory_ledger \<Rightarrow> bool" where
  "memory_inv l \<longleftrightarrow> ml_next_sequence l = int (length (ml_events l)) + 1 \<and>
     map pe_sequence (ml_events l) = map int [1..<length (ml_events l) + 1]"

lemma memory_append: "memory_inv l \<Longrightarrow>
    memory_append_event e l = (Inr \<lparr>pe_event = e, pe_sequence = ml_next_sequence l\<rparr>,
      l\<lparr>ml_events := ml_events l @ [\<lparr>pe_event = e, pe_sequence = ml_next_sequence l\<rparr>],
        ml_next_sequence := ml_next_sequence l + 1\<rparr>)"
  by (simp add: memory_append_event_def mk_persisted_event_def memory_inv_def)

lemma memory_inv_sequences:
  assumes "memory_inv l" "q \<in> set (ml_events l)"
  shows "0 < pe_sequence q \<and> pe_sequence q < ml_next_sequence l"
proof -
  have "pe_sequence q \<in> set (map pe_sequence (ml_events l))" using assms(2) by simp
  then show ?thesis using assms(1) unfolding memory_inv_def by auto
qed

interpretation memory: ledger_port memory_append_event ml_events "\<lambda>e. e" memory_inv
proof
  show "memory_inv l' \<and> pe_event p = e \<and> ml_events l' = ml_events l @ [p\<lparr>pe_event := e\<rparr>] \<and>
      0 < pe_sequence p \<and> (\<forall>q\<in>set (ml_events l). pe_sequence q < pe_sequence p)"
    if "memory_inv l" "memory_append_event e l = (Inr p, l')" for l e p l'
    using that memory_inv_sequences [OF that(1)] by (auto simp: memory_append) (auto simp: memory_inv_def)
  show "memory_inv l' \<and> ml_events l' = ml_events l"
    if "memory_inv l" "memory_append_event e l = (Inl x, l')" for l e x l'
    using that by (simp add: memory_append)
qed

definition strip_hash :: "(payload \<Rightarrow> payload) \<Rightarrow> governance_event \<Rightarrow> governance_event" where
  "strip_hash jsonb e = \<lparr>ge_metadata = (ge_metadata e)\<lparr>em_prev_hash := [], em_hash := []\<rparr>,
     ge_payload = jsonb (ge_payload e)\<rparr>"

definition row_event :: "ledger_row \<Rightarrow> persisted_event" where
  "row_event row = \<lparr>pe_event = \<lparr>ge_metadata =
       \<lparr>em_event_id = lr_event_id row, em_event_type = lr_event_type row, em_timestamp = lr_timestamp row,
        em_actor_id = lr_actor_id row, em_schema_version = lr_schema_version row,
        em_trace_id = lr_trace_id row, em_prev_hash = [], em_hash = []\<rparr>, ge_payload = lr_payload row\<rparr>,
     pe_sequence = lr_sequence row\<rparr>"

definition table_log :: "ledger_table \<Rightarrow> persisted_event list" where
  "table_log t = map row_event (lt_rows t)"

definition table_inv :: "ledger_table \<Rightarrow> bool" where
  "table_inv t \<longleftrightarrow> 0 < lt_next t \<and> (\<forall>row\<in>set (lt_rows t). lr_sequence row < lt_next t) \<and>
     sorted_wrt (<) (map lr_sequence (lt_rows t)) \<and> distinct (map lr_event_id (lt_rows t))"

lemma insert_governance_event_Inr:
  "insert_governance_event new t = (Inr row, t') \<Longrightarrow>
     row = new\<lparr>lr_sequence := lt_next t, lr_branch := first_segment (lr_event_type new)\<rparr> \<and>
     t' = t\<lparr>lt_next := lt_next t + 1, lt_rows := lt_rows t @ [row]\<rparr> \<and>
     lr_event_id new \<notin> lr_event_id ` set (lt_rows t)"
  by (auto simp: insert_governance_event_def Let_def split: if_splits)

lemma insert_governance_event_Inl:
  "insert_governance_event new t = (Inl x, t') \<Longrightarrow> t' = t\<lparr>lt_next := lt_next t + 1\<rparr>"
  by (auto simp: insert_governance_event_def Let_def split: if_splits)

lemma postgres_append_Inr:
  assumes "postgres_append_event jsonb e t = (Inr p, t')"
  shows "p = \<lparr>pe_event = e, pe_sequence = lt_next t\<rparr> \<and> 0 < lt_next t \<and> lt_next t' = lt_next t + 1 \<and>
    (\<exists>row. lt_rows t' = lt_rows t @ [row] \<and> lr_sequence row = lt_next t \<and>
       row_event row = \<lparr>pe_event = strip_hash jsonb e, pe_sequence = lt_next t\<rparr> \<and>
       lr_event_id row \<notin> lr_event_id ` set (lt_rows t))"
  using assms unfolding postgres_append_event_def
  by (elim act_bind_InrE)
    (auto dest!: insert_governance_event_Inr simp: mk_persisted_event_def row_event_def strip_hash_def
      ge_event_id_def ge_event_type_def ge_actor_id_def ge_trace_id_def split: if_splits)

lemma postgres_append_Inl:
  assumes "postgres_append_event jsonb e t = (Inl x, t')" and "0 < lt_next t"
  shows "lt_rows t' = lt_rows t \<and> lt_next t \<le> lt_next t'"
  using assms unfolding postgres_append_event_def
  by (elim act_bind_cases)
    (auto dest!: insert_governance_event_Inr insert_governance_event_Inl
      simp: mk_persisted_event_def split: if_splits)

interpretation postgres: ledger_port "postgres_append_event jsonb" table_log "strip_hash jsonb" table_inv
proof
  show "table_inv t' \<and> pe_event p = e \<and> table_log t' = table_log t @ [p\<lparr>pe_event := strip_hash jsonb e\<rparr>] \<and>
      0 < pe_sequence p \<and> (\<forall>q\<in>set (table_log t). pe_sequence q < pe_sequence p)"
    if "table_inv t" "postgres_append_event jsonb e t = (Inr p, t')" for t e p t'
    using that(1) postgres_append_Inr [OF that(2)]
    by (auto simp: table_inv_def table_log_def row_event_def sorted_wrt_append intro: order_less_imp_le)
  show "table_inv t' \<and> table_log t' = table_log t"
    if "table_inv t" "postgres_append_event jsonb e t = (Inl x, t')" for t e x t'
    using that(1) postgres_append_Inl [OF that(2)] by (force simp: table_inv_def table_log_def)
qed

lemma memory_inv_init [simp]: "memory_inv memory_ledger_init"
  by (simp add: memory_inv_def memory_ledger_init_def)

lemma table_inv_init [simp]: "table_inv ledger_table_init"
  by (simp add: table_inv_def ledger_table_init_def)

section \<open>Properties\<close>

text \<open>
  C10: the in-memory ledger never loses, changes or refuses an event: after any appends its records are
  the old ones followed by the new events in order, and its sequence numbers are 1, 2, 3 and so on
  without gaps.
\<close>

theorem memory_ledger_append_only:
  assumes "memory_inv l" and "append_run memory_append_event es l = (rs, l')"
  shows "map pe_event (ml_events l') = map pe_event (ml_events l) @ es \<and>
    take (length (ml_events l)) (ml_events l') = ml_events l \<and>
    map pe_sequence (ml_events l') = map int [1..<length (ml_events l') + 1] \<and>
    memory_get_latest_sequence l' = int (length (ml_events l')) \<and> list_all (\<lambda>r. \<exists>p. r = Inr p) rs"
proof -
  have "list_all (\<lambda>r. \<exists>p. r = Inr p) rs \<and> map pe_event (appended rs) = es"
    using assms
  proof (induction es arbitrary: l rs)
    case (Cons e es)
    have "memory_inv (l\<lparr>ml_events := ml_events l @ [\<lparr>pe_event = e, pe_sequence = ml_next_sequence l\<rparr>],
        ml_next_sequence := ml_next_sequence l + 1\<rparr>)"
      using memory.append_success [OF Cons.prems(1) memory_append] Cons.prems(1) by blast
    then show ?case
      using Cons by (auto simp: memory_append appended_def split: prod.splits)
  qed (simp add: appended_def)
  moreover have "memory_inv l'" "ml_events l' = ml_events l @ appended rs"
    using memory.append_run_log [OF assms] by simp_all
  ultimately show ?thesis
    by (simp add: memory_inv_def memory_get_latest_sequence_def)
qed

theorem memory_ledger_append_only_witness:
  "map pe_event (ml_events (snd (append_run memory_append_event [example_event 1, example_event 2] memory_ledger_init))) =
     [example_event 1, example_event 2]"
proof -
  let ?run = "append_run memory_append_event [example_event 1, example_event 2] memory_ledger_init"
  have "?run = (fst ?run, snd ?run)" by simp
  from memory_ledger_append_only [OF memory_inv_init this] show ?thesis
    by (simp add: memory_ledger_init_def)
qed

text \<open>
  C11: the PostgreSQL ledger only grows: after any attempted appends the rows are the old ones followed
  by one row per successful append, in order, which holds the event without its two hash fields;
  sequence numbers increase strictly and no event id occurs twice.
\<close>

theorem postgres_ledger_append_only:
  assumes "table_inv t" and "append_run (postgres_append_event jsonb) es t = (rs, t')"
  shows "map pe_event (table_log t') = map pe_event (table_log t) @ map (strip_hash jsonb \<circ> pe_event) (appended rs) \<and>
    take (length (lt_rows t)) (table_log t') = table_log t \<and>
    sorted_wrt (<) (map pe_sequence (table_log t')) \<and> distinct (map lr_event_id (lt_rows t'))"
proof -
  note run = postgres.append_run_log [OF assms]
  have "sorted_wrt (<) (map pe_sequence (table_log t))" "length (table_log t) = length (lt_rows t)"
    using assms(1) by (simp_all add: table_inv_def table_log_def row_event_def comp_def)
  then show ?thesis
    using run postgres.append_run_sorted [OF assms(1) _ assms(2)] by (simp add: table_inv_def comp_def)
qed

theorem postgres_ledger_append_only_witness:
  "sorted_wrt (<) (map pe_sequence (table_log (snd (append_run (postgres_append_event (\<lambda>p. p))
     [example_event 1, example_event 1, example_event 2] ledger_table_init)))) \<and>
   length (lt_rows (snd (append_run (postgres_append_event (\<lambda>p. p))
     [example_event 1, example_event 1, example_event 2] ledger_table_init))) = 2"
proof -
  let ?run = "append_run (postgres_append_event (\<lambda>p. p)) [example_event 1, example_event 1, example_event 2]
    ledger_table_init"
  have "?run = (fst ?run, snd ?run)" by simp
  from postgres_ledger_append_only [OF table_inv_init this]
  have "sorted_wrt (<) (map pe_sequence (table_log (snd ?run)))" by blast
  moreover have "length (lt_rows (snd ?run)) = 2" by code_simp
  ultimately show ?thesis by blast
qed

end
