(* ===== verification/Transition_System.thy ===== *)
theory Transition_System
  imports Main
begin

text \<open>
  Finite-state lifecycles. A component that keeps a table of allowed transitions in which every move
  goes up in rank provides this interface; what follows from it (no cycles, bounded histories,
  terminal states final) is proved once.
\<close>

text \<open>\<open>follows allowed s ts\<close>: from \<open>s\<close> the states \<open>ts\<close> are visited one after the other.\<close>

fun follows :: "('a \<Rightarrow> 'a \<Rightarrow> bool) \<Rightarrow> 'a \<Rightarrow> 'a list \<Rightarrow> bool" where
  "follows allowed s [] = True"
| "follows allowed s (t # ts) = (allowed s t \<and> follows allowed t ts)"

lemma follows_append:
  "follows allowed s (ts @ us) \<longleftrightarrow> follows allowed s ts \<and> follows allowed (last (s # ts)) us"
  by (induction ts arbitrary: s) auto

locale transition_table =
  fixes allowed :: "'a \<Rightarrow> 'a \<Rightarrow> bool" and terminal :: "'a \<Rightarrow> bool" and rank :: "'a \<Rightarrow> nat" and bound :: nat
  assumes moves_up: "allowed s t \<Longrightarrow> rank s < rank t"
    and terminal_iff: "terminal s \<longleftrightarrow> (\<forall>t. \<not> allowed s t)"
    and rank_bound: "rank s \<le> bound"
begin

lemma not_self: "\<not> allowed s s"
  using moves_up by blast

lemma terminal_final: "terminal s \<Longrightarrow> follows allowed s ts \<Longrightarrow> ts = []"
  by (cases ts) (auto simp: terminal_iff)

lemma follows_rank: "follows allowed s ts \<Longrightarrow> t \<in> set ts \<Longrightarrow> rank s < rank t"
proof (induction ts arbitrary: s)
  case (Cons u ts)
  then have "rank s < rank u" "t = u \<or> rank u < rank t" by (auto intro: moves_up)
  then show ?case by auto
qed simp

lemma no_revisit: "follows allowed s ts \<Longrightarrow> distinct (s # ts)"
proof (induction ts arbitrary: s)
  case (Cons u ts)
  have "distinct (u # ts)" by (rule Cons.IH) (use Cons.prems in simp)
  moreover have "s \<notin> set (u # ts)" using follows_rank [OF Cons.prems] by blast
  ultimately show ?case by simp
qed simp

lemma bounded_history: "follows allowed s ts \<Longrightarrow> length ts + rank s \<le> bound"
proof (induction ts arbitrary: s)
  case (Cons u ts)
  then have "rank s < rank u" "length ts + rank u \<le> bound" by (auto intro: moves_up)
  then show ?case by simp
qed (simp add: rank_bound)

text \<open>Every history extends to one that ends in a terminal state.\<close>

lemma can_finish: "\<exists>ts. follows allowed s ts \<and> terminal (last (s # ts))"
proof (induction "bound - rank s" arbitrary: s rule: less_induct)
  case less
  show ?case
  proof (cases "terminal s")
    case True
    then show ?thesis by (intro exI [of _ "[]"]) simp
  next
    case False
    then obtain t where t: "allowed s t" by (auto simp: terminal_iff)
    then have "bound - rank t < bound - rank s" using moves_up [OF t] rank_bound [of t] by simp
    then obtain ts where "follows allowed t ts \<and> terminal (last (t # ts))" using less by blast
    then show ?thesis using t by (intro exI [of _ "t # ts"]) simp
  qed
qed

end

end
