(* ===== verification/Task_State.thy ===== *)
theory Task_State
  imports Py_Text Transition_System
begin

text \<open>
  The task lifecycle (\<open>src/domain/governance/task/task_state.py\<close> and \<open>task_state_rules.py\<close>): the
  eleven states and their categories, the transition table, and the immutable task record with its
  validated construction, transition, routing and timeout tests.
\<close>

section \<open>States\<close>

datatype task_status =
    AUTHORIZED | ACTIVATED | ROUTED
  | ACCEPTED | IN_PROGRESS | REPORTED | AGGREGATED
  | COMPLETED | DECLINED | QUARANTINED | NULLIFIED

fun task_status_value :: "task_status \<Rightarrow> string" where
  "task_status_value AUTHORIZED = ''authorized''"
| "task_status_value ACTIVATED = ''activated''"
| "task_status_value ROUTED = ''routed''"
| "task_status_value ACCEPTED = ''accepted''"
| "task_status_value IN_PROGRESS = ''in_progress''"
| "task_status_value REPORTED = ''reported''"
| "task_status_value AGGREGATED = ''aggregated''"
| "task_status_value COMPLETED = ''completed''"
| "task_status_value DECLINED = ''declined''"
| "task_status_value QUARANTINED = ''quarantined''"
| "task_status_value NULLIFIED = ''nullified''"

definition pre_consent_states :: "task_status set" where
  "pre_consent_states = {AUTHORIZED, ACTIVATED, ROUTED}"

definition post_consent_states :: "task_status set" where
  "post_consent_states = {ACCEPTED, IN_PROGRESS, REPORTED, AGGREGATED}"

definition terminal_states :: "task_status set" where
  "terminal_states = {COMPLETED, DECLINED, QUARANTINED, NULLIFIED}"

definition is_pre_consent :: "task_status \<Rightarrow> bool" where
  "is_pre_consent s \<longleftrightarrow> s \<in> pre_consent_states"

definition is_post_consent :: "task_status \<Rightarrow> bool" where
  "is_post_consent s \<longleftrightarrow> s \<in> post_consent_states"

definition is_terminal :: "task_status \<Rightarrow> bool" where
  "is_terminal s \<longleftrightarrow> s \<in> terminal_states"

lemmas status_category_defs =
  is_pre_consent_def is_post_consent_def is_terminal_def
  pre_consent_states_def post_consent_states_def terminal_states_def

instantiation task_status :: enum
begin

definition enum_task_status :: "task_status list" where
  "enum_task_status = [AUTHORIZED, ACTIVATED, ROUTED, ACCEPTED, IN_PROGRESS, REPORTED, AGGREGATED,
     COMPLETED, DECLINED, QUARANTINED, NULLIFIED]"

definition enum_all_task_status :: "(task_status \<Rightarrow> bool) \<Rightarrow> bool" where
  "enum_all_task_status P \<longleftrightarrow> list_all P enum_class.enum"

definition enum_ex_task_status :: "(task_status \<Rightarrow> bool) \<Rightarrow> bool" where
  "enum_ex_task_status P \<longleftrightarrow> list_ex P enum_class.enum"

instance
proof
  have *: "s \<in> set enum_class.enum" for s :: task_status
    by (cases s) (simp_all add: enum_task_status_def)
  then show "UNIV = set (enum_class.enum :: task_status list)" by blast
  show "distinct (enum_class.enum :: task_status list)" by (simp add: enum_task_status_def)
  show "enum_class.enum_all P \<longleftrightarrow> Ball UNIV P" for P :: "task_status \<Rightarrow> bool"
    using * by (auto simp: enum_all_task_status_def list_all_iff)
  show "enum_class.enum_ex P \<longleftrightarrow> Bex UNIV P" for P :: "task_status \<Rightarrow> bool"
    using * by (auto simp: enum_ex_task_status_def list_ex_iff)
qed

end

section \<open>The transition table\<close>

fun valid_transitions :: "task_status \<Rightarrow> task_status list" where
  "valid_transitions AUTHORIZED = [ACTIVATED, NULLIFIED]"
| "valid_transitions ACTIVATED = [ROUTED, NULLIFIED]"
| "valid_transitions ROUTED = [ACCEPTED, DECLINED, NULLIFIED]"
| "valid_transitions ACCEPTED = [IN_PROGRESS, DECLINED, QUARANTINED]"
| "valid_transitions IN_PROGRESS = [REPORTED, QUARANTINED]"
| "valid_transitions REPORTED = [AGGREGATED, COMPLETED]"
| "valid_transitions AGGREGATED = [COMPLETED]"
| "valid_transitions COMPLETED = []"
| "valid_transitions DECLINED = []"
| "valid_transitions QUARANTINED = []"
| "valid_transitions NULLIFIED = []"

definition get_allowed_transitions :: "task_status \<Rightarrow> task_status list" where
  "get_allowed_transitions current = valid_transitions current"

definition is_valid_transition :: "task_status \<Rightarrow> task_status \<Rightarrow> bool" where
  "is_valid_transition current target \<longleftrightarrow> target \<in> set (valid_transitions current)"

definition is_consent_gate :: "task_status \<Rightarrow> bool" where
  "is_consent_gate status \<longleftrightarrow> status \<in> {ROUTED}"

definition get_halt_target :: "task_status \<Rightarrow> task_status option" where
  "get_halt_target current =
     (if is_terminal current then None
      else if is_pre_consent current then Some NULLIFIED
      else if is_post_consent current then Some QUARANTINED
      else None)"

definition can_decline :: "task_status \<Rightarrow> bool" where
  "can_decline current \<longleftrightarrow> DECLINED \<in> set (get_allowed_transitions current)"

fun normal_flow :: "task_status \<Rightarrow> task_status option" where
  "normal_flow AUTHORIZED = Some ACTIVATED"
| "normal_flow ACTIVATED = Some ROUTED"
| "normal_flow ROUTED = Some ACCEPTED"
| "normal_flow ACCEPTED = Some IN_PROGRESS"
| "normal_flow IN_PROGRESS = Some REPORTED"
| "normal_flow REPORTED = Some AGGREGATED"
| "normal_flow AGGREGATED = Some COMPLETED"
| "normal_flow _ = None"

definition is_normal_flow_transition :: "task_status \<Rightarrow> task_status \<Rightarrow> bool" where
  "is_normal_flow_transition current target \<longleftrightarrow>
     (if current = REPORTED \<and> target = COMPLETED then True else normal_flow current = Some target)"

section \<open>The task record\<close>

record task_state =
  ts_task_id :: uuid
  ts_earl_id :: string
  ts_cluster_id :: "string option"
  ts_current_status :: task_status
  ts_created_at :: datetime
  ts_state_entered_at :: datetime
  ts_ttl :: timedelta
  ts_inactivity_timeout :: timedelta
  ts_reporting_timeout :: timedelta

text \<open>
  \<open>__post_init__\<close>: the checks of types hold by typing; what is left are the owner and the three
  timeouts, in the code's order.
\<close>

definition mk_task_state :: "task_state \<Rightarrow> exn + task_state" where
  "mk_task_state t =
     (if blank (ts_earl_id t) then
        Inl (Exn ConstitutionalViolationError
          ''FR13: TaskState validation failed - earl_id must be non-empty string'')
      else if ts_ttl t \<le> 0 then
        Inl (Exn ConstitutionalViolationError
          ''FR13: TaskState validation failed - ttl must be positive timedelta'')
      else if ts_inactivity_timeout t \<le> 0 then
        Inl (Exn ConstitutionalViolationError
          ''FR13: TaskState validation failed - inactivity_timeout must be positive timedelta'')
      else if ts_reporting_timeout t \<le> 0 then
        Inl (Exn ConstitutionalViolationError
          ''FR13: TaskState validation failed - reporting_timeout must be positive timedelta'')
      else Inr t)"

definition illegal_state_transition :: "task_status \<Rightarrow> task_status \<Rightarrow> task_status list \<Rightarrow> exn" where
  "illegal_state_transition current_state attempted_state allowed_states =
     Exn IllegalStateTransitionError
       (''FR13: Task cannot transition from '' @ task_status_value current_state @ '' to '' @
        task_status_value attempted_state @ ''. Allowed transitions: '' @
        repr_str_list (sort (map task_status_value allowed_states)))"

text \<open>\<open>actor_id\<close> and \<open>reason\<close> are parameters of the method that its body does not use.\<close>

definition transition :: "task_state \<Rightarrow> task_status \<Rightarrow> datetime \<Rightarrow> exn + task_state" where
  "transition t new_status transition_time =
     (if \<not> is_valid_transition (ts_current_status t) new_status then
        Inl (illegal_state_transition (ts_current_status t) new_status
          (get_allowed_transitions (ts_current_status t)))
      else mk_task_state (t\<lparr>ts_current_status := new_status, ts_state_entered_at := transition_time\<rparr>))"

definition with_cluster :: "task_state \<Rightarrow> string \<Rightarrow> exn + task_state" where
  "with_cluster t cluster_id =
     (if blank cluster_id then
        Inl (Exn ConstitutionalViolationError ''FR13: cluster_id must be non-empty string'')
      else mk_task_state (t\<lparr>ts_cluster_id := Some cluster_id\<rparr>))"

definition is_ttl_expired :: "task_state \<Rightarrow> datetime \<Rightarrow> bool" where
  "is_ttl_expired t current_time =
     (if \<not> is_pre_consent (ts_current_status t) then False
      else current_time > ts_state_entered_at t + ts_ttl t)"

definition is_inactive :: "task_state \<Rightarrow> datetime \<Rightarrow> bool" where
  "is_inactive t current_time =
     (if ts_current_status t \<noteq> IN_PROGRESS then False
      else current_time > ts_state_entered_at t + ts_inactivity_timeout t)"

definition is_reporting_expired :: "task_state \<Rightarrow> datetime \<Rightarrow> bool" where
  "is_reporting_expired t current_time =
     (if ts_current_status t \<notin> {ACCEPTED, IN_PROGRESS} then False
      else current_time > ts_state_entered_at t + ts_reporting_timeout t)"

definition create_task_state ::
  "uuid \<Rightarrow> string \<Rightarrow> datetime \<Rightarrow> timedelta option \<Rightarrow> timedelta option \<Rightarrow> timedelta option
    \<Rightarrow> exn + task_state" where
  "create_task_state task_id earl_id created_at ttl inactivity_timeout reporting_timeout =
     mk_task_state \<lparr>ts_task_id = task_id, ts_earl_id = earl_id, ts_cluster_id = None,
       ts_current_status = AUTHORIZED, ts_created_at = created_at, ts_state_entered_at = created_at,
       ts_ttl = (case ttl of None \<Rightarrow> hours 72 | Some d \<Rightarrow> d),
       ts_inactivity_timeout = (case inactivity_timeout of None \<Rightarrow> hours 48 | Some d \<Rightarrow> d),
       ts_reporting_timeout = (case reporting_timeout of None \<Rightarrow> days 7 | Some d \<Rightarrow> d)\<rparr>"

section \<open>The table as a lifecycle\<close>

fun status_rank :: "task_status \<Rightarrow> nat" where
  "status_rank AUTHORIZED = 0"
| "status_rank ACTIVATED = 1"
| "status_rank ROUTED = 2"
| "status_rank ACCEPTED = 3"
| "status_rank IN_PROGRESS = 4"
| "status_rank REPORTED = 5"
| "status_rank AGGREGATED = 6"
| "status_rank _ = 7"

lemma is_valid_transition_simps [simp]:
  "is_valid_transition AUTHORIZED t \<longleftrightarrow> t = ACTIVATED \<or> t = NULLIFIED"
  "is_valid_transition ACTIVATED t \<longleftrightarrow> t = ROUTED \<or> t = NULLIFIED"
  "is_valid_transition ROUTED t \<longleftrightarrow> t = ACCEPTED \<or> t = DECLINED \<or> t = NULLIFIED"
  "is_valid_transition ACCEPTED t \<longleftrightarrow> t = IN_PROGRESS \<or> t = DECLINED \<or> t = QUARANTINED"
  "is_valid_transition IN_PROGRESS t \<longleftrightarrow> t = REPORTED \<or> t = QUARANTINED"
  "is_valid_transition REPORTED t \<longleftrightarrow> t = AGGREGATED \<or> t = COMPLETED"
  "is_valid_transition AGGREGATED t \<longleftrightarrow> t = COMPLETED"
  "is_valid_transition COMPLETED t \<longleftrightarrow> False"
  "is_valid_transition DECLINED t \<longleftrightarrow> False"
  "is_valid_transition QUARANTINED t \<longleftrightarrow> False"
  "is_valid_transition NULLIFIED t \<longleftrightarrow> False"
  by (simp_all add: is_valid_transition_def)

interpretation tasks: transition_table is_valid_transition is_terminal status_rank 7
proof
  show "status_rank s < status_rank t" if "is_valid_transition s t" for s t
    using that by (cases s) auto
  show "is_terminal s \<longleftrightarrow> (\<forall>t. \<not> is_valid_transition s t)" for s
    by (cases s) (auto simp: status_category_defs)
  show "status_rank s \<le> 7" for s
    by (cases s) simp_all
qed

lemma categories_partition:
  "\<not> (is_pre_consent s \<and> is_post_consent s)" "\<not> (is_pre_consent s \<and> is_terminal s)"
  "\<not> (is_post_consent s \<and> is_terminal s)" "is_pre_consent s \<or> is_post_consent s \<or> is_terminal s"
  by (cases s; simp add: status_category_defs)+

lemma normal_flow_valid: "is_normal_flow_transition s t \<Longrightarrow> is_valid_transition s t"
  by (cases s) (auto simp: is_normal_flow_transition_def split: if_splits)

section \<open>Valid tasks\<close>

definition task_ok :: "task_state \<Rightarrow> bool" where
  "task_ok t \<longleftrightarrow> \<not> blank (ts_earl_id t) \<and> 0 < ts_ttl t \<and> 0 < ts_inactivity_timeout t \<and>
     0 < ts_reporting_timeout t"

lemma mk_task_state_Inr: "mk_task_state t = Inr t' \<longleftrightarrow> task_ok t \<and> t' = t"
  by (auto simp: mk_task_state_def task_ok_def)

lemma mk_task_state_ok: "task_ok t \<Longrightarrow> mk_task_state t = Inr t"
  by (simp add: mk_task_state_Inr)

lemma task_ok_update [simp]:
  "task_ok (t\<lparr>ts_current_status := s\<rparr>) = task_ok t"
  "task_ok (t\<lparr>ts_state_entered_at := d\<rparr>) = task_ok t"
  "task_ok (t\<lparr>ts_cluster_id := c\<rparr>) = task_ok t"
  by (simp_all add: task_ok_def)

lemma transition_Inr:
  "transition t s d = Inr t' \<longleftrightarrow> is_valid_transition (ts_current_status t) s \<and> task_ok t \<and>
     t' = t\<lparr>ts_current_status := s, ts_state_entered_at := d\<rparr>"
  by (auto simp: transition_def mk_task_state_Inr)

lemma transition_ok:
  "task_ok t \<Longrightarrow> is_valid_transition (ts_current_status t) s \<Longrightarrow>
     transition t s d = Inr (t\<lparr>ts_current_status := s, ts_state_entered_at := d\<rparr>)"
  by (simp add: transition_Inr)

lemma transition_illegal:
  "\<not> is_valid_transition (ts_current_status t) s \<Longrightarrow>
     transition t s d = Inl (illegal_state_transition (ts_current_status t) s
       (get_allowed_transitions (ts_current_status t)))"
  by (simp add: transition_def)

lemma with_cluster_Inr:
  "with_cluster t c = Inr t' \<longleftrightarrow> \<not> blank c \<and> task_ok t \<and> t' = t\<lparr>ts_cluster_id := Some c\<rparr>"
  by (auto simp: with_cluster_def mk_task_state_Inr)

lemma create_task_state_Inr:
  "create_task_state i e d ttl ina rep = Inr t \<Longrightarrow>
     task_ok t \<and> ts_current_status t = AUTHORIZED \<and> ts_task_id t = i \<and> ts_earl_id t = e \<and>
     ts_cluster_id t = None \<and> ts_created_at t = d \<and> ts_state_entered_at t = d"
  by (auto simp: create_task_state_def mk_task_state_Inr)

section \<open>Histories of a task\<close>

text \<open>A task driven through a sequence of transitions, each at its time.\<close>

fun run_task :: "task_state \<Rightarrow> (task_status \<times> datetime) list \<Rightarrow> exn + task_state" where
  "run_task t [] = Inr t"
| "run_task t ((s, d) # steps) =
     (case transition t s d of Inl e \<Rightarrow> Inl e | Inr t' \<Rightarrow> run_task t' steps)"

definition same_identity :: "task_state \<Rightarrow> task_state \<Rightarrow> bool" where
  "same_identity t t' \<longleftrightarrow> ts_task_id t' = ts_task_id t \<and> ts_earl_id t' = ts_earl_id t \<and>
     ts_cluster_id t' = ts_cluster_id t \<and> ts_created_at t' = ts_created_at t \<and> ts_ttl t' = ts_ttl t \<and>
     ts_inactivity_timeout t' = ts_inactivity_timeout t \<and> ts_reporting_timeout t' = ts_reporting_timeout t"

lemma run_task_Inr:
  "run_task t steps = Inr t' \<Longrightarrow>
     follows is_valid_transition (ts_current_status t) (map fst steps) \<and>
     ts_current_status t' = last (ts_current_status t # map fst steps) \<and> same_identity t t'"
proof (induction steps arbitrary: t)
  case (Cons step steps)
  obtain s d where step: "step = (s, d)" by (cases step)
  with Cons.prems obtain u where u: "transition t s d = Inr u" "run_task u steps = Inr t'"
    by (auto split: sum.splits)
  then show ?case using Cons.IH [OF u(2)] by (auto simp: transition_Inr step same_identity_def)
qed (simp add: same_identity_def)

lemma run_task_ok:
  "task_ok t \<Longrightarrow> follows is_valid_transition (ts_current_status t) (map fst steps) \<Longrightarrow> \<exists>t'. run_task t steps = Inr t'"
  by (induction steps arbitrary: t) (auto simp: transition_ok)

lemma consent_gate_path:
  "follows is_valid_transition s ts \<Longrightarrow> is_pre_consent s \<Longrightarrow>
     last (s # ts) \<in> post_consent_states \<union> {COMPLETED, QUARANTINED} \<Longrightarrow>
     \<exists>us vs. s # ts = us @ ROUTED # ACCEPTED # vs"
proof (induction ts arbitrary: s)
  case Nil
  then show ?case by (auto simp: status_category_defs)
next
  case (Cons u ts)
  then have step: "is_valid_transition s u" "follows is_valid_transition u ts"
    "last (u # ts) \<in> post_consent_states \<union> {COMPLETED, QUARANTINED}" by simp_all
  show ?case
  proof (cases "is_pre_consent u")
    case True
    then obtain us vs where "u # ts = us @ ROUTED # ACCEPTED # vs" using Cons.IH step by blast
    then show ?thesis by (metis append_Cons)
  next
    case False
    then have u: "s = ROUTED \<and> u = ACCEPTED \<or> u = DECLINED \<or> u = NULLIFIED"
      using Cons.prems(2) step(1) by (auto simp: status_category_defs)
    moreover have "u \<noteq> DECLINED" "u \<noteq> NULLIFIED"
      using step(2,3) tasks.terminal_final [of u ts] by (auto simp: status_category_defs)
    ultimately show ?thesis by (metis append_Nil)
  qed
qed

section \<open>Properties\<close>

text \<open>
  C14: a sequence of transitions succeeds on a valid task exactly when the table allows each of them
  in turn; then no state is entered twice, at most seven transitions are made, a finished task makes
  none, and only the status and its entry time change.
\<close>

theorem task_lifecycle:
  assumes "task_ok t"
  shows "((\<exists>t'. run_task t steps = Inr t') \<longleftrightarrow>
      follows is_valid_transition (ts_current_status t) (map fst steps)) \<and>
    (\<forall>t'. run_task t steps = Inr t' \<longrightarrow>
      distinct (ts_current_status t # map fst steps) \<and> length steps \<le> 7 \<and>
      (is_terminal (ts_current_status t) \<longrightarrow> steps = []) \<and> same_identity t t' \<and>
      ts_current_status t' = last (ts_current_status t # map fst steps))"
proof (intro conjI allI impI)
  show "(\<exists>t'. run_task t steps = Inr t') \<longleftrightarrow> follows is_valid_transition (ts_current_status t) (map fst steps)"
    using run_task_Inr run_task_ok [OF assms] by blast
next
  fix t' assume "run_task t steps = Inr t'"
  note run = run_task_Inr [OF this]
  show "distinct (ts_current_status t # map fst steps)" using run tasks.no_revisit by blast
  show "length steps \<le> 7" using run tasks.bounded_history [of _ "map fst steps"] by fastforce
  show "steps = []" if "is_terminal (ts_current_status t)"
    using run tasks.terminal_final [OF that, of "map fst steps"] by simp
  show "same_identity t t'" and "ts_current_status t' = last (ts_current_status t # map fst steps)"
    using run by simp_all
qed

definition example_task :: task_state where
  "example_task = \<lparr>ts_task_id = 7, ts_earl_id = ''earl-1'', ts_cluster_id = Some ''cluster-1'',
     ts_current_status = AUTHORIZED, ts_created_at = 0, ts_state_entered_at = 0, ts_ttl = hours 72,
     ts_inactivity_timeout = hours 48, ts_reporting_timeout = days 7\<rparr>"

lemma example_task_ok: "task_ok example_task"
  by code_simp

theorem task_lifecycle_witness:
  "(\<exists>t'. run_task example_task [(ACTIVATED, 1), (ROUTED, 2), (DECLINED, 3)] = Inr t') \<and>
   \<not> (\<exists>t'. run_task example_task [(ACTIVATED, 1), (ACCEPTED, 2)] = Inr t')"
  using task_lifecycle [OF example_task_ok, of "[(ACTIVATED, 1), (ROUTED, 2), (DECLINED, 3)]"]
    task_lifecycle [OF example_task_ok, of "[(ACTIVATED, 1), (ACCEPTED, 2)]"]
  by (simp add: example_task_def)

text \<open>
  C6: no silent assignment. A task that is created and later found in a post-consent state, completed
  or quarantined has gone from \<open>routed\<close> to \<open>accepted\<close> in one step on the way.
\<close>

theorem consent_gate:
  assumes "create_task_state i e c ttl ina rep = Inr t" and "run_task t steps = Inr t'"
    and "ts_current_status t' \<in> post_consent_states \<union> {COMPLETED, QUARANTINED}"
  shows "\<exists>us vs. AUTHORIZED # map fst steps = us @ ROUTED # ACCEPTED # vs"
  using consent_gate_path [of AUTHORIZED "map fst steps"] run_task_Inr [OF assms(2)] assms(3)
    create_task_state_Inr [OF assms(1)] by (simp add: status_category_defs)

theorem consent_gate_witness:
  "\<exists>us vs. [AUTHORIZED, ACTIVATED, ROUTED, ACCEPTED, QUARANTINED] = us @ ROUTED # ACCEPTED # vs"
proof -
  have "create_task_state 7 ''earl-1'' 0 None None None =
      Inr (projr (create_task_state 7 ''earl-1'' 0 None None None))"
    and "run_task (projr (create_task_state 7 ''earl-1'' 0 None None None))
        [(ACTIVATED, 1), (ROUTED, 2), (ACCEPTED, 3), (QUARANTINED, 4)] =
      Inr (projr (run_task (projr (create_task_state 7 ''earl-1'' 0 None None None))
        [(ACTIVATED, 1), (ROUTED, 2), (ACCEPTED, 3), (QUARANTINED, 4)]))"
    and "ts_current_status (projr (run_task (projr (create_task_state 7 ''earl-1'' 0 None None None))
        [(ACTIVATED, 1), (ROUTED, 2), (ACCEPTED, 3), (QUARANTINED, 4)])) = QUARANTINED"
    by code_simp+
  from consent_gate [OF this(1,2)] this(3) show ?thesis by simp
qed

text \<open>
  the halt target of a state (\<open>nullified\<close> before consent, \<open>quarantined\<close> after it, none for a
  finished task) is a transition the table allows, except for \<open>reported\<close> and \<open>aggregated\<close>: there
  \<open>get_halt_target\<close> answers \<open>quarantined\<close> and the transition itself is refused.
\<close>

theorem halt_target_legal:
  "(get_halt_target s = None \<longleftrightarrow> is_terminal s) \<and>
   (\<forall>h. get_halt_target s = Some h \<longrightarrow> (is_valid_transition s h \<longleftrightarrow> s \<notin> {REPORTED, AGGREGATED}))"
  by (cases s) (auto simp: get_halt_target_def status_category_defs)

theorem halt_target_legal_witness:
  "is_valid_transition IN_PROGRESS QUARANTINED \<and> \<not> is_valid_transition REPORTED QUARANTINED"
  using halt_target_legal [of IN_PROGRESS] halt_target_legal [of REPORTED]
  by (simp add: get_halt_target_def status_category_defs)

end
