(* ===== verification/Governance_World.thy ===== *)
theory Governance_World
  imports Ledger Task_State
begin

text \<open>
  The state the governance services share: the task store
  (\<open>InMemoryTaskStatePort\<close> of \<open>src/infrastructure/adapters/governance/in_memory_adapters.py\<close>), a ledger
  (a parameter, \<open>'l\<close>), the two-phase emitter's registry of pending intents
  (\<open>src/application/services/governance/two_phase_event_emitter.py\<close>), and the two sources the code
  reads: the time authority and \<open>uuid4\<close>, each a sequence of values with the number of values read.
\<close>

record pending_intent =
  pi_correlation_id :: uuid
  pi_intent_event_id :: uuid
  pi_operation_type :: string
  pi_actor_id :: string
  pi_target_entity_id :: string
  pi_intent_payload :: payload
  pi_emitted_at :: datetime

record 'l world =
  w_tasks :: "(uuid, task_state) dict"
  w_ledger :: 'l
  w_pending :: "(uuid, pending_intent) dict"
  w_clock :: "nat \<Rightarrow> datetime"
  w_clock_reads :: nat
  w_uuid :: "nat \<Rightarrow> uuid"
  w_uuid_draws :: nat

definition time_now :: "('l world, datetime) act" where
  "time_now = (\<lambda>w. (Inr (w_clock w (w_clock_reads w)), w\<lparr>w_clock_reads := w_clock_reads w + 1\<rparr>))"

definition uuid4 :: "('l world, uuid) act" where
  "uuid4 = (\<lambda>w. (Inr (w_uuid w (w_uuid_draws w)), w\<lparr>w_uuid_draws := w_uuid_draws w + 1\<rparr>))"

text \<open>An operation of the ledger, performed on the world's ledger.\<close>

definition on_ledger :: "('l, 'a) act \<Rightarrow> ('l world, 'a) act" where
  "on_ledger m = (\<lambda>w. case m (w_ledger w) of (r, l) \<Rightarrow> (r, w\<lparr>w_ledger := l\<rparr>))"

section \<open>The task store\<close>

definition create_task :: "string \<Rightarrow> string option \<Rightarrow> timedelta \<Rightarrow> ('l world, task_state) act" where
  "create_task earl_id cluster_id ttl =
     act_bind uuid4 (\<lambda>task_id.
     act_bind time_now (\<lambda>now.
     act_bind (act_lift (create_task_state task_id earl_id now (Some ttl) None None)) (\<lambda>task.
     act_bind
       (case cluster_id of
          None \<Rightarrow> act_return task
        | Some c \<Rightarrow> act_lift (mk_task_state \<lparr>ts_task_id = ts_task_id task, ts_earl_id = ts_earl_id task,
            ts_cluster_id = Some c, ts_current_status = ts_current_status task,
            ts_created_at = ts_created_at task, ts_state_entered_at = ts_state_entered_at task,
            ts_ttl = ts_ttl task, ts_inactivity_timeout = hours 48, ts_reporting_timeout = days 7\<rparr>)) (\<lambda>task'.
     (\<lambda>w. (Inr task', w\<lparr>w_tasks := dict_set (ts_task_id task') task' (w_tasks w)\<rparr>))))))"

text \<open>\<open>str\<close> of a \<open>KeyError\<close> is the \<open>repr\<close> of the key.\<close>

definition get_task :: "uuid \<Rightarrow> ('l world, task_state) act" where
  "get_task task_id = (\<lambda>w.
     case dict_get (w_tasks w) task_id of
       None \<Rightarrow> (Inl (Exn KeyError (''UUID('' @ py_repr (uuid_str task_id) @ '')'')), w)
     | Some t \<Rightarrow> (Inr t, w))"

definition save_task :: "task_state \<Rightarrow> ('l world, unit) act" where
  "save_task task = (\<lambda>w. (Inr (), w\<lparr>w_tasks := dict_set (ts_task_id task) task (w_tasks w)\<rparr>))"

definition get_tasks_by_status :: "task_status \<Rightarrow> int \<Rightarrow> ('l world, task_state list) act" where
  "get_tasks_by_status status limit = (\<lambda>w.
     (Inr (py_slice (filter (\<lambda>t. ts_current_status t = status) (map snd (w_tasks w))) 0 limit), w))"

definition get_tasks_by_state_and_cluster ::
  "task_status \<Rightarrow> string \<Rightarrow> int \<Rightarrow> ('l world, task_state list) act" where
  "get_tasks_by_state_and_cluster status cluster_id limit = (\<lambda>w.
     (Inr (py_slice (filter (\<lambda>t. ts_current_status t = status \<and> ts_cluster_id t = Some cluster_id)
        (map snd (w_tasks w))) 0 limit), w))"

section \<open>Lemmas\<close>

lemma time_now_run [simp]:
  "time_now w = (Inr (w_clock w (w_clock_reads w)), w\<lparr>w_clock_reads := w_clock_reads w + 1\<rparr>)"
  by (simp add: time_now_def)

lemma uuid4_run [simp]:
  "uuid4 w = (Inr (w_uuid w (w_uuid_draws w)), w\<lparr>w_uuid_draws := w_uuid_draws w + 1\<rparr>)"
  by (simp add: uuid4_def)

lemma save_task_run [simp]:
  "save_task t w = (Inr (), w\<lparr>w_tasks := dict_set (ts_task_id t) t (w_tasks w)\<rparr>)"
  by (simp add: save_task_def)

lemma get_task_Some: "dict_get (w_tasks w) i = Some t \<Longrightarrow> get_task i w = (Inr t, w)"
  by (simp add: get_task_def)

lemma get_task_None:
  "dict_get (w_tasks w) i = None \<Longrightarrow> get_task i w = (Inl (Exn KeyError (''UUID('' @ py_repr (uuid_str i) @ '')'')), w)"
  by (simp add: get_task_def)

lemma on_ledger_Inr: "m (w_ledger w) = (Inr x, l) \<Longrightarrow> on_ledger m w = (Inr x, w\<lparr>w_ledger := l\<rparr>)"
  by (simp add: on_ledger_def)

lemma on_ledger_Inl: "m (w_ledger w) = (Inl e, l) \<Longrightarrow> on_ledger m w = (Inl e, w\<lparr>w_ledger := l\<rparr>)"
  by (simp add: on_ledger_def)

text \<open>The store maps each id to a valid task of that id.\<close>

definition tasks_ok :: "'l world \<Rightarrow> bool" where
  "tasks_ok w \<longleftrightarrow> dict_ok (w_tasks w) \<and> (\<forall>i t. dict_get (w_tasks w) i = Some t \<longrightarrow> ts_task_id t = i \<and> task_ok t)"

lemma tasks_ok_save:
  "tasks_ok w \<Longrightarrow> task_ok t \<Longrightarrow> tasks_ok (w\<lparr>w_tasks := dict_set (ts_task_id t) t (w_tasks w)\<rparr>)"
  by (auto simp: tasks_ok_def dict_ok_set dict_get_set)

subsection \<open>Frame relations on worlds\<close>

definition world_grows :: "('l \<Rightarrow> persisted_event list) \<Rightarrow> ('l \<Rightarrow> bool) \<Rightarrow> 'l world \<Rightarrow> 'l world \<Rightarrow> bool" where
  "world_grows log valid w w' \<longleftrightarrow> ledger_grows log valid (w_ledger w) (w_ledger w')"

text \<open>
  A task is only ever moved along the transition table: what the store holds afterwards has the same
  identity and is reached by allowed transitions, and no task is lost.
\<close>

definition tasks_move :: "'l world \<Rightarrow> 'l world \<Rightarrow> bool" where
  "tasks_move w w' \<longleftrightarrow> (tasks_ok w \<longrightarrow> tasks_ok w' \<and>
     (\<forall>i t. dict_get (w_tasks w) i = Some t \<longrightarrow>
        (\<exists>t'. dict_get (w_tasks w') i = Some t' \<and> same_identity t t' \<and>
           is_valid_transition\<^sup>*\<^sup>* (ts_current_status t) (ts_current_status t'))))"

lemma tasks_move_cong:
  "w_tasks a = w_tasks a' \<Longrightarrow> w_tasks b = w_tasks b' \<Longrightarrow> tasks_move a b \<longleftrightarrow> tasks_move a' b'"
  by (simp add: tasks_move_def tasks_ok_def)

lemma same_identity_trans: "same_identity s t \<Longrightarrow> same_identity t u \<Longrightarrow> same_identity s u"
  by (simp add: same_identity_def)

interpretation world_grows: frame_relation "world_grows log valid"
proof
  show "world_grows log valid s s" for s
    unfolding world_grows_def by (rule ledger_grows.frame_refl)
  show "world_grows log valid s u" if "world_grows log valid s t" "world_grows log valid t u" for s t u
    using that unfolding world_grows_def by (rule ledger_grows.frame_trans)
qed

interpretation tasks_move: frame_relation tasks_move
proof
  show "tasks_move s s" for s :: "'a world"
    by (auto simp: tasks_move_def same_identity_def)
  show "tasks_move s u" if st: "tasks_move s t" and tu: "tasks_move t u" for s t u :: "'a world"
    unfolding tasks_move_def
  proof (intro impI conjI allI)
    assume s: "tasks_ok s"
    show "tasks_ok u" using s st tu by (simp add: tasks_move_def)
    fix i x assume "dict_get (w_tasks s) i = Some x"
    then obtain y where y: "dict_get (w_tasks t) i = Some y" "same_identity x y"
      "is_valid_transition\<^sup>*\<^sup>* (ts_current_status x) (ts_current_status y)"
      using s st unfolding tasks_move_def by blast
    moreover have "tasks_ok t" using s st by (simp add: tasks_move_def)
    ultimately obtain z where "dict_get (w_tasks u) i = Some z" "same_identity y z"
      "is_valid_transition\<^sup>*\<^sup>* (ts_current_status y) (ts_current_status z)"
      using tu unfolding tasks_move_def by blast
    with y show "\<exists>z. dict_get (w_tasks u) i = Some z \<and> same_identity x z \<and>
        is_valid_transition\<^sup>*\<^sup>* (ts_current_status x) (ts_current_status z)"
      using same_identity_trans by (meson rtranclp_trans)
  qed
qed

lemma framed_same_ledger:
  assumes "\<And>w r w'. m w = (r, w') \<Longrightarrow> w_ledger w' = w_ledger w"
  shows "framed (world_grows log valid) m"
  by (rule framedI) (auto simp: world_grows_def assms intro: ledger_grows.frame_refl)

lemma framed_same_tasks:
  assumes "\<And>w r w'. m w = (r, w') \<Longrightarrow> w_tasks w' = w_tasks w"
  shows "framed tasks_move m"
  by (rule framedI) (auto simp: tasks_move_def tasks_ok_def assms same_identity_def)

lemma framed_on_ledger: "framed (ledger_grows log valid) m \<Longrightarrow> framed (world_grows log valid) (on_ledger m)"
  by (rule framedI) (auto simp: world_grows_def on_ledger_def split: prod.splits dest: framedD)

lemma on_ledger_tasks: "framed tasks_move (on_ledger m)"
  by (rule framed_same_tasks) (auto simp: on_ledger_def split: prod.splits)

lemma primitive_grows:
  "framed (world_grows log valid) time_now" "framed (world_grows log valid) uuid4"
  "framed (world_grows log valid) (get_task i)" "framed (world_grows log valid) (save_task t)"
  "framed (world_grows log valid) (get_tasks_by_status s n)"
  "framed (world_grows log valid) (get_tasks_by_state_and_cluster s c n)"
  by (rule framed_same_ledger;
      auto simp: get_task_def get_tasks_by_status_def get_tasks_by_state_and_cluster_def split: option.splits)+

lemma primitive_moves:
  "framed tasks_move time_now" "framed tasks_move uuid4" "framed tasks_move (get_task i)"
  "framed tasks_move (get_tasks_by_status s n)" "framed tasks_move (get_tasks_by_state_and_cluster s c n)"
  by (rule framed_same_tasks;
      auto simp: get_task_def get_tasks_by_status_def get_tasks_by_state_and_cluster_def split: option.splits)+

text \<open>Fetching a task of the store and saving what \<open>transition\<close> made of it moves that task.\<close>

lemma save_transition_moves:
  assumes "dict_get (w_tasks w) i = Some t" and "transition t s d = Inr t'"
  shows "tasks_move w (w\<lparr>w_tasks := dict_set (ts_task_id t') t' (w_tasks w)\<rparr>)"
  unfolding tasks_move_def
proof (intro impI conjI allI)
  assume ok: "tasks_ok w"
  note t' = assms(2)[unfolded transition_Inr]
  have i: "ts_task_id t' = i" using ok assms(1) t' by (auto simp: tasks_ok_def)
  show "tasks_ok (w\<lparr>w_tasks := dict_set (ts_task_id t') t' (w_tasks w)\<rparr>)"
    by (rule tasks_ok_save [OF ok]) (use t' in simp)
  fix j u assume u: "dict_get (w_tasks w) j = Some u"
  show "\<exists>u'. dict_get (w_tasks (w\<lparr>w_tasks := dict_set (ts_task_id t') t' (w_tasks w)\<rparr>)) j = Some u' \<and>
      same_identity u u' \<and> is_valid_transition\<^sup>*\<^sup>* (ts_current_status u) (ts_current_status u')"
    using u assms(1) t' i by (cases "j = i") (auto simp: dict_get_set same_identity_def)
qed

text \<open>A world for the examples: given tasks, empty registry, a clock that stands still, uuids counted up.\<close>

definition example_world :: "(uuid, task_state) dict \<Rightarrow> datetime \<Rightarrow> memory_ledger world" where
  "example_world ts now = \<lparr>w_tasks = ts, w_ledger = memory_ledger_init, w_pending = [], w_clock = \<lambda>_. now,
     w_clock_reads = 0, w_uuid = word_of_nat, w_uuid_draws = 0\<rparr>"

text \<open>A pending request and a world that holds it, for the examples.\<close>

definition routed_task :: task_state where
  "routed_task = example_task\<lparr>ts_current_status := ROUTED\<rparr>"

definition routed_world :: "datetime \<Rightarrow> memory_ledger world" where
  "routed_world now = example_world [(7, routed_task)] now"

lemma routed_task_ok: "task_ok routed_task" "ts_task_id routed_task = 7"
  by code_simp+

lemma routed_world_ok:
  "memory_inv (w_ledger (routed_world now))" "tasks_ok (routed_world now)"
  "dict_get (w_pending (routed_world now)) (w_uuid (routed_world now) (w_uuid_draws (routed_world now))) = None"
  using routed_task_ok
  by (auto simp: routed_world_def example_world_def tasks_ok_def dict_ok_def dict_get_def split: if_splits)

end
