(* ===== verification/Two_Phase.thy ===== *)
theory Two_Phase
  imports Governance_World
begin

text \<open>
  Two-phase emission: the three event models (\<open>src/domain/governance/events/two_phase_events.py\<close>), the
  emitter with its registry of pending intents
  (\<open>src/application/services/governance/two_phase_event_emitter.py\<close>) and the context manager around an
  operation (\<open>two_phase_execution.py\<close>). \<open>append_event\<close> is the ledger's \<open>append_event\<close>.
\<close>

section \<open>The event models\<close>

definition derive_branch_from_operation_type :: "string \<Rightarrow> exn + string" where
  "derive_branch_from_operation_type operation_type =
     (if operation_type = [] \<or> CHR ''.'' \<notin> set operation_type then
        Inl (Exn TwoPhaseEventTypeError
          (''operation_type must be in format '' @ [CHR 0x27] @ ''branch.noun.verb'' @ [CHR 0x27] @
           '', got '' @ [CHR 0x27] @ operation_type @ [CHR 0x27]))
      else Inr (first_segment operation_type))"

definition validate_non_empty_string :: "string \<Rightarrow> string \<Rightarrow> exn + unit" where
  "validate_non_empty_string v field_name =
     (if blank v then Inl (Exn TwoPhaseEventTypeError (field_name @ '' must be non-empty string''))
      else Inr ())"

fun validate_all :: "(exn + unit) list \<Rightarrow> exn + unit" where
  "validate_all [] = Inr ()"
| "validate_all (r # rs) = (case r of Inl e \<Rightarrow> Inl e | Inr _ \<Rightarrow> validate_all rs)"

definition check_operation_type :: "string \<Rightarrow> exn + unit" where
  "check_operation_type operation_type =
     (case derive_branch_from_operation_type operation_type of Inl e \<Rightarrow> Inl e | Inr _ \<Rightarrow> Inr ())"

record intent_emitted_event =
  ie_correlation_id :: uuid
  ie_operation_type :: string
  ie_actor_id :: string
  ie_target_entity_id :: string
  ie_intent_payload :: payload

definition mk_intent_emitted_event :: "intent_emitted_event \<Rightarrow> exn + intent_emitted_event" where
  "mk_intent_emitted_event e =
     (case validate_all
        [validate_non_empty_string (ie_operation_type e) ''operation_type'',
         validate_non_empty_string (ie_actor_id e) ''actor_id'',
         validate_non_empty_string (ie_target_entity_id e) ''target_entity_id'',
         check_operation_type (ie_operation_type e)] of
        Inl x \<Rightarrow> Inl x | Inr _ \<Rightarrow> Inr e)"

record commit_confirmed_event =
  ce_correlation_id :: uuid
  ce_intent_event_id :: uuid
  ce_operation_type :: string
  ce_result_payload :: payload

definition mk_commit_confirmed_event :: "commit_confirmed_event \<Rightarrow> exn + commit_confirmed_event" where
  "mk_commit_confirmed_event e =
     (case validate_all
        [validate_non_empty_string (ce_operation_type e) ''operation_type'',
         check_operation_type (ce_operation_type e)] of
        Inl x \<Rightarrow> Inl x | Inr _ \<Rightarrow> Inr e)"

record failure_recorded_event =
  fe_correlation_id :: uuid
  fe_intent_event_id :: uuid
  fe_operation_type :: string
  fe_failure_reason :: string
  fe_failure_details :: payload
  fe_was_orphan :: bool

definition mk_failure_recorded_event :: "failure_recorded_event \<Rightarrow> exn + failure_recorded_event" where
  "mk_failure_recorded_event e =
     (case validate_all
        [validate_non_empty_string (fe_operation_type e) ''operation_type'',
         validate_non_empty_string (fe_failure_reason e) ''failure_reason'',
         check_operation_type (fe_operation_type e)] of
        Inl x \<Rightarrow> Inl x | Inr _ \<Rightarrow> Inr e)"

text \<open>\<open>f"{branch}.intent.emitted"\<close> and its two siblings.\<close>

definition two_phase_event_type :: "string \<Rightarrow> string \<Rightarrow> exn + string" where
  "two_phase_event_type suffix operation_type =
     (case derive_branch_from_operation_type operation_type of
        Inl e \<Rightarrow> Inl e | Inr branch \<Rightarrow> Inr (branch @ suffix))"

definition intent_event_type :: "string \<Rightarrow> exn + string" where
  "intent_event_type = two_phase_event_type ''.intent.emitted''"

definition commit_event_type :: "string \<Rightarrow> exn + string" where
  "commit_event_type = two_phase_event_type ''.commit.confirmed''"

definition failure_event_type :: "string \<Rightarrow> exn + string" where
  "failure_event_type = two_phase_event_type ''.failure.recorded''"

section \<open>The emitter\<close>

definition no_pending_intent :: "uuid \<Rightarrow> exn" where
  "no_pending_intent correlation_id = Exn TwoPhaseEmitError
     (''No pending intent found for correlation_id '' @ uuid_str correlation_id @ ''. '' @
      ''Intent may have already been resolved or was never emitted.'')"

definition set_pending :: "uuid \<Rightarrow> pending_intent \<Rightarrow> ('l world, unit) act" where
  "set_pending correlation_id p =
     (\<lambda>w. (Inr (), w\<lparr>w_pending := dict_set correlation_id p (w_pending w)\<rparr>))"

definition del_pending :: "uuid \<Rightarrow> ('l world, unit) act" where
  "del_pending correlation_id = (\<lambda>w. (Inr (), w\<lparr>w_pending := dict_del correlation_id (w_pending w)\<rparr>))"

definition lookup_pending :: "uuid \<Rightarrow> ('l world, pending_intent) act" where
  "lookup_pending correlation_id = (\<lambda>w.
     case dict_get (w_pending w) correlation_id of
       None \<Rightarrow> (Inl (no_pending_intent correlation_id), w) | Some p \<Rightarrow> (Inr p, w))"

definition emit_intent ::
  "(governance_event \<Rightarrow> ('l, persisted_event) act) \<Rightarrow> string \<Rightarrow> string \<Rightarrow> string \<Rightarrow> payload
    \<Rightarrow> ('l world, uuid) act" where
  "emit_intent append_event operation_type actor_id target_entity_id intent_payload =
     act_bind uuid4 (\<lambda>correlation_id.
     act_bind time_now (\<lambda>now.
     act_bind (act_lift (mk_intent_emitted_event
       \<lparr>ie_correlation_id = correlation_id, ie_operation_type = operation_type, ie_actor_id = actor_id,
        ie_target_entity_id = target_entity_id, ie_intent_payload = intent_payload\<rparr>)) (\<lambda>intent.
     act_bind uuid4 (\<lambda>event_id.
     act_bind (act_lift (intent_event_type (ie_operation_type intent))) (\<lambda>event_type.
     act_bind (act_lift (governance_event_create event_id event_type now actor_id
       (uuid_str correlation_id)
       [(''correlation_id'', PyStr (uuid_str correlation_id)),
        (''operation_type'', PyStr operation_type),
        (''target_entity_id'', PyStr target_entity_id),
        (''intent_payload'', PyDict intent_payload)] current_schema_version)) (\<lambda>event.
     act_bind (on_ledger (append_event event)) (\<lambda>persisted.
     act_bind (set_pending correlation_id
       \<lparr>pi_correlation_id = correlation_id, pi_intent_event_id = ge_event_id (pe_event persisted),
        pi_operation_type = operation_type, pi_actor_id = actor_id,
        pi_target_entity_id = target_entity_id, pi_intent_payload = intent_payload,
        pi_emitted_at = now\<rparr>) (\<lambda>_.
     act_return correlation_id))))))))"

definition emit_commit ::
  "(governance_event \<Rightarrow> ('l, persisted_event) act) \<Rightarrow> uuid \<Rightarrow> payload \<Rightarrow> ('l world, unit) act" where
  "emit_commit append_event correlation_id result_payload =
     act_bind (lookup_pending correlation_id) (\<lambda>pending.
     act_bind time_now (\<lambda>now.
     act_bind (act_lift (mk_commit_confirmed_event
       \<lparr>ce_correlation_id = correlation_id, ce_intent_event_id = pi_intent_event_id pending,
        ce_operation_type = pi_operation_type pending, ce_result_payload = result_payload\<rparr>)) (\<lambda>commit.
     act_bind uuid4 (\<lambda>event_id.
     act_bind (act_lift (commit_event_type (ce_operation_type commit))) (\<lambda>event_type.
     act_bind (act_lift (governance_event_create event_id event_type now (pi_actor_id pending)
       (uuid_str correlation_id)
       [(''correlation_id'', PyStr (uuid_str correlation_id)),
        (''intent_event_id'', PyStr (uuid_str (pi_intent_event_id pending))),
        (''operation_type'', PyStr (pi_operation_type pending)),
        (''result_payload'', PyDict result_payload)] current_schema_version)) (\<lambda>event.
     act_bind (on_ledger (append_event event)) (\<lambda>_.
     del_pending correlation_id)))))))"

definition emit_failure ::
  "(governance_event \<Rightarrow> ('l, persisted_event) act) \<Rightarrow> uuid \<Rightarrow> string \<Rightarrow> payload \<Rightarrow> ('l world, unit) act" where
  "emit_failure append_event correlation_id failure_reason failure_details =
     act_bind (lookup_pending correlation_id) (\<lambda>pending.
     act_bind time_now (\<lambda>now.
     let was_orphan = (failure_reason = ''ORPHAN_TIMEOUT'') in
     act_bind (act_lift (mk_failure_recorded_event
       \<lparr>fe_correlation_id = correlation_id, fe_intent_event_id = pi_intent_event_id pending,
        fe_operation_type = pi_operation_type pending, fe_failure_reason = failure_reason,
        fe_failure_details = failure_details, fe_was_orphan = was_orphan\<rparr>)) (\<lambda>failure.
     act_bind uuid4 (\<lambda>event_id.
     act_bind (act_lift (failure_event_type (fe_operation_type failure))) (\<lambda>event_type.
     act_bind (act_lift (governance_event_create event_id event_type now (pi_actor_id pending)
       (uuid_str correlation_id)
       [(''correlation_id'', PyStr (uuid_str correlation_id)),
        (''intent_event_id'', PyStr (uuid_str (pi_intent_event_id pending))),
        (''operation_type'', PyStr (pi_operation_type pending)),
        (''failure_reason'', PyStr failure_reason),
        (''failure_details'', PyDict failure_details),
        (''was_orphan'', PyBool was_orphan)] current_schema_version)) (\<lambda>event.
     act_bind (on_ledger (append_event event)) (\<lambda>_.
     del_pending correlation_id)))))))"

definition get_pending_intent :: "uuid \<Rightarrow> 'l world \<Rightarrow> payload option" where
  "get_pending_intent correlation_id w =
     (case dict_get (w_pending w) correlation_id of
        None \<Rightarrow> None
      | Some p \<Rightarrow> Some [
          (''correlation_id'', PyStr (uuid_str (pi_correlation_id p))),
          (''intent_event_id'', PyStr (uuid_str (pi_intent_event_id p))),
          (''operation_type'', PyStr (pi_operation_type p)),
          (''actor_id'', PyStr (pi_actor_id p)),
          (''target_entity_id'', PyStr (pi_target_entity_id p)),
          (''intent_payload'', PyDict (pi_intent_payload p)),
          (''emitted_at'', PyStr (isoformat (pi_emitted_at p)))])"

definition get_pending_correlation_ids :: "'l world \<Rightarrow> uuid list" where
  "get_pending_correlation_ids w = map fst (w_pending w)"

definition get_pending_intents_with_age :: "'l world \<Rightarrow> (uuid \<times> datetime) list" where
  "get_pending_intents_with_age w = map (\<lambda>(_, p). (pi_correlation_id p, pi_emitted_at p)) (w_pending w)"

section \<open>The context manager\<close>

text \<open>
  The body of the \<open>async with\<close> block returns its value and the payload it passed to \<open>set_result\<close>. An
  exception of \<open>emit_failure\<close> is swallowed and the body's exception is raised again; an exception of
  \<open>emit_commit\<close> leaves the block.
\<close>

definition failure_details :: "exn \<Rightarrow> payload" where
  "failure_details e = [
     (''exception_type'', PyStr (exn_class_name (exn_kind e))),
     (''exception_message'', PyStr (exn_str e))]"

definition aexit_failure ::
  "(governance_event \<Rightarrow> ('l, persisted_event) act) \<Rightarrow> uuid \<Rightarrow> exn \<Rightarrow> ('l world, 'a) act" where
  "aexit_failure append_event correlation_id e =
     act_bind (act_try (emit_failure append_event correlation_id (exn_str e) (failure_details e))
       (\<lambda>_. act_return ())) (\<lambda>_. act_raise e)"

definition two_phase_execution ::
  "(governance_event \<Rightarrow> ('l, persisted_event) act) \<Rightarrow> string \<Rightarrow> string \<Rightarrow> string \<Rightarrow> payload
    \<Rightarrow> ('l world, 'a \<times> payload) act \<Rightarrow> ('l world, 'a) act" where
  "two_phase_execution append_event operation_type actor_id target_entity_id intent_payload body =
     act_bind (emit_intent append_event operation_type actor_id target_entity_id intent_payload) (\<lambda>correlation_id.
     act_bind (act_try body (aexit_failure append_event correlation_id)) (\<lambda>(x, result_payload).
     act_bind (emit_commit append_event correlation_id result_payload) (\<lambda>_.
     act_return x)))"

section \<open>Running the emitter\<close>

definition op_ok :: "string \<Rightarrow> bool" where
  "op_ok operation_type \<longleftrightarrow> CHR ''.'' \<in> set operation_type \<and> \<not> blank operation_type \<and>
     event_type_pattern (first_segment operation_type @ ''.intent.emitted'') \<and>
     event_type_pattern (first_segment operation_type @ ''.commit.confirmed'') \<and>
     event_type_pattern (first_segment operation_type @ ''.failure.recorded'')"

text \<open>The three envelopes.\<close>

definition intent_event ::
  "uuid \<Rightarrow> uuid \<Rightarrow> datetime \<Rightarrow> string \<Rightarrow> string \<Rightarrow> string \<Rightarrow> payload \<Rightarrow> governance_event" where
  "intent_event event_id correlation_id now operation_type actor_id target_entity_id intent_payload =
     \<lparr>ge_metadata = \<lparr>em_event_id = event_id,
        em_event_type = first_segment operation_type @ ''.intent.emitted'', em_timestamp = now,
        em_actor_id = actor_id, em_schema_version = current_schema_version,
        em_trace_id = uuid_str correlation_id, em_prev_hash = [], em_hash = []\<rparr>,
      ge_payload = [(''correlation_id'', PyStr (uuid_str correlation_id)),
        (''operation_type'', PyStr operation_type), (''target_entity_id'', PyStr target_entity_id),
        (''intent_payload'', PyDict intent_payload)]\<rparr>"

definition outcome_event ::
  "string \<Rightarrow> payload \<Rightarrow> uuid \<Rightarrow> uuid \<Rightarrow> datetime \<Rightarrow> pending_intent \<Rightarrow> governance_event" where
  "outcome_event suffix extra event_id correlation_id now p =
     \<lparr>ge_metadata = \<lparr>em_event_id = event_id,
        em_event_type = first_segment (pi_operation_type p) @ suffix, em_timestamp = now,
        em_actor_id = pi_actor_id p, em_schema_version = current_schema_version,
        em_trace_id = uuid_str correlation_id, em_prev_hash = [], em_hash = []\<rparr>,
      ge_payload = [(''correlation_id'', PyStr (uuid_str correlation_id)),
        (''intent_event_id'', PyStr (uuid_str (pi_intent_event_id p))),
        (''operation_type'', PyStr (pi_operation_type p))] @ extra\<rparr>"

lemma op_okD:
  assumes "op_ok op"
  shows "derive_branch_from_operation_type op = Inr (first_segment op)" "check_operation_type op = Inr ()"
    "validate_non_empty_string op f = Inr ()"
    "intent_event_type op = Inr (first_segment op @ ''.intent.emitted'')"
    "commit_event_type op = Inr (first_segment op @ ''.commit.confirmed'')"
    "failure_event_type op = Inr (first_segment op @ ''.failure.recorded'')"
  using assms by (auto simp: op_ok_def derive_branch_from_operation_type_def check_operation_type_def
      validate_non_empty_string_def intent_event_type_def commit_event_type_def failure_event_type_def
      two_phase_event_type_def)

lemma governance_event_create_ok:
  assumes "event_type_pattern t" "\<not> blank a" "\<not> blank tr"
  shows "governance_event_create i t now a tr p current_schema_version =
    Inr \<lparr>ge_metadata = \<lparr>em_event_id = i, em_event_type = t, em_timestamp = now, em_actor_id = a,
      em_schema_version = current_schema_version, em_trace_id = tr, em_prev_hash = [], em_hash = []\<rparr>,
      ge_payload = p\<rparr>"
proof -
  have "t \<noteq> []" using assms(1) by (auto simp: event_type_pattern_def matches_dotted_def run_of_def)
  then show ?thesis
    using assms by (simp add: governance_event_create_def mk_event_metadata_def validate_event_type_def)
qed

lemma emit_intent_run:
  fixes w :: "'l world" and pl :: payload
  assumes "op_ok op" "\<not> blank a" "\<not> blank tgt"
  defines "cid \<equiv> w_uuid w (w_uuid_draws w)"
  defines "e \<equiv> intent_event (w_uuid w (w_uuid_draws w + 1)) cid (w_clock w (w_clock_reads w)) op a tgt pl"
  shows "emit_intent append_event op a tgt pl w =
    (case append_event e (w_ledger w) of
       (Inl x, l) \<Rightarrow> (Inl x, w\<lparr>w_ledger := l, w_clock_reads := w_clock_reads w + 1, w_uuid_draws := w_uuid_draws w + 2\<rparr>)
     | (Inr p, l) \<Rightarrow> (Inr cid, w\<lparr>w_ledger := l, w_clock_reads := w_clock_reads w + 1, w_uuid_draws := w_uuid_draws w + 2,
         w_pending := dict_set cid \<lparr>pi_correlation_id = cid, pi_intent_event_id = ge_event_id (pe_event p),
           pi_operation_type = op, pi_actor_id = a, pi_target_entity_id = tgt, pi_intent_payload = pl,
           pi_emitted_at = w_clock w (w_clock_reads w)\<rparr> (w_pending w)\<rparr>))"
proof -
  have mk: "mk_intent_emitted_event i = Inr i" if "ie_operation_type i = op" "ie_actor_id i = a" "ie_target_entity_id i = tgt" for i
    using that op_okD(2,3) [OF assms(1)] assms(2,3)
    by (simp add: mk_intent_emitted_event_def validate_non_empty_string_def)
  have "event_type_pattern (first_segment op @ ''.intent.emitted'')" using assms(1) by (simp add: op_ok_def)
  then have create: "governance_event_create i (first_segment op @ ''.intent.emitted'') now a (uuid_str c)
      [(''correlation_id'', PyStr (uuid_str c)), (''operation_type'', PyStr op),
       (''target_entity_id'', PyStr tgt), (''intent_payload'', PyDict pl)] current_schema_version =
      Inr (intent_event i c now op a tgt pl)" for i c now
    using governance_event_create_ok uuid_str_nonblank assms(2) by (simp add: intent_event_def)
  show ?thesis
    by (simp add: emit_intent_def act_bind_def mk op_okD [OF assms(1)] create on_ledger_def set_pending_def
        cid_def e_def split: prod.split sum.split)
qed

lemma emit_commit_run:
  fixes w :: "'l world" and result :: payload
  assumes "dict_get (w_pending w) cid = Some p" "op_ok (pi_operation_type p)" "\<not> blank (pi_actor_id p)"
  defines "e \<equiv> outcome_event ''.commit.confirmed'' [(''result_payload'', PyDict result)]
    (w_uuid w (w_uuid_draws w)) cid (w_clock w (w_clock_reads w)) p"
  shows "emit_commit append_event cid result w =
    (case append_event e (w_ledger w) of
       (Inl x, l) \<Rightarrow> (Inl x, w\<lparr>w_ledger := l, w_clock_reads := w_clock_reads w + 1, w_uuid_draws := w_uuid_draws w + 1\<rparr>)
     | (Inr q, l) \<Rightarrow> (Inr (), w\<lparr>w_ledger := l, w_clock_reads := w_clock_reads w + 1, w_uuid_draws := w_uuid_draws w + 1,
         w_pending := dict_del cid (w_pending w)\<rparr>))"
proof -
  let ?op = "pi_operation_type p"
  have mk: "mk_commit_confirmed_event i = Inr i" if "ce_operation_type i = ?op" for i
    using that op_okD(2,3) [OF assms(2)] by (simp add: mk_commit_confirmed_event_def)
  have "event_type_pattern (first_segment ?op @ ''.commit.confirmed'')" using assms(2) by (simp add: op_ok_def)
  then have create: "governance_event_create i (first_segment ?op @ ''.commit.confirmed'') now (pi_actor_id p) (uuid_str cid)
      [(''correlation_id'', PyStr (uuid_str cid)), (''intent_event_id'', PyStr (uuid_str (pi_intent_event_id p))),
       (''operation_type'', PyStr ?op), (''result_payload'', PyDict result)] current_schema_version =
      Inr (outcome_event ''.commit.confirmed'' [(''result_payload'', PyDict result)] i cid now p)" for i now
    using governance_event_create_ok uuid_str_nonblank assms(3) by (simp add: outcome_event_def)
  show ?thesis
    by (simp add: emit_commit_def act_bind_def lookup_pending_def assms(1) mk op_okD [OF assms(2)] create
        on_ledger_def del_pending_def e_def split: prod.split sum.split)
qed

lemma emit_failure_run:
  fixes w :: "'l world" and details :: payload
  assumes "dict_get (w_pending w) cid = Some p" "op_ok (pi_operation_type p)" "\<not> blank (pi_actor_id p)" "\<not> blank reason"
  defines "e \<equiv> outcome_event ''.failure.recorded'' [(''failure_reason'', PyStr reason),
      (''failure_details'', PyDict details), (''was_orphan'', PyBool (reason = ''ORPHAN_TIMEOUT''))]
    (w_uuid w (w_uuid_draws w)) cid (w_clock w (w_clock_reads w)) p"
  shows "emit_failure append_event cid reason details w =
    (case append_event e (w_ledger w) of
       (Inl x, l) \<Rightarrow> (Inl x, w\<lparr>w_ledger := l, w_clock_reads := w_clock_reads w + 1, w_uuid_draws := w_uuid_draws w + 1\<rparr>)
     | (Inr q, l) \<Rightarrow> (Inr (), w\<lparr>w_ledger := l, w_clock_reads := w_clock_reads w + 1, w_uuid_draws := w_uuid_draws w + 1,
         w_pending := dict_del cid (w_pending w)\<rparr>))"
proof -
  let ?op = "pi_operation_type p"
  have mk: "mk_failure_recorded_event i = Inr i" if "fe_operation_type i = ?op" "fe_failure_reason i = reason" for i
    using that op_okD(2,3) [OF assms(2)] assms(4)
    by (simp add: mk_failure_recorded_event_def validate_non_empty_string_def)
  have "event_type_pattern (first_segment ?op @ ''.failure.recorded'')" using assms(2) by (simp add: op_ok_def)
  then have create: "governance_event_create i (first_segment ?op @ ''.failure.recorded'') now (pi_actor_id p) (uuid_str cid)
      [(''correlation_id'', PyStr (uuid_str cid)), (''intent_event_id'', PyStr (uuid_str (pi_intent_event_id p))),
       (''operation_type'', PyStr ?op), (''failure_reason'', PyStr reason),
       (''failure_details'', PyDict details), (''was_orphan'', PyBool b)] current_schema_version =
      Inr (outcome_event ''.failure.recorded'' [(''failure_reason'', PyStr reason),
        (''failure_details'', PyDict details), (''was_orphan'', PyBool b)] i cid now p)" for i now b
    using governance_event_create_ok uuid_str_nonblank assms(3) by (simp add: outcome_event_def)
  show ?thesis
    by (simp add: emit_failure_def act_bind_def lookup_pending_def assms(1) mk op_okD [OF assms(2)] create
        on_ledger_def del_pending_def e_def Let_def split: prod.split sum.split)
qed

text \<open>A failure whose reason is empty or blank cannot be recorded.\<close>

lemma emit_failure_blank:
  assumes "dict_get (w_pending w) cid = Some p" "op_ok (pi_operation_type p)" "blank reason"
  shows "emit_failure append_event cid reason details w =
    (Inl (Exn TwoPhaseEventTypeError ''failure_reason must be non-empty string''),
     w\<lparr>w_clock_reads := w_clock_reads w + 1\<rparr>)"
  using op_okD(3) [OF assms(2)] assms
  by (simp add: emit_failure_def act_bind_def lookup_pending_def mk_failure_recorded_event_def
      validate_non_empty_string_def Let_def)

section \<open>What emission leaves alone\<close>

definition same_tasks :: "'l world \<Rightarrow> 'l world \<Rightarrow> bool" where
  "same_tasks w w' \<longleftrightarrow> w_tasks w' = w_tasks w"

interpretation same_tasks: frame_relation same_tasks
  by unfold_locales (auto simp: same_tasks_def)

lemma same_tasks_primitive:
  "framed same_tasks time_now" "framed same_tasks uuid4" "framed same_tasks (on_ledger m)"
  "framed same_tasks (set_pending i p)" "framed same_tasks (del_pending i)" "framed same_tasks (lookup_pending i)"
  by (rule framedI;
      auto simp: same_tasks_def on_ledger_def set_pending_def del_pending_def lookup_pending_def
        split: prod.splits option.splits)+

lemma emit_same_tasks:
  "framed same_tasks (emit_intent append_event op a tgt pl)"
  "framed same_tasks (emit_commit append_event cid result)"
  "framed same_tasks (emit_failure append_event cid reason details)"
  unfolding emit_intent_def emit_commit_def emit_failure_def Let_def
  by (intro same_tasks.framed_intros same_tasks_primitive)+

lemma framed_same_tasks_moves: "framed same_tasks m \<Longrightarrow> framed tasks_move m"
  by (rule framed_same_tasks) (auto simp: same_tasks_def dest: framedD)

lemma two_phase_moves:
  assumes "framed tasks_move body"
  shows "framed tasks_move (two_phase_execution append_event op a tgt pl body)"
  unfolding two_phase_execution_def aexit_failure_def split_beta
  by (intro tasks_move.framed_intros assms emit_same_tasks [THEN framed_same_tasks_moves])

lemma pending_grows:
  "framed (world_grows log valid) (set_pending i p)" "framed (world_grows log valid) (del_pending i)"
  "framed (world_grows log valid) (lookup_pending i)"
  by (rule framed_same_ledger;
      auto simp: set_pending_def del_pending_def lookup_pending_def split: option.splits)+

context ledger_port
begin

lemma emit_grows:
  "framed (world_grows log valid) (emit_intent append_event op a tgt pl)"
  "framed (world_grows log valid) (emit_commit append_event cid result)"
  "framed (world_grows log valid) (emit_failure append_event cid reason details)"
  unfolding emit_intent_def emit_commit_def emit_failure_def Let_def
  by (intro world_grows.framed_intros primitive_grows pending_grows framed_on_ledger append_grows)+

lemma two_phase_grows:
  assumes "framed (world_grows log valid) body"
  shows "framed (world_grows log valid) (two_phase_execution append_event op a tgt pl body)"
  unfolding two_phase_execution_def aexit_failure_def split_beta
  by (intro world_grows.framed_intros assms emit_grows)

end

section \<open>Properties\<close>

text \<open>Bodies that leave the registry of pending intents alone.\<close>

definition same_pending :: "'l world \<Rightarrow> 'l world \<Rightarrow> bool" where
  "same_pending w w' \<longleftrightarrow> w_pending w' = w_pending w"

interpretation same_pending: frame_relation same_pending
  by unfold_locales (auto simp: same_pending_def)

lemma dict_del_set_fresh: "dict_get d k = None \<Longrightarrow> dict_del k (dict_set k v d) = d"
  by (induction k v d rule: dict_set.induct) (auto simp: dict_del_def dict_get_def split: if_splits)

lemma two_phase_memory:
  assumes "memory_inv (w_ledger w)" and "op_ok op" and "\<not> blank a" and "\<not> blank tgt"
    and "framed same_pending body" and "framed (world_grows ml_events memory_inv) body"
    and "dict_get (w_pending w) (w_uuid w (w_uuid_draws w)) = None"
    and "two_phase_execution memory_append_event op a tgt pl body w = (r, w')"
  shows "\<exists>intent w1 rb w2. body w1 = (rb, w2) \<and> same_tasks w w1 \<and> same_tasks w2 w' \<and>
    memory_inv (w_ledger w1) \<and> w_clock w1 = w_clock w \<and> w_clock_reads w1 = w_clock_reads w + 1 \<and>
    ml_events (w_ledger w1) = ml_events (w_ledger w) @ [intent] \<and>
    ge_event_type (pe_event intent) = first_segment op @ ''.intent.emitted'' \<and>
    (case rb of
       Inr (x, _) \<Rightarrow> r = Inr x \<and> w_pending w' = w_pending w \<and>
         (\<exists>commit. ml_events (w_ledger w') = ml_events (w_ledger w2) @ [commit] \<and>
            ge_event_type (pe_event commit) = first_segment op @ ''.commit.confirmed'' \<and>
            ge_trace_id (pe_event commit) = ge_trace_id (pe_event intent))
     | Inl e \<Rightarrow> r = Inl e \<and>
         (if blank (exn_str e) then
            ml_events (w_ledger w') = ml_events (w_ledger w2) \<and>
            dict_get (w_pending w') (w_uuid w (w_uuid_draws w)) \<noteq> None
          else w_pending w' = w_pending w \<and>
            (\<exists>failure. ml_events (w_ledger w') = ml_events (w_ledger w2) @ [failure] \<and>
               ge_event_type (pe_event failure) = first_segment op @ ''.failure.recorded'' \<and>
               ge_trace_id (pe_event failure) = ge_trace_id (pe_event intent))))"
proof -
  let ?cid = "w_uuid w (w_uuid_draws w)"
  obtain p w1 where
    intent: "emit_intent memory_append_event op a tgt pl w = (Inr ?cid, w1)"
    and w1: "same_tasks w w1" "memory_inv (w_ledger w1)" "w_clock w1 = w_clock w" "w_clock_reads w1 = w_clock_reads w + 1"
      "\<exists>intent. ml_events (w_ledger w1) = ml_events (w_ledger w) @ [intent] \<and>
         ge_event_type (pe_event intent) = first_segment op @ ''.intent.emitted'' \<and>
         ge_trace_id (pe_event intent) = uuid_str ?cid"
    and p: "w_pending w1 = dict_set ?cid p (w_pending w)" "pi_operation_type p = op" "pi_actor_id p = a"
    using memory.append_success [OF assms(1) memory_append [OF assms(1)]]
    by (auto simp: emit_intent_run [OF assms(2-4)] memory_append [OF assms(1)] same_tasks_def
        intent_event_def ge_accessors)
  obtain rb w2 where body: "body w1 = (rb, w2)" by fastforce
  have w2: "w_pending w2 = w_pending w1" "memory_inv (w_ledger w2)"
    using framedD [OF assms(5) body] framedD [OF assms(6) body] w1(2)
    by (auto simp: same_pending_def world_grows_def ledger_grows_def)
  then have lookup: "dict_get (w_pending w2) ?cid = Some p" using p(1) by simp
  have restored: "dict_del ?cid (w_pending w2) = w_pending w"
    using dict_del_set_fresh [OF assms(7)] p(1) w2(1) by simp
  have op: "op_ok (pi_operation_type p)" and a: "\<not> blank (pi_actor_id p)" using p assms(2,3) by simp_all
  note app = memory_append [OF w2(2)]
  show ?thesis
  proof (cases rb)
    case (Inr xr)
    obtain x result where xr: "xr = (x, result)" by (cases xr)
    have "(r, w') = (case emit_commit memory_append_event ?cid result w2 of (Inl e, u) \<Rightarrow> (Inl e, u) | (Inr _, u) \<Rightarrow> (Inr x, u))"
      using assms(8) intent body Inr xr by (simp add: two_phase_execution_def act_bind_def act_try_def split: prod.splits sum.splits)
    then have "r = Inr x \<and> w_pending w' = w_pending w \<and> same_tasks w2 w' \<and>
        (\<exists>commit. ml_events (w_ledger w') = ml_events (w_ledger w2) @ [commit] \<and>
            ge_event_type (pe_event commit) = first_segment op @ ''.commit.confirmed'' \<and>
            ge_trace_id (pe_event commit) = uuid_str ?cid)"
      using p(2) by (simp add: emit_commit_run [OF lookup op a] app restored same_tasks_def outcome_event_def ge_accessors)
    then show ?thesis using body w1 Inr xr by fastforce
  next
    case (Inl e)
    have run: "(r, w') = (case emit_failure memory_append_event ?cid (exn_str e) (failure_details e) w2 of (_, u) \<Rightarrow> (Inl e, u))"
      using assms(8) intent body Inl
      by (simp add: two_phase_execution_def aexit_failure_def act_bind_def act_try_def split: prod.splits sum.splits)
    show ?thesis
    proof (cases "blank (exn_str e)")
      case True
      then have "r = Inl e \<and> same_tasks w2 w' \<and> ml_events (w_ledger w') = ml_events (w_ledger w2) \<and>
          dict_get (w_pending w') ?cid \<noteq> None"
        using run lookup by (simp add: emit_failure_blank [OF lookup op] same_tasks_def)
      then show ?thesis using body w1 Inl True by fastforce
    next
      case False
      have "r = Inl e \<and> w_pending w' = w_pending w \<and> same_tasks w2 w' \<and>
          (\<exists>failure. ml_events (w_ledger w') = ml_events (w_ledger w2) @ [failure] \<and>
            ge_event_type (pe_event failure) = first_segment op @ ''.failure.recorded'' \<and>
            ge_trace_id (pe_event failure) = uuid_str ?cid)"
        using run p(2)
        by (simp add: emit_failure_run [OF lookup op a False] app restored same_tasks_def outcome_event_def ge_accessors)
      then show ?thesis using body w1 Inl False by fastforce
    qed
  qed
qed

text \<open>
  C9: two-phase execution over the in-memory ledger. The intent is recorded first, before the body
  runs. If the body returns, exactly one commit with the intent's correlation id follows the body's
  own events; if it raises, exactly one failure does, the exception leaves the block unchanged, and in
  both cases no intent stays pending. The one exception is a body that raises with a blank message:
  the failure event refuses a blank reason, the refusal is swallowed, and the intent stays pending
  without any outcome.
\<close>

theorem two_phase_one_outcome:
  assumes "memory_inv (w_ledger w)" and "op_ok op" and "\<not> blank a" and "\<not> blank tgt"
    and "framed same_pending body" and "framed (world_grows ml_events memory_inv) body"
    and "dict_get (w_pending w) (w_uuid w (w_uuid_draws w)) = None"
    and "two_phase_execution memory_append_event op a tgt pl body w = (r, w')"
  shows "\<exists>intent w1 rb w2. body w1 = (rb, w2) \<and> same_tasks w w1 \<and> same_tasks w2 w' \<and>
    memory_inv (w_ledger w1) \<and> w_clock w1 = w_clock w \<and> w_clock_reads w1 = w_clock_reads w + 1 \<and>
    ml_events (w_ledger w1) = ml_events (w_ledger w) @ [intent] \<and>
    ge_event_type (pe_event intent) = first_segment op @ ''.intent.emitted'' \<and>
    (case rb of
       Inr (x, _) \<Rightarrow> r = Inr x \<and> w_pending w' = w_pending w \<and>
         (\<exists>commit. ml_events (w_ledger w') = ml_events (w_ledger w2) @ [commit] \<and>
            ge_event_type (pe_event commit) = first_segment op @ ''.commit.confirmed'' \<and>
            ge_trace_id (pe_event commit) = ge_trace_id (pe_event intent))
     | Inl e \<Rightarrow> r = Inl e \<and>
         (if blank (exn_str e) then
            ml_events (w_ledger w') = ml_events (w_ledger w2) \<and>
            dict_get (w_pending w') (w_uuid w (w_uuid_draws w)) \<noteq> None
          else w_pending w' = w_pending w \<and>
            (\<exists>failure. ml_events (w_ledger w') = ml_events (w_ledger w2) @ [failure] \<and>
               ge_event_type (pe_event failure) = first_segment op @ ''.failure.recorded'' \<and>
               ge_trace_id (pe_event failure) = ge_trace_id (pe_event intent))))"
  by (rule two_phase_memory [OF assms])

lemma consent_ops_ok: "op_ok ''task.accept''" "op_ok ''task.decline''" "op_ok ''task.halt''"
  by code_simp+

theorem two_phase_one_outcome_witness:
  "let (r, w') = two_phase_execution memory_append_event ''task.accept'' ''c'' ''t'' []
       (act_raise (Exn RuntimeError []) :: (memory_ledger world, unit \<times> payload) act) (example_world [] 0)
   in r = Inl (Exn RuntimeError []) \<and> dict_get (w_pending w') 0 \<noteq> None"
proof -
  let ?body = "act_raise (Exn RuntimeError []) :: (memory_ledger world, unit \<times> payload) act"
  let ?w = "example_world [] 0"
  obtain r w' where run: "two_phase_execution memory_append_event ''task.accept'' ''c'' ''t'' [] ?body ?w = (r, w')"
    by fastforce
  have w: "memory_inv (w_ledger ?w)" "dict_get (w_pending ?w) (w_uuid ?w (w_uuid_draws ?w)) = None"
    "w_uuid ?w (w_uuid_draws ?w) = 0"
    by (simp_all add: example_world_def)
  have blanks: "\<not> blank ''c''" "\<not> blank ''t''" by code_simp+
  have "r = Inl (Exn RuntimeError []) \<and> dict_get (w_pending w') 0 \<noteq> None"
    using two_phase_one_outcome [OF w(1) consent_ops_ok(1) blanks same_pending.framed_raise
        world_grows.framed_raise w(2) run] w(3)
    by auto
  then show ?thesis by (simp add: run)
qed

end
