(* ===== verification/Event_Emission.thy ===== *)
theory Event_Emission
  imports Two_Phase
begin

text \<open>
  Emission of a single event: what the private \<open>_emit_..._event\<close> methods of the governance services have in
  common, and what it does to each part of the world.
\<close>

text \<open>Creating an envelope with a fresh id and appending it, as every \<open>_emit\<close> helper does.\<close>

definition emit_event ::
  "(governance_event \<Rightarrow> ('l, persisted_event) act) \<Rightarrow> string \<Rightarrow> datetime \<Rightarrow> string \<Rightarrow> string \<Rightarrow> payload
    \<Rightarrow> ('l world, unit) act" where
  "emit_event append_event event_type timestamp actor_id trace_id payload =
     act_bind uuid4 (\<lambda>event_id.
     act_bind (act_lift (governance_event_create event_id event_type timestamp actor_id trace_id payload
       current_schema_version)) (\<lambda>event.
     act_bind (on_ledger (append_event event)) (\<lambda>_. act_return ())))"

text \<open>What the in-memory ledger has recorded: type, actor and payload of each event.\<close>

definition recorded :: "memory_ledger world \<Rightarrow> (string \<times> string \<times> payload) list" where
  "recorded w = map (\<lambda>q. (ge_event_type (pe_event q), ge_actor_id (pe_event q), ge_payload (pe_event q)))
     (ml_events (w_ledger w))"

lemma recorded_cong [simp]:
  "recorded (w\<lparr>w_tasks := t\<rparr>) = recorded w" "recorded (w\<lparr>w_clock_reads := n\<rparr>) = recorded w"
  "recorded (w\<lparr>w_uuid_draws := n\<rparr>) = recorded w" "recorded (w\<lparr>w_pending := p\<rparr>) = recorded w"
  by (simp_all add: recorded_def)

lemma emit_event_run:
  assumes "memory_inv (w_ledger w)" "event_type_pattern ty" "\<not> blank a" "\<not> blank tr"
  shows "\<exists>w'. emit_event memory_append_event ty now a tr p w = (Inr (), w') \<and> same_tasks w w' \<and>
    w_pending w' = w_pending w \<and> w_clock w' = w_clock w \<and> w_clock_reads w' = w_clock_reads w \<and> memory_inv (w_ledger w') \<and>
    (\<exists>q. ml_events (w_ledger w') = ml_events (w_ledger w) @ [q] \<and> ge_event_type (pe_event q) = ty \<and>
       ge_actor_id (pe_event q) = a \<and> ge_trace_id (pe_event q) = tr \<and> ge_payload (pe_event q) = p)"
  using memory.append_success [OF assms(1) memory_append [OF assms(1)]]
  by (auto simp: emit_event_def act_bind_def governance_event_create_ok [OF assms(2-4)] on_ledger_def
      memory_append [OF assms(1)] same_tasks_def ge_accessors)

lemma emit_event_frames:
  "framed same_tasks (emit_event append_event ty now a tr p)"
  "framed same_pending (emit_event append_event ty now a tr p)"
  unfolding emit_event_def
  by (intro same_tasks.framed_intros same_tasks_primitive)
    (intro same_pending.framed_intros; rule framedI; auto simp: same_pending_def on_ledger_def split: prod.splits)

text \<open>A ledger that refuses the event's type: nothing but an id is consumed.\<close>

lemma emit_event_refused:
  assumes "\<forall>e. ge_event_type e = ty \<longrightarrow> (\<exists>x. append_event e (w_ledger w) = (Inl x, w_ledger w))"
    and "event_type_pattern ty" "\<not> blank a" "\<not> blank tr"
  shows "\<exists>x w'. emit_event append_event ty now a tr p w = (Inl x, w') \<and> same_tasks w w' \<and>
    w_ledger w' = w_ledger w \<and> w_clock w' = w_clock w \<and> w_clock_reads w' = w_clock_reads w"
proof -
  let ?e = "\<lparr>ge_metadata = \<lparr>em_event_id = w_uuid w (w_uuid_draws w), em_event_type = ty, em_timestamp = now,
      em_actor_id = a, em_schema_version = current_schema_version, em_trace_id = tr, em_prev_hash = [],
      em_hash = []\<rparr>, ge_payload = p\<rparr>"
  obtain x where "append_event ?e (w_ledger w) = (Inl x, w_ledger w)"
    using assms(1) [rule_format, of ?e] by (auto simp: ge_accessors)
  then show ?thesis
    by (simp add: emit_event_def act_bind_def governance_event_create_ok [OF assms(2-4)] on_ledger_def same_tasks_def)
qed

context ledger_port
begin

lemma emit_event_grows: "framed (world_grows log valid) (emit_event append_event ty now a tr p)"
  unfolding emit_event_def
  by (intro world_grows.framed_intros primitive_grows framed_on_ledger append_grows)

end

end
