(* ===== verification/Validators.thy ===== *)
theory Validators
  imports Ledger Hash_Chain Task_State
begin

text \<open>
  Write-time validation: the four validators
  (\<open>src/application/services/governance/validators/\<close>), the service that runs them
  (\<open>ledger_validation_service.py\<close>), their errors (\<open>src/domain/governance/errors/validation_errors.py\<close>)
  and the ledger adapter that validates before it appends
  (\<open>src/infrastructure/adapters/governance/validated_ledger_adapter.py\<close>).
\<close>

section \<open>Errors\<close>

definition short_hash :: "string \<Rightarrow> string" where
  "short_hash h = (if length h > 24 then take 24 h @ ''...'' else h)"

definition hash_chain_break :: "uuid \<Rightarrow> string \<Rightarrow> string \<Rightarrow> int \<Rightarrow> exn" where
  "hash_chain_break event_id expected_prev_hash actual_prev_hash latest_sequence =
     Exn HashChainBreakError
       (''AD-6: Hash chain break detected for event '' @ uuid_str event_id @
        (if latest_sequence > 0 then '' (after sequence '' @ show_int latest_sequence @ '')'' else []) @
        '': expected prev_hash='' @ [CHR 0x27] @ short_hash expected_prev_hash @ [CHR 0x27] @
        '', actual prev_hash='' @ [CHR 0x27] @ short_hash actual_prev_hash @ [CHR 0x27])"

definition unknown_event_type :: "uuid \<Rightarrow> string \<Rightarrow> string \<Rightarrow> exn" where
  "unknown_event_type event_id event_type suggestion =
     Exn UnknownEventTypeError
       (''AD-5: Unknown event type '' @ [CHR 0x27] @ event_type @ [CHR 0x27] @ '' for event '' @
        uuid_str event_id @
        (if suggestion \<noteq> [] then ''. Did you mean '' @ [CHR 0x27] @ suggestion @ [CHR 0x27] @ ''?'' else []))"

definition unknown_actor :: "uuid \<Rightarrow> string \<Rightarrow> exn" where
  "unknown_actor event_id actor_id =
     Exn UnknownActorError
       (''CT-12: Unknown actor '' @ [CHR 0x27] @ actor_id @ [CHR 0x27] @ '' for event '' @
        uuid_str event_id @ ''. All actors must be registered before emitting events.'')"

definition illegal_event_transition ::
  "uuid \<Rightarrow> string \<Rightarrow> string \<Rightarrow> string \<Rightarrow> string \<Rightarrow> string list \<Rightarrow> exn" where
  "illegal_event_transition event_id aggregate_type aggregate_id current_state attempted_state allowed_states =
     Exn WriteTimeIllegalStateTransitionError
       (''AD-12: Illegal state transition for '' @ aggregate_type @ '':'' @ aggregate_id @
        '' (event '' @ uuid_str event_id @ ''): cannot transition from '' @
        [CHR 0x27] @ current_state @ [CHR 0x27] @ '' to '' @ [CHR 0x27] @ attempted_state @ [CHR 0x27] @
        ''. Allowed transitions: ['' @
        (if allowed_states \<noteq> [] then str_join '', '' allowed_states else ''none'') @ '']'')"

definition write_time_errors :: "exn_class set" where
  "write_time_errors =
     {UnknownEventTypeError, UnknownActorError, WriteTimeIllegalStateTransitionError, HashChainBreakError}"

section \<open>Event types and actors\<close>

record event_type_validator =
  etv_strict_mode :: bool
  etv_suggest_corrections :: bool
  etv_allowed_types :: "string list"

definition mk_event_type_validator :: "bool \<Rightarrow> bool \<Rightarrow> string list \<Rightarrow> event_type_validator" where
  "mk_event_type_validator strict_mode suggest_corrections additional_event_types =
     \<lparr>etv_strict_mode = strict_mode, etv_suggest_corrections = suggest_corrections,
      etv_allowed_types = governance_event_types @ additional_event_types\<rparr>"

text \<open>
  \<open>close_matches\<close> is \<open>difflib.get_close_matches(_, _, n=1, cutoff=0.6)\<close> over the allowed types in the
  iteration order of the frozen set, which changes from one process to the next.
\<close>

definition find_suggestion :: "(string \<Rightarrow> string list) \<Rightarrow> event_type_validator \<Rightarrow> string \<Rightarrow> string" where
  "find_suggestion close_matches v event_type =
     (if \<not> etv_suggest_corrections v then []
      else case close_matches event_type of [] \<Rightarrow> [] | m # _ \<Rightarrow> m)"

definition validate_type ::
  "(string \<Rightarrow> string list) \<Rightarrow> event_type_validator \<Rightarrow> governance_event \<Rightarrow> exn + unit" where
  "validate_type close_matches v event =
     (if \<not> etv_strict_mode v then Inr ()
      else if ge_event_type event \<in> set (etv_allowed_types v) then Inr ()
      else Inl (unknown_event_type (ge_event_id event) (ge_event_type event)
                  (find_suggestion close_matches v (ge_event_type event))))"

definition is_valid_type :: "event_type_validator \<Rightarrow> string \<Rightarrow> bool" where
  "is_valid_type v event_type \<longleftrightarrow> (if \<not> etv_strict_mode v then True else event_type \<in> set (etv_allowed_types v))"

record actor_validator =
  av_actors :: "string list"
  av_skip_validation :: bool

definition actor_exists :: "actor_validator \<Rightarrow> string \<Rightarrow> bool" where
  "actor_exists v actor_id \<longleftrightarrow> actor_id \<in> set (av_actors v)"

definition validate_actor :: "actor_validator \<Rightarrow> governance_event \<Rightarrow> exn + unit" where
  "validate_actor v event =
     (if av_skip_validation v then Inr ()
      else if actor_exists v (ge_actor_id event) then Inr ()
      else Inl (unknown_actor (ge_event_id event) (ge_actor_id event)))"

definition is_valid_actor :: "actor_validator \<Rightarrow> string \<Rightarrow> bool" where
  "is_valid_actor v actor_id \<longleftrightarrow> (if av_skip_validation v then True else actor_exists v actor_id)"

section \<open>State transitions of events\<close>

text \<open>The validator's own \<open>TaskState\<close> and \<open>LegitimacyBand\<close> enums.\<close>

datatype event_task_state =
  Task_PENDING | Task_AUTHORIZED | Task_ACTIVATED | Task_ACCEPTED | Task_DECLINED | Task_COMPLETED
| Task_EXPIRED | Task_CANCELLED

datatype event_band = Band_FULL | Band_PROVISIONAL | Band_SUSPENDED | Band_REVOKED

fun event_task_state_value :: "event_task_state \<Rightarrow> string" where
  "event_task_state_value Task_PENDING = ''pending''"
| "event_task_state_value Task_AUTHORIZED = ''authorized''"
| "event_task_state_value Task_ACTIVATED = ''activated''"
| "event_task_state_value Task_ACCEPTED = ''accepted''"
| "event_task_state_value Task_DECLINED = ''declined''"
| "event_task_state_value Task_COMPLETED = ''completed''"
| "event_task_state_value Task_EXPIRED = ''expired''"
| "event_task_state_value Task_CANCELLED = ''cancelled''"

fun event_band_value :: "event_band \<Rightarrow> string" where
  "event_band_value Band_FULL = ''full''"
| "event_band_value Band_PROVISIONAL = ''provisional''"
| "event_band_value Band_SUSPENDED = ''suspended''"
| "event_band_value Band_REVOKED = ''revoked''"

fun task_state_transitions :: "event_task_state \<Rightarrow> event_task_state list" where
  "task_state_transitions Task_PENDING = [Task_AUTHORIZED, Task_CANCELLED]"
| "task_state_transitions Task_AUTHORIZED = [Task_ACTIVATED, Task_EXPIRED, Task_CANCELLED]"
| "task_state_transitions Task_ACTIVATED = [Task_ACCEPTED, Task_DECLINED, Task_EXPIRED]"
| "task_state_transitions Task_ACCEPTED = [Task_COMPLETED, Task_EXPIRED]"
| "task_state_transitions Task_DECLINED = []"
| "task_state_transitions Task_COMPLETED = []"
| "task_state_transitions Task_EXPIRED = []"
| "task_state_transitions Task_CANCELLED = []"

fun legitimacy_band_transitions :: "event_band \<Rightarrow> event_band list" where
  "legitimacy_band_transitions Band_FULL = [Band_PROVISIONAL]"
| "legitimacy_band_transitions Band_PROVISIONAL = [Band_FULL, Band_SUSPENDED]"
| "legitimacy_band_transitions Band_SUSPENDED = [Band_PROVISIONAL, Band_REVOKED]"
| "legitimacy_band_transitions Band_REVOKED = [Band_SUSPENDED]"

text \<open>The rules as dictionaries over the values of the enums.\<close>

definition task_rules :: "(string \<times> string list) list" where
  "task_rules = map (\<lambda>s. (event_task_state_value s, map event_task_state_value (task_state_transitions s)))
     [Task_PENDING, Task_AUTHORIZED, Task_ACTIVATED, Task_ACCEPTED, Task_DECLINED, Task_COMPLETED,
      Task_EXPIRED, Task_CANCELLED]"

definition legitimacy_rules :: "(string \<times> string list) list" where
  "legitimacy_rules = map (\<lambda>s. (event_band_value s, map event_band_value (legitimacy_band_transitions s)))
     [Band_FULL, Band_PROVISIONAL, Band_SUSPENDED, Band_REVOKED]"

definition get_transition_rules :: "string \<Rightarrow> (string \<times> string list) list option" where
  "get_transition_rules aggregate_type =
     (if aggregate_type = ''task'' then Some task_rules
      else if aggregate_type = ''legitimacy'' then Some legitimacy_rules
      else None)"

definition event_state_mappings :: "(string \<times> string \<times> string \<times> string) list" where
  "event_state_mappings = [
     (''executive.task.activated'', ''task'', ''task_id'', ''activated''),
     (''executive.task.accepted'', ''task'', ''task_id'', ''accepted''),
     (''executive.task.declined'', ''task'', ''task_id'', ''declined''),
     (''executive.task.completed'', ''task'', ''task_id'', ''completed''),
     (''executive.task.expired'', ''task'', ''task_id'', ''expired''),
     (''consent.task.requested'', ''task'', ''task_id'', ''pending''),
     (''consent.task.granted'', ''task'', ''task_id'', ''authorized''),
     (''consent.task.refused'', ''task'', ''task_id'', ''cancelled''),
     (''consent.task.withdrawn'', ''task'', ''task_id'', ''cancelled''),
     (''legitimacy.band.decayed'', ''legitimacy'', ''entity_id'', ''''),
     (''legitimacy.band.restored'', ''legitimacy'', ''entity_id'', ''''),
     (''legitimacy.band.assessed'', ''legitimacy'', ''entity_id'', '''')]"

text \<open>
  \<open>str(v)\<close> is given for the values that identify an aggregate or a state; for the others (numbers,
  containers, bytes, datetimes) it is the parameter \<open>other_str\<close>.
\<close>

fun py_truthy :: "pyval \<Rightarrow> bool" where
  "py_truthy PyNone = False"
| "py_truthy (PyBool b) = b"
| "py_truthy (PyInt i) = (i \<noteq> 0)"
| "py_truthy (PyFloat f) = (case f of FloatFinite s \<Rightarrow> s \<noteq> ''0.0'' \<and> s \<noteq> ''-0.0'' | _ \<Rightarrow> True)"
| "py_truthy (PyStr s) = (s \<noteq> [])"
| "py_truthy (PyDatetime t) = True"
| "py_truthy (PyUUID u) = True"
| "py_truthy (PyBytes bs) = (bs \<noteq> [])"
| "py_truthy (PyList vs) = (vs \<noteq> [])"
| "py_truthy (PyTuple vs) = (vs \<noteq> [])"
| "py_truthy (PyDict kvs) = (kvs \<noteq> [])"

definition py_str :: "(pyval \<Rightarrow> string) \<Rightarrow> pyval \<Rightarrow> string" where
  "py_str other_str v =
     (case v of PyStr s \<Rightarrow> s | PyUUID u \<Rightarrow> uuid_str u | PyInt i \<Rightarrow> show_int i | _ \<Rightarrow> other_str v)"

text \<open>\<open>payload.get(k)\<close>: \<open>None\<close> when the key is missing.\<close>

definition payload_get :: "payload \<Rightarrow> string \<Rightarrow> pyval" where
  "payload_get p k = (case map_of p k of None \<Rightarrow> PyNone | Some v \<Rightarrow> v)"

definition extract_state_info ::
  "(pyval \<Rightarrow> string) \<Rightarrow> governance_event \<Rightarrow> (string \<times> string \<times> string) option" where
  "extract_state_info other_str event =
     (case map_of event_state_mappings (ge_event_type event) of
        None \<Rightarrow> None
      | Some (aggregate_type, id_field, explicit_state) \<Rightarrow>
          let aggregate_id = payload_get (ge_payload event) id_field in
          if \<not> py_truthy aggregate_id then None
          else if explicit_state \<noteq> [] then Some (aggregate_type, py_str other_str aggregate_id, explicit_state)
          else
            let new_band = payload_get (ge_payload event) ''new_band'';
                new_state = (if py_truthy new_band then new_band else payload_get (ge_payload event) ''band'')
            in if \<not> py_truthy new_state then None
               else Some (aggregate_type, py_str other_str aggregate_id, py_str other_str new_state))"

record state_transition_validator =
  sv_projection :: "string \<Rightarrow> string \<Rightarrow> string option"
  sv_skip_validation :: bool

definition validate_state ::
  "(pyval \<Rightarrow> string) \<Rightarrow> state_transition_validator \<Rightarrow> governance_event \<Rightarrow> exn + unit" where
  "validate_state other_str v event =
     (if sv_skip_validation v then Inr ()
      else case extract_state_info other_str event of
        None \<Rightarrow> Inr ()
      | Some (aggregate_type, aggregate_id, new_state) \<Rightarrow>
          (case get_transition_rules aggregate_type of
             None \<Rightarrow> Inr ()
           | Some rules \<Rightarrow>
               (case sv_projection v aggregate_type aggregate_id of
                  None \<Rightarrow>
                    if aggregate_type = ''task'' \<and> new_state \<noteq> ''pending'' then
                      Inl (illegal_event_transition (ge_event_id event) aggregate_type aggregate_id ''(new)''
                             new_state [''pending''])
                    else if aggregate_type = ''legitimacy'' \<and> new_state \<noteq> ''full'' then
                      Inl (illegal_event_transition (ge_event_id event) aggregate_type aggregate_id ''(new)''
                             new_state [''full''])
                    else Inr ()
                | Some current_state \<Rightarrow>
                    let allowed_states = (case map_of rules current_state of None \<Rightarrow> [] | Some a \<Rightarrow> a) in
                    if new_state \<notin> set allowed_states then
                      Inl (illegal_event_transition (ge_event_id event) aggregate_type aggregate_id
                             current_state new_state allowed_states)
                    else Inr ())))"

section \<open>The hash chain\<close>

text \<open>\<open>get_latest\<close> is the ledger's \<open>get_latest_event\<close>; \<open>h or text\<close> chooses the text for an empty hash.\<close>

definition or_else :: "string \<Rightarrow> string \<Rightarrow> string" where
  "or_else h d = (if h = [] then d else h)"

definition validate_prev_hash :: "governance_event \<Rightarrow> string option \<Rightarrow> int \<Rightarrow> exn + unit" where
  "validate_prev_hash event expected_prev_hash latest_sequence =
     (case expected_prev_hash of
        None \<Rightarrow>
          if \<not> is_genesis_hash (ge_prev_hash event) then
            Inl (hash_chain_break (ge_event_id event) genesis_prev_hash (ge_prev_hash event) latest_sequence)
          else Inr ()
      | Some expected \<Rightarrow>
          if ge_prev_hash event \<noteq> expected then
            Inl (hash_chain_break (ge_event_id event) expected (ge_prev_hash event) latest_sequence)
          else Inr ())"

definition validate_event_hash :: "hash_lib \<Rightarrow> governance_event \<Rightarrow> int \<Rightarrow> exn + unit" where
  "validate_event_hash lib event latest_sequence =
     (case verify_event_hash lib event of
        Inl e \<Rightarrow> Inl e
      | Inr result \<Rightarrow>
          if \<not> hv_is_valid result then
            Inl (hash_chain_break (ge_event_id event)
                   (or_else (hv_expected_hash result) ''(hash verification failed)'')
                   (or_else (hv_actual_hash result) ''(computed hash differs)'') latest_sequence)
          else Inr ())"

definition validate_hash_chain ::
  "hash_lib \<Rightarrow> ('l \<Rightarrow> exn + persisted_event option) \<Rightarrow> bool \<Rightarrow> governance_event \<Rightarrow> 'l \<Rightarrow> exn + unit" where
  "validate_hash_chain lib get_latest skip_validation event l =
     (if skip_validation then Inr ()
      else if \<not> has_hash event then
        Inl (hash_chain_break (ge_event_id event) ''(event should have hash computed)''
               ''(no hash fields present)'' 0)
      else
        (case get_latest l of
           Inl e \<Rightarrow> Inl e
         | Inr latest_persisted \<Rightarrow>
             let expected_prev_hash = map_option (\<lambda>p. ge_hash (pe_event p)) latest_persisted;
                 latest_sequence = (case latest_persisted of None \<Rightarrow> 0 | Some p \<Rightarrow> pe_sequence p)
             in (case validate_prev_hash event expected_prev_hash latest_sequence of
                   Inl e \<Rightarrow> Inl e
                 | Inr _ \<Rightarrow> validate_event_hash lib event latest_sequence)))"

definition is_valid_chain_link ::
  "hash_lib \<Rightarrow> ('l \<Rightarrow> exn + persisted_event option) \<Rightarrow> bool \<Rightarrow> governance_event \<Rightarrow> 'l \<Rightarrow> exn + bool" where
  "is_valid_chain_link lib get_latest skip_validation event l =
     (case validate_hash_chain lib get_latest skip_validation event l of
        Inr _ \<Rightarrow> Inr True
      | Inl e \<Rightarrow> if exn_kind e = HashChainBreakError then Inr False else Inl e)"

section \<open>The validation service\<close>

record validation_service =
  vs_lib :: hash_lib
  vs_close_matches :: "string \<Rightarrow> string list"
  vs_other_str :: "pyval \<Rightarrow> string"
  vs_event_type :: event_type_validator
  vs_actor :: actor_validator
  vs_state_transition :: state_transition_validator
  vs_skip_hash_chain :: bool

record validation_result =
  vr_is_valid :: bool
  vr_error :: "exn option"
  vr_validator_name :: string

text \<open>\<open>self._validators\<close>, fastest first.\<close>

definition validators ::
  "validation_service \<Rightarrow> ('l \<Rightarrow> exn + persisted_event option) \<Rightarrow> 'l
    \<Rightarrow> (string \<times> (governance_event \<Rightarrow> exn + unit)) list" where
  "validators vs get_latest l = [
     (''event_type'', validate_type (vs_close_matches vs) (vs_event_type vs)),
     (''actor'', validate_actor (vs_actor vs)),
     (''state_transition'', validate_state (vs_other_str vs) (vs_state_transition vs)),
     (''hash_chain'', \<lambda>event. validate_hash_chain (vs_lib vs) get_latest (vs_skip_hash_chain vs) event l)]"

fun run_validators ::
  "(string \<times> (governance_event \<Rightarrow> exn + unit)) list \<Rightarrow> governance_event \<Rightarrow> exn + unit" where
  "run_validators [] event = Inr ()"
| "run_validators ((name, v) # vs) event =
     (case v event of Inl e \<Rightarrow> Inl e | Inr _ \<Rightarrow> run_validators vs event)"

definition validate ::
  "validation_service \<Rightarrow> ('l \<Rightarrow> exn + persisted_event option) \<Rightarrow> governance_event \<Rightarrow> 'l \<Rightarrow> exn + unit" where
  "validate vs get_latest event l = run_validators (validators vs get_latest l) event"

fun run_validators_result ::
  "(string \<times> (governance_event \<Rightarrow> exn + unit)) list \<Rightarrow> governance_event \<Rightarrow> exn + validation_result" where
  "run_validators_result [] event = Inr \<lparr>vr_is_valid = True, vr_error = None, vr_validator_name = []\<rparr>"
| "run_validators_result ((name, v) # vs) event =
     (case v event of
        Inl e \<Rightarrow>
          if exn_kind e \<in> write_time_errors then
            Inr \<lparr>vr_is_valid = False, vr_error = Some e, vr_validator_name = name\<rparr>
          else Inl e
      | Inr _ \<Rightarrow> run_validators_result vs event)"

definition validate_with_result ::
  "validation_service \<Rightarrow> ('l \<Rightarrow> exn + persisted_event option) \<Rightarrow> governance_event \<Rightarrow> 'l
    \<Rightarrow> exn + validation_result" where
  "validate_with_result vs get_latest event l = run_validators_result (validators vs get_latest l) event"

section \<open>The validated ledger\<close>

definition validated_append_event ::
  "validation_service \<Rightarrow> ('l \<Rightarrow> exn + persisted_event option) \<Rightarrow> (governance_event \<Rightarrow> ('l, persisted_event) act)
    \<Rightarrow> governance_event \<Rightarrow> ('l, persisted_event) act" where
  "validated_append_event vs get_latest base_append event =
     act_bind (\<lambda>l. (validate vs get_latest event l, l)) (\<lambda>_. base_append event)"

lemma validate_Inr:
  "validate vs get_latest e l = Inr u \<longleftrightarrow>
     validate_type (vs_close_matches vs) (vs_event_type vs) e = Inr () \<and>
     validate_actor (vs_actor vs) e = Inr () \<and>
     validate_state (vs_other_str vs) (vs_state_transition vs) e = Inr () \<and>
     validate_hash_chain (vs_lib vs) get_latest (vs_skip_hash_chain vs) e l = Inr ()"
  by (auto simp: validate_def validators_def split: sum.split)

lemma validated_append_Inl:
  "validate vs get_latest e l = Inl x \<Longrightarrow> validated_append_event vs get_latest base e l = (Inl x, l)"
  by (simp add: validated_append_event_def)

lemma validated_append_Inr:
  "validate vs get_latest e l = Inr u \<Longrightarrow> validated_append_event vs get_latest base e l = base e l"
  by (simp add: validated_append_event_def)

text \<open>What the hash-chain validator accepts, over any ledger.\<close>

lemma validate_hash_chain_Inr:
  "validate_hash_chain lib get_latest False e l = Inr u \<longleftrightarrow>
     (\<exists>p. get_latest l = Inr p \<and> event_hash_ok lib e \<and>
        (case p of None \<Rightarrow> is_genesis_hash (ge_prev_hash e) | Some q \<Rightarrow> ge_prev_hash e = ge_hash (pe_event q)))"
proof -
  have event: "validate_event_hash lib e n = Inr u \<longleftrightarrow> event_hash_ok lib e" for n u
    using verify_event_hash_Inr [of lib e] verify_event_hash_valid [of lib e]
    by (auto simp: validate_event_hash_def split: sum.split)
  show ?thesis
    by (auto simp: validate_hash_chain_def validate_prev_hash_def event Let_def has_hash_def
        dest: event_hash_okD split: sum.splits option.splits if_splits)
qed

text \<open>Whatever the base, validation keeps the port's contract.\<close>

context ledger_port
begin

lemma validated_port: "ledger_port (validated_append_event vs get_latest append_event) log stored valid"
proof
  show "valid l' \<and> pe_event p = e \<and> log l' = log l @ [p\<lparr>pe_event := stored e\<rparr>] \<and>
      0 < pe_sequence p \<and> (\<forall>q\<in>set (log l). pe_sequence q < pe_sequence p)"
    if "valid l" "validated_append_event vs get_latest append_event e l = (Inr p, l')" for l e p l'
    using that append_success by (cases "validate vs get_latest e l") (simp_all add: validated_append_Inl validated_append_Inr)
  show "valid l' \<and> log l' = log l"
    if "valid l" "validated_append_event vs get_latest append_event e l = (Inl x, l')" for l e x l'
    using that append_failure by (cases "validate vs get_latest e l") (auto simp: validated_append_Inl validated_append_Inr)
qed

end

text \<open>
  A ledger whose \<open>get_latest_event\<close> returns the last record, provided that the recorded metadata pass
  their own validation when they are read back.
\<close>

locale readable_ledger = ledger_port append_event log stored valid
  for append_event :: "governance_event \<Rightarrow> ('l, persisted_event) act"
    and log :: "'l \<Rightarrow> persisted_event list"
    and stored :: "governance_event \<Rightarrow> governance_event"
    and valid :: "'l \<Rightarrow> bool" +
  fixes get_latest :: "'l \<Rightarrow> exn + persisted_event option"
  assumes latest: "valid l \<Longrightarrow> \<forall>p\<in>set (log l). metadata_ok (ge_metadata (pe_event p)) \<Longrightarrow>
      get_latest l = Inr (if log l = [] then None else Some (last (log l)))"
    and latest_last: "valid l \<Longrightarrow> get_latest l = Inr p \<Longrightarrow>
      p = (if log l = [] then None else Some (last (log l)))"
begin

text \<open>A store that keeps the hashes: what validation lets through is a chain.\<close>

lemma validated_chain_step:
  assumes "\<And>e. stored e = e" and "\<not> vs_skip_hash_chain vs" and "valid l"
    and "chain_ok (vs_lib vs) None (map pe_event (log l))"
    and "validated_append_event vs get_latest append_event e l = (r, l')"
  shows "chain_ok (vs_lib vs) None (map pe_event (log l'))"
proof (cases r)
  case (Inl x)
  then show ?thesis using assms(4,5) ledger_port.append_failure [OF validated_port assms(3)] by metis
next
  case (Inr p)
  then have "log l' = log l @ [p]" "pe_event p = e"
    using ledger_port.append_success [OF validated_port assms(3)] assms(1,5) by auto
  moreover have "validate vs get_latest e l = Inr ()"
    using assms(5) Inr by (cases "validate vs get_latest e l") (auto simp: validated_append_Inl)
  then have "event_hash_ok (vs_lib vs) e \<and> link_ok (if log l = [] then None else Some (pe_event (last (log l)))) e"
    using assms(2,3,4) latest_last [of l] event_hash_okD chain_ok_last [where es = "map pe_event (log l)"]
    by (auto simp: validate_Inr validate_hash_chain_Inr link_ok_def last_map split: if_splits)
  ultimately show ?thesis using assms(4) by (auto simp: chain_ok_append last_map)
qed

lemma validated_chain_run:
  assumes "\<And>e. stored e = e" and "\<not> vs_skip_hash_chain vs"
  shows "valid l \<Longrightarrow> chain_ok (vs_lib vs) None (map pe_event (log l)) \<Longrightarrow>
    append_run (validated_append_event vs get_latest append_event) es l = (rs, l') \<Longrightarrow>
    chain_ok (vs_lib vs) None (map pe_event (log l'))"
proof (induction es arbitrary: l rs)
  case (Cons e es)
  obtain r l1 rs' where r: "validated_append_event vs get_latest append_event e l = (r, l1)"
    "append_run (validated_append_event vs get_latest append_event) es l1 = (rs', l')"
    using Cons.prems(3) by (auto split: prod.splits)
  have "valid l1"
    using r(1) Cons.prems(1) ledger_port.append_success [OF validated_port]
      ledger_port.append_failure [OF validated_port] by (cases r) blast+
  then show ?case
    using Cons.IH [OF _ _ r(2)] validated_chain_step [OF assms Cons.prems(1,2) r(1)] by blast
qed simp

text \<open>An event hashed onto the last record passes the hash-chain validator.\<close>

lemma validated_accepts:
  assumes "valid l" and "\<forall>p\<in>set (log l). metadata_ok (ge_metadata (pe_event p))"
    and "event_hash_ok (vs_lib vs) e" and "link_ok (if log l = [] then None else Some (pe_event (last (log l)))) e"
    and "validate_type (vs_close_matches vs) (vs_event_type vs) e = Inr ()"
    and "validate_actor (vs_actor vs) e = Inr ()"
    and "validate_state (vs_other_str vs) (vs_state_transition vs) e = Inr ()"
  shows "validated_append_event vs get_latest append_event e l = append_event e l"
proof -
  have "validate_hash_chain (vs_lib vs) get_latest (vs_skip_hash_chain vs) e l = Inr ()"
  proof (cases "vs_skip_hash_chain vs")
    case False
    then show ?thesis
      using assms(3,4) latest [OF assms(1,2)] by (auto simp: validate_hash_chain_Inr link_ok_def)
  qed (simp add: validate_hash_chain_def)
  then have "validate vs get_latest e l = Inr ()" using assms(5-7) by (simp add: validate_Inr)
  then show ?thesis by (rule validated_append_Inr)
qed

text \<open>A store that drops the hashes: after the first record nothing passes the hash-chain validator.\<close>

lemma validated_after_first:
  assumes "\<And>e. ge_hash (stored e) = []" and "\<not> vs_skip_hash_chain vs" and "valid l"
    and "log l \<noteq> []" and "\<forall>p\<in>set (log l). ge_hash (pe_event p) = []"
  shows "\<exists>x. validated_append_event vs get_latest append_event e l = (Inl x, l)"
proof -
  have "validate vs get_latest e l \<noteq> Inr ()"
    using assms(2-5) latest_last [of l] event_hash_okD by (auto simp: validate_Inr validate_hash_chain_Inr)
  then show ?thesis by (cases "validate vs get_latest e l") (auto simp: validated_append_Inl)
qed

end

section \<open>The PostgreSQL ledger under validation\<close>

lemma rows_by_sequence_sorted: "table_inv t \<Longrightarrow> rows_by_sequence t = lt_rows t"
  by (simp add: rows_by_sequence_def table_inv_def sorted_sort_id sorted_wrt_mono_rel [of _ "(<)" "(\<le>)"]
      sort_key_id_if_sorted)

lemma row_to_persisted_event_Inr: "row_to_persisted_event row = Inr p \<Longrightarrow> p = row_event row"
  by (auto simp: row_to_persisted_event_def mk_persisted_event_def row_event_def
      dest!: mk_event_metadata_Inr split: sum.splits if_splits)

lemma row_to_persisted_event_ok:
  "metadata_ok (ge_metadata (pe_event (row_event row))) \<Longrightarrow> 0 < lr_sequence row \<Longrightarrow>
     row_to_persisted_event row = Inr (row_event row)"
  by (simp add: row_to_persisted_event_def metadata_ok_def mk_persisted_event_def row_event_def)

definition table_valid :: "ledger_table \<Rightarrow> bool" where
  "table_valid t \<longleftrightarrow> table_inv t \<and> (\<forall>row\<in>set (lt_rows t). 0 < lr_sequence row)"

lemma last_table_log: "lt_rows t \<noteq> [] \<Longrightarrow> last (table_log t) = row_event (last (lt_rows t))"
  by (simp add: table_log_def last_map)

interpretation postgres_readable: readable_ledger "postgres_append_event jsonb" table_log "strip_hash jsonb"
  table_valid postgres_get_latest_event
proof
  show "table_valid t' \<and> pe_event p = e \<and> table_log t' = table_log t @ [p\<lparr>pe_event := strip_hash jsonb e\<rparr>] \<and>
      0 < pe_sequence p \<and> (\<forall>q\<in>set (table_log t). pe_sequence q < pe_sequence p)"
    if "table_valid t" "postgres_append_event jsonb e t = (Inr p, t')" for t e p t'
    using that(1) postgres_append_Inr [OF that(2)] postgres.append_success [OF _ that(2)]
    by (auto simp: table_valid_def)
  show "table_valid t' \<and> table_log t' = table_log t"
    if "table_valid t" "postgres_append_event jsonb e t = (Inl x, t')" for t e x t'
    using that(1) postgres_append_Inl [OF that(2)] postgres.append_failure [OF _ that(2)]
    by (auto simp: table_valid_def table_inv_def)
  show "postgres_get_latest_event t = Inr (if table_log t = [] then None else Some (last (table_log t)))"
    if "table_valid t" "\<forall>p\<in>set (table_log t). metadata_ok (ge_metadata (pe_event p))" for t
  proof (cases "lt_rows t = []")
    case False
    then have "last (lt_rows t) \<in> set (lt_rows t)" by simp
    then have "row_to_persisted_event (last (lt_rows t)) = Inr (row_event (last (lt_rows t)))"
      using that by (intro row_to_persisted_event_ok) (auto simp: table_log_def table_valid_def)
    then show ?thesis
      using False that(1) last_table_log [OF False]
      by (simp add: postgres_get_latest_event_def row_option_def rows_by_sequence_sorted table_valid_def table_log_def)
  qed (simp add: postgres_get_latest_event_def row_option_def table_log_def)
  show "p = (if table_log t = [] then None else Some (last (table_log t)))"
    if "table_valid t" "postgres_get_latest_event t = Inr p" for t p
    using that last_table_log [of t]
    by (auto simp: postgres_get_latest_event_def row_option_def rows_by_sequence_sorted table_valid_def
        table_log_def dest!: row_to_persisted_event_Inr split: if_splits sum.splits)
qed

lemma strip_hash_ge_hash [simp]: "ge_hash (strip_hash jsonb e) = []"
  by (simp add: strip_hash_def ge_accessors)

lemma table_log_ge_hash: "p \<in> set (table_log t) \<Longrightarrow> ge_hash (pe_event p) = []"
  by (auto simp: table_log_def row_event_def ge_accessors)

section \<open>A ledger that keeps the hashes, for the examples\<close>

text \<open>
  \<open>InMemoryGovernanceLedger\<close> has no \<open>get_latest_event\<close>. For the examples, which need a ledger that keeps hashes, a
  \<open>get_latest_event\<close> with the contract of the port is added to it: a parameter of the examples, not code of the
  repository.
\<close>

definition example_latest :: "memory_ledger \<Rightarrow> exn + persisted_event option" where
  "example_latest l = Inr (if ml_events l = [] then None else Some (last (ml_events l)))"

interpretation example_readable: readable_ledger memory_append_event ml_events "\<lambda>e. e" memory_inv example_latest
  by unfold_locales (auto simp: example_latest_def)

definition example_validation :: validation_service where
  "example_validation = \<lparr>vs_lib = example_lib, vs_close_matches = \<lambda>_. [], vs_other_str = \<lambda>_. [],
     vs_event_type = mk_event_type_validator True True [],
     vs_actor = \<lparr>av_actors = [''cluster-1''], av_skip_validation = False\<rparr>,
     vs_state_transition = \<lparr>sv_projection = \<lambda>_ _. Some ''activated'', sv_skip_validation = False\<rparr>,
     vs_skip_hash_chain = False\<rparr>"

text \<open>The strict vocabulary lets no other event type through.\<close>

lemma strict_vocabulary_refuses:
  assumes "vs_event_type vs = mk_event_type_validator True suggest []" and "ge_event_type e \<notin> set governance_event_types"
  shows "\<exists>x. exn_kind x = UnknownEventTypeError \<and> validated_append_event vs get_latest base e l = (Inl x, l)"
  using assms
  by (simp add: validated_append_event_def act_bind_def validate_def validators_def validate_type_def
      mk_event_type_validator_def unknown_event_type_def)

section \<open>Properties\<close>

text \<open>
  C12: over a ledger that keeps events as given and returns its last record, whatever is appended with
  hash-chain validation on, from the empty ledger, the recorded events pass the break detector: no
  hash mismatch and no broken link, all of them verified, with strictly increasing sequence numbers.
\<close>

theorem validated_ledger_is_chain:
  assumes "readable_ledger append_event log (\<lambda>e. e) valid get_latest"
    and "\<not> vs_skip_hash_chain vs" and "valid l" and "log l = []"
    and "append_run (validated_append_event vs get_latest append_event) es l = (rs, l')"
  shows "check_sequence (vs_lib vs) detector (map pe_event (log l')) now =
      Inr \<lparr>has_break = False, break_info = None, events_verified = length (log l')\<rparr> \<and>
    sorted_wrt (<) (map pe_sequence (log l')) \<and> log l' = appended rs"
proof -
  have port: "ledger_port (validated_append_event vs get_latest append_event) log (\<lambda>e. e) valid"
    using assms(1) by (intro ledger_port.validated_port) (simp add: readable_ledger_def)
  have "chain_ok (vs_lib vs) None (map pe_event (log l'))"
    using readable_ledger.validated_chain_run [OF assms(1) refl assms(2,3) _ assms(5)] assms(4) by simp
  then show ?thesis
    using ledger_port.append_run_log [OF port assms(3,5)] ledger_port.append_run_sorted [OF port assms(3) _ assms(5)]
      check_sequence_ok [of "vs_lib vs" "map pe_event (log l')" detector now] assms(4)
    by simp
qed

theorem validated_ledger_is_chain_witness:
  "let l = snd (append_run (validated_append_event example_validation example_latest memory_append_event)
     (projr (chain_events example_lib [example_event 1, example_event 2] ''sha256'')) memory_ledger_init) in
   check_sequence example_lib ''d'' (map pe_event (ml_events l)) 0 =
     Inr \<lparr>has_break = False, break_info = None, events_verified = length (ml_events l)\<rparr>"
proof -
  let ?run = "append_run (validated_append_event example_validation example_latest memory_append_event)
    (projr (chain_events example_lib [example_event 1, example_event 2] ''sha256'')) memory_ledger_init"
  have run: "?run = (fst ?run, snd ?run)" by simp
  have lib: "vs_lib example_validation = example_lib" and skip: "\<not> vs_skip_hash_chain example_validation"
    by (simp_all add: example_validation_def)
  have empty: "ml_events memory_ledger_init = []" by (simp add: memory_ledger_init_def)
  show ?thesis
    using validated_ledger_is_chain [OF example_readable.readable_ledger_axioms skip memory_inv_init empty run,
        of "''d''" 0] lib unfolding Let_def by metis
qed

text \<open>
  an event hashed onto the last record is let through: if it came from \<open>add_hash_to_event\<close> with the
  hash of the ledger's last event (or none, on an empty ledger) and the other three validators accept
  it, the validated append is the plain append.
\<close>

theorem hashed_event_accepted:
  assumes "readable_ledger append_event log stored valid get_latest" and "valid l"
    and "\<forall>p\<in>set (log l). metadata_ok (ge_metadata (pe_event p))"
    and "log l \<noteq> [] \<longrightarrow> ge_hash (pe_event (last (log l))) \<noteq> []"
    and "add_hash_to_event (vs_lib vs) e0
      (if log l = [] then None else Some (ge_hash (pe_event (last (log l))))) a = Inr e"
    and "validate_type (vs_close_matches vs) (vs_event_type vs) e = Inr ()"
    and "validate_actor (vs_actor vs) e = Inr ()"
    and "validate_state (vs_other_str vs) (vs_state_transition vs) e = Inr ()"
  shows "validated_append_event vs get_latest append_event e l = append_event e l"
proof -
  have "link_ok (if log l = [] then None else Some (pe_event (last (log l)))) e"
    using add_hash_Inr(4,5) [OF assms(5)] assms(4) by (auto simp: link_ok_def)
  then show ?thesis
    using readable_ledger.validated_accepts [OF assms(1-3) add_hash_Inr(2) [OF assms(5)]] assms(6-8) by blast
qed

theorem hashed_event_accepted_witness:
  "\<exists>e. add_hash_to_event example_lib (example_event 1) None ''sha256'' = Inr e \<and>
     validated_append_event example_validation example_latest memory_append_event e memory_ledger_init =
       memory_append_event e memory_ledger_init"
proof -
  obtain e where e: "add_hash_to_event example_lib (example_event 1) None ''sha256'' = Inr e"
    using add_hash_to_event_total [OF example_hashable digest_of_example] by blast
  have same: "ge_event_type e = ''executive.task.accepted''" "ge_actor_id e = ''cluster-1''"
    "ge_payload e = [(''task_id'', PyStr ''7'')]"
    using same_envelope_fields [OF add_hash_Inr(1) [OF e]] by (simp_all add: example_event_def ge_accessors)
  have checks: "validate_type (vs_close_matches example_validation) (vs_event_type example_validation) e = Inr ()"
    "validate_actor (vs_actor example_validation) e = Inr ()"
    "validate_state (vs_other_str example_validation) (vs_state_transition example_validation) e = Inr ()"
    by (simp_all add: same example_validation_def validate_type_def mk_event_type_validator_def
        governance_event_types_def validate_actor_def actor_exists_def validate_state_def extract_state_info_def
        event_state_mappings_def payload_get_def py_str_def get_transition_rules_def task_rules_def)
  have l: "ml_events memory_ledger_init = []" by (simp add: memory_ledger_init_def)
  have "add_hash_to_event (vs_lib example_validation) (example_event 1)
      (if ml_events memory_ledger_init = [] then None
       else Some (ge_hash (pe_event (last (ml_events memory_ledger_init))))) ''sha256'' = Inr e"
    using e by (simp add: l example_validation_def)
  from hashed_event_accepted [OF example_readable.readable_ledger_axioms memory_inv_init _ _ this checks]
  show ?thesis using e l by auto
qed

text \<open>
  C13: the PostgreSQL table has no columns for the hashes, so with hash-chain validation on every append
  to a ledger that is not empty is refused and leaves it as it was.
\<close>

theorem postgres_refuses_second_event:
  assumes "table_valid t" and "lt_rows t \<noteq> []" and "\<not> vs_skip_hash_chain vs"
  shows "\<exists>x. validated_append_event vs postgres_get_latest_event (postgres_append_event jsonb) e t = (Inl x, t)"
proof (rule postgres_readable.validated_after_first [OF strip_hash_ge_hash assms(3,1)])
  show "table_log t \<noteq> []" using assms(2) by (simp add: table_log_def)
  show "\<forall>p\<in>set (table_log t). ge_hash (pe_event p) = []" using table_log_ge_hash by blast
qed

theorem postgres_refuses_second_event_witness:
  "let t = snd (postgres_append_event (\<lambda>p. p) (example_event 1) ledger_table_init) in
   \<exists>x. validated_append_event example_validation postgres_get_latest_event (postgres_append_event (\<lambda>p. p))
     (example_event 2) t = (Inl x, t)"
proof -
  have "table_valid (snd (postgres_append_event (\<lambda>p. p) (example_event 1) ledger_table_init))"
    and "lt_rows (snd (postgres_append_event (\<lambda>p. p) (example_event 1) ledger_table_init)) \<noteq> []"
    by code_simp+
  then show ?thesis
    using postgres_refuses_second_event by (simp add: Let_def example_validation_def)
qed

definition shared_states :: "task_status list" where
  "shared_states = [AUTHORIZED, ACTIVATED, ACCEPTED, DECLINED, COMPLETED]"

definition rules_allow :: "task_status \<Rightarrow> task_status \<Rightarrow> bool" where
  "rules_allow s t \<longleftrightarrow>
     (case map_of task_rules (task_status_value s) of None \<Rightarrow> False | Some a \<Rightarrow> task_status_value t \<in> set a)"

text \<open>
  The validator's transition rules for tasks and the task lifecycle share five state names and
  agree on one move only, \<open>authorized\<close> to \<open>activated\<close>. The rules let a task jump from \<open>activated\<close> to
  \<open>accepted\<close> or \<open>declined\<close> and from \<open>accepted\<close> to \<open>completed\<close>, which the lifecycle forbids, and refuse
  the lifecycle's \<open>accepted\<close> to \<open>declined\<close>.
\<close>

theorem task_rules_disagree:
  "[(s, t) \<leftarrow> List.product shared_states shared_states. rules_allow s t \<and> is_valid_transition s t] =
     [(AUTHORIZED, ACTIVATED)] \<and>
   [(s, t) \<leftarrow> List.product shared_states shared_states. rules_allow s t \<and> \<not> is_valid_transition s t] =
     [(ACTIVATED, ACCEPTED), (ACTIVATED, DECLINED), (ACCEPTED, COMPLETED)] \<and>
   [(s, t) \<leftarrow> List.product shared_states shared_states. \<not> rules_allow s t \<and> is_valid_transition s t] =
     [(ACCEPTED, DECLINED)]"
  by code_simp

end
