(* ===== verification/Task_Consent.thy ===== *)
theory Task_Consent
  imports Event_Emission Validators
begin

text \<open>
  The consent operations of a Cluster (\<open>src/application/services/governance/task_consent_service.py\<close>)
  with the results and errors of their port
  (\<open>src/application/ports/governance/task_consent_port.py\<close>).
\<close>

record task_consent_result =
  tcr_success :: bool
  tcr_task_state :: task_state
  tcr_operation :: string
  tcr_message :: string

record pending_task_view =
  ptv_task_id :: uuid
  ptv_earl_id :: string
  ptv_description_preview :: string
  ptv_ttl_remaining :: timedelta
  ptv_routed_at :: datetime

definition not_recipient :: "string \<Rightarrow> uuid \<Rightarrow> exn" where
  "not_recipient cluster_id task_id = Exn UnauthorizedConsentError
     (''Cluster '' @ cluster_id @ '' is not the recipient of task '' @ uuid_str task_id)"

definition not_working :: "string \<Rightarrow> uuid \<Rightarrow> exn" where
  "not_working cluster_id task_id = Exn UnauthorizedConsentError
     (''Cluster '' @ cluster_id @ '' is not working on task '' @ uuid_str task_id)"

definition invalid_task_state :: "uuid \<Rightarrow> task_status \<Rightarrow> string \<Rightarrow> exn" where
  "invalid_task_state task_id current_state operation = Exn InvalidTaskStateError
     (''Cannot '' @ operation @ '' task '' @ uuid_str task_id @ '' in '' @
      task_status_value current_state @ '' state'')"

section \<open>The events\<close>

definition accepted_payload :: "task_state \<Rightarrow> string \<Rightarrow> datetime \<Rightarrow> payload" where
  "accepted_payload task cluster_id timestamp = [
     (''task_id'', PyStr (uuid_str (ts_task_id task))), (''cluster_id'', PyStr cluster_id),
     (''accepted_at'', PyStr (isoformat timestamp))]"

definition declined_payload :: "task_state \<Rightarrow> string \<Rightarrow> string \<Rightarrow> datetime \<Rightarrow> payload" where
  "declined_payload task cluster_id reason timestamp = [
     (''task_id'', PyStr (uuid_str (ts_task_id task))), (''cluster_id'', PyStr cluster_id),
     (''declined_at'', PyStr (isoformat timestamp)), (''reason'', PyStr reason),
     (''penalty_incurred'', PyBool False)]"

definition halted_payload :: "task_state \<Rightarrow> string \<Rightarrow> string \<Rightarrow> datetime \<Rightarrow> payload" where
  "halted_payload task cluster_id reason timestamp = [
     (''task_id'', PyStr (uuid_str (ts_task_id task))), (''cluster_id'', PyStr cluster_id),
     (''halted_at'', PyStr (isoformat timestamp)), (''reason'', PyStr reason),
     (''penalty_incurred'', PyBool False)]"

definition emit_accepted_event ::
  "(governance_event \<Rightarrow> ('l, persisted_event) act) \<Rightarrow> task_state \<Rightarrow> string \<Rightarrow> datetime \<Rightarrow> ('l world, unit) act" where
  "emit_accepted_event append_event task cluster_id timestamp =
     emit_event append_event ''executive.task.accepted'' timestamp cluster_id (uuid_str (ts_task_id task))
       (accepted_payload task cluster_id timestamp)"

definition emit_declined_event ::
  "(governance_event \<Rightarrow> ('l, persisted_event) act) \<Rightarrow> task_state \<Rightarrow> string \<Rightarrow> string \<Rightarrow> datetime
    \<Rightarrow> ('l world, unit) act" where
  "emit_declined_event append_event task cluster_id reason timestamp =
     emit_event append_event ''executive.task.declined'' timestamp cluster_id (uuid_str (ts_task_id task))
       (declined_payload task cluster_id reason timestamp)"

definition emit_halted_event ::
  "(governance_event \<Rightarrow> ('l, persisted_event) act) \<Rightarrow> task_state \<Rightarrow> string \<Rightarrow> string \<Rightarrow> datetime
    \<Rightarrow> ('l world, unit) act" where
  "emit_halted_event append_event task cluster_id reason timestamp =
     emit_event append_event ''executive.task.halted'' timestamp cluster_id (uuid_str (ts_task_id task))
       (halted_payload task cluster_id reason timestamp)"

section \<open>The operations\<close>

definition accept_body ::
  "(governance_event \<Rightarrow> ('l, persisted_event) act) \<Rightarrow> uuid \<Rightarrow> string
    \<Rightarrow> ('l world, task_consent_result \<times> payload) act" where
  "accept_body append_event task_id cluster_id =
     act_bind (get_task task_id) (\<lambda>task.
     if ts_cluster_id task \<noteq> Some cluster_id then act_raise (not_recipient cluster_id task_id)
     else if ts_current_status task \<noteq> ROUTED then
       act_raise (invalid_task_state task_id (ts_current_status task) ''accept'')
     else
       act_bind time_now (\<lambda>now.
       act_bind (act_lift (transition task ACCEPTED now)) (\<lambda>new_task.
       act_bind (save_task new_task) (\<lambda>_.
       act_bind (emit_accepted_event append_event new_task cluster_id now) (\<lambda>_.
       act_return (\<lparr>tcr_success = True, tcr_task_state = new_task, tcr_operation = ''accepted'',
         tcr_message = ''Task accepted successfully''\<rparr>, [(''accepted'', PyBool True)]))))))"

definition accept_task ::
  "(governance_event \<Rightarrow> ('l, persisted_event) act) \<Rightarrow> uuid \<Rightarrow> string \<Rightarrow> ('l world, task_consent_result) act" where
  "accept_task append_event task_id cluster_id =
     two_phase_execution append_event ''task.accept'' cluster_id (uuid_str task_id) []
       (accept_body append_event task_id cluster_id)"

definition decline_body ::
  "(governance_event \<Rightarrow> ('l, persisted_event) act) \<Rightarrow> uuid \<Rightarrow> string
    \<Rightarrow> ('l world, task_consent_result \<times> payload) act" where
  "decline_body append_event task_id cluster_id =
     act_bind (get_task task_id) (\<lambda>task.
     if ts_cluster_id task \<noteq> Some cluster_id then act_raise (not_recipient cluster_id task_id)
     else if ts_current_status task \<notin> {ROUTED, ACCEPTED} then
       act_raise (invalid_task_state task_id (ts_current_status task) ''decline'')
     else
       act_bind time_now (\<lambda>now.
       act_bind (act_lift (transition task DECLINED now)) (\<lambda>new_task.
       act_bind (save_task new_task) (\<lambda>_.
       act_bind (emit_declined_event append_event new_task cluster_id ''explicit_decline'' now) (\<lambda>_.
       act_return (\<lparr>tcr_success = True, tcr_task_state = new_task, tcr_operation = ''declined'',
         tcr_message = ''Task declined successfully''\<rparr>, [(''declined'', PyBool True)]))))))"

definition decline_task ::
  "(governance_event \<Rightarrow> ('l, persisted_event) act) \<Rightarrow> uuid \<Rightarrow> string \<Rightarrow> ('l world, task_consent_result) act" where
  "decline_task append_event task_id cluster_id =
     two_phase_execution append_event ''task.decline'' cluster_id (uuid_str task_id) []
       (decline_body append_event task_id cluster_id)"

definition halt_body ::
  "(governance_event \<Rightarrow> ('l, persisted_event) act) \<Rightarrow> uuid \<Rightarrow> string
    \<Rightarrow> ('l world, task_consent_result \<times> payload) act" where
  "halt_body append_event task_id cluster_id =
     act_bind (get_task task_id) (\<lambda>task.
     if ts_cluster_id task \<noteq> Some cluster_id then act_raise (not_working cluster_id task_id)
     else if ts_current_status task \<noteq> IN_PROGRESS then
       act_raise (invalid_task_state task_id (ts_current_status task) ''halt'')
     else
       act_bind time_now (\<lambda>now.
       act_bind (act_lift (transition task QUARANTINED now)) (\<lambda>new_task.
       act_bind (save_task new_task) (\<lambda>_.
       act_bind (emit_halted_event append_event new_task cluster_id ''cluster_initiated_halt'' now) (\<lambda>_.
       act_return (\<lparr>tcr_success = True, tcr_task_state = new_task, tcr_operation = ''halted'',
         tcr_message = ''Task halted successfully''\<rparr>, [(''halted'', PyBool True)]))))))"

definition halt_task ::
  "(governance_event \<Rightarrow> ('l, persisted_event) act) \<Rightarrow> uuid \<Rightarrow> string \<Rightarrow> ('l world, task_consent_result) act" where
  "halt_task append_event task_id cluster_id =
     two_phase_execution append_event ''task.halt'' cluster_id (uuid_str task_id) []
       (halt_body append_event task_id cluster_id)"

section \<open>Pending requests\<close>

definition calculate_ttl_remaining :: "task_state \<Rightarrow> datetime \<Rightarrow> timedelta" where
  "calculate_ttl_remaining task now = ts_ttl task - (now - ts_state_entered_at task)"

text \<open>
  \<open>_get_description_preview\<close> over the in-memory ledger: \<open>read_events\<close> has the parameter \<open>options\<close> only,
  in the class as in the port, so the call with \<open>event_type_pattern\<close> raises.
\<close>

definition memory_description_preview :: "uuid \<Rightarrow> (memory_ledger world, string) act" where
  "memory_description_preview task_id = act_raise (Exn TypeError
     (''InMemoryGovernanceLedger.read_events() got an unexpected keyword argument '' @
      [CHR 0x27] @ ''event_type_pattern'' @ [CHR 0x27]))"

fun pending_views ::
  "(uuid \<Rightarrow> ('l world, string) act) \<Rightarrow> datetime \<Rightarrow> task_state list \<Rightarrow> ('l world, pending_task_view list) act" where
  "pending_views description_preview now [] = act_return []"
| "pending_views description_preview now (task # tasks) =
     (if is_ttl_expired task now then pending_views description_preview now tasks
      else if calculate_ttl_remaining task now \<le> 0 then pending_views description_preview now tasks
      else
        act_bind (description_preview (ts_task_id task)) (\<lambda>preview.
        act_bind (pending_views description_preview now tasks) (\<lambda>views.
        act_return (\<lparr>ptv_task_id = ts_task_id task, ptv_earl_id = ts_earl_id task,
          ptv_description_preview = preview, ptv_ttl_remaining = calculate_ttl_remaining task now,
          ptv_routed_at = ts_state_entered_at task\<rparr> # views))))"

definition get_pending_requests ::
  "(uuid \<Rightarrow> ('l world, string) act) \<Rightarrow> string \<Rightarrow> int \<Rightarrow> ('l world, pending_task_view list) act" where
  "get_pending_requests description_preview cluster_id limit =
     act_bind (get_tasks_by_state_and_cluster ROUTED cluster_id limit) (\<lambda>tasks.
     act_bind time_now (\<lambda>now.
     pending_views description_preview now tasks))"

section \<open>The common shape\<close>

text \<open>The three bodies as instances of one, for the proofs.\<close>

definition consent_steps ::
  "uuid \<Rightarrow> string \<Rightarrow> exn \<Rightarrow> task_status set \<Rightarrow> (task_status \<Rightarrow> exn) \<Rightarrow> task_status
    \<Rightarrow> (task_state \<Rightarrow> datetime \<Rightarrow> ('l world, unit) act) \<Rightarrow> (task_state \<Rightarrow> 'a) \<Rightarrow> ('l world, 'a) act" where
  "consent_steps i c unauthorized allowed invalid new_status emit result =
     act_bind (get_task i) (\<lambda>task.
     if ts_cluster_id task \<noteq> Some c then act_raise unauthorized
     else if ts_current_status task \<notin> allowed then act_raise (invalid (ts_current_status task))
     else
       act_bind time_now (\<lambda>now.
       act_bind (act_lift (transition task new_status now)) (\<lambda>new_task.
       act_bind (save_task new_task) (\<lambda>_.
       act_bind (emit new_task now) (\<lambda>_.
       act_return (result new_task))))))"

lemma consent_bodies:
  "accept_body append_event i c =
     consent_steps i c (not_recipient c i) {ROUTED} (\<lambda>s. invalid_task_state i s ''accept'') ACCEPTED
       (\<lambda>t now. emit_accepted_event append_event t c now)
       (\<lambda>t. (\<lparr>tcr_success = True, tcr_task_state = t, tcr_operation = ''accepted'',
         tcr_message = ''Task accepted successfully''\<rparr>, [(''accepted'', PyBool True)]))"
  "decline_body append_event i c =
     consent_steps i c (not_recipient c i) {ROUTED, ACCEPTED} (\<lambda>s. invalid_task_state i s ''decline'') DECLINED
       (\<lambda>t now. emit_declined_event append_event t c ''explicit_decline'' now)
       (\<lambda>t. (\<lparr>tcr_success = True, tcr_task_state = t, tcr_operation = ''declined'',
         tcr_message = ''Task declined successfully''\<rparr>, [(''declined'', PyBool True)]))"
  "halt_body append_event i c =
     consent_steps i c (not_working c i) {IN_PROGRESS} (\<lambda>s. invalid_task_state i s ''halt'') QUARANTINED
       (\<lambda>t now. emit_halted_event append_event t c ''cluster_initiated_halt'' now)
       (\<lambda>t. (\<lparr>tcr_success = True, tcr_task_state = t, tcr_operation = ''halted'',
         tcr_message = ''Task halted successfully''\<rparr>, [(''halted'', PyBool True)]))"
  by (simp_all only: consent_steps_def accept_body_def decline_body_def halt_body_def singleton_iff)

text \<open>The effect of the common body on a store of valid tasks.\<close>

lemma consent_steps_pending:
  assumes "\<And>t now. framed same_pending (emit t now)"
  shows "framed same_pending (consent_steps i c unauthorized allowed invalid new_status emit result)"
proof -
  have prim: "framed same_pending time_now" "framed same_pending (get_task i)" "framed same_pending (save_task t)" for t
    by (rule framedI; auto simp: same_pending_def get_task_def split: option.splits)+
  show ?thesis
    unfolding consent_steps_def
    by (auto intro!: same_pending.framed_raise same_pending.framed_bind same_pending.framed_lift
        same_pending.framed_return assms prim)
qed

lemma consent_steps_grows:
  assumes "\<And>t now. framed (world_grows log valid) (emit t now)"
  shows "framed (world_grows log valid) (consent_steps i c unauthorized allowed invalid new_status emit result)"
  unfolding consent_steps_def
  by (auto intro!: world_grows.framed_raise world_grows.framed_bind world_grows.framed_lift
      world_grows.framed_return assms primitive_grows)

lemma consent_steps_moves:
  assumes "\<And>t now. framed same_tasks (emit t now)"
  shows "framed tasks_move (consent_steps i c unauthorized allowed invalid new_status emit result)"
proof (rule framedI)
  fix w r w' assume run: "consent_steps i c unauthorized allowed invalid new_status emit result w = (r, w')"
  show "tasks_move w w'"
  proof (cases "dict_get (w_tasks w) i")
    case None
    then show ?thesis
      using run tasks_move.frame_refl by (simp add: consent_steps_def act_bind_def get_task_None)
  next
    case (Some t)
    let ?w1 = "w\<lparr>w_clock_reads := w_clock_reads w + 1\<rparr>" and ?now = "w_clock w (w_clock_reads w)"
    show ?thesis
    proof (cases "ts_cluster_id t \<noteq> Some c \<or> ts_current_status t \<notin> allowed \<or> (\<exists>e. transition t new_status ?now = Inl e)")
      case True
      then have "w_tasks w' = w_tasks w"
        using run by (auto simp: consent_steps_def act_bind_def get_task_Some [OF Some] split: if_splits)
      then show ?thesis by (auto simp: tasks_move_def tasks_ok_def same_identity_def)
    next
      case False
      then obtain t' where t': "transition t new_status ?now = Inr t'" by (cases "transition t new_status ?now") auto
      let ?w2 = "?w1\<lparr>w_tasks := dict_set (ts_task_id t') t' (w_tasks w)\<rparr>"
      obtain x w3 where e: "emit t' ?now ?w2 = (x, w3)" by fastforce
      have "w' = w3"
        using run False t' e by (auto simp: consent_steps_def act_bind_def get_task_Some [OF Some] split: sum.splits)
      moreover have "w_tasks w3 = w_tasks ?w2" using framedD [OF assms e] by (simp add: same_tasks_def)
      moreover have "tasks_move w (w\<lparr>w_tasks := dict_set (ts_task_id t') t' (w_tasks w)\<rparr>)"
        by (rule save_transition_moves [OF Some t'])
      ultimately show ?thesis
        using tasks_move_cong [of w w w' "w\<lparr>w_tasks := dict_set (ts_task_id t') t' (w_tasks w)\<rparr>"] by simp
    qed
  qed
qed

lemma consent_steps_run:
  fixes payload_of :: "task_state \<Rightarrow> datetime \<Rightarrow> payload"
  assumes "memory_inv (w_ledger w)" and "tasks_ok w" and "\<And>s. s \<in> allowed \<Longrightarrow> is_valid_transition s new_status"
    and "event_type_pattern ty" and "\<not> blank c" and "\<And>t. \<not> blank (trace t)"
  defines "emit \<equiv> \<lambda>t now. emit_event memory_append_event ty now c (trace t) (payload_of t now)"
  shows "\<exists>r w'. consent_steps i c unauthorized allowed invalid new_status emit result w = (r, w') \<and>
    (case dict_get (w_tasks w) i of
       None \<Rightarrow> r = Inl (Exn KeyError (''UUID('' @ py_repr (uuid_str i) @ '')'')) \<and> w' = w
     | Some t \<Rightarrow>
         if ts_cluster_id t \<noteq> Some c then r = Inl unauthorized \<and> w' = w
         else if ts_current_status t \<notin> allowed then r = Inl (invalid (ts_current_status t)) \<and> w' = w
         else
           let now = w_clock w (w_clock_reads w);
               t' = t\<lparr>ts_current_status := new_status, ts_state_entered_at := now\<rparr>
           in r = Inr (result t') \<and> w_tasks w' = dict_set i t' (w_tasks w) \<and>
              (\<exists>q. ml_events (w_ledger w') = ml_events (w_ledger w) @ [q] \<and> ge_event_type (pe_event q) = ty \<and>
                 ge_actor_id (pe_event q) = c \<and> ge_payload (pe_event q) = payload_of t' now))"
proof (cases "dict_get (w_tasks w) i")
  case None
  then show ?thesis by (simp add: consent_steps_def act_bind_def get_task_None)
next
  case (Some t)
  let ?now = "w_clock w (w_clock_reads w)"
  let ?t' = "t\<lparr>ts_current_status := new_status, ts_state_entered_at := ?now\<rparr>"
  let ?w2 = "w\<lparr>w_clock_reads := w_clock_reads w + 1, w_tasks := dict_set i ?t' (w_tasks w)\<rparr>"
  have t: "ts_task_id t = i" "task_ok t" using assms(2) Some by (auto simp: tasks_ok_def)
  show ?thesis
  proof (cases "ts_cluster_id t \<noteq> Some c \<or> ts_current_status t \<notin> allowed")
    case True
    then show ?thesis by (auto simp: consent_steps_def act_bind_def get_task_Some [OF Some] Some)
  next
    case False
    then have tr: "transition t new_status ?now = Inr ?t'" using t assms(3) by (simp add: transition_ok)
    obtain w3 where w3: "emit ?t' ?now ?w2 = (Inr (), w3)" "same_tasks ?w2 w3"
      "\<exists>q. ml_events (w_ledger w3) = ml_events (w_ledger w) @ [q] \<and> ge_event_type (pe_event q) = ty \<and>
         ge_actor_id (pe_event q) = c \<and> ge_payload (pe_event q) = payload_of ?t' ?now"
      using emit_event_run [of ?w2 ty c "trace ?t'" ?now "payload_of ?t' ?now"] assms(1,4-6)
      unfolding emit_def by fastforce
    have "consent_steps i c unauthorized allowed invalid new_status emit result w = (Inr (result ?t'), w3)"
      using False tr w3(1) t(1) by (simp add: consent_steps_def act_bind_def get_task_Some [OF Some])
    then show ?thesis using False w3(2,3) Some by (auto simp: Let_def same_tasks_def)
  qed
qed

section \<open>The specification of the operations\<close>

text \<open>
  What an operation leaves behind: \<open>records w w' tys\<close> says that the ledger grew by events of exactly these
  types, and that no intent stays pending.
\<close>

definition new_events :: "memory_ledger world \<Rightarrow> memory_ledger world \<Rightarrow> governance_event list" where
  "new_events w w' = map pe_event (drop (length (ml_events (w_ledger w))) (ml_events (w_ledger w')))"

definition records :: "memory_ledger world \<Rightarrow> memory_ledger world \<Rightarrow> string list \<Rightarrow> bool" where
  "records w w' tys \<longleftrightarrow> w_pending w' = w_pending w \<and>
     take (length (ml_events (w_ledger w))) (ml_events (w_ledger w')) = ml_events (w_ledger w) \<and>
     map ge_event_type (new_events w w') = tys"

definition intent_type :: string where "intent_type = ''task.intent.emitted''"
definition commit_type :: string where "commit_type = ''task.commit.confirmed''"
definition failure_type :: string where "failure_type = ''task.failure.recorded''"

text \<open>
  The contract of a consent operation on the task \<open>i\<close>: an unknown task, another Cluster's task and a task
  in another state are refused and the refusal is recorded; otherwise exactly this task moves to
  \<open>new_status\<close>, and an event of type \<open>ty\<close> with the given payload stands between intent and commit.
\<close>

definition consent_spec ::
  "uuid \<Rightarrow> string \<Rightarrow> exn \<Rightarrow> task_status set \<Rightarrow> (task_status \<Rightarrow> exn) \<Rightarrow> task_status \<Rightarrow> string
    \<Rightarrow> (task_state \<Rightarrow> datetime \<Rightarrow> payload) \<Rightarrow> (task_state \<Rightarrow> 'a)
    \<Rightarrow> memory_ledger world \<Rightarrow> exn + 'a \<Rightarrow> memory_ledger world \<Rightarrow> bool" where
  "consent_spec i c unauthorized allowed invalid new_status ty payload_of result w r w' \<longleftrightarrow>
     (case dict_get (w_tasks w) i of
        None \<Rightarrow> r = Inl (Exn KeyError (''UUID('' @ py_repr (uuid_str i) @ '')'')) \<and>
          w_tasks w' = w_tasks w \<and> records w w' [intent_type, failure_type]
      | Some t \<Rightarrow>
          if ts_cluster_id t \<noteq> Some c then
            r = Inl unauthorized \<and> w_tasks w' = w_tasks w \<and> records w w' [intent_type, failure_type]
          else if ts_current_status t \<notin> allowed then
            r = Inl (invalid (ts_current_status t)) \<and> w_tasks w' = w_tasks w \<and>
            records w w' [intent_type, failure_type]
          else
            let now = w_clock w (w_clock_reads w + 1);
                t' = t\<lparr>ts_current_status := new_status, ts_state_entered_at := now\<rparr>
            in r = Inr (result t') \<and> w_tasks w' = dict_set i t' (w_tasks w) \<and>
               records w w' [intent_type, ty, commit_type] \<and>
               ge_actor_id (new_events w w' ! 1) = c \<and> ge_payload (new_events w w' ! 1) = payload_of t' now)"

lemma consent_memory:
  assumes inv: "memory_inv (w_ledger w)" and ok: "tasks_ok w" and c: "\<not> blank c"
    and fresh: "dict_get (w_pending w) (w_uuid w (w_uuid_draws w)) = None"
    and allowed: "\<And>s. s \<in> allowed \<Longrightarrow> is_valid_transition s new_status"
    and ty: "event_type_pattern ty" and op: "op_ok op" "first_segment op = ''task''"
    and messages: "\<not> blank (exn_str unauthorized)" "\<And>s. \<not> blank (exn_str (invalid s))"
    and trace: "\<And>t. \<not> blank (trace t)"
    and run: "two_phase_execution memory_append_event op c (uuid_str i) intent_payload
      (consent_steps i c unauthorized allowed invalid new_status
        (\<lambda>t now. emit_event memory_append_event ty now c (trace t) (payload_of t now))
        (\<lambda>t. (result t, result_payload))) w = (r, w')"
  shows "consent_spec i c unauthorized allowed invalid new_status ty payload_of result w r w'"
proof -
  let ?body = "consent_steps i c unauthorized allowed invalid new_status
        (\<lambda>t now. emit_event memory_append_event ty now c (trace t) (payload_of t now))
        (\<lambda>t. (result t, result_payload))"
  have key: "\<not> blank (''UUID('' @ py_repr (uuid_str i) @ '')'')"
    by (rule not_blankI [of "CHR ''U''"]) (simp_all add: is_py_space_def)
  obtain intent w1 rb w2 where *: "?body w1 = (rb, w2)" "same_tasks w w1" "same_tasks w2 w'"
      "memory_inv (w_ledger w1)" "w_clock w1 = w_clock w" "w_clock_reads w1 = w_clock_reads w + 1"
      "ml_events (w_ledger w1) = ml_events (w_ledger w) @ [intent]"
      "ge_event_type (pe_event intent) = intent_type"
    and outcome: "case rb of
       Inr (x, _) \<Rightarrow> r = Inr x \<and> w_pending w' = w_pending w \<and>
         (\<exists>commit. ml_events (w_ledger w') = ml_events (w_ledger w2) @ [commit] \<and>
            ge_event_type (pe_event commit) = commit_type)
     | Inl e \<Rightarrow> r = Inl e \<and> (\<not> blank (exn_str e) \<longrightarrow> w_pending w' = w_pending w \<and>
         (\<exists>failure. ml_events (w_ledger w') = ml_events (w_ledger w2) @ [failure] \<and>
            ge_event_type (pe_event failure) = failure_type))"
    using two_phase_memory [OF inv op(1) c uuid_str_nonblank
        consent_steps_pending [OF emit_event_frames(2)]
        consent_steps_grows [OF memory.emit_event_grows] fresh run]
    unfolding op(2)
    by (elim exE conjE)
      (rule that, auto simp: intent_type_def commit_type_def failure_type_def split: sum.splits)
  have ok1: "tasks_ok w1" using ok *(2) by (simp add: same_tasks_def tasks_ok_def)
  have tasks: "w_tasks w1 = w_tasks w" "w_tasks w' = w_tasks w2" using *(2,3) by (simp_all add: same_tasks_def)
  have steps: "case dict_get (w_tasks w) i of
       None \<Rightarrow> rb = Inl (Exn KeyError (''UUID('' @ py_repr (uuid_str i) @ '')'')) \<and> w2 = w1
     | Some t \<Rightarrow>
         if ts_cluster_id t \<noteq> Some c then rb = Inl unauthorized \<and> w2 = w1
         else if ts_current_status t \<notin> allowed then rb = Inl (invalid (ts_current_status t)) \<and> w2 = w1
         else
           let now = w_clock w (w_clock_reads w + 1);
               t' = t\<lparr>ts_current_status := new_status, ts_state_entered_at := now\<rparr>
           in rb = Inr (result t', result_payload) \<and> w_tasks w2 = dict_set i t' (w_tasks w) \<and>
              (\<exists>q. ml_events (w_ledger w2) = ml_events (w_ledger w1) @ [q] \<and> ge_event_type (pe_event q) = ty \<and>
                 ge_actor_id (pe_event q) = c \<and> ge_payload (pe_event q) = payload_of t' now)"
    using consent_steps_run [where trace = trace and allowed = allowed and w = w1 and ty = ty and c = c and i = i
        and unauthorized = unauthorized and invalid = invalid and new_status = new_status
        and payload_of = payload_of and result = "\<lambda>t. (result t, result_payload)", OF *(4) ok1 allowed ty c trace]
    unfolding tasks(1) *(5,6) *(1) by simp
  show ?thesis
    using steps outcome tasks *(7,8) key messages
    by (auto simp: consent_spec_def records_def new_events_def Let_def split: option.splits if_splits)
qed


lemma consent_messages:
  "\<not> blank (exn_str (not_recipient c i))" "\<not> blank (exn_str (not_working c i))"
  "\<not> blank (exn_str (invalid_task_state i s op))"
  by (rule not_blankI [of "CHR ''C''"]; simp add: not_recipient_def not_working_def invalid_task_state_def is_py_space_def)+

lemma consent_event_types:
  "event_type_pattern ''executive.task.accepted''" "event_type_pattern ''executive.task.declined''"
  "event_type_pattern ''executive.task.halted''"
  by code_simp+

lemma consent_branch:
  "first_segment ''task.accept'' = ''task''" "first_segment ''task.decline'' = ''task''"
  "first_segment ''task.halt'' = ''task''"
  by code_simp+

section \<open>Properties\<close>

text \<open>
  C5: accepting. An unknown task raises \<open>KeyError\<close>, another Cluster's task or an unassigned one
  \<open>UnauthorizedConsentError\<close>, a task that is not \<open>routed\<close> \<open>InvalidTaskStateError\<close>; each refusal changes no
  task and is recorded as an intent with its failure. Otherwise exactly this task becomes \<open>accepted\<close>, with
  the time of the decision as its entry time, and the acceptance event of that Cluster stands between intent
  and commit. The TTL is not consulted: a request whose TTL has run out is still accepted.
\<close>

theorem accept_task_spec:
  assumes "memory_inv (w_ledger w)" and "tasks_ok w" and "\<not> blank c"
    and "dict_get (w_pending w) (w_uuid w (w_uuid_draws w)) = None"
    and "accept_task memory_append_event i c w = (r, w')"
  shows "consent_spec i c (not_recipient c i) {ROUTED} (\<lambda>s. invalid_task_state i s ''accept'') ACCEPTED
     ''executive.task.accepted'' (\<lambda>t now. accepted_payload t c now)
     (\<lambda>t. \<lparr>tcr_success = True, tcr_task_state = t, tcr_operation = ''accepted'',
       tcr_message = ''Task accepted successfully''\<rparr>) w r w'"
  by (rule consent_memory [OF assms(1-4) _ consent_event_types(1) consent_ops_ok(1) consent_branch(1)
      consent_messages(1,3) uuid_str_nonblank assms(5)[unfolded accept_task_def consent_bodies emit_accepted_event_def]]) simp

theorem accept_task_spec_witness:
  "let w = routed_world (hours 100); (r, w') = accept_task memory_append_event 7 ''cluster-1'' w in
   is_ttl_expired routed_task (hours 100) \<and>
   dict_get (w_tasks w') 7 = Some (routed_task\<lparr>ts_current_status := ACCEPTED, ts_state_entered_at := hours 100\<rparr>) \<and>
   records w w' [intent_type, ''executive.task.accepted'', commit_type]"
proof -
  let ?w = "routed_world (hours 100)"
  obtain r w' where run: "accept_task memory_append_event 7 ''cluster-1'' ?w = (r, w')" by fastforce
  have c: "\<not> blank ''cluster-1''" by code_simp
  have w: "dict_get (w_tasks ?w) 7 = Some routed_task" "w_clock ?w (Suc (w_clock_reads ?w)) = hours 100"
    by (simp_all add: routed_world_def example_world_def dict_get_def)
  have t: "ts_cluster_id routed_task = Some ''cluster-1''" "ts_current_status routed_task = ROUTED"
    by (simp_all add: routed_task_def example_task_def)
  have "is_ttl_expired routed_task (hours 100)" by code_simp
  moreover have "w_tasks w' = dict_set 7 (routed_task\<lparr>ts_current_status := ACCEPTED, ts_state_entered_at := hours 100\<rparr>)
       (w_tasks ?w) \<and> records ?w w' [intent_type, ''executive.task.accepted'', commit_type]"
    using accept_task_spec [OF routed_world_ok(1,2) c routed_world_ok(3) run]
    by (simp add: consent_spec_def w t Let_def)
  ultimately show ?thesis by (simp add: run)
qed

text \<open>
  Declining, before or after acceptance. Refusals as for accepting; otherwise exactly this task becomes
  \<open>declined\<close> and the event between intent and commit says that no penalty is incurred.
\<close>

theorem decline_task_spec:
  assumes "memory_inv (w_ledger w)" and "tasks_ok w" and "\<not> blank c"
    and "dict_get (w_pending w) (w_uuid w (w_uuid_draws w)) = None"
    and "decline_task memory_append_event i c w = (r, w')"
  shows "consent_spec i c (not_recipient c i) {ROUTED, ACCEPTED} (\<lambda>s. invalid_task_state i s ''decline'') DECLINED
     ''executive.task.declined''
     (\<lambda>t now. [(''task_id'', PyStr (uuid_str (ts_task_id t))), (''cluster_id'', PyStr c),
       (''declined_at'', PyStr (isoformat now)), (''reason'', PyStr ''explicit_decline''),
       (''penalty_incurred'', PyBool False)])
     (\<lambda>t. \<lparr>tcr_success = True, tcr_task_state = t, tcr_operation = ''declined'',
       tcr_message = ''Task declined successfully''\<rparr>) w r w'"
  by (rule consent_memory [OF assms(1-4) _ consent_event_types(2) consent_ops_ok(2) consent_branch(2)
      consent_messages(1,3) uuid_str_nonblank assms(5)[unfolded decline_task_def consent_bodies emit_declined_event_def
        declined_payload_def]]) auto

theorem decline_task_spec_witness:
  "let w = routed_world 5; (r, w') = decline_task memory_append_event 7 ''cluster-2'' w in
   r = Inl (not_recipient ''cluster-2'' 7) \<and> w_tasks w' = w_tasks w \<and> records w w' [intent_type, failure_type]"
proof -
  let ?w = "routed_world 5"
  obtain r w' where run: "decline_task memory_append_event 7 ''cluster-2'' ?w = (r, w')" by fastforce
  have c: "\<not> blank ''cluster-2''" by code_simp
  have w: "dict_get (w_tasks ?w) 7 = Some routed_task" "ts_cluster_id routed_task = Some ''cluster-1''"
    by (simp_all add: routed_world_def example_world_def dict_get_def routed_task_def example_task_def)
  show ?thesis
    using decline_task_spec [OF routed_world_ok(1,2) c routed_world_ok(3) run]
    by (simp add: run consent_spec_def w Let_def)
qed

text \<open>
  Halting. Only the Cluster of a task in progress may halt it; the task is then quarantined, without
  penalty, and the event between intent and commit names the Cluster's own halt as the reason.
\<close>

theorem halt_task_spec:
  assumes "memory_inv (w_ledger w)" and "tasks_ok w" and "\<not> blank c"
    and "dict_get (w_pending w) (w_uuid w (w_uuid_draws w)) = None"
    and "halt_task memory_append_event i c w = (r, w')"
  shows "consent_spec i c (not_working c i) {IN_PROGRESS} (\<lambda>s. invalid_task_state i s ''halt'') QUARANTINED
     ''executive.task.halted''
     (\<lambda>t now. [(''task_id'', PyStr (uuid_str (ts_task_id t))), (''cluster_id'', PyStr c),
       (''halted_at'', PyStr (isoformat now)), (''reason'', PyStr ''cluster_initiated_halt''),
       (''penalty_incurred'', PyBool False)])
     (\<lambda>t. \<lparr>tcr_success = True, tcr_task_state = t, tcr_operation = ''halted'',
       tcr_message = ''Task halted successfully''\<rparr>) w r w'"
  by (rule consent_memory [OF assms(1-4) _ consent_event_types(3) consent_ops_ok(3) consent_branch(3)
      consent_messages(2,3) uuid_str_nonblank assms(5)[unfolded halt_task_def consent_bodies emit_halted_event_def
        halted_payload_def]]) simp

theorem halt_task_spec_witness:
  "let w = routed_world 5; (r, w') = halt_task memory_append_event 7 ''cluster-1'' w in
   r = Inl (invalid_task_state 7 ROUTED ''halt'') \<and> w_tasks w' = w_tasks w \<and> records w w' [intent_type, failure_type]"
proof -
  let ?w = "routed_world 5"
  obtain r w' where run: "halt_task memory_append_event 7 ''cluster-1'' ?w = (r, w')" by fastforce
  have c: "\<not> blank ''cluster-1''" by code_simp
  have w: "dict_get (w_tasks ?w) 7 = Some routed_task" "ts_cluster_id routed_task = Some ''cluster-1''"
    "ts_current_status routed_task = ROUTED"
    by (simp_all add: routed_world_def example_world_def dict_get_def routed_task_def example_task_def)
  show ?thesis
    using halt_task_spec [OF routed_world_ok(1,2) c routed_world_ok(3) run]
    by (simp add: run consent_spec_def w Let_def)
qed

lemma two_phase_rejected_intent:
  assumes "op_ok op" and "\<not> blank a" and "\<not> blank tgt"
    and "\<forall>e. ge_event_type e = first_segment op @ ''.intent.emitted'' \<longrightarrow>
      (\<exists>x. exn_kind x = k \<and> append_event e (w_ledger w) = (Inl x, w_ledger w))"
  shows "\<exists>x w'. two_phase_execution append_event op a tgt pl body w = (Inl x, w') \<and> exn_kind x = k \<and>
    w_tasks w' = w_tasks w \<and> w_ledger w' = w_ledger w \<and> w_pending w' = w_pending w"
proof -
  let ?e = "intent_event (w_uuid w (w_uuid_draws w + 1)) (w_uuid w (w_uuid_draws w)) (w_clock w (w_clock_reads w)) op a tgt pl"
  obtain x where "exn_kind x = k" "append_event ?e (w_ledger w) = (Inl x, w_ledger w)"
    using assms(4) [rule_format, of ?e] by (auto simp: intent_event_def ge_accessors)
  then show ?thesis
    by (auto simp: two_phase_execution_def act_bind_def emit_intent_run [OF assms(1-3)])
qed

text \<open>
  C15: under write-time validation with the strict vocabulary of event types, no consent operation can be
  carried out: the intent's type \<open>task.intent.emitted\<close> is not in the vocabulary, so accepting, declining and
  halting all raise \<open>UnknownEventTypeError\<close>, whatever the task, and nothing is changed or recorded.
\<close>

theorem strict_vocabulary_blocks_consent:
  assumes "vs_event_type vs = mk_event_type_validator True suggest []" and "\<not> blank c"
    and "operation \<in> {accept_task, decline_task, halt_task}"
  shows "\<exists>x w'. operation (validated_append_event vs get_latest base) i c w = (Inl x, w') \<and>
    exn_kind x = UnknownEventTypeError \<and> w_tasks w' = w_tasks w \<and> w_ledger w' = w_ledger w \<and>
    w_pending w' = w_pending w"
proof -
  have "''task.intent.emitted'' \<notin> set governance_event_types" by code_simp
  note refuse = strict_vocabulary_refuses [OF assms(1), of _ get_latest base]
  have "\<forall>e. ge_event_type e = ''task'' @ ''.intent.emitted'' \<longrightarrow> (\<exists>x. exn_kind x = UnknownEventTypeError \<and>
      validated_append_event vs get_latest base e (w_ledger w) = (Inl x, w_ledger w))"
    using refuse \<open>''task.intent.emitted'' \<notin> _\<close> by simp
  then have blocked: "\<exists>x w'. two_phase_execution (validated_append_event vs get_latest base) op c (uuid_str i) [] body w =
        (Inl x, w') \<and> exn_kind x = UnknownEventTypeError \<and> w_tasks w' = w_tasks w \<and> w_ledger w' = w_ledger w \<and>
        w_pending w' = w_pending w"
    if "op_ok op" "first_segment op = ''task''"
    for op and body :: "('a world, task_consent_result \<times> payload) act"
    by (intro two_phase_rejected_intent) (use that assms(2) uuid_str_nonblank in simp_all)
  show ?thesis
    using assms(3)
    by (auto simp: accept_task_def decline_task_def halt_task_def
        intro!: blocked consent_ops_ok consent_branch)
qed

theorem strict_vocabulary_blocks_consent_witness:
  "\<exists>x w'. accept_task (validated_append_event example_validation example_latest memory_append_event) 7 ''cluster-1''
     (routed_world 5) = (Inl x, w') \<and> w_tasks w' = [(7, routed_task)]"
proof -
  have c: "\<not> blank ''cluster-1''" by code_simp
  have v: "vs_event_type example_validation = mk_event_type_validator True True []" by (simp add: example_validation_def)
  have "accept_task \<in> {accept_task, decline_task, halt_task}" by simp
  from strict_vocabulary_blocks_consent [OF v c this, of example_latest memory_append_event 7 "routed_world 5"]
  show ?thesis by (auto simp: routed_world_def example_world_def)
qed

lemma pending_views_memory:
  "pending_views memory_description_preview now tasks w =
     (if \<forall>t\<in>set tasks. is_ttl_expired t now \<or> calculate_ttl_remaining t now \<le> 0 then Inr []
      else Inl (Exn TypeError (''InMemoryGovernanceLedger.read_events() got an unexpected keyword argument '' @
        [CHR 0x27] @ ''event_type_pattern'' @ [CHR 0x27])), w)"
  by (induction tasks) (auto simp: memory_description_preview_def act_bind_def)

text \<open>
  the list of pending requests over the in-memory ledger. The call answers the empty list when none of
  the first \<open>limit\<close> routed tasks of the Cluster is within its TTL; as soon as one is, it raises
  \<open>TypeError\<close>, because the description preview calls \<open>read_events\<close> with arguments it does not have.
\<close>

theorem get_pending_requests_memory:
  "fst (get_pending_requests memory_description_preview c limit w) =
     (if \<forall>t\<in>set (py_slice (filter (\<lambda>t. ts_current_status t = ROUTED \<and> ts_cluster_id t = Some c)
          (map snd (w_tasks w))) 0 limit). w_clock w (w_clock_reads w) \<ge> ts_state_entered_at t + ts_ttl t
      then Inr []
      else Inl (Exn TypeError (''InMemoryGovernanceLedger.read_events() got an unexpected keyword argument '' @
        [CHR 0x27] @ ''event_type_pattern'' @ [CHR 0x27])))"
proof -
  let ?now = "w_clock w (w_clock_reads w)"
  have "is_ttl_expired t ?now \<or> calculate_ttl_remaining t ?now \<le> 0 \<longleftrightarrow> ts_state_entered_at t + ts_ttl t \<le> ?now"
    if "ts_current_status t = ROUTED" for t
    using that by (auto simp: is_ttl_expired_def calculate_ttl_remaining_def status_category_defs)
  then have "(\<forall>t\<in>set xs. is_ttl_expired t ?now \<or> calculate_ttl_remaining t ?now \<le> 0) \<longleftrightarrow>
      (\<forall>t\<in>set xs. ts_state_entered_at t + ts_ttl t \<le> ?now)"
    if "xs = py_slice (filter (\<lambda>t. ts_current_status t = ROUTED \<and> ts_cluster_id t = Some c) (map snd (w_tasks w))) 0 limit" for xs
    using that set_py_slice by fastforce
  then show ?thesis
    by (simp add: get_pending_requests_def act_bind_def get_tasks_by_state_and_cluster_def pending_views_memory
        memory_description_preview_def)
qed

theorem get_pending_requests_memory_witness:
  "fst (get_pending_requests memory_description_preview ''cluster-1'' 100 (routed_world (hours 80))) = Inr [] \<and>
   (\<exists>e. fst (get_pending_requests memory_description_preview ''cluster-1'' 100 (routed_world (hours 5))) = Inl e)"
proof -
  have tasks: "py_slice (filter (\<lambda>t. ts_current_status t = ROUTED \<and> ts_cluster_id t = Some ''cluster-1'')
      (map snd (w_tasks (routed_world now)))) 0 100 = [routed_task]" for now
    by (simp add: routed_world_def example_world_def routed_task_def example_task_def py_slice_def py_slice_bound_def)
  have times: "ts_state_entered_at routed_task + ts_ttl routed_task = hours 72"
    "w_clock (routed_world now) k = now" for now k
    by (simp_all add: routed_task_def example_task_def routed_world_def example_world_def)
  show ?thesis
    unfolding get_pending_requests_memory tasks by (simp add: times hours_def microseconds_per_second_def)
qed

end
