(* ===== verification/Task_Timeout.thy ===== *)
theory Task_Timeout
  imports Event_Emission Validators
begin

text \<open>
  Automatic transitions on timeout (\<open>src/application/services/governance/task_timeout_service.py\<close>) with the
  configuration and result of their port (\<open>src/application/ports/governance/task_timeout_port.py\<close>). The task
  store is the in-memory one, whose \<open>get_tasks_by_status\<close> answers at most 100 tasks when called without a
  limit. Log messages are left out.
\<close>

section \<open>Configuration and result\<close>

record task_timeout_config =
  tc_activation_ttl :: timedelta
  tc_acceptance_inactivity :: timedelta
  tc_reporting_timeout :: timedelta
  tc_processor_interval :: timedelta

definition default_timeout_config :: task_timeout_config where
  "default_timeout_config = \<lparr>tc_activation_ttl = hours 72, tc_acceptance_inactivity = hours 48,
     tc_reporting_timeout = days 7, tc_processor_interval = 5 * 60 * microseconds_per_second\<rparr>"

definition mk_task_timeout_config :: "task_timeout_config \<Rightarrow> exn + task_timeout_config" where
  "mk_task_timeout_config c =
     (if tc_activation_ttl c \<le> 0 then Inl (Exn ValueError ''activation_ttl must be positive'')
      else if tc_acceptance_inactivity c \<le> 0 then Inl (Exn ValueError ''acceptance_inactivity must be positive'')
      else if tc_reporting_timeout c \<le> 0 then Inl (Exn ValueError ''reporting_timeout must be positive'')
      else if tc_processor_interval c \<le> 0 then Inl (Exn ValueError ''processor_interval must be positive'')
      else Inr c)"

record timeout_processing_result =
  tp_declined :: "uuid list"
  tp_started :: "uuid list"
  tp_quarantined :: "uuid list"
  tp_errors :: "(uuid \<times> string) list"

definition empty_timeout_result :: timeout_processing_result where
  "empty_timeout_result = \<lparr>tp_declined = [], tp_started = [], tp_quarantined = [], tp_errors = []\<rparr>"

definition total_processed :: "timeout_processing_result \<Rightarrow> nat" where
  "total_processed r = length (tp_declined r) + length (tp_started r) + length (tp_quarantined r)"

definition has_errors :: "timeout_processing_result \<Rightarrow> bool" where
  "has_errors r \<longleftrightarrow> length (tp_errors r) > 0"

section \<open>The events\<close>

definition system_actor :: string where
  "system_actor = ''system''"

definition optional_str :: "string option \<Rightarrow> pyval" where
  "optional_str s = (case s of None \<Rightarrow> PyNone | Some x \<Rightarrow> PyStr x)"

text \<open>
  \<open>int(d.total_seconds() / k)\<close> for a positive duration. The quotient of doubles truncates to the exact
  quotient for durations below a million hours.
\<close>

definition whole_units :: "timedelta \<Rightarrow> int \<Rightarrow> int" where
  "whole_units d k = d div (k * microseconds_per_second)"

definition auto_declined_payload :: "task_state \<Rightarrow> datetime \<Rightarrow> payload" where
  "auto_declined_payload task timestamp = [
     (''task_id'', PyStr (uuid_str (ts_task_id task))), (''cluster_id'', optional_str (ts_cluster_id task)),
     (''reason'', PyStr ''ttl_expired''), (''ttl_hours'', PyInt (whole_units (ts_ttl task) 3600)),
     (''expired_at'', PyStr (isoformat timestamp)), (''penalty_incurred'', PyBool False)]"

definition auto_started_payload :: "task_timeout_config \<Rightarrow> task_state \<Rightarrow> datetime \<Rightarrow> payload" where
  "auto_started_payload config task timestamp = [
     (''task_id'', PyStr (uuid_str (ts_task_id task))), (''cluster_id'', optional_str (ts_cluster_id task)),
     (''reason'', PyStr ''acceptance_inactivity''),
     (''inactivity_hours'', PyInt (whole_units (tc_acceptance_inactivity config) 3600)),
     (''started_at'', PyStr (isoformat timestamp))]"

definition auto_quarantined_payload :: "task_timeout_config \<Rightarrow> task_state \<Rightarrow> datetime \<Rightarrow> payload" where
  "auto_quarantined_payload config task timestamp = [
     (''task_id'', PyStr (uuid_str (ts_task_id task))), (''cluster_id'', optional_str (ts_cluster_id task)),
     (''reason'', PyStr ''reporting_timeout''),
     (''timeout_days'', PyInt (whole_units (tc_reporting_timeout config) 86400)),
     (''quarantined_at'', PyStr (isoformat timestamp)), (''penalty_incurred'', PyBool False)]"

definition emit_auto_declined_event ::
  "(governance_event \<Rightarrow> ('l, persisted_event) act) \<Rightarrow> task_state \<Rightarrow> datetime \<Rightarrow> ('l world, unit) act" where
  "emit_auto_declined_event append_event task timestamp =
     emit_event append_event ''executive.task.auto_declined'' timestamp system_actor
       (uuid_str (ts_task_id task)) (auto_declined_payload task timestamp)"

definition emit_auto_started_event ::
  "(governance_event \<Rightarrow> ('l, persisted_event) act) \<Rightarrow> task_timeout_config \<Rightarrow> task_state \<Rightarrow> datetime
    \<Rightarrow> ('l world, unit) act" where
  "emit_auto_started_event append_event config task timestamp =
     emit_event append_event ''executive.task.auto_started'' timestamp system_actor
       (uuid_str (ts_task_id task)) (auto_started_payload config task timestamp)"

definition emit_auto_quarantined_event ::
  "(governance_event \<Rightarrow> ('l, persisted_event) act) \<Rightarrow> task_timeout_config \<Rightarrow> task_state \<Rightarrow> datetime
    \<Rightarrow> ('l world, unit) act" where
  "emit_auto_quarantined_event append_event config task timestamp =
     emit_event append_event ''executive.task.auto_quarantined'' timestamp system_actor
       (uuid_str (ts_task_id task)) (auto_quarantined_payload config task timestamp)"

section \<open>The transitions\<close>

definition auto_decline ::
  "(governance_event \<Rightarrow> ('l, persisted_event) act) \<Rightarrow> task_state \<Rightarrow> datetime \<Rightarrow> ('l world, unit) act" where
  "auto_decline append_event task now =
     act_bind (act_lift (transition task DECLINED now)) (\<lambda>new_task.
     act_bind (save_task new_task) (\<lambda>_.
     emit_auto_declined_event append_event task now))"

definition auto_start ::
  "(governance_event \<Rightarrow> ('l, persisted_event) act) \<Rightarrow> task_timeout_config \<Rightarrow> task_state \<Rightarrow> datetime
    \<Rightarrow> ('l world, unit) act" where
  "auto_start append_event config task now =
     act_bind (act_lift (transition task IN_PROGRESS now)) (\<lambda>new_task.
     act_bind (save_task new_task) (\<lambda>_.
     emit_auto_started_event append_event config task now))"

definition auto_quarantine ::
  "(governance_event \<Rightarrow> ('l, persisted_event) act) \<Rightarrow> task_timeout_config \<Rightarrow> task_state \<Rightarrow> datetime
    \<Rightarrow> ('l world, unit) act" where
  "auto_quarantine append_event config task now =
     act_bind (act_lift (transition task QUARANTINED now)) (\<lambda>new_task.
     act_bind (save_task new_task) (\<lambda>_.
     emit_auto_quarantined_event append_event config task now))"

text \<open>The common loop: an exception of one task is logged and the next task follows.\<close>

fun timeout_loop ::
  "(task_state \<Rightarrow> bool) \<Rightarrow> (task_state \<Rightarrow> ('l world, unit) act) \<Rightarrow> task_state list \<Rightarrow> ('l world, uuid list) act" where
  "timeout_loop due handle [] = act_return []"
| "timeout_loop due handle (task # tasks) =
     (if due task then
        act_bind (act_try (act_bind (handle task) (\<lambda>_. act_return [ts_task_id task])) (\<lambda>_. act_return [])) (\<lambda>ids.
        act_bind (timeout_loop due handle tasks) (\<lambda>rest.
        act_return (ids @ rest)))
      else timeout_loop due handle tasks)"

definition process_activation_timeouts ::
  "(governance_event \<Rightarrow> ('l, persisted_event) act) \<Rightarrow> ('l world, uuid list) act" where
  "process_activation_timeouts append_event =
     act_bind time_now (\<lambda>now.
     act_bind (get_tasks_by_status ROUTED 100) (\<lambda>routed_tasks.
     timeout_loop (\<lambda>task. is_ttl_expired task now) (\<lambda>task. auto_decline append_event task now) routed_tasks))"

definition process_acceptance_timeouts ::
  "(governance_event \<Rightarrow> ('l, persisted_event) act) \<Rightarrow> task_timeout_config \<Rightarrow> ('l world, uuid list) act" where
  "process_acceptance_timeouts append_event config =
     act_bind time_now (\<lambda>now.
     act_bind (get_tasks_by_status ACCEPTED 100) (\<lambda>accepted_tasks.
     timeout_loop (\<lambda>task. now - ts_state_entered_at task \<ge> tc_acceptance_inactivity config)
       (\<lambda>task. auto_start append_event config task now) accepted_tasks))"

definition process_reporting_timeouts ::
  "(governance_event \<Rightarrow> ('l, persisted_event) act) \<Rightarrow> task_timeout_config \<Rightarrow> ('l world, uuid list) act" where
  "process_reporting_timeouts append_event config =
     act_bind time_now (\<lambda>now.
     act_bind (get_tasks_by_status IN_PROGRESS 100) (\<lambda>in_progress_tasks.
     timeout_loop (\<lambda>task. is_reporting_expired task now) (\<lambda>task. auto_quarantine append_event config task now)
       in_progress_tasks))"

definition process_all_timeouts ::
  "(governance_event \<Rightarrow> ('l, persisted_event) act) \<Rightarrow> task_timeout_config
    \<Rightarrow> ('l world, timeout_processing_result) act" where
  "process_all_timeouts append_event config =
     act_bind (act_try (act_bind (process_activation_timeouts append_event) (\<lambda>declined.
       act_return (empty_timeout_result\<lparr>tp_declined := declined\<rparr>))) (\<lambda>_. act_return empty_timeout_result)) (\<lambda>result.
     act_bind (act_try (act_bind (process_acceptance_timeouts append_event config) (\<lambda>started.
       act_return (result\<lparr>tp_started := started\<rparr>))) (\<lambda>_. act_return result)) (\<lambda>result.
     act_try (act_bind (process_reporting_timeouts append_event config) (\<lambda>quarantined.
       act_return (result\<lparr>tp_quarantined := quarantined\<rparr>))) (\<lambda>_. act_return result)))"

section \<open>The scheduler\<close>

text \<open>
  \<open>TaskTimeoutScheduler\<close>: its flag, whether it holds a background task, and the last result. One pass of
  \<open>_run_loop\<close> is \<open>run_loop_pass\<close>; the sleep between two passes and the cancellation are the event loop's.
\<close>

record timeout_scheduler =
  sc_running :: bool
  sc_has_task :: bool
  sc_last_result :: "timeout_processing_result option"

definition scheduler_init :: timeout_scheduler where
  "scheduler_init = \<lparr>sc_running = False, sc_has_task = False, sc_last_result = None\<rparr>"

definition scheduler_start :: "timeout_scheduler \<Rightarrow> timeout_scheduler" where
  "scheduler_start s = (if sc_running s then s else s\<lparr>sc_running := True, sc_has_task := True\<rparr>)"

definition scheduler_stop :: "timeout_scheduler \<Rightarrow> timeout_scheduler" where
  "scheduler_stop s =
     (if \<not> sc_running s then s
      else if sc_has_task s then s\<lparr>sc_running := False, sc_has_task := False\<rparr>
      else s\<lparr>sc_running := False\<rparr>)"

definition run_loop_pass ::
  "(governance_event \<Rightarrow> ('l, persisted_event) act) \<Rightarrow> task_timeout_config \<Rightarrow> timeout_scheduler \<times> 'l world
    \<Rightarrow> timeout_scheduler \<times> 'l world" where
  "run_loop_pass append_event config = (\<lambda>(s, w).
     if \<not> sc_running s then (s, w)
     else case process_all_timeouts append_event config w of
       (Inl _, w') \<Rightarrow> (s, w')
     | (Inr result, w') \<Rightarrow> (s\<lparr>sc_last_result := Some result\<rparr>, w'))"

section \<open>Running the loop\<close>

text \<open>The three handlers as instances of one.\<close>

definition auto_steps :: "task_status \<Rightarrow> (task_state \<Rightarrow> ('l world, unit) act) \<Rightarrow> datetime \<Rightarrow> task_state \<Rightarrow> ('l world, unit) act" where
  "auto_steps new_status emit now task =
     act_bind (act_lift (transition task new_status now)) (\<lambda>new_task.
     act_bind (save_task new_task) (\<lambda>_. emit task))"

lemma auto_handlers:
  "auto_decline a t now = auto_steps DECLINED (\<lambda>t. emit_auto_declined_event a t now) now t"
  "auto_start a c t now = auto_steps IN_PROGRESS (\<lambda>t. emit_auto_started_event a c t now) now t"
  "auto_quarantine a c t now = auto_steps QUARANTINED (\<lambda>t. emit_auto_quarantined_event a c t now) now t"
  by (simp_all add: auto_steps_def auto_decline_def auto_start_def auto_quarantine_def)

definition moved :: "task_status \<Rightarrow> datetime \<Rightarrow> task_state \<Rightarrow> task_state" where
  "moved s now t = t\<lparr>ts_current_status := s, ts_state_entered_at := now\<rparr>"

lemma auto_steps_run:
  assumes "task_ok t" "is_valid_transition (ts_current_status t) s"
  shows "auto_steps s emit now t w = emit t (w\<lparr>w_tasks := dict_set (ts_task_id t) (moved s now t) (w_tasks w)\<rparr>)"
  using assms by (simp add: auto_steps_def act_bind_def transition_ok moved_def)

lemma timeout_loop_run:
  fixes log :: "'l world \<Rightarrow> 'x list"
  assumes "\<And>t w. P w \<Longrightarrow> t \<in> set tasks \<Longrightarrow> due t \<Longrightarrow> \<exists>r w'. handle t w = (r, w') \<and> P w' \<and>
      w_tasks w' = dict_set (ts_task_id t) (g t) (w_tasks w) \<and> log w' = log w @ evs t \<and> ((\<exists>x. r = Inr x) \<longleftrightarrow> ok)"
    and "P w"
  shows "\<exists>w'. timeout_loop due handle tasks w = (Inr (if ok then map ts_task_id (filter due tasks) else []), w') \<and> P w' \<and>
    w_tasks w' = fold (\<lambda>t. dict_set (ts_task_id t) (g t)) (filter due tasks) (w_tasks w) \<and>
    log w' = log w @ concat (map evs (filter due tasks))"
  using assms
proof (induction tasks arbitrary: w)
  case (Cons t tasks)
  have IH: "\<exists>w'. timeout_loop due handle tasks u = (Inr (if ok then map ts_task_id (filter due tasks) else []), w') \<and> P w' \<and>
      w_tasks w' = fold (\<lambda>t. dict_set (ts_task_id t) (g t)) (filter due tasks) (w_tasks u) \<and>
      log w' = log u @ concat (map evs (filter due tasks))" if "P u" for u
    by (rule Cons.IH) (use Cons.prems(1) that in auto)
  show ?case
  proof (cases "due t")
    case True
    obtain r w1 where step: "handle t w = (r, w1)" "P w1" "w_tasks w1 = dict_set (ts_task_id t) (g t) (w_tasks w)"
      "log w1 = log w @ evs t" "(\<exists>x. r = Inr x) \<longleftrightarrow> ok"
      using Cons.prems(1) [OF Cons.prems(2) _ True] by auto
    from IH [of w1] step(2) obtain w2 where
      "timeout_loop due handle tasks w1 = (Inr (if ok then map ts_task_id (filter due tasks) else []), w2)" "P w2"
      "w_tasks w2 = fold (\<lambda>t. dict_set (ts_task_id t) (g t)) (filter due tasks) (w_tasks w1)"
      "log w2 = log w1 @ concat (map evs (filter due tasks))"
      by auto
    then show ?thesis using True step by (cases r) (auto simp: act_bind_def act_try_def)
  next
    case False
    then show ?thesis using IH [OF Cons.prems(2)] by auto
  qed
qed simp

text \<open>Saving the tasks one by one.\<close>

lemma dict_get_fold_set:
  assumes "distinct (map k xs)"
  shows "dict_get (fold (\<lambda>x. dict_set (k x) (g x)) xs d) i =
    (case find (\<lambda>x. k x = i) xs of None \<Rightarrow> dict_get d i | Some x \<Rightarrow> Some (g x))"
  using assms
proof (induction xs arbitrary: d)
  case (Cons x xs)
  then have "find (\<lambda>y. k y = k x) xs = None" by (simp add: find_None_iff image_iff) metis
  then show ?case using Cons by (auto simp: dict_get_set split: option.splits)
qed simp

text \<open>What a run decides on: the first 100 tasks in the given state whose time is over.\<close>

definition due_tasks :: "task_status \<Rightarrow> (task_state \<Rightarrow> datetime \<Rightarrow> bool) \<Rightarrow> 'l world \<Rightarrow> task_state list" where
  "due_tasks status p w = filter (\<lambda>t. p t (w_clock w (w_clock_reads w)))
     (take 100 (filter (\<lambda>t. ts_current_status t = status) (map snd (w_tasks w))))"

definition only_moved :: "task_state list \<Rightarrow> task_status \<Rightarrow> 'l world \<Rightarrow> 'l world \<Rightarrow> bool" where
  "only_moved due status w w' \<longleftrightarrow> (\<forall>i. dict_get (w_tasks w') i =
     map_option (\<lambda>t. if t \<in> set due then moved status (w_clock w (w_clock_reads w)) t else t) (dict_get (w_tasks w) i))"

lemma due_tasks_store:
  assumes "tasks_ok w" "t \<in> set (due_tasks status p w)"
  shows "task_ok t" "ts_current_status t = status" "dict_get (w_tasks w) (ts_task_id t) = Some t"
proof -
  have "t \<in> set (filter (\<lambda>t. ts_current_status t = status) (map snd (w_tasks w)))"
    using assms(2) by (auto simp: due_tasks_def dest: in_set_takeD)
  then obtain i where i: "(i, t) \<in> set (w_tasks w)" "ts_current_status t = status" by auto
  then have "dict_get (w_tasks w) i = Some t" using assms(1) by (simp add: tasks_ok_def dict_get_Some_iff)
  then show "task_ok t" "ts_current_status t = status" "dict_get (w_tasks w) (ts_task_id t) = Some t"
    using i assms(1) by (auto simp: tasks_ok_def)
qed

lemma due_tasks_distinct: "tasks_ok w \<Longrightarrow> distinct (map ts_task_id (due_tasks status p w))"
proof -
  assume ok: "tasks_ok w"
  have "map (ts_task_id \<circ> snd) (w_tasks w) = map fst (w_tasks w)"
    using ok by (auto simp: tasks_ok_def dict_get_Some_iff)
  then have "distinct (map ts_task_id (map snd (w_tasks w)))"
    using ok unfolding map_map by (metis tasks_ok_def dict_ok_def)
  then show ?thesis
    unfolding due_tasks_def by (intro distinct_map_filter) (simp add: distinct_map_filter take_map [symmetric])
qed

lemma only_moved_fold:
  assumes "tasks_ok w"
    and "w_tasks w' = fold (\<lambda>t. dict_set (ts_task_id t) (moved s (w_clock w (w_clock_reads w)) t)) (due_tasks status p w) (w_tasks w)"
  shows "only_moved (due_tasks status p w) s w w'"
  unfolding only_moved_def
proof
  fix i
  let ?due = "due_tasks status p w"
  have get: "dict_get (w_tasks w') i = (case find (\<lambda>t. ts_task_id t = i) ?due of
      None \<Rightarrow> dict_get (w_tasks w) i | Some t \<Rightarrow> Some (moved s (w_clock w (w_clock_reads w)) t))"
    unfolding assms(2) by (rule dict_get_fold_set [OF due_tasks_distinct [OF assms(1)]])
  show "dict_get (w_tasks w') i =
     map_option (\<lambda>t. if t \<in> set ?due then moved s (w_clock w (w_clock_reads w)) t else t) (dict_get (w_tasks w) i)"
  proof (cases "find (\<lambda>t. ts_task_id t = i) ?due")
    case None
    then have "\<forall>t\<in>set ?due. ts_task_id t \<noteq> i" by (simp add: find_None_iff)
    then show ?thesis
      using assms(1) get None by (auto simp: tasks_ok_def map_option_case split: option.split)
  next
    case (Some t)
    then have t: "t \<in> set ?due" "ts_task_id t = i" by (auto simp: find_Some_iff)
    then have "dict_get (w_tasks w) i = Some t" using due_tasks_store(3) [OF assms(1)] by blast
    then show ?thesis using get Some t by simp
  qed
qed

text \<open>One kind of timeout over the in-memory ledger, which takes every event.\<close>

definition timeout_process ::
  "task_status \<Rightarrow> (task_state \<Rightarrow> datetime \<Rightarrow> bool) \<Rightarrow> (datetime \<Rightarrow> task_state \<Rightarrow> ('l world, unit) act)
    \<Rightarrow> ('l world, uuid list) act" where
  "timeout_process status p handle =
     act_bind time_now (\<lambda>now. act_bind (get_tasks_by_status status 100) (\<lambda>tasks.
     timeout_loop (\<lambda>t. p t now) (handle now) tasks))"

lemma timeout_process_run:
  "timeout_process status p handle w =
     timeout_loop (\<lambda>t. p t (w_clock w (w_clock_reads w))) (handle (w_clock w (w_clock_reads w)))
       (take 100 (filter (\<lambda>t. ts_current_status t = status) (map snd (w_tasks w))))
       (w\<lparr>w_clock_reads := w_clock_reads w + 1\<rparr>)"
  by (simp add: timeout_process_def act_bind_def get_tasks_by_status_def py_slice_prefix)

lemma processes:
  "process_activation_timeouts a = timeout_process ROUTED is_ttl_expired
     (\<lambda>now. auto_steps DECLINED (\<lambda>t. emit_event a ''executive.task.auto_declined'' now system_actor
       (uuid_str (ts_task_id t)) (auto_declined_payload t now)) now)"
  "process_acceptance_timeouts a c = timeout_process ACCEPTED (\<lambda>t now. now - ts_state_entered_at t \<ge> tc_acceptance_inactivity c)
     (\<lambda>now. auto_steps IN_PROGRESS (\<lambda>t. emit_event a ''executive.task.auto_started'' now system_actor
       (uuid_str (ts_task_id t)) (auto_started_payload c t now)) now)"
  "process_reporting_timeouts a c = timeout_process IN_PROGRESS is_reporting_expired
     (\<lambda>now. auto_steps QUARANTINED (\<lambda>t. emit_event a ''executive.task.auto_quarantined'' now system_actor
       (uuid_str (ts_task_id t)) (auto_quarantined_payload c t now)) now)"
  by (simp_all add: process_activation_timeouts_def process_acceptance_timeouts_def process_reporting_timeouts_def
      timeout_process_def auto_handlers emit_auto_declined_event_def emit_auto_started_event_def
      emit_auto_quarantined_event_def)

lemma due_filter:
  "filter (\<lambda>t. p t (w_clock w (w_clock_reads w))) (take 100 (filter (\<lambda>t. ts_current_status t = status) (map snd (w_tasks w)))) =
     due_tasks status p w"
  by (simp add: due_tasks_def)

lemma system_actor_nonblank: "\<not> blank system_actor"
  by code_simp

lemma timeout_process_memory:
  fixes payload_of :: "datetime \<Rightarrow> task_state \<Rightarrow> payload"
  assumes "memory_inv (w_ledger w)" "tasks_ok w" "is_valid_transition status s" "event_type_pattern ty"
  shows "\<exists>w'. timeout_process status p (\<lambda>now. auto_steps s (\<lambda>t. emit_event memory_append_event ty now system_actor
       (uuid_str (ts_task_id t)) (payload_of now t)) now) w = (Inr (map ts_task_id (due_tasks status p w)), w') \<and>
    memory_inv (w_ledger w') \<and> only_moved (due_tasks status p w) s w w' \<and>
    recorded w' = recorded w @ map (\<lambda>t. (ty, system_actor, payload_of (w_clock w (w_clock_reads w)) t)) (due_tasks status p w)"
proof -
  let ?now = "w_clock w (w_clock_reads w)"
  let ?tasks = "take 100 (filter (\<lambda>t. ts_current_status t = status) (map snd (w_tasks w)))"
  let ?handle = "\<lambda>now. auto_steps s (\<lambda>t. emit_event memory_append_event ty now system_actor
       (uuid_str (ts_task_id t)) (payload_of now t)) now"
  have "\<exists>w'. timeout_loop (\<lambda>t. p t ?now) (?handle ?now) ?tasks (w\<lparr>w_clock_reads := w_clock_reads w + 1\<rparr>) =
      (Inr (if True then map ts_task_id (filter (\<lambda>t. p t ?now) ?tasks) else []), w') \<and> memory_inv (w_ledger w') \<and>
    w_tasks w' = fold (\<lambda>t. dict_set (ts_task_id t) (moved s ?now t)) (filter (\<lambda>t. p t ?now) ?tasks)
      (w_tasks (w\<lparr>w_clock_reads := w_clock_reads w + 1\<rparr>)) \<and>
    recorded w' = recorded (w\<lparr>w_clock_reads := w_clock_reads w + 1\<rparr>) @
      concat (map (\<lambda>t. [(ty, system_actor, payload_of ?now t)]) (filter (\<lambda>t. p t ?now) ?tasks))"
  proof (rule timeout_loop_run [where P = "\<lambda>w. memory_inv (w_ledger w)" and ok = True])
    fix t and u :: "memory_ledger world" assume *: "memory_inv (w_ledger u)" "t \<in> set ?tasks" "p t ?now"
    then have t: "task_ok t" "ts_current_status t = status"
      using due_tasks_store [OF assms(2), of t status p] by (auto simp: due_tasks_def)
    let ?u = "u\<lparr>w_tasks := dict_set (ts_task_id t) (moved s ?now t) (w_tasks u)\<rparr>"
    have "memory_inv (w_ledger ?u)" using *(1) by simp
    from emit_event_run [OF this assms(4) system_actor_nonblank uuid_str_nonblank, of ?now "ts_task_id t" "payload_of ?now t"]
    show "\<exists>r w'. ?handle ?now t u = (r, w') \<and> memory_inv (w_ledger w') \<and>
        w_tasks w' = dict_set (ts_task_id t) (moved s ?now t) (w_tasks u) \<and>
        recorded w' = recorded u @ [(ty, system_actor, payload_of ?now t)] \<and> ((\<exists>x. r = Inr x) \<longleftrightarrow> True)"
      using t assms(3) by (auto simp: auto_steps_run same_tasks_def recorded_def)
  qed (use assms(1) in simp)
  then show ?thesis
    unfolding timeout_process_run due_filter
    using only_moved_fold [OF assms(2)] by (auto simp: map_concat)
qed

text \<open>The same over a ledger that refuses the event.\<close>

lemma timeout_process_refused:
  fixes payload_of :: "datetime \<Rightarrow> task_state \<Rightarrow> payload" and w :: "'l world"
  assumes "\<forall>e. ge_event_type e = ty \<longrightarrow> (\<exists>x. append_event e (w_ledger w) = (Inl x, w_ledger w))"
    and "tasks_ok w" "is_valid_transition status s" "event_type_pattern ty"
  shows "\<exists>w'. timeout_process status p (\<lambda>now. auto_steps s (\<lambda>t. emit_event append_event ty now system_actor
       (uuid_str (ts_task_id t)) (payload_of now t)) now) w = (Inr [], w') \<and>
    w_ledger w' = w_ledger w \<and> only_moved (due_tasks status p w) s w w'"
proof -
  let ?now = "w_clock w (w_clock_reads w)"
  let ?tasks = "take 100 (filter (\<lambda>t. ts_current_status t = status) (map snd (w_tasks w)))"
  let ?handle = "\<lambda>now. auto_steps s (\<lambda>t. emit_event append_event ty now system_actor
       (uuid_str (ts_task_id t)) (payload_of now t)) now"
  have "\<exists>w'. timeout_loop (\<lambda>t. p t ?now) (?handle ?now) ?tasks (w\<lparr>w_clock_reads := w_clock_reads w + 1\<rparr>) =
      (Inr (if False then map ts_task_id (filter (\<lambda>t. p t ?now) ?tasks) else []), w') \<and> w_ledger w' = w_ledger w \<and>
    w_tasks w' = fold (\<lambda>t. dict_set (ts_task_id t) (moved s ?now t)) (filter (\<lambda>t. p t ?now) ?tasks)
      (w_tasks (w\<lparr>w_clock_reads := w_clock_reads w + 1\<rparr>)) \<and>
    [] = [] @ concat (map (\<lambda>t. [] :: unit list) (filter (\<lambda>t. p t ?now) ?tasks))"
  proof (rule timeout_loop_run [where P = "\<lambda>u. w_ledger u = w_ledger w" and ok = False and log = "\<lambda>_. []"])
    fix t and u :: "'l world" assume *: "w_ledger u = w_ledger w" "t \<in> set ?tasks" "p t ?now"
    then have t: "task_ok t" "ts_current_status t = status"
      using due_tasks_store [OF assms(2), of t status p] by (auto simp: due_tasks_def)
    let ?u = "u\<lparr>w_tasks := dict_set (ts_task_id t) (moved s ?now t) (w_tasks u)\<rparr>"
    have "\<forall>e. ge_event_type e = ty \<longrightarrow> (\<exists>x. append_event e (w_ledger ?u) = (Inl x, w_ledger ?u))"
      using assms(1) *(1) by simp
    from emit_event_refused [where append_event = append_event and w = ?u, OF this assms(4) system_actor_nonblank uuid_str_nonblank, of ?now "ts_task_id t" "payload_of ?now t"]
    show "\<exists>r w'. ?handle ?now t u = (r, w') \<and> w_ledger w' = w_ledger w \<and>
        w_tasks w' = dict_set (ts_task_id t) (moved s ?now t) (w_tasks u) \<and>
        ([] :: unit list) = [] @ [] \<and> ((\<exists>x. r = Inr x) \<longleftrightarrow> False)"
      using t assms(3) *(1) by (fastforce simp: auto_steps_run same_tasks_def)
  qed simp
  then show ?thesis
    unfolding timeout_process_run due_filter using only_moved_fold [OF assms(2)] by auto
qed

text \<open>Whatever the ledger does, a run ends with an answer and moves tasks along the table only.\<close>

lemma timeout_loop_total:
  "\<exists>ids w'. timeout_loop due handle tasks w = (Inr ids, w') \<and> length ids \<le> length tasks"
proof (induction tasks arbitrary: w)
  case (Cons t tasks)
  show ?case
  proof (cases "due t")
    case True
    obtain r w1 where "handle t w = (r, w1)" by fastforce
    moreover obtain ids w2 where "timeout_loop due handle tasks w1 = (Inr ids, w2)" "length ids \<le> length tasks"
      using Cons.IH by blast
    ultimately show ?thesis using True by (cases r) (auto simp: act_bind_def act_try_def)
  next
    case False
    then show ?thesis using Cons.IH [of w] by auto
  qed
qed simp

lemma auto_steps_moves:
  assumes "\<And>t. framed same_tasks (emit t)" "dict_get (w_tasks w) (ts_task_id t) = Some t"
    and "auto_steps s emit now t w = (r, w')"
  shows "tasks_move w w'" "i \<noteq> ts_task_id t \<Longrightarrow> dict_get (w_tasks w') i = dict_get (w_tasks w) i"
proof -
  have "w_tasks w' = w_tasks w \<or> (\<exists>t'. transition t s now = Inr t' \<and> w_tasks w' = dict_set (ts_task_id t') t' (w_tasks w))"
    using assms(3) framedD [OF assms(1)]
    by (cases "transition t s now") (auto simp: auto_steps_def act_bind_def same_tasks_def)
  then show "tasks_move w w'" "i \<noteq> ts_task_id t \<Longrightarrow> dict_get (w_tasks w') i = dict_get (w_tasks w) i"
    using save_transition_moves [OF assms(2)] tasks_move_cong [of w w w' "w\<lparr>w_tasks := w_tasks w'\<rparr>"]
      tasks_move_cong [of w w w' w] tasks_move.frame_refl [of w]
    by (auto simp: transition_Inr)
qed

lemma timeout_loop_moves:
  assumes "\<And>t. framed same_tasks (emit t)"
  shows "distinct (map ts_task_id tasks) \<Longrightarrow> \<forall>t\<in>set tasks. dict_get (w_tasks w) (ts_task_id t) = Some t \<Longrightarrow>
    timeout_loop due (auto_steps s emit now) tasks w = (r, w') \<Longrightarrow> tasks_move w w'"
proof (induction tasks arbitrary: w r)
  case Nil
  then show ?case using tasks_move.frame_refl by simp
next
  case (Cons t tasks)
  show ?case
  proof (cases "due t")
    case True
    obtain x w1 where step: "auto_steps s emit now t w = (x, w1)" by fastforce
    obtain ids w2 where rest: "timeout_loop due (auto_steps s emit now) tasks w1 = (Inr ids, w2)"
      using timeout_loop_total by blast
    have w2: "w' = w2" using Cons.prems(3) True step rest by (cases x) (auto simp: act_bind_def act_try_def)
    have t: "dict_get (w_tasks w) (ts_task_id t) = Some t" using Cons.prems(2) by simp
    have "dict_get (w_tasks w1) (ts_task_id u) = Some u" if "u \<in> set tasks" for u
    proof -
      have "ts_task_id t \<notin> ts_task_id ` set tasks" using Cons.prems(1) by simp
      then have "ts_task_id u \<noteq> ts_task_id t" using that by (metis image_eqI)
      from auto_steps_moves(2) [OF assms t step this] show ?thesis using Cons.prems(2) that by simp
    qed
    then have "tasks_move w1 w'" using Cons.IH [OF _ _ rest [folded w2]] Cons.prems(1) by simp
    then show ?thesis using auto_steps_moves(1) [OF assms t step] tasks_move.frame_trans by blast
  next
    case False
    then show ?thesis using Cons by simp
  qed
qed

lemma timeout_process_total:
  assumes "\<And>now t. framed same_tasks (emit now t)"
  shows "\<exists>ids w'. timeout_process status p (\<lambda>now. auto_steps s (emit now) now) w = (Inr ids, w') \<and> length ids \<le> 100 \<and>
    tasks_move w w'"
proof -
  let ?now = "w_clock w (w_clock_reads w)" and ?w = "w\<lparr>w_clock_reads := w_clock_reads w + 1\<rparr>"
  let ?tasks = "take 100 (filter (\<lambda>t. ts_current_status t = status) (map snd (w_tasks w)))"
  obtain ids w' where run: "timeout_loop (\<lambda>t. p t ?now) (auto_steps s (emit ?now) ?now) ?tasks ?w = (Inr ids, w')"
    "length ids \<le> length ?tasks" using timeout_loop_total by blast
  have "tasks_move ?w w'" if "tasks_ok w"
  proof (rule timeout_loop_moves [OF assms _ _ run(1)])
    have all: "?tasks = due_tasks status (\<lambda>_ _. True) w" by (simp add: due_tasks_def)
    show "distinct (map ts_task_id ?tasks)" unfolding all by (rule due_tasks_distinct [OF that])
    show "\<forall>t\<in>set ?tasks. dict_get (w_tasks ?w) (ts_task_id t) = Some t"
      unfolding all using due_tasks_store(3) [OF that] by auto
  qed
  then have "tasks_move w w'"
    using tasks_move_cong [of w ?w w' w'] by (cases "tasks_ok w") (simp_all add: tasks_move_def)
  then show ?thesis using run by (auto simp: timeout_process_run)
qed

section \<open>Properties\<close>

lemma auto_event_types:
  "event_type_pattern ''executive.task.auto_declined''" "event_type_pattern ''executive.task.auto_started''"
  "event_type_pattern ''executive.task.auto_quarantined''"
  by code_simp+

lemma auto_types_unknown:
  "''executive.task.auto_declined'' \<notin> set governance_event_types"
  "''executive.task.auto_started'' \<notin> set governance_event_types"
  "''executive.task.auto_quarantined'' \<notin> set governance_event_types"
  by code_simp+

lemma timeout_transitions:
  "is_valid_transition ROUTED DECLINED" "is_valid_transition ACCEPTED IN_PROGRESS"
  "is_valid_transition IN_PROGRESS QUARANTINED"
  by simp_all

text \<open>
  C16: no silent expiry over the in-memory ledger. A run for routed requests declines exactly those of the
  first 100 whose TTL has passed, stamps them with the time of the run, leaves every other task as it was,
  answers their ids, and records one event for each, by the actor \<open>system\<close> and without penalty.
\<close>

theorem activation_timeouts_recorded:
  assumes "memory_inv (w_ledger w)" and "tasks_ok w"
  shows "\<exists>w'. process_activation_timeouts memory_append_event w =
      (Inr (map ts_task_id (due_tasks ROUTED is_ttl_expired w)), w') \<and>
    only_moved (due_tasks ROUTED is_ttl_expired w) DECLINED w w' \<and>
    recorded w' = recorded w @ map (\<lambda>t. (''executive.task.auto_declined'', ''system'',
        auto_declined_payload t (w_clock w (w_clock_reads w)))) (due_tasks ROUTED is_ttl_expired w)"
  using timeout_process_memory [OF assms timeout_transitions(1) auto_event_types(1), where p = is_ttl_expired
      and payload_of = "\<lambda>now t. auto_declined_payload t now"]
  by (auto simp: processes system_actor_def)

lemma routed_world_due:
  "due_tasks ROUTED is_ttl_expired (routed_world (hours 80)) = [routed_task]"
  "due_tasks ROUTED is_ttl_expired (routed_world (hours 5)) = []"
  by (simp_all add: due_tasks_def routed_world_def example_world_def routed_task_def example_task_def is_ttl_expired_def
      status_category_defs hours_def microseconds_per_second_def)

theorem activation_timeouts_recorded_witness:
  "\<exists>w'. process_activation_timeouts memory_append_event (routed_world (hours 80)) = (Inr [7], w') \<and>
     recorded w' = [(''executive.task.auto_declined'', ''system'', auto_declined_payload routed_task (hours 80))]"
proof -
  have "w_clock (routed_world (hours 80)) k = hours 80" "recorded (routed_world (hours 80)) = []" for k
    by (simp_all add: routed_world_def example_world_def recorded_def memory_ledger_init_def)
  then show ?thesis
    using activation_timeouts_recorded [OF routed_world_ok(1,2), of "hours 80"] routed_task_ok(2)
    by (auto simp: routed_world_due)
qed

text \<open>
  The same for the other two runs: accepted tasks without activity for the configured time start, and
  tasks in progress past their own reporting timeout are quarantined, each with its event by \<open>system\<close>.
\<close>

theorem work_timeouts_recorded:
  assumes "memory_inv (w_ledger w)" and "tasks_ok w"
  shows "(let due = due_tasks ACCEPTED (\<lambda>t now. now - ts_state_entered_at t \<ge> tc_acceptance_inactivity config) w in
    \<exists>w'. process_acceptance_timeouts memory_append_event config w = (Inr (map ts_task_id due), w') \<and>
      only_moved due IN_PROGRESS w w' \<and>
      recorded w' = recorded w @ map (\<lambda>t. (''executive.task.auto_started'', ''system'',
        auto_started_payload config t (w_clock w (w_clock_reads w)))) due) \<and>
   (let due = due_tasks IN_PROGRESS is_reporting_expired w in
    \<exists>w'. process_reporting_timeouts memory_append_event config w = (Inr (map ts_task_id due), w') \<and>
      only_moved due QUARANTINED w w' \<and>
      recorded w' = recorded w @ map (\<lambda>t. (''executive.task.auto_quarantined'', ''system'',
        auto_quarantined_payload config t (w_clock w (w_clock_reads w)))) due)"
  using timeout_process_memory [OF assms timeout_transitions(2) auto_event_types(2),
      where p = "\<lambda>t now. now - ts_state_entered_at t \<ge> tc_acceptance_inactivity config"
      and payload_of = "\<lambda>now t. auto_started_payload config t now"]
    timeout_process_memory [OF assms timeout_transitions(3) auto_event_types(3), where p = is_reporting_expired
      and payload_of = "\<lambda>now t. auto_quarantined_payload config t now"]
  by (auto simp: processes system_actor_def Let_def)

definition working_world :: "datetime \<Rightarrow> memory_ledger world" where
  "working_world now = example_world [(7, routed_task\<lparr>ts_current_status := IN_PROGRESS\<rparr>)] now"

lemma working_world_due:
  "due_tasks IN_PROGRESS is_reporting_expired (working_world (days 8)) = [routed_task\<lparr>ts_current_status := IN_PROGRESS\<rparr>]"
  by (simp add: due_tasks_def working_world_def example_world_def routed_task_def example_task_def is_reporting_expired_def
      hours_def days_def microseconds_per_second_def)

theorem work_timeouts_recorded_witness:
  "\<exists>w'. process_reporting_timeouts memory_append_event default_timeout_config (working_world (days 8)) = (Inr [7], w') \<and>
     dict_get (w_tasks w') 7 = Some (moved QUARANTINED (days 8) (routed_task\<lparr>ts_current_status := IN_PROGRESS\<rparr>))"
proof -
  let ?t = "routed_task\<lparr>ts_current_status := IN_PROGRESS\<rparr>"
  have inv: "memory_inv (w_ledger (working_world (days 8)))" by (simp add: working_world_def example_world_def)
  have ok: "tasks_ok (working_world (days 8))"
    using routed_task_ok by (auto simp: working_world_def example_world_def tasks_ok_def dict_ok_def dict_get_def split: if_splits)
  have store: "dict_get (w_tasks (working_world (days 8))) 7 = Some ?t" "w_clock (working_world (days 8)) k = days 8" for k
    by (simp_all add: working_world_def example_world_def dict_get_def)
  from work_timeouts_recorded [OF inv ok, of default_timeout_config] obtain w' where
    "process_reporting_timeouts memory_append_event default_timeout_config (working_world (days 8)) = (Inr [ts_task_id ?t], w')"
    "only_moved [?t] QUARANTINED (working_world (days 8)) w'"
    by (auto simp: Let_def working_world_due)
  then show ?thesis using store routed_task_ok(2) by (auto simp: only_moved_def)
qed

text \<open>
  Under the strict vocabulary the expiry is silent. The event types of the three runs are not in the
  vocabulary, the transition is saved before the event is refused, and the refusal is only logged: the due
  tasks are moved all the same, no event is recorded, and the answer names none of them.
\<close>

theorem strict_vocabulary_silences_timeouts:
  assumes "vs_event_type vs = mk_event_type_validator True suggest []" and "tasks_ok w"
  shows "\<exists>w'. process_activation_timeouts (validated_append_event vs get_latest base) w = (Inr [], w') \<and>
    w_ledger w' = w_ledger w \<and> only_moved (due_tasks ROUTED is_ttl_expired w) DECLINED w w'"
proof -
  have "\<forall>e. ge_event_type e = ''executive.task.auto_declined'' \<longrightarrow>
      (\<exists>x. validated_append_event vs get_latest base e (w_ledger w) = (Inl x, w_ledger w))"
    using strict_vocabulary_refuses [OF assms(1)] auto_types_unknown(1) by metis
  from timeout_process_refused [where append_event = "validated_append_event vs get_latest base" and w = w
      and p = is_ttl_expired and payload_of = "\<lambda>now t. auto_declined_payload t now",
      OF this assms(2) timeout_transitions(1) auto_event_types(1)]
  show ?thesis by (simp add: processes)
qed

theorem strict_vocabulary_silences_timeouts_witness:
  "\<exists>w'. process_activation_timeouts (validated_append_event example_validation example_latest memory_append_event)
       (routed_world (hours 80)) = (Inr [], w') \<and> ml_events (w_ledger w') = [] \<and>
     dict_get (w_tasks w') 7 = Some (moved DECLINED (hours 80) routed_task)"
proof -
  have v: "vs_event_type example_validation = mk_event_type_validator True True []" by (simp add: example_validation_def)
  have store: "dict_get (w_tasks (routed_world (hours 80))) 7 = Some routed_task" "w_clock (routed_world (hours 80)) k = hours 80"
    "ml_events (w_ledger (routed_world (hours 80))) = []" for k
    by (simp_all add: routed_world_def example_world_def dict_get_def memory_ledger_init_def)
  from strict_vocabulary_silences_timeouts [OF v routed_world_ok(2), of example_latest memory_append_event "hours 80"]
  show ?thesis using store by (auto simp: only_moved_def routed_world_due)
qed

text \<open>
  One batch never fails, whatever the ledger does. \<open>process_all_timeouts\<close> always returns, handles at most
  a hundred tasks of each kind, never reports an error (its \<open>errors\<close> list stays empty), and moves tasks along
  the transition table only.
\<close>

theorem process_all_timeouts_total:
  "\<exists>r w'. process_all_timeouts append_event config w = (Inr r, w') \<and> tp_errors r = [] \<and> total_processed r \<le> 300 \<and>
     tasks_move w w'"
proof -
  obtain ids1 w1 where 1: "process_activation_timeouts append_event w = (Inr ids1, w1)" "length ids1 \<le> 100" "tasks_move w w1"
    using timeout_process_total [where emit = "\<lambda>now t. emit_event append_event ''executive.task.auto_declined'' now
        system_actor (uuid_str (ts_task_id t)) (auto_declined_payload t now)", OF emit_event_frames(1)]
    unfolding processes by blast
  obtain ids2 w2 where 2: "process_acceptance_timeouts append_event config w1 = (Inr ids2, w2)" "length ids2 \<le> 100" "tasks_move w1 w2"
    using timeout_process_total [where emit = "\<lambda>now t. emit_event append_event ''executive.task.auto_started'' now
        system_actor (uuid_str (ts_task_id t)) (auto_started_payload config t now)", OF emit_event_frames(1)]
    unfolding processes by blast
  obtain ids3 w3 where 3: "process_reporting_timeouts append_event config w2 = (Inr ids3, w3)" "length ids3 \<le> 100" "tasks_move w2 w3"
    using timeout_process_total [where emit = "\<lambda>now t. emit_event append_event ''executive.task.auto_quarantined'' now
        system_actor (uuid_str (ts_task_id t)) (auto_quarantined_payload config t now)", OF emit_event_frames(1)]
    unfolding processes by blast
  have "tasks_move w w3" using 1(3) 2(3) 3(3) tasks_move.frame_trans by blast
  then show ?thesis
    using 1(1,2) 2(1,2) 3(1,2)
    by (simp add: process_all_timeouts_def act_bind_def act_try_def total_processed_def empty_timeout_result_def)
qed

end
