(* ===== verification/Halt_Transition.thy ===== *)
theory Halt_Transition
  imports Event_Emission Validators
begin

text \<open>
  What a system halt does to the tasks
  (\<open>src/application/services/governance/halt_task_transition_service.py\<close>), with the records, the result and
  the error of its port (\<open>src/application/ports/governance/halt_task_transition_port.py\<close>).

  \<open>TaskStateQueryPort\<close> is a protocol without an implementation: \<open>get_active_tasks\<close> and \<open>atomic_transition\<close>
  are arguments of the definitions. \<open>execution_ms\<close> of the result is a float; \<open>float_ms\<close> stands for its value.
\<close>

section \<open>Records\<close>

datatype task_state_category = PRE_CONSENT | POST_CONSENT | TERMINAL

datatype halt_transition_type = HALT_NULLIFIED | HALT_QUARANTINED | HALT_PRESERVED | HALT_FAILED

record task_transition_record =
  tr_task_id :: uuid
  tr_previous_status :: string
  tr_new_status :: string
  tr_category :: task_state_category
  tr_transition_type :: halt_transition_type
  tr_transitioned_at :: datetime
  tr_halt_correlation_id :: uuid
  tr_error_message :: "string option"

definition is_success :: "task_transition_record \<Rightarrow> bool" where
  "is_success r \<longleftrightarrow> tr_transition_type r \<noteq> HALT_FAILED"

record halt_transition_result =
  hr_halt_correlation_id :: uuid
  hr_triggered_at :: datetime
  hr_completed_at :: datetime
  hr_nullified_count :: nat
  hr_quarantined_count :: nat
  hr_preserved_count :: nat
  hr_failed_count :: nat
  hr_total_processed :: nat
  hr_transition_records :: "task_transition_record list"

definition is_complete_success :: "halt_transition_result \<Rightarrow> bool" where
  "is_complete_success r \<longleftrightarrow> hr_failed_count r = 0"

definition failed_task_ids :: "halt_transition_result \<Rightarrow> uuid list" where
  "failed_task_ids r = map tr_task_id (filter (\<lambda>x. \<not> is_success x) (hr_transition_records r))"

definition halt_result_to_dict :: "(timedelta \<Rightarrow> pyfloat) \<Rightarrow> halt_transition_result \<Rightarrow> payload" where
  "halt_result_to_dict float_ms r = [
     (''halt_correlation_id'', PyStr (uuid_str (hr_halt_correlation_id r))),
     (''triggered_at'', PyStr (isoformat (hr_triggered_at r))),
     (''completed_at'', PyStr (isoformat (hr_completed_at r))),
     (''execution_ms'', PyFloat (float_ms (hr_completed_at r - hr_triggered_at r))),
     (''nullified_count'', PyInt (int (hr_nullified_count r))),
     (''quarantined_count'', PyInt (int (hr_quarantined_count r))),
     (''preserved_count'', PyInt (int (hr_preserved_count r))),
     (''failed_count'', PyInt (int (hr_failed_count r))),
     (''total_processed'', PyInt (int (hr_total_processed r))),
     (''is_complete_success'', PyBool (is_complete_success r)),
     (''failed_task_ids'', PyList (map (\<lambda>i. PyStr (uuid_str i)) (failed_task_ids r)))]"

definition concurrent_modification :: "uuid \<Rightarrow> string \<Rightarrow> string \<Rightarrow> exn" where
  "concurrent_modification task_id expected_status actual_status = Exn ConcurrentModificationError
     (''Task '' @ uuid_str task_id @ '' state changed: expected '' @ expected_status @ '', got '' @ actual_status)"

text \<open>\<open>TaskStatus(s)\<close>, which raises \<open>ValueError\<close> for any other string.\<close>

definition parse_task_status :: "string \<Rightarrow> task_status option" where
  "parse_task_status s = find (\<lambda>st. task_status_value st = s) enum_class.enum"

section \<open>The events\<close>

definition emit_nullified_event ::
  "(governance_event \<Rightarrow> ('l, persisted_event) act) \<Rightarrow> uuid \<Rightarrow> string \<Rightarrow> uuid \<Rightarrow> datetime \<Rightarrow> ('l world, unit) act" where
  "emit_nullified_event append_event task_id previous_status halt_correlation_id transitioned_at =
     emit_event append_event ''executive.task.nullified_on_halt'' transitioned_at ''system''
       (uuid_str halt_correlation_id)
       [(''task_id'', PyStr (uuid_str task_id)), (''previous_state'', PyStr previous_status),
        (''new_state'', PyStr (task_status_value NULLIFIED)),
        (''halt_correlation_id'', PyStr (uuid_str halt_correlation_id)),
        (''reason'', PyStr ''system_halt_pre_consent''),
        (''transitioned_at'', PyStr (isoformat transitioned_at))]"

definition emit_quarantined_event ::
  "(governance_event \<Rightarrow> ('l, persisted_event) act) \<Rightarrow> uuid \<Rightarrow> string \<Rightarrow> uuid \<Rightarrow> datetime \<Rightarrow> ('l world, unit) act" where
  "emit_quarantined_event append_event task_id previous_status halt_correlation_id transitioned_at =
     emit_event append_event ''executive.task.quarantined_on_halt'' transitioned_at ''system''
       (uuid_str halt_correlation_id)
       [(''task_id'', PyStr (uuid_str task_id)), (''previous_state'', PyStr previous_status),
        (''new_state'', PyStr (task_status_value QUARANTINED)),
        (''halt_correlation_id'', PyStr (uuid_str halt_correlation_id)),
        (''reason'', PyStr ''system_halt_post_consent''), (''work_preserved'', PyBool True),
        (''transitioned_at'', PyStr (isoformat transitioned_at))]"

definition emit_preserved_event ::
  "(governance_event \<Rightarrow> ('l, persisted_event) act) \<Rightarrow> uuid \<Rightarrow> string \<Rightarrow> uuid \<Rightarrow> datetime \<Rightarrow> ('l world, unit) act" where
  "emit_preserved_event append_event task_id status halt_correlation_id recorded_at =
     emit_event append_event ''executive.task.preserved_on_halt'' recorded_at ''system''
       (uuid_str halt_correlation_id)
       [(''task_id'', PyStr (uuid_str task_id)), (''state'', PyStr status),
        (''halt_correlation_id'', PyStr (uuid_str halt_correlation_id)),
        (''reason'', PyStr ''terminal_state_unchanged''),
        (''recorded_at'', PyStr (isoformat recorded_at))]"

definition emit_transition_summary ::
  "(governance_event \<Rightarrow> ('l, persisted_event) act) \<Rightarrow> (timedelta \<Rightarrow> pyfloat) \<Rightarrow> halt_transition_result
    \<Rightarrow> ('l world, unit) act" where
  "emit_transition_summary append_event float_ms result =
     emit_event append_event ''executive.task.halt_transitions_completed'' (hr_completed_at result) ''system''
       (uuid_str (hr_halt_correlation_id result)) (halt_result_to_dict float_ms result)"

section \<open>One task\<close>

definition categorize_task :: "task_status \<Rightarrow> task_state_category" where
  "categorize_task status =
     (if is_pre_consent status then PRE_CONSENT else if is_post_consent status then POST_CONSENT else TERMINAL)"

definition create_failed_record :: "uuid \<Rightarrow> string \<Rightarrow> uuid \<Rightarrow> string \<Rightarrow> ('l world, task_transition_record) act" where
  "create_failed_record task_id previous_status halt_correlation_id error_message =
     act_bind time_now (\<lambda>now.
     act_return \<lparr>tr_task_id = task_id, tr_previous_status = previous_status, tr_new_status = previous_status,
       tr_category = TERMINAL, tr_transition_type = HALT_FAILED, tr_transitioned_at = now,
       tr_halt_correlation_id = halt_correlation_id, tr_error_message = Some error_message\<rparr>)"

definition nullify_task ::
  "(uuid \<Rightarrow> string \<Rightarrow> string \<Rightarrow> ('l world, unit) act) \<Rightarrow> (governance_event \<Rightarrow> ('l, persisted_event) act)
    \<Rightarrow> uuid \<Rightarrow> task_status \<Rightarrow> task_status option \<Rightarrow> uuid \<Rightarrow> ('l world, task_transition_record) act" where
  "nullify_task atomic_transition append_event task_id current_status target_status halt_correlation_id =
     act_bind time_now (\<lambda>transitioned_at.
     case target_status of
       None \<Rightarrow> create_failed_record task_id (task_status_value current_status) halt_correlation_id
         ''No halt target for pre-consent status''
     | Some target \<Rightarrow>
         act_try
           (act_bind (atomic_transition task_id (task_status_value current_status) (task_status_value target)) (\<lambda>_.
            act_bind (emit_nullified_event append_event task_id (task_status_value current_status)
              halt_correlation_id transitioned_at) (\<lambda>_.
            act_return \<lparr>tr_task_id = task_id, tr_previous_status = task_status_value current_status,
              tr_new_status = task_status_value target, tr_category = PRE_CONSENT,
              tr_transition_type = HALT_NULLIFIED, tr_transitioned_at = transitioned_at,
              tr_halt_correlation_id = halt_correlation_id, tr_error_message = None\<rparr>)))
           (\<lambda>e. if exn_kind e = ConcurrentModificationError then
              act_return \<lparr>tr_task_id = task_id, tr_previous_status = task_status_value current_status,
                tr_new_status = task_status_value current_status, tr_category = PRE_CONSENT,
                tr_transition_type = HALT_FAILED, tr_transitioned_at = transitioned_at,
                tr_halt_correlation_id = halt_correlation_id, tr_error_message = Some (exn_str e)\<rparr>
            else act_raise e))"

definition quarantine_task ::
  "(uuid \<Rightarrow> string \<Rightarrow> string \<Rightarrow> ('l world, unit) act) \<Rightarrow> (governance_event \<Rightarrow> ('l, persisted_event) act)
    \<Rightarrow> uuid \<Rightarrow> task_status \<Rightarrow> task_status option \<Rightarrow> uuid \<Rightarrow> ('l world, task_transition_record) act" where
  "quarantine_task atomic_transition append_event task_id current_status target_status halt_correlation_id =
     act_bind time_now (\<lambda>transitioned_at.
     case target_status of
       None \<Rightarrow> create_failed_record task_id (task_status_value current_status) halt_correlation_id
         ''No halt target for post-consent status''
     | Some target \<Rightarrow>
         act_try
           (act_bind (atomic_transition task_id (task_status_value current_status) (task_status_value target)) (\<lambda>_.
            act_bind (emit_quarantined_event append_event task_id (task_status_value current_status)
              halt_correlation_id transitioned_at) (\<lambda>_.
            act_return \<lparr>tr_task_id = task_id, tr_previous_status = task_status_value current_status,
              tr_new_status = task_status_value target, tr_category = POST_CONSENT,
              tr_transition_type = HALT_QUARANTINED, tr_transitioned_at = transitioned_at,
              tr_halt_correlation_id = halt_correlation_id, tr_error_message = None\<rparr>)))
           (\<lambda>e. if exn_kind e = ConcurrentModificationError then
              act_return \<lparr>tr_task_id = task_id, tr_previous_status = task_status_value current_status,
                tr_new_status = task_status_value current_status, tr_category = POST_CONSENT,
                tr_transition_type = HALT_FAILED, tr_transitioned_at = transitioned_at,
                tr_halt_correlation_id = halt_correlation_id, tr_error_message = Some (exn_str e)\<rparr>
            else act_raise e))"

definition preserve_task ::
  "(governance_event \<Rightarrow> ('l, persisted_event) act) \<Rightarrow> uuid \<Rightarrow> task_status \<Rightarrow> uuid
    \<Rightarrow> ('l world, task_transition_record) act" where
  "preserve_task append_event task_id current_status halt_correlation_id =
     act_bind time_now (\<lambda>transitioned_at.
     act_bind (emit_preserved_event append_event task_id (task_status_value current_status)
       halt_correlation_id transitioned_at) (\<lambda>_.
     act_return \<lparr>tr_task_id = task_id, tr_previous_status = task_status_value current_status,
       tr_new_status = task_status_value current_status, tr_category = TERMINAL,
       tr_transition_type = HALT_PRESERVED, tr_transitioned_at = transitioned_at,
       tr_halt_correlation_id = halt_correlation_id, tr_error_message = None\<rparr>))"

section \<open>All tasks\<close>

record halt_counts =
  hc_nullified :: nat
  hc_quarantined :: nat
  hc_preserved :: nat
  hc_failed :: nat

text \<open>The body of the loop: the record of one task and the counters after it.\<close>

definition halt_one ::
  "(uuid \<Rightarrow> string \<Rightarrow> string \<Rightarrow> ('l world, unit) act) \<Rightarrow> (governance_event \<Rightarrow> ('l, persisted_event) act)
    \<Rightarrow> uuid \<Rightarrow> halt_counts \<Rightarrow> uuid \<Rightarrow> string \<Rightarrow> ('l world, task_transition_record \<times> halt_counts) act" where
  "halt_one atomic_transition append_event halt_correlation_id c task_id current_status_str =
     act_try
       (case parse_task_status current_status_str of
          None \<Rightarrow>
            act_bind (create_failed_record task_id current_status_str halt_correlation_id
              (''Unknown status: '' @ current_status_str)) (\<lambda>record.
            act_return (record, c\<lparr>hc_failed := hc_failed c + 1\<rparr>))
        | Some current_status \<Rightarrow>
            let target_status = get_halt_target current_status in
            (case categorize_task current_status of
               PRE_CONSENT \<Rightarrow>
                 act_bind (nullify_task atomic_transition append_event task_id current_status target_status
                   halt_correlation_id) (\<lambda>record.
                 act_return (record, if is_success record then c\<lparr>hc_nullified := hc_nullified c + 1\<rparr>
                   else c\<lparr>hc_failed := hc_failed c + 1\<rparr>))
             | POST_CONSENT \<Rightarrow>
                 act_bind (quarantine_task atomic_transition append_event task_id current_status target_status
                   halt_correlation_id) (\<lambda>record.
                 act_return (record, if is_success record then c\<lparr>hc_quarantined := hc_quarantined c + 1\<rparr>
                   else c\<lparr>hc_failed := hc_failed c + 1\<rparr>))
             | TERMINAL \<Rightarrow>
                 act_bind (preserve_task append_event task_id current_status halt_correlation_id) (\<lambda>record.
                 act_return (record, c\<lparr>hc_preserved := hc_preserved c + 1\<rparr>))))
       (\<lambda>e. act_bind (create_failed_record task_id current_status_str halt_correlation_id (exn_str e)) (\<lambda>record.
            act_return (record, c\<lparr>hc_failed := hc_failed c + 1\<rparr>)))"

fun halt_loop ::
  "(uuid \<Rightarrow> string \<Rightarrow> string \<Rightarrow> ('l world, unit) act) \<Rightarrow> (governance_event \<Rightarrow> ('l, persisted_event) act)
    \<Rightarrow> uuid \<Rightarrow> halt_counts \<Rightarrow> (uuid \<times> string) list
    \<Rightarrow> ('l world, task_transition_record list \<times> halt_counts) act" where
  "halt_loop atomic_transition append_event halt_correlation_id c [] = act_return ([], c)"
| "halt_loop atomic_transition append_event halt_correlation_id c ((task_id, status) # tasks) =
     act_bind (halt_one atomic_transition append_event halt_correlation_id c task_id status) (\<lambda>(record, c').
     act_bind (halt_loop atomic_transition append_event halt_correlation_id c' tasks) (\<lambda>(records, c'').
     act_return (record # records, c'')))"

definition transition_all_tasks_on_halt ::
  "('l world, (uuid \<times> string) list) act \<Rightarrow> (uuid \<Rightarrow> string \<Rightarrow> string \<Rightarrow> ('l world, unit) act)
    \<Rightarrow> (governance_event \<Rightarrow> ('l, persisted_event) act) \<Rightarrow> (timedelta \<Rightarrow> pyfloat) \<Rightarrow> uuid
    \<Rightarrow> ('l world, halt_transition_result) act" where
  "transition_all_tasks_on_halt get_active_tasks atomic_transition append_event float_ms halt_correlation_id =
     act_bind time_now (\<lambda>triggered_at.
     act_bind get_active_tasks (\<lambda>active_tasks.
     act_bind (halt_loop atomic_transition append_event halt_correlation_id
       \<lparr>hc_nullified = 0, hc_quarantined = 0, hc_preserved = 0, hc_failed = 0\<rparr> active_tasks) (\<lambda>(records, c).
     act_bind time_now (\<lambda>completed_at.
     let result = \<lparr>hr_halt_correlation_id = halt_correlation_id, hr_triggered_at = triggered_at,
           hr_completed_at = completed_at, hr_nullified_count = hc_nullified c,
           hr_quarantined_count = hc_quarantined c, hr_preserved_count = hc_preserved c,
           hr_failed_count = hc_failed c, hr_total_processed = length active_tasks,
           hr_transition_records = records\<rparr>
     in act_bind (emit_transition_summary append_event float_ms result) (\<lambda>_. act_return result)))))"

section \<open>Accounting\<close>

lemma parse_task_status_value [simp]: "parse_task_status (task_status_value st) = Some st"
  by (cases st) (simp_all add: parse_task_status_def enum_task_status_def)

lemma parse_task_status_Some: "parse_task_status s = Some st \<Longrightarrow> s = task_status_value st"
  by (auto simp: parse_task_status_def find_Some_iff)

text \<open>What a record says of its task.\<close>

definition halt_outcome :: "uuid \<Rightarrow> uuid \<times> string \<Rightarrow> task_transition_record \<Rightarrow> bool" where
  "halt_outcome corr = (\<lambda>(i, s) r. tr_task_id r = i \<and> tr_previous_status r = s \<and> tr_halt_correlation_id r = corr \<and>
     (case tr_transition_type r of
        HALT_NULLIFIED \<Rightarrow> (\<exists>st. parse_task_status s = Some st \<and> is_pre_consent st) \<and> tr_new_status r = ''nullified''
      | HALT_QUARANTINED \<Rightarrow> (\<exists>st. parse_task_status s = Some st \<and> is_post_consent st) \<and> tr_new_status r = ''quarantined''
      | HALT_PRESERVED \<Rightarrow> (\<exists>st. parse_task_status s = Some st \<and> is_terminal st) \<and> tr_new_status r = s
      | HALT_FAILED \<Rightarrow> tr_new_status r = s \<and> tr_error_message r \<noteq> None))"

definition bump :: "task_transition_record \<Rightarrow> halt_counts \<Rightarrow> halt_counts" where
  "bump r c = (case tr_transition_type r of
       HALT_NULLIFIED \<Rightarrow> c\<lparr>hc_nullified := hc_nullified c + 1\<rparr>
     | HALT_QUARANTINED \<Rightarrow> c\<lparr>hc_quarantined := hc_quarantined c + 1\<rparr>
     | HALT_PRESERVED \<Rightarrow> c\<lparr>hc_preserved := hc_preserved c + 1\<rparr>
     | HALT_FAILED \<Rightarrow> c\<lparr>hc_failed := hc_failed c + 1\<rparr>)"

lemma halt_targets:
  "is_pre_consent st \<Longrightarrow> get_halt_target st = Some NULLIFIED"
  "is_post_consent st \<Longrightarrow> get_halt_target st = Some QUARANTINED"
  by (cases st; simp add: get_halt_target_def status_category_defs)+

lemma create_failed_record_run:
  "create_failed_record i s corr m w = (Inr \<lparr>tr_task_id = i, tr_previous_status = s, tr_new_status = s,
     tr_category = TERMINAL, tr_transition_type = HALT_FAILED, tr_transitioned_at = w_clock w (w_clock_reads w),
     tr_halt_correlation_id = corr, tr_error_message = Some m\<rparr>, w\<lparr>w_clock_reads := w_clock_reads w + 1\<rparr>)"
  by (simp add: create_failed_record_def act_bind_def)

lemma halt_one_returns:
  "\<exists>r w'. halt_one atomic app corr c i s w = (Inr (r, bump r c), w') \<and> halt_outcome corr (i, s) r"
proof (cases "parse_task_status s")
  case None
  then show ?thesis
    by (simp add: halt_one_def act_bind_def act_try_def create_failed_record_run halt_outcome_def bump_def)
next
  case (Some st)
  note s = parse_task_status_Some [OF Some]
  have cat: "is_pre_consent st \<or> is_post_consent st \<or> is_terminal st" by (rule categories_partition)
  show ?thesis
    using cat categories_partition(1-3) [of st] s halt_targets [of st]
    by (auto simp: halt_one_def categorize_task_def nullify_task_def quarantine_task_def preserve_task_def act_bind_def
        act_try_def create_failed_record_run halt_outcome_def bump_def is_success_def Let_def split: prod.splits sum.splits)
qed

lemma halt_loop_returns:
  "\<exists>rs w'. halt_loop atomic app corr c tasks w = (Inr (rs, fold bump rs c), w') \<and> list_all2 (halt_outcome corr) tasks rs"
proof (induction tasks arbitrary: c w)
  case (Cons t tasks)
  obtain i s where t: "t = (i, s)" by (cases t)
  obtain r w1 where 1: "halt_one atomic app corr c i s w = (Inr (r, bump r c), w1)" "halt_outcome corr (i, s) r"
    using halt_one_returns by blast
  obtain rs w2 where "halt_loop atomic app corr (bump r c) tasks w1 = (Inr (rs, fold bump rs (bump r c)), w2)"
    "list_all2 (halt_outcome corr) tasks rs" using Cons.IH by blast
  then show ?case using 1 t by (auto simp: act_bind_def)
qed simp

definition count_type :: "halt_transition_type \<Rightarrow> task_transition_record list \<Rightarrow> nat" where
  "count_type ty rs = length (filter (\<lambda>r. tr_transition_type r = ty) rs)"

lemma fold_bump:
  "hc_nullified (fold bump rs c) = hc_nullified c + count_type HALT_NULLIFIED rs"
  "hc_quarantined (fold bump rs c) = hc_quarantined c + count_type HALT_QUARANTINED rs"
  "hc_preserved (fold bump rs c) = hc_preserved c + count_type HALT_PRESERVED rs"
  "hc_failed (fold bump rs c) = hc_failed c + count_type HALT_FAILED rs"
  by (induction rs arbitrary: c) (simp_all add: bump_def count_type_def split: halt_transition_type.splits)

lemma count_type_total:
  "count_type HALT_NULLIFIED rs + count_type HALT_QUARANTINED rs + count_type HALT_PRESERVED rs + count_type HALT_FAILED rs =
     length rs"
proof (induction rs)
  case (Cons r rs)
  then show ?case by (cases "tr_transition_type r") (simp_all add: count_type_def)
qed (simp add: count_type_def)

definition no_counts :: halt_counts where
  "no_counts = \<lparr>hc_nullified = 0, hc_quarantined = 0, hc_preserved = 0, hc_failed = 0\<rparr>"

definition halt_result ::
  "uuid \<Rightarrow> datetime \<Rightarrow> datetime \<Rightarrow> (uuid \<times> string) list \<Rightarrow> task_transition_record list \<Rightarrow> halt_transition_result" where
  "halt_result corr triggered_at completed_at active rs = \<lparr>hr_halt_correlation_id = corr,
     hr_triggered_at = triggered_at, hr_completed_at = completed_at, hr_nullified_count = count_type HALT_NULLIFIED rs,
     hr_quarantined_count = count_type HALT_QUARANTINED rs, hr_preserved_count = count_type HALT_PRESERVED rs,
     hr_failed_count = count_type HALT_FAILED rs, hr_total_processed = length active, hr_transition_records = rs\<rparr>"

lemma transition_all_run:
  assumes "get_active (w\<lparr>w_clock_reads := w_clock_reads w + 1\<rparr>) = (Inr active, w1)"
    and "halt_loop atomic app corr no_counts active w1 = (Inr (rs, fold bump rs no_counts), w2)"
  shows "transition_all_tasks_on_halt get_active atomic app float_ms corr w =
    (let result = halt_result corr (w_clock w (w_clock_reads w)) (w_clock w2 (w_clock_reads w2)) active rs in
     case emit_transition_summary app float_ms result (w2\<lparr>w_clock_reads := w_clock_reads w2 + 1\<rparr>) of
       (Inl x, u) \<Rightarrow> (Inl x, u) | (Inr _, u) \<Rightarrow> (Inr result, u))"
  using assms
  by (simp add: transition_all_tasks_on_halt_def act_bind_def Let_def fold_bump halt_result_def no_counts_def
      split: prod.split sum.split)

section \<open>Over a ledger that takes every event\<close>

text \<open>The status a task is driven to.\<close>

definition halt_status :: "string \<Rightarrow> string" where
  "halt_status s = (case parse_task_status s of None \<Rightarrow> s
     | Some st \<Rightarrow> (case get_halt_target st of None \<Rightarrow> s | Some h \<Rightarrow> task_status_value h))"

text \<open>
  The documented behaviour of \<open>atomic_transition\<close>: if the task is in the expected status, it is moved to the
  new one and nothing else is. \<open>status\<close> is what the task store shows.
\<close>

definition lock_law ::
  "(memory_ledger world \<Rightarrow> uuid \<Rightarrow> string option) \<Rightarrow> (uuid \<Rightarrow> string \<Rightarrow> string \<Rightarrow> (memory_ledger world, unit) act) \<Rightarrow> bool" where
  "lock_law status atomic \<longleftrightarrow>
     (\<forall>u u'. w_tasks u = w_tasks u' \<longrightarrow> status u = status u') \<and>
     (\<forall>i from st u. status u i = Some from \<longrightarrow>
        (\<exists>u'. atomic i from (task_status_value st) u = (Inr (), u') \<and>
           status u' = (status u)(i \<mapsto> task_status_value st) \<and> w_ledger u' = w_ledger u))"

lemma lock_lawD:
  assumes "lock_law status atomic"
  shows "w_tasks u = w_tasks u' \<Longrightarrow> status u = status u'"
    "status u i = Some from \<Longrightarrow> \<exists>u'. atomic i from (task_status_value st) u = (Inr (), u') \<and>
       status u' = (status u)(i \<mapsto> task_status_value st) \<and> w_ledger u' = w_ledger u"
  using assms unfolding lock_law_def by blast+

lemma halt_event_types:
  "event_type_pattern ''executive.task.nullified_on_halt''" "event_type_pattern ''executive.task.quarantined_on_halt''"
  "event_type_pattern ''executive.task.preserved_on_halt''"
  "event_type_pattern ''executive.task.halt_transitions_completed''" "\<not> blank ''system''"
  by code_simp+

lemma halt_emits:
  fixes w :: "memory_ledger world"
  assumes "memory_inv (w_ledger w)"
  shows "\<exists>w'. emit_nullified_event memory_append_event i s corr now w = (Inr (), w') \<and> same_tasks w w' \<and> memory_inv (w_ledger w')"
    "\<exists>w'. emit_quarantined_event memory_append_event i s corr now w = (Inr (), w') \<and> same_tasks w w' \<and> memory_inv (w_ledger w')"
    "\<exists>w'. emit_preserved_event memory_append_event i s corr now w = (Inr (), w') \<and> same_tasks w w' \<and> memory_inv (w_ledger w')"
    "\<exists>w'. emit_transition_summary memory_append_event f result w = (Inr (), w') \<and> same_tasks w w' \<and> memory_inv (w_ledger w')"
  using emit_event_run [OF assms halt_event_types(1,5) uuid_str_nonblank]
    emit_event_run [OF assms halt_event_types(2,5) uuid_str_nonblank]
    emit_event_run [OF assms halt_event_types(3,5) uuid_str_nonblank]
    emit_event_run [OF assms halt_event_types(4,5) uuid_str_nonblank]
  unfolding emit_nullified_event_def emit_quarantined_event_def emit_preserved_event_def emit_transition_summary_def
  by blast+

lemma halt_one_memory:
  assumes law: "lock_law status atomic" and inv: "memory_inv (w_ledger w)" and s: "status w i = Some s"
    and st: "parse_task_status s = Some st"
  shows "\<exists>r w'. halt_one atomic memory_append_event corr c i s w = (Inr (r, bump r c), w') \<and>
    tr_transition_type r \<noteq> HALT_FAILED \<and> memory_inv (w_ledger w') \<and> status w' = (status w)(i \<mapsto> halt_status s)"
proof -
  let ?w1 = "w\<lparr>w_clock_reads := w_clock_reads w + 1\<rparr>"
  have frame: "status u = status u'" if "w_tasks u = w_tasks u'" for u u'
    using lock_lawD(1) [OF law that] .
  have s1: "status ?w1 i = Some s" using frame [of ?w1 w] s by simp
  have sv: "s = task_status_value st" by (rule parse_task_status_Some [OF st])
  consider (pre) "is_pre_consent st" | (post) "is_post_consent st" | (final) "is_terminal st"
    using categories_partition(4) by blast
  then show ?thesis
  proof cases
    case pre
    obtain w2 where w2: "atomic i s ''nullified'' ?w1 = (Inr (), w2)" "status w2 = (status ?w1)(i \<mapsto> ''nullified'')"
      "w_ledger w2 = w_ledger w" using lock_lawD(2) [OF law s1, of NULLIFIED] by auto
    then obtain w3 where w3: "emit_nullified_event memory_append_event i s corr (w_clock w (w_clock_reads w)) w2 = (Inr (), w3)"
      "same_tasks w2 w3" "memory_inv (w_ledger w3)" using halt_emits(1) inv by metis
    have "status w3 = (status w)(i \<mapsto> halt_status s)"
      using w2(2) frame [of w3 w2] frame [of ?w1 w] w3(2) st halt_targets(1) [OF pre]
      by (simp add: same_tasks_def halt_status_def)
    then show ?thesis
      using w2(1) w3 st sv pre halt_targets(1) [OF pre]
      by (auto simp: halt_one_def categorize_task_def nullify_task_def act_bind_def act_try_def is_success_def bump_def)
  next
    case post
    have npre: "\<not> is_pre_consent st" using post categories_partition(1) by blast
    obtain w2 where w2: "atomic i s ''quarantined'' ?w1 = (Inr (), w2)" "status w2 = (status ?w1)(i \<mapsto> ''quarantined'')"
      "w_ledger w2 = w_ledger w" using lock_lawD(2) [OF law s1, of QUARANTINED] by auto
    then obtain w3 where w3: "emit_quarantined_event memory_append_event i s corr (w_clock w (w_clock_reads w)) w2 = (Inr (), w3)"
      "same_tasks w2 w3" "memory_inv (w_ledger w3)" using halt_emits(2) inv by metis
    have "status w3 = (status w)(i \<mapsto> halt_status s)"
      using w2(2) frame [of w3 w2] frame [of ?w1 w] w3(2) st halt_targets(2) [OF post]
      by (simp add: same_tasks_def halt_status_def)
    then show ?thesis
      using w2(1) w3 st sv post npre halt_targets(2) [OF post]
      by (auto simp: halt_one_def categorize_task_def quarantine_task_def act_bind_def act_try_def is_success_def bump_def)
  next
    case final
    have n: "\<not> is_pre_consent st" "\<not> is_post_consent st" using final categories_partition(2,3) by blast+
    have none: "get_halt_target st = None" using final by (simp add: get_halt_target_def)
    have "memory_inv (w_ledger ?w1)" using inv by simp
    then obtain w3 where w3: "emit_preserved_event memory_append_event i s corr (w_clock w (w_clock_reads w)) ?w1 = (Inr (), w3)"
      "same_tasks ?w1 w3" "memory_inv (w_ledger w3)" using halt_emits(3) by blast
    have "status w3 = (status w)(i \<mapsto> halt_status s)"
      using frame [of w3 w] w3(2) st none s by (auto simp: same_tasks_def halt_status_def)
    then show ?thesis
      using w3 st sv n by (auto simp: halt_one_def categorize_task_def preserve_task_def act_bind_def act_try_def bump_def)
  qed
qed

lemma halt_loop_memory:
  assumes law: "lock_law status atomic"
  shows "memory_inv (w_ledger w) \<Longrightarrow> distinct (map fst tasks) \<Longrightarrow>
    \<forall>(i, s)\<in>set tasks. status w i = Some s \<and> parse_task_status s \<noteq> None \<Longrightarrow>
    \<exists>rs w'. halt_loop atomic memory_append_event corr c tasks w = (Inr (rs, fold bump rs c), w') \<and>
      count_type HALT_FAILED rs = 0 \<and> memory_inv (w_ledger w') \<and>
      status w' = (\<lambda>i. case map_of tasks i of None \<Rightarrow> status w i | Some s \<Rightarrow> Some (halt_status s))"
proof (induction tasks arbitrary: c w)
  case Nil
  then show ?case by (simp add: count_type_def)
next
  case (Cons t tasks)
  obtain i s where t: "t = (i, s)" by (cases t)
  then obtain st where st: "parse_task_status s = Some st" and s: "status w i = Some s" using Cons.prems(3) by auto
  obtain r w1 where 1: "halt_one atomic memory_append_event corr c i s w = (Inr (r, bump r c), w1)"
    "tr_transition_type r \<noteq> HALT_FAILED" "memory_inv (w_ledger w1)" "status w1 = (status w)(i \<mapsto> halt_status s)"
    using halt_one_memory [OF law Cons.prems(1) s st] by blast
  have rest: "distinct (map fst tasks)" "\<forall>(j, s')\<in>set tasks. status w1 j = Some s' \<and> parse_task_status s' \<noteq> None"
    using Cons.prems(2,3) t 1(4) by (auto simp: rev_image_eqI)
  obtain rs w2 where 2: "halt_loop atomic memory_append_event corr (bump r c) tasks w1 = (Inr (rs, fold bump rs (bump r c)), w2)"
    "count_type HALT_FAILED rs = 0" "memory_inv (w_ledger w2)"
    "status w2 = (\<lambda>i. case map_of tasks i of None \<Rightarrow> status w1 i | Some s \<Rightarrow> Some (halt_status s))"
    using Cons.IH [OF 1(3) rest] by blast
  have "map_of tasks i = None" using Cons.prems(2) t by (simp add: map_of_eq_None_iff)
  then have "status w2 = (\<lambda>j. case map_of (t # tasks) j of None \<Rightarrow> status w j | Some s \<Rightarrow> Some (halt_status s))"
    using 2(4) 1(4) t by (auto split: option.splits)
  moreover have "count_type HALT_FAILED (r # rs) = 0" using 1(2) 2(2) by (simp add: count_type_def)
  ultimately show ?case using 1(1) 2(1,3) t by (auto simp: act_bind_def)
qed

text \<open>A task store with an optimistic lock, for the examples.\<close>

definition store_status :: "'l world \<Rightarrow> uuid \<Rightarrow> string option" where
  "store_status w i = map_option (\<lambda>t. task_status_value (ts_current_status t)) (dict_get (w_tasks w) i)"

definition store_transition :: "uuid \<Rightarrow> string \<Rightarrow> string \<Rightarrow> ('l world, unit) act" where
  "store_transition i from to = (\<lambda>w.
     case (dict_get (w_tasks w) i, parse_task_status to) of
       (Some t, Some st) \<Rightarrow>
         if task_status_value (ts_current_status t) = from then
           (Inr (), w\<lparr>w_tasks := dict_set i (t\<lparr>ts_current_status := st\<rparr>) (w_tasks w)\<rparr>)
         else (Inl (concurrent_modification i from (task_status_value (ts_current_status t))), w)
     | _ \<Rightarrow> (Inl (Exn KeyError (uuid_str i)), w))"

definition store_active :: "('l world, (uuid \<times> string) list) act" where
  "store_active = (\<lambda>w. (Inr (map (\<lambda>(i, t). (i, task_status_value (ts_current_status t)))
     (filter (\<lambda>(i, t). \<not> is_terminal (ts_current_status t)) (w_tasks w))), w))"

lemma store_lock: "lock_law store_status store_transition"
  by (auto simp: lock_law_def store_status_def store_transition_def fun_eq_iff dict_get_set)

lemma store_active_routed:
  "store_active (u\<lparr>w_clock_reads := n\<rparr>) = (Inr [(7, ''routed'')], u\<lparr>w_clock_reads := n\<rparr>)"
  if "w_tasks u = [(7, routed_task)]"
  using that by (simp add: store_active_def routed_task_def is_terminal_def terminal_states_def)

section \<open>Properties\<close>

text \<open>
  C17: the account of a halt is complete, whatever the task store and the ledger answer. If the halt returns,
  there is one record per active task, in order; a record says \<open>nullified\<close> only for a task that was before
  consent, \<open>quarantined\<close> only for one after consent, \<open>preserved\<close> only for a finished one, and a failed one
  names an error; the counters are the numbers of records of each kind and add up to the total.
\<close>

theorem halt_accounting:
  assumes "get_active (w\<lparr>w_clock_reads := w_clock_reads w + 1\<rparr>) = (Inr active, w1)"
    and "transition_all_tasks_on_halt get_active atomic app float_ms corr w = (Inr result, w')"
  shows "list_all2 (halt_outcome corr) active (hr_transition_records result) \<and>
    hr_nullified_count result = count_type HALT_NULLIFIED (hr_transition_records result) \<and>
    hr_quarantined_count result = count_type HALT_QUARANTINED (hr_transition_records result) \<and>
    hr_preserved_count result = count_type HALT_PRESERVED (hr_transition_records result) \<and>
    hr_failed_count result = length (failed_task_ids result) \<and>
    hr_nullified_count result + hr_quarantined_count result + hr_preserved_count result + hr_failed_count result =
      hr_total_processed result \<and> hr_total_processed result = length active"
proof -
  obtain rs w2 where loop: "halt_loop atomic app corr no_counts active w1 = (Inr (rs, fold bump rs no_counts), w2)"
    "list_all2 (halt_outcome corr) active rs" using halt_loop_returns by blast
  have result: "result = halt_result corr (w_clock w (w_clock_reads w)) (w_clock w2 (w_clock_reads w2)) active rs"
    using assms(2) unfolding transition_all_run [where get_active = get_active and w = w, OF assms(1) loop(1)] by (simp add: Let_def split: prod.splits sum.splits)
  have "length (failed_task_ids result) = count_type HALT_FAILED rs"
    by (simp add: failed_task_ids_def count_type_def is_success_def result halt_result_def)
  then show ?thesis
    using loop(2) count_type_total [of rs] list_all2_lengthD [OF loop(2)] by (simp add: result halt_result_def)
qed

theorem halt_accounting_witness:
  "\<exists>result w'. transition_all_tasks_on_halt store_active store_transition memory_append_event (\<lambda>_. FloatNaN) 3
     (routed_world 5) = (Inr result, w') \<and> hr_total_processed result = 1 \<and>
     list_all2 (halt_outcome 3) [(7, ''routed'')] (hr_transition_records result)"
proof -
  let ?w = "routed_world 5" and ?w1 = "(routed_world 5)\<lparr>w_clock_reads := w_clock_reads (routed_world 5) + 1\<rparr>"
  have active: "store_active ?w1 = (Inr [(7, ''routed'')], ?w1)"
    by (rule store_active_routed) (simp add: routed_world_def example_world_def)
  have inv: "memory_inv (w_ledger ?w1)" using routed_world_ok(1) by simp
  have status: "store_status ?w1 7 = Some ''routed''"
    by (simp add: store_status_def routed_world_def example_world_def dict_get_def routed_task_def)
  have parse: "parse_task_status ''routed'' = Some ROUTED" using parse_task_status_value [of ROUTED] by simp
  obtain rs w2 where loop: "halt_loop store_transition memory_append_event 3 no_counts [(7, ''routed'')] ?w1 =
      (Inr (rs, fold bump rs no_counts), w2)" "memory_inv (w_ledger w2)"
    using halt_loop_memory [OF store_lock inv, of "[(7, ''routed'')]" 3 no_counts] status parse by auto
  let ?r = "halt_result 3 (w_clock ?w (w_clock_reads ?w)) (w_clock w2 (w_clock_reads w2)) [(7, ''routed'')] rs"
  have "memory_inv (w_ledger (w2\<lparr>w_clock_reads := w_clock_reads w2 + 1\<rparr>))" using loop(2) by simp
  then obtain w3 where "emit_transition_summary memory_append_event (\<lambda>_. FloatNaN) ?r (w2\<lparr>w_clock_reads := w_clock_reads w2 + 1\<rparr>) =
      (Inr (), w3)" using halt_emits(4) by blast
  then have run: "transition_all_tasks_on_halt store_active store_transition memory_append_event (\<lambda>_. FloatNaN) 3 ?w = (Inr ?r, w3)"
    unfolding transition_all_run [where get_active = store_active and w = ?w, OF active loop(1)] by (simp add: Let_def)
  from halt_accounting [where get_active = store_active and w = ?w, OF active run] run show ?thesis by auto
qed

text \<open>
  C18: over the in-memory ledger, with a store whose \<open>atomic_transition\<close> moves a task that is in the expected
  status, a halt drives every active task to its halt target (\<open>nullified\<close> before consent, \<open>quarantined\<close> after
  it), touches no other task, and reports complete success.
\<close>

theorem halt_reaches_targets:
  assumes "lock_law status atomic" and "get_active (w\<lparr>w_clock_reads := w_clock_reads w + 1\<rparr>) = (Inr active, w1)"
    and "memory_inv (w_ledger w1)" and "distinct (map fst active)"
    and "\<forall>(i, s)\<in>set active. status w1 i = Some s \<and> parse_task_status s \<noteq> None"
  shows "\<exists>result w'. transition_all_tasks_on_halt get_active atomic memory_append_event float_ms corr w = (Inr result, w') \<and>
    is_complete_success result \<and> hr_total_processed result = length active \<and>
    status w' = (\<lambda>i. case map_of active i of None \<Rightarrow> status w1 i | Some s \<Rightarrow> Some (halt_status s))"
proof -
  obtain rs w2 where loop: "halt_loop atomic memory_append_event corr no_counts active w1 = (Inr (rs, fold bump rs no_counts), w2)"
    "count_type HALT_FAILED rs = 0" "memory_inv (w_ledger w2)"
    "status w2 = (\<lambda>i. case map_of active i of None \<Rightarrow> status w1 i | Some s \<Rightarrow> Some (halt_status s))"
    using halt_loop_memory [OF assms(1,3-5)] by blast
  let ?w3 = "w2\<lparr>w_clock_reads := w_clock_reads w2 + 1\<rparr>"
  let ?r = "halt_result corr (w_clock w (w_clock_reads w)) (w_clock w2 (w_clock_reads w2)) active rs"
  have "memory_inv (w_ledger ?w3)" using loop(3) by simp
  then obtain w4 where emit: "emit_transition_summary memory_append_event float_ms ?r ?w3 = (Inr (), w4)" "same_tasks ?w3 w4"
    using halt_emits(4) by blast
  have "w_tasks w4 = w_tasks w2" using emit(2) by (simp add: same_tasks_def)
  then have "status w4 = status w2" by (rule lock_lawD(1) [OF assms(1)])
  moreover have "transition_all_tasks_on_halt get_active atomic memory_append_event float_ms corr w = (Inr ?r, w4)"
    unfolding transition_all_run [where get_active = get_active and w = w, OF assms(2) loop(1)] Let_def emit(1) by simp
  ultimately show ?thesis using loop(2,4) by (simp add: is_complete_success_def halt_result_def)
qed

theorem halt_reaches_targets_witness:
  "\<exists>result w'. transition_all_tasks_on_halt store_active store_transition memory_append_event (\<lambda>_. FloatNaN) 3
     (routed_world 5) = (Inr result, w') \<and> is_complete_success result \<and> store_status w' 7 = Some ''nullified''"
proof -
  let ?w = "routed_world 5" and ?w1 = "(routed_world 5)\<lparr>w_clock_reads := w_clock_reads (routed_world 5) + 1\<rparr>"
  have active: "store_active ?w1 = (Inr [(7, ''routed'')], ?w1)"
    by (rule store_active_routed) (simp add: routed_world_def example_world_def)
  have inv: "memory_inv (w_ledger ?w1)" using routed_world_ok(1) by simp
  have parse: "parse_task_status ''routed'' = Some ROUTED" using parse_task_status_value [of ROUTED] by simp
  have status: "\<forall>(i, s)\<in>set [(7, ''routed'')]. store_status ?w1 i = Some s \<and> parse_task_status s \<noteq> None"
    using parse by (simp add: store_status_def routed_world_def example_world_def dict_get_def routed_task_def)
  have target: "halt_status ''routed'' = ''nullified''"
    by (simp add: halt_status_def parse get_halt_target_def status_category_defs)
  show ?thesis
    using halt_reaches_targets [where get_active = store_active and w = ?w, OF store_lock active inv _ status, of "\<lambda>_. FloatNaN" 3] target by auto
qed

text \<open>
  Under the strict vocabulary a halt cannot be reported: the type of the summary event is not in the
  vocabulary, so \<open>transition_all_tasks_on_halt\<close> raises \<open>UnknownEventTypeError\<close> after all tasks have been
  handled, whatever the task store does.
\<close>

theorem strict_vocabulary_breaks_halt:
  assumes "vs_event_type vs = mk_event_type_validator True suggest []"
    and "get_active (w\<lparr>w_clock_reads := w_clock_reads w + 1\<rparr>) = (Inr active, w1)"
  shows "\<exists>x w'. transition_all_tasks_on_halt get_active atomic (validated_append_event vs get_latest base) float_ms corr w =
      (Inl x, w') \<and> exn_kind x = UnknownEventTypeError"
proof -
  let ?app = "validated_append_event vs get_latest base"
  obtain rs w2 where loop: "halt_loop atomic ?app corr no_counts active w1 = (Inr (rs, fold bump rs no_counts), w2)"
    using halt_loop_returns by blast
  have unknown: "''executive.task.halt_transitions_completed'' \<notin> set governance_event_types" by code_simp
  have "\<exists>x w'. emit_transition_summary ?app float_ms result u = (Inl x, w') \<and> exn_kind x = UnknownEventTypeError"
    for result and u :: "'a world"
  proof -
    let ?e = "\<lparr>ge_metadata = \<lparr>em_event_id = w_uuid u (w_uuid_draws u),
      em_event_type = ''executive.task.halt_transitions_completed'', em_timestamp = hr_completed_at result,
      em_actor_id = ''system'', em_schema_version = current_schema_version,
      em_trace_id = uuid_str (hr_halt_correlation_id result), em_prev_hash = [], em_hash = []\<rparr>,
      ge_payload = halt_result_to_dict float_ms result\<rparr>"
    obtain x where "exn_kind x = UnknownEventTypeError" "?app ?e (w_ledger u) = (Inl x, w_ledger u)"
      using strict_vocabulary_refuses [OF assms(1), of ?e get_latest base "w_ledger u"] unknown
      by (auto simp: ge_accessors)
    then show ?thesis
      by (simp add: emit_transition_summary_def emit_event_def act_bind_def on_ledger_def
          governance_event_create_ok [OF halt_event_types(4,5) uuid_str_nonblank])
  qed
  then obtain x u where "emit_transition_summary ?app float_ms
      (halt_result corr (w_clock w (w_clock_reads w)) (w_clock w2 (w_clock_reads w2)) active rs)
      (w2\<lparr>w_clock_reads := w_clock_reads w2 + 1\<rparr>) = (Inl x, u)" "exn_kind x = UnknownEventTypeError"
    by blast
  then show ?thesis unfolding transition_all_run [where get_active = get_active and w = w, OF assms(2) loop] by (simp add: Let_def)
qed

theorem strict_vocabulary_breaks_halt_witness:
  "\<exists>x w'. transition_all_tasks_on_halt store_active store_transition
       (validated_append_event example_validation example_latest memory_append_event) (\<lambda>_. FloatNaN) 3 (routed_world 5) =
     (Inl x, w') \<and> exn_kind x = UnknownEventTypeError"
proof -
  let ?w = "routed_world 5" and ?w1 = "(routed_world 5)\<lparr>w_clock_reads := w_clock_reads (routed_world 5) + 1\<rparr>"
  have active: "store_active ?w1 = (Inr [(7, ''routed'')], ?w1)"
    by (rule store_active_routed) (simp add: routed_world_def example_world_def)
  have v: "vs_event_type example_validation = mk_event_type_validator True True []" by (simp add: example_validation_def)
  show ?thesis by (rule strict_vocabulary_breaks_halt [where get_active = store_active and w = ?w, OF v active])
qed

end
