(* ===== verification/Legitimacy.thy ===== *)
theory Legitimacy
  imports Event_Envelope
begin

text \<open>
  Legitimacy of the system: the five bands and their transition rules
  (\<open>src/domain/governance/legitimacy/\<close>), automatic decay
  (\<open>src/application/services/governance/legitimacy_decay_service.py\<close>, reached through
  \<open>violation_event_subscriber.py\<close>) and acknowledged restoration (\<open>legitimacy_restoration_service.py\<close>).

  The ports the two services are given have no implementation in the repository; they are the fields of
  the record \<open>legitimacy_ports\<close>, over an arbitrary state.
\<close>

section \<open>Bands\<close>

datatype legitimacy_band = STABLE | STRAINED | ERODING | COMPROMISED | FAILED

fun band_value :: "legitimacy_band \<Rightarrow> string" where
  "band_value STABLE = ''stable''"
| "band_value STRAINED = ''strained''"
| "band_value ERODING = ''eroding''"
| "band_value COMPROMISED = ''compromised''"
| "band_value FAILED = ''failed''"

fun severity :: "legitimacy_band \<Rightarrow> int" where
  "severity STABLE = 0"
| "severity STRAINED = 1"
| "severity ERODING = 2"
| "severity COMPROMISED = 3"
| "severity FAILED = 4"

definition band_is_terminal :: "legitimacy_band \<Rightarrow> bool" where
  "band_is_terminal b \<longleftrightarrow> b = FAILED"

definition band_is_healthy :: "legitimacy_band \<Rightarrow> bool" where
  "band_is_healthy b \<longleftrightarrow> b \<in> {STABLE, STRAINED}"

definition band_is_critical :: "legitimacy_band \<Rightarrow> bool" where
  "band_is_critical b \<longleftrightarrow> b \<in> {COMPROMISED, FAILED}"

definition can_transition_to :: "legitimacy_band \<Rightarrow> legitimacy_band \<Rightarrow> bool" where
  "can_transition_to b target \<longleftrightarrow>
     (if b = FAILED then False
      else if target = b then False
      else if severity target > severity b then True
      else severity target = severity b - 1)"

definition all_bands :: "legitimacy_band list" where
  "all_bands = [STABLE, STRAINED, ERODING, COMPROMISED, FAILED]"

definition from_severity :: "int \<Rightarrow> exn + legitimacy_band" where
  "from_severity n =
     (case find (\<lambda>b. severity b = n) all_bands of
        Some b \<Rightarrow> Inr b
      | None \<Rightarrow> Inl (Exn ValueError (''Invalid severity level: '' @ show_int n @ ''. Must be 0-4.'')))"

text \<open>The comparison operators of the class.\<close>

instantiation legitimacy_band :: linorder
begin

definition less_eq_legitimacy_band :: "legitimacy_band \<Rightarrow> legitimacy_band \<Rightarrow> bool" where
  "less_eq_legitimacy_band a b \<longleftrightarrow> severity a \<le> severity b"

definition less_legitimacy_band :: "legitimacy_band \<Rightarrow> legitimacy_band \<Rightarrow> bool" where
  "less_legitimacy_band a b \<longleftrightarrow> severity a < severity b"

instance
proof
  fix a b c :: legitimacy_band
  show "a < b \<longleftrightarrow> a \<le> b \<and> \<not> b \<le> a" by (auto simp: less_eq_legitimacy_band_def less_legitimacy_band_def)
  show "a \<le> a" by (simp add: less_eq_legitimacy_band_def)
  show "a \<le> b \<Longrightarrow> b \<le> c \<Longrightarrow> a \<le> c" by (simp add: less_eq_legitimacy_band_def)
  show "a \<le> b \<Longrightarrow> b \<le> a \<Longrightarrow> a = b" by (cases a; cases b) (simp_all add: less_eq_legitimacy_band_def)
  show "a \<le> b \<or> b \<le> a" by (auto simp: less_eq_legitimacy_band_def)
qed

end

section \<open>Transition rules\<close>

datatype transition_type = AUTOMATIC | ACKNOWLEDGED

record transition_validation =
  tv_is_valid :: bool
  tv_reason :: "string option"

definition tv_valid :: transition_validation where
  "tv_valid = \<lparr>tv_is_valid = True, tv_reason = None\<rparr>"

definition tv_invalid :: "string \<Rightarrow> transition_validation" where
  "tv_invalid reason = \<lparr>tv_is_valid = False, tv_reason = Some reason\<rparr>"

definition validate_transition ::
  "legitimacy_band \<Rightarrow> legitimacy_band \<Rightarrow> transition_type \<Rightarrow> transition_validation" where
  "validate_transition current target ty =
     (if current = FAILED then tv_invalid ''FAILED is terminal - reconstitution required''
      else if current = target then tv_invalid ''Already at target band''
      else if severity target > severity current then tv_valid
      else if severity target < severity current then
        (if ty \<noteq> ACKNOWLEDGED then tv_invalid ''Upward transition requires acknowledgment''
         else if severity target \<noteq> severity current - 1 then
           tv_invalid ''Upward transition must be one step at a time''
         else tv_valid)
      else tv_invalid ''Invalid transition'')"

definition is_decay :: "legitimacy_band \<Rightarrow> legitimacy_band \<Rightarrow> bool" where
  "is_decay current target \<longleftrightarrow> severity target > severity current"

definition is_restoration :: "legitimacy_band \<Rightarrow> legitimacy_band \<Rightarrow> bool" where
  "is_restoration current target \<longleftrightarrow> severity target < severity current"

definition get_next_restoration_target :: "legitimacy_band \<Rightarrow> exn + legitimacy_band option" where
  "get_next_restoration_target current =
     (if current = STABLE then Inr None
      else if current = FAILED then Inr None
      else case from_severity (severity current - 1) of Inl e \<Rightarrow> Inl e | Inr b \<Rightarrow> Inr (Some b))"

definition calculate_decay_target :: "legitimacy_band \<Rightarrow> int \<Rightarrow> exn + legitimacy_band" where
  "calculate_decay_target current severity_increase =
     (if current = FAILED then Inl (Exn ValueError ''Cannot decay from FAILED'')
      else if severity_increase < 1 then Inl (Exn ValueError ''severity_increase must be at least 1'')
      else from_severity (min (severity current + severity_increase) 4))"

section \<open>State and transition records\<close>

record legitimacy_state =
  ls_current_band :: legitimacy_band
  ls_entered_at :: datetime
  ls_violation_count :: int
  ls_last_triggering_event_id :: "uuid option"
  ls_last_transition_type :: transition_type

definition mk_legitimacy_state :: "legitimacy_state \<Rightarrow> exn + legitimacy_state" where
  "mk_legitimacy_state s =
     (if ls_violation_count s < 0 then Inl (Exn ValueError ''violation_count cannot be negative'') else Inr s)"

definition with_new_band ::
  "legitimacy_state \<Rightarrow> legitimacy_band \<Rightarrow> datetime \<Rightarrow> uuid option \<Rightarrow> transition_type \<Rightarrow> bool \<Rightarrow> exn + legitimacy_state" where
  "with_new_band s new_band entered_at triggering_event_id ty increment_violations =
     mk_legitimacy_state \<lparr>ls_current_band = new_band, ls_entered_at = entered_at,
       ls_violation_count = (if increment_violations then ls_violation_count s + 1 else ls_violation_count s),
       ls_last_triggering_event_id = triggering_event_id, ls_last_transition_type = ty\<rparr>"

definition initial_legitimacy_state :: "datetime \<Rightarrow> legitimacy_state" where
  "initial_legitimacy_state entered_at = \<lparr>ls_current_band = STABLE, ls_entered_at = entered_at,
     ls_violation_count = 0, ls_last_triggering_event_id = None, ls_last_transition_type = AUTOMATIC\<rparr>"

record legitimacy_transition =
  lt_transition_id :: uuid
  lt_from_band :: legitimacy_band
  lt_to_band :: legitimacy_band
  lt_transition_type :: transition_type
  lt_actor :: string
  lt_triggering_event_id :: "uuid option"
  lt_acknowledgment_id :: "uuid option"
  lt_timestamp :: datetime
  lt_reason :: string

definition mk_legitimacy_transition :: "legitimacy_transition \<Rightarrow> exn + legitimacy_transition" where
  "mk_legitimacy_transition t =
     (if lt_transition_type t = AUTOMATIC \<and> lt_triggering_event_id t = None then
        Inl (Exn ValueError ''Automatic transitions must have triggering_event_id'')
      else if lt_transition_type t = ACKNOWLEDGED \<and> lt_acknowledgment_id t = None then
        Inl (Exn ValueError ''Acknowledged transitions must have acknowledgment_id'')
      else if blank (lt_reason t) then Inl (Exn ValueError ''Transition must have a reason'')
      else if lt_from_band t = lt_to_band t then Inl (Exn ValueError ''Transition must change bands'')
      else Inr t)"

definition lt_severity_change :: "legitimacy_transition \<Rightarrow> int" where
  "lt_severity_change t = severity (lt_to_band t) - severity (lt_from_band t)"

definition crossed_critical_threshold :: "legitimacy_transition \<Rightarrow> bool" where
  "crossed_critical_threshold t \<longleftrightarrow> band_is_critical (lt_from_band t) \<noteq> band_is_critical (lt_to_band t)"

section \<open>Severity of violations\<close>

datatype violation_severity = MINOR | MAJOR | CRITICAL | INTEGRITY

fun violation_severity_value :: "violation_severity \<Rightarrow> string" where
  "violation_severity_value MINOR = ''minor''"
| "violation_severity_value MAJOR = ''major''"
| "violation_severity_value CRITICAL = ''critical''"
| "violation_severity_value INTEGRITY = ''integrity''"

definition bands_to_drop :: "violation_severity \<Rightarrow> int" where
  "bands_to_drop v = (if v = MINOR then 1 else if v = MAJOR then 2 else 0)"

definition violation_severity_map :: "(string \<times> violation_severity) list" where
  "violation_severity_map = [
     (''task.timeout_without_decline'', MINOR), (''task.reminder_at_90_percent'', MINOR),
     (''advisory.acknowledgment_timeout'', MINOR),
     (''coercion.filter_blocked'', MAJOR), (''consent.bypass_detected'', MAJOR),
     (''role.constraint_violated'', MAJOR),
     (''coercion.multiple_concurrent'', CRITICAL), (''task.unauthorized_creation'', CRITICAL),
     (''panel.finding_ignored'', CRITICAL),
     (''chain.discontinuity'', INTEGRITY), (''event.tampering_detected'', INTEGRITY),
     (''witness.signature_invalid'', INTEGRITY)]"

definition get_severity_for_violation :: "string \<Rightarrow> violation_severity" where
  "get_severity_for_violation violation_type =
     (case map_of violation_severity_map violation_type of None \<Rightarrow> MINOR | Some v \<Rightarrow> v)"

definition calculate_target_band :: "legitimacy_band \<Rightarrow> violation_severity \<Rightarrow> exn + legitimacy_band" where
  "calculate_target_band current_band v =
     (if v = INTEGRITY then Inr FAILED
      else if v = CRITICAL then
        (if severity current_band \<ge> severity COMPROMISED then Inr current_band else Inr COMPROMISED)
      else from_severity (min (severity current_band + bands_to_drop v) (severity FAILED)))"

section \<open>Decay\<close>

record 's legitimacy_ports =
  lp_get_legitimacy_state :: "('s, legitimacy_state) act"
  lp_get_transition_history :: "datetime option \<Rightarrow> nat option \<Rightarrow> ('s, legitimacy_transition list) act"
  lp_record_transition :: "legitimacy_transition \<Rightarrow> ('s, unit) act"
  lp_has_permission :: "uuid \<Rightarrow> string \<Rightarrow> ('s, bool) act"
  lp_emit :: "string \<Rightarrow> string \<Rightarrow> payload \<Rightarrow> ('s, unit) act"
  lp_now :: "('s, datetime) act"
  lp_uuid4 :: "('s, uuid) act"

record decay_result =
  dr_transition_occurred :: bool
  dr_new_state :: legitimacy_state
  dr_violation_event_id :: uuid
  dr_severity :: violation_severity
  dr_bands_dropped :: int

definition no_decay :: "legitimacy_state \<Rightarrow> uuid \<Rightarrow> violation_severity \<Rightarrow> decay_result" where
  "no_decay current_state violation_event_id v = \<lparr>dr_transition_occurred = False, dr_new_state = current_state,
     dr_violation_event_id = violation_event_id, dr_severity = v, dr_bands_dropped = 0\<rparr>"

definition process_violation :: "'s legitimacy_ports \<Rightarrow> uuid \<Rightarrow> string \<Rightarrow> ('s, decay_result) act" where
  "process_violation ports violation_event_id violation_type =
     act_bind (lp_get_legitimacy_state ports) (\<lambda>current_state.
     let current_band = ls_current_band current_state; v = get_severity_for_violation violation_type in
     if current_band = FAILED then act_return (no_decay current_state violation_event_id v)
     else
       act_bind (act_lift (calculate_target_band current_band v)) (\<lambda>target_band.
       if target_band = current_band then act_return (no_decay current_state violation_event_id v)
       else
         act_bind (lp_now ports) (\<lambda>now.
         act_bind (lp_uuid4 ports) (\<lambda>transition_id.
         act_bind (act_lift (mk_legitimacy_transition \<lparr>lt_transition_id = transition_id,
           lt_from_band = current_band, lt_to_band = target_band, lt_transition_type = AUTOMATIC,
           lt_actor = ''system'', lt_triggering_event_id = Some violation_event_id,
           lt_acknowledgment_id = None, lt_timestamp = now, lt_reason = ''Violation: '' @ violation_type\<rparr>)) (\<lambda>transition.
         act_bind (lp_record_transition ports transition) (\<lambda>_.
         act_bind (lp_get_legitimacy_state ports) (\<lambda>new_state.
         act_bind (lp_emit ports ''constitutional.legitimacy.band_decreased'' ''system''
           [(''from_band'', PyStr (band_value current_band)), (''to_band'', PyStr (band_value target_band)),
            (''severity'', PyStr (violation_severity_value v)), (''violation_type'', PyStr violation_type),
            (''violation_event_id'', PyStr (uuid_str violation_event_id)),
            (''violation_count'', PyInt (ls_violation_count new_state)),
            (''transitioned_at'', PyStr (isoformat now))]) (\<lambda>_.
         act_return \<lparr>dr_transition_occurred = True, dr_new_state = new_state,
           dr_violation_event_id = violation_event_id, dr_severity = v,
           dr_bands_dropped = severity target_band - severity current_band\<rparr>))))))))"

text \<open>\<open>if limit:\<close> treats 0 as no limit.\<close>

definition limited :: "nat option \<Rightarrow> 'a list \<Rightarrow> 'a list" where
  "limited limit xs = (case limit of None \<Rightarrow> xs | Some n \<Rightarrow> if n = 0 then xs else take n xs)"

definition get_decay_history ::
  "'s legitimacy_ports \<Rightarrow> datetime option \<Rightarrow> nat option \<Rightarrow> ('s, legitimacy_transition list) act" where
  "get_decay_history ports since limit =
     act_bind (lp_get_transition_history ports since None) (\<lambda>all_transitions.
     act_return (limited limit (filter (\<lambda>t. lt_transition_type t = AUTOMATIC) all_transitions)))"

definition get_decay_count :: "'s legitimacy_ports \<Rightarrow> ('s, nat) act" where
  "get_decay_count ports = act_bind (get_decay_history ports None None) (\<lambda>history. act_return (length history))"

text \<open>\<open>ViolationEventSubscriber._handle_event\<close>, for payloads whose violation type is a string.\<close>

definition handle_violation_event :: "'s legitimacy_ports \<Rightarrow> uuid \<Rightarrow> string option \<Rightarrow> ('s, unit) act" where
  "handle_violation_event ports event_id violation_type =
     act_bind (process_violation ports event_id
       (case violation_type of None \<Rightarrow> ''unknown'' | Some v \<Rightarrow> v)) (\<lambda>_. act_return ())"

section \<open>Restoration\<close>

record restoration_acknowledgment =
  ra_acknowledgment_id :: uuid
  ra_operator_id :: uuid
  ra_from_band :: legitimacy_band
  ra_to_band :: legitimacy_band
  ra_reason :: string
  ra_evidence :: string
  ra_acknowledged_at :: datetime

text \<open>The arrow of the messages, by its UTF-8 bytes.\<close>

definition arrow :: string where
  "arrow = [CHR '' '', CHR 0xE2, CHR 0x86, CHR 0x92, CHR '' '']"

definition not_upward :: "legitimacy_band \<Rightarrow> legitimacy_band \<Rightarrow> string" where
  "not_upward from_band to_band = ''Restoration must be upward: '' @ band_value from_band @ arrow @
     band_value to_band @ '' (severity '' @ show_int (severity from_band) @ arrow @
     show_int (severity to_band) @ '')''"

definition mk_restoration_acknowledgment :: "restoration_acknowledgment \<Rightarrow> exn + restoration_acknowledgment" where
  "mk_restoration_acknowledgment a =
     (if blank (ra_reason a) then Inl (Exn ValueError ''Reason is required for restoration acknowledgment'')
      else if blank (ra_evidence a) then Inl (Exn ValueError ''Evidence is required for restoration acknowledgment'')
      else if severity (ra_to_band a) \<ge> severity (ra_from_band a) then
        Inl (Exn ValueError (not_upward (ra_from_band a) (ra_to_band a)))
      else Inr a)"

record restoration_request =
  rq_operator_id :: uuid
  rq_target_band :: legitimacy_band
  rq_reason :: string
  rq_evidence :: string

definition mk_restoration_request :: "restoration_request \<Rightarrow> exn + restoration_request" where
  "mk_restoration_request r =
     (if blank (rq_reason r) then Inl (Exn ValueError ''Reason is required for restoration request'')
      else if blank (rq_evidence r) then Inl (Exn ValueError ''Evidence is required for restoration request'')
      else Inr r)"

datatype restoration_result =
  RestorationSucceeded legitimacy_state restoration_acknowledgment | RestorationFailed string

text \<open>The service keeps its acknowledgments beside the state of the ports.\<close>

type_synonym 's restoration_world = "'s \<times> (uuid, restoration_acknowledgment) dict"

definition on_ports :: "('s, 'a) act \<Rightarrow> ('s restoration_world, 'a) act" where
  "on_ports m = (\<lambda>(s, acks). case m s of (r, s') \<Rightarrow> (r, (s', acks)))"

definition verify_restoration_permission :: "'s legitimacy_ports \<Rightarrow> uuid \<Rightarrow> ('s restoration_world, bool) act" where
  "verify_restoration_permission ports operator_id =
     on_ports (act_bind (lp_has_permission ports operator_id ''restore_legitimacy'') (\<lambda>has_permission.
     if \<not> has_permission then
       act_bind (lp_now ports) (\<lambda>now.
       act_bind (lp_emit ports ''security.unauthorized_restoration_attempt'' (uuid_str operator_id)
         [(''attempted_action'', PyStr ''restore_legitimacy''), (''attempted_at'', PyStr (isoformat now))]) (\<lambda>_.
       act_return has_permission))
     else act_return has_permission))"

definition record_acknowledgment ::
  "'s legitimacy_ports \<Rightarrow> restoration_acknowledgment \<Rightarrow> ('s restoration_world, unit) act" where
  "record_acknowledgment ports a =
     act_bind (\<lambda>(s, acks). (Inr (), (s, dict_set (ra_acknowledgment_id a) a acks))) (\<lambda>_.
     on_ports (lp_emit ports ''constitutional.legitimacy.restoration_acknowledged'' (uuid_str (ra_operator_id a))
       [(''acknowledgment_id'', PyStr (uuid_str (ra_acknowledgment_id a))),
        (''from_band'', PyStr (band_value (ra_from_band a))), (''to_band'', PyStr (band_value (ra_to_band a))),
        (''reason'', PyStr (ra_reason a)), (''evidence'', PyStr (ra_evidence a)),
        (''acknowledged_at'', PyStr (isoformat (ra_acknowledged_at a)))]))"

definition request_restoration ::
  "'s legitimacy_ports \<Rightarrow> restoration_request \<Rightarrow> ('s restoration_world, restoration_result) act" where
  "request_restoration ports request =
     act_bind (verify_restoration_permission ports (rq_operator_id request)) (\<lambda>is_authorized.
     if \<not> is_authorized then act_return (RestorationFailed ''Operator not authorized to restore legitimacy'')
     else
       act_bind (on_ports (lp_get_legitimacy_state ports)) (\<lambda>current_state.
       let current_band = ls_current_band current_state; target_band = rq_target_band request in
       if current_band = FAILED then act_return (RestorationFailed ''FAILED is terminal - reconstitution required'')
       else if severity target_band \<ge> severity current_band then
         act_return (RestorationFailed (not_upward current_band target_band))
       else if severity current_band - severity target_band \<noteq> 1 then
         act_bind (act_lift (from_severity (severity current_band - 1))) (\<lambda>allowed.
         act_return (RestorationFailed
           (''Restoration must be one step at a time. '' @
            ''Current: '' @ band_value current_band @ '' (severity '' @ show_int (severity current_band) @ ''), '' @
            ''Target: '' @ band_value target_band @ '' (severity '' @ show_int (severity target_band) @ ''). '' @
            ''Allowed target: '' @ band_value allowed)))
       else
         act_bind (on_ports (lp_now ports)) (\<lambda>now.
         act_bind (on_ports (lp_uuid4 ports)) (\<lambda>acknowledgment_id.
         act_bind (act_lift (mk_restoration_acknowledgment \<lparr>ra_acknowledgment_id = acknowledgment_id,
           ra_operator_id = rq_operator_id request, ra_from_band = current_band, ra_to_band = target_band,
           ra_reason = rq_reason request, ra_evidence = rq_evidence request, ra_acknowledged_at = now\<rparr>)) (\<lambda>acknowledgment.
         act_bind (record_acknowledgment ports acknowledgment) (\<lambda>_.
         act_bind (on_ports (lp_uuid4 ports)) (\<lambda>transition_id.
         act_bind (act_lift (mk_legitimacy_transition \<lparr>lt_transition_id = transition_id,
           lt_from_band = current_band, lt_to_band = target_band, lt_transition_type = ACKNOWLEDGED,
           lt_actor = uuid_str (rq_operator_id request), lt_triggering_event_id = None,
           lt_acknowledgment_id = Some acknowledgment_id, lt_timestamp = now, lt_reason = rq_reason request\<rparr>)) (\<lambda>transition.
         act_bind (on_ports (lp_record_transition ports transition)) (\<lambda>_.
         act_bind (on_ports (lp_get_legitimacy_state ports)) (\<lambda>new_state.
         act_bind (on_ports (lp_emit ports ''constitutional.legitimacy.band_increased''
           (uuid_str (rq_operator_id request))
           [(''from_band'', PyStr (band_value current_band)), (''to_band'', PyStr (band_value target_band)),
            (''operator_id'', PyStr (uuid_str (rq_operator_id request))),
            (''acknowledgment_id'', PyStr (uuid_str acknowledgment_id)),
            (''reason'', PyStr (rq_reason request)), (''restored_at'', PyStr (isoformat now))])) (\<lambda>_.
         act_return (RestorationSucceeded new_state acknowledgment))))))))))))"

definition get_restoration_history ::
  "datetime option \<Rightarrow> nat option \<Rightarrow> 's restoration_world \<Rightarrow> restoration_acknowledgment list" where
  "get_restoration_history since limit w =
     (let acknowledgments = map snd (snd w);
          recent = (case since of None \<Rightarrow> acknowledgments
            | Some d \<Rightarrow> filter (\<lambda>a. ra_acknowledged_at a > d) acknowledgments)
      in limited limit (sort_key ra_acknowledged_at recent))"

definition get_acknowledgment :: "uuid \<Rightarrow> 's restoration_world \<Rightarrow> restoration_acknowledgment option" where
  "get_acknowledgment acknowledgment_id w = dict_get (snd w) acknowledgment_id"

definition get_restoration_count :: "'s restoration_world \<Rightarrow> nat" where
  "get_restoration_count w = length (snd w)"

section \<open>Facts about bands\<close>

lemma severity_inject: "severity a = severity b \<longleftrightarrow> a = b"
  by (cases a; cases b) simp_all

lemma from_severity_severity [simp]: "from_severity (severity b) = Inr b"
  by (cases b) (simp_all add: from_severity_def all_bands_def)

lemma severity_range: "0 \<le> severity b \<and> severity b \<le> 4"
  by (cases b) simp_all

lemma from_severity_Inr: "from_severity n = Inr b \<longleftrightarrow> severity b = n"
proof
  assume "from_severity n = Inr b"
  then show "severity b = n" by (simp add: from_severity_def all_bands_def split: if_splits)
qed auto

lemma calculate_target_band_total:
  "b \<noteq> FAILED \<Longrightarrow> \<exists>t. calculate_target_band b v = Inr t \<and> severity b \<le> severity t \<and> (v \<noteq> CRITICAL \<longrightarrow> t \<noteq> b)"
  by (cases b; cases v) (simp_all add: calculate_target_band_def bands_to_drop_def from_severity_def all_bands_def)

lemma validate_transition_valid:
  "tv_is_valid (validate_transition a b ty) \<longleftrightarrow>
     a \<noteq> FAILED \<and> (severity a < severity b \<or> ty = ACKNOWLEDGED \<and> severity b = severity a - 1)"
  by (auto simp: validate_transition_def tv_valid_def tv_invalid_def severity_inject [symmetric])

section \<open>What the port promises\<close>

text \<open>
  \<open>LegitimacyPort\<close> documents that its queries read, and that \<open>record_transition\<close> atomically appends the
  transition to the history and makes its target the current band. \<open>band\<close> and \<open>history\<close> read a state of
  the ports; the ledger, the clock and the permission check leave both alone.
\<close>

definition legitimacy_kept ::
  "('s \<Rightarrow> legitimacy_band) \<Rightarrow> ('s \<Rightarrow> legitimacy_transition list) \<Rightarrow> 's \<Rightarrow> 's \<Rightarrow> bool" where
  "legitimacy_kept band history s t \<longleftrightarrow> band t = band s \<and> history t = history s"

definition lawful_ports ::
  "'s legitimacy_ports \<Rightarrow> ('s \<Rightarrow> legitimacy_band) \<Rightarrow> ('s \<Rightarrow> legitimacy_transition list) \<Rightarrow> bool" where
  "lawful_ports ports band history \<longleftrightarrow>
     framed (legitimacy_kept band history) (lp_get_legitimacy_state ports) \<and>
     (\<forall>s x s'. lp_get_legitimacy_state ports s = (Inr x, s') \<longrightarrow> ls_current_band x = band s) \<and>
     (\<forall>t s x s'. lp_record_transition ports t s = (Inr x, s') \<longrightarrow>
        band s' = lt_to_band t \<and> history s' = history s @ [t]) \<and>
     (\<forall>t s e s'. lp_record_transition ports t s = (Inl e, s') \<longrightarrow> legitimacy_kept band history s s') \<and>
     framed (legitimacy_kept band history) (lp_now ports) \<and>
     framed (legitimacy_kept band history) (lp_uuid4 ports) \<and>
     (\<forall>o_id a. framed (legitimacy_kept band history) (lp_has_permission ports o_id a)) \<and>
     (\<forall>ty a p. framed (legitimacy_kept band history) (lp_emit ports ty a p))"

text \<open>The two ways the services are used.\<close>

datatype legitimacy_op = Violation uuid string | Restoration restoration_request

fun run_legitimacy_op :: "'s legitimacy_ports \<Rightarrow> legitimacy_op \<Rightarrow> 's restoration_world \<Rightarrow> 's restoration_world" where
  "run_legitimacy_op ports (Violation i v) w = snd (on_ports (process_violation ports i v) w)"
| "run_legitimacy_op ports (Restoration r) w = snd (request_restoration ports r w)"

fun run_legitimacy_ops ::
  "'s legitimacy_ports \<Rightarrow> legitimacy_op list \<Rightarrow> 's restoration_world \<Rightarrow> 's restoration_world" where
  "run_legitimacy_ops ports [] w = w"
| "run_legitimacy_ops ports (op # ops) w = run_legitimacy_ops ports ops (run_legitimacy_op ports op w)"

text \<open>A history that starts at a band, changes it one recorded transition at a time, and obeys the rules.\<close>

fun legitimacy_path :: "legitimacy_band \<Rightarrow> legitimacy_transition list \<Rightarrow> legitimacy_band \<Rightarrow> bool" where
  "legitimacy_path a [] b = (a = b)"
| "legitimacy_path a (t # ts) b = (lt_from_band t = a \<and>
     tv_is_valid (validate_transition (lt_from_band t) (lt_to_band t) (lt_transition_type t)) \<and>
     legitimacy_path (lt_to_band t) ts b)"

definition accounted :: "(uuid, restoration_acknowledgment) dict \<Rightarrow> legitimacy_transition \<Rightarrow> bool" where
  "accounted acks t \<longleftrightarrow>
     (lt_transition_type t = AUTOMATIC \<and> lt_actor t = ''system'' \<and> lt_triggering_event_id t \<noteq> None) \<or>
     (lt_transition_type t = ACKNOWLEDGED \<and> (\<exists>i. lt_acknowledgment_id t = Some i \<and> dict_get acks i \<noteq> None))"

text \<open>What one use of a service does to the history and the acknowledgments.\<close>

definition legitimacy_step ::
  "('s \<Rightarrow> legitimacy_band) \<Rightarrow> ('s \<Rightarrow> legitimacy_transition list) \<Rightarrow> 's restoration_world \<Rightarrow> 's restoration_world \<Rightarrow> bool" where
  "legitimacy_step band history w w' \<longleftrightarrow>
     (\<exists>ts. history (fst w') = history (fst w) @ ts \<and> legitimacy_path (band (fst w)) ts (band (fst w')) \<and>
        (\<forall>t. t \<in> set ts \<longrightarrow> accounted (snd w') t)) \<and>
     (\<forall>i. dict_get (snd w) i \<noteq> None \<longrightarrow> dict_get (snd w') i \<noteq> None)"

lemma legitimacy_path_append:
  "legitimacy_path a (ts @ us) b \<longleftrightarrow> (\<exists>c. legitimacy_path a ts c \<and> legitimacy_path c us b)"
  by (induction ts arbitrary: a) auto

lemma accounted_mono:
  "accounted acks t \<Longrightarrow> (\<And>i. dict_get acks i \<noteq> None \<Longrightarrow> dict_get acks' i \<noteq> None) \<Longrightarrow> accounted acks' t"
  by (auto simp: accounted_def)

interpretation legitimacy_step: frame_relation "legitimacy_step band history"
proof
  show "legitimacy_step band history s s" for s
    by (auto simp: legitimacy_step_def intro: exI [of _ "[]"])
  show "legitimacy_step band history s u"
    if st: "legitimacy_step band history s t" and tu: "legitimacy_step band history t u" for s t u
  proof -
    obtain xs where xs: "history (fst t) = history (fst s) @ xs"
      "legitimacy_path (band (fst s)) xs (band (fst t))" "\<forall>x. x \<in> set xs \<longrightarrow> accounted (snd t) x"
      using st by (auto simp: legitimacy_step_def)
    obtain ys where ys: "history (fst u) = history (fst t) @ ys"
      "legitimacy_path (band (fst t)) ys (band (fst u))" "\<forall>x. x \<in> set ys \<longrightarrow> accounted (snd u) x"
      using tu by (auto simp: legitimacy_step_def)
    have acks: "dict_get (snd t) i \<noteq> None \<Longrightarrow> dict_get (snd u) i \<noteq> None" for i
      using tu by (simp add: legitimacy_step_def)
    have "accounted (snd u) x" if "x \<in> set (xs @ ys)" for x
      using that xs(3) ys(3) accounted_mono acks by (metis Un_iff set_append)
    moreover have "legitimacy_path (band (fst s)) (xs @ ys) (band (fst u))"
      using xs(2) ys(2) legitimacy_path_append by blast
    moreover have "history (fst u) = history (fst s) @ xs @ ys" using xs(1) ys(1) by simp
    moreover have "dict_get (snd s) i \<noteq> None \<Longrightarrow> dict_get (snd u) i \<noteq> None" for i
      using st acks by (auto simp: legitimacy_step_def)
    ultimately show ?thesis unfolding legitimacy_step_def by blast
  qed
qed

interpretation legitimacy_kept: frame_relation "legitimacy_kept band history"
  by unfold_locales (simp_all add: legitimacy_kept_def)

lemma kept_step: "legitimacy_kept band history s s' \<Longrightarrow> legitimacy_step band history (s, acks) (s', acks)"
  by (auto simp: legitimacy_kept_def legitimacy_step_def intro: exI [of _ "[]"])

lemma framed_on_ports: "framed (legitimacy_kept band history) m \<Longrightarrow> framed (legitimacy_step band history) (on_ports m)"
  by (auto simp: framed_def on_ports_def split: prod.splits intro: kept_step)

lemmas lawful_portsD = lawful_ports_def [THEN iffD1, THEN conjunct1]
  lawful_ports_def [THEN iffD1, THEN conjunct2, THEN conjunct1, rule_format]
  lawful_ports_def [THEN iffD1, THEN conjunct2, THEN conjunct2, THEN conjunct1, rule_format]
  lawful_ports_def [THEN iffD1, THEN conjunct2, THEN conjunct2, THEN conjunct2, THEN conjunct1, rule_format]

lemma lawful_quiet:
  assumes "lawful_ports ports band history"
  shows "framed (legitimacy_kept band history) (lp_get_legitimacy_state ports)"
    "framed (legitimacy_kept band history) (lp_now ports)"
    "framed (legitimacy_kept band history) (lp_uuid4 ports)"
    "framed (legitimacy_kept band history) (lp_has_permission ports o_id a)"
    "framed (legitimacy_kept band history) (lp_emit ports ty a p)"
  using assms by (simp_all add: lawful_ports_def)

lemma lawful_read:
  "lawful_ports ports band history \<Longrightarrow>
     act_post (lp_get_legitimacy_state ports) s
       (\<lambda>r t. legitimacy_kept band history s t \<and> (\<forall>x. r = Inr x \<longrightarrow> ls_current_band x = band s))"
  by (auto simp: lawful_ports_def dest: framedD intro!: act_postI)

text \<open>Recording a transition from the current band.\<close>

definition appended ::
  "('s \<Rightarrow> legitimacy_band) \<Rightarrow> ('s \<Rightarrow> legitimacy_transition list) \<Rightarrow> 's \<Rightarrow> legitimacy_transition \<Rightarrow> 's \<Rightarrow> bool" where
  "appended band history s t s' \<longleftrightarrow> band s' = lt_to_band t \<and> history s' = history s @ [t]"

lemma lawful_record:
  "lawful_ports ports band history \<Longrightarrow>
     act_post (lp_record_transition ports t) s
       (\<lambda>r s'. case r of Inl _ \<Rightarrow> legitimacy_kept band history s s' | Inr _ \<Rightarrow> appended band history s t s')"
  by (auto simp: lawful_ports_def appended_def intro!: act_postI split: sum.splits)

lemma appended_kept:
  "legitimacy_kept band history s s1 \<Longrightarrow> appended band history s1 t s2 \<Longrightarrow> appended band history s t s2"
  "appended band history s t s1 \<Longrightarrow> legitimacy_kept band history s1 s2 \<Longrightarrow> appended band history s t s2"
  by (simp_all add: appended_def legitimacy_kept_def)

lemma calculate_target_band_worse:
  "b \<noteq> FAILED \<Longrightarrow> calculate_target_band b v = Inr t \<Longrightarrow> t \<noteq> b \<Longrightarrow> severity b < severity t"
  using calculate_target_band_total [of b v] by (auto simp: severity_inject order.order_iff_strict)

lemma mk_legitimacy_transition_Inr: "mk_legitimacy_transition t = Inr t' \<Longrightarrow> t' = t"
  by (simp add: mk_legitimacy_transition_def split: if_splits)

lemma process_violation_post:
  assumes "lawful_ports ports band history"
  shows "act_post (process_violation ports i v) s (\<lambda>_ s'. legitimacy_kept band history s s' \<or>
    (\<exists>t. appended band history s t s' \<and> lt_from_band t = band s \<and> lt_transition_type t = AUTOMATIC \<and>
       lt_actor t = ''system'' \<and> lt_triggering_event_id t = Some i \<and> band s \<noteq> FAILED \<and>
       severity (band s) < severity (lt_to_band t)))" (is "act_post _ _ (\<lambda>_. ?Q)")
  unfolding process_violation_def
proof (rule act_post_bind [OF lawful_read [OF assms]], goal_cases)
  case (1 e t)
  then show ?case by simp
next
  case (2 c s0)
  then have s0: "legitimacy_kept band history s s0" and c: "ls_current_band c = band s" by auto
  note quiet = lawful_quiet [OF assms] and trans = legitimacy_kept.frame_trans
  have rec: "act_post (act_bind (lp_record_transition ports t) (\<lambda>_.
       act_bind (lp_get_legitimacy_state ports) (\<lambda>n. act_bind (emit n) (\<lambda>_::unit. act_return (f n))))) s1 (\<lambda>_. ?Q)"
    if emit: "\<And>n. framed (legitimacy_kept band history) (emit n)" and s1: "legitimacy_kept band history s s1"
      and t: "lt_from_band t = band s" "lt_transition_type t = AUTOMATIC" "lt_actor t = ''system''"
        "lt_triggering_event_id t = Some i" "band s \<noteq> FAILED" "severity (band s) < severity (lt_to_band t)"
    for t emit and f :: "legitimacy_state \<Rightarrow> decay_result" and s1
  proof (rule act_post_bind [OF lawful_record [OF assms]], goal_cases)
    case (1 e u)
    then show ?case using s1 trans by auto
  next
    case (2 x u)
    then have Q: "legitimacy_kept band history u s' \<Longrightarrow> ?Q s'" for s'
      using appended_kept s1 t by (metis sum.case(2))
    show ?case
      by (rule act_post_bind_framed [OF quiet(1)], erule Q,
          rule act_post_bind_framed [OF emit];
          (unfold act_post_return)?; rule Q; erule trans; assumption)
  qed
  show ?case
  proof (cases "band s = FAILED")
    case True
    then show ?thesis using s0 c by simp
  next
    case False
    show ?thesis unfolding Let_def c if_not_P [OF False]
    proof (rule act_post_lift_bind, goal_cases)
      case (2 b)
      show ?case
      proof (cases "b = band s")
        case True
        then show ?thesis using s0 by simp
      next
        case ne: False
        have worse: "severity (band s) < severity b"
          using calculate_target_band_worse [OF False 2 ne] .
        show ?thesis unfolding if_not_P [OF ne]
        proof (rule act_post_bind_framed [OF quiet(2)], goal_cases)
          case (2 now s1)
          note s1 = trans [OF s0 2]
          show ?case
          proof (rule act_post_bind_framed [OF quiet(3)], goal_cases)
            case (2 k s2)
            note s2 = trans [OF s1 2]
            show ?case
            proof (rule act_post_lift_bind, goal_cases)
              case (1 e)
              show ?case using s2 by (rule disjI1)
            next
              case (2 t)
              note t = mk_legitimacy_transition_Inr [OF 2]
              show ?case
              proof (rule rec [OF _ s2], goal_cases)
                case (1 n)
                show ?case by (rule quiet(5))
              qed (simp_all only: t legitimacy_transition.simps worse False simp_thms not_False_eq_True)
            qed
          qed (rule disjI1, erule trans [OF s1])
        qed (rule disjI1, erule trans [OF s0])
      qed
    qed (use s0 in simp)
  qed
qed

text \<open>The same for the restoration service, whose world also holds the acknowledgments.\<close>

definition world_kept ::
  "('s \<Rightarrow> legitimacy_band) \<Rightarrow> ('s \<Rightarrow> legitimacy_transition list) \<Rightarrow> 's restoration_world \<Rightarrow> 's restoration_world \<Rightarrow> bool" where
  "world_kept band history w w' \<longleftrightarrow> legitimacy_kept band history (fst w) (fst w') \<and> snd w' = snd w"

interpretation world_kept: frame_relation "world_kept band history"
  by unfold_locales (simp_all add: world_kept_def legitimacy_kept_def)

lemma framed_world_kept: "framed (legitimacy_kept band history) m \<Longrightarrow> framed (world_kept band history) (on_ports m)"
  by (auto simp: framed_def on_ports_def world_kept_def split: prod.splits)

lemma act_post_on_ports: "act_post m (fst w) (\<lambda>r s. Q r (s, snd w)) \<Longrightarrow> act_post (on_ports m) w Q"
  by (cases w) (auto simp: act_post_def on_ports_def split: prod.splits)

definition restored ::
  "('s \<Rightarrow> legitimacy_band) \<Rightarrow> ('s \<Rightarrow> legitimacy_transition list) \<Rightarrow> 's restoration_world \<Rightarrow> 's restoration_world \<Rightarrow> bool" where
  "restored band history w w' \<longleftrightarrow> (\<exists>t i. appended band history (fst w) t (fst w') \<and> lt_from_band t = band (fst w) \<and>
     lt_transition_type t = ACKNOWLEDGED \<and> lt_acknowledgment_id t = Some i \<and> dict_get (snd w') i \<noteq> None \<and>
     band (fst w) \<noteq> FAILED \<and> severity (lt_to_band t) = severity (band (fst w)) - 1)"

definition acks_grow :: "'s restoration_world \<Rightarrow> 's restoration_world \<Rightarrow> bool" where
  "acks_grow w w' \<longleftrightarrow> (\<forall>i. dict_get (snd w) i \<noteq> None \<longrightarrow> dict_get (snd w') i \<noteq> None)"

definition restoration_outcome ::
  "('s \<Rightarrow> legitimacy_band) \<Rightarrow> ('s \<Rightarrow> legitimacy_transition list) \<Rightarrow> 's restoration_world
    \<Rightarrow> exn + restoration_result \<Rightarrow> 's restoration_world \<Rightarrow> bool" where
  "restoration_outcome band history w res w' \<longleftrightarrow> acks_grow w w' \<and>
     (case res of
        Inl _ \<Rightarrow> legitimacy_kept band history (fst w) (fst w') \<or> restored band history w w'
      | Inr (RestorationFailed _) \<Rightarrow> world_kept band history w w'
      | Inr (RestorationSucceeded _ _) \<Rightarrow> restored band history w w')"

lemma outcome_kept:
  "world_kept band history w w' \<Longrightarrow> restoration_outcome band history w (Inl e) w'"
  "world_kept band history w w' \<Longrightarrow> restoration_outcome band history w (Inr (RestorationFailed m)) w'"
  by (simp_all add: restoration_outcome_def acks_grow_def world_kept_def)

lemma restored_kept:
  "restored band history w w1 \<Longrightarrow> world_kept band history w1 w2 \<Longrightarrow> restored band history w w2"
  unfolding restored_def world_kept_def by (metis appended_kept(2))

lemma mk_restoration_acknowledgment_Inr: "mk_restoration_acknowledgment a = Inr a' \<Longrightarrow> a' = a"
  by (simp add: mk_restoration_acknowledgment_def split: if_splits)

text \<open>An acknowledgment is stored before its event is emitted.\<close>

definition acknowledged ::
  "('s \<Rightarrow> legitimacy_band) \<Rightarrow> ('s \<Rightarrow> legitimacy_transition list) \<Rightarrow> uuid \<Rightarrow> 's restoration_world \<Rightarrow> 's restoration_world \<Rightarrow> bool" where
  "acknowledged band history i w w' \<longleftrightarrow> legitimacy_kept band history (fst w) (fst w') \<and> acks_grow w w' \<and>
     dict_get (snd w') i \<noteq> None"

lemma acknowledged_kept:
  "acknowledged band history i w w1 \<Longrightarrow> world_kept band history w1 w2 \<Longrightarrow> acknowledged band history i w w2"
  by (auto simp: acknowledged_def world_kept_def acks_grow_def intro: legitimacy_kept.frame_trans)

lemma record_acknowledgment_post:
  assumes "lawful_ports ports band history" and "world_kept band history w w0"
  shows "act_post (record_acknowledgment ports a) w0 (\<lambda>_. acknowledged band history (ra_acknowledgment_id a) w)"
proof -
  have emit: "framed (world_kept band history) (on_ports (lp_emit ports ty u p))" for ty u p
    by (intro framed_world_kept lawful_quiet [OF assms(1)])
  show ?thesis
    unfolding record_acknowledgment_def
  proof (rule act_post_bind [where P = "\<lambda>_. acknowledged band history (ra_acknowledgment_id a) w"], goal_cases)
    case 1
    show ?case
      using assms(2) by (cases w0) (auto simp: act_post_def acknowledged_def world_kept_def acks_grow_def dict_get_set)
  next
    case (3 x t)
    then show ?case by (auto intro!: act_postI elim: acknowledged_kept dest: framedD [OF emit])
  qed
qed

lemma outcome_acknowledged:
  "acknowledged band history i w w' \<Longrightarrow> restoration_outcome band history w (Inl e) w'"
  by (simp add: restoration_outcome_def acknowledged_def)

lemma restored_ack:
  assumes "acknowledged band history i w w1" and "appended band history (fst w1) t s2"
    and "lt_from_band t = band (fst w)" "lt_transition_type t = ACKNOWLEDGED" "lt_acknowledgment_id t = Some i"
      "band (fst w) \<noteq> FAILED" "severity (lt_to_band t) = severity (band (fst w)) - 1"
  shows "restored band history w (s2, snd w1)" and "acks_grow w (s2, snd w1)"
proof -
  have "appended band history (fst w) t s2"
    using assms(1, 2) by (auto simp: acknowledged_def intro: appended_kept)
  then show "restored band history w (s2, snd w1)"
    using assms by (auto simp: restored_def acknowledged_def)
  show "acks_grow w (s2, snd w1)" using assms(1) by (simp add: acknowledged_def acks_grow_def)
qed

lemma acks_grow_kept: "acks_grow w w1 \<Longrightarrow> world_kept band history w1 w2 \<Longrightarrow> acks_grow w w2"
  by (simp add: acks_grow_def world_kept_def)

lemma lawful_record_world:
  "lawful_ports ports band history \<Longrightarrow> act_post (on_ports (lp_record_transition ports t)) w
     (\<lambda>r w'. case r of Inl _ \<Rightarrow> world_kept band history w w'
        | Inr _ \<Rightarrow> appended band history (fst w) t (fst w') \<and> snd w' = snd w)"
  by (drule lawful_record [where t = t and s = "fst w"], rule act_post_on_ports)
    (auto simp: act_post_def world_kept_def split: prod.splits sum.splits)

text \<open>From the recorded transition on.\<close>

lemma restoration_record_post:
  fixes emit :: "legitimacy_state \<Rightarrow> ('s restoration_world, unit) act"
  assumes ports: "lawful_ports ports band history" and emit: "\<And>n. framed (world_kept band history) (emit n)"
    and ack: "acknowledged band history i w w1"
    and t: "lt_from_band t = band (fst w)" "lt_transition_type t = ACKNOWLEDGED" "lt_acknowledgment_id t = Some i"
      "band (fst w) \<noteq> FAILED" "severity (lt_to_band t) = severity (band (fst w)) - 1"
  shows "act_post (act_bind (on_ports (lp_record_transition ports t)) (\<lambda>_.
      act_bind (on_ports (lp_get_legitimacy_state ports)) (\<lambda>n.
      act_bind (emit n) (\<lambda>_. act_return (RestorationSucceeded n a))))) w1 (restoration_outcome band history w)"
proof (rule act_post_bind [OF lawful_record_world [OF ports]], goal_cases)
  case (1 e w2)
  then show ?case by (simp add: outcome_acknowledged [OF acknowledged_kept [OF ack]])
next
  case (2 x w2)
  then have app: "appended band history (fst w1) t (fst w2)" and w2: "w2 = (fst w2, snd w1)"
    by (auto simp: prod_eq_iff)
  note fin = restored_ack [OF ack app t, folded w2]
  have out: "restoration_outcome band history w r w'"
    if "world_kept band history w2 w'" and "r = Inr (RestorationSucceeded n a) \<or> (\<exists>e. r = Inl e)" for r w' n
    using that restored_kept [OF fin(1) that(1)] acks_grow_kept [OF fin(2) that(1)]
    by (auto simp: restoration_outcome_def)
  note quiet = framed_world_kept [OF lawful_quiet(1) [OF ports]]
  show ?case
  proof (rule act_post_bind_framed [OF quiet], goal_cases)
    case (2 n w3)
    note w3 = 2
    show ?case
    proof (rule act_post_bind_framed [OF emit], goal_cases)
      case (1 e u)
      show ?case by (rule out [OF world_kept.frame_trans [OF w3 1]]) simp
    next
      case (2 y u)
      show ?case unfolding act_post_return by (rule out [OF world_kept.frame_trans [OF w3 2]]) simp
    qed
  qed (rule out, assumption, simp)
qed

lemma lawful_read_world:
  "lawful_ports ports band history \<Longrightarrow> act_post (on_ports (lp_get_legitimacy_state ports)) w
     (\<lambda>r w'. world_kept band history w w' \<and> (\<forall>x. r = Inr x \<longrightarrow> ls_current_band x = band (fst w)))"
  by (drule lawful_read [where s = "fst w"], rule act_post_on_ports)
    (auto simp: act_post_def world_kept_def split: prod.splits)

lemma verify_permission_kept:
  "lawful_ports ports band history \<Longrightarrow> framed (world_kept band history) (verify_restoration_permission ports op_id)"
  unfolding verify_restoration_permission_def
  by (intro framed_world_kept legitimacy_kept.framed_intros lawful_quiet)
    (auto intro!: legitimacy_kept.framed_intros lawful_quiet)

lemma request_restoration_post:
  assumes ports: "lawful_ports ports band history"
  shows "act_post (request_restoration ports r) w (restoration_outcome band history w)"
  unfolding request_restoration_def
proof (rule act_post_bind_framed [OF verify_permission_kept [OF ports]], goal_cases)
  case (1 e w0)
  then show ?case by (rule outcome_kept)
next
  case (2 ok w0)
  note w0 = 2 and trans = world_kept.frame_trans
  show ?case
  proof (cases ok)
    case False
    then show ?thesis using outcome_kept(2) [OF w0] by simp
  next
    case True
    then have ok: "\<not> \<not> ok" by simp
    show ?thesis unfolding if_not_P [OF ok]
    proof (rule act_post_bind [OF lawful_read_world [OF ports]], goal_cases)
      case (1 e w1)
      then show ?case using outcome_kept(1) [OF trans [OF w0]] by blast
    next
      case (2 c w1)
      then have w1: "world_kept band history w w1" and c: "ls_current_band c = band (fst w)"
        using trans [OF w0] w0 by (auto simp: world_kept_def legitimacy_kept_def)
      let ?b = "band (fst w)" and ?t = "rq_target_band r"
      have stop: "act_post (act_return (RestorationFailed m)) w1 (restoration_outcome band history w)" for m
        using outcome_kept(2) [OF w1] by simp
      consider "?b = FAILED" | "?b \<noteq> FAILED" "severity ?t \<ge> severity ?b"
        | "?b \<noteq> FAILED" "\<not> severity ?t \<ge> severity ?b" "severity ?b - severity ?t \<noteq> 1"
        | (go) "?b \<noteq> FAILED" "\<not> severity ?t \<ge> severity ?b" "\<not> severity ?b - severity ?t \<noteq> 1" by blast
      then show ?case
      proof cases
        case 3
        then show ?thesis unfolding Let_def c if_not_P [OF 3(1)] if_not_P [OF 3(2)] if_P [OF 3(3)]
          by (intro act_post_lift_bind stop outcome_kept(1) [OF w1])
      next
        case go
        note quiet = framed_world_kept [OF lawful_quiet(2) [OF ports]] framed_world_kept [OF lawful_quiet(3) [OF ports]]
          framed_world_kept [OF lawful_quiet(5) [OF ports]]
        show ?thesis unfolding Let_def c if_not_P [OF go(1)] if_not_P [OF go(2)] if_not_P [OF go(3)]
        proof (rule act_post_bind_framed [OF quiet(1)], goal_cases)
          case (2 now w2)
          note w2 = trans [OF w1 2]
          show ?case
          proof (rule act_post_bind_framed [OF quiet(2)], goal_cases)
            case (2 i w3)
            note w3 = trans [OF w2 2]
            show ?case
            proof (rule act_post_lift_bind, goal_cases)
              case (2 a)
              then have a: "ra_acknowledgment_id a = i" by (auto dest: mk_restoration_acknowledgment_Inr)
              show ?case
              proof (rule act_post_bind [OF record_acknowledgment_post [OF ports w3]], goal_cases)
                case (2 x w4)
                then have w4: "acknowledged band history i w w4" by (simp only: a)
                show ?case
                proof (rule act_post_bind_framed [OF quiet(2)], goal_cases)
                  case (2 k w5)
                  note w5 = acknowledged_kept [OF w4 2]
                  show ?case
                  proof (rule act_post_lift_bind, goal_cases)
                    case (2 t)
                    note t = mk_legitimacy_transition_Inr [OF 2]
                    show ?case
                      by (rule restoration_record_post [OF ports quiet(3) w5]) (use go in \<open>simp_all add: t\<close>)
                  qed (rule outcome_acknowledged [OF w5])
                qed (rule outcome_acknowledged [OF acknowledged_kept [OF w4]])
              qed (rule outcome_acknowledged)
            qed (rule outcome_kept(1) [OF w3])
          qed (rule outcome_kept(1) [OF trans [OF w2]])
        qed (rule outcome_kept(1) [OF trans [OF w1]])
      qed (use stop in \<open>simp_all add: c\<close>)
    qed
  qed
qed

lemma run_legitimacy_op_step:
  assumes "lawful_ports ports band history"
  shows "legitimacy_step band history w (run_legitimacy_op ports op w)"
proof (cases op)
  case (Violation i v)
  obtain s acks where w: "w = (s, acks)" by fastforce
  obtain r s' where run: "process_violation ports i v s = (r, s')" by fastforce
  then have w': "run_legitimacy_op ports op w = (s', acks)" by (simp add: Violation w on_ports_def)
  show ?thesis
    using act_postD [OF process_violation_post [OF assms] run]
  proof (elim disjE exE conjE)
    assume "legitimacy_kept band history s s'"
    then show ?thesis unfolding w' unfolding w by (rule kept_step)
  next
    fix t assume "appended band history s t s'" "lt_from_band t = band s" "lt_transition_type t = AUTOMATIC"
      "lt_actor t = ''system''" "lt_triggering_event_id t = Some i" "band s \<noteq> FAILED"
      "severity (band s) < severity (lt_to_band t)"
    then show ?thesis unfolding w' unfolding w
      by (auto simp: legitimacy_step_def appended_def accounted_def validate_transition_valid intro!: exI [of _ "[t]"])
  qed
next
  case (Restoration r)
  obtain res w' where run: "request_restoration ports r w = (res, w')" by (cases "request_restoration ports r w")
  then have w': "run_legitimacy_op ports op w = w'" by (simp add: Restoration)
  have out: "acks_grow w w'" "legitimacy_kept band history (fst w) (fst w') \<or> restored band history w w'"
    using act_postD [OF request_restoration_post [OF assms] run]
    by (auto simp: restoration_outcome_def world_kept_def split: sum.splits restoration_result.splits)
  from out(2) show ?thesis
  proof
    assume "legitimacy_kept band history (fst w) (fst w')"
    with out(1) show ?thesis unfolding w'
      by (auto simp: legitimacy_step_def legitimacy_kept_def acks_grow_def intro!: exI [of _ "[]"])
  next
    assume "restored band history w w'"
    then obtain t i where t: "appended band history (fst w) t (fst w')" "lt_from_band t = band (fst w)"
      "lt_transition_type t = ACKNOWLEDGED" "lt_acknowledgment_id t = Some i" "dict_get (snd w') i \<noteq> None"
      "band (fst w) \<noteq> FAILED" "severity (lt_to_band t) = severity (band (fst w)) - 1"
      by (auto simp: restored_def)
    then have "accounted (snd w') t" by (auto simp: accounted_def)
    with t out(1) show ?thesis unfolding w'
      by (auto simp: legitimacy_step_def appended_def acks_grow_def validate_transition_valid intro!: exI [of _ "[t]"])
  qed
qed

lemma run_legitimacy_ops_step:
  "lawful_ports ports band history \<Longrightarrow> legitimacy_step band history w (run_legitimacy_ops ports ops w)"
proof (induction ops arbitrary: w)
  case (Cons op ops)
  then show ?case
    using legitimacy_step.frame_trans [OF run_legitimacy_op_step [OF Cons.prems] Cons.IH [OF Cons.prems]] by simp
qed (simp add: legitimacy_step.frame_refl)

text \<open>What each recorded path looks like: only an acknowledged step improves the band, and by one.\<close>

lemma legitimacy_path_failed: "legitimacy_path FAILED ts b \<Longrightarrow> ts = []"
  by (cases ts) (auto simp: validate_transition_valid)

lemma legitimacy_path_improves:
  "legitimacy_path a ts b \<Longrightarrow>
     severity a - int (length (filter (\<lambda>t. lt_transition_type t = ACKNOWLEDGED) ts)) \<le> severity b"
proof (induction ts arbitrary: a)
  case (Cons t ts)
  then have "severity (lt_to_band t) - int (length (filter (\<lambda>t. lt_transition_type t = ACKNOWLEDGED) ts)) \<le> severity b"
    by simp
  then show ?case using Cons.prems by (cases "lt_transition_type t = ACKNOWLEDGED") (auto simp: validate_transition_valid)
qed simp

section \<open>Claims\<close>

text \<open>
  C22: Whatever sequence of violations and restoration requests the two services process, over ports that
  keep their documented promises and whatever else those do, the history only grows, by a path from the
  band before to the band after in which every transition starts where the previous one ended and is one
  \<open>validate_transition\<close> accepts; an automatic transition is the system's and names its violation, an
  acknowledged one names an acknowledgment the restoration service still holds. A system that has failed
  never records anything again, and the band improves by at most one step per acknowledgment recorded.
\<close>

theorem legitimacy_accountable:
  assumes "lawful_ports ports band history"
  shows "let w' = run_legitimacy_ops ports ops w in
    \<exists>ts. history (fst w') = history (fst w) @ ts \<and> legitimacy_path (band (fst w)) ts (band (fst w')) \<and>
      list_all (accounted (snd w')) ts \<and> (band (fst w) = FAILED \<longrightarrow> ts = [] \<and> band (fst w') = FAILED) \<and>
      severity (band (fst w)) - int (length (filter (\<lambda>t. lt_transition_type t = ACKNOWLEDGED) ts)) \<le> severity (band (fst w'))"
proof -
  obtain ts where ts: "history (fst (run_legitimacy_ops ports ops w)) = history (fst w) @ ts"
    "legitimacy_path (band (fst w)) ts (band (fst (run_legitimacy_ops ports ops w)))"
    "\<forall>t. t \<in> set ts \<longrightarrow> accounted (snd (run_legitimacy_ops ports ops w)) t"
    using run_legitimacy_ops_step [OF assms] unfolding legitimacy_step_def by blast
  then show ?thesis
    using legitimacy_path_improves [OF ts(2)] legitimacy_path_failed unfolding Let_def list_all_iff by fastforce
qed

text \<open>Ports that keep the transitions in a list, for the examples.\<close>

definition list_ports :: "legitimacy_transition list legitimacy_ports" where
  "list_ports = \<lparr>
     lp_get_legitimacy_state = (\<lambda>h. (Inr \<lparr>ls_current_band = (if h = [] then STABLE else lt_to_band (last h)),
        ls_entered_at = 0, ls_violation_count = int (length h), ls_last_triggering_event_id = None,
        ls_last_transition_type = AUTOMATIC\<rparr>, h)),
     lp_get_transition_history = (\<lambda>_ _ h. (Inr h, h)),
     lp_record_transition = (\<lambda>t h. (Inr (), h @ [t])),
     lp_has_permission = (\<lambda>o_id _ h. (Inr (o_id = 1), h)),
     lp_emit = (\<lambda>_ _ _ h. (Inr (), h)), lp_now = (\<lambda>h. (Inr 0, h)),
     lp_uuid4 = (\<lambda>h. (Inr (word_of_nat (length h)), h))\<rparr>"

definition last_band :: "legitimacy_transition list \<Rightarrow> legitimacy_band" where
  "last_band h = (if h = [] then STABLE else lt_to_band (last h))"

lemma list_ports_lawful: "lawful_ports list_ports last_band (\<lambda>h. h)"
  by (auto simp: lawful_ports_def list_ports_def framed_def legitimacy_kept_def last_band_def)

lemma legitimacy_accountable_witness:
  "let w' = run_legitimacy_ops list_ports [Violation 5 ''coercion.filter_blocked'',
      Restoration \<lparr>rq_operator_id = 1, rq_target_band = STRAINED, rq_reason = ''r'', rq_evidence = ''e''\<rparr>] ([], [])
   in length (fst w') = 2 \<and> last_band (fst w') = STRAINED \<and>
     (\<exists>ts. fst w' = ts \<and> legitimacy_path STABLE ts (last_band (fst w')) \<and> list_all (accounted (snd w')) ts)"
proof -
  let ?ops = "[Violation 5 ''coercion.filter_blocked'',
      Restoration \<lparr>rq_operator_id = 1, rq_target_band = STRAINED, rq_reason = ''r'', rq_evidence = ''e''\<rparr>]"
  have "length (fst (run_legitimacy_ops list_ports ?ops ([], []))) = 2 \<and>
     last_band (fst (run_legitimacy_ops list_ports ?ops ([], []))) = STRAINED"
    by (simp add: on_ports_def process_violation_def request_restoration_def verify_restoration_permission_def
      record_acknowledgment_def act_bind_def list_ports_def last_band_def calculate_target_band_def
      get_severity_for_violation_def violation_severity_map_def bands_to_drop_def from_severity_def all_bands_def
      mk_legitimacy_transition_def mk_restoration_acknowledgment_def blank_def py_strip_def is_py_space_def Let_def)
  then show ?thesis
    using legitimacy_accountable [OF list_ports_lawful, of ?ops "([], [])"]
    by (simp add: Let_def last_band_def)
qed

lemma severity_gap: "a \<noteq> FAILED \<Longrightarrow> severity a < severity b \<Longrightarrow> calculate_decay_target a (severity b - severity a) = Inr b"
  using severity_range [of b] by (simp add: calculate_decay_target_def min_def)

lemma calculate_decay_target_Inr:
  "(\<exists>n. calculate_decay_target a n = Inr b) \<longleftrightarrow> a \<noteq> FAILED \<and> severity a < severity b"
proof
  assume "\<exists>n. calculate_decay_target a n = Inr b"
  then obtain n where "a \<noteq> FAILED" "\<not> n < 1" "severity b = min (severity a + n) 4"
    by (auto simp: calculate_decay_target_def from_severity_Inr split: if_splits)
  then show "a \<noteq> FAILED \<and> severity a < severity b" by (cases a) auto
next
  assume "a \<noteq> FAILED \<and> severity a < severity b"
  then show "\<exists>n. calculate_decay_target a n = Inr b" using severity_gap by blast
qed

text \<open>
  The band rules agree with each other: \<open>can_transition_to\<close> allows exactly the transitions
  \<open>validate_transition\<close> accepts when acknowledged; the automatic ones it accepts are exactly the decays of
  a system that has not failed, which are exactly what \<open>calculate_decay_target\<close> can yield;
  \<open>get_next_restoration_target\<close> yields exactly the improvement that is accepted.
\<close>

theorem band_rules_agree:
  "(can_transition_to a b \<longleftrightarrow> tv_is_valid (validate_transition a b ACKNOWLEDGED)) \<and>
   (tv_is_valid (validate_transition a b AUTOMATIC) \<longleftrightarrow> \<not> band_is_terminal a \<and> is_decay a b) \<and>
   ((\<exists>n. calculate_decay_target a n = Inr b) \<longleftrightarrow> tv_is_valid (validate_transition a b AUTOMATIC)) \<and>
   (get_next_restoration_target a = Inr (Some b) \<longleftrightarrow>
      is_restoration a b \<and> tv_is_valid (validate_transition a b ACKNOWLEDGED))"
proof (intro conjI)
  show "can_transition_to a b \<longleftrightarrow> tv_is_valid (validate_transition a b ACKNOWLEDGED)"
    by (auto simp: can_transition_to_def validate_transition_valid severity_inject [symmetric])
  show "tv_is_valid (validate_transition a b AUTOMATIC) \<longleftrightarrow> \<not> band_is_terminal a \<and> is_decay a b"
    by (simp add: validate_transition_valid band_is_terminal_def is_decay_def)
  show "(\<exists>n. calculate_decay_target a n = Inr b) \<longleftrightarrow> tv_is_valid (validate_transition a b AUTOMATIC)"
    by (simp add: calculate_decay_target_Inr validate_transition_valid)
  show "get_next_restoration_target a = Inr (Some b) \<longleftrightarrow>
      is_restoration a b \<and> tv_is_valid (validate_transition a b ACKNOWLEDGED)"
    by (cases a; cases b) (simp_all add: get_next_restoration_target_def is_restoration_def validate_transition_valid
      from_severity_def all_bands_def)
qed

end
