(* ===== verification/Deliberation_Session.thy ===== *)
theory Deliberation_Session
  imports Py_Text
begin

text \<open>
  A deliberation of the Three Fates (\<open>src/domain/models/deliberation_session.py\<close>): the aggregate that
  tracks phases, votes, rounds, timeouts, substitutions and aborts of one petition's deliberation. Every
  \<open>with_...\<close> method builds a new session through the constructor, whose checks are
  \<open>mk_deliberation_session\<close>; the clock readings (\<open>_utc_now()\<close>) are arguments.
\<close>

section \<open>Data\<close>

datatype deliberation_phase = ASSESS | POSITION | CROSS_EXAMINE | VOTE | COMPLETE

text \<open>\<open>DeliberationOutcome\<close>; its \<open>NO_RESPONSE\<close> is distinguished from the petition state of that name.\<close>

datatype deliberation_outcome = ACKNOWLEDGE | REFER | ESCALATE | DEFER | OUTCOME_NO_RESPONSE

fun phase_value :: "deliberation_phase \<Rightarrow> string" where
  "phase_value ASSESS = ''ASSESS''"
| "phase_value POSITION = ''POSITION''"
| "phase_value CROSS_EXAMINE = ''CROSS_EXAMINE''"
| "phase_value VOTE = ''VOTE''"
| "phase_value COMPLETE = ''COMPLETE''"

fun outcome_value :: "deliberation_outcome \<Rightarrow> string" where
  "outcome_value ACKNOWLEDGE = ''ACKNOWLEDGE''"
| "outcome_value REFER = ''REFER''"
| "outcome_value ESCALATE = ''ESCALATE''"
| "outcome_value DEFER = ''DEFER''"
| "outcome_value OUTCOME_NO_RESPONSE = ''NO_RESPONSE''"

definition phase_is_terminal :: "deliberation_phase \<Rightarrow> bool" where
  "phase_is_terminal p \<longleftrightarrow> p = COMPLETE"

fun next_phase :: "deliberation_phase \<Rightarrow> deliberation_phase option" where
  "next_phase ASSESS = Some POSITION"
| "next_phase POSITION = Some CROSS_EXAMINE"
| "next_phase CROSS_EXAMINE = Some VOTE"
| "next_phase VOTE = Some COMPLETE"
| "next_phase COMPLETE = None"

definition consensus_threshold :: nat where
  "consensus_threshold = 2"

definition required_archon_count :: nat where
  "required_archon_count = 3"

definition default_max_rounds :: int where
  "default_max_rounds = 3"

definition max_substitutions_per_session :: nat where
  "max_substitutions_per_session = 1"

record archon_substitution =
  as_failed_archon_id :: uuid
  as_substitute_archon_id :: uuid
  as_phase_at_failure :: deliberation_phase
  as_failure_reason :: string
  as_substituted_at :: datetime

definition valid_failure_reasons :: "string list" where
  "valid_failure_reasons = [''RESPONSE_TIMEOUT'', ''API_ERROR'', ''INVALID_RESPONSE'']"

definition valid_abort_reasons :: "string list" where
  "valid_abort_reasons = [''INSUFFICIENT_ARCHONS'', ''ARCHON_POOL_EXHAUSTED'']"

text \<open>\<open>str\<close> of a tuple of two or more strings.\<close>

definition repr_str_tuple :: "string list \<Rightarrow> string" where
  "repr_str_tuple xs = ''('' @ str_join '', '' (map py_repr xs) @ '')''"

definition mk_archon_substitution :: "archon_substitution \<Rightarrow> exn + archon_substitution" where
  "mk_archon_substitution sub =
     (if as_failed_archon_id sub = as_substitute_archon_id sub then
        Inl (Exn ValueError ''failed_archon_id and substitute_archon_id must be different'')
      else if as_failure_reason sub \<notin> set valid_failure_reasons then
        Inl (Exn ValueError (''failure_reason must be one of '' @ repr_str_tuple valid_failure_reasons @
          '', got '' @ [CHR 0x27] @ as_failure_reason sub @ [CHR 0x27]))
      else Inr sub)"

record deliberation_session =
  ds_session_id :: uuid
  ds_petition_id :: uuid
  ds_assigned_archons :: "uuid list"
  ds_phase :: deliberation_phase
  ds_phase_transcripts :: "(deliberation_phase, bytes) dict"
  ds_votes :: "(uuid, deliberation_outcome) dict"
  ds_outcome :: "deliberation_outcome option"
  ds_dissent_archon_id :: "uuid option"
  ds_created_at :: datetime
  ds_completed_at :: "datetime option"
  ds_version :: int
  ds_timeout_job_id :: "uuid option"
  ds_timeout_at :: "datetime option"
  ds_timed_out :: bool
  ds_round_count :: int
  ds_votes_by_round :: "(string, int) dict list"
  ds_is_deadlocked :: bool
  ds_deadlock_reason :: "string option"
  ds_substitutions :: "archon_substitution list"
  ds_is_aborted :: bool
  ds_abort_reason :: "string option"

section \<open>Construction\<close>

definition session_already_complete :: "uuid \<Rightarrow> string \<Rightarrow> exn" where
  "session_already_complete session_id message = Exn SessionAlreadyCompleteError
     (''Session '' @ uuid_str session_id @ '': '' @ message @
      ''. Completed sessions are immutable to preserve witness integrity (CT-12).'')"

definition invalid_archon_assignment :: "string \<Rightarrow> exn" where
  "invalid_archon_assignment message = Exn InvalidArchonAssignmentError
     (message @ ''. FR-11.1: System SHALL assign exactly 3 Marquis-rank Archons.'')"

definition consensus_not_reached :: "string \<Rightarrow> nat \<Rightarrow> nat \<Rightarrow> exn" where
  "consensus_not_reached message votes_received votes_required = Exn ConsensusNotReachedError
     (message @ '' (votes_received='' @ show_nat votes_received @ '', votes_required='' @ show_nat votes_required @
      ''). Constitutional Truth AT-6: Deliberation is collective judgment.'')"

definition validate_archons :: "deliberation_session \<Rightarrow> exn + unit" where
  "validate_archons s =
     (let n = length (ds_assigned_archons s) in
      if n \<noteq> required_archon_count then
        Inl (invalid_archon_assignment (''Exactly 3 archons required, got '' @ show_nat n))
      else if length (remdups (ds_assigned_archons s)) \<noteq> required_archon_count then
        Inl (invalid_archon_assignment ''Duplicate archon IDs not allowed'')
      else Inr ())"

text \<open>The dictionary of counts, as the loop over the votes builds it.\<close>

fun tally_votes :: "('o, nat) dict \<Rightarrow> 'o list \<Rightarrow> ('o, nat) dict" where
  "tally_votes counts [] = counts"
| "tally_votes counts (v # vs) =
     tally_votes (dict_set v ((case dict_get counts v of None \<Rightarrow> 0 | Some n \<Rightarrow> n) + 1) counts) vs"

definition validate_phase_state :: "deliberation_session \<Rightarrow> exn + unit" where
  "validate_phase_state s =
     (let round_check = (if ds_round_count s < 1 then
          Inl (Exn ValueError (''round_count must be >= 1, got '' @ show_int (ds_round_count s))) else Inr ())
      in case ds_outcome s of
        None \<Rightarrow> round_check
      | Some outcome \<Rightarrow>
          if ds_timed_out s \<or> ds_is_deadlocked s \<or> ds_is_aborted s then Inr ()
          else if length (ds_votes s) \<noteq> required_archon_count then
            Inl (consensus_not_reached ''Outcome set without all 3 votes recorded'' (length (ds_votes s)) 3)
          else
            let n = (case dict_get (tally_votes [] (map snd (ds_votes s))) outcome of None \<Rightarrow> 0 | Some n \<Rightarrow> n) in
            if n < consensus_threshold then
              Inl (consensus_not_reached (''Outcome '' @ outcome_value outcome @ '' does not have 2-of-3 consensus'')
                n consensus_threshold)
            else round_check)"

definition mk_deliberation_session :: "deliberation_session \<Rightarrow> exn + deliberation_session" where
  "mk_deliberation_session s =
     (case validate_archons s of Inl e \<Rightarrow> Inl e
      | Inr _ \<Rightarrow> (case validate_phase_state s of Inl e \<Rightarrow> Inl e | Inr _ \<Rightarrow> Inr s))"

definition create_session :: "uuid \<Rightarrow> uuid \<Rightarrow> uuid list \<Rightarrow> datetime \<Rightarrow> exn + deliberation_session" where
  "create_session session_id petition_id assigned_archons now = mk_deliberation_session
     \<lparr>ds_session_id = session_id, ds_petition_id = petition_id, ds_assigned_archons = assigned_archons,
      ds_phase = ASSESS, ds_phase_transcripts = [], ds_votes = [], ds_outcome = None,
      ds_dissent_archon_id = None, ds_created_at = now, ds_completed_at = None, ds_version = 1,
      ds_timeout_job_id = None, ds_timeout_at = None, ds_timed_out = False, ds_round_count = 1,
      ds_votes_by_round = [], ds_is_deadlocked = False, ds_deadlock_reason = None, ds_substitutions = [],
      ds_is_aborted = False, ds_abort_reason = None\<rparr>"

section \<open>Queries\<close>

definition substitution_count :: "deliberation_session \<Rightarrow> nat" where
  "substitution_count s = length (ds_substitutions s)"

definition has_substitution :: "deliberation_session \<Rightarrow> bool" where
  "has_substitution s \<longleftrightarrow> length (ds_substitutions s) > 0"

definition can_substitute :: "deliberation_session \<Rightarrow> bool" where
  "can_substitute s \<longleftrightarrow> substitution_count s < max_substitutions_per_session"

text \<open>The set of active archons, as the list of its elements in the order of their text.\<close>

fun apply_substitutions :: "archon_substitution list \<Rightarrow> uuid list \<Rightarrow> uuid list" where
  "apply_substitutions [] active = active"
| "apply_substitutions (sub # subs) active =
     (let kept = removeAll (as_failed_archon_id sub) active
      in apply_substitutions subs
        (if as_substitute_archon_id sub \<in> set kept then kept else kept @ [as_substitute_archon_id sub]))"

definition current_active_archons :: "deliberation_session \<Rightarrow> uuid list" where
  "current_active_archons s =
     sort_key uuid_str (apply_substitutions (ds_substitutions s) (remdups (ds_assigned_archons s)))"

definition failed_archon_ids :: "deliberation_session \<Rightarrow> uuid list" where
  "failed_archon_ids s = map as_failed_archon_id (ds_substitutions s)"

definition is_archon_assigned :: "deliberation_session \<Rightarrow> uuid \<Rightarrow> bool" where
  "is_archon_assigned s archon_id \<longleftrightarrow> archon_id \<in> set (ds_assigned_archons s)"

definition get_archon_vote :: "deliberation_session \<Rightarrow> uuid \<Rightarrow> deliberation_outcome option" where
  "get_archon_vote s archon_id = dict_get (ds_votes s) archon_id"

definition has_transcript :: "deliberation_session \<Rightarrow> deliberation_phase \<Rightarrow> bool" where
  "has_transcript s p \<longleftrightarrow> dict_get (ds_phase_transcripts s) p \<noteq> None"

definition has_timeout_scheduled :: "deliberation_session \<Rightarrow> bool" where
  "has_timeout_scheduled s \<longleftrightarrow> ds_timeout_job_id s \<noteq> None"

definition can_retry_cross_examine :: "deliberation_session \<Rightarrow> int \<Rightarrow> bool" where
  "can_retry_cross_examine s max_rounds \<longleftrightarrow> ds_round_count s < max_rounds"

section \<open>Operations\<close>

definition invalid_phase_transition ::
  "deliberation_phase \<Rightarrow> deliberation_phase \<Rightarrow> deliberation_phase option \<Rightarrow> exn" where
  "invalid_phase_transition from_phase to_phase expected_phase = Exn InvalidPhaseTransitionError
     (''Invalid phase transition from '' @ phase_value from_phase @ '' to '' @ phase_value to_phase @
      ''. Expected next phase: '' @ (case expected_phase of None \<Rightarrow> ''None (terminal)'' | Some p \<Rightarrow> phase_value p) @
      ''. Deliberation protocol requires strict sequence: ASSESS -> POSITION -> CROSS_EXAMINE -> VOTE -> COMPLETE (FR-11.4)'')"

definition with_phase :: "deliberation_phase \<Rightarrow> datetime \<Rightarrow> deliberation_session \<Rightarrow> exn + deliberation_session" where
  "with_phase new_phase now s =
     (if phase_is_terminal (ds_phase s) then
        Inl (session_already_complete (ds_session_id s) ''Cannot modify completed deliberation session'')
      else if Some new_phase \<noteq> next_phase (ds_phase s) then
        Inl (invalid_phase_transition (ds_phase s) new_phase (next_phase (ds_phase s)))
      else mk_deliberation_session (s\<lparr>ds_phase := new_phase,
        ds_completed_at := (if new_phase = COMPLETE then Some now else ds_completed_at s),
        ds_version := ds_version s + 1\<rparr>))"

definition with_transcript :: "deliberation_phase \<Rightarrow> bytes \<Rightarrow> deliberation_session \<Rightarrow> exn + deliberation_session" where
  "with_transcript phase transcript_hash s =
     (if phase_is_terminal (ds_phase s) then
        Inl (session_already_complete (ds_session_id s) ''Cannot modify completed deliberation session'')
      else if length transcript_hash \<noteq> 32 then Inl (Exn ValueError ''Transcript hash must be 32 bytes (Blake3)'')
      else mk_deliberation_session (s\<lparr>ds_phase_transcripts := dict_set phase transcript_hash (ds_phase_transcripts s),
        ds_version := ds_version s + 1\<rparr>))"

definition with_votes :: "(uuid, deliberation_outcome) dict \<Rightarrow> deliberation_session \<Rightarrow> exn + deliberation_session" where
  "with_votes votes s =
     (if phase_is_terminal (ds_phase s) then
        Inl (session_already_complete (ds_session_id s) ''Cannot modify completed deliberation session'')
      else if length votes \<noteq> required_archon_count then
        Inl (Exn ValueError (''Exactly 3 votes required, got '' @ show_nat (length votes)))
      else case find (\<lambda>a. a \<notin> set (current_active_archons s)) (map fst votes) of
        Some archon_id \<Rightarrow>
          Inl (invalid_archon_assignment (''Archon '' @ uuid_str archon_id @ '' is not active in this session''))
      | None \<Rightarrow> mk_deliberation_session (s\<lparr>ds_votes := votes, ds_version := ds_version s + 1\<rparr>))"

text \<open>The voters of each outcome, in the order the loop meets them.\<close>

fun group_votes :: "('o, 'a list) dict \<Rightarrow> ('a \<times> 'o) list \<Rightarrow> ('o, 'a list) dict" where
  "group_votes counts [] = counts"
| "group_votes counts ((archon_id, vote) # votes) =
     group_votes (dict_set vote ((case dict_get counts vote of None \<Rightarrow> [] | Some xs \<Rightarrow> xs) @ [archon_id]) counts) votes"

definition find_majority :: "('o, 'a list) dict \<Rightarrow> ('o \<times> 'a list) option" where
  "find_majority counts = find (\<lambda>(outcome, voters). length voters \<ge> consensus_threshold) counts"

definition find_dissenter :: "'o \<Rightarrow> ('o, 'a list) dict \<Rightarrow> 'a option" where
  "find_dissenter outcome counts =
     (case find (\<lambda>(other, voters). other \<noteq> outcome \<and> length voters = 1) counts of
        None \<Rightarrow> None | Some (_, voters) \<Rightarrow> Some (voters ! 0))"

definition with_outcome :: "datetime \<Rightarrow> deliberation_session \<Rightarrow> exn + deliberation_session" where
  "with_outcome now s =
     (if phase_is_terminal (ds_phase s) then
        Inl (session_already_complete (ds_session_id s) ''Cannot modify completed deliberation session'')
      else if length (ds_votes s) \<noteq> required_archon_count then
        Inl (consensus_not_reached ''Cannot resolve outcome without all 3 votes'' (length (ds_votes s)) 3)
      else let vote_counts = group_votes [] (ds_votes s) in
        case find_majority vote_counts of
          None \<Rightarrow> Inl (consensus_not_reached ''No outcome achieved 2-of-3 consensus'' (length (ds_votes s)) consensus_threshold)
        | Some (resolved_outcome, _) \<Rightarrow>
            mk_deliberation_session (s\<lparr>ds_phase := COMPLETE, ds_outcome := Some resolved_outcome,
              ds_dissent_archon_id := find_dissenter resolved_outcome vote_counts,
              ds_completed_at := Some now, ds_version := ds_version s + 1\<rparr>))"

text \<open>A model \<open>datetime\<close> is always timezone-aware, so the check of \<open>tzinfo\<close> never fails.\<close>

definition with_timeout_scheduled :: "uuid \<Rightarrow> datetime \<Rightarrow> deliberation_session \<Rightarrow> exn + deliberation_session" where
  "with_timeout_scheduled job_id timeout_at s =
     (if phase_is_terminal (ds_phase s) then
        Inl (session_already_complete (ds_session_id s) ''Cannot schedule timeout on completed session'')
      else mk_deliberation_session (s\<lparr>ds_timeout_job_id := Some job_id, ds_timeout_at := Some timeout_at,
        ds_version := ds_version s + 1\<rparr>))"

definition with_timeout_cancelled :: "deliberation_session \<Rightarrow> exn + deliberation_session" where
  "with_timeout_cancelled s = mk_deliberation_session
     (s\<lparr>ds_timeout_job_id := None, ds_timeout_at := None, ds_version := ds_version s + 1\<rparr>)"

definition with_timeout_triggered :: "datetime \<Rightarrow> deliberation_session \<Rightarrow> exn + deliberation_session" where
  "with_timeout_triggered now s =
     (if phase_is_terminal (ds_phase s) then
        Inl (session_already_complete (ds_session_id s) ''Cannot timeout already completed session'')
      else mk_deliberation_session (s\<lparr>ds_phase := COMPLETE, ds_outcome := Some ESCALATE,
        ds_dissent_archon_id := None, ds_completed_at := Some now, ds_version := ds_version s + 1,
        ds_timed_out := True\<rparr>))"

definition with_new_round :: "(string, int) dict \<Rightarrow> deliberation_session \<Rightarrow> exn + deliberation_session" where
  "with_new_round previous_vote_distribution s =
     (if phase_is_terminal (ds_phase s) then
        Inl (session_already_complete (ds_session_id s) ''Cannot start new round on completed session'')
      else mk_deliberation_session (s\<lparr>ds_phase := CROSS_EXAMINE, ds_votes := [], ds_version := ds_version s + 1,
        ds_round_count := ds_round_count s + 1,
        ds_votes_by_round := ds_votes_by_round s @ [previous_vote_distribution]\<rparr>))"

definition with_deadlock_outcome ::
  "(string, int) dict \<Rightarrow> datetime \<Rightarrow> deliberation_session \<Rightarrow> exn + deliberation_session" where
  "with_deadlock_outcome final_vote_distribution now s =
     (if phase_is_terminal (ds_phase s) then
        Inl (session_already_complete (ds_session_id s) ''Cannot apply deadlock outcome to completed session'')
      else mk_deliberation_session (s\<lparr>ds_phase := COMPLETE, ds_outcome := Some ESCALATE,
        ds_dissent_archon_id := None, ds_completed_at := Some now, ds_version := ds_version s + 1,
        ds_votes_by_round := ds_votes_by_round s @ [final_vote_distribution],
        ds_is_deadlocked := True, ds_deadlock_reason := Some ''DEADLOCK_MAX_ROUNDS_EXCEEDED''\<rparr>))"

definition with_substitution ::
  "uuid \<Rightarrow> uuid \<Rightarrow> string \<Rightarrow> datetime \<Rightarrow> deliberation_session \<Rightarrow> exn + deliberation_session" where
  "with_substitution failed_archon_id substitute_archon_id failure_reason now s =
     (if phase_is_terminal (ds_phase s) then
        Inl (session_already_complete (ds_session_id s) ''Cannot substitute archon in completed session'')
      else if \<not> can_substitute s then
        Inl (Exn ValueError ''Substitution limit exceeded: max 1 substitution(s) per session (NFR-10.6)'')
      else if failed_archon_id \<notin> set (current_active_archons s) then
        Inl (Exn ValueError (''Archon '' @ uuid_str failed_archon_id @ '' is not currently active in this session''))
      else if substitute_archon_id \<in> set (current_active_archons s) then
        Inl (Exn ValueError (''Archon '' @ uuid_str substitute_archon_id @ '' is already active in this session''))
      else case mk_archon_substitution \<lparr>as_failed_archon_id = failed_archon_id,
          as_substitute_archon_id = substitute_archon_id, as_phase_at_failure = ds_phase s,
          as_failure_reason = failure_reason, as_substituted_at = now\<rparr> of
        Inl e \<Rightarrow> Inl e
      | Inr substitution \<Rightarrow> mk_deliberation_session (s\<lparr>ds_version := ds_version s + 1,
          ds_substitutions := ds_substitutions s @ [substitution]\<rparr>))"

definition with_abort :: "string \<Rightarrow> datetime \<Rightarrow> deliberation_session \<Rightarrow> exn + deliberation_session" where
  "with_abort reason now s =
     (if phase_is_terminal (ds_phase s) then
        Inl (session_already_complete (ds_session_id s) ''Cannot abort already completed session'')
      else if reason \<notin> set valid_abort_reasons then
        Inl (Exn ValueError (''reason must be one of '' @ repr_str_tuple valid_abort_reasons @
          '', got '' @ [CHR 0x27] @ reason @ [CHR 0x27]))
      else mk_deliberation_session (s\<lparr>ds_phase := COMPLETE, ds_outcome := Some ESCALATE,
        ds_dissent_archon_id := None, ds_completed_at := Some now, ds_version := ds_version s + 1,
        ds_is_aborted := True, ds_abort_reason := Some reason\<rparr>))"

section \<open>Counting votes\<close>

lemma dict_get_tally_votes:
  "dict_get (tally_votes c vs) x =
     (if count_list vs x = 0 then dict_get c x
      else Some ((case dict_get c x of None \<Rightarrow> 0 | Some n \<Rightarrow> n) + count_list vs x))"
  by (induction vs arbitrary: c) (auto simp: dict_get_set split: option.splits)

lemma dict_ok_group_votes: "dict_ok c \<Longrightarrow> dict_ok (group_votes c vs)"
  by (induction c vs rule: group_votes.induct) (auto simp: dict_ok_set)

text \<open>Who voted for an outcome.\<close>

definition voters_for :: "'o \<Rightarrow> ('a \<times> 'o) list \<Rightarrow> 'a list" where
  "voters_for x vs = map fst (filter (\<lambda>p. snd p = x) vs)"

lemma dict_get_group_votes:
  "dict_get (group_votes c vs) x =
     (case voters_for x vs of
        [] \<Rightarrow> dict_get c x
      | voters \<Rightarrow> Some ((case dict_get c x of None \<Rightarrow> [] | Some xs \<Rightarrow> xs) @ voters))"
  by (induction c vs rule: group_votes.induct) (auto simp: voters_for_def dict_get_set split: option.splits list.splits)

lemma find_SomeD: "find P xs = Some x \<Longrightarrow> x \<in> set xs \<and> P x"
  by (induction xs) (auto split: if_splits)

lemma group_votes_mem:
  "(x, voters) \<in> set (group_votes [] vs) \<longleftrightarrow> voters = voters_for x vs \<and> voters \<noteq> []"
proof -
  have "dict_ok (group_votes [] vs)" by (rule dict_ok_group_votes) (simp add: dict_ok_def)
  then have "(x, voters) \<in> set (group_votes [] vs) \<longleftrightarrow> dict_get (group_votes [] vs) x = Some voters"
    by (rule dict_get_Some_iff [symmetric])
  then show ?thesis by (auto simp: dict_get_group_votes split: list.splits)
qed

lemma find_majority_Some:
  "find_majority (group_votes [] vs) = Some (x, voters) \<Longrightarrow>
     voters = voters_for x vs \<and> length (voters_for x vs) \<ge> 2"
  by (auto simp: find_majority_def consensus_threshold_def group_votes_mem dest!: find_SomeD)

lemma find_majority_None:
  "find_majority (group_votes [] vs) = None \<longleftrightarrow> (\<forall>x. length (voters_for x vs) < 2)"
proof
  assume none: "find_majority (group_votes [] vs) = None"
  show "\<forall>x. length (voters_for x vs) < 2"
  proof
    fix x
    show "length (voters_for x vs) < 2"
    proof (rule ccontr)
      assume many: "\<not> length (voters_for x vs) < 2"
      then have "(x, voters_for x vs) \<in> set (group_votes [] vs)" by (auto simp: group_votes_mem)
      with none many show False by (force simp: find_majority_def consensus_threshold_def find_None_iff not_less)
    qed
  qed
next
  assume "\<forall>x. length (voters_for x vs) < 2"
  then show "find_majority (group_votes [] vs) = None"
    by (auto simp: find_majority_def consensus_threshold_def find_None_iff group_votes_mem not_le)
qed

lemma find_dissenter_None:
  "find_dissenter x (group_votes [] vs) = None \<longleftrightarrow> (\<forall>y. y \<noteq> x \<longrightarrow> length (voters_for y vs) \<noteq> 1)"
proof
  assume none: "find_dissenter x (group_votes [] vs) = None"
  show "\<forall>y. y \<noteq> x \<longrightarrow> length (voters_for y vs) \<noteq> 1"
  proof (intro allI impI notI)
    fix y assume y: "y \<noteq> x" "length (voters_for y vs) = 1"
    then have "(y, voters_for y vs) \<in> set (group_votes [] vs)" by (auto simp: group_votes_mem)
    with none y show False by (auto simp: find_dissenter_def find_None_iff split: option.splits)
  qed
next
  assume "\<forall>y. y \<noteq> x \<longrightarrow> length (voters_for y vs) \<noteq> 1"
  then show "find_dissenter x (group_votes [] vs) = None"
    by (auto simp: find_dissenter_def group_votes_mem split: option.splits dest!: find_SomeD)
qed

text \<open>Three votes: a majority outcome is unique, and the dissenter is whoever voted otherwise.\<close>

lemma three_votes:
  assumes "length vs = 3" and "2 \<le> length (voters_for x vs)"
  shows "2 \<le> length (voters_for y vs) \<Longrightarrow> y = x"
    and "find_dissenter x (group_votes [] vs) = (case filter (\<lambda>p. snd p \<noteq> x) vs of [] \<Rightarrow> None | p # _ \<Rightarrow> Some (fst p))"
proof -
  obtain a b c u v w where vs: "vs = [(a, u), (b, v), (c, w)]"
    using assms(1) by (auto simp: numeral_3_eq_3 length_Suc_conv)
  show "2 \<le> length (voters_for y vs) \<Longrightarrow> y = x"
    using assms(2) by (auto simp: vs voters_for_def split: if_splits)
  show "find_dissenter x (group_votes [] vs) = (case filter (\<lambda>p. snd p \<noteq> x) vs of [] \<Rightarrow> None | p # _ \<Rightarrow> Some (fst p))"
    using assms(2) by (auto simp: vs voters_for_def find_dissenter_def dict_get_def split: if_splits)
qed

lemma find_majority_three:
  assumes "length vs = 3"
  shows "find_majority (group_votes [] vs) = Some (x, voters) \<longleftrightarrow> voters = voters_for x vs \<and> 2 \<le> length (voters_for x vs)"
proof
  assume *: "voters = voters_for x vs \<and> 2 \<le> length (voters_for x vs)"
  then obtain y ys where y: "find_majority (group_votes [] vs) = Some (y, ys)"
    using find_majority_None [of vs] by (cases "find_majority (group_votes [] vs)") (auto simp: not_le [symmetric])
  with three_votes(1) [OF assms, of x y] * show "find_majority (group_votes [] vs) = Some (x, voters)"
    by (auto dest: find_majority_Some)
qed (auto dest: find_majority_Some)

section \<open>Histories of a session\<close>

datatype session_op =
    Op_phase deliberation_phase
  | Op_transcript deliberation_phase bytes
  | Op_votes "(uuid, deliberation_outcome) dict"
  | Op_outcome
  | Op_timeout_scheduled uuid datetime
  | Op_timeout_cancelled
  | Op_timeout_triggered
  | Op_new_round "(string, int) dict"
  | Op_deadlock "(string, int) dict"
  | Op_substitution uuid uuid string
  | Op_abort string

fun apply_op :: "datetime \<Rightarrow> session_op \<Rightarrow> deliberation_session \<Rightarrow> exn + deliberation_session" where
  "apply_op now (Op_phase p) s = with_phase p now s"
| "apply_op now (Op_transcript p h) s = with_transcript p h s"
| "apply_op now (Op_votes votes) s = with_votes votes s"
| "apply_op now Op_outcome s = with_outcome now s"
| "apply_op now (Op_timeout_scheduled j t) s = with_timeout_scheduled j t s"
| "apply_op now Op_timeout_cancelled s = with_timeout_cancelled s"
| "apply_op now Op_timeout_triggered s = with_timeout_triggered now s"
| "apply_op now (Op_new_round d) s = with_new_round d s"
| "apply_op now (Op_deadlock d) s = with_deadlock_outcome d now s"
| "apply_op now (Op_substitution f r why) s = with_substitution f r why now s"
| "apply_op now (Op_abort why) s = with_abort why now s"

text \<open>The votes argument is a Python dictionary: its keys are distinct.\<close>

fun op_ok :: "session_op \<Rightarrow> bool" where
  "op_ok (Op_votes votes) = dict_ok votes"
| "op_ok _ = True"

inductive session_reachable :: "deliberation_session \<Rightarrow> bool" where
  created: "create_session i p archons now = Inr s \<Longrightarrow> session_reachable s"
| stepped: "session_reachable s \<Longrightarrow> op_ok op \<Longrightarrow> apply_op now op s = Inr s' \<Longrightarrow> session_reachable s'"

definition forced :: "deliberation_session \<Rightarrow> bool" where
  "forced s \<longleftrightarrow> ds_timed_out s \<or> ds_is_deadlocked s \<or> ds_is_aborted s"

text \<open>Who may have voted: the archons assigned and their substitutes.\<close>

definition ever_active :: "deliberation_session \<Rightarrow> uuid set" where
  "ever_active s = set (ds_assigned_archons s) \<union> as_substitute_archon_id ` set (ds_substitutions s)"

definition archons_ok :: "deliberation_session \<Rightarrow> bool" where
  "archons_ok s \<longleftrightarrow> length (ds_assigned_archons s) = 3 \<and> distinct (ds_assigned_archons s) \<and>
     length (ds_substitutions s) \<le> 1 \<and>
     (\<forall>sub \<in> set (ds_substitutions s). as_failed_archon_id sub \<in> set (ds_assigned_archons s) \<and>
        as_substitute_archon_id sub \<notin> set (ds_assigned_archons s))"

definition votes_ok :: "deliberation_session \<Rightarrow> bool" where
  "votes_ok s \<longleftrightarrow> dict_ok (ds_votes s) \<and> (ds_votes s = [] \<or> length (ds_votes s) = 3) \<and>
     fst ` set (ds_votes s) \<subseteq> ever_active s"

definition rounds_ok :: "deliberation_session \<Rightarrow> bool" where
  "rounds_ok s \<longleftrightarrow> 1 \<le> ds_round_count s \<and>
     int (length (ds_votes_by_round s)) = ds_round_count s - (if ds_is_deadlocked s then 0 else 1)"

text \<open>How a session ended, if it did.\<close>

definition ending_ok :: "deliberation_session \<Rightarrow> bool" where
  "ending_ok s \<longleftrightarrow> (ds_phase s = COMPLETE \<longleftrightarrow> ds_completed_at s \<noteq> None) \<and>
     (case ds_outcome s of
        None \<Rightarrow> \<not> forced s \<and> ds_dissent_archon_id s = None
      | Some x \<Rightarrow> ds_phase s = COMPLETE \<and>
          (if forced s then x = ESCALATE \<and> ds_dissent_archon_id s = None
           else length (ds_votes s) = 3 \<and> 2 \<le> length (voters_for x (ds_votes s)) \<and>
             ds_dissent_archon_id s = (case filter (\<lambda>p. snd p \<noteq> x) (ds_votes s) of [] \<Rightarrow> None | p # _ \<Rightarrow> Some (fst p))))"

definition session_inv :: "deliberation_session \<Rightarrow> bool" where
  "session_inv s \<longleftrightarrow> archons_ok s \<and> votes_ok s \<and> rounds_ok s \<and> ending_ok s \<and> 1 \<le> ds_version s"

lemma mk_session_Inr: "mk_deliberation_session s = Inr s' \<Longrightarrow> s' = s"
  by (auto simp: mk_deliberation_session_def split: sum.splits)

lemma validate_archons_Inr:
  "validate_archons s = Inr () \<longleftrightarrow> length (ds_assigned_archons s) = 3 \<and> distinct (ds_assigned_archons s)"
proof -
  have "length (remdups (ds_assigned_archons s)) = length (ds_assigned_archons s) \<longleftrightarrow> distinct (ds_assigned_archons s)"
    by (metis length_remdups_card_conv card_distinct distinct_card)
  then have "length (remdups (ds_assigned_archons s)) = 3 \<longleftrightarrow> distinct (ds_assigned_archons s)"
    if "length (ds_assigned_archons s) = 3" using that by simp
  then show ?thesis by (simp add: validate_archons_def required_archon_count_def Let_def del: length_remdups_card_conv)
qed

lemma mk_session_archons: "mk_deliberation_session s = Inr s' \<Longrightarrow> length (ds_assigned_archons s) = 3 \<and> distinct (ds_assigned_archons s)"
  by (auto simp: mk_deliberation_session_def validate_archons_Inr [symmetric] split: sum.splits)

text \<open>The active archons are always three.\<close>

lemma active_archons:
  assumes "archons_ok s"
  shows "length (current_active_archons s) = 3" and "distinct (current_active_archons s)"
    and "set (current_active_archons s) \<subseteq> ever_active s"
proof -
  note a = assms [unfolded archons_ok_def]
  consider "ds_substitutions s = []" | sub where "ds_substitutions s = [sub]"
    using a by (cases "ds_substitutions s") auto
  then have "length (current_active_archons s) = 3 \<and> distinct (current_active_archons s) \<and>
      set (current_active_archons s) \<subseteq> ever_active s"
  proof cases
    case 1
    then show ?thesis using a by (simp add: current_active_archons_def ever_active_def distinct_remdups_id)
  next
    case 2
    then show ?thesis using a
      by (auto simp: current_active_archons_def ever_active_def distinct_remdups_id distinct_removeAll
          length_remove1 distinct_remove1_removeAll [symmetric] set_remove1_eq)
  qed
  then show "length (current_active_archons s) = 3" "distinct (current_active_archons s)"
    "set (current_active_archons s) \<subseteq> ever_active s" by auto
qed

text \<open>What each operation returns when it does not raise.\<close>

lemma with_phase_Inr:
  "with_phase p now s = Inr s' \<Longrightarrow> ds_phase s \<noteq> COMPLETE \<and> next_phase (ds_phase s) = Some p \<and>
     s' = s\<lparr>ds_phase := p, ds_completed_at := (if p = COMPLETE then Some now else ds_completed_at s),
       ds_version := ds_version s + 1\<rparr>"
  by (auto simp: with_phase_def phase_is_terminal_def split: if_splits dest!: mk_session_Inr)

lemma with_transcript_Inr:
  "with_transcript p h s = Inr s' \<Longrightarrow> ds_phase s \<noteq> COMPLETE \<and>
     s' = s\<lparr>ds_phase_transcripts := dict_set p h (ds_phase_transcripts s), ds_version := ds_version s + 1\<rparr>"
  by (auto simp: with_transcript_def phase_is_terminal_def split: if_splits dest!: mk_session_Inr)

lemma with_votes_Inr:
  "with_votes votes s = Inr s' \<Longrightarrow> ds_phase s \<noteq> COMPLETE \<and> length votes = 3 \<and>
     fst ` set votes \<subseteq> set (current_active_archons s) \<and> s' = s\<lparr>ds_votes := votes, ds_version := ds_version s + 1\<rparr>"
  by (auto simp: with_votes_def phase_is_terminal_def required_archon_count_def find_None_iff
      split: if_splits option.splits dest!: mk_session_Inr)

lemma with_outcome_Inr:
  "with_outcome now s = Inr s' \<Longrightarrow> ds_phase s \<noteq> COMPLETE \<and> length (ds_votes s) = 3 \<and>
     (\<exists>x. 2 \<le> length (voters_for x (ds_votes s)) \<and>
       s' = s\<lparr>ds_phase := COMPLETE, ds_outcome := Some x,
         ds_dissent_archon_id := find_dissenter x (group_votes [] (ds_votes s)),
         ds_completed_at := Some now, ds_version := ds_version s + 1\<rparr>)"
  by (auto simp: with_outcome_def phase_is_terminal_def required_archon_count_def Let_def
      split: if_splits option.splits dest!: mk_session_Inr find_majority_Some)

lemma with_timeout_Inr:
  "with_timeout_scheduled j t s = Inr s' \<Longrightarrow> ds_phase s \<noteq> COMPLETE \<and>
     s' = s\<lparr>ds_timeout_job_id := Some j, ds_timeout_at := Some t, ds_version := ds_version s + 1\<rparr>"
  "with_timeout_cancelled s = Inr s' \<Longrightarrow>
     s' = s\<lparr>ds_timeout_job_id := None, ds_timeout_at := None, ds_version := ds_version s + 1\<rparr>"
  "with_timeout_triggered now s = Inr s' \<Longrightarrow> ds_phase s \<noteq> COMPLETE \<and>
     s' = s\<lparr>ds_phase := COMPLETE, ds_outcome := Some ESCALATE, ds_dissent_archon_id := None,
       ds_completed_at := Some now, ds_version := ds_version s + 1, ds_timed_out := True\<rparr>"
  by (auto simp: with_timeout_scheduled_def with_timeout_cancelled_def with_timeout_triggered_def phase_is_terminal_def
      split: if_splits dest!: mk_session_Inr)

lemma with_round_Inr:
  "with_new_round d s = Inr s' \<Longrightarrow> ds_phase s \<noteq> COMPLETE \<and>
     s' = s\<lparr>ds_phase := CROSS_EXAMINE, ds_votes := [], ds_version := ds_version s + 1,
       ds_round_count := ds_round_count s + 1, ds_votes_by_round := ds_votes_by_round s @ [d]\<rparr>"
  "with_deadlock_outcome d now s = Inr s' \<Longrightarrow> ds_phase s \<noteq> COMPLETE \<and>
     s' = s\<lparr>ds_phase := COMPLETE, ds_outcome := Some ESCALATE, ds_dissent_archon_id := None,
       ds_completed_at := Some now, ds_version := ds_version s + 1, ds_votes_by_round := ds_votes_by_round s @ [d],
       ds_is_deadlocked := True, ds_deadlock_reason := Some ''DEADLOCK_MAX_ROUNDS_EXCEEDED''\<rparr>"
  by (auto simp: with_new_round_def with_deadlock_outcome_def phase_is_terminal_def
      split: if_splits dest!: mk_session_Inr)

lemma with_abort_Inr:
  "with_abort why now s = Inr s' \<Longrightarrow> ds_phase s \<noteq> COMPLETE \<and>
     s' = s\<lparr>ds_phase := COMPLETE, ds_outcome := Some ESCALATE, ds_dissent_archon_id := None,
       ds_completed_at := Some now, ds_version := ds_version s + 1, ds_is_aborted := True, ds_abort_reason := Some why\<rparr>"
  by (auto simp: with_abort_def phase_is_terminal_def split: if_splits dest!: mk_session_Inr)

lemma with_substitution_Inr:
  "with_substitution f r why now s = Inr s' \<Longrightarrow> ds_phase s \<noteq> COMPLETE \<and> ds_substitutions s = [] \<and>
     f \<in> set (current_active_archons s) \<and> r \<notin> set (current_active_archons s) \<and>
     s' = s\<lparr>ds_version := ds_version s + 1, ds_substitutions := ds_substitutions s @
       [\<lparr>as_failed_archon_id = f, as_substitute_archon_id = r, as_phase_at_failure = ds_phase s,
         as_failure_reason = why, as_substituted_at = now\<rparr>]\<rparr>"
  by (auto simp: with_substitution_def phase_is_terminal_def can_substitute_def substitution_count_def
      max_substitutions_per_session_def mk_archon_substitution_def split: if_splits sum.splits dest!: mk_session_Inr)

text \<open>Every operation keeps the invariant.\<close>

lemmas part_unfold = archons_ok_def votes_ok_def rounds_ok_def forced_def ever_active_def

lemma ending_live:
  "ds_phase s \<noteq> COMPLETE \<Longrightarrow> ending_ok s \<longleftrightarrow> ds_completed_at s = None \<and> ds_outcome s = None \<and> \<not> forced s \<and>
     ds_dissent_archon_id s = None"
  by (auto simp: ending_ok_def split: option.splits)

lemma create_inv:
  assumes "create_session i p archons now = Inr s"
  shows "session_inv s"
proof -
  note run = assms [unfolded create_session_def]
  show ?thesis using mk_session_archons [OF run]
    by (simp add: mk_session_Inr [OF run] session_inv_def ending_live part_unfold dict_ok_def)
qed

lemma with_phase_inv:
  assumes inv: "session_inv s" and run: "with_phase p now s = Inr s'"
  shows "session_inv s'"
proof -
  note r = with_phase_Inr [OF run]
  have "ending_ok s" using inv by (simp add: session_inv_def)
  then have "ds_completed_at s = None \<and> ds_outcome s = None \<and> \<not> forced s \<and> ds_dissent_archon_id s = None"
    using r ending_live by blast
  then have "ending_ok s'" using r by (auto simp: ending_ok_def forced_def)
  then show ?thesis using inv r by (simp add: session_inv_def part_unfold)
qed

lemma with_transcript_inv: "session_inv s \<Longrightarrow> with_transcript p h s = Inr s' \<Longrightarrow> session_inv s'"
  by (drule with_transcript_Inr) (simp add: session_inv_def ending_live part_unfold)

lemma with_votes_inv:
  assumes inv: "session_inv s" and "dict_ok votes" and run: "with_votes votes s = Inr s'"
  shows "session_inv s'"
proof -
  note r = with_votes_Inr [OF run]
  have "fst ` set votes \<subseteq> ever_active s"
    using r active_archons(3) [of s] inv by (auto simp: session_inv_def)
  then show ?thesis using inv r assms(2) by (simp add: session_inv_def ending_live part_unfold)
qed

lemma with_outcome_inv:
  assumes inv: "session_inv s" and run: "with_outcome now s = Inr s'"
  shows "session_inv s'"
proof -
  obtain x where live: "ds_phase s \<noteq> COMPLETE" and n: "length (ds_votes s) = 3"
    and two: "2 \<le> length (voters_for x (ds_votes s))"
    and s': "s' = s\<lparr>ds_phase := COMPLETE, ds_outcome := Some x,
      ds_dissent_archon_id := find_dissenter x (group_votes [] (ds_votes s)),
      ds_completed_at := Some now, ds_version := ds_version s + 1\<rparr>"
    using with_outcome_Inr [OF run] by blast
  have "ending_ok s'"
    using inv live n two by (simp add: session_inv_def ending_live) (simp add: s' ending_ok_def forced_def three_votes(2) [OF n two])
  then show ?thesis using inv by (simp add: s' session_inv_def part_unfold)
qed

lemma with_timeout_inv:
  "session_inv s \<Longrightarrow> with_timeout_scheduled j t s = Inr s' \<Longrightarrow> session_inv s'"
  "session_inv s \<Longrightarrow> with_timeout_cancelled s = Inr s' \<Longrightarrow> session_inv s'"
  "session_inv s \<Longrightarrow> with_timeout_triggered now s = Inr s' \<Longrightarrow> session_inv s'"
proof -
  assume inv: "session_inv s"
  show "session_inv s'" if "with_timeout_scheduled j t s = Inr s'"
    using inv with_timeout_Inr(1) [OF that] by (simp add: session_inv_def ending_live part_unfold)
  show "session_inv s'" if "with_timeout_cancelled s = Inr s'"
  proof -
    note s' = with_timeout_Inr(2) [OF that]
    have "ending_ok s' \<longleftrightarrow> ending_ok s" by (simp add: s' ending_ok_def forced_def cong: option.case_cong)
    then show ?thesis using inv by (simp add: s' session_inv_def part_unfold)
  qed
  show "session_inv s'" if "with_timeout_triggered now s = Inr s'"
    using inv with_timeout_Inr(3) [OF that] by (simp add: session_inv_def ending_ok_def part_unfold)
qed

lemma with_round_inv:
  "session_inv s \<Longrightarrow> with_new_round d s = Inr s' \<Longrightarrow> session_inv s'"
  "session_inv s \<Longrightarrow> with_deadlock_outcome d now s = Inr s' \<Longrightarrow> session_inv s'"
  "session_inv s \<Longrightarrow> with_abort why now s = Inr s' \<Longrightarrow> session_inv s'"
proof -
  assume inv: "session_inv s"
  then have live: "ds_phase s \<noteq> COMPLETE \<Longrightarrow> \<not> forced s" by (simp add: session_inv_def ending_live)
  show "session_inv s'" if "with_new_round d s = Inr s'"
    using inv with_round_Inr(1) [OF that] by (simp add: session_inv_def ending_live part_unfold dict_ok_def)
  show "session_inv s'" if "with_deadlock_outcome d now s = Inr s'"
    using inv live with_round_Inr(2) [OF that] by (simp add: session_inv_def ending_ok_def part_unfold)
  show "session_inv s'" if "with_abort why now s = Inr s'"
    using inv with_abort_Inr [OF that] by (simp add: session_inv_def ending_ok_def part_unfold)
qed

lemma with_substitution_inv:
  assumes inv: "session_inv s" and run: "with_substitution f r why now s = Inr s'"
  shows "session_inv s'"
proof -
  note run = with_substitution_Inr [OF run]
  have "set (current_active_archons s) = set (ds_assigned_archons s)"
    using run by (simp add: current_active_archons_def)
  then have "f \<in> set (ds_assigned_archons s)" "r \<notin> set (ds_assigned_archons s)" using run by auto
  then show ?thesis using inv run by (auto simp: session_inv_def ending_live part_unfold)
qed

lemma apply_op_inv:
  assumes "session_inv s" and "op_ok op" and "apply_op now op s = Inr s'"
  shows "session_inv s'"
  using assms
  by (cases op) (auto intro: with_phase_inv with_transcript_inv with_votes_inv with_outcome_inv with_timeout_inv with_round_inv
      with_substitution_inv)

lemma reachable_inv: "session_reachable s \<Longrightarrow> session_inv s"
  by (induction rule: session_reachable.induct) (auto intro: create_inv apply_op_inv)

section \<open>Completed sessions\<close>

text \<open>A history in which refused operations leave the session as it was.\<close>

fun run_session_ops :: "(datetime \<times> session_op) list \<Rightarrow> deliberation_session \<Rightarrow> deliberation_session" where
  "run_session_ops [] s = s"
| "run_session_ops ((now, op) # ops) s =
     run_session_ops ops (case apply_op now op s of Inl _ \<Rightarrow> s | Inr s' \<Rightarrow> s')"

text \<open>All of a session except its timeout job and its version.\<close>

definition deliberation_record :: "deliberation_session \<Rightarrow> deliberation_session" where
  "deliberation_record s = s\<lparr>ds_timeout_job_id := None, ds_timeout_at := None, ds_version := 0\<rparr>"

lemma deliberation_record_fields [simp]:
  "ds_phase (deliberation_record s) = ds_phase s" "ds_outcome (deliberation_record s) = ds_outcome s"
  by (simp_all add: deliberation_record_def)

lemma apply_op_complete:
  assumes "ds_phase s = COMPLETE" and run: "apply_op now op s = Inr s'"
  shows "op = Op_timeout_cancelled \<and> deliberation_record s' = deliberation_record s"
proof (cases op)
  case Op_timeout_cancelled
  then show ?thesis using with_timeout_Inr(2) [of s s'] run by (simp add: deliberation_record_def)
qed (use assms in \<open>simp_all add: with_phase_def with_transcript_def with_votes_def with_outcome_def
    with_timeout_scheduled_def with_timeout_triggered_def with_new_round_def with_deadlock_outcome_def
    with_substitution_def with_abort_def phase_is_terminal_def\<close>)

lemma run_complete: "ds_phase s = COMPLETE \<Longrightarrow> deliberation_record (run_session_ops ops s) = deliberation_record s"
proof (induction ops arbitrary: s)
  case (Cons a ops)
  obtain now op where a: "a = (now, op)" by fastforce
  show ?case
  proof (cases "apply_op now op s")
    case (Inr s')
    then have same: "deliberation_record s' = deliberation_record s" using apply_op_complete [OF Cons.prems] by blast
    then have "ds_phase s' = COMPLETE" using Cons.prems by (metis deliberation_record_fields(1))
    then show ?thesis using Cons.IH same by (simp add: a Inr)
  qed (use Cons in \<open>simp add: a\<close>)
qed simp

section \<open>Claims\<close>

text \<open>
  C20: Every session that the operations can produce satisfies the invariant: three distinct assigned
  archons and exactly three active ones after a substitution; votes are none or three, by archons who were
  active; the round counter matches the recorded distributions; an outcome exists only in a completed
  session, and it is ESCALATE without dissent when timeout, deadlock or abort forced it, and otherwise has
  at least two of the three votes, the dissenter being whoever voted otherwise.
\<close>

theorem session_invariant:
  assumes "session_reachable s"
  shows "session_inv s \<and> length (current_active_archons s) = 3 \<and> distinct (current_active_archons s) \<and>
    set (current_active_archons s) \<subseteq> ever_active s"
  using reachable_inv [OF assms] active_archons [of s] by (simp add: session_inv_def)

text \<open>Three archons agree two to one.\<close>

definition example_votes :: "(uuid, deliberation_outcome) dict" where
  "example_votes = [(1, REFER), (2, DEFER), (3, REFER)]"

definition voted_session :: deliberation_session where
  "voted_session = \<lparr>ds_session_id = 5, ds_petition_id = 6, ds_assigned_archons = [1, 2, 3],
      ds_phase = ASSESS, ds_phase_transcripts = [], ds_votes = example_votes, ds_outcome = None,
      ds_dissent_archon_id = None, ds_created_at = 0, ds_completed_at = None, ds_version = 2,
      ds_timeout_job_id = None, ds_timeout_at = None, ds_timed_out = False, ds_round_count = 1,
      ds_votes_by_round = [], ds_is_deadlocked = False, ds_deadlock_reason = None, ds_substitutions = [],
      ds_is_aborted = False, ds_abort_reason = None\<rparr>"

lemmas session_eval = mk_deliberation_session_def validate_archons_def validate_phase_state_def
  required_archon_count_def consensus_threshold_def phase_is_terminal_def Let_def

lemma voted_session_reachable: "session_reachable voted_session"
proof -
  let ?s = "voted_session\<lparr>ds_votes := [], ds_version := 1\<rparr>"
  have "create_session 5 6 [1, 2, 3] 0 = Inr ?s"
    by (simp add: create_session_def voted_session_def session_eval)
  then have "session_reachable ?s" by (rule session_reachable.created)
  moreover have "with_votes example_votes ?s = Inr voted_session"
    by (simp add: with_votes_def voted_session_def example_votes_def session_eval current_active_archons_def)
  ultimately show ?thesis
    using session_reachable.stepped [of ?s "Op_votes example_votes" 0] by (simp add: example_votes_def dict_ok_def)
qed

lemma session_invariant_witness:
  "with_outcome 9 voted_session = Inr (voted_session\<lparr>ds_phase := COMPLETE, ds_outcome := Some REFER,
      ds_dissent_archon_id := Some 2, ds_completed_at := Some 9, ds_version := 3\<rparr>) \<and>
   session_inv (voted_session\<lparr>ds_phase := COMPLETE, ds_outcome := Some REFER, ds_dissent_archon_id := Some 2,
      ds_completed_at := Some 9, ds_version := 3\<rparr>)"
proof -
  let ?s = "voted_session\<lparr>ds_phase := COMPLETE, ds_outcome := Some REFER, ds_dissent_archon_id := Some 2,
      ds_completed_at := Some 9, ds_version := 3\<rparr>"
  have run: "with_outcome 9 voted_session = Inr ?s"
    by (simp add: with_outcome_def voted_session_def example_votes_def session_eval find_majority_def
        find_dissenter_def dict_get_def)
  have "session_reachable ?s"
    by (rule session_reachable.stepped [OF voted_session_reachable, of Op_outcome 9]) (simp_all add: run)
  then show ?thesis using run session_invariant [of ?s] by blast
qed

text \<open>
  A session in the VOTE phase can be moved to COMPLETE without any outcome, and whatever is attempted
  afterwards it stays complete, with no outcome: its petition never gets a fate from it. A completed session
  is otherwise immutable: nothing but its timeout job and version ever changes.
\<close>

theorem completed_without_outcome:
  assumes "session_inv s" and "ds_phase s = VOTE"
  shows "\<exists>s'. with_phase COMPLETE now s = Inr s' \<and> ds_outcome s' = None \<and>
    (\<forall>ops. deliberation_record (run_session_ops ops s') = deliberation_record s' \<and>
       ds_phase (run_session_ops ops s') = COMPLETE \<and> ds_outcome (run_session_ops ops s') = None)"
proof -
  let ?s = "s\<lparr>ds_phase := COMPLETE, ds_completed_at := Some now, ds_version := ds_version s + 1\<rparr>"
  have none: "ds_outcome s = None" using assms by (simp add: session_inv_def ending_live)
  have "validate_archons ?s = Inr ()"
    using assms(1) by (simp add: session_inv_def archons_ok_def validate_archons_Inr)
  moreover have "validate_phase_state ?s = Inr ()"
    using assms(1) none by (simp add: session_inv_def rounds_ok_def validate_phase_state_def)
  ultimately have run: "with_phase COMPLETE now s = Inr ?s"
    using assms(2) by (simp add: with_phase_def phase_is_terminal_def mk_deliberation_session_def)
  have final: "deliberation_record (run_session_ops ops ?s) = deliberation_record ?s" for ops
    by (rule run_complete) simp
  have "ds_phase (run_session_ops ops ?s) = COMPLETE \<and> ds_outcome (run_session_ops ops ?s) = None" for ops
    using arg_cong [OF final [of ops], of ds_phase] arg_cong [OF final [of ops], of ds_outcome] none by simp
  with run final none show ?thesis by (intro exI [of _ ?s]) simp
qed

lemma completed_without_outcome_witness:
  "let s = voted_session\<lparr>ds_phase := VOTE\<rparr> in
   \<exists>s'. with_phase COMPLETE 9 s = Inr s' \<and> ds_phase (run_session_ops [(10, Op_outcome)] s') = COMPLETE \<and>
     ds_outcome (run_session_ops [(10, Op_outcome)] s') = None"
proof -
  let ?s = "voted_session\<lparr>ds_phase := VOTE\<rparr>"
  have "session_inv voted_session" by (rule reachable_inv [OF voted_session_reachable])
  then have "session_inv ?s" by (simp add: session_inv_def part_unfold ending_ok_def voted_session_def)
  from completed_without_outcome [OF this, of 9] show ?thesis
    unfolding Let_def by (simp add: voted_session_def del: run_session_ops.simps) blast
qed

end
