(* ===== verification/Consensus.thy ===== *)
theory Consensus
  imports Deliberation_Session
begin

text \<open>
  Resolution of votes by two-of-three supermajority (\<open>src/domain/models/consensus_result.py\<close> and
  \<open>src/application/services/consensus_resolver_service.py\<close>), and its agreement with the resolution that the
  session aggregate performs itself.
\<close>

section \<open>Results\<close>

definition consensus_algorithm_version :: int where
  "consensus_algorithm_version = 1"

definition supermajority_threshold :: nat where
  "supermajority_threshold = 2"

definition required_vote_count :: nat where
  "required_vote_count = 3"

datatype consensus_status = ACHIEVED | UNANIMOUS | NOT_REACHED | INVALID

fun consensus_status_value :: "consensus_status \<Rightarrow> string" where
  "consensus_status_value ACHIEVED = ''ACHIEVED''"
| "consensus_status_value UNANIMOUS = ''UNANIMOUS''"
| "consensus_status_value NOT_REACHED = ''NOT_REACHED''"
| "consensus_status_value INVALID = ''INVALID''"

datatype vote_validation_status =
  VALID | MISSING_VOTES | UNAUTHORIZED_VOTER | DUPLICATE_VOTE | INVALID_OUTCOME

fun vote_validation_status_value :: "vote_validation_status \<Rightarrow> string" where
  "vote_validation_status_value VALID = ''VALID''"
| "vote_validation_status_value MISSING_VOTES = ''MISSING_VOTES''"
| "vote_validation_status_value UNAUTHORIZED_VOTER = ''UNAUTHORIZED_VOTER''"
| "vote_validation_status_value DUPLICATE_VOTE = ''DUPLICATE_VOTE''"
| "vote_validation_status_value INVALID_OUTCOME = ''INVALID_OUTCOME''"

text \<open>The archons named by a result come from Python sets, in no particular order: they are sets here.\<close>

record vote_validation_result =
  vv_is_valid :: bool
  vv_status :: vote_validation_status
  vv_missing_archon_ids :: "uuid set"
  vv_unauthorized_archon_ids :: "uuid set"
  vv_error_message :: "string option"
  vv_validated_at :: datetime

definition vv_valid :: "datetime \<Rightarrow> vote_validation_result" where
  "vv_valid now = \<lparr>vv_is_valid = True, vv_status = VALID, vv_missing_archon_ids = {},
     vv_unauthorized_archon_ids = {}, vv_error_message = None, vv_validated_at = now\<rparr>"

definition vv_missing_votes :: "uuid set \<Rightarrow> datetime \<Rightarrow> vote_validation_result" where
  "vv_missing_votes ids now = \<lparr>vv_is_valid = False, vv_status = MISSING_VOTES, vv_missing_archon_ids = ids,
     vv_unauthorized_archon_ids = {},
     vv_error_message = Some (''Missing votes from '' @ show_nat (card ids) @ '' archon(s)''), vv_validated_at = now\<rparr>"

definition vv_unauthorized_voter :: "uuid set \<Rightarrow> datetime \<Rightarrow> vote_validation_result" where
  "vv_unauthorized_voter ids now = \<lparr>vv_is_valid = False, vv_status = UNAUTHORIZED_VOTER,
     vv_missing_archon_ids = {}, vv_unauthorized_archon_ids = ids,
     vv_error_message = Some (''Unauthorized vote(s) from '' @ show_nat (card ids) @ '' archon(s)''),
     vv_validated_at = now\<rparr>"

record consensus_result =
  cr_session_id :: uuid
  cr_petition_id :: uuid
  cr_status :: consensus_status
  cr_vote_distribution :: "(string, int) dict"
  cr_majority_archon_ids :: "uuid list"
  cr_dissent_archon_id :: "uuid option"
  cr_winning_outcome :: "string option"
  cr_algorithm_version :: int
  cr_resolved_at :: datetime

definition mk_consensus_result :: "consensus_result \<Rightarrow> exn + consensus_result" where
  "mk_consensus_result r =
     (if cr_status r \<in> {ACHIEVED, UNANIMOUS} \<and> cr_winning_outcome r = None then
        Inl (Exn ValueError (''ConsensusResult with status '' @ consensus_status_value (cr_status r) @
          '' must have a winning_outcome''))
      else if cr_status r \<in> {ACHIEVED, UNANIMOUS} \<and> length (cr_majority_archon_ids r) < supermajority_threshold then
        Inl (Exn ValueError (''ConsensusResult with status '' @ consensus_status_value (cr_status r) @
          '' must have at least 2 majority archons''))
      else if cr_status r = UNANIMOUS \<and> cr_dissent_archon_id r \<noteq> None then
        Inl (Exn ValueError ''ConsensusResult with UNANIMOUS status cannot have dissent_archon_id'')
      else if cr_status r = ACHIEVED \<and> length (cr_majority_archon_ids r) = supermajority_threshold \<and>
          cr_dissent_archon_id r = None then
        Inl (Exn ValueError ''ConsensusResult with 2-1 split must identify dissent_archon_id'')
      else Inr r)"

definition is_consensus_reached :: "consensus_result \<Rightarrow> bool" where
  "is_consensus_reached r \<longleftrightarrow> cr_status r \<in> {ACHIEVED, UNANIMOUS}"

definition is_unanimous :: "consensus_result \<Rightarrow> bool" where
  "is_unanimous r \<longleftrightarrow> cr_status r = UNANIMOUS"

definition has_dissent :: "consensus_result \<Rightarrow> bool" where
  "has_dissent r \<longleftrightarrow> cr_dissent_archon_id r \<noteq> None"

section \<open>The resolver\<close>

text \<open>A vote of the model is always one of the enumeration's members, so the third check never fails.\<close>

definition validate_votes ::
  "deliberation_session \<Rightarrow> (uuid, deliberation_outcome) dict \<Rightarrow> datetime \<Rightarrow> vote_validation_result" where
  "validate_votes session votes now =
     (let active_set = set (current_active_archons session); voter_set = fst ` set votes;
          unauthorized = voter_set - active_set; missing = active_set - voter_set
      in if unauthorized \<noteq> {} then vv_unauthorized_voter unauthorized now
         else if missing \<noteq> {} then vv_missing_votes missing now
         else vv_valid now)"

definition distribution_of :: "(deliberation_outcome, uuid list) dict \<Rightarrow> (string, int) dict" where
  "distribution_of vote_counts = map (\<lambda>(x, voters). (outcome_value x, int (length voters))) vote_counts"

definition consensus_of ::
  "deliberation_session \<Rightarrow> (uuid, deliberation_outcome) dict \<Rightarrow> datetime \<Rightarrow> exn + consensus_result" where
  "consensus_of session votes now =
     (let validation = validate_votes session votes now in
      if \<not> vv_is_valid validation then
        Inl (Exn ValueError (''Vote validation failed: '' @
          (case vv_error_message validation of None \<Rightarrow> ''None'' | Some m \<Rightarrow> m) @
          ''. Status: '' @ vote_validation_status_value (vv_status validation)))
      else
        let vote_counts = group_votes [] votes in
        case find (\<lambda>(x, voters). length voters \<ge> supermajority_threshold) vote_counts of
          None \<Rightarrow> Inl (consensus_not_reached ''No outcome achieved 2-of-3 supermajority'' (length votes) supermajority_threshold)
        | Some (winning_outcome, majority) \<Rightarrow>
            let unanimous = (length majority = required_vote_count) in
            mk_consensus_result \<lparr>cr_session_id = ds_session_id session, cr_petition_id = ds_petition_id session,
              cr_status = (if unanimous then UNANIMOUS else ACHIEVED),
              cr_vote_distribution = distribution_of vote_counts, cr_majority_archon_ids = majority,
              cr_dissent_archon_id = (if unanimous then None else find_dissenter winning_outcome vote_counts),
              cr_winning_outcome = Some (outcome_value winning_outcome),
              cr_algorithm_version = consensus_algorithm_version, cr_resolved_at = now\<rparr>)"

text \<open>The metrics collector is a port without implementation here; it is handed the votes by value.\<close>

definition resolve_consensus ::
  "((uuid, string) dict \<Rightarrow> ('s, unit) act) option \<Rightarrow> deliberation_session \<Rightarrow> (uuid, deliberation_outcome) dict
    \<Rightarrow> datetime \<Rightarrow> ('s, consensus_result) act" where
  "resolve_consensus record_deliberation_completion session votes now =
     act_bind (act_lift (consensus_of session votes now)) (\<lambda>result.
     case record_deliberation_completion of
       None \<Rightarrow> act_return result
     | Some collect \<Rightarrow>
         act_bind (collect (map (\<lambda>(a, x). (a, outcome_value x)) votes)) (\<lambda>_. act_return result))"

definition can_reach_consensus :: "(uuid, deliberation_outcome) dict \<Rightarrow> bool" where
  "can_reach_consensus votes =
     (if length votes \<noteq> required_vote_count then False
      else list_ex (\<lambda>(x, count). count \<ge> supermajority_threshold) (tally_votes [] (map snd votes)))"

section \<open>Facts\<close>

lemma vv_is_valid_iff:
  "vv_is_valid (validate_votes s votes now) \<longleftrightarrow> fst ` set votes = set (current_active_archons s)"
  by (auto simp: validate_votes_def vv_valid_def vv_missing_votes_def vv_unauthorized_voter_def Let_def)

lemma mk_session_live:
  assumes "archons_ok s" and "ds_outcome s = None" and "1 \<le> ds_round_count s"
  shows "mk_deliberation_session s = Inr s"
proof -
  have "validate_archons s = Inr ()" using assms(1) by (simp add: validate_archons_Inr archons_ok_def)
  then show ?thesis using assms by (simp add: mk_deliberation_session_def validate_phase_state_def)
qed

text \<open>The session accepts exactly the votes the resolver calls valid.\<close>

lemma with_votes_iff_valid:
  assumes inv: "session_inv s" and live: "ds_phase s \<noteq> COMPLETE" and dict: "dict_ok votes"
  shows "with_votes votes s = Inr s' \<longleftrightarrow>
    vv_is_valid (validate_votes s votes now) \<and> s' = s\<lparr>ds_votes := votes, ds_version := ds_version s + 1\<rparr>"
    (is "_ \<longleftrightarrow> _ \<and> s' = ?s")
proof -
  let ?act = "current_active_archons s"
  have act: "length ?act = 3" "distinct ?act" using active_archons [of s] inv by (auto simp: session_inv_def)
  have card: "card (fst ` set votes) = length votes" "card (set ?act) = 3"
    using dict act distinct_card [of "map fst votes"] distinct_card [of ?act] by (auto simp: dict_ok_def)
  have mk: "mk_deliberation_session ?s = Inr ?s"
    using inv live by (intro mk_session_live) (auto simp: session_inv_def ending_live archons_ok_def rounds_ok_def)
  have valid: "fst ` set votes = set ?act \<longleftrightarrow> length votes = 3 \<and> fst ` set votes \<subseteq> set ?act"
    using card card_subset_eq [of "set ?act" "fst ` set votes"] by auto
  show ?thesis
  proof
    assume "with_votes votes s = Inr s'"
    from with_votes_Inr [OF this] show "vv_is_valid (validate_votes s votes now) \<and> s' = ?s"
      by (simp add: vv_is_valid_iff valid)
  next
    assume *: "vv_is_valid (validate_votes s votes now) \<and> s' = ?s"
    then have "length votes = 3" "fst ` set votes \<subseteq> set ?act" by (simp_all add: vv_is_valid_iff valid)
    then have "find (\<lambda>a. a \<notin> set ?act) (map fst votes) = None" by (auto simp: find_None_iff)
    then show "with_votes votes s = Inr s'"
      using * live mk \<open>length votes = 3\<close>
      by (simp add: with_votes_def phase_is_terminal_def required_archon_count_def)
  qed
qed

lemma with_votes_never_Inr:
  "session_inv s \<Longrightarrow> ds_phase s \<noteq> COMPLETE \<Longrightarrow> dict_ok votes \<Longrightarrow> with_votes votes s = Inl e \<Longrightarrow>
     \<not> vv_is_valid (validate_votes s votes now)"
  using with_votes_iff_valid by (metis sum.distinct(1))

lemma find_majority_eq: "find (\<lambda>(x, voters). length voters \<ge> supermajority_threshold) counts = find_majority counts"
  by (simp add: find_majority_def supermajority_threshold_def consensus_threshold_def)

lemma voters_for_set: "set (voters_for x vs) = {a. (a, x) \<in> set vs}"
  by (force simp: voters_for_def)

text \<open>Three votes with a majority: the dissenter is the voter of another outcome, if there is one.\<close>

lemma dissenter_three:
  assumes "length vs = 3" and "2 \<le> length (voters_for x vs)"
  shows "find_dissenter x (group_votes [] vs) = Some a \<longleftrightarrow> (\<exists>y. y \<noteq> x \<and> (a, y) \<in> set vs)"
    and "find_dissenter x (group_votes [] vs) = None \<longleftrightarrow> length (voters_for x vs) = 3"
proof -
  obtain a1 a2 a3 u v w where vs: "vs = [(a1, u), (a2, v), (a3, w)]"
    using assms(1) by (auto simp: numeral_3_eq_3 length_Suc_conv)
  show "find_dissenter x (group_votes [] vs) = Some a \<longleftrightarrow> (\<exists>y. y \<noteq> x \<and> (a, y) \<in> set vs)"
    using assms(2) unfolding three_votes(2) [OF assms] by (auto simp: vs voters_for_def split: if_splits)
  show "find_dissenter x (group_votes [] vs) = None \<longleftrightarrow> length (voters_for x vs) = 3"
    using assms(2) unfolding three_votes(2) [OF assms] by (auto simp: vs voters_for_def split: if_splits)
qed

lemma no_majority_distinct:
  assumes "length vs = 3"
  shows "(\<forall>x. length (voters_for x vs) < 2) \<longleftrightarrow> distinct (map snd vs)"
proof -
  obtain a1 a2 a3 u v w where vs: "vs = [(a1, u), (a2, v), (a3, w)]"
    using assms by (auto simp: numeral_3_eq_3 length_Suc_conv)
  show ?thesis by (auto simp: vs voters_for_def)
qed

lemma consensus_of_majority:
  assumes valid: "vv_is_valid (validate_votes s votes now)" and n: "length votes = 3"
    and two: "2 \<le> length (voters_for x votes)"
  shows "consensus_of s votes now = Inr \<lparr>cr_session_id = ds_session_id s, cr_petition_id = ds_petition_id s,
    cr_status = (if length (voters_for x votes) = 3 then UNANIMOUS else ACHIEVED),
    cr_vote_distribution = distribution_of (group_votes [] votes), cr_majority_archon_ids = voters_for x votes,
    cr_dissent_archon_id = find_dissenter x (group_votes [] votes), cr_winning_outcome = Some (outcome_value x),
    cr_algorithm_version = 1, cr_resolved_at = now\<rparr>"
proof -
  have "find_majority (group_votes [] votes) = Some (x, voters_for x votes)"
    using find_majority_three [OF n] two by blast
  then show ?thesis
    using valid two dissenter_three(2) [OF n two] unfolding consensus_of_def find_majority_eq
    by (auto simp: mk_consensus_result_def supermajority_threshold_def required_vote_count_def
        consensus_algorithm_version_def Let_def)
qed

lemma consensus_of_split:
  assumes "vv_is_valid (validate_votes s votes now)" and "\<forall>x. length (voters_for x votes) < 2"
  shows "consensus_of s votes now =
    Inl (consensus_not_reached ''No outcome achieved 2-of-3 supermajority'' (length votes) supermajority_threshold)"
proof -
  have "find_majority (group_votes [] votes) = None" using assms(2) find_majority_None by blast
  then show ?thesis using assms(1) by (simp add: consensus_of_def find_majority_eq Let_def)
qed

lemma with_outcome_majority:
  assumes inv: "session_inv s" and live: "ds_phase s \<noteq> COMPLETE" and n: "length (ds_votes s) = 3"
    and two: "2 \<le> length (voters_for x (ds_votes s))"
  shows "with_outcome now s = Inr (s\<lparr>ds_phase := COMPLETE, ds_outcome := Some x,
    ds_dissent_archon_id := find_dissenter x (group_votes [] (ds_votes s)),
    ds_completed_at := Some now, ds_version := ds_version s + 1\<rparr>)" (is "_ = Inr ?s")
proof -
  have maj: "find_majority (group_votes [] (ds_votes s)) = Some (x, voters_for x (ds_votes s))"
    using find_majority_three [OF n] two by blast
  have "count_list (map snd (ds_votes s)) x = length (voters_for x (ds_votes s))"
    by (simp add: voters_for_def count_list_eq_length_filter filter_map comp_def eq_commute)
  then have "validate_phase_state ?s = Inr ()"
    using inv n two by (auto simp: session_inv_def rounds_ok_def validate_phase_state_def
        required_archon_count_def consensus_threshold_def dict_get_tally_votes Let_def)
  moreover have "validate_archons ?s = Inr ()"
    using inv by (simp add: validate_archons_Inr session_inv_def archons_ok_def)
  ultimately have "mk_deliberation_session ?s = Inr ?s" by (simp add: mk_deliberation_session_def)
  then show ?thesis using live n maj
    by (simp add: with_outcome_def phase_is_terminal_def required_archon_count_def Let_def)
qed

lemma with_outcome_split:
  assumes live: "ds_phase s \<noteq> COMPLETE" and n: "length (ds_votes s) = 3"
    and split: "\<forall>x. length (voters_for x (ds_votes s)) < 2"
  shows "with_outcome now s =
    Inl (consensus_not_reached ''No outcome achieved 2-of-3 consensus'' 3 consensus_threshold)"
proof -
  have "find_majority (group_votes [] (ds_votes s)) = None" using split find_majority_None by blast
  then show ?thesis using live n
    by (simp add: with_outcome_def phase_is_terminal_def required_archon_count_def Let_def)
qed

lemma tally_mem: "dict_ok c \<Longrightarrow> dict_ok (tally_votes c vs)"
  by (induction vs arbitrary: c) (auto simp: dict_ok_set)

text \<open>The helper that predicts whether a majority exists.\<close>

lemma can_reach_consensus_iff:
  "can_reach_consensus votes \<longleftrightarrow> length votes = 3 \<and> (\<exists>x. 2 \<le> length (voters_for x votes))"
proof -
  let ?t = "tally_votes [] (map snd votes)"
  have count: "count_list (map snd votes) x = length (voters_for x votes)" for x
    by (simp add: voters_for_def count_list_eq_length_filter filter_map comp_def eq_commute)
  have ok: "dict_ok ?t" by (rule tally_mem) (simp add: dict_ok_def)
  have "(\<exists>x n. (x, n) \<in> set ?t \<and> 2 \<le> n) \<longleftrightarrow> (\<exists>x. 2 \<le> count_list (map snd votes) x)"
    unfolding dict_get_Some_iff [OF ok, symmetric] dict_get_tally_votes by (auto, metis less_le_trans zero_less_numeral)
  then show ?thesis
    by (auto simp: can_reach_consensus_def required_vote_count_def supermajority_threshold_def list_ex_iff count)
qed

section \<open>Claims\<close>

text \<open>
  C21: On a live session the two implementations of consensus agree. The session refuses a set of votes
  exactly when the resolver calls it invalid; accepted votes resolve in both to the same outcome, which two
  or three archons voted for and whose voters the resolver lists, with the same dissenter, who is the voter of
  any other outcome; and both raise ConsensusNotReachedError exactly when the three votes differ pairwise,
  which is when \<open>can_reach_consensus\<close> is false. The order in which the votes are stored has no influence.
\<close>

theorem resolver_agrees_with_session:
  assumes inv: "session_inv s" and live: "ds_phase s \<noteq> COMPLETE" and dict: "dict_ok votes"
  shows "case with_votes votes s of
      Inl _ \<Rightarrow> (\<exists>e. consensus_of s votes now = Inl e \<and> exn_kind e = ValueError)
    | Inr voted \<Rightarrow>
        (case with_outcome now voted of
           Inr ended \<Rightarrow> (\<exists>x r. ds_outcome ended = Some x \<and> consensus_of s votes now = Inr r \<and>
             cr_winning_outcome r = Some (outcome_value x) \<and> cr_dissent_archon_id r = ds_dissent_archon_id ended \<and>
             set (cr_majority_archon_ids r) = {a. (a, x) \<in> set votes} \<and> 2 \<le> length (cr_majority_archon_ids r) \<and>
             (\<forall>a. ds_dissent_archon_id ended = Some a \<longleftrightarrow> (\<exists>y. y \<noteq> x \<and> (a, y) \<in> set votes)) \<and>
             (is_unanimous r \<longleftrightarrow> \<not> has_dissent r) \<and> can_reach_consensus votes)
         | Inl e \<Rightarrow> exn_kind e = ConsensusNotReachedError \<and>
             (\<exists>e'. consensus_of s votes now = Inl e' \<and> exn_kind e' = ConsensusNotReachedError) \<and>
             distinct (map snd votes) \<and> \<not> can_reach_consensus votes)"
proof (cases "vv_is_valid (validate_votes s votes now)")
  case False
  then have "\<And>s'. with_votes votes s \<noteq> Inr s'" using with_votes_iff_valid [OF inv live dict] by blast
  then obtain e where "with_votes votes s = Inl e" by (cases "with_votes votes s") auto
  then show ?thesis using False by (simp add: consensus_of_def Let_def)
next
  case valid: True
  define v where "v = s\<lparr>ds_votes := votes, ds_version := ds_version s + 1\<rparr>"
  have run: "with_votes votes s = Inr v" using with_votes_iff_valid [OF inv live dict] valid v_def by blast
  have n: "length votes = 3" using with_votes_Inr [OF run] by simp
  have v: "session_inv v" "ds_phase v \<noteq> COMPLETE" "ds_votes v = votes"
    using with_votes_inv [OF inv dict run] live by (simp_all add: v_def)
  show ?thesis
  proof (cases "\<exists>x. 2 \<le> length (voters_for x votes)")
    case True
    then obtain x where two: "2 \<le> length (voters_for x votes)" by blast
    note out = with_outcome_majority [OF v(1,2), of x now, unfolded v(3), OF n two]
    note res = consensus_of_majority [OF valid n two]
    have "can_reach_consensus votes" using n True by (simp add: can_reach_consensus_iff)
    then show ?thesis using two dissenter_three [OF n two]
      by (simp add: run out res voters_for_set is_unanimous_def has_dissent_def)
  next
    case False
    then have split: "\<forall>x. length (voters_for x votes) < 2" by (simp add: not_le)
    note out = with_outcome_split [OF v(2), unfolded v(3), OF n split]
    note res = consensus_of_split [OF valid split]
    have "distinct (map snd votes)" using no_majority_distinct [OF n] split by blast
    then show ?thesis using False
      by (simp add: run out res can_reach_consensus_iff consensus_not_reached_def)
  qed
qed

lemma resolver_agrees_with_session_witness:
  "let s = voted_session\<lparr>ds_votes := []\<rparr> in
   (\<exists>voted ended r. with_votes [(3, ESCALATE), (1, REFER), (2, ESCALATE)] s = Inr voted \<and>
      with_outcome 4 voted = Inr ended \<and> ds_outcome ended = Some ESCALATE \<and>
      consensus_of s [(3, ESCALATE), (1, REFER), (2, ESCALATE)] 4 = Inr r \<and> cr_dissent_archon_id r = Some 1)"
proof -
  let ?s = "voted_session\<lparr>ds_votes := []\<rparr>" and ?votes = "[(3, ESCALATE), (1, REFER), (2, ESCALATE)] :: (uuid, deliberation_outcome) dict"
  let ?v = "?s\<lparr>ds_votes := ?votes, ds_version := 3\<rparr>"
  have "session_inv voted_session" by (rule reachable_inv [OF voted_session_reachable])
  then have inv: "session_inv ?s" by (simp add: session_inv_def part_unfold ending_ok_def voted_session_def dict_ok_def)
  have votes: "with_votes ?votes ?s = Inr ?v"
    by (simp add: with_votes_def voted_session_def session_eval current_active_archons_def)
  have out: "with_outcome 4 ?v = Inr (?v\<lparr>ds_phase := COMPLETE, ds_outcome := Some ESCALATE,
      ds_dissent_archon_id := Some 1, ds_completed_at := Some 4, ds_version := 4\<rparr>)"
    by (simp add: with_outcome_def voted_session_def session_eval find_majority_def find_dissenter_def dict_get_def)
  have live: "ds_phase ?s \<noteq> COMPLETE" by (simp add: voted_session_def)
  have dict: "dict_ok ?votes" by (simp add: dict_ok_def)
  let ?e = "?v\<lparr>ds_phase := COMPLETE, ds_outcome := Some ESCALATE, ds_dissent_archon_id := Some 1,
      ds_completed_at := Some 4, ds_version := 4\<rparr>"
  have "ds_outcome ?e = Some ESCALATE" "ds_dissent_archon_id ?e = Some 1" by simp_all
  with resolver_agrees_with_session [OF inv live dict, of 4] votes out
  have "\<exists>r. consensus_of ?s ?votes 4 = Inr r \<and> cr_dissent_archon_id r = Some 1"
    by (simp only: sum.case) blast
  with votes out \<open>ds_outcome ?e = Some ESCALATE\<close> show ?thesis unfolding Let_def by blast
qed

end
