(* ===== verification/Deliberation_Services.thy ===== *)
theory Deliberation_Services
  imports Consensus Event_Envelope
begin

text \<open>
  The services that change a running deliberation: deadlock handling, timeouts and archon substitution
  (\<open>src/application/services/deadlock_handler_service.py\<close>, \<open>deliberation_timeout_service.py\<close>,
  \<open>archon_substitution_service.py\<close>), with the events they construct (\<open>src/domain/events/deadlock.py\<close>,
  \<open>deliberation_timeout.py\<close>, \<open>archon_substitution.py\<close>) and the configuration
  (\<open>src/config/deliberation_config.py\<close>).

  Each service keeps a dictionary of sessions of its own. The world holds the three dictionaries, the clock
  and the fresh UUIDs; whatever lies behind the ports (job scheduler, event store, language models) is the
  environment, of arbitrary type. Clock readings that only feed an event's \<open>created_at\<close> are taken in place.
\<close>

section \<open>Configuration\<close>

record deliberation_config =
  dc_min_dwell_seconds :: int
  dc_timeout_seconds :: int
  dc_max_rounds :: int

definition mk_deliberation_config :: "deliberation_config \<Rightarrow> exn + deliberation_config" where
  "mk_deliberation_config c =
     (if \<not> (0 \<le> dc_min_dwell_seconds c \<and> dc_min_dwell_seconds c \<le> 300) then
        Inl (Exn ValueError (''min_dwell_seconds must be between 0 and 300, got '' @ show_int (dc_min_dwell_seconds c)))
      else if \<not> (60 \<le> dc_timeout_seconds c \<and> dc_timeout_seconds c \<le> 900) then
        Inl (Exn ValueError (''timeout_seconds must be between 60 and 900, got '' @ show_int (dc_timeout_seconds c)))
      else if \<not> (1 \<le> dc_max_rounds c \<and> dc_max_rounds c \<le> 10) then
        Inl (Exn ValueError (''max_rounds must be between 1 and 10, got '' @ show_int (dc_max_rounds c)))
      else Inr c)"

text \<open>What \<open>from_environment\<close> makes of the integers it read.\<close>

definition clamped_config :: "int \<Rightarrow> int \<Rightarrow> int \<Rightarrow> exn + deliberation_config" where
  "clamped_config min_dwell timeout max_rounds = mk_deliberation_config
     \<lparr>dc_min_dwell_seconds = max 0 (min min_dwell 300), dc_timeout_seconds = max 60 (min timeout 900),
      dc_max_rounds = max 1 (min max_rounds 10)\<rparr>"

definition default_deliberation_config :: deliberation_config where
  "default_deliberation_config = \<lparr>dc_min_dwell_seconds = 30, dc_timeout_seconds = 300, dc_max_rounds = 3\<rparr>"

definition timeout_timedelta :: "deliberation_config \<Rightarrow> timedelta" where
  "timeout_timedelta c = dc_timeout_seconds c * microseconds_per_second"

lemma clamped_config_ok: "\<exists>c. clamped_config d t r = Inr c \<and> 1 \<le> dc_max_rounds c \<and> dc_max_rounds c \<le> 10"
  by (simp add: clamped_config_def mk_deliberation_config_def)

section \<open>The world\<close>

record 'x delib_world =
  dw_env :: 'x
  dw_timeout_sessions :: "(uuid, deliberation_session) dict"
  dw_deadlock_sessions :: "(uuid, deliberation_session) dict"
  dw_substitution_sessions :: "(uuid, deliberation_session) dict"
  dw_clock :: "nat \<Rightarrow> datetime"
  dw_clock_reads :: nat
  dw_uuid :: "nat \<Rightarrow> uuid"
  dw_uuid_draws :: nat

definition utc_now :: "('x delib_world, datetime) act" where
  "utc_now = (\<lambda>w. (Inr (dw_clock w (dw_clock_reads w)), w\<lparr>dw_clock_reads := dw_clock_reads w + 1\<rparr>))"

definition fresh_uuid :: "('x delib_world, uuid) act" where
  "fresh_uuid = (\<lambda>w. (Inr (dw_uuid w (dw_uuid_draws w)), w\<lparr>dw_uuid_draws := dw_uuid_draws w + 1\<rparr>))"

definition on_env :: "('x, 'a) act \<Rightarrow> ('x delib_world, 'a) act" where
  "on_env m = (\<lambda>w. case m (dw_env w) of (r, x) \<Rightarrow> (r, w\<lparr>dw_env := x\<rparr>))"

section \<open>Deadlock\<close>

record cross_examine_round_event =
  ce_event_id :: uuid
  ce_session_id :: uuid
  ce_petition_id :: uuid
  ce_round_number :: int
  ce_previous_vote_distribution :: "(string, int) dict"
  ce_participating_archons :: "uuid list"
  ce_created_at :: datetime

definition total_votes :: "(string, int) dict \<Rightarrow> int" where
  "total_votes d = sum_list (map snd d)"

definition mk_cross_examine_round_event :: "cross_examine_round_event \<Rightarrow> exn + cross_examine_round_event" where
  "mk_cross_examine_round_event e =
     (if ce_round_number e < 2 then
        Inl (Exn ValueError (''round_number must be >= 2 for a new round, got '' @ show_int (ce_round_number e)))
      else if length (ce_participating_archons e) \<noteq> 3 then
        Inl (Exn ValueError (''participating_archons must contain exactly 3 UUIDs, got '' @
          show_nat (length (ce_participating_archons e))))
      else if total_votes (ce_previous_vote_distribution e) \<noteq> 3 then
        Inl (Exn ValueError (''previous_vote_distribution must sum to 3 votes, got '' @
          show_int (total_votes (ce_previous_vote_distribution e))))
      else Inr e)"

record deadlock_event =
  de_event_id :: uuid
  de_session_id :: uuid
  de_petition_id :: uuid
  de_round_count :: int
  de_votes_by_round :: "(string, int) dict list"
  de_final_vote_distribution :: "(string, int) dict"
  de_phase_at_deadlock :: deliberation_phase
  de_participating_archons :: "uuid list"
  de_created_at :: datetime

text \<open>The first recorded distribution, counted from \<open>i\<close>, that does not sum to three.\<close>

fun bad_round :: "nat \<Rightarrow> (string, int) dict list \<Rightarrow> (nat \<times> int) option" where
  "bad_round i [] = None"
| "bad_round i (d # ds) = (if total_votes d \<noteq> 3 then Some (i, total_votes d) else bad_round (i + 1) ds)"

definition mk_deadlock_event :: "deadlock_event \<Rightarrow> exn + deadlock_event" where
  "mk_deadlock_event e =
     (if de_round_count e < 1 then
        Inl (Exn ValueError (''round_count must be >= 1, got '' @ show_int (de_round_count e)))
      else if length (de_participating_archons e) \<noteq> 3 then
        Inl (Exn ValueError (''participating_archons must contain exactly 3 UUIDs, got '' @
          show_nat (length (de_participating_archons e))))
      else if int (length (de_votes_by_round e)) \<noteq> de_round_count e then
        Inl (Exn ValueError (''votes_by_round must have '' @ show_int (de_round_count e) @ '' entries, got '' @
          show_nat (length (de_votes_by_round e))))
      else case bad_round 0 (de_votes_by_round e) of
        Some (i, n) \<Rightarrow> Inl (Exn ValueError (''votes_by_round['' @ show_nat i @
          ''] must sum to 3 votes, got '' @ show_int n))
      | None \<Rightarrow>
          if total_votes (de_final_vote_distribution e) \<noteq> 3 then
            Inl (Exn ValueError (''final_vote_distribution must sum to 3 votes, got '' @
              show_int (total_votes (de_final_vote_distribution e))))
          else Inr e)"

datatype no_consensus_event = RoundTriggered cross_examine_round_event | DeadlockDetected deadlock_event

definition register_deadlock_session :: "deliberation_session \<Rightarrow> ('x delib_world, unit) act" where
  "register_deadlock_session session = (\<lambda>w. (Inr (),
     w\<lparr>dw_deadlock_sessions := dict_set (ds_session_id session) session (dw_deadlock_sessions w)\<rparr>))"

definition is_deadlock_vote_pattern :: "(string, int) dict \<Rightarrow> bool" where
  "is_deadlock_vote_pattern vote_distribution =
     (if total_votes vote_distribution \<noteq> 3 then False
      else if length (filter (\<lambda>v. v > 0) (map snd vote_distribution)) = 3 then
        list_all (\<lambda>v. v = 1) (map snd vote_distribution)
      else False)"

definition can_continue_deliberation :: "deliberation_config \<Rightarrow> deliberation_session \<Rightarrow> int option \<Rightarrow> bool" where
  "can_continue_deliberation config session max_rounds =
     can_retry_cross_examine session (case max_rounds of None \<Rightarrow> dc_max_rounds config | Some n \<Rightarrow> n)"

definition trigger_new_round ::
  "deliberation_session \<Rightarrow> (string, int) dict \<Rightarrow> ('x delib_world, deliberation_session \<times> no_consensus_event) act" where
  "trigger_new_round session vote_distribution =
     (if phase_is_terminal (ds_phase session) then
        act_raise (session_already_complete (ds_session_id session) ''Cannot start new round on completed session'')
      else
        act_bind (act_lift (with_new_round vote_distribution session)) (\<lambda>updated_session.
        act_bind fresh_uuid (\<lambda>event_id.
        act_bind utc_now (\<lambda>created_at.
        act_bind (act_lift (mk_cross_examine_round_event \<lparr>ce_event_id = event_id,
          ce_session_id = ds_session_id session, ce_petition_id = ds_petition_id session,
          ce_round_number = ds_round_count updated_session, ce_previous_vote_distribution = vote_distribution,
          ce_participating_archons = ds_assigned_archons session, ce_created_at = created_at\<rparr>)) (\<lambda>event.
        act_bind (register_deadlock_session updated_session) (\<lambda>_.
        act_return (updated_session, RoundTriggered event)))))))"

definition trigger_deadlock_escalation ::
  "deliberation_session \<Rightarrow> (string, int) dict \<Rightarrow> ('x delib_world, deliberation_session \<times> no_consensus_event) act" where
  "trigger_deadlock_escalation session vote_distribution =
     (if phase_is_terminal (ds_phase session) then
        act_raise (session_already_complete (ds_session_id session) ''Cannot apply deadlock outcome to completed session'')
      else
        act_bind utc_now (\<lambda>now.
        act_bind (act_lift (with_deadlock_outcome vote_distribution now session)) (\<lambda>updated_session.
        act_bind fresh_uuid (\<lambda>event_id.
        act_bind utc_now (\<lambda>created_at.
        act_bind (act_lift (mk_deadlock_event \<lparr>de_event_id = event_id,
          de_session_id = ds_session_id session, de_petition_id = ds_petition_id session,
          de_round_count = ds_round_count session, de_votes_by_round = ds_votes_by_round session @ [vote_distribution],
          de_final_vote_distribution = vote_distribution, de_phase_at_deadlock = ds_phase session,
          de_participating_archons = ds_assigned_archons session, de_created_at = created_at\<rparr>)) (\<lambda>event.
        act_bind (register_deadlock_session updated_session) (\<lambda>_.
        act_return (updated_session, DeadlockDetected event))))))))"

text \<open>\<open>str\<close> of a dictionary from strings to ints.\<close>

definition repr_count_dict :: "(string, int) dict \<Rightarrow> string" where
  "repr_count_dict d = ''{'' @ str_join '', '' (map (\<lambda>(k, n). py_repr k @ '': '' @ show_int n) d) @ ''}''"

definition handle_no_consensus ::
  "deliberation_config \<Rightarrow> deliberation_session \<Rightarrow> (string, int) dict \<Rightarrow> int option
    \<Rightarrow> ('x delib_world, deliberation_session \<times> no_consensus_event) act" where
  "handle_no_consensus config session vote_distribution max_rounds =
     (let max_rounds = (case max_rounds of None \<Rightarrow> dc_max_rounds config | Some n \<Rightarrow> n) in
      if phase_is_terminal (ds_phase session) then
        act_raise (session_already_complete (ds_session_id session) ''Cannot handle no consensus on completed session'')
      else if \<not> is_deadlock_vote_pattern vote_distribution then
        act_raise (Exn ValueError (''Vote distribution '' @ repr_count_dict vote_distribution @
          '' is not a deadlock pattern (1-1-1). 2-1 votes should use normal consensus resolution.''))
      else if can_continue_deliberation config session (Some max_rounds) then
        trigger_new_round session vote_distribution
      else trigger_deadlock_escalation session vote_distribution)"

definition session_not_found :: "uuid \<Rightarrow> string \<Rightarrow> exn" where
  "session_not_found session_id what = Exn SessionNotFoundError
     (''Session '' @ uuid_str session_id @ '': Session '' @ uuid_str session_id @ '' not found for '' @ what @
      ''. CT-11: Silent failure destroys legitimacy.'')"

definition get_deadlock_status :: "deliberation_config \<Rightarrow> uuid \<Rightarrow> ('x delib_world, bool \<times> int \<times> int) act" where
  "get_deadlock_status config session_id = (\<lambda>w.
     case dict_get (dw_deadlock_sessions w) session_id of
       None \<Rightarrow> (Inl (session_not_found session_id ''deadlock status''), w)
     | Some session \<Rightarrow> (Inr (ds_is_deadlocked session, ds_round_count session, dc_max_rounds config), w))"

definition get_vote_history :: "uuid \<Rightarrow> ('x delib_world, (string, int) dict list) act" where
  "get_vote_history session_id = (\<lambda>w.
     case dict_get (dw_deadlock_sessions w) session_id of
       None \<Rightarrow> (Inl (session_not_found session_id ''vote history''), w)
     | Some session \<Rightarrow> (Inr (ds_votes_by_round session), w))"

section \<open>Timeout\<close>

text \<open>The job scheduler is a port; the event emitter of the service is never used by its code.\<close>

record 'x job_scheduler =
  js_schedule :: "string \<Rightarrow> payload \<Rightarrow> datetime \<Rightarrow> ('x, uuid) act"
  js_cancel :: "uuid \<Rightarrow> ('x, bool) act"

record timeout_event =
  te_event_id :: uuid
  te_session_id :: uuid
  te_petition_id :: uuid
  te_phase_at_timeout :: deliberation_phase
  te_started_at :: datetime
  te_timeout_at :: datetime
  te_configured_timeout_seconds :: int
  te_participating_archons :: "uuid list"
  te_created_at :: datetime

definition mk_timeout_event :: "timeout_event \<Rightarrow> exn + timeout_event" where
  "mk_timeout_event e =
     (if length (te_participating_archons e) \<noteq> 3 then
        Inl (Exn ValueError (''participating_archons must contain exactly 3 UUIDs, got '' @
          show_nat (length (te_participating_archons e))))
      else if te_timeout_at e < te_started_at e then Inl (Exn ValueError ''timeout_at must be >= started_at'')
      else if te_configured_timeout_seconds e \<le> 0 then
        Inl (Exn ValueError (''configured_timeout_seconds must be positive, got '' @
          show_int (te_configured_timeout_seconds e)))
      else Inr e)"

definition register_timeout_session :: "deliberation_session \<Rightarrow> ('x delib_world, unit) act" where
  "register_timeout_session session = (\<lambda>w. (Inr (),
     w\<lparr>dw_timeout_sessions := dict_set (ds_session_id session) session (dw_timeout_sessions w)\<rparr>))"

definition schedule_timeout ::
  "'x job_scheduler \<Rightarrow> deliberation_config \<Rightarrow> deliberation_session \<Rightarrow> ('x delib_world, deliberation_session) act" where
  "schedule_timeout scheduler config session =
     (if phase_is_terminal (ds_phase session) then
        act_raise (session_already_complete (ds_session_id session) ''Cannot schedule timeout on completed session'')
      else if has_timeout_scheduled session then
        act_raise (Exn ValueError (''Timeout already scheduled for session '' @ uuid_str (ds_session_id session)))
      else
        act_bind utc_now (\<lambda>now.
        let timeout_at = now + timeout_timedelta config in
        act_bind (on_env (js_schedule scheduler ''deliberation_timeout''
          [(''session_id'', PyStr (uuid_str (ds_session_id session))),
           (''petition_id'', PyStr (uuid_str (ds_petition_id session))),
           (''timeout_seconds'', PyInt (dc_timeout_seconds config))] timeout_at)) (\<lambda>job_id.
        act_bind (act_lift (with_timeout_scheduled job_id timeout_at session)) (\<lambda>updated_session.
        act_bind (register_timeout_session updated_session) (\<lambda>_.
        act_return updated_session)))))"

definition cancel_timeout ::
  "'x job_scheduler \<Rightarrow> deliberation_session \<Rightarrow> ('x delib_world, deliberation_session) act" where
  "cancel_timeout scheduler session =
     (case ds_timeout_job_id session of
        None \<Rightarrow> act_return session
      | Some job_id \<Rightarrow>
          act_bind (on_env (js_cancel scheduler job_id)) (\<lambda>_.
          act_bind (act_lift (with_timeout_cancelled session)) (\<lambda>updated_session.
          act_bind (register_timeout_session updated_session) (\<lambda>_.
          act_return updated_session))))"

definition handle_timeout ::
  "deliberation_config \<Rightarrow> uuid \<Rightarrow> ('x delib_world, deliberation_session \<times> timeout_event) act" where
  "handle_timeout config session_id =
     act_bind (\<lambda>w. (Inr (dict_get (dw_timeout_sessions w) session_id), w)) (\<lambda>found.
     case found of
       None \<Rightarrow> act_raise (session_not_found session_id ''timeout handling'')
     | Some session \<Rightarrow>
         if phase_is_terminal (ds_phase session) then
           act_raise (session_already_complete session_id ''Cannot timeout already completed session'')
         else
           act_bind utc_now (\<lambda>now.
           act_bind (act_lift (with_timeout_triggered now session)) (\<lambda>updated_session.
           act_bind utc_now (\<lambda>timeout_at.
           act_bind fresh_uuid (\<lambda>event_id.
           act_bind utc_now (\<lambda>created_at.
           act_bind (act_lift (mk_timeout_event \<lparr>te_event_id = event_id, te_session_id = ds_session_id session,
             te_petition_id = ds_petition_id session, te_phase_at_timeout = ds_phase session,
             te_started_at = ds_created_at session, te_timeout_at = timeout_at,
             te_configured_timeout_seconds = dc_timeout_seconds config,
             te_participating_archons = ds_assigned_archons session, te_created_at = created_at\<rparr>)) (\<lambda>event.
           act_bind (register_timeout_session updated_session) (\<lambda>_.
           act_return (updated_session, event)))))))))"

definition get_timeout_status :: "uuid \<Rightarrow> ('x delib_world, bool \<times> int option) act" where
  "get_timeout_status session_id =
     act_bind (\<lambda>w. (Inr (dict_get (dw_timeout_sessions w) session_id), w)) (\<lambda>found.
     case found of
       None \<Rightarrow> act_return (False, None)
     | Some session \<Rightarrow>
         if \<not> has_timeout_scheduled session then act_return (False, None)
         else case ds_timeout_at session of
           None \<Rightarrow> act_return (True, None)
         | Some timeout_at \<Rightarrow>
             act_bind utc_now (\<lambda>now.
             if now \<ge> timeout_at then act_return (True, Some 0)
             else act_return (True, Some ((timeout_at - now) div microseconds_per_second))))"

section \<open>Substitution\<close>

text \<open>
  A failed archon of an abort event is the id, the reason and the phase (the code keeps the id and the phase as
  text and converts the id back).
\<close>

type_synonym failed_archon = "uuid \<times> string \<times> deliberation_phase"

record substituted_event =
  se_event_id :: uuid
  se_session_id :: uuid
  se_petition_id :: uuid
  se_failed_archon_id :: uuid
  se_substitute_archon_id :: uuid
  se_phase_at_failure :: deliberation_phase
  se_failure_reason :: string
  se_substitution_latency_ms :: int
  se_transcript_pages_provided :: int
  se_created_at :: datetime

definition mk_substituted_event :: "substituted_event \<Rightarrow> exn + substituted_event" where
  "mk_substituted_event e =
     (if se_failed_archon_id e = se_substitute_archon_id e then
        Inl (Exn ValueError ''failed_archon_id and substitute_archon_id must be different'')
      else if se_failure_reason e \<notin> set valid_failure_reasons then
        Inl (Exn ValueError (''failure_reason must be one of '' @ repr_str_tuple valid_failure_reasons @
          '', got '' @ [CHR 0x27] @ se_failure_reason e @ [CHR 0x27]))
      else if se_substitution_latency_ms e < 0 then
        Inl (Exn ValueError (''substitution_latency_ms must be >= 0, got '' @ show_int (se_substitution_latency_ms e)))
      else if se_transcript_pages_provided e < 0 then
        Inl (Exn ValueError (''transcript_pages_provided must be >= 0, got '' @ show_int (se_transcript_pages_provided e)))
      else Inr e)"

record aborted_event =
  ae_event_id :: uuid
  ae_session_id :: uuid
  ae_petition_id :: uuid
  ae_reason :: string
  ae_failed_archons :: "failed_archon list"
  ae_phase_at_abort :: deliberation_phase
  ae_surviving_archon_id :: "uuid option"
  ae_created_at :: datetime

definition mk_aborted_event :: "aborted_event \<Rightarrow> exn + aborted_event" where
  "mk_aborted_event e =
     (if ae_reason e \<notin> set valid_abort_reasons then
        Inl (Exn ValueError (''reason must be one of '' @ repr_str_tuple valid_abort_reasons @
          '', got '' @ [CHR 0x27] @ ae_reason e @ [CHR 0x27]))
      else if ae_failed_archons e = [] then Inl (Exn ValueError ''failed_archons must not be empty'')
      else Inr e)"

datatype substitution_event = ArchonSubstituted substituted_event | DeliberationAborted aborted_event

record substitution_result =
  sr_success :: bool
  sr_session :: deliberation_session
  sr_event :: substitution_event
  sr_substitute_archon_id :: "uuid option"
  sr_latency_ms :: int
  sr_met_sla :: bool

text \<open>
  The pool (the ids of its archons, in order) and the event emitter may be missing; an emitter without
  \<open>append_event\<close> and \<open>emit\<close> counts as missing.
\<close>

record 'x substitution_service =
  ss_archon_pool :: "uuid list option"
  ss_emit :: "(substitution_event \<Rightarrow> ('x, unit) act) option"

definition register_substitution_session :: "deliberation_session \<Rightarrow> ('x delib_world, unit) act" where
  "register_substitution_session session = (\<lambda>w. (Inr (),
     w\<lparr>dw_substitution_sessions := dict_set (ds_session_id session) session (dw_substitution_sessions w)\<rparr>))"

definition time_ms :: "('x delib_world, int) act" where
  "time_ms = act_bind utc_now (\<lambda>now. act_return (now div 1000))"

definition detect_failure :: "deliberation_session \<Rightarrow> uuid \<Rightarrow> string \<Rightarrow> exn + bool" where
  "detect_failure session archon_id failure_reason =
     (if failure_reason \<notin> set valid_failure_reasons then
        Inl (Exn ValueError (''failure_reason must be one of '' @ repr_str_tuple valid_failure_reasons @
          '', got '' @ [CHR 0x27] @ failure_reason @ [CHR 0x27]))
      else if phase_is_terminal (ds_phase session) then Inr False
      else if archon_id \<notin> set (current_active_archons session) then Inr False
      else Inr True)"

definition select_substitute :: "'x substitution_service \<Rightarrow> deliberation_session \<Rightarrow> uuid \<Rightarrow> uuid option" where
  "select_substitute service session failed_archon_id =
     (case ss_archon_pool service of
        None \<Rightarrow> None
      | Some all_archons \<Rightarrow>
          find (\<lambda>a. a \<notin> set (current_active_archons session) \<union> {failed_archon_id} \<union>
              set (map as_failed_archon_id (ds_substitutions session))) all_archons)"

record context_handoff =
  ch_session_id :: uuid
  ch_petition_id :: uuid
  ch_current_phase :: deliberation_phase
  ch_transcript_pages :: "bytes list"
  ch_previous_votes :: "(uuid, string) dict"
  ch_round_count :: int

definition prepare_context_handoff :: "deliberation_session \<Rightarrow> context_handoff" where
  "prepare_context_handoff session = \<lparr>ch_session_id = ds_session_id session, ch_petition_id = ds_petition_id session,
     ch_current_phase = ds_phase session,
     ch_transcript_pages = map snd (sort_key (\<lambda>p. phase_value (fst p)) (ds_phase_transcripts session)),
     ch_previous_votes = map (\<lambda>(a, x). (a, outcome_value x)) (ds_votes session),
     ch_round_count = ds_round_count session\<rparr>"

definition emit_if_any :: "'x substitution_service \<Rightarrow> substitution_event \<Rightarrow> ('x delib_world, unit) act" where
  "emit_if_any service event = (case ss_emit service of None \<Rightarrow> act_return () | Some emit \<Rightarrow> on_env (emit event))"

definition abort_deliberation ::
  "'x substitution_service \<Rightarrow> deliberation_session \<Rightarrow> string \<Rightarrow> failed_archon list
    \<Rightarrow> ('x delib_world, deliberation_session \<times> aborted_event) act" where
  "abort_deliberation service session reason failed_archons =
     (if phase_is_terminal (ds_phase session) then
        act_raise (session_already_complete (ds_session_id session) ''Cannot abort already completed session'')
      else if reason \<notin> set valid_abort_reasons then
        act_raise (Exn ValueError (''reason must be one of '' @ repr_str_tuple valid_abort_reasons @
          '', got '' @ [CHR 0x27] @ reason @ [CHR 0x27]))
      else
        act_bind utc_now (\<lambda>now.
        act_bind (act_lift (with_abort reason now session)) (\<lambda>updated_session.
        let surviving = filter (\<lambda>a. a \<notin> set (map fst failed_archons)) (current_active_archons session) in
        act_bind fresh_uuid (\<lambda>event_id.
        act_bind utc_now (\<lambda>created_at.
        act_bind (act_lift (mk_aborted_event \<lparr>ae_event_id = event_id, ae_session_id = ds_session_id session,
          ae_petition_id = ds_petition_id session, ae_reason = reason, ae_failed_archons = failed_archons,
          ae_phase_at_abort = ds_phase session,
          ae_surviving_archon_id = (case surviving of [] \<Rightarrow> None | a # _ \<Rightarrow> Some a),
          ae_created_at = created_at\<rparr>)) (\<lambda>event.
        act_bind (emit_if_any service (DeliberationAborted event)) (\<lambda>_.
        act_bind (register_substitution_session updated_session) (\<lambda>_.
        act_return (updated_session, event)))))))))"

definition abort_result ::
  "'x substitution_service \<Rightarrow> deliberation_session \<Rightarrow> string \<Rightarrow> failed_archon list \<Rightarrow> int
    \<Rightarrow> ('x delib_world, substitution_result) act" where
  "abort_result service session reason failed_archons latency_ms =
     act_bind (abort_deliberation service session reason failed_archons) (\<lambda>(updated_session, event).
     act_return \<lparr>sr_success = False, sr_session = updated_session, sr_event = DeliberationAborted event,
       sr_substitute_archon_id = None, sr_latency_ms = latency_ms, sr_met_sla = (latency_ms \<le> 10000)\<rparr>)"

definition execute_substitution ::
  "'x substitution_service \<Rightarrow> deliberation_session \<Rightarrow> uuid \<Rightarrow> string \<Rightarrow> ('x delib_world, substitution_result) act" where
  "execute_substitution service session failed_archon_id failure_reason =
     act_bind time_ms (\<lambda>start_time_ms.
     if phase_is_terminal (ds_phase session) then
       act_raise (session_already_complete (ds_session_id session) ''Cannot substitute archon in completed session'')
     else
       act_bind (act_lift (detect_failure session failed_archon_id failure_reason)) (\<lambda>is_valid.
       if \<not> is_valid then
         act_raise (Exn ValueError (''Archon '' @ uuid_str failed_archon_id @ '' is not currently active in session''))
       else if \<not> can_substitute session then
         act_bind time_ms (\<lambda>end_ms.
         abort_result service session ''INSUFFICIENT_ARCHONS''
           (map (\<lambda>sub. (as_failed_archon_id sub, as_failure_reason sub, as_phase_at_failure sub)) (ds_substitutions session)
             @ [(failed_archon_id, failure_reason, ds_phase session)]) (end_ms - start_time_ms))
       else case select_substitute service session failed_archon_id of
         None \<Rightarrow>
           act_bind time_ms (\<lambda>end_ms.
           abort_result service session ''ARCHON_POOL_EXHAUSTED''
             [(failed_archon_id, failure_reason, ds_phase session)] (end_ms - start_time_ms))
       | Some substitute_id \<Rightarrow>
           let context = prepare_context_handoff session in
           act_bind time_ms (\<lambda>end_ms.
           let latency_ms = end_ms - start_time_ms in
           act_bind utc_now (\<lambda>now.
           act_bind (act_lift (with_substitution failed_archon_id substitute_id failure_reason now session)) (\<lambda>updated_session.
           act_bind fresh_uuid (\<lambda>event_id.
           act_bind utc_now (\<lambda>created_at.
           act_bind (act_lift (mk_substituted_event \<lparr>se_event_id = event_id, se_session_id = ds_session_id session,
             se_petition_id = ds_petition_id session, se_failed_archon_id = failed_archon_id,
             se_substitute_archon_id = substitute_id, se_phase_at_failure = ds_phase session,
             se_failure_reason = failure_reason, se_substitution_latency_ms = latency_ms,
             se_transcript_pages_provided = int (length (ch_transcript_pages context)),
             se_created_at = created_at\<rparr>)) (\<lambda>event.
           act_bind (emit_if_any service (ArchonSubstituted event)) (\<lambda>_.
           act_bind (register_substitution_session updated_session) (\<lambda>_.
           act_return \<lparr>sr_success = True, sr_session = updated_session, sr_event = ArchonSubstituted event,
             sr_substitute_archon_id = Some substitute_id, sr_latency_ms = latency_ms,
             sr_met_sla = (latency_ms \<le> 10000)\<rparr>))))))))))"

definition get_substitution_status ::
  "uuid \<Rightarrow> ('x delib_world, bool \<times> nat \<times> archon_substitution option) act" where
  "get_substitution_status session_id = (\<lambda>w.
     case dict_get (dw_substitution_sessions w) session_id of
       None \<Rightarrow> (Inl (session_not_found session_id ''substitution status''), w)
     | Some session \<Rightarrow> (Inr (has_substitution session, substitution_count session,
         (if ds_substitutions session = [] then None else Some (last (ds_substitutions session)))), w))"

definition get_active_archons :: "uuid \<Rightarrow> ('x delib_world, uuid list) act" where
  "get_active_archons session_id = (\<lambda>w.
     case dict_get (dw_substitution_sessions w) session_id of
       None \<Rightarrow> (Inl (session_not_found session_id ''active archons''), w)
     | Some session \<Rightarrow> (Inr (current_active_archons session), w))"

section \<open>What the services make of a session\<close>

text \<open>The identity and the rounds of a session, which no failure changes.\<close>

definition same_rounds :: "deliberation_session \<Rightarrow> deliberation_session \<Rightarrow> bool" where
  "same_rounds s s' \<longleftrightarrow> ds_session_id s' = ds_session_id s \<and> ds_petition_id s' = ds_petition_id s \<and>
     ds_round_count s' = ds_round_count s \<and> ds_votes_by_round s' = ds_votes_by_round s"

definition ended_by_abort :: "deliberation_session \<Rightarrow> bool" where
  "ended_by_abort s \<longleftrightarrow> ds_phase s = COMPLETE \<and> ds_is_aborted s \<and> ds_outcome s = Some ESCALATE \<and>
     ds_abort_reason s \<noteq> None"

lemma live_not_aborted: "session_inv s \<Longrightarrow> ds_phase s \<noteq> COMPLETE \<Longrightarrow> \<not> ds_is_aborted s \<and> ds_outcome s = None"
  by (simp add: session_inv_def ending_live forced_def)

lemma with_substitution_live:
  "session_inv s \<Longrightarrow> with_substitution f r why now s = Inr s' \<Longrightarrow>
     session_inv s' \<and> same_rounds s s' \<and> ds_phase s' = ds_phase s \<and> ds_phase s' \<noteq> COMPLETE"
  using with_substitution_inv [of s f r why now s'] with_substitution_Inr [of f r why now s s']
  by (auto simp: same_rounds_def)

lemma with_abort_ends:
  "session_inv s \<Longrightarrow> with_abort why now s = Inr s' \<Longrightarrow> session_inv s' \<and> same_rounds s s' \<and> ended_by_abort s'"
  using with_round_inv(3) [of s why now s'] with_abort_Inr [of why now s s']
  by (auto simp: same_rounds_def ended_by_abort_def)

lemma abort_result_post:
  assumes "session_inv s"
  shows "act_returns (abort_result sv s why failed ms) w
    (\<lambda>x _. \<not> sr_success x \<and> session_inv (sr_session x) \<and> same_rounds s (sr_session x) \<and> ended_by_abort (sr_session x))"
proof -
  have "act_returns (abort_deliberation sv s why failed) w
      (\<lambda>x _. session_inv (fst x) \<and> same_rounds s (fst x) \<and> ended_by_abort (fst x))"
    unfolding abort_deliberation_def Let_def
    by (rule act_returns_if act_returns_raise act_returns_return
        | rule act_returns_bind_lift | rule act_returns_bind_any)+ (auto dest: with_abort_ends [OF assms])
  then show ?thesis
    unfolding abort_result_def by (rule act_returns_step) (auto intro!: act_returns_return split: prod.splits)
qed

lemma execute_substitution_post:
  assumes "session_inv s"
  shows "act_returns (execute_substitution sv s f why) w (\<lambda>x _. session_inv (sr_session x) \<and>
    same_rounds s (sr_session x) \<and>
    (if sr_success x then ds_phase (sr_session x) = ds_phase s \<and> ds_phase s \<noteq> COMPLETE
     else ended_by_abort (sr_session x)))"
  unfolding execute_substitution_def Let_def
  by (rule act_returns_if act_returns_option act_returns_raise act_returns_return
      | rule act_returns_mono [OF abort_result_post [OF assms]]
      | rule act_returns_bind_lift | rule act_returns_bind_any
      | (auto dest: with_substitution_live [OF assms])[1])+

text \<open>A vote without majority starts a round below the limit, and ends the deliberation at the limit.\<close>

definition no_consensus_result ::
  "int \<Rightarrow> deliberation_session \<Rightarrow> deliberation_session \<Rightarrow> no_consensus_event \<Rightarrow> bool" where
  "no_consensus_result max_rounds s s' event \<longleftrightarrow> session_inv s' \<and> ds_session_id s' = ds_session_id s \<and>
     ds_petition_id s' = ds_petition_id s \<and> \<not> ds_is_aborted s' \<and>
     (case event of
        RoundTriggered _ \<Rightarrow> ds_round_count s < max_rounds \<and> ds_round_count s' = ds_round_count s + 1 \<and>
          ds_phase s' = CROSS_EXAMINE
      | DeadlockDetected _ \<Rightarrow> max_rounds \<le> ds_round_count s \<and> ds_round_count s' = ds_round_count s \<and>
          ds_phase s' = COMPLETE \<and> ds_is_deadlocked s' \<and> ds_outcome s' = Some ESCALATE)"

lemma with_new_round_ok:
  "session_inv s \<Longrightarrow> with_new_round d s = Inr s' \<Longrightarrow> ds_round_count s < m \<Longrightarrow> no_consensus_result m s s' (RoundTriggered e)"
  using with_round_inv(1) [of s d s'] with_round_Inr(1) [of d s s'] live_not_aborted [of s]
  by (auto simp: no_consensus_result_def)

lemma with_deadlock_ok:
  "session_inv s \<Longrightarrow> with_deadlock_outcome d now s = Inr s' \<Longrightarrow> \<not> ds_round_count s < m \<Longrightarrow>
     no_consensus_result m s s' (DeadlockDetected e)"
  using with_round_inv(2) [of s d now s'] with_round_Inr(2) [of d now s s'] live_not_aborted [of s]
  by (auto simp: no_consensus_result_def)

lemma handle_no_consensus_post:
  assumes "session_inv s"
  shows "act_returns (handle_no_consensus config s d (Some m)) w (\<lambda>x _. no_consensus_result m s (fst x) (snd x))"
  unfolding handle_no_consensus_def trigger_new_round_def trigger_deadlock_escalation_def
    can_continue_deliberation_def can_retry_cross_examine_def Let_def option.case
  by (rule act_returns_if act_returns_raise act_returns_return
      | rule act_returns_bind_lift | rule act_returns_bind_any
      | (auto intro: with_new_round_ok [OF assms] with_deadlock_ok [OF assms])[1])+

lemma schedule_timeout_post:
  assumes "session_inv s"
  shows "act_returns (schedule_timeout scheduler config s) w
    (\<lambda>s' _. session_inv s' \<and> same_rounds s s' \<and> ds_phase s' = ds_phase s \<and> ds_phase s \<noteq> COMPLETE)"
proof -
  have "session_inv s' \<and> same_rounds s s' \<and> ds_phase s' = ds_phase s \<and> ds_phase s \<noteq> COMPLETE"
    if "with_timeout_scheduled j t s = Inr s'" for j t s'
    using with_timeout_inv(1) [OF assms that] with_timeout_Inr(1) [OF that] by (simp add: same_rounds_def)
  then show ?thesis unfolding schedule_timeout_def Let_def
    by - (rule act_returns_if act_returns_raise act_returns_return
        | rule act_returns_bind_lift | rule act_returns_bind_any | blast)+
qed

lemma cancel_timeout_post:
  assumes "session_inv s"
  shows "act_returns (cancel_timeout scheduler s) w
    (\<lambda>s' _. session_inv s' \<and> deliberation_record s' = deliberation_record s)"
proof -
  have "session_inv s' \<and> deliberation_record s' = deliberation_record s" if "with_timeout_cancelled s = Inr s'" for s'
    using with_timeout_inv(2) [OF assms that] with_timeout_Inr(2) [OF that] by (simp add: deliberation_record_def)
  then show ?thesis unfolding cancel_timeout_def using assms
    by - (rule act_returns_option act_returns_return
        | rule act_returns_bind_lift | rule act_returns_bind_any | blast)+
qed

end
