(* ===== verification/Deliberation_Orchestrator.thy ===== *)
theory Deliberation_Orchestrator
  imports Deliberation_Services
begin

text \<open>
  The four-phase protocol of a deliberation (\<open>src/application/services/deliberation_orchestrator_service.py\<close>) and
  its result (\<open>src/domain/models/deliberation_result.py\<close>). The phase executor, which questions the language
  models, is a parameter; so are the job scheduler, the archon pool and the event store behind the handlers.
\<close>

section \<open>Results\<close>

text \<open>Of the metadata of a phase the code reads the votes.\<close>

record phase_result =
  pr_phase :: deliberation_phase
  pr_transcript :: string
  pr_transcript_hash :: bytes
  pr_participants :: "uuid list"
  pr_started_at :: datetime
  pr_completed_at :: datetime
  pr_votes :: "(uuid, deliberation_outcome) dict"

definition mk_phase_result :: "phase_result \<Rightarrow> exn + phase_result" where
  "mk_phase_result r =
     (if length (pr_transcript_hash r) \<noteq> 32 then
        Inl (Exn ValueError (''transcript_hash must be 32 bytes (Blake3), got '' @ show_nat (length (pr_transcript_hash r))))
      else if pr_completed_at r < pr_started_at r then
        Inl (Exn ValueError ''completed_at cannot be before started_at'')
      else if pr_participants r = [] then Inl (Exn ValueError ''At least one participant required'')
      else if \<not> distinct (pr_participants r) then Inl (Exn ValueError ''Duplicate participant IDs not allowed'')
      else Inr r)"

record deliberation_result =
  dl_session_id :: uuid
  dl_petition_id :: uuid
  dl_outcome :: "deliberation_outcome option"
  dl_votes :: "(uuid, deliberation_outcome) dict"
  dl_dissent_archon_id :: "uuid option"
  dl_phase_results :: "phase_result list"
  dl_started_at :: datetime
  dl_completed_at :: datetime
  dl_is_aborted :: bool
  dl_abort_reason :: "string option"

definition dl_unanimous :: "deliberation_result \<Rightarrow> bool" where
  "dl_unanimous r \<longleftrightarrow> length (remdups (map snd (dl_votes r))) = 1"

definition is_deadlock_escalation :: "deliberation_result \<Rightarrow> (deliberation_outcome, nat) dict \<Rightarrow> bool" where
  "is_deadlock_escalation r vote_counts \<longleftrightarrow> dl_outcome r = Some ESCALATE \<and> length vote_counts = 3 \<and>
     list_all (\<lambda>p. snd p = 1) vote_counts"

text \<open>The check of the outcome against the votes; the outcome is compared as Python compares \<open>None\<close>.\<close>

definition validate_outcome_consensus :: "deliberation_result \<Rightarrow> exn + unit" where
  "validate_outcome_consensus r =
     (let vote_counts = tally_votes [] (map snd (dl_votes r));
          outcome_votes = (case dl_outcome r of None \<Rightarrow> 0
            | Some x \<Rightarrow> (case dict_get vote_counts x of None \<Rightarrow> 0 | Some n \<Rightarrow> n))
      in if outcome_votes < 2 \<and> \<not> is_deadlock_escalation r vote_counts then
           (case dl_outcome r of
              None \<Rightarrow> Inl (Exn AttributeError ([CHR 0x27] @ ''NoneType'' @ [CHR 0x27] @ '' object has no attribute '' @ [CHR 0x27] @ ''value'' @ [CHR 0x27]))
            | Some x \<Rightarrow> Inl (Exn ValueError (''Outcome '' @ outcome_value x @ '' does not have 2-of-3 consensus (got '' @
                show_nat outcome_votes @ '' votes)'')))
         else Inr ())"

definition validate_dissent :: "deliberation_result \<Rightarrow> exn + unit" where
  "validate_dissent r =
     (let deadlock = is_deadlock_escalation r (tally_votes [] (map snd (dl_votes r))) in
      if deadlock \<and> dl_dissent_archon_id r \<noteq> None then
        Inl (Exn ValueError ''dissent_archon_id must be None for deadlock escalation'')
      else if dl_unanimous r \<and> dl_dissent_archon_id r \<noteq> None then
        Inl (Exn ValueError ''dissent_archon_id must be None for unanimous vote'')
      else if \<not> dl_unanimous r \<and> dl_dissent_archon_id r = None \<and> \<not> deadlock then
        Inl (Exn ValueError ''dissent_archon_id required for 2-1 vote'')
      else case dl_dissent_archon_id r of
        None \<Rightarrow> Inr ()
      | Some a \<Rightarrow>
          if dict_get (dl_votes r) a = dl_outcome r then
            Inl (Exn ValueError (''Dissenting archon '' @ uuid_str a @ '' voted for outcome''))
          else Inr ())"

fun validate_pairs :: "nat \<Rightarrow> phase_result list \<Rightarrow> exn + unit" where
  "validate_pairs offset [] = Inr ()"
| "validate_pairs offset (actual # rest) =
     (let expected = (if offset mod 2 = 0 then CROSS_EXAMINE else VOTE) in
      if pr_phase actual \<noteq> expected then
        Inl (Exn ValueError (''Phase '' @ show_nat (offset + 2) @ '' should be '' @ phase_value expected @ '', got '' @
          phase_value (pr_phase actual)))
      else validate_pairs (offset + 1) rest)"

definition validate_phase_results :: "phase_result list \<Rightarrow> exn + unit" where
  "validate_phase_results rs =
     (case rs of
        r0 # r1 # remaining \<Rightarrow>
          if length rs < 4 then
            Inl (Exn ValueError (''Phase results must include ASSESS, POSITION, and at least one CROSS_EXAMINE/VOTE pair, got ''
              @ show_nat (length rs)))
          else if pr_phase r0 \<noteq> ASSESS then
            Inl (Exn ValueError (''Phase 0 should be ASSESS, got '' @ phase_value (pr_phase r0)))
          else if pr_phase r1 \<noteq> POSITION then
            Inl (Exn ValueError (''Phase 1 should be POSITION, got '' @ phase_value (pr_phase r1)))
          else if length remaining mod 2 \<noteq> 0 then
            Inl (Exn ValueError (''Phase results must include CROSS_EXAMINE/VOTE pairs after POSITION, got '' @
              show_nat (length rs)))
          else validate_pairs 0 remaining
      | _ \<Rightarrow>
          Inl (Exn ValueError (''Phase results must include ASSESS, POSITION, and at least one CROSS_EXAMINE/VOTE pair, got ''
            @ show_nat (length rs))))"

definition mk_deliberation_result :: "deliberation_result \<Rightarrow> exn + deliberation_result" where
  "mk_deliberation_result r =
     (if dl_completed_at r < dl_started_at r then
        Inl (Exn ValueError ''completed_at cannot be before started_at'')
      else if dl_is_aborted r then
        (if dl_outcome r \<noteq> Some ESCALATE then Inl (Exn ValueError ''Aborted deliberation must ESCALATE'')
         else if dl_abort_reason r = None then
           Inl (Exn ValueError ''abort_reason required for aborted deliberation'')
         else Inr r)
      else if length (dl_votes r) \<noteq> 3 then
        Inl (Exn ValueError (''Exactly 3 votes required, got '' @ show_nat (length (dl_votes r))))
      else case validate_outcome_consensus r of Inl e \<Rightarrow> Inl e | Inr _ \<Rightarrow>
        (case validate_dissent r of Inl e \<Rightarrow> Inl e | Inr _ \<Rightarrow>
          (case validate_phase_results (dl_phase_results r) of Inl e \<Rightarrow> Inl e | Inr _ \<Rightarrow> Inr r)))"

section \<open>The protocol\<close>

text \<open>A phase returns its result or raises \<open>PhaseExecutionError\<close>, whose attributes the orchestrator reads.\<close>

datatype phase_outcome = PhaseDone phase_result | PhaseFailed deliberation_phase "uuid option" string

text \<open>The executor's methods, for one context package.\<close>

record 'x phase_executor =
  ex_assess :: "deliberation_session \<Rightarrow> ('x, phase_outcome) act"
  ex_position :: "deliberation_session \<Rightarrow> phase_result \<Rightarrow> ('x, phase_outcome) act"
  ex_cross_examine :: "deliberation_session \<Rightarrow> phase_result \<Rightarrow> ('x, phase_outcome) act"
  ex_vote :: "deliberation_session \<Rightarrow> phase_result \<Rightarrow> ('x, phase_outcome) act"

text \<open>The handlers are optional; those for timeouts and deadlocks have a configuration of their own.\<close>

record 'x orchestrator =
  or_executor :: "'x phase_executor"
  or_timeout :: "('x job_scheduler \<times> deliberation_config) option"
  or_deadlock :: "deliberation_config option"
  or_substitution :: "'x substitution_service option"
  or_config :: deliberation_config

definition phase_execution_error :: "deliberation_phase \<Rightarrow> uuid option \<Rightarrow> string \<Rightarrow> exn" where
  "phase_execution_error phase archon_id reason = Exn PhaseExecutionError
     (''Phase '' @ phase_value phase @ '' execution failed'' @
      (case archon_id of None \<Rightarrow> [] | Some a \<Rightarrow> '' (archon '' @ uuid_str a @ '')'') @ '': '' @ reason @
      ''. NFR-10.2: Individual Archon response time p95 < 30 seconds.'')"

text \<open>\<open>needle in s\<close> for strings.\<close>

definition py_in :: "string \<Rightarrow> string \<Rightarrow> bool" where
  "py_in needle s = list_ex (\<lambda>i. take (length needle) (drop i s) = needle) [0..<Suc (length s)]"

definition map_failure_reason :: "string \<Rightarrow> string" where
  "map_failure_reason error_reason =
     (let reason_lower = py_lower error_reason in
      if py_in ''timeout'' reason_lower \<or> py_in ''timed out'' reason_lower then ''RESPONSE_TIMEOUT''
      else if py_in ''invalid'' reason_lower \<or> py_in ''parse'' reason_lower then ''INVALID_RESPONSE''
      else ''API_ERROR'')"

definition handle_archon_failure ::
  "'x orchestrator \<Rightarrow> deliberation_session \<Rightarrow> deliberation_phase \<Rightarrow> uuid option \<Rightarrow> string
    \<Rightarrow> ('x delib_world, deliberation_session \<times> bool) act" where
  "handle_archon_failure orc session phase archon_id reason =
     (case or_substitution orc of
        None \<Rightarrow> act_raise (phase_execution_error phase archon_id reason)
      | Some service \<Rightarrow>
          (case archon_id of
             None \<Rightarrow> act_raise (phase_execution_error phase archon_id reason)
           | Some a \<Rightarrow>
               act_bind (execute_substitution service session a (map_failure_reason reason)) (\<lambda>result.
               act_return (sr_session result, sr_success result))))"

definition execute_phase_with_substitution ::
  "'x orchestrator \<Rightarrow> deliberation_session \<Rightarrow> (deliberation_session \<Rightarrow> ('x, phase_outcome) act)
    \<Rightarrow> ('x delib_world, deliberation_session \<times> phase_result option) act" where
  "execute_phase_with_substitution orc session execute_fn =
     act_bind (on_env (execute_fn session)) (\<lambda>first.
     case first of
       PhaseDone result \<Rightarrow> act_return (session, Some result)
     | PhaseFailed phase archon_id reason \<Rightarrow>
         act_bind (handle_archon_failure orc session phase archon_id reason) (\<lambda>(session, should_retry).
         if \<not> should_retry then act_return (session, None)
         else
           act_bind (on_env (execute_fn session)) (\<lambda>second.
           case second of
             PhaseDone result \<Rightarrow> act_return (session, Some result)
           | PhaseFailed phase archon_id reason \<Rightarrow>
               act_bind (handle_archon_failure orc session phase archon_id reason) (\<lambda>(session, _).
               if ds_is_aborted session then act_return (session, None)
               else act_raise (phase_execution_error phase archon_id reason)))))"

definition build_aborted_result ::
  "deliberation_session \<Rightarrow> phase_result list \<Rightarrow> datetime \<Rightarrow> ('x delib_world, deliberation_result) act" where
  "build_aborted_result session phase_results started_at =
     act_bind utc_now (\<lambda>completed_at.
     act_lift (mk_deliberation_result \<lparr>dl_session_id = ds_session_id session, dl_petition_id = ds_petition_id session,
       dl_outcome = ds_outcome session, dl_votes = ds_votes session,
       dl_dissent_archon_id = ds_dissent_archon_id session, dl_phase_results = phase_results,
       dl_started_at = started_at, dl_completed_at = completed_at, dl_is_aborted = True,
       dl_abort_reason = ds_abort_reason session\<rparr>))"

definition vote_counts_by_name :: "(uuid, deliberation_outcome) dict \<Rightarrow> (string, int) dict" where
  "vote_counts_by_name votes = map (\<lambda>(k, n). (k, int n)) (tally_votes [] (map (\<lambda>p. outcome_value (snd p)) votes))"

text \<open>What the end of the VOTE phase decides: leave the loop, or go around it again.\<close>

definition conclude_vote ::
  "'x orchestrator \<Rightarrow> deliberation_session \<Rightarrow> (uuid, deliberation_outcome) dict
    \<Rightarrow> ('x delib_world, deliberation_session \<times> bool) act" where
  "conclude_vote orc session votes =
     act_bind utc_now (\<lambda>now.
     case with_outcome now session of
       Inr ended \<Rightarrow> act_return (ended, True)
     | Inl e \<Rightarrow>
         if exn_kind e \<noteq> ConsensusNotReachedError then act_raise e
         else case or_deadlock orc of
           None \<Rightarrow> act_raise e
         | Some config \<Rightarrow>
             act_bind (handle_no_consensus config session (vote_counts_by_name votes)
               (Some (dc_max_rounds (or_config orc)))) (\<lambda>(session, event).
             act_return (session, (case event of DeadlockDetected _ \<Rightarrow> True | RoundTriggered _ \<Rightarrow> False))))"

text \<open>
  The \<open>while True\<close> loop, with fuel: \<open>None\<close> is a loop that has not ended. The list of phase results is mutated by
  the code and returned here. Only a change to COMPLETE reads the clock in \<open>with_phase\<close>.
\<close>

fun cross_examine_vote_loop ::
  "nat \<Rightarrow> 'x orchestrator \<Rightarrow> deliberation_session \<Rightarrow> phase_result \<Rightarrow> phase_result list
    \<Rightarrow> ('x delib_world, (deliberation_session \<times> phase_result list) option) act" where
  "cross_examine_vote_loop 0 orc session previous_result phase_results = act_return None"
| "cross_examine_vote_loop (Suc fuel) orc session previous_result phase_results =
     act_bind (execute_phase_with_substitution orc session
       (\<lambda>s. ex_cross_examine (or_executor orc) s previous_result)) (\<lambda>(session, cross_examine_result).
     case (if ds_is_aborted session then None else cross_examine_result) of
       None \<Rightarrow> act_return (Some (session, phase_results))
     | Some cross \<Rightarrow>
         act_bind (act_lift (with_transcript CROSS_EXAMINE (pr_transcript_hash cross) session)) (\<lambda>session.
         act_bind (act_lift (with_phase VOTE 0 session)) (\<lambda>session.
         act_bind (execute_phase_with_substitution orc session
           (\<lambda>s. ex_vote (or_executor orc) s cross)) (\<lambda>(session, vote_result).
         case (if ds_is_aborted session then None else vote_result) of
           None \<Rightarrow> act_return (Some (session, phase_results @ [cross]))
         | Some vote \<Rightarrow>
             act_bind (act_lift (with_transcript VOTE (pr_transcript_hash vote) session)) (\<lambda>session.
             act_bind (act_lift (with_votes (pr_votes vote) session)) (\<lambda>session.
             act_bind (conclude_vote orc session (pr_votes vote)) (\<lambda>(session, ended).
             if ended then act_return (Some (session, phase_results @ [cross, vote]))
             else cross_examine_vote_loop fuel orc session cross (phase_results @ [cross, vote]))))))))"

definition petition_session_mismatch :: "uuid \<Rightarrow> uuid \<Rightarrow> exn" where
  "petition_session_mismatch petition_id session_petition_id = Exn PetitionSessionMismatchError
     (''Petition ID mismatch: provided petition '' @ uuid_str petition_id @ '' but session references petition '' @
      uuid_str session_petition_id @ ''. Context package requires matching petition and session.'')"

definition orchestrate ::
  "nat \<Rightarrow> 'x orchestrator \<Rightarrow> uuid \<Rightarrow> deliberation_session
    \<Rightarrow> ('x delib_world, (deliberation_session \<times> deliberation_result) option) act" where
  "orchestrate fuel orc package_petition_id session =
     (if ds_petition_id session \<noteq> package_petition_id then
        act_raise (petition_session_mismatch package_petition_id (ds_petition_id session))
      else
        act_bind utc_now (\<lambda>started_at.
        act_bind (case or_timeout orc of None \<Rightarrow> act_return session
          | Some (scheduler, config) \<Rightarrow> schedule_timeout scheduler config session) (\<lambda>session.
        let aborted = (\<lambda>session phase_results. act_bind (build_aborted_result session phase_results started_at)
              (\<lambda>result. act_return (Some (session, result)))) in
        act_bind (execute_phase_with_substitution orc session (ex_assess (or_executor orc))) (\<lambda>(session, assess_result).
        case (if ds_is_aborted session then None else assess_result) of
          None \<Rightarrow> aborted session []
        | Some assess \<Rightarrow>
            act_bind (act_lift (with_transcript ASSESS (pr_transcript_hash assess) session)) (\<lambda>session.
            act_bind (act_lift (with_phase POSITION 0 session)) (\<lambda>session.
            act_bind (execute_phase_with_substitution orc session
              (\<lambda>s. ex_position (or_executor orc) s assess)) (\<lambda>(session, position_result).
            case (if ds_is_aborted session then None else position_result) of
              None \<Rightarrow> aborted session [assess]
            | Some position \<Rightarrow>
                act_bind (act_lift (with_transcript POSITION (pr_transcript_hash position) session)) (\<lambda>session.
                act_bind (act_lift (with_phase CROSS_EXAMINE 0 session)) (\<lambda>session.
                act_bind (cross_examine_vote_loop fuel orc session position [assess, position]) (\<lambda>looped.
                case looped of
                  None \<Rightarrow> act_return None
                | Some (session, phase_results) \<Rightarrow>
                    if ds_is_aborted session then aborted session phase_results
                    else
                      act_bind (case or_timeout orc of None \<Rightarrow> act_return session
                        | Some (scheduler, _) \<Rightarrow> cancel_timeout scheduler session) (\<lambda>session.
                      act_bind utc_now (\<lambda>completed_at.
                      act_bind (act_lift (mk_deliberation_result \<lparr>dl_session_id = ds_session_id session,
                        dl_petition_id = ds_petition_id session, dl_outcome = ds_outcome session,
                        dl_votes = ds_votes session, dl_dissent_archon_id = ds_dissent_archon_id session,
                        dl_phase_results = phase_results, dl_started_at = started_at,
                        dl_completed_at = completed_at, dl_is_aborted = False, dl_abort_reason = None\<rparr>)) (\<lambda>result.
                      act_return (Some (session, result)))))))))))))))"

section \<open>What a phase, the loop and the protocol leave\<close>

lemma handle_archon_failure_post:
  assumes "session_inv s"
  shows "act_returns (handle_archon_failure orc s p a why) w (\<lambda>x _. session_inv (fst x) \<and> same_rounds s (fst x) \<and>
    (if snd x then ds_phase (fst x) = ds_phase s \<and> ds_phase s \<noteq> COMPLETE else ended_by_abort (fst x)))"
  unfolding handle_archon_failure_def
  by (rule act_returns_option act_returns_raise)+
    (rule act_returns_step [OF execute_substitution_post [OF assms]], auto intro!: act_returns_return)

text \<open>A phase that returns leaves a live session with a result, or an aborted one without.\<close>

definition phase_left :: "deliberation_session \<Rightarrow> deliberation_session \<times> phase_result option \<Rightarrow> bool" where
  "phase_left s x \<longleftrightarrow> session_inv (fst x) \<and> same_rounds s (fst x) \<and>
     ((snd x \<noteq> None \<and> ds_phase (fst x) = ds_phase s \<and> \<not> ds_is_aborted (fst x)) \<or> (snd x = None \<and> ended_by_abort (fst x)))"

lemma same_rounds_trans: "same_rounds s t \<Longrightarrow> same_rounds t u \<Longrightarrow> same_rounds s u"
  by (simp add: same_rounds_def)

lemma same_rounds_refl: "same_rounds s s"
  by (simp add: same_rounds_def)

lemma execute_phase_post:
  assumes inv: "session_inv s" and live: "ds_phase s \<noteq> COMPLETE" and results: "\<And>s x r x'. f s x = (Inr (PhaseDone r), x') \<Longrightarrow> R r"
  shows "act_returns (execute_phase_with_substitution orc s f) w (\<lambda>x _. phase_left s x \<and> pred_option R (snd x))"
proof -
  have env: "act_returns (on_env (f t)) u (\<lambda>out _. \<forall>r. out = PhaseDone r \<longrightarrow> R r)" for t and u :: "'a delib_world"
    using results by (auto simp: act_returns_def on_env_def split: prod.splits)
  have fin: "act_returns (case out of PhaseDone r \<Rightarrow> act_return (t, Some r) | PhaseFailed p a why \<Rightarrow>
        act_bind (handle_archon_failure orc t p a why) (\<lambda>(session, _).
          if ds_is_aborted session then act_return (session, None) else act_raise (phase_execution_error p a why)))
      u (\<lambda>x _. phase_left s x \<and> pred_option R (snd x))"
    if t: "session_inv t" "same_rounds s t" "ds_phase t = ds_phase s" and "\<forall>r. out = PhaseDone r \<longrightarrow> R r"
    for out t and u :: "'a delib_world"
  proof (cases out)
    case (PhaseDone r)
    then show ?thesis using that live live_not_aborted [OF t(1)]
      by (auto simp: phase_left_def intro!: act_returns_return)
  next
    case (PhaseFailed p a why)
    have again: "act_returns (if ds_is_aborted v then act_return (v, None) else act_raise (phase_execution_error p a why)) u'
        (\<lambda>x _. phase_left s x \<and> pred_option R (snd x))"
      if "session_inv v" "same_rounds t v" "if b then ds_phase v = ds_phase t \<and> ds_phase t \<noteq> COMPLETE else ended_by_abort v"
      for v b and u' :: "'a delib_world"
    proof (rule act_returns_if act_returns_raise)+
      assume "ds_is_aborted v"
      then have "ended_by_abort v" using that live_not_aborted [OF that(1)] by (auto split: if_splits)
      then show "act_returns (act_return (v, None)) u' (\<lambda>x _. phase_left s x \<and> pred_option R (snd x))"
        using that(1) same_rounds_trans [OF t(2) that(2)] by (auto simp: phase_left_def intro!: act_returns_return)
    qed (rule act_returns_raise)
    show ?thesis unfolding PhaseFailed phase_outcome.case
    proof (rule act_returns_step [OF handle_archon_failure_post [OF t(1)]], goal_cases)
      case (1 x u')
      obtain v b where x: "x = (v, b)" by fastforce
      show ?case using 1 unfolding x prod.case fst_conv snd_conv by (intro again [of v b]) auto
    qed
  qed
  show ?thesis unfolding execute_phase_with_substitution_def
  proof (rule act_returns_step [OF env], goal_cases)
    case (1 first u)
    show ?case
    proof (cases first)
      case (PhaseDone r)
      then show ?thesis using 1 inv live live_not_aborted [OF inv]
        by (auto simp: phase_left_def same_rounds_refl intro!: act_returns_return)
    next
      case (PhaseFailed p a why)
      show ?thesis unfolding PhaseFailed phase_outcome.case
      proof (rule act_returns_step [OF handle_archon_failure_post [OF inv]], goal_cases)
        case (1 x u)
        obtain t retry where x: "x = (t, retry)" by fastforce
        show ?case
        proof (cases retry)
          case False
          then show ?thesis using 1 by (auto simp: x phase_left_def intro!: act_returns_return)
        next
          case True
          then have t: "session_inv t" "same_rounds s t" "ds_phase t = ds_phase s" using 1 by (auto simp: x)
          show ?thesis unfolding x prod.case if_not_P [OF not_not [THEN iffD2, OF True]]
            by (rule act_returns_step [OF env]) (rule fin [OF t])
        qed
      qed
    qed
  qed
qed

lemma recorded_phase:
  assumes "session_inv s" and "with_transcript q h s = Inr s1" and "with_phase p now s1 = Inr s2"
  shows "session_inv s2 \<and> same_rounds s s2 \<and> ds_phase s2 = p"
  using with_phase_inv [OF with_transcript_inv [OF assms(1,2)] assms(3)] with_transcript_Inr [OF assms(2)]
    with_phase_Inr [OF assms(3)] by (auto simp: same_rounds_def)

lemma recorded_votes:
  assumes "session_inv s" and "with_transcript q h s = Inr s1" and "dict_ok votes" and "with_votes votes s1 = Inr s2"
  shows "session_inv s2 \<and> same_rounds s s2 \<and> ds_phase s2 = ds_phase s \<and> ds_phase s \<noteq> COMPLETE"
  using with_votes_inv [OF with_transcript_inv [OF assms(1,2)] assms(3,4)] with_transcript_Inr [OF assms(2)]
    with_votes_Inr [OF assms(4)] by (auto simp: same_rounds_def)

definition concluded :: "int \<Rightarrow> deliberation_session \<Rightarrow> deliberation_session \<times> bool \<Rightarrow> bool" where
  "concluded m s x \<longleftrightarrow> session_inv (fst x) \<and> ds_session_id (fst x) = ds_session_id s \<and>
     ds_petition_id (fst x) = ds_petition_id s \<and> \<not> ds_is_aborted (fst x) \<and>
     (if snd x then ds_phase (fst x) = COMPLETE \<and> ds_outcome (fst x) \<noteq> None \<and> ds_round_count (fst x) = ds_round_count s
      else ds_round_count s < m \<and> ds_round_count (fst x) = ds_round_count s + 1 \<and> ds_phase (fst x) = CROSS_EXAMINE)"

lemma with_outcome_concluded:
  assumes "session_inv s" and "with_outcome now s = Inr s'"
  shows "concluded m s (s', True)"
  using with_outcome_inv [OF assms] with_outcome_Inr [OF assms(2)] live_not_aborted [OF assms(1)]
  by (auto simp: concluded_def)

lemma no_consensus_concluded:
  "no_consensus_result m s s' event \<Longrightarrow>
     concluded m s (s', (case event of DeadlockDetected _ \<Rightarrow> True | RoundTriggered _ \<Rightarrow> False))"
  by (cases event) (auto simp: no_consensus_result_def concluded_def)

lemma after_no_consensus:
  "no_consensus_result m s (fst x) (snd x) \<Longrightarrow> act_returns (case x of (session, event) \<Rightarrow>
     act_return (session, (case event of DeadlockDetected _ \<Rightarrow> True | RoundTriggered _ \<Rightarrow> False))) w (\<lambda>x _. concluded m s x)"
  by (cases x) (simp add: act_returns_return no_consensus_concluded)

lemma conclude_vote_post:
  assumes "session_inv s"
  shows "act_returns (conclude_vote orc s votes) w (\<lambda>x _. concluded (dc_max_rounds (or_config orc)) s x)"
  unfolding conclude_vote_def
proof (rule act_returns_bind_any, rule act_returns_sum, goal_cases)
  case (1 now t e)
  show ?case
    by (rule act_returns_if act_returns_raise act_returns_option)+
      (rule act_returns_step [OF handle_no_consensus_post [OF assms]], rule after_no_consensus, simp)
next
  case (2 now t ended)
  show ?case by (rule act_returns_return) (rule with_outcome_concluded [OF assms 2])
qed

definition loop_left :: "int \<Rightarrow> deliberation_session \<Rightarrow> deliberation_session \<Rightarrow> bool" where
  "loop_left m s s' \<longleftrightarrow> session_inv s' \<and> ds_session_id s' = ds_session_id s \<and> ds_petition_id s' = ds_petition_id s \<and>
     ds_phase s' = COMPLETE \<and> ds_outcome s' \<noteq> None \<and> ds_round_count s \<le> ds_round_count s' \<and>
     ds_round_count s' \<le> max m (ds_round_count s) \<and> (ds_is_aborted s' \<longrightarrow> ended_by_abort s')"

lemma aborted_loop_left: "session_inv s' \<Longrightarrow> same_rounds s s' \<Longrightarrow> ended_by_abort s' \<Longrightarrow> loop_left m s s'"
  by (simp add: loop_left_def same_rounds_def ended_by_abort_def)

lemma loop_left_same: "same_rounds s t \<Longrightarrow> loop_left m t u \<Longrightarrow> loop_left m s u"
  by (simp add: loop_left_def same_rounds_def)

lemma loop_left_next: "concluded m s (t, False) \<Longrightarrow> loop_left m t u \<Longrightarrow> loop_left m s u"
  by (auto simp: loop_left_def concluded_def)

lemma loop_left_end: "concluded m s (t, True) \<Longrightarrow> loop_left m s t"
  by (auto simp: loop_left_def concluded_def)

text \<open>The votes a phase reports are a dictionary.\<close>

definition votes_are_dicts :: "'x phase_executor \<Rightarrow> bool" where
  "votes_are_dicts ex \<longleftrightarrow> (\<forall>s prev x r x'. ex_vote ex s prev x = (Inr (PhaseDone r), x') \<longrightarrow> dict_ok (pr_votes r))"

lemma cross_examine_vote_loop_post:
  assumes dicts: "votes_are_dicts (or_executor orc)"
  shows "session_inv s \<Longrightarrow> ds_phase s = CROSS_EXAMINE \<Longrightarrow>
    max 1 (dc_max_rounds (or_config orc) - ds_round_count s + 1) \<le> int fuel \<Longrightarrow>
    act_returns (cross_examine_vote_loop fuel orc s prev rs) w
      (\<lambda>x _. \<exists>s' rs'. x = Some (s', rs') \<and> loop_left (dc_max_rounds (or_config orc)) s s')"
proof (induction fuel arbitrary: s prev rs w)
  case (Suc fuel)
  let ?m = "dc_max_rounds (or_config orc)"
  let ?Q = "\<lambda>x (_ :: 'a delib_world). \<exists>s' rs'. x = Some (s', rs') \<and> loop_left ?m s s'"
  have live: "ds_phase s \<noteq> COMPLETE" using Suc.prems by simp
  show ?case unfolding cross_examine_vote_loop.simps
  proof (rule act_returns_step [OF execute_phase_post [OF Suc.prems(1) live, where R = "\<lambda>_. True"]], goal_cases)
    case (2 x w1)
    obtain s1 r1 where x: "x = (s1, r1)" by fastforce
    show ?case unfolding x prod.case
    proof (rule act_returns_option, goal_cases)
      case 1
      then have "session_inv s1" "same_rounds s s1" "ended_by_abort s1"
        using \<open>phase_left s x \<and> _\<close> by (auto simp: x phase_left_def split: if_splits)
      then show ?case using aborted_loop_left by (auto intro!: act_returns_return)
    next
      case (2 cross)
      then have s1: "session_inv s1" "same_rounds s s1"
        using \<open>phase_left s x \<and> _\<close> by (auto simp: x phase_left_def split: if_splits)
      show ?case
      proof (rule act_returns_bind_lift, rule act_returns_bind_lift, goal_cases)
        case (1 sa sb)
        note sb = recorded_phase [OF s1(1) 1]
        have liveb: "ds_phase sb \<noteq> COMPLETE" using sb by simp
        show ?case
        proof (rule act_returns_step [OF execute_phase_post [OF conjunct1 [OF sb] liveb, where R = "\<lambda>r. dict_ok (pr_votes r)"]],
            goal_cases)
          case (2 y w2)
          obtain s2 r2 where y: "y = (s2, r2)" by fastforce
          have s2: "session_inv s2" "same_rounds s s2"
            using 2 sb s1 same_rounds_trans by (auto simp: y phase_left_def intro: same_rounds_trans)
          show ?case unfolding y prod.case
          proof (rule act_returns_option, goal_cases)
            case 1
            then have "ended_by_abort s2"
              using \<open>phase_left sb y \<and> _\<close> by (auto simp: y phase_left_def split: if_splits)
            then show ?case using s2 aborted_loop_left by (auto intro!: act_returns_return)
          next
            case (2 vote)
            then have dict: "dict_ok (pr_votes vote)"
              using \<open>phase_left sb y \<and> _\<close> by (auto simp: y split: if_splits)
            show ?case
            proof (rule act_returns_bind_lift, rule act_returns_bind_lift, goal_cases)
              case (1 sc sd)
              note sd = recorded_votes [OF s2(1) 1(1) dict 1(2)]
              then have same: "same_rounds s sd" using s2 same_rounds_trans by blast
              show ?case
              proof (rule act_returns_step [OF conclude_vote_post [OF conjunct1 [OF sd]]], goal_cases)
                case (1 z w3)
                obtain s3 ended where z: "z = (s3, ended)" by fastforce
                show ?case unfolding z prod.case
                proof (rule act_returns_if, goal_cases)
                  case 1
                  then show ?case using \<open>concluded _ sd z\<close> loop_left_same [OF same loop_left_end]
                    by (auto simp: z intro!: act_returns_return)
                next
                  case 2
                  then have next_round: "concluded ?m sd (s3, False)" using \<open>concluded _ sd z\<close> by (simp add: z)
                  then have "session_inv s3" "ds_phase s3 = CROSS_EXAMINE"
                    "max 1 (?m - ds_round_count s3 + 1) \<le> int fuel"
                    using same Suc.prems(3) by (auto simp: concluded_def same_rounds_def)
                  from Suc.IH [OF this] show ?case
                    by (rule act_returns_mono) (use loop_left_same [OF same loop_left_next [OF next_round]] in blast)
                qed
              qed
            qed
          qed
        qed (use dicts [unfolded votes_are_dicts_def] in blast)
      qed
    qed
  qed simp
qed simp

section \<open>The result of the protocol\<close>

text \<open>What a deliberation that returns has settled: the session is closed with an outcome the result reports.\<close>

definition settled :: "int \<Rightarrow> deliberation_session \<Rightarrow> deliberation_session \<times> deliberation_result \<Rightarrow> bool" where
  "settled m s x \<longleftrightarrow> (case x of (s', r) \<Rightarrow> loop_left m s s' \<and> dl_session_id r = ds_session_id s \<and>
     dl_petition_id r = ds_petition_id s \<and> dl_outcome r = ds_outcome s' \<and> dl_votes r = ds_votes s' \<and>
     dl_dissent_archon_id r = ds_dissent_archon_id s' \<and> dl_is_aborted r = ds_is_aborted s')"

lemma mk_deliberation_result_Inr: "mk_deliberation_result r = Inr r' \<Longrightarrow> r' = r"
  by (auto simp: mk_deliberation_result_def split: if_splits sum.splits)

lemma aborted_end:
  assumes "loop_left m s t" and "ds_is_aborted t"
  shows "act_returns (act_bind (build_aborted_result t rs t0) (\<lambda>r. act_return (Some (t, r)))) w
    (\<lambda>x _. \<exists>y. x = Some y \<and> settled m s y)"
proof -
  have "act_returns (build_aborted_result t rs t0) w (\<lambda>r _. settled m s (t, r))"
    unfolding build_aborted_result_def
    by (rule act_returns_bind_any, rule act_returns_lift, drule mk_deliberation_result_Inr)
      (use assms in \<open>simp add: settled_def loop_left_def\<close>)
  then show ?thesis by (rule act_returns_step) (blast intro: act_returns_return)
qed

lemma loop_left_record:
  "loop_left m s t \<Longrightarrow> session_inv t' \<Longrightarrow> deliberation_record t' = deliberation_record t \<Longrightarrow> loop_left m s t'"
  by (cases t; cases t') (simp add: loop_left_def deliberation_record_def ended_by_abort_def)

lemma record_not_aborted: "deliberation_record t' = deliberation_record t \<Longrightarrow> ds_is_aborted t' = ds_is_aborted t"
  by (cases t; cases t') (simp add: deliberation_record_def)

lemma phase_aborted:
  assumes "phase_left s (t, r)" and "(if ds_is_aborted t then None else r) = None"
  shows "loop_left m s t" and "ds_is_aborted t"
  using assms aborted_loop_left [of t s m] by (auto simp: phase_left_def ended_by_abort_def split: if_splits)

lemma phase_live:
  assumes "phase_left s (t, r)" and "(if ds_is_aborted t then None else r) = Some x"
  shows "session_inv t" and "same_rounds s t"
  using assms by (auto simp: phase_left_def split: if_splits)

lemma orchestrate_end:
  assumes left: "loop_left m s t"
  shows "act_returns (if ds_is_aborted t then act_bind (build_aborted_result t rs t0) (\<lambda>r. act_return (Some (t, r)))
      else act_bind (case timeout of None \<Rightarrow> act_return t | Some (scheduler, _) \<Rightarrow> cancel_timeout scheduler t) (\<lambda>t.
        act_bind utc_now (\<lambda>now. act_bind (act_lift (mk_deliberation_result \<lparr>dl_session_id = ds_session_id t,
          dl_petition_id = ds_petition_id t, dl_outcome = ds_outcome t,
          dl_votes = ds_votes t, dl_dissent_archon_id = ds_dissent_archon_id t,
          dl_phase_results = rs, dl_started_at = t0,
          dl_completed_at = now, dl_is_aborted = False, dl_abort_reason = None\<rparr>)) (\<lambda>r. act_return (Some (t, r)))))) w
    (\<lambda>x _. \<exists>y. x = Some y \<and> settled m s y)"
proof (rule act_returns_if [OF aborted_end [OF left]], assumption)
  assume live: "\<not> ds_is_aborted t"
  have inv: "session_inv t" using left by (simp add: loop_left_def)
  have "act_returns (case timeout of None \<Rightarrow> act_return t | Some (scheduler, _) \<Rightarrow> cancel_timeout scheduler t) w
      (\<lambda>t' _. session_inv t' \<and> deliberation_record t' = deliberation_record t)"
    using inv by (auto intro!: act_returns_option act_returns_return cancel_timeout_post [OF inv])
  then show "act_returns (act_bind (case timeout of None \<Rightarrow> act_return t | Some (scheduler, _) \<Rightarrow> cancel_timeout scheduler t) (\<lambda>t.
        act_bind utc_now (\<lambda>now. act_bind (act_lift (mk_deliberation_result \<lparr>dl_session_id = ds_session_id t,
          dl_petition_id = ds_petition_id t, dl_outcome = ds_outcome t,
          dl_votes = ds_votes t, dl_dissent_archon_id = ds_dissent_archon_id t,
          dl_phase_results = rs, dl_started_at = t0,
          dl_completed_at = now, dl_is_aborted = False, dl_abort_reason = None\<rparr>)) (\<lambda>r. act_return (Some (t, r)))))) w
    (\<lambda>x _. \<exists>y. x = Some y \<and> settled m s y)"
  proof (rule act_returns_step, goal_cases)
    case (1 t' w')
    have "loop_left m s t'" "\<not> ds_is_aborted t'"
      using 1 loop_left_record [OF left] record_not_aborted live by blast+
    then show ?case
      by (intro act_returns_bind_any act_returns_bind_lift act_returns_return)
        (auto dest!: mk_deliberation_result_Inr simp: settled_def loop_left_def)
  qed
qed

lemma recorded_phase_left:
  "session_inv s1 \<Longrightarrow> same_rounds s s1 \<Longrightarrow> with_transcript q h s1 = Inr s2 \<Longrightarrow> with_phase p now s2 = Inr s3
     \<Longrightarrow> session_inv s3 \<and> same_rounds s s3 \<and> ds_phase s3 = p"
  using recorded_phase [of s1 q h s2 p now s3] by (auto intro: same_rounds_trans)

lemma rounds_fuel:
  "same_rounds s t \<Longrightarrow> session_inv s \<Longrightarrow> m \<le> int fuel \<Longrightarrow> 0 < fuel \<Longrightarrow> max 1 (m - ds_round_count t + 1) \<le> int fuel"
  by (simp add: same_rounds_def session_inv_def rounds_ok_def)

text \<open>One phase of the protocol: run it, end the deliberation if it aborted, else record it and enter the next.\<close>

lemma protocol_phase:
  assumes s1: "session_inv s1" "same_rounds s s1" "ds_phase s1 \<noteq> COMPLETE"
    and rest: "\<And>r s2 w'. session_inv s2 \<Longrightarrow> same_rounds s s2 \<Longrightarrow> ds_phase s2 = p \<Longrightarrow>
      act_returns (k r s2) w' (\<lambda>x _. \<exists>y. x = Some y \<and> settled m s y)"
  shows "act_returns (act_bind (execute_phase_with_substitution orc s1 f) (\<lambda>(session, result).
      case (if ds_is_aborted session then None else result) of
        None \<Rightarrow> act_bind (build_aborted_result session rs t0) (\<lambda>r. act_return (Some (session, r)))
      | Some r \<Rightarrow> act_bind (act_lift (with_transcript q (h r) session)) (\<lambda>session.
          act_bind (act_lift (with_phase p now session)) (k r)))) w (\<lambda>x _. \<exists>y. x = Some y \<and> settled m s y)"
proof (rule act_returns_step [where P = "\<lambda>x _. phase_left s1 x"], goal_cases)
  case 1
  show ?case by (rule act_returns_mono [OF execute_phase_post [OF s1(1,3), where R = "\<lambda>_. True"]]) simp_all
next
  case (2 x)
  obtain s2 r2 where x: "x = (s2, r2)" by fastforce
  have left: "phase_left s1 (s2, r2)" using 2 by (simp add: x)
  show ?case unfolding x prod.case
  proof (rule act_returns_option, goal_cases)
    case 1
    then have "loop_left m s1 s2" "ds_is_aborted s2"
      by (rule phase_aborted(1) [OF left], rule phase_aborted(2) [OF left])
    then show ?case using loop_left_same [OF s1(2)] by (blast intro: aborted_end)
  next
    case (2 r)
    then have s2: "session_inv s2" "same_rounds s s2"
      using phase_live [OF left 2] same_rounds_trans [OF s1(2)] by blast+
    show ?case
    proof (rule act_returns_bind_lift, rule act_returns_bind_lift, goal_cases)
      case (1 s3 s4)
      from recorded_phase_left [OF s2 1] show ?case by (intro rest) blast+
    qed
  qed
qed

lemma orchestrate_post:
  assumes dicts: "votes_are_dicts (or_executor orc)" and inv: "session_inv s"
    and live: "ds_phase s \<noteq> COMPLETE" and fuel: "dc_max_rounds (or_config orc) \<le> int fuel" "0 < fuel"
  shows "act_returns (orchestrate fuel orc p s) w
    (\<lambda>x _. \<exists>y. x = Some y \<and> settled (dc_max_rounds (or_config orc)) s y)"
proof -
  let ?m = "dc_max_rounds (or_config orc)"
  have sched: "act_returns (case or_timeout orc of None \<Rightarrow> act_return s
        | Some (scheduler, config) \<Rightarrow> schedule_timeout scheduler config s) w'
      (\<lambda>t _. session_inv t \<and> same_rounds s t \<and> ds_phase t \<noteq> COMPLETE)" for w'
    using inv live same_rounds_refl
    by (auto intro!: act_returns_option act_returns_return act_returns_mono [OF schedule_timeout_post [OF inv]])
  show ?thesis unfolding orchestrate_def Let_def
  proof (rule act_returns_if [OF act_returns_raise], rule act_returns_bind_any, rule act_returns_step [OF sched],
      rule protocol_phase, blast, blast, blast, rule protocol_phase, blast, blast, force, goal_cases)
    case (1 t0 _ s0 _ _ _ _ _ s4)
    show ?case
    proof (rule act_returns_step [OF cross_examine_vote_loop_post [OF dicts]], goal_cases)
      case 3
      show ?case using rounds_fuel [OF _ inv fuel] 1 by blast
    next
      case (4 z)
      then obtain s5 rs where z: "z = Some (s5, rs)" "loop_left ?m s4 s5" by blast
      then show ?case unfolding z(1) option.case prod.case using 1 loop_left_same by (blast intro: orchestrate_end)
    qed (use 1 in blast)+
  qed
qed

section \<open>Claims\<close>

text \<open>
  C19: Whatever the phase executor does, when the protocol started on a live session returns, it returns a result
  (the loop over CROSS_EXAMINE and VOTE needs no more fuel than the configured rounds): the session is complete
  and satisfies its invariant, the result reports its outcome, votes and abort flag, an aborted deliberation
  escalates and says why, an outcome other than ESCALATE has the votes of two archons, and no more rounds than
  configured were run. The executor is only asked to report its votes as a dictionary.
\<close>

theorem orchestrate_settles:
  assumes "votes_are_dicts (or_executor orc)" and "session_inv s" and "ds_phase s \<noteq> COMPLETE"
    and "dc_max_rounds (or_config orc) \<le> int fuel" and "0 < fuel"
    and run: "orchestrate fuel orc p s w = (Inr x, w')"
  shows "\<exists>s' r out. x = Some (s', r) \<and> session_inv s' \<and> ds_phase s' = COMPLETE \<and>
    ds_outcome s' = Some out \<and> dl_outcome r = Some out \<and> dl_votes r = ds_votes s' \<and>
    dl_session_id r = ds_session_id s \<and> dl_petition_id r = ds_petition_id s \<and>
    dl_is_aborted r = ds_is_aborted s' \<and> (dl_is_aborted r \<longrightarrow> out = ESCALATE \<and> ds_abort_reason s' \<noteq> None) \<and>
    (out \<noteq> ESCALATE \<longrightarrow> 2 \<le> length (voters_for out (ds_votes s'))) \<and>
    ds_round_count s' \<le> max (dc_max_rounds (or_config orc)) (ds_round_count s)"
proof -
  from act_returnsD [OF orchestrate_post [OF assms(1-5)] run]
  obtain s' r where x: "x = Some (s', r)" and left: "loop_left (dc_max_rounds (or_config orc)) s s'"
    and reported: "settled (dc_max_rounds (or_config orc)) s (s', r)" by (auto simp: settled_def)
  from left obtain out where out: "ds_outcome s' = Some out" and inv: "session_inv s'"
    by (auto simp: loop_left_def)
  have "2 \<le> length (voters_for out (ds_votes s'))" if "out \<noteq> ESCALATE"
    using inv that out by (auto simp: session_inv_def ending_ok_def split: if_splits)
  then show ?thesis using left reported out x
    by (intro exI [of _ s'] exI [of _ r] exI [of _ out]) (auto simp: settled_def loop_left_def ended_by_abort_def)
qed

text \<open>An executor whose archons agree on the first ballot.\<close>

definition example_phase :: "deliberation_phase \<Rightarrow> phase_result" where
  "example_phase p = \<lparr>pr_phase = p, pr_transcript = [], pr_transcript_hash = replicate 32 0, pr_participants = [1, 2, 3],
     pr_started_at = 0, pr_completed_at = 0, pr_votes = (if p = VOTE then example_votes else [])\<rparr>"

definition example_executor :: "unit phase_executor" where
  "example_executor = \<lparr>ex_assess = (\<lambda>_. act_return (PhaseDone (example_phase ASSESS))),
     ex_position = (\<lambda>_ _. act_return (PhaseDone (example_phase POSITION))),
     ex_cross_examine = (\<lambda>_ _. act_return (PhaseDone (example_phase CROSS_EXAMINE))),
     ex_vote = (\<lambda>_ _. act_return (PhaseDone (example_phase VOTE)))\<rparr>"

definition example_orchestrator :: "unit orchestrator" where
  "example_orchestrator = \<lparr>or_executor = example_executor, or_timeout = None,
     or_deadlock = Some default_deliberation_config, or_substitution = None,
     or_config = default_deliberation_config\<rparr>"

definition example_world :: "unit delib_world" where
  "example_world = \<lparr>dw_env = (), dw_timeout_sessions = [], dw_deadlock_sessions = [], dw_substitution_sessions = [],
     dw_clock = int, dw_clock_reads = 0, dw_uuid = of_nat, dw_uuid_draws = 0\<rparr>"

lemma example_votes_are_dicts: "votes_are_dicts example_executor"
  by (simp add: votes_are_dicts_def example_executor_def example_phase_def act_return_def example_votes_def dict_ok_def)

lemma example_archons_sorted:
  "uuid_str 1 \<le> uuid_str 2" "uuid_str 1 \<le> uuid_str 3" "uuid_str 2 \<le> uuid_str 3"
  by code_simp+

lemma orchestrate_settles_witness:
  "\<exists>s' r w'. orchestrate 3 example_orchestrator 6 (voted_session\<lparr>ds_votes := [], ds_version := 1\<rparr>) example_world =
      (Inr (Some (s', r)), w') \<and> dl_outcome r = Some REFER \<and> 2 \<le> length (voters_for REFER (ds_votes s'))"
proof -
  let ?s = "voted_session\<lparr>ds_votes := [], ds_version := 1\<rparr>"
  have "create_session 5 6 [1, 2, 3] 0 = Inr ?s"
    by (simp add: create_session_def voted_session_def session_eval)
  then have inv: "session_inv ?s" by (rule reachable_inv [OF session_reachable.created])
  have "\<exists>s' r w'. orchestrate 3 example_orchestrator 6 ?s example_world = (Inr (Some (s', r)), w') \<and> dl_outcome r = Some REFER"
    by (simp add: orchestrate_def execute_phase_with_substitution_def cross_examine_vote_loop.simps numeral_3_eq_3
      example_orchestrator_def example_executor_def example_phase_def example_world_def act_bind_def act_return_def on_env_def utc_now_def
      with_transcript_def with_phase_def with_votes_def with_outcome_def conclude_vote_def session_eval voted_session_def example_votes_def
      mk_deliberation_result_def validate_outcome_consensus_def validate_dissent_def validate_phase_results_def
      is_deadlock_escalation_def dl_unanimous_def find_majority_def find_dissenter_def dict_get_def current_active_archons_def
      example_archons_sorted)
  then obtain s' r w' where run: "orchestrate 3 example_orchestrator 6 ?s example_world = (Inr (Some (s', r)), w')"
    and out: "dl_outcome r = Some REFER" by blast
  have "2 \<le> length (voters_for REFER (ds_votes s'))"
    using orchestrate_settles [OF _ inv _ _ _ run] out
    by (auto simp: example_orchestrator_def example_votes_are_dicts default_deliberation_config_def voted_session_def)
  then show ?thesis using run out by blast
qed

end
