(* ===== verification/Halt_Circuit.thy ===== *)
theory Halt_Circuit
  imports Two_Phase
begin

text \<open>
  The emergency halt: its status (\<open>src/domain/governance/halt/halt_status.py\<close>), the circuit that every operation
  asks (\<open>HaltPort\<close>, \<open>HaltChecker\<close> and \<open>src/infrastructure/adapters/governance/halt_circuit_adapter.py\<close>), and the
  service through which an operator or the system halts
  (\<open>src/application/services/governance/halt_service.py\<close>).

  Redis, the event emitter and the ledger are parameters. The lock of the circuit makes its sections atomic, so
  each is one step here. Monotonic time is only logged.
\<close>

section \<open>Status\<close>

datatype halt_reason = OPERATOR | SYSTEM_FAULT | INTEGRITY_VIOLATION | CONSENSUS_FAILURE | CONSTITUTIONAL_BREACH

fun halt_reason_value :: "halt_reason \<Rightarrow> string" where
  "halt_reason_value OPERATOR = ''operator''"
| "halt_reason_value SYSTEM_FAULT = ''system_fault''"
| "halt_reason_value INTEGRITY_VIOLATION = ''integrity_violation''"
| "halt_reason_value CONSENSUS_FAILURE = ''consensus_failure''"
| "halt_reason_value CONSTITUTIONAL_BREACH = ''constitutional_breach''"

definition all_halt_reasons :: "halt_reason list" where
  "all_halt_reasons = [OPERATOR, SYSTEM_FAULT, INTEGRITY_VIOLATION, CONSENSUS_FAILURE, CONSTITUTIONAL_BREACH]"

definition parse_halt_reason :: "string \<Rightarrow> exn + halt_reason" where
  "parse_halt_reason v =
     (case find (\<lambda>r. halt_reason_value r = v) all_halt_reasons of
        None \<Rightarrow> Inl (Exn ValueError (py_repr v @ '' is not a valid HaltReason''))
      | Some r \<Rightarrow> Inr r)"

record halt_status =
  hs_is_halted :: bool
  hs_halted_at :: "datetime option"
  hs_reason :: "halt_reason option"
  hs_operator_id :: "uuid option"
  hs_message :: "string option"
  hs_trace_id :: "string option"

definition not_halted :: halt_status where
  "not_halted = \<lparr>hs_is_halted = False, hs_halted_at = None, hs_reason = None, hs_operator_id = None,
     hs_message = None, hs_trace_id = None\<rparr>"

definition halted_status ::
  "halt_reason \<Rightarrow> string \<Rightarrow> datetime \<Rightarrow> uuid option \<Rightarrow> string option \<Rightarrow> halt_status" where
  "halted_status reason message halted_at operator_id trace_id = \<lparr>hs_is_halted = True,
     hs_halted_at = Some halted_at, hs_reason = Some reason, hs_operator_id = operator_id,
     hs_message = Some message, hs_trace_id = trace_id\<rparr>"

definition py_opt :: "('a \<Rightarrow> string) \<Rightarrow> 'a option \<Rightarrow> pyval" where
  "py_opt f v = (case v of None \<Rightarrow> PyNone | Some x \<Rightarrow> PyStr (f x))"

definition halt_status_to_dict :: "halt_status \<Rightarrow> payload" where
  "halt_status_to_dict s = [(''is_halted'', PyBool (hs_is_halted s)),
     (''halted_at'', py_opt isoformat (hs_halted_at s)), (''reason'', py_opt halt_reason_value (hs_reason s)),
     (''operator_id'', py_opt uuid_str (hs_operator_id s)), (''message'', py_opt (\<lambda>m. m) (hs_message s)),
     (''trace_id'', py_opt (\<lambda>m. m) (hs_trace_id s))]"

text \<open>
  A remote message once decoded: the fields \<open>from_dict\<close> asks for, as \<open>to_dict\<close> writes them. The parsers of the
  standard library for times and UUIDs are arguments.
\<close>

record remote_halt =
  rh_is_halted :: bool
  rh_halted_at :: "string option"
  rh_reason :: "string option"
  rh_operator_id :: "string option"
  rh_message :: "string option"
  rh_trace_id :: "string option"

text \<open>\<open>f(x) if x else None\<close> for a string that may be missing.\<close>

definition parse_if :: "(string \<Rightarrow> exn + 'a) \<Rightarrow> string option \<Rightarrow> exn + 'a option" where
  "parse_if f v = (case v of
       Some (c # cs) \<Rightarrow> (case f (c # cs) of Inl e \<Rightarrow> Inl e | Inr x \<Rightarrow> Inr (Some x))
     | _ \<Rightarrow> Inr None)"

definition halt_status_from_dict ::
  "(string \<Rightarrow> exn + datetime) \<Rightarrow> (string \<Rightarrow> exn + uuid) \<Rightarrow> remote_halt \<Rightarrow> exn + halt_status" where
  "halt_status_from_dict fromisoformat uuid_of data =
     (if \<not> rh_is_halted data then Inr not_halted
      else case parse_if fromisoformat (rh_halted_at data) of Inl e \<Rightarrow> Inl e | Inr halted_at \<Rightarrow>
        (case parse_if parse_halt_reason (rh_reason data) of Inl e \<Rightarrow> Inl e | Inr reason \<Rightarrow>
          (case parse_if uuid_of (rh_operator_id data) of Inl e \<Rightarrow> Inl e | Inr operator_id \<Rightarrow>
            Inr \<lparr>hs_is_halted = True, hs_halted_at = halted_at, hs_reason = reason, hs_operator_id = operator_id,
              hs_message = rh_message data, hs_trace_id = rh_trace_id data\<rparr>)))"

definition halted_exception :: "halt_status \<Rightarrow> exn" where
  "halted_exception s = Exn HaltedException
     (''System halted ('' @ (case hs_reason s of None \<Rightarrow> ''unknown'' | Some r \<Rightarrow> halt_reason_value r) @ ''): '' @
      (case hs_message s of Some (c # cs) \<Rightarrow> c # cs | _ \<Rightarrow> ''No message provided''))"

section \<open>The circuit\<close>

record 'x halt_world =
  cw_halted :: bool
  cw_status :: halt_status
  cw_subscribed :: bool
  cw_env :: 'x
  cw_clock :: "nat \<Rightarrow> datetime"
  cw_clock_reads :: nat
  cw_uuid :: "nat \<Rightarrow> uuid"
  cw_uuid_draws :: nat

definition halt_now :: "('x halt_world, datetime) act" where
  "halt_now = (\<lambda>w. (Inr (cw_clock w (cw_clock_reads w)), w\<lparr>cw_clock_reads := cw_clock_reads w + 1\<rparr>))"

definition halt_uuid4 :: "('x halt_world, uuid) act" where
  "halt_uuid4 = (\<lambda>w. (Inr (cw_uuid w (cw_uuid_draws w)), w\<lparr>cw_uuid_draws := cw_uuid_draws w + 1\<rparr>))"

definition outside :: "('x, 'a) act \<Rightarrow> ('x halt_world, 'a) act" where
  "outside m = (\<lambda>w. case m (cw_env w) of (r, x) \<Rightarrow> (r, w\<lparr>cw_env := x\<rparr>))"

record 'x redis_client =
  rd_publish :: "string \<Rightarrow> payload \<Rightarrow> ('x, unit) act"
  rd_subscribe :: "string \<Rightarrow> ('x, unit) act"

record 'x circuit_ports =
  cp_redis :: "'x redis_client option"
  cp_emit :: "(string \<Rightarrow> string \<Rightarrow> payload \<Rightarrow> string option \<Rightarrow> ('x, unit) act) option"

definition halt_channel :: string where
  "halt_channel = ''governance:halt''"

definition is_halted :: "'x halt_world \<Rightarrow> bool" where
  "is_halted w = cw_halted w"

definition get_halt_status :: "'x halt_world \<Rightarrow> halt_status" where
  "get_halt_status w = cw_status w"

definition check_or_raise :: "('x halt_world, unit) act" where
  "check_or_raise = (\<lambda>w. if is_halted w then (Inl (halted_exception (get_halt_status w)), w) else (Inr (), w))"

definition wrap_sync :: "('x halt_world, 'a) act \<Rightarrow> ('x halt_world, 'a) act" where
  "wrap_sync operation = act_bind check_or_raise (\<lambda>_. operation)"

text \<open>\<open>try: m except Exception\<close>: log and go on.\<close>

definition swallowed :: "('s, unit) act \<Rightarrow> ('s, unit) act" where
  "swallowed m = act_try m (\<lambda>_. act_return ())"

definition publish_to_redis :: "'x circuit_ports \<Rightarrow> ('x halt_world, unit) act" where
  "publish_to_redis ports = (\<lambda>w. case cp_redis ports of
       None \<Rightarrow> (Inr (), w)
     | Some redis \<Rightarrow> swallowed (outside (rd_publish redis halt_channel (halt_status_to_dict (cw_status w)))) w)"

definition record_to_ledger :: "'x circuit_ports \<Rightarrow> ('x halt_world, unit) act" where
  "record_to_ledger ports = (\<lambda>w. case cp_emit ports of
       None \<Rightarrow> (Inr (), w)
     | Some emit \<Rightarrow>
         (let s = cw_status w in
          swallowed (outside (emit ''constitutional.halt.recorded''
            (case hs_operator_id s of None \<Rightarrow> ''system'' | Some u \<Rightarrow> uuid_str u)
            [(''halted_at'', py_opt isoformat (hs_halted_at s)), (''reason'', py_opt halt_reason_value (hs_reason s)),
             (''message'', py_opt (\<lambda>m. m) (hs_message s))]
            (hs_trace_id s))) w))"

definition circuit_trigger_halt ::
  "'x circuit_ports \<Rightarrow> halt_reason \<Rightarrow> string \<Rightarrow> uuid option \<Rightarrow> string option \<Rightarrow> ('x halt_world, halt_status) act" where
  "circuit_trigger_halt ports reason message operator_id trace_id =
     act_bind halt_now (\<lambda>start w.
       if cw_halted w then (Inr (cw_status w), w)
       else act_bind (publish_to_redis ports) (\<lambda>_. act_bind (record_to_ledger ports) (\<lambda>_ w. (Inr (cw_status w), w)))
         (w\<lparr>cw_status := halted_status reason message start operator_id trace_id, cw_halted := True\<rparr>))"

definition subscribe_to_halt_channel :: "'x circuit_ports \<Rightarrow> ('x halt_world, unit) act" where
  "subscribe_to_halt_channel ports = (\<lambda>w. case cp_redis ports of
       None \<Rightarrow> (Inr (), w)
     | Some redis \<Rightarrow>
         if cw_subscribed w then (Inr (), w)
         else swallowed (act_bind (outside (rd_subscribe redis halt_channel)) (\<lambda>_ w. (Inr (), w\<lparr>cw_subscribed := True\<rparr>))) w)"

text \<open>The message as decoded by \<open>json.loads\<close>, or the exception of that.\<close>

definition handle_remote_halt ::
  "(string \<Rightarrow> exn + datetime) \<Rightarrow> (string \<Rightarrow> exn + uuid) \<Rightarrow> exn + remote_halt \<Rightarrow> ('x halt_world, unit) act" where
  "handle_remote_halt fromisoformat uuid_of message_data = swallowed (act_bind (act_lift message_data) (\<lambda>data w.
     if cw_halted w then (Inr (), w)
     else case halt_status_from_dict fromisoformat uuid_of data of
       Inl e \<Rightarrow> (Inl e, w)
     | Inr s \<Rightarrow> (Inr (), w\<lparr>cw_status := s, cw_halted := True\<rparr>)))"

definition reset_for_testing :: "('x halt_world, unit) act" where
  "reset_for_testing = (\<lambda>w. (Inr (), w\<lparr>cw_halted := False, cw_status := not_halted\<rparr>))"

section \<open>The service\<close>

text \<open>
  The service calls \<open>append\<close> on its ledger; \<open>None\<close> is a ledger without that attribute. Neither the port
  (\<open>src/application/ports/governance/ledger_port.py\<close>) nor any adapter of the repository has it: their method is
  \<open>append_event\<close>. \<open>sv_float_ms\<close> is the float value of a time span in milliseconds.
\<close>

record 'x halt_service =
  sv_circuit :: "'x circuit_ports"
  sv_append :: "(governance_event \<Rightarrow> ('x, unit) act) option"
  sv_ledger_class :: string
  sv_float_ms :: "timedelta \<Rightarrow> pyfloat"

record halt_execution_result =
  he_success :: bool
  he_status :: halt_status
  he_triggered_at :: datetime
  he_executed_at :: datetime
  he_execution :: timedelta
  he_channels_reached :: "string list"
  he_operator_id :: "uuid option"

definition halt_execution_result_to_dict :: "(timedelta \<Rightarrow> pyfloat) \<Rightarrow> halt_execution_result \<Rightarrow> payload" where
  "halt_execution_result_to_dict float_ms r = [(''success'', PyBool (he_success r)),
     (''triggered_at'', PyStr (isoformat (he_triggered_at r))), (''executed_at'', PyStr (isoformat (he_executed_at r))),
     (''execution_ms'', PyFloat (float_ms (he_execution r))),
     (''channels_reached'', PyList (map PyStr (he_channels_reached r))),
     (''operator_id'', py_opt uuid_str (he_operator_id r)),
     (''reason'', py_opt halt_reason_value (hs_reason (he_status r))),
     (''message'', py_opt (\<lambda>m. m) (hs_message (he_status r)))]"

definition ledger_append :: "'x halt_service \<Rightarrow> governance_event \<Rightarrow> ('x halt_world, unit) act" where
  "ledger_append sv event = (case sv_append sv of
       None \<Rightarrow> act_raise (Exn AttributeError (py_repr (sv_ledger_class sv) @ '' object has no attribute '' @ py_repr ''append''))
     | Some append_fn \<Rightarrow> outside (append_fn event))"

text \<open>\<open>trace_id or str(uuid4())\<close>, a fresh event id, and the event.\<close>

definition halt_event ::
  "string \<Rightarrow> datetime \<Rightarrow> string \<Rightarrow> string option \<Rightarrow> payload \<Rightarrow> ('x halt_world, governance_event) act" where
  "halt_event event_type timestamp actor_id trace_id payload =
     act_bind (case trace_id of
         Some (c # cs) \<Rightarrow> act_return (c # cs)
       | _ \<Rightarrow> act_bind halt_uuid4 (\<lambda>u. act_return (uuid_str u))) (\<lambda>event_trace_id.
     act_bind halt_uuid4 (\<lambda>event_id.
     act_lift (governance_event_create event_id event_type timestamp actor_id event_trace_id payload
       current_schema_version)))"

definition actor_of :: "uuid option \<Rightarrow> string" where
  "actor_of operator_id = (case operator_id of None \<Rightarrow> ''system'' | Some u \<Rightarrow> uuid_str u)"

definition emit_halt_triggered ::
  "'x halt_service \<Rightarrow> uuid option \<Rightarrow> halt_reason \<Rightarrow> string \<Rightarrow> datetime \<Rightarrow> string option \<Rightarrow> ('x halt_world, unit) act" where
  "emit_halt_triggered sv operator_id reason message triggered_at trace_id =
     act_bind (halt_event ''constitutional.halt.triggered'' triggered_at (actor_of operator_id) trace_id
       [(''reason'', PyStr (halt_reason_value reason)), (''message'', PyStr message),
        (''triggered_at'', PyStr (isoformat triggered_at)), (''operator_id'', py_opt uuid_str operator_id)])
     (ledger_append sv)"

definition emit_halt_executed ::
  "'x halt_service \<Rightarrow> halt_execution_result \<Rightarrow> string option \<Rightarrow> ('x halt_world, unit) act" where
  "emit_halt_executed sv result trace_id =
     act_bind (halt_event ''constitutional.halt.executed'' (he_executed_at result) ''system'' trace_id
       (halt_execution_result_to_dict (sv_float_ms sv) result))
     (ledger_append sv)"

definition emit_halt_failed ::
  "'x halt_service \<Rightarrow> uuid option \<Rightarrow> halt_reason \<Rightarrow> string \<Rightarrow> string \<Rightarrow> datetime \<Rightarrow> datetime \<Rightarrow> string option
    \<Rightarrow> ('x halt_world, unit) act" where
  "emit_halt_failed sv operator_id reason message error triggered_at executed_at trace_id =
     act_bind (halt_event ''constitutional.halt.failed'' executed_at (actor_of operator_id) trace_id
       [(''reason'', PyStr (halt_reason_value reason)), (''message'', PyStr message), (''error'', PyStr error),
        (''triggered_at'', PyStr (isoformat triggered_at)), (''failed_at'', PyStr (isoformat executed_at)),
        (''operator_id'', py_opt uuid_str operator_id)])
     (\<lambda>event. swallowed (ledger_append sv event))"

definition emit_unauthorized_attempt :: "'x halt_service \<Rightarrow> uuid \<Rightarrow> string option \<Rightarrow> ('x halt_world, unit) act" where
  "emit_unauthorized_attempt sv operator_id trace_id =
     act_bind halt_now (\<lambda>now.
     act_bind (halt_event ''security.unauthorized_halt_attempt'' now (uuid_str operator_id) trace_id
       [(''attempted_action'', PyStr ''halt_system''), (''operator_id'', PyStr (uuid_str operator_id))])
     (\<lambda>event. swallowed (ledger_append sv event)))"

text \<open>With or without a permission enforcer the answer is the same: the enforcer is never asked.\<close>

definition is_authorized_to_halt :: "uuid \<Rightarrow> ('x halt_world, bool) act" where
  "is_authorized_to_halt actor_id = act_return True"

definition determine_channels_reached :: "halt_status \<Rightarrow> string list" where
  "determine_channels_reached s = ''primary'' # (if hs_is_halted s then [''secondary'', ''tertiary''] else [])"

definition execute_halt ::
  "'x halt_service \<Rightarrow> uuid option \<Rightarrow> halt_reason \<Rightarrow> string \<Rightarrow> string option
    \<Rightarrow> ('x halt_world, halt_execution_result) act" where
  "execute_halt sv operator_id reason message trace_id =
     act_bind halt_now (\<lambda>triggered_at.
     act_bind (emit_halt_triggered sv operator_id reason message triggered_at trace_id) (\<lambda>_.
     act_try
       (act_bind (circuit_trigger_halt (sv_circuit sv) reason message operator_id trace_id) (\<lambda>status.
        act_bind halt_now (\<lambda>executed_at.
        let result = \<lparr>he_success = hs_is_halted status, he_status = status, he_triggered_at = triggered_at,
              he_executed_at = executed_at, he_execution = executed_at - triggered_at,
              he_channels_reached = determine_channels_reached status, he_operator_id = operator_id\<rparr>
        in act_bind (emit_halt_executed sv result trace_id) (\<lambda>_. act_return result))))
       (\<lambda>e. act_bind halt_now (\<lambda>executed_at.
        act_bind (emit_halt_failed sv operator_id reason message (exn_str e) triggered_at executed_at trace_id) (\<lambda>_.
        act_raise e)))))"

definition service_trigger_halt ::
  "'x halt_service \<Rightarrow> uuid \<Rightarrow> halt_reason \<Rightarrow> string \<Rightarrow> string option \<Rightarrow> ('x halt_world, halt_execution_result) act" where
  "service_trigger_halt sv operator_id reason message trace_id =
     (if blank message then
        act_raise (Exn HaltMessageRequiredError ''Halt message is required and cannot be empty'')
      else act_bind (is_authorized_to_halt operator_id) (\<lambda>authorized.
        if \<not> authorized then
          act_bind (emit_unauthorized_attempt sv operator_id trace_id) (\<lambda>_.
          act_raise (Exn UnauthorizedHaltError (''Unauthorized halt attempt by '' @ uuid_str operator_id @
            '': Operator lacks halt_system permission'')))
        else execute_halt sv (Some operator_id) reason message trace_id))"

definition trigger_system_halt ::
  "'x halt_service \<Rightarrow> halt_reason \<Rightarrow> string \<Rightarrow> string option \<Rightarrow> ('x halt_world, halt_execution_result) act" where
  "trigger_system_halt sv reason message trace_id =
     (if blank message then
        act_raise (Exn HaltMessageRequiredError ''Halt message is required and cannot be empty'')
      else execute_halt sv None reason message trace_id)"

section \<open>The circuit latches\<close>

text \<open>What happens to a circuit: every method of the adapter that can write its state.\<close>

datatype circuit_op =
    Trigger halt_reason string "uuid option" "string option"
  | Remote "exn + remote_halt"
  | Subscribe
  | Reset

fun run_circuit_op ::
  "(string \<Rightarrow> exn + datetime) \<Rightarrow> (string \<Rightarrow> exn + uuid) \<Rightarrow> 'x circuit_ports \<Rightarrow> circuit_op
    \<Rightarrow> 'x halt_world \<Rightarrow> 'x halt_world" where
  "run_circuit_op ft uo ports (Trigger reason message operator_id trace_id) w =
     snd (circuit_trigger_halt ports reason message operator_id trace_id w)"
| "run_circuit_op ft uo ports (Remote data) w = snd (handle_remote_halt ft uo data w)"
| "run_circuit_op ft uo ports Subscribe w = snd (subscribe_to_halt_channel ports w)"
| "run_circuit_op ft uo ports Reset w = snd (reset_for_testing w)"

definition latched :: "'x halt_world \<Rightarrow> 'x halt_world \<Rightarrow> bool" where
  "latched w w' \<longleftrightarrow> cw_halted w \<longrightarrow> cw_halted w' \<and> cw_status w' = cw_status w"

text \<open>What the ports cannot reach.\<close>

definition same_circuit :: "'x halt_world \<Rightarrow> 'x halt_world \<Rightarrow> bool" where
  "same_circuit w w' \<longleftrightarrow> cw_halted w' = cw_halted w \<and> cw_status w' = cw_status w \<and> cw_clock w' = cw_clock w"

lemma same_circuit_refl [simp]: "same_circuit w w"
  by (simp add: same_circuit_def)

lemma same_circuit_trans: "same_circuit u v \<Longrightarrow> same_circuit v w \<Longrightarrow> same_circuit u w"
  by (simp add: same_circuit_def)

lemma outside_same: "outside m w = (r, w') \<Longrightarrow> same_circuit w w'"
  by (auto simp: outside_def same_circuit_def split: prod.splits)

lemma swallowed_outside: "\<exists>w'. swallowed (outside m) w = (Inr (), w') \<and> same_circuit w w'"
  by (cases "outside m w") (auto simp: swallowed_def act_try_def dest: outside_same split: sum.splits)

lemma publish_run: "\<exists>w'. publish_to_redis ports w = (Inr (), w') \<and> same_circuit w w'"
  using swallowed_outside by (auto simp: publish_to_redis_def split: option.splits)

lemma record_run: "\<exists>w'. record_to_ledger ports w = (Inr (), w') \<and> same_circuit w w'"
  using swallowed_outside by (auto simp: record_to_ledger_def Let_def split: option.splits)

text \<open>Triggering never raises: a halted circuit keeps its status, another one takes the new status.\<close>

lemma circuit_trigger_run:
  "\<exists>w'. circuit_trigger_halt ports reason message operator_id trace_id w = (Inr (cw_status w'), w') \<and>
     cw_halted w' \<and> cw_clock w' = cw_clock w \<and>
     cw_status w' = (if cw_halted w then cw_status w
       else halted_status reason message (cw_clock w (cw_clock_reads w)) operator_id trace_id)"
proof (cases "cw_halted w")
  case True
  then show ?thesis by (auto simp: circuit_trigger_halt_def act_bind_def halt_now_def)
next
  case False
  let ?s = "halted_status reason message (cw_clock w (cw_clock_reads w)) operator_id trace_id"
  let ?w = "w\<lparr>cw_clock_reads := cw_clock_reads w + 1, cw_status := ?s, cw_halted := True\<rparr>"
  obtain u where u: "publish_to_redis ports ?w = (Inr (), u)" "same_circuit ?w u" using publish_run by blast
  obtain v where v: "record_to_ledger ports u = (Inr (), v)" "same_circuit u v" using record_run by blast
  have "circuit_trigger_halt ports reason message operator_id trace_id w = (Inr (cw_status v), v)"
    using False u(1) v(1) by (simp add: circuit_trigger_halt_def act_bind_def halt_now_def)
  moreover have "cw_halted v \<and> cw_clock v = cw_clock w \<and> cw_status v = ?s"
    using u(2) v(2) by (simp add: same_circuit_def)
  ultimately show ?thesis using False by simp
qed

lemma latched_op: "op \<noteq> Reset \<Longrightarrow> latched w (run_circuit_op ft uo ports op w)"
proof (cases op)
  case (Trigger reason message operator_id trace_id)
  then show ?thesis
    using circuit_trigger_run [of ports reason message operator_id trace_id w] by (auto simp: latched_def)
next
  case (Remote data)
  then show ?thesis
    by (cases data) (auto simp: latched_def handle_remote_halt_def swallowed_def act_try_def act_bind_def split: sum.splits)
next
  case Subscribe
  have "same_circuit w (snd (subscribe_to_halt_channel ports w))"
    by (auto simp: subscribe_to_halt_channel_def swallowed_def act_try_def act_bind_def same_circuit_def outside_def
        split: option.splits sum.splits prod.splits)
  then show ?thesis by (simp add: Subscribe latched_def same_circuit_def)
qed simp

lemma latched_ops: "Reset \<notin> set ops \<Longrightarrow> latched w (fold (run_circuit_op ft uo ports) ops w)"
proof (induction ops arbitrary: w)
  case (Cons op ops)
  then show ?case using latched_op [where op = op and w = w and ft = ft and uo = uo and ports = ports]
      Cons.IH [of "run_circuit_op ft uo ports op w"] Cons.prems
    by (auto simp: latched_def)
qed (simp add: latched_def)

section \<open>The service and its ledger\<close>

definition trace_ok :: "string option \<Rightarrow> bool" where
  "trace_ok trace_id = (case trace_id of Some (c # cs) \<Rightarrow> \<not> blank (c # cs) | _ \<Rightarrow> True)"

lemma halt_service_event_types:
  "event_type_pattern ''constitutional.halt.triggered''" "event_type_pattern ''constitutional.halt.executed''"
  "event_type_pattern ''constitutional.halt.failed''"
  by code_simp+

lemma actor_of_nonblank: "\<not> blank (actor_of u)"
proof (cases u)
  case None
  have "\<not> blank ''system''" by code_simp
  then show ?thesis by (simp add: actor_of_def None)
qed (simp add: actor_of_def uuid_str_nonblank)

lemma halt_event_run:
  assumes "trace_ok trace_id" "event_type_pattern t" "\<not> blank a"
  shows "\<exists>e w'. halt_event t now a trace_id p w = (Inr e, w') \<and> same_circuit w w' \<and>
    cw_clock_reads w' = cw_clock_reads w \<and> cw_env w' = cw_env w"
proof (cases "trace_id = None \<or> trace_id = Some []")
  case True
  have "\<exists>e. governance_event_create i t now a (uuid_str u) p current_schema_version = Inr e" for i u
    using governance_event_create_ok [OF assms(2,3) uuid_str_nonblank] by blast
  then obtain e where "governance_event_create (cw_uuid w (Suc (cw_uuid_draws w))) t now a
      (uuid_str (cw_uuid w (cw_uuid_draws w))) p current_schema_version = Inr e" by blast
  with True show ?thesis
    by (auto simp: halt_event_def act_bind_def halt_uuid4_def same_circuit_def)
next
  case False
  then obtain c cs where c: "trace_id = Some (c # cs)" by (metis list.exhaust option.exhaust)
  then have "\<not> blank (c # cs)" using assms(1) by (simp add: trace_ok_def)
  then have "\<exists>e. governance_event_create i t now a (c # cs) p current_schema_version = Inr e" for i
    using governance_event_create_ok [OF assms(2,3)] by blast
  then obtain e where "governance_event_create (cw_uuid w (cw_uuid_draws w)) t now a (c # cs) p current_schema_version = Inr e"
    by blast
  with c show ?thesis by (auto simp: halt_event_def act_bind_def halt_uuid4_def same_circuit_def)
qed

lemma ledger_append_same: "ledger_append sv e w = (r, w') \<Longrightarrow> same_circuit w w'"
  by (auto simp: ledger_append_def dest: outside_same split: option.splits)

definition accepts :: "(governance_event \<Rightarrow> ('x, unit) act) \<Rightarrow> bool" where
  "accepts f \<longleftrightarrow> (\<forall>e x. \<exists>x'. f e x = (Inr (), x'))"

definition refuses :: "(governance_event \<Rightarrow> ('x, unit) act) \<Rightarrow> bool" where
  "refuses f \<longleftrightarrow> (\<forall>e x. \<exists>err x'. f e x = (Inl err, x'))"

lemma ledger_append_None: "sv_append sv = None \<Longrightarrow> \<exists>err. ledger_append sv e w = (Inl err, w) \<and> exn_kind err = AttributeError"
  by (simp add: ledger_append_def)

lemma ledger_append_refused:
  "sv_append sv = Some f \<Longrightarrow> refuses f \<Longrightarrow> \<exists>err w'. ledger_append sv e w = (Inl err, w')"
  unfolding refuses_def by (drule spec [of _ e], drule spec [of _ "cw_env w"]) (auto simp: ledger_append_def outside_def)

lemma ledger_append_accepted:
  "sv_append sv = Some f \<Longrightarrow> accepts f \<Longrightarrow>
     \<exists>w'. ledger_append sv e w = (Inr (), w') \<and> cw_clock_reads w' = cw_clock_reads w"
  unfolding accepts_def by (drule spec [of _ e], drule spec [of _ "cw_env w"]) (auto simp: ledger_append_def outside_def)

text \<open>When the event that announces a halt cannot be appended, the circuit is never asked.\<close>

lemma execute_halt_refused:
  assumes trace: "trace_ok trace_id" and refused: "\<And>e w. \<exists>err w'. ledger_append sv e w = (Inl err, w') \<and> P err"
  shows "\<exists>err w'. execute_halt sv who reason message trace_id w = (Inl err, w') \<and> P err \<and> same_circuit w w'"
proof -
  let ?w = "w\<lparr>cw_clock_reads := cw_clock_reads w + 1\<rparr>"
  obtain e u where u: "halt_event ''constitutional.halt.triggered'' (cw_clock w (cw_clock_reads w)) (actor_of who) trace_id
      [(''reason'', PyStr (halt_reason_value reason)), (''message'', PyStr message),
       (''triggered_at'', PyStr (isoformat (cw_clock w (cw_clock_reads w)))), (''operator_id'', py_opt uuid_str who)] ?w
      = (Inr e, u)" "same_circuit ?w u"
    using halt_event_run [OF trace halt_service_event_types(1) actor_of_nonblank] by metis
  obtain err v where v: "ledger_append sv e u = (Inl err, v)" "P err" using refused by blast
  then have "same_circuit w v" using u(2) ledger_append_same [OF v(1)] by (simp add: same_circuit_def)
  with u(1) v show ?thesis by (simp add: execute_halt_def emit_halt_triggered_def act_bind_def halt_now_def)
qed

lemma is_halted_status: "hs_is_halted (halted_status reason message t who trace_id)"
  by (simp add: halted_status_def)

lemma execute_halt_accepted:
  assumes trace: "trace_ok trace_id" and ledger: "sv_append sv = Some f" "accepts f" and live: "\<not> cw_halted w"
  shows "\<exists>r w'. execute_halt sv who reason message trace_id w = (Inr r, w') \<and> he_success r \<and>
    cw_halted w' \<and> he_status r = cw_status w' \<and> he_operator_id r = who \<and>
    cw_status w' = halted_status reason message (cw_clock w (Suc (cw_clock_reads w))) who trace_id"
proof -
  let ?w = "w\<lparr>cw_clock_reads := cw_clock_reads w + 1\<rparr>" and ?t = "cw_clock w (cw_clock_reads w)"
  obtain e u where u: "halt_event ''constitutional.halt.triggered'' ?t (actor_of who) trace_id
      [(''reason'', PyStr (halt_reason_value reason)), (''message'', PyStr message),
       (''triggered_at'', PyStr (isoformat ?t)), (''operator_id'', py_opt uuid_str who)] ?w
      = (Inr e, u)" "same_circuit ?w u" "cw_clock_reads u = cw_clock_reads ?w"
    using halt_event_run [OF trace halt_service_event_types(1) actor_of_nonblank] by metis
  obtain v where v: "ledger_append sv e u = (Inr (), v)" "cw_clock_reads v = cw_clock_reads u"
    using ledger_append_accepted [OF ledger] by blast
  have v': "\<not> cw_halted v" "cw_clock v = cw_clock w" "cw_clock_reads v = Suc (cw_clock_reads w)"
    using live u(2,3) v(2) ledger_append_same [OF v(1)] by (auto simp: same_circuit_def)
  let ?s = "halted_status reason message (cw_clock w (Suc (cw_clock_reads w))) who trace_id"
  obtain x where x: "circuit_trigger_halt (sv_circuit sv) reason message who trace_id v = (Inr ?s, x)"
    "cw_halted x" "cw_status x = ?s"
    using circuit_trigger_run [of "sv_circuit sv" reason message who trace_id v] v' by auto
  let ?r = "\<lparr>he_success = True, he_status = ?s, he_triggered_at = ?t, he_executed_at = cw_clock x (cw_clock_reads x),
      he_execution = cw_clock x (cw_clock_reads x) - ?t, he_channels_reached = determine_channels_reached ?s,
      he_operator_id = who\<rparr>"
  obtain e2 y where y: "halt_event ''constitutional.halt.executed'' (cw_clock x (cw_clock_reads x)) ''system'' trace_id
      (halt_execution_result_to_dict (sv_float_ms sv) ?r) (x\<lparr>cw_clock_reads := cw_clock_reads x + 1\<rparr>) = (Inr e2, y)"
    "same_circuit (x\<lparr>cw_clock_reads := cw_clock_reads x + 1\<rparr>) y"
    using halt_event_run [OF trace halt_service_event_types(2) actor_of_nonblank [of None, unfolded actor_of_def option.case]] by metis
  obtain z where z: "ledger_append sv e2 y = (Inr (), z)" using ledger_append_accepted [OF ledger] by blast
  have "execute_halt sv who reason message trace_id w = (Inr ?r, z)"
    using u(1) v(1) x(1) y(1) z
    by (simp add: execute_halt_def emit_halt_triggered_def emit_halt_executed_def act_bind_def act_try_def halt_now_def
        is_halted_status Let_def)
  moreover have "cw_halted z" "cw_status z = ?s"
    using ledger_append_same [OF z] y(2) x(2,3) by (auto simp: same_circuit_def)
  ultimately show ?thesis by (intro exI [of _ ?r] exI [of _ z]) simp
qed

lemma service_executes:
  assumes "\<not> blank message"
  shows "service_trigger_halt sv u reason message trace_id = execute_halt sv (Some u) reason message trace_id"
    and "trigger_system_halt sv reason message trace_id = execute_halt sv None reason message trace_id"
  using assms by (simp_all add: service_trigger_halt_def trigger_system_halt_def is_authorized_to_halt_def act_bind_def)

text \<open>A running system without Redis and event emitter.\<close>

definition running_world :: "unit halt_world" where
  "running_world = \<lparr>cw_halted = False, cw_status = not_halted, cw_subscribed = False, cw_env = (), cw_clock = int,
     cw_clock_reads = 0, cw_uuid = of_nat, cw_uuid_draws = 0\<rparr>"

definition no_ports :: "unit circuit_ports" where
  "no_ports = \<lparr>cp_redis = None, cp_emit = None\<rparr>"

section \<open>Claims\<close>

text \<open>
  C23: Triggering the circuit never raises, whatever Redis and the event emitter do, and leaves it halted with the
  status it answers: the status it had when it was halted before, the reason, message, operator and time given
  otherwise. From then on, whatever is triggered, received or subscribed to, it stays halted with that status, and
  every operation guarded by it raises HaltedException without being run, as long as \<open>reset_for_testing\<close> is not
  called. That method clears the halt of any circuit, at any time: its documentation promises a RuntimeError in
  production, but nothing checks where it runs. After it guarded operations run again.
\<close>

theorem halt_circuit_latches:
  "\<exists>w'. circuit_trigger_halt ports reason message operator_id trace_id w = (Inr (get_halt_status w'), w') \<and>
     get_halt_status w' = (if is_halted w then get_halt_status w
       else halted_status reason message (cw_clock w (cw_clock_reads w)) operator_id trace_id) \<and>
     (let later = fold (run_circuit_op ft uo ports) ops w' in
        Reset \<notin> set ops \<longrightarrow>
        is_halted later \<and> get_halt_status later = get_halt_status w' \<and>
        wrap_sync operation later = (Inl (halted_exception (get_halt_status w')), later)) \<and>
     (let cleared = fold (run_circuit_op ft uo ports) (ops @ [Reset]) w' in
        reset_for_testing (fold (run_circuit_op ft uo ports) ops w') = (Inr (), cleared) \<and>
        \<not> is_halted cleared \<and> get_halt_status cleared = not_halted \<and>
        wrap_sync operation cleared = operation cleared)"
proof -
  obtain w' where w': "circuit_trigger_halt ports reason message operator_id trace_id w = (Inr (cw_status w'), w')"
    "cw_halted w'" "cw_status w' = (if cw_halted w then cw_status w
       else halted_status reason message (cw_clock w (cw_clock_reads w)) operator_id trace_id)"
    using circuit_trigger_run [of ports reason message operator_id trace_id w] by blast
  have "Reset \<notin> set ops \<longrightarrow> cw_halted (fold (run_circuit_op ft uo ports) ops w') \<and>
      cw_status (fold (run_circuit_op ft uo ports) ops w') = cw_status w'"
    using latched_ops [of ops w' ft uo ports] w'(2) by (auto simp: latched_def)
  with w' show ?thesis
    by (intro exI [of _ w'])
      (simp add: is_halted_def get_halt_status_def wrap_sync_def check_or_raise_def reset_for_testing_def
        act_bind_def Let_def)
qed

lemma halt_circuit_latches_witness:
  "\<exists>w'. circuit_trigger_halt no_ports OPERATOR ''stop'' (Some 7) None running_world = (Inr (get_halt_status w'), w') \<and>
     get_halt_status w' = halted_status OPERATOR ''stop'' 0 (Some 7) None \<and>
     (let later = fold (run_circuit_op (\<lambda>_. Inr 0) (\<lambda>_. Inr 0) no_ports)
        [Trigger SYSTEM_FAULT ''again'' None None, Remote (Inl (Exn ValueError '''')), Subscribe] w' in
      is_halted later \<and> get_halt_status later = get_halt_status w' \<and>
      wrap_sync (act_return ''ran'') later = (Inl (halted_exception (get_halt_status w')), later))"
proof -
  have start: "\<not> is_halted running_world" "cw_clock running_world (cw_clock_reads running_world) = 0"
    by (simp_all add: is_halted_def running_world_def)
  have others: "Reset \<notin> set [Trigger SYSTEM_FAULT ''again'' None None, Remote (Inl (Exn ValueError '''')), Subscribe]"
    by simp
  show ?thesis
    using halt_circuit_latches [where ports = no_ports and w = running_world and reason = OPERATOR and message = "''stop''"
        and operator_id = "Some 7" and trace_id = None and ft = "\<lambda>_. Inr 0" and uo = "\<lambda>_. Inr 0"
        and ops = "[Trigger SYSTEM_FAULT ''again'' None None, Remote (Inl (Exn ValueError '''')), Subscribe]"
        and operation = "act_return ''ran''"] others start
    unfolding Let_def by (metis (no_types, lifting))
qed

text \<open>
  A halt through the service, by an operator or by the system, depends on the ledger. With a ledger that has no
  \<open>append\<close>, as every ledger of the repository, it always raises AttributeError and the circuit is not halted; with
  one that refuses the announcing event it raises too and the circuit is not halted either; only with a ledger
  that accepts does a running system halt, whatever Redis and the event emitter do, with the result reporting
  success and the status of the circuit.
\<close>

theorem halt_service_needs_ledger:
  assumes "\<not> blank message" and "trace_ok trace_id"
    and "halt = service_trigger_halt sv u reason message trace_id \<and> who = Some u \<or>
      halt = trigger_system_halt sv reason message trace_id \<and> who = None"
  shows "(sv_append sv = None \<longrightarrow>
      (\<exists>e w'. halt w = (Inl e, w') \<and> exn_kind e = AttributeError \<and> same_circuit w w')) \<and>
    (sv_append sv = Some f \<and> refuses f \<longrightarrow> (\<exists>e w'. halt w = (Inl e, w') \<and> same_circuit w w')) \<and>
    (sv_append sv = Some f \<and> accepts f \<and> \<not> is_halted w \<longrightarrow>
      (\<exists>r w'. halt w = (Inr r, w') \<and> he_success r \<and> is_halted w' \<and> he_status r = get_halt_status w' \<and>
         get_halt_status w' = halted_status reason message (cw_clock w (Suc (cw_clock_reads w))) who trace_id))"
proof -
  have halt: "halt = execute_halt sv who reason message trace_id" using assms(3) service_executes [OF assms(1)] by metis
  show ?thesis
  proof (intro conjI impI)
    assume "sv_append sv = None"
    then show "\<exists>e w'. halt w = (Inl e, w') \<and> exn_kind e = AttributeError \<and> same_circuit w w'"
      unfolding halt using ledger_append_None by (intro execute_halt_refused [OF assms(2)]) blast
  next
    assume "sv_append sv = Some f \<and> refuses f"
    then show "\<exists>e w'. halt w = (Inl e, w') \<and> same_circuit w w'"
      unfolding halt using execute_halt_refused [OF assms(2), of sv "\<lambda>_. True", simplified] ledger_append_refused by blast
  next
    assume "sv_append sv = Some f \<and> accepts f \<and> \<not> is_halted w"
    then show "\<exists>r w'. halt w = (Inr r, w') \<and> he_success r \<and> is_halted w' \<and> he_status r = get_halt_status w' \<and>
         get_halt_status w' = halted_status reason message (cw_clock w (Suc (cw_clock_reads w))) who trace_id"
      unfolding halt is_halted_def get_halt_status_def using execute_halt_accepted [OF assms(2)] by blast
  qed
qed

text \<open>A service without a ledger, and with one that accepts everything.\<close>

definition example_service :: "(governance_event \<Rightarrow> (unit, unit) act) option \<Rightarrow> unit halt_service" where
  "example_service append_fn = \<lparr>sv_circuit = \<lparr>cp_redis = None, cp_emit = None\<rparr>, sv_append = append_fn,
     sv_ledger_class = ''InMemoryGovernanceLedgerAdapter'', sv_float_ms = (\<lambda>_. FloatNaN)\<rparr>"

lemma halt_service_needs_ledger_witness:
  "(\<exists>e w'. service_trigger_halt (example_service None) 7 OPERATOR ''stop'' None running_world = (Inl e, w') \<and> \<not> is_halted w') \<and>
   (\<exists>r w'. trigger_system_halt (example_service (Some (\<lambda>_. act_return ()))) SYSTEM_FAULT ''stop'' None running_world = (Inr r, w')
      \<and> is_halted w')"
proof -
  have said: "\<not> blank ''stop''" and none: "trace_ok None" by code_simp+
  have "accepts (\<lambda>_. act_return () :: (unit, unit) act)" by (simp add: accepts_def)
  then show ?thesis
    using halt_service_needs_ledger [OF said none, where sv = "example_service None" and w = running_world and u = 7
        and reason = OPERATOR and who = "Some 7" and halt = "service_trigger_halt (example_service None) 7 OPERATOR ''stop'' None"]
      halt_service_needs_ledger [OF said none, where sv = "example_service (Some (\<lambda>_. act_return ()))" and w = running_world
        and f = "\<lambda>_. act_return ()" and reason = SYSTEM_FAULT and who = None
        and halt = "trigger_system_halt (example_service (Some (\<lambda>_. act_return ()))) SYSTEM_FAULT ''stop'' None"]
    by (simp add: example_service_def running_world_def is_halted_def same_circuit_def) blast
qed

end
