(* ===== verification/Petition.thy ===== *)
theory Petition
  imports Py_Text Transition_System
begin

text \<open>
  Petition submissions: their states and transition matrix, the immutable submission and its \<open>with_...\<close>
  operations (\<open>src/domain/models/petition_submission.py\<close>, \<open>src/domain/errors/state_transition.py\<close>).
\<close>

section \<open>States\<close>

datatype petition_type = GENERAL | CESSATION | GRIEVANCE | COLLABORATION | META

fun petition_type_value :: "petition_type \<Rightarrow> string" where
  "petition_type_value GENERAL = ''GENERAL''"
| "petition_type_value CESSATION = ''CESSATION''"
| "petition_type_value GRIEVANCE = ''GRIEVANCE''"
| "petition_type_value COLLABORATION = ''COLLABORATION''"
| "petition_type_value META = ''META''"

datatype petition_state = RECEIVED | DELIBERATING | ACKNOWLEDGED | REFERRED | ESCALATED | DEFERRED | NO_RESPONSE

fun petition_state_value :: "petition_state \<Rightarrow> string" where
  "petition_state_value RECEIVED = ''RECEIVED''"
| "petition_state_value DELIBERATING = ''DELIBERATING''"
| "petition_state_value ACKNOWLEDGED = ''ACKNOWLEDGED''"
| "petition_state_value REFERRED = ''REFERRED''"
| "petition_state_value ESCALATED = ''ESCALATED''"
| "petition_state_value DEFERRED = ''DEFERRED''"
| "petition_state_value NO_RESPONSE = ''NO_RESPONSE''"

definition terminal_states :: "petition_state list" where
  "terminal_states = [ACKNOWLEDGED, REFERRED, ESCALATED, DEFERRED, NO_RESPONSE]"

text \<open>The sets of the matrix, in the order they are written; the order of a \<open>frozenset\<close> only shows in messages.\<close>

fun state_transition_matrix :: "petition_state \<Rightarrow> petition_state list" where
  "state_transition_matrix RECEIVED = [DELIBERATING, ACKNOWLEDGED, ESCALATED]"
| "state_transition_matrix DELIBERATING = [ACKNOWLEDGED, REFERRED, ESCALATED, DEFERRED, NO_RESPONSE]"
| "state_transition_matrix _ = []"

definition petition_is_terminal :: "petition_state \<Rightarrow> bool" where
  "petition_is_terminal s \<longleftrightarrow> s \<in> set terminal_states"

definition valid_petition_move :: "petition_state \<Rightarrow> petition_state \<Rightarrow> bool" where
  "valid_petition_move s t \<longleftrightarrow> t \<in> set (state_transition_matrix s)"

definition petition_rank :: "petition_state \<Rightarrow> nat" where
  "petition_rank s = (case s of RECEIVED \<Rightarrow> 0 | DELIBERATING \<Rightarrow> 1 | _ \<Rightarrow> 2)"

interpretation petitions: transition_table valid_petition_move petition_is_terminal petition_rank 2
proof
  show "petition_rank s < petition_rank t" if "valid_petition_move s t" for s t
    using that by (cases s) (auto simp: valid_petition_move_def petition_rank_def)
  show "petition_is_terminal s \<longleftrightarrow> (\<forall>t. \<not> valid_petition_move s t)" for s
    by (cases s) (auto simp: valid_petition_move_def petition_is_terminal_def terminal_states_def)
  show "petition_rank s \<le> 2" for s
    by (cases s) (simp_all add: petition_rank_def)
qed

section \<open>Errors\<close>

text \<open>\<open>sep.join(xs)\<close>.\<close>

fun join_str :: "string \<Rightarrow> string list \<Rightarrow> string" where
  "join_str sep [] = []"
| "join_str sep [x] = x"
| "join_str sep (x # y # zs) = x @ sep @ join_str sep (y # zs)"

definition state_list_repr :: "petition_state list \<Rightarrow> string" where
  "state_list_repr ss = ''['' @ join_str '', '' (map (\<lambda>s. py_repr (petition_state_value s)) ss) @ '']''"

definition invalid_state_transition :: "petition_state \<Rightarrow> petition_state \<Rightarrow> petition_state list \<Rightarrow> exn" where
  "invalid_state_transition from_state to_state allowed_transitions = Exn InvalidStateTransitionError
     (''Invalid state transition: '' @ petition_state_value from_state @ '' -> '' @ petition_state_value to_state @ ''.'' @
      (if allowed_transitions = [] then [] else '' Valid transitions: '' @ state_list_repr allowed_transitions))"

definition petition_already_fated :: "uuid \<Rightarrow> petition_state \<Rightarrow> exn" where
  "petition_already_fated petition_id terminal_state = Exn PetitionAlreadyFatedError
     (''Petition '' @ uuid_str petition_id @ '' already has fate: '' @ petition_state_value terminal_state @
      ''. Terminal states cannot be modified.'')"

section \<open>Submissions\<close>

record petition_submission =
  pt_id :: uuid
  pt_type :: petition_type
  pt_text :: string
  pt_state :: petition_state
  pt_submitter_id :: "uuid option"
  pt_content_hash :: "bytes option"
  pt_realm :: string
  pt_created_at :: datetime
  pt_updated_at :: datetime
  pt_fate_reason :: "string option"
  pt_co_signer_count :: int
  pt_escalation_source :: "string option"
  pt_escalated_at :: "datetime option"
  pt_escalated_to_realm :: "string option"
  pt_adopted_as_motion_id :: "uuid option"
  pt_adopted_at :: "datetime option"
  pt_adopted_by_king_id :: "uuid option"

definition max_text_length :: nat where
  "max_text_length = 10000"

definition mk_petition_submission :: "petition_submission \<Rightarrow> exn + petition_submission" where
  "mk_petition_submission p =
     (if length (pt_text p) > max_text_length then
        Inl (Exn ValueError (''Petition text exceeds maximum length of '' @ show_nat max_text_length @ '' characters''))
      else case pt_content_hash p of
        Some h \<Rightarrow> if length h \<noteq> 32 then Inl (Exn ValueError ''Content hash must be 32 bytes (Blake3)'') else Inr p
      | None \<Rightarrow> Inr p)"

text \<open>The fields a new submission leaves at their defaults.\<close>

definition new_submission ::
  "uuid \<Rightarrow> petition_type \<Rightarrow> string \<Rightarrow> petition_state \<Rightarrow> uuid option \<Rightarrow> bytes option \<Rightarrow> string \<Rightarrow> datetime \<Rightarrow> datetime
    \<Rightarrow> petition_submission" where
  "new_submission i ty txt state submitter_id content_hash realm created_at updated_at = \<lparr>pt_id = i, pt_type = ty, pt_text = txt,
     pt_state = state, pt_submitter_id = submitter_id, pt_content_hash = content_hash, pt_realm = realm,
     pt_created_at = created_at, pt_updated_at = updated_at, pt_fate_reason = None, pt_co_signer_count = 0,
     pt_escalation_source = None, pt_escalated_at = None, pt_escalated_to_realm = None,
     pt_adopted_as_motion_id = None, pt_adopted_at = None, pt_adopted_by_king_id = None\<rparr>"

text \<open>\<open>now\<close> is what \<open>_utc_now\<close> returns.\<close>

definition with_state :: "datetime \<Rightarrow> petition_state \<Rightarrow> string option \<Rightarrow> petition_submission \<Rightarrow> exn + petition_submission" where
  "with_state now new_state reason p =
     (if petition_is_terminal (pt_state p) then Inl (petition_already_fated (pt_id p) (pt_state p))
      else if new_state \<notin> set (state_transition_matrix (pt_state p)) then
        Inl (invalid_state_transition (pt_state p) new_state (state_transition_matrix (pt_state p)))
      else mk_petition_submission (p\<lparr>pt_state := new_state, pt_updated_at := now,
        pt_fate_reason := (case reason of None \<Rightarrow> pt_fate_reason p | Some r \<Rightarrow> Some r)\<rparr>))"

definition with_content_hash :: "datetime \<Rightarrow> bytes \<Rightarrow> petition_submission \<Rightarrow> exn + petition_submission" where
  "with_content_hash now h p = mk_petition_submission (p\<lparr>pt_content_hash := Some h, pt_updated_at := now\<rparr>)"

definition with_escalation ::
  "datetime \<Rightarrow> string \<Rightarrow> string \<Rightarrow> datetime option \<Rightarrow> petition_submission \<Rightarrow> exn + petition_submission" where
  "with_escalation now escalation_source escalated_to_realm escalated_at p =
     mk_petition_submission (p\<lparr>pt_updated_at := now, pt_escalation_source := Some escalation_source,
       pt_escalated_at := Some (case escalated_at of None \<Rightarrow> now | Some t \<Rightarrow> t),
       pt_escalated_to_realm := Some escalated_to_realm\<rparr>)"

definition with_adoption ::
  "datetime \<Rightarrow> uuid \<Rightarrow> uuid \<Rightarrow> datetime option \<Rightarrow> petition_submission \<Rightarrow> exn + petition_submission" where
  "with_adoption now motion_id king_id adopted_at p =
     (case pt_adopted_as_motion_id p of
        Some m \<Rightarrow> Inl (Exn ValueError (''Petition '' @ uuid_str (pt_id p) @ '' already adopted as motion '' @ uuid_str m))
      | None \<Rightarrow> mk_petition_submission (p\<lparr>pt_updated_at := now, pt_adopted_as_motion_id := Some motion_id,
          pt_adopted_at := Some (case adopted_at of None \<Rightarrow> now | Some t \<Rightarrow> t), pt_adopted_by_king_id := Some king_id\<rparr>))"

definition canonical_content_bytes :: "petition_submission \<Rightarrow> bytes" where
  "canonical_content_bytes p = str_encode (pt_text p)"

text \<open>What a constructed submission satisfies; only text and hash matter.\<close>

definition submission_ok :: "petition_submission \<Rightarrow> bool" where
  "submission_ok p \<longleftrightarrow> length (pt_text p) \<le> max_text_length \<and> pred_option (\<lambda>h. length h = 32) (pt_content_hash p)"

lemma mk_petition_submission_iff: "mk_petition_submission p = Inr p' \<longleftrightarrow> p' = p \<and> submission_ok p"
  by (auto simp: mk_petition_submission_def submission_ok_def split: option.splits)

lemma submission_ok_cong: "pt_text q = pt_text p \<Longrightarrow> pt_content_hash q = pt_content_hash p \<Longrightarrow> submission_ok q = submission_ok p"
  by (simp add: submission_ok_def)

lemma with_state_Inr:
  "with_state now t reason p = Inr p' \<Longrightarrow>
     valid_petition_move (pt_state p) t \<and> p' = p\<lparr>pt_state := t, pt_updated_at := now,
        pt_fate_reason := (case reason of None \<Rightarrow> pt_fate_reason p | Some r \<Rightarrow> Some r)\<rparr>"
  by (auto simp: with_state_def valid_petition_move_def mk_petition_submission_iff split: if_splits)

end
