(* ===== verification/Petition_World.thy ===== *)
theory Petition_World
  imports Petition
begin

text \<open>
  Where petitions are kept: the in-memory repository
  (\<open>src/infrastructure/stubs/petition_submission_repository_stub.py\<close>) and the PostgreSQL one
  (\<open>src/infrastructure/adapters/persistence/petition_submission_repository.py\<close> with the table of
  \<open>src/migrations/012\<close>, \<open>025\<close> and \<open>026\<close>). Both are models of one interface, \<open>fate_store\<close>; what it gives,
  that a petition has at most one fate, is proved once.

  The world also holds the clock and \<open>uuid4\<close> as sequences of values, and the state \<open>'x\<close> of everything else.
\<close>

record 'x petition_world =
  pw_submissions :: "(uuid, petition_submission) dict"
  pw_env :: 'x
  pw_clock :: "nat \<Rightarrow> datetime"
  pw_clock_reads :: nat
  pw_uuid :: "nat \<Rightarrow> uuid"
  pw_uuid_draws :: nat

definition clock_now :: "('x petition_world, datetime) act" where
  "clock_now = (\<lambda>w. (Inr (pw_clock w (pw_clock_reads w)), w\<lparr>pw_clock_reads := pw_clock_reads w + 1\<rparr>))"

definition new_uuid :: "('x petition_world, uuid) act" where
  "new_uuid = (\<lambda>w. (Inr (pw_uuid w (pw_uuid_draws w)), w\<lparr>pw_uuid_draws := pw_uuid_draws w + 1\<rparr>))"

definition in_env :: "('x, 'a) act \<Rightarrow> ('x petition_world, 'a) act" where
  "in_env m = (\<lambda>w. case m (pw_env w) of (r, x) \<Rightarrow> (r, w\<lparr>pw_env := x\<rparr>))"

definition put_submission :: "uuid \<Rightarrow> petition_submission \<Rightarrow> ('x petition_world, unit) act" where
  "put_submission i p = (\<lambda>w. (Inr (), w\<lparr>pw_submissions := dict_set i p (pw_submissions w)\<rparr>))"

text \<open>
  The repository as the services see it. Of the arguments of \<open>assign_fate_cas\<close>, \<open>fate_reason\<close> may be left out by
  the caller (\<open>None\<close>) or passed (\<open>Some reason\<close>).
\<close>

record 'w petition_repository =
  rp_save :: "petition_submission \<Rightarrow> ('w, unit) act"
  rp_get :: "uuid \<Rightarrow> ('w, petition_submission option) act"
  rp_update_state :: "uuid \<Rightarrow> petition_state \<Rightarrow> ('w, unit) act"
  rp_assign_fate_cas :: "uuid \<Rightarrow> petition_state \<Rightarrow> petition_state \<Rightarrow> string option option \<Rightarrow> string option \<Rightarrow> string option
    \<Rightarrow> ('w, petition_submission) act"
  rp_mark_adopted :: "uuid \<Rightarrow> uuid \<Rightarrow> uuid \<Rightarrow> ('w, petition_submission) act"

section \<open>In memory\<close>

definition stub_save :: "petition_submission \<Rightarrow> ('x petition_world, unit) act" where
  "stub_save p = (\<lambda>w.
     if dict_get (pw_submissions w) (pt_id p) \<noteq> None then
       (Inl (Exn ValueError (''Submission already exists: '' @ uuid_str (pt_id p))), w)
     else put_submission (pt_id p) p w)"

definition stub_get :: "uuid \<Rightarrow> ('x petition_world, petition_submission option) act" where
  "stub_get i = (\<lambda>w. (Inr (dict_get (pw_submissions w) i), w))"

text \<open>The sort is stable, also in reverse: submissions of the same time keep their order.\<close>

definition stub_list_by_state ::
  "petition_state \<Rightarrow> int \<Rightarrow> int \<Rightarrow> ('x petition_world, petition_submission list \<times> nat) act" where
  "stub_list_by_state state limit offset = (\<lambda>w.
     let matching = sort_key (\<lambda>p. - pt_created_at p) (filter (\<lambda>p. pt_state p = state) (map snd (pw_submissions w)))
     in (Inr (py_slice matching offset (offset + limit), length matching), w))"

definition submission_not_found :: "uuid \<Rightarrow> exn" where
  "submission_not_found i = Exn KeyError (py_repr (''Submission not found: '' @ uuid_str i))"

text \<open>The rebuilt submission leaves out escalation and adoption.\<close>

definition stub_update_state :: "uuid \<Rightarrow> petition_state \<Rightarrow> string option \<Rightarrow> ('x petition_world, unit) act" where
  "stub_update_state i new_state fate_reason =
     act_bind (stub_get i) (\<lambda>found. case found of
       None \<Rightarrow> act_raise (submission_not_found i)
     | Some p \<Rightarrow>
         act_bind clock_now (\<lambda>now.
         act_bind (act_lift (mk_petition_submission
           ((new_submission (pt_id p) (pt_type p) (pt_text p) new_state (pt_submitter_id p) (pt_content_hash p) (pt_realm p)
             (pt_created_at p) now)
            \<lparr>pt_fate_reason := (case fate_reason of None \<Rightarrow> pt_fate_reason p | Some r \<Rightarrow> Some r),
             pt_co_signer_count := pt_co_signer_count p\<rparr>))) (put_submission i)))"

definition concurrent_modification :: "uuid \<Rightarrow> petition_state \<Rightarrow> exn" where
  "concurrent_modification i expected_state = Exn ConcurrentModificationError
     (''Concurrent modification detected for petition '' @ uuid_str i @ '' during fate_assignment. Expected state: '' @
      petition_state_value expected_state @ ''. Another process has modified this petition.'')"

definition or_else :: "'a option \<Rightarrow> 'a \<Rightarrow> 'a option" where
  "or_else v d = Some (case v of None \<Rightarrow> d | Some x \<Rightarrow> x)"

definition stub_assign_fate_cas ::
  "uuid \<Rightarrow> petition_state \<Rightarrow> petition_state \<Rightarrow> string option \<Rightarrow> string option \<Rightarrow> string option
    \<Rightarrow> ('x petition_world, petition_submission) act" where
  "stub_assign_fate_cas i expected_state new_state fate_reason escalation_source escalated_to_realm =
     act_bind (stub_get i) (\<lambda>found. case found of
       None \<Rightarrow> act_raise (submission_not_found i)
     | Some p \<Rightarrow>
         if petition_is_terminal (pt_state p) then act_raise (petition_already_fated i (pt_state p))
         else if pt_state p \<noteq> expected_state then act_raise (concurrent_modification i expected_state)
         else if new_state \<notin> set (state_transition_matrix (pt_state p)) then
           act_raise (invalid_state_transition (pt_state p) new_state (state_transition_matrix (pt_state p)))
         else
           act_bind (if new_state = ESCALATED
               then act_bind clock_now (\<lambda>at. act_return (or_else escalation_source ''DELIBERATION'', Some at,
                 or_else escalated_to_realm (pt_realm p)))
               else act_return (escalation_source, None, escalated_to_realm)) (\<lambda>(source, escalated_at, realm).
           act_bind clock_now (\<lambda>now.
           act_bind (act_lift (mk_petition_submission (p\<lparr>pt_state := new_state, pt_updated_at := now, pt_fate_reason := fate_reason,
             pt_escalation_source := source, pt_escalated_at := escalated_at, pt_escalated_to_realm := realm\<rparr>))) (\<lambda>updated.
           act_bind (put_submission i updated) (\<lambda>_. act_return updated)))))"

definition stub_mark_adopted :: "uuid \<Rightarrow> uuid \<Rightarrow> uuid \<Rightarrow> ('x petition_world, petition_submission) act" where
  "stub_mark_adopted i motion_id king_id =
     act_bind (stub_get i) (\<lambda>found. case found of
       None \<Rightarrow> act_raise (submission_not_found i)
     | Some p \<Rightarrow>
         (case pt_adopted_as_motion_id p of
            Some m \<Rightarrow>
              if m = motion_id then act_return p
              else act_raise (Exn ValueError (''Petition '' @ uuid_str i @ '' already adopted as motion '' @ uuid_str m @
                '', cannot adopt as '' @ uuid_str motion_id))
          | None \<Rightarrow>
              act_bind clock_now (\<lambda>now.
              act_bind clock_now (\<lambda>adopted_at.
              act_bind (act_lift (mk_petition_submission (p\<lparr>pt_updated_at := now, pt_adopted_as_motion_id := Some motion_id,
                pt_adopted_at := Some adopted_at, pt_adopted_by_king_id := Some king_id\<rparr>))) (\<lambda>updated.
              act_bind (put_submission i updated) (\<lambda>_. act_return updated))))))"

definition stub_repository :: "'x petition_world petition_repository" where
  "stub_repository = \<lparr>rp_save = stub_save, rp_get = stub_get, rp_update_state = (\<lambda>i s. stub_update_state i s None),
     rp_assign_fate_cas = (\<lambda>i e s reason. stub_assign_fate_cas i e s (case reason of None \<Rightarrow> None | Some r \<Rightarrow> r)),
     rp_mark_adopted = stub_mark_adopted\<rparr>"

section \<open>In PostgreSQL\<close>

text \<open>
  The table is \<open>pw_submissions\<close>, a row being a submission whose fate reason and adoption are not stored. The column
  type of \<open>type\<close> has no value \<open>META\<close>. Each method is one transaction, but another one may commit between the SELECT
  and the UPDATE of \<open>assign_fate_cas\<close>: \<open>others\<close> is what these do to the table.
\<close>

definition stored_row :: "petition_submission \<Rightarrow> petition_submission" where
  "stored_row p = p\<lparr>pt_fate_reason := None, pt_adopted_as_motion_id := None, pt_adopted_at := None,
     pt_adopted_by_king_id := None\<rparr>"

definition pg_save :: "petition_submission \<Rightarrow> ('x petition_world, unit) act" where
  "pg_save p = (\<lambda>w.
     if pt_type p = META then (Inl (Exn DBAPIError ''invalid input value for enum petition_type_enum''), w)
     else if dict_get (pw_submissions w) (pt_id p) \<noteq> None then (Inl (Exn DBAPIError ''petition_submissions_pkey''), w)
     else if length (pt_text p) > max_text_length then (Inl (Exn DBAPIError ''petition_text_length''), w)
     else if pt_co_signer_count p < 0 then
       (Inl (Exn DBAPIError ''chk_petition_submissions_cosigner_count_non_negative''), w)
     else put_submission (pt_id p) (stored_row p) w)"

definition pg_get :: "uuid \<Rightarrow> ('x petition_world, petition_submission option) act" where
  "pg_get i = (\<lambda>w. case dict_get (pw_submissions w) i of
       None \<Rightarrow> (Inr None, w)
     | Some row \<Rightarrow> (case mk_petition_submission (stored_row row) of Inl e \<Rightarrow> (Inl e, w) | Inr p \<Rightarrow> (Inr (Some p), w)))"

definition pg_not_found :: "uuid \<Rightarrow> exn" where
  "pg_not_found i = Exn PetitionSubmissionNotFoundError
     (''FR-5.5: Petition submission not found for petition: '' @ uuid_str i)"

definition pg_update_state :: "uuid \<Rightarrow> petition_state \<Rightarrow> ('x petition_world, unit) act" where
  "pg_update_state i new_state =
     act_bind clock_now (\<lambda>now w. case dict_get (pw_submissions w) i of
       None \<Rightarrow> (Inl (pg_not_found i), w)
     | Some row \<Rightarrow> (Inr (), w\<lparr>pw_submissions := dict_set i (row\<lparr>pt_state := new_state, pt_updated_at := now\<rparr>) (pw_submissions w)\<rparr>))"

definition coalesce :: "'a option \<Rightarrow> 'a option \<Rightarrow> 'a option" where
  "coalesce v d = (case v of None \<Rightarrow> d | Some x \<Rightarrow> Some x)"

text \<open>A keyword the method does not have, and keywords \<open>ConcurrentModificationError\<close> does not have.\<close>

definition unexpected_keyword :: "string \<Rightarrow> string \<Rightarrow> exn" where
  "unexpected_keyword f k = Exn TypeError (f @ ''() got an unexpected keyword argument '' @ py_repr k)"

definition pg_assign_fate_cas ::
  "((uuid, petition_submission) dict \<Rightarrow> (uuid, petition_submission) dict)
    \<Rightarrow> uuid \<Rightarrow> petition_state \<Rightarrow> petition_state \<Rightarrow> string option option \<Rightarrow> string option \<Rightarrow> string option
    \<Rightarrow> ('x petition_world, petition_submission) act" where
  "pg_assign_fate_cas others i expected_state new_state fate_reason escalation_source escalated_to_realm =
     (if fate_reason \<noteq> None then
        act_raise (unexpected_keyword ''PostgresPetitionSubmissionRepository.assign_fate_cas'' ''fate_reason'')
      else if new_state \<notin> set (state_transition_matrix expected_state) then
        act_raise (invalid_state_transition expected_state new_state (state_transition_matrix expected_state))
      else
        act_bind clock_now (\<lambda>now w.
          case dict_get (pw_submissions w) i of
            None \<Rightarrow> (Inl (pg_not_found i), w)
          | Some row \<Rightarrow>
              if petition_is_terminal (pt_state row) then (Inl (petition_already_fated i (pt_state row)), w)
              else
                (let table = others (pw_submissions w); w = w\<lparr>pw_submissions := table\<rparr> in
                 case dict_get table i of
                   Some row \<Rightarrow>
                     if pt_state row = expected_state then
                       (let row = row\<lparr>pt_state := new_state, pt_updated_at := now,
                              pt_escalation_source := coalesce escalation_source (pt_escalation_source row),
                              pt_escalated_at := coalesce (if new_state = ESCALATED then Some now else None) (pt_escalated_at row),
                              pt_escalated_to_realm := coalesce escalated_to_realm (pt_escalated_to_realm row)\<rparr>
                        in case mk_petition_submission (stored_row row) of
                             Inl e \<Rightarrow> (Inl e, w)
                           | Inr p \<Rightarrow> (Inr p, w\<lparr>pw_submissions := dict_set i row table\<rparr>))
                     else (Inl (unexpected_keyword ''ConcurrentModificationError.__init__'' ''resource_type''), w)
                 | None \<Rightarrow> (Inl (unexpected_keyword ''ConcurrentModificationError.__init__'' ''resource_type''), w))))"

definition pg_mark_adopted :: "uuid \<Rightarrow> uuid \<Rightarrow> uuid \<Rightarrow> ('x petition_world, petition_submission) act" where
  "pg_mark_adopted i motion_id king_id =
     act_bind (pg_get i) (\<lambda>found. case found of None \<Rightarrow> act_raise (pg_not_found i) | Some p \<Rightarrow> act_return p)"

definition pg_list_by_state ::
  "petition_state \<Rightarrow> nat \<Rightarrow> nat \<Rightarrow> ('x petition_world, petition_submission list \<times> nat) act" where
  "pg_list_by_state state limit offset = (\<lambda>w.
     let matching = sort_key (\<lambda>p. - pt_created_at p) (filter (\<lambda>p. pt_state p = state) (map snd (pw_submissions w)))
     in (case map_raise (\<lambda>row. mk_petition_submission (stored_row row)) (take limit (drop offset matching)) of
           Inl e \<Rightarrow> (Inl e, w) | Inr ps \<Rightarrow> (Inr (ps, length matching), w)))"

definition pg_get_queue_depth :: "petition_state option \<Rightarrow> ('x petition_world, nat) act" where
  "pg_get_queue_depth state = (\<lambda>w.
     (Inr (length (filter (\<lambda>p. case state of Some s \<Rightarrow> pt_state p = s | None \<Rightarrow> \<not> petition_is_terminal (pt_state p))
        (map snd (pw_submissions w)))), w))"

definition postgres_repository ::
  "((uuid, petition_submission) dict \<Rightarrow> (uuid, petition_submission) dict) \<Rightarrow> 'x petition_world petition_repository" where
  "postgres_repository others = \<lparr>rp_save = pg_save, rp_get = pg_get, rp_update_state = pg_update_state,
     rp_assign_fate_cas = pg_assign_fate_cas others, rp_mark_adopted = pg_mark_adopted\<rparr>"

section \<open>One fate\<close>

text \<open>From one assignment of states to petitions to another by moves of the matrix; petitions may be added.\<close>

definition moves_on :: "(uuid \<Rightarrow> petition_state option) \<Rightarrow> (uuid \<Rightarrow> petition_state option) \<Rightarrow> bool" where
  "moves_on m m' \<longleftrightarrow> (\<forall>i s. m i = Some s \<longrightarrow> (\<exists>ts. follows valid_petition_move s ts \<and> m' i = Some (last (s # ts))))"

lemma moves_on_refl [simp]: "moves_on m m"
  by (auto simp: moves_on_def intro: exI [of _ "[]"])

lemma moves_on_trans:
  assumes "moves_on a b" "moves_on b c"
  shows "moves_on a c"
  unfolding moves_on_def
proof (intro allI impI)
  fix i s assume "a i = Some s"
  then obtain ts where ts: "follows valid_petition_move s ts" "b i = Some (last (s # ts))"
    using assms(1) by (auto simp: moves_on_def)
  then obtain us where us: "follows valid_petition_move (last (s # ts)) us" "c i = Some (last (last (s # ts) # us))"
    using assms(2) unfolding moves_on_def by blast
  have "last (last (s # ts) # us) = last (s # ts @ us)" by (cases us) simp_all
  with ts us show "\<exists>ts. follows valid_petition_move s ts \<and> c i = Some (last (s # ts))"
    by (intro exI [of _ "ts @ us"]) (simp add: follows_append)
qed

lemma moves_on_add: "m i = None \<Longrightarrow> moves_on m (m(i := v))"
  by (auto simp: moves_on_def intro: exI [of _ "[]"])

lemma moves_on_move: "m i = Some s \<Longrightarrow> valid_petition_move s t \<Longrightarrow> moves_on m (m(i := Some t))"
  unfolding moves_on_def
proof (intro allI impI)
  fix j u assume "m i = Some s" "valid_petition_move s t" "m j = Some u"
  then show "\<exists>ts. follows valid_petition_move u ts \<and> (m(i := Some t)) j = Some (last (u # ts))"
    by (intro exI [of _ "if j = i then [t] else []"]) auto
qed

lemma moves_on_final:
  assumes "moves_on m m'" "m i = Some s" "petition_is_terminal s"
  shows "m' i = Some s"
proof -
  obtain ts where "follows valid_petition_move s ts" "m' i = Some (last (s # ts))"
    using assms(1,2) by (auto simp: moves_on_def)
  then show ?thesis using petitions.terminal_final [OF assms(3)] by force
qed

text \<open>The operations on a repository that touch states, and what came of each.\<close>

datatype repository_call =
    Save petition_submission
  | Assign uuid petition_state petition_state "string option option" "string option" "string option"
  | Adopt uuid uuid uuid

text \<open>The fate a call has assigned, with its petition.\<close>

fun run_repository_call ::
  "'w petition_repository \<Rightarrow> repository_call \<Rightarrow> 'w \<Rightarrow> (uuid \<times> petition_state) option \<times> 'w" where
  "run_repository_call rp (Save p) w = (None, snd (rp_save rp p w))"
| "run_repository_call rp (Assign i e s reason src realm) w =
     (case rp_assign_fate_cas rp i e s reason src realm w of
        (Inl _, w') \<Rightarrow> (None, w')
      | (Inr p, w') \<Rightarrow> (if petition_is_terminal s then Some (i, s) else None, w'))"
| "run_repository_call rp (Adopt i m k) w = (None, snd (rp_mark_adopted rp i m k w))"

fun run_repository_calls ::
  "'w petition_repository \<Rightarrow> repository_call list \<Rightarrow> 'w \<Rightarrow> (uuid \<times> petition_state) list \<times> 'w" where
  "run_repository_calls rp [] w = ([], w)"
| "run_repository_calls rp (c # cs) w =
     (let (fate, w') = run_repository_call rp c w; (fates, w'') = run_repository_calls rp cs w'
      in ((case fate of None \<Rightarrow> fates | Some f \<Rightarrow> f # fates), w''))"

locale fate_store =
  fixes rp :: "'w petition_repository" and states :: "'w \<Rightarrow> uuid \<Rightarrow> petition_state option"
  assumes save_moves: "rp_save rp p w = (r, w') \<Longrightarrow> moves_on (states w) (states w')"
    and adopt_moves: "rp_mark_adopted rp i m k w = (r', w') \<Longrightarrow> moves_on (states w) (states w')"
    and assign_raised: "rp_assign_fate_cas rp i e s reason src realm w = (Inl err, w') \<Longrightarrow> moves_on (states w) (states w')"
    and assign_done: "rp_assign_fate_cas rp i e s reason src realm w = (Inr q, w') \<Longrightarrow>
      \<exists>m. moves_on (states w) m \<and> m i = Some e \<and> valid_petition_move e s \<and> states w' = m(i := Some s)"
begin

lemma call_moves: "run_repository_call rp c w = (fate, w') \<Longrightarrow> moves_on (states w) (states w')"
proof (cases c)
  case (Save p)
  moreover assume "run_repository_call rp c w = (fate, w')"
  ultimately show ?thesis by (cases "rp_save rp p w") (auto dest: save_moves)
next
  case (Assign i e s reason src realm)
  moreover assume run: "run_repository_call rp c w = (fate, w')"
  ultimately show ?thesis
    by (cases "rp_assign_fate_cas rp i e s reason src realm w")
      (auto split: sum.splits dest!: assign_done dest: assign_raised intro: moves_on_trans [OF _ moves_on_move])
next
  case (Adopt i m k)
  moreover assume "run_repository_call rp c w = (fate, w')"
  ultimately show ?thesis by (cases "rp_mark_adopted rp i m k w") (auto dest: adopt_moves)
qed

text \<open>A fate is given to a petition that had none, and is its state from then on.\<close>

lemma call_fate:
  assumes "run_repository_call rp c w = (Some (i, s), w')"
  shows "petition_is_terminal s \<and> states w' i = Some s \<and> (\<forall>t. states w i = Some t \<longrightarrow> \<not> petition_is_terminal t)"
proof (cases c)
  case (Assign j e t reason src realm)
  with assms have st: "j = i" "t = s" "petition_is_terminal s"
    by (auto split: prod.splits sum.splits if_splits)
  obtain q where "rp_assign_fate_cas rp j e t reason src realm w = (Inr q, w')"
    using assms Assign by (auto split: prod.splits sum.splits if_splits)
  from assign_done [OF this] obtain m where m: "moves_on (states w) m" "m i = Some e" "valid_petition_move e s"
    "states w' = m(i := Some s)" by (auto simp: st)
  have "\<not> petition_is_terminal u" if "states w i = Some u" for u
    using moves_on_final [OF m(1) that] m(2,3) petitions.terminal_iff by auto
  with m st show ?thesis by simp
qed (use assms in \<open>auto split: prod.splits\<close>)

lemma calls_fates:
  assumes "run_repository_calls rp cs w = (fates, w')"
  shows "moves_on (states w) (states w') \<and> distinct (map fst fates) \<and>
    (\<forall>(i, s) \<in> set fates. states w' i = Some s \<and> petition_is_terminal s \<and> (\<forall>t. states w i = Some t \<longrightarrow> \<not> petition_is_terminal t))"
  using assms
proof (induction cs arbitrary: w fates)
  case (Cons c cs)
  obtain fate u where one: "run_repository_call rp c w = (fate, u)" by fastforce
  obtain rest v where more: "run_repository_calls rp cs u = (rest, v)" by fastforce
  have out: "v = w'" "fates = (case fate of None \<Rightarrow> rest | Some f \<Rightarrow> f # rest)"
    using Cons.prems by (simp_all add: one more)
  note ih = Cons.IH [OF more [unfolded out(1)]]
  note step = call_moves [OF one]
  have through: "moves_on (states w) (states w')" using moves_on_trans [OF step] ih by blast
  have earlier: "\<not> petition_is_terminal t" if "(i, s) \<in> set rest" "states w i = Some t" for i s t
    using ih that moves_on_final [OF step that(2)] by fastforce
  show ?case
  proof (cases fate)
    case None
    then show ?thesis using ih through earlier by (auto simp: out)
  next
    case (Some f)
    obtain i s where f: "f = (i, s)" by fastforce
    note given = call_fate [OF one [unfolded Some f]]
    have "states w' i = Some s" using moves_on_final given ih by blast
    moreover have "i \<notin> fst ` set rest" using given ih by force
    ultimately show ?thesis using ih through earlier given by (auto simp: out Some f)
  qed
qed simp

end

definition states_in :: "(uuid, petition_submission) dict \<Rightarrow> uuid \<Rightarrow> petition_state option" where
  "states_in table i = map_option pt_state (dict_get table i)"

definition petition_states :: "'x petition_world \<Rightarrow> uuid \<Rightarrow> petition_state option" where
  "petition_states w = states_in (pw_submissions w)"

lemma states_in_set: "states_in (dict_set i p table) = (states_in table)(i := Some (pt_state p))"
  by (auto simp: states_in_def dict_get_set)

definition others_lawful :: "((uuid, petition_submission) dict \<Rightarrow> (uuid, petition_submission) dict) \<Rightarrow> bool" where
  "others_lawful others \<longleftrightarrow> (\<forall>table. moves_on (states_in table) (states_in (others table)))"

lemma stub_mark_adopted_Inr:
  assumes "stub_mark_adopted i m k w = (Inr p, w')"
  obtains (again) "w' = w" "dict_get (pw_submissions w) i = Some p" "pt_adopted_as_motion_id p = Some m"
    | (first) q where "dict_get (pw_submissions w) i = Some q" "pt_adopted_as_motion_id q = None"
      "p = q\<lparr>pt_updated_at := pw_clock w (pw_clock_reads w), pt_adopted_as_motion_id := Some m,
         pt_adopted_at := Some (pw_clock w (Suc (pw_clock_reads w))), pt_adopted_by_king_id := Some k\<rparr>"
      "w' = w\<lparr>pw_submissions := dict_set i p (pw_submissions w), pw_clock_reads := pw_clock_reads w + 2\<rparr>"
  using assms that
  by (auto simp: stub_mark_adopted_def act_bind_def stub_get_def clock_now_def put_submission_def mk_petition_submission_iff
      split: option.splits sum.splits if_splits)

lemma stub_mark_adopted_Inl: "stub_mark_adopted i m k w = (Inl e, w') \<Longrightarrow> pw_submissions w' = pw_submissions w"
  by (auto simp: stub_mark_adopted_def act_bind_def stub_get_def clock_now_def put_submission_def
      split: option.splits sum.splits if_splits)

lemma stub_assign_Inr:
  assumes "stub_assign_fate_cas i e s reason src realm w = (Inr p, w')"
  shows "\<exists>q. dict_get (pw_submissions w) i = Some q \<and> pt_state q = e \<and> valid_petition_move e s \<and> pt_state p = s \<and>
    pt_fate_reason p = reason \<and>
    p = q\<lparr>pt_state := s, pt_updated_at := pt_updated_at p, pt_fate_reason := reason,
      pt_escalation_source := (if s = ESCALATED then or_else src ''DELIBERATION'' else src),
      pt_escalated_at := pt_escalated_at p,
      pt_escalated_to_realm := (if s = ESCALATED then or_else realm (pt_realm q) else realm)\<rparr> \<and>
    (pt_escalated_at p = None \<longleftrightarrow> s \<noteq> ESCALATED) \<and>
    pw_submissions w' = dict_set i p (pw_submissions w) \<and> pw_env w' = pw_env w"
  using assms
  by (auto simp: stub_assign_fate_cas_def act_bind_def stub_get_def clock_now_def put_submission_def
      mk_petition_submission_iff valid_petition_move_def split: option.splits sum.splits if_splits)

lemma stub_assign_states:
  assumes "stub_assign_fate_cas i e s reason src realm w = (Inr p, w')"
  shows "states_in (pw_submissions w) i = Some e \<and> valid_petition_move e s \<and>
    states_in (pw_submissions w') = (states_in (pw_submissions w))(i := Some s)"
proof -
  obtain q where "dict_get (pw_submissions w) i = Some q" "pt_state q = e" "valid_petition_move e s" "pt_state p = s"
    "pw_submissions w' = dict_set i p (pw_submissions w)"
    using stub_assign_Inr [OF assms] by blast
  then show ?thesis by (simp add: states_in_set states_in_def [of "pw_submissions w" i])
qed

lemma stub_assign_Inl:
  "stub_assign_fate_cas i e s reason src realm w = (Inl err, w') \<Longrightarrow> pw_submissions w' = pw_submissions w \<and> pw_env w' = pw_env w"
  by (auto simp: stub_assign_fate_cas_def act_bind_def stub_get_def clock_now_def put_submission_def
      split: option.splits sum.splits if_splits)

interpretation memory_petitions: fate_store stub_repository petition_states
proof
  fix w w' :: "'x petition_world"
  show "moves_on (petition_states w) (petition_states w')" if "rp_save stub_repository p w = (r, w')" for p r
    using that by (auto simp: stub_repository_def stub_save_def put_submission_def petition_states_def states_in_set
        states_in_def [of "pw_submissions w" "pt_id p"] intro!: moves_on_add split: if_splits)
  show "moves_on (petition_states w) (petition_states w')" if "rp_mark_adopted stub_repository i m k w = (r, w')" for i m k r
  proof (cases r)
    case (Inl e)
    then show ?thesis using that stub_mark_adopted_Inl [of i m k w e w'] by (simp add: stub_repository_def petition_states_def)
  next
    case (Inr p)
    then have run: "stub_mark_adopted i m k w = (Inr p, w')" using that by (simp add: stub_repository_def)
    then have "petition_states w' = petition_states w"
      by (cases rule: stub_mark_adopted_Inr) (auto simp: petition_states_def states_in_set states_in_def fun_eq_iff)
    then show ?thesis by simp
  qed
  show "moves_on (petition_states w) (petition_states w')"
    if "rp_assign_fate_cas stub_repository i e s reason src realm w = (Inl err, w')" for i e s reason src realm err
    using that stub_assign_Inl by (fastforce simp: stub_repository_def petition_states_def)
  show "\<exists>m. moves_on (petition_states w) m \<and> m i = Some e \<and> valid_petition_move e s \<and> petition_states w' = m(i := Some s)"
    if "rp_assign_fate_cas stub_repository i e s reason src realm w = (Inr q, w')" for i e s reason src realm q
    using stub_assign_states [of i e s "case reason of None \<Rightarrow> None | Some r \<Rightarrow> r" src realm w q w'] that
    by (intro exI [of _ "petition_states w"]) (simp add: stub_repository_def petition_states_def)
qed

lemma pg_assign_Inr:
  assumes "pg_assign_fate_cas others i e s reason src realm w = (Inr p, w')"
  shows "states_in (others (pw_submissions w)) i = Some e \<and> valid_petition_move e s \<and>
    states_in (pw_submissions w') = (states_in (others (pw_submissions w)))(i := Some s)"
  using assms
  by (auto simp: pg_assign_fate_cas_def act_bind_def clock_now_def valid_petition_move_def Let_def states_in_set
      states_in_def [of "others (pw_submissions w)" i] split: option.splits sum.splits if_splits)

lemma pg_assign_Inl:
  "pg_assign_fate_cas others i e s reason src realm w = (Inl err, w') \<Longrightarrow>
     pw_submissions w' = pw_submissions w \<or> pw_submissions w' = others (pw_submissions w)"
  by (auto simp: pg_assign_fate_cas_def act_bind_def clock_now_def Let_def split: option.splits sum.splits if_splits)

lemma postgres_fate_store:
  assumes lawful: "others_lawful others"
  shows "fate_store (postgres_repository others) petition_states"
proof
  fix w w' :: "'x petition_world"
  show "moves_on (petition_states w) (petition_states w')" if "rp_save (postgres_repository others) p w = (r, w')" for p r
    using that by (auto simp: postgres_repository_def pg_save_def put_submission_def petition_states_def states_in_set
        states_in_def [of "pw_submissions w" "pt_id p"] intro!: moves_on_add split: if_splits)
  show "moves_on (petition_states w) (petition_states w')"
    if "rp_mark_adopted (postgres_repository others) i m k w = (r, w')" for i m k r
    using that by (auto simp: postgres_repository_def pg_mark_adopted_def pg_get_def act_bind_def petition_states_def
        split: option.splits sum.splits)
  show "moves_on (petition_states w) (petition_states w')"
    if "rp_assign_fate_cas (postgres_repository others) i e s reason src realm w = (Inl err, w')" for i e s reason src realm err
    using that pg_assign_Inl lawful by (fastforce simp: postgres_repository_def petition_states_def others_lawful_def)
  show "\<exists>m. moves_on (petition_states w) m \<and> m i = Some e \<and> valid_petition_move e s \<and> petition_states w' = m(i := Some s)"
    if "rp_assign_fate_cas (postgres_repository others) i e s reason src realm w = (Inr q, w')" for i e s reason src realm q
    using pg_assign_Inr [of others i e s reason src realm w q w'] that lawful
    by (intro exI [of _ "states_in (others (pw_submissions w))"])
      (simp add: postgres_repository_def petition_states_def others_lawful_def)
qed

interpretation postgres_petitions: fate_store "postgres_repository (\<lambda>table. table)" petition_states
  by (rule postgres_fate_store) (simp add: others_lawful_def)

section \<open>Claim\<close>

text \<open>
  C24: A petition gets at most one fate. Whatever is saved, assigned and adopted through the in-memory repository or the
  PostgreSQL one, in any order, and with the lawful commits of other transactions between the steps of the latter:
  no petition is given two fates; one that is given a fate had none before and keeps it as its state; and every
  petition that was there moves along the transition matrix, in at most two steps.
\<close>

theorem one_fate:
  assumes "rp = stub_repository \<or> (\<exists>others. others_lawful others \<and> rp = postgres_repository others)"
    and "run_repository_calls rp calls w = (fates, w')"
  shows "distinct (map fst fates) \<and>
    (\<forall>(i, s) \<in> set fates. petition_states w' i = Some s \<and> petition_is_terminal s \<and>
       (\<forall>t. petition_states w i = Some t \<longrightarrow> \<not> petition_is_terminal t)) \<and>
    (\<forall>i s. petition_states w i = Some s \<longrightarrow> (\<exists>ts. follows valid_petition_move s ts \<and> length ts \<le> 2 \<and>
       petition_states w' i = Some (last (s # ts))))"
proof -
  have "fate_store rp petition_states"
    using assms(1) memory_petitions.fate_store_axioms postgres_fate_store by blast
  note fates = fate_store.calls_fates [OF this assms(2)]
  have "\<exists>ts. follows valid_petition_move s ts \<and> length ts \<le> 2 \<and> petition_states w' i = Some (last (s # ts))"
    if known: "petition_states w i = Some s" for i s
  proof -
    from fates known obtain ts where ts: "follows valid_petition_move s ts" "petition_states w' i = Some (last (s # ts))"
      unfolding moves_on_def by blast
    with petitions.bounded_history [OF ts(1)] show ?thesis by (intro exI [of _ ts]) simp
  qed
  then show ?thesis using fates by simp
qed

text \<open>A world with one petition.\<close>

definition example_petition :: petition_submission where
  "example_petition = new_submission 1 GRIEVANCE ''unfair'' RECEIVED (Some 5) None ''default'' 0 0"

definition petition_example_world :: "unit petition_world" where
  "petition_example_world = \<lparr>pw_submissions = [(1, example_petition)], pw_env = (), pw_clock = int, pw_clock_reads = 0,
     pw_uuid = of_nat, pw_uuid_draws = 0\<rparr>"

lemmas repository_eval = stub_assign_fate_cas_def stub_mark_adopted_def stub_update_state_def stub_get_def clock_now_def
  put_submission_def act_bind_def mk_petition_submission_iff submission_ok_def max_text_length_def petition_is_terminal_def terminal_states_def
  example_petition_def petition_example_world_def new_submission_def mk_petition_submission_def dict_get_def

lemma one_fate_witness:
  "\<exists>w'. run_repository_calls stub_repository
     [Assign 1 RECEIVED DELIBERATING None None None, Assign 1 DELIBERATING ESCALATED None None None,
      Assign 1 DELIBERATING ACKNOWLEDGED None None None] petition_example_world = ([(1, ESCALATED)], w') \<and>
   petition_states w' 1 = Some ESCALATED"
proof -
  let ?calls = "[Assign 1 RECEIVED DELIBERATING None None None, Assign 1 DELIBERATING ESCALATED None None None,
      Assign 1 DELIBERATING ACKNOWLEDGED None None None]"
  have "\<exists>w'. run_repository_calls stub_repository ?calls petition_example_world = ([(1, ESCALATED)], w')"
    by (simp add: stub_repository_def repository_eval)
  then obtain w' where run: "run_repository_calls stub_repository ?calls petition_example_world = ([(1, ESCALATED)], w')" by blast
  from one_fate [OF _ run] run show ?thesis by simp
qed

end
