(* ===== verification/Petition_Service.thy ===== *)
theory Petition_Service
  imports Petition_World
begin

text \<open>
  Submission, fate and withdrawal of petitions (\<open>src/application/services/petition_submission_service.py\<close>).

  The repository is one of those of \<open>Petition_World\<close>. The halt checker, the realm registry, the event emitter and the
  notification services are parameters, acting on the whole world: while one is awaited, other tasks may run.
  Notification preferences and the version token of a fate notification are computed inside their port; their
  exceptions are swallowed in any case.
\<close>

section \<open>Ports\<close>

record 'x petition_emitter =
  em_received :: "uuid \<Rightarrow> string \<Rightarrow> string \<Rightarrow> string \<Rightarrow> uuid option \<Rightarrow> ('x petition_world, bool) act"
  em_fate :: "uuid \<Rightarrow> string \<Rightarrow> string \<Rightarrow> string \<Rightarrow> string option \<Rightarrow> ('x petition_world, unit) act"
  em_withdrawn :: "uuid \<Rightarrow> uuid \<Rightarrow> string option \<Rightarrow> ('x petition_world, unit) act"

record 'x petition_service =
  ps_repository :: "'x petition_world petition_repository"
  ps_hash_text :: "string \<Rightarrow> bytes"
  ps_is_halted :: "('x petition_world, bool) act"
  ps_halt_reason :: "('x petition_world, string option) act"
  ps_default_realm :: "('x petition_world, string option) act"
  ps_realm_by_name :: "string \<Rightarrow> ('x petition_world, string option) act"
  ps_emitter :: "'x petition_emitter option"
  ps_preferences :: "(uuid \<Rightarrow> string \<Rightarrow> string option \<Rightarrow> bool \<Rightarrow> ('x petition_world, unit) act) option"
  ps_notify :: "(uuid \<Rightarrow> string \<Rightarrow> string option \<Rightarrow> datetime \<Rightarrow> bytes option \<Rightarrow> ('x petition_world, unit) act) option"

definition attempt :: "('s, unit) act \<Rightarrow> ('s, unit) act" where
  "attempt m = act_try m (\<lambda>_. act_return ())"

definition unless_halted :: "'x petition_service \<Rightarrow> ('x petition_world, 'a) act \<Rightarrow> ('x petition_world, 'a) act" where
  "unless_halted sv m =
     act_bind (ps_is_halted sv) (\<lambda>halted.
     if halted then
       act_bind (ps_halt_reason sv) (\<lambda>reason. act_raise (Exn SystemHaltedError
         (case reason of Some (c # cs) \<Rightarrow> c # cs | _ \<Rightarrow> ''System is halted'')))
     else m)"

section \<open>Submission\<close>

definition b64_char :: "nat \<Rightarrow> char" where
  "b64_char n = (''ABCDEFGHIJKLMNOPQRSTUVWXYZabcdefghijklmnopqrstuvwxyz0123456789+/'' ! (n mod 64))"

fun b64encode :: "bytes \<Rightarrow> string" where
  "b64encode [] = []"
| "b64encode [a] = (let n = unat a * 16 in [b64_char (n div 64), b64_char n, CHR ''='', CHR ''=''])"
| "b64encode [a, b] = (let n = (unat a * 256 + unat b) * 4
     in [b64_char (n div 4096), b64_char (n div 64), b64_char n, CHR ''=''])"
| "b64encode (a # b # c # rest) = (let n = unat a * 65536 + unat b * 256 + unat c
     in [b64_char (n div 262144), b64_char (n div 4096), b64_char (n div 64), b64_char n] @ b64encode rest)"

record submission_result =
  su_petition_id :: uuid
  su_state :: petition_state
  su_petition_type :: petition_type
  su_content_hash :: string
  su_realm :: string
  su_created_at :: datetime

definition resolve_realm :: "'x petition_service \<Rightarrow> string option \<Rightarrow> ('x petition_world, string) act" where
  "resolve_realm sv realm = (case realm of
       None \<Rightarrow> act_bind (ps_default_realm sv) (\<lambda>found. act_return (case found of None \<Rightarrow> ''default'' | Some name \<Rightarrow> name))
     | Some r \<Rightarrow> act_bind (ps_realm_by_name sv r) (\<lambda>found. case found of
         None \<Rightarrow> act_raise (Exn InvalidRealmError (''Unknown realm: '' @ r))
       | Some name \<Rightarrow> act_return name))"

definition submit_petition ::
  "'x petition_service \<Rightarrow> petition_type \<Rightarrow> string \<Rightarrow> string option \<Rightarrow> uuid option \<Rightarrow> string option \<Rightarrow> string option \<Rightarrow> bool
    \<Rightarrow> ('x petition_world, submission_result) act" where
  "submit_petition sv petition_type txt realm submitter_id channel webhook_url enabled =
     unless_halted sv
      (act_bind (resolve_realm sv realm) (\<lambda>resolved_realm.
       let content_hash = ps_hash_text sv txt; content_hash_b64 = b64encode content_hash in
       act_bind new_uuid (\<lambda>petition_id.
       act_bind clock_now (\<lambda>created_at.
       act_bind (act_lift (mk_petition_submission (new_submission petition_id petition_type txt RECEIVED submitter_id
         (Some content_hash) resolved_realm created_at created_at))) (\<lambda>submission.
       act_bind (rp_save (ps_repository sv) submission) (\<lambda>_.
       act_bind (case (channel, ps_preferences sv) of
           (Some ch, Some save_preference) \<Rightarrow> attempt (save_preference petition_id ch webhook_url enabled)
         | _ \<Rightarrow> act_return ()) (\<lambda>_.
       act_bind (case ps_emitter sv of
           None \<Rightarrow> act_return False
         | Some em \<Rightarrow> em_received em petition_id (petition_type_value petition_type) resolved_realm content_hash_b64 submitter_id) (\<lambda>_.
       act_return \<lparr>su_petition_id = petition_id, su_state = RECEIVED, su_petition_type = petition_type,
         su_content_hash = content_hash_b64, su_realm = resolved_realm, su_created_at = created_at\<rparr>))))))))"

definition get_petition :: "'x petition_service \<Rightarrow> uuid \<Rightarrow> ('x petition_world, petition_submission option) act" where
  "get_petition sv i = rp_get (ps_repository sv) i"

section \<open>Fate\<close>

definition fate_event_emission :: "uuid \<Rightarrow> petition_state \<Rightarrow> exn \<Rightarrow> exn" where
  "fate_event_emission i new_state cause = Exn FateEventEmissionError
     (''Failed to emit fate event for petition '' @ uuid_str i @ ''. State change to '' @ petition_state_value new_state @
      '' will be rolled back. Cause: '' @ exn_class_name (exn_kind cause) @ '': '' @ exn_str cause)"

definition notify_fate ::
  "'x petition_service \<Rightarrow> uuid \<Rightarrow> petition_state \<Rightarrow> string option \<Rightarrow> petition_submission \<Rightarrow> ('x petition_world, unit) act" where
  "notify_fate sv i new_state reason updated = (case ps_notify sv of
       None \<Rightarrow> act_return ()
     | Some notify \<Rightarrow> attempt (notify i (petition_state_value new_state) reason (pt_updated_at updated) (pt_content_hash updated)))"

text \<open>Emit the event; when that fails, put the expected state back and raise.\<close>

definition emit_or_roll_back ::
  "'x petition_service \<Rightarrow> uuid \<Rightarrow> petition_state \<Rightarrow> petition_state \<Rightarrow> string \<Rightarrow> string option \<Rightarrow> ('x petition_world, unit) act" where
  "emit_or_roll_back sv i expected_state new_state actor_id reason =
     (let roll_back = (\<lambda>e. act_bind (rp_update_state (ps_repository sv) i expected_state) (\<lambda>_.
            act_raise (fate_event_emission i new_state e)))
      in case ps_emitter sv of
           None \<Rightarrow> roll_back (Exn RuntimeError ''Event emitter not configured'')
         | Some em \<Rightarrow> act_try (em_fate em i (petition_state_value expected_state) (petition_state_value new_state) actor_id reason)
             roll_back)"

definition assign_fate_transactional ::
  "'x petition_service \<Rightarrow> uuid \<Rightarrow> petition_state \<Rightarrow> petition_state \<Rightarrow> string \<Rightarrow> string option
    \<Rightarrow> ('x petition_world, petition_submission) act" where
  "assign_fate_transactional sv i expected_state new_state actor_id reason =
     unless_halted sv
      (act_bind (rp_assign_fate_cas (ps_repository sv) i expected_state new_state (Some reason) None None) (\<lambda>updated.
       act_bind (emit_or_roll_back sv i expected_state new_state actor_id reason) (\<lambda>_.
       act_bind (notify_fate sv i new_state reason updated) (\<lambda>_.
       act_return updated))))"

definition petition_not_found :: "uuid \<Rightarrow> exn" where
  "petition_not_found i = Exn PetitionNotFoundError (''FR39: Petition not found: '' @ uuid_str i)"

definition unauthorized_withdrawal :: "uuid \<Rightarrow> string option \<Rightarrow> exn" where
  "unauthorized_withdrawal i message = Exn UnauthorizedWithdrawalError (''FR-7.5: '' @
     (case message of Some m \<Rightarrow> m | None \<Rightarrow> ''Only the original petitioner can withdraw petition '' @ uuid_str i))"

definition withdrawn_reason :: "string option \<Rightarrow> string" where
  "withdrawn_reason reason = ''WITHDRAWN: '' @ (case reason of Some (c # cs) \<Rightarrow> c # cs | _ \<Rightarrow> ''Petitioner withdrew'')"

definition withdraw_petition ::
  "'x petition_service \<Rightarrow> uuid \<Rightarrow> uuid \<Rightarrow> string option \<Rightarrow> ('x petition_world, petition_submission) act" where
  "withdraw_petition sv i requester_id reason =
     unless_halted sv
      (act_bind (rp_get (ps_repository sv) i) (\<lambda>found. case found of
         None \<Rightarrow> act_raise (petition_not_found i)
       | Some p \<Rightarrow>
           if pt_submitter_id p = None then
             act_raise (unauthorized_withdrawal i (Some ''Anonymous petitions cannot be withdrawn''))
           else if pt_submitter_id p \<noteq> Some requester_id then act_raise (unauthorized_withdrawal i None)
           else if petition_is_terminal (pt_state p) then act_raise (petition_already_fated i (pt_state p))
           else
             act_bind (assign_fate_transactional sv i (pt_state p) ACKNOWLEDGED (''submitter:'' @ uuid_str requester_id)
               (Some (withdrawn_reason reason))) (\<lambda>updated.
             act_bind (case ps_emitter sv of None \<Rightarrow> act_return ()
               | Some em \<Rightarrow> attempt (em_withdrawn em i requester_id reason)) (\<lambda>_.
             act_bind (notify_fate sv i ACKNOWLEDGED (Some (withdrawn_reason reason)) updated) (\<lambda>_.
             act_return updated)))))"

section \<open>Fate and event\<close>

definition same_submissions :: "'x petition_world \<Rightarrow> 'x petition_world \<Rightarrow> bool" where
  "same_submissions w w' \<longleftrightarrow> pw_submissions w' = pw_submissions w"

interpretation same_submissions: frame_relation same_submissions
  by unfold_locales (simp_all add: same_submissions_def)

text \<open>Ports that leave the petitions alone, as long as nothing else runs.\<close>

definition quiet_service :: "'x petition_service \<Rightarrow> bool" where
  "quiet_service sv \<longleftrightarrow> framed same_submissions (ps_is_halted sv) \<and> framed same_submissions (ps_halt_reason sv) \<and>
     pred_option (\<lambda>em. \<forall>i a b c d. framed same_submissions (em_fate em i a b c d)) (ps_emitter sv) \<and>
     pred_option (\<lambda>notify. \<forall>i a b c d. framed same_submissions (notify i a b c d)) (ps_notify sv)"

lemma attempt_run: "framed same_submissions m \<Longrightarrow> \<exists>t'. attempt m t = (Inr (), t') \<and> same_submissions t t'"
  by (cases "m t"; cases "fst (m t)") (auto simp: attempt_def act_try_def dest: framedD)

lemma notify_run: "quiet_service sv \<Longrightarrow> \<exists>t'. notify_fate sv i s reason p t = (Inr (), t') \<and> same_submissions t t'"
  unfolding notify_fate_def quiet_service_def
  by (cases "ps_notify sv") (auto intro: attempt_run simp: same_submissions.frame_refl)

text \<open>What a rollback leaves of the submission it started from.\<close>

definition rolled_back :: "petition_submission \<Rightarrow> string option \<Rightarrow> datetime \<Rightarrow> petition_submission" where
  "rolled_back p reason now = p\<lparr>pt_updated_at := now, pt_fate_reason := reason, pt_escalation_source := None,
     pt_escalated_at := None, pt_escalated_to_realm := None, pt_adopted_as_motion_id := None, pt_adopted_at := None,
     pt_adopted_by_king_id := None\<rparr>"

lemma stub_rollback:
  assumes cas: "stub_assign_fate_cas i e s reason None None w = (Inr p, w1)" and same: "pw_submissions w2 = pw_submissions w1"
  shows "\<exists>q now w'. dict_get (pw_submissions w) i = Some q \<and> stub_update_state i e None w2 = (Inr (), w') \<and>
    pw_submissions w' = dict_set i (rolled_back q reason now) (dict_set i p (pw_submissions w))"
proof -
  obtain q where q: "dict_get (pw_submissions w) i = Some q" "pt_state q = e" "pt_fate_reason p = reason"
    "pw_submissions w1 = dict_set i p (pw_submissions w)"
    and kept: "pt_id p = pt_id q" "pt_type p = pt_type q" "pt_text p = pt_text q" "pt_submitter_id p = pt_submitter_id q"
    "pt_content_hash p = pt_content_hash q" "pt_realm p = pt_realm q" "pt_created_at p = pt_created_at q"
    "pt_co_signer_count p = pt_co_signer_count q" "submission_ok p"
    using cas by (auto simp: stub_assign_fate_cas_def act_bind_def stub_get_def clock_now_def put_submission_def
      mk_petition_submission_iff split: option.splits sum.splits if_splits)
  let ?now = "pw_clock w2 (pw_clock_reads w2)"
  let ?r = "rolled_back q reason ?now"
  have built: "(new_submission (pt_id p) (pt_type p) (pt_text p) e (pt_submitter_id p) (pt_content_hash p) (pt_realm p)
      (pt_created_at p) ?now) \<lparr>pt_fate_reason := pt_fate_reason p, pt_co_signer_count := pt_co_signer_count p\<rparr> = ?r"
    using q kept by (cases q) (simp add: new_submission_def rolled_back_def)
  have "submission_ok ?r" using kept by (simp add: submission_ok_def rolled_back_def)
  then have "mk_petition_submission ?r = Inr ?r" by (simp add: mk_petition_submission_iff)
  then have "stub_update_state i e None w2 =
      (Inr (), w2\<lparr>pw_clock_reads := pw_clock_reads w2 + 1, pw_submissions := dict_set i ?r (pw_submissions w2)\<rparr>)"
    using q same built
    by (simp add: stub_update_state_def act_bind_def stub_get_def clock_now_def put_submission_def)
  with q same show ?thesis by (intro exI [of _ q] exI [of _ ?now]) simp
qed

text \<open>How an attempt to assign a fate ends: the petitions at its start, its result, and the world it leaves.\<close>

definition emitted :: "'x petition_service \<Rightarrow> uuid \<Rightarrow> petition_state \<Rightarrow> petition_state \<Rightarrow> string \<Rightarrow> string option \<Rightarrow> bool" where
  "emitted sv i e s actor reason \<longleftrightarrow> (\<exists>em x x'. ps_emitter sv = Some em \<and>
     em_fate em i (petition_state_value e) (petition_state_value s) actor reason x = (Inr (), x'))"

definition not_emitted :: "'x petition_service \<Rightarrow> uuid \<Rightarrow> petition_state \<Rightarrow> petition_state \<Rightarrow> string \<Rightarrow> string option \<Rightarrow> bool" where
  "not_emitted sv i e s actor reason \<longleftrightarrow> (case ps_emitter sv of None \<Rightarrow> True
     | Some em \<Rightarrow> \<exists>x err x'. em_fate em i (petition_state_value e) (petition_state_value s) actor reason x = (Inl err, x'))"

definition fate_outcome ::
  "'x petition_service \<Rightarrow> uuid \<Rightarrow> petition_state \<Rightarrow> petition_state \<Rightarrow> string \<Rightarrow> string option
    \<Rightarrow> (uuid, petition_submission) dict \<Rightarrow> exn + petition_submission \<Rightarrow> 'x petition_world \<Rightarrow> bool" where
  "fate_outcome sv i e s actor reason table r w' \<longleftrightarrow> (case r of
     Inr p \<Rightarrow> emitted sv i e s actor reason \<and> valid_petition_move e s \<and> pt_state p = s \<and> pt_fate_reason p = reason \<and>
       states_in table i = Some e \<and> pw_submissions w' = dict_set i p table
   | Inl err \<Rightarrow> pw_submissions w' = table \<or>
       exn_kind err = FateEventEmissionError \<and> not_emitted sv i e s actor reason \<and>
       (\<exists>q now. dict_get table i = Some q \<and> pt_state q = e \<and>
          pw_submissions w' = dict_set i (rolled_back q reason now) table))"

declare dict_set_set [simp]

lemma emit_or_roll_back_run:
  assumes quiet: "quiet_service sv" and stub: "ps_repository sv = stub_repository"
    and cas: "stub_assign_fate_cas i e s reason None None w = (Inr p, w1)"
  shows "\<exists>r w'. emit_or_roll_back sv i e s actor reason w1 = (r, w') \<and> (case r of
      Inr _ \<Rightarrow> emitted sv i e s actor reason \<and> same_submissions w1 w'
    | Inl err \<Rightarrow> fate_outcome sv i e s actor reason (pw_submissions w) (Inl err) w')"
proof -
  have rolled: "\<exists>r w'. act_bind (rp_update_state (ps_repository sv) i e) (\<lambda>_. act_raise (fate_event_emission i s cause)) w2 =
      (r, w') \<and> (case r of
      Inr _ \<Rightarrow> emitted sv i e s actor reason \<and> same_submissions w1 w'
    | Inl err \<Rightarrow> fate_outcome sv i e s actor reason (pw_submissions w) (Inl err) w')"
    if lost: "not_emitted sv i e s actor reason" and same: "same_submissions w1 w2" for w2 cause
  proof -
    obtain q now w' where *: "dict_get (pw_submissions w) i = Some q" "stub_update_state i e None w2 = (Inr (), w')"
      "pw_submissions w' = dict_set i (rolled_back q reason now) (dict_set i p (pw_submissions w))"
      using stub_rollback [OF cas same [unfolded same_submissions_def]] by blast
    moreover have "pt_state q = e" using stub_assign_Inr [OF cas] *(1) by auto
    ultimately show ?thesis using lost
      by (auto simp: stub stub_repository_def act_bind_def fate_outcome_def fate_event_emission_def)
  qed
  show ?thesis
  proof (cases "ps_emitter sv")
    case None
    then have "not_emitted sv i e s actor reason" by (simp add: not_emitted_def)
    from rolled [OF this same_submissions.frame_refl] show ?thesis
      unfolding emit_or_roll_back_def None Let_def option.case .
  next
    case (Some em)
    obtain x v where v: "em_fate em i (petition_state_value e) (petition_state_value s) actor reason w1 = (x, v)" by (rule prod.exhaust)
    have "framed same_submissions (em_fate em i (petition_state_value e) (petition_state_value s) actor reason)"
      using quiet by (simp add: quiet_service_def Some)
    from framedD [OF this] v have same: "same_submissions w1 v" by simp
    show ?thesis
    proof (cases x)
      case (Inl err)
      then have "not_emitted sv i e s actor reason" using v Some by (auto simp: not_emitted_def)
      from rolled [OF this same] show ?thesis
        unfolding emit_or_roll_back_def Some Let_def option.case act_try_def v Inl prod.case sum.case .
    next
      case (Inr u)
      then have "emitted sv i e s actor reason" using v Some by (auto simp: emitted_def)
      with same show ?thesis by (auto simp: emit_or_roll_back_def Some v Inr act_try_def)
    qed
  qed
qed

lemma assign_fate_post:
  assumes quiet: "quiet_service sv" and stub: "ps_repository sv = stub_repository"
  shows "act_post (assign_fate_transactional sv i e s actor reason) w (fate_outcome sv i e s actor reason (pw_submissions w))"
proof -
  let ?Q = "fate_outcome sv i e s actor reason (pw_submissions w)"
  have frames: "framed same_submissions (ps_is_halted sv)" "framed same_submissions (ps_halt_reason sv)"
    using quiet by (simp_all add: quiet_service_def)
  have unchanged: "?Q (Inl err) t" if "same_submissions w t" for err t
    using that by (simp add: fate_outcome_def same_submissions_def)
  have halted: "act_post (act_bind (ps_halt_reason sv) (\<lambda>x. act_raise (f x))) t ?Q" if "same_submissions w t" for t f
    by (rule act_post_bind_framed [OF frames(2)])
      (use that in \<open>simp_all add: fate_outcome_def same_submissions_def act_post_def\<close>)
  have assigned: "act_post (act_bind (rp_assign_fate_cas (ps_repository sv) i e s (Some reason) None None) (\<lambda>updated.
      act_bind (emit_or_roll_back sv i e s actor reason) (\<lambda>_.
      act_bind (notify_fate sv i s reason updated) (\<lambda>_. act_return updated)))) u ?Q" if u: "same_submissions w u" for u
  proof (cases "stub_assign_fate_cas i e s reason None None u")
    case (Pair r u1)
    have table: "pw_submissions u = pw_submissions w" using u by (simp add: same_submissions_def)
    show ?thesis
    proof (cases r)
      case (Inl err)
      with Pair u stub_assign_Inl [of i e s reason None None u err u1] show ?thesis
        by (simp add: stub stub_repository_def act_post_def act_bind_def fate_outcome_def same_submissions_def)
    next
      case (Inr p)
      note cas = Pair [unfolded Inr]
      obtain x v where v: "emit_or_roll_back sv i e s actor reason u1 = (x, v)" "case x of
          Inr _ \<Rightarrow> emitted sv i e s actor reason \<and> same_submissions u1 v
        | Inl err \<Rightarrow> fate_outcome sv i e s actor reason (pw_submissions u) (Inl err) v"
        using emit_or_roll_back_run [OF quiet stub cas] by blast
      obtain z where z: "notify_fate sv i s reason p v = (Inr (), z)" "same_submissions v z" using notify_run [OF quiet] by blast
      have "fate_outcome sv i e s actor reason (pw_submissions w) (Inr p) z" if "isl x = False"
        using stub_assign_Inr [OF cas] v(2) z(2) that table
        by (cases x) (auto simp: fate_outcome_def same_submissions_def states_in_def)
      then show ?thesis using v z(1) table
        by (cases x) (simp_all add: stub stub_repository_def cas act_post_def act_bind_def)
    qed
  qed
  show ?thesis unfolding assign_fate_transactional_def unless_halted_def
    by (rule act_post_bind_framed [OF frames(1)], rule unchanged, assumption) (use halted assigned in simp)
qed

section \<open>Claims\<close>

text \<open>
  C25: Over the in-memory repository a fate is assigned with its event or not at all, as long as nothing else changes
  petitions meanwhile. When \<open>assign_fate_transactional\<close> returns, the fate event was emitted and exactly this
  petition moved, legally, from the expected state to the fate. When it raises, every petition is as before, or the
  event was not emitted, FateEventEmissionError is raised and exactly this petition has been put back to the
  expected state with its content, but with the reason of the fate it was not given and without any escalation and
  adoption data.
\<close>

theorem fate_with_event:
  assumes "quiet_service sv" and "ps_repository sv = stub_repository"
    and "assign_fate_transactional sv i e s actor reason w = (r, w')"
  shows "case r of
      Inr p \<Rightarrow> emitted sv i e s actor reason \<and> petition_states w i = Some e \<and> valid_petition_move e s \<and>
        pt_state p = s \<and> pt_fate_reason p = reason \<and> pw_submissions w' = dict_set i p (pw_submissions w)
    | Inl err \<Rightarrow> pw_submissions w' = pw_submissions w \<or>
        exn_kind err = FateEventEmissionError \<and> not_emitted sv i e s actor reason \<and>
        (\<exists>q now. dict_get (pw_submissions w) i = Some q \<and> pt_state q = e \<and>
           pw_submissions w' = dict_set i (rolled_back q reason now) (pw_submissions w))"
  using act_postD [OF assign_fate_post [OF assms(1,2)] assms(3)]
  by (cases r) (auto simp: fate_outcome_def petition_states_def)

definition example_petition_service :: "'x petition_emitter option \<Rightarrow> 'x petition_service" where
  "example_petition_service em = \<lparr>ps_repository = stub_repository, ps_hash_text = (\<lambda>_. replicate 32 0),
     ps_is_halted = act_return False, ps_halt_reason = act_return None, ps_default_realm = act_return None,
     ps_realm_by_name = (\<lambda>_. act_return None), ps_emitter = em, ps_preferences = None, ps_notify = None\<rparr>"

lemma fate_with_event_witness:
  "\<exists>err w'. assign_fate_transactional (example_petition_service None) 1 RECEIVED ACKNOWLEDGED ''clerk'' (Some ''no'') petition_example_world
      = (Inl err, w') \<and> exn_kind err = FateEventEmissionError \<and>
    (\<exists>q. dict_get (pw_submissions w') 1 = Some q \<and> pt_state q = RECEIVED \<and> pt_fate_reason q = Some ''no'')"
proof -
  let ?sv = "example_petition_service None :: unit petition_service"
  have quiet: "quiet_service ?sv"
    by (simp add: quiet_service_def example_petition_service_def same_submissions.framed_return)
  have repo: "ps_repository ?sv = stub_repository" by (simp add: example_petition_service_def)
  have "\<exists>err w'. assign_fate_transactional ?sv 1 RECEIVED ACKNOWLEDGED ''clerk'' (Some ''no'') petition_example_world = (Inl err, w') \<and>
      pw_submissions w' \<noteq> pw_submissions petition_example_world"
    by (simp add: assign_fate_transactional_def emit_or_roll_back_def unless_halted_def example_petition_service_def
        stub_repository_def repository_eval)
  then obtain err w' where run: "assign_fate_transactional ?sv 1 RECEIVED ACKNOWLEDGED ''clerk'' (Some ''no'') petition_example_world
      = (Inl err, w')" and changed: "pw_submissions w' \<noteq> pw_submissions petition_example_world" by blast
  from fate_with_event [OF quiet repo run] changed have "exn_kind err = FateEventEmissionError"
    "\<exists>q. dict_get (pw_submissions w') 1 = Some q \<and> pt_state q = RECEIVED \<and> pt_fate_reason q = Some ''no''"
    by (auto simp: rolled_back_def)
  with run show ?thesis by blast
qed

text \<open>
  Without that proviso the rollback can undo more: a King who adopts the petition while the fate event is being emitted
  is told that the adoption succeeded, and the rollback erases it.
\<close>

definition adopting_emitter :: "'x petition_emitter" where
  "adopting_emitter = \<lparr>em_received = (\<lambda>_ _ _ _ _. act_return True),
     em_fate = (\<lambda>i _ _ _ _. act_bind (stub_mark_adopted i 99 7) (\<lambda>_. act_raise (Exn RuntimeError ''broker down''))),
     em_withdrawn = (\<lambda>_ _ _. act_return ())\<rparr>"

lemma rollback_erases_adoption:
  "\<exists>err w'. assign_fate_transactional (example_petition_service (Some adopting_emitter)) 1 RECEIVED ESCALATED ''fates'' None
      petition_example_world = (Inl err, w') \<and>
    (\<exists>q. dict_get (pw_submissions w') 1 = Some q \<and> pt_state q = RECEIVED \<and> pt_adopted_as_motion_id q = None)"
  by (simp add: assign_fate_transactional_def emit_or_roll_back_def unless_halted_def example_petition_service_def
      adopting_emitter_def stub_repository_def act_try_def repository_eval)

end
