(* ===== verification/Promotion_Budget.thy ===== *)
theory Promotion_Budget
  imports Py_Text
begin

text \<open>
  The promotion budget of a King in a cycle (\<open>src/application/ports/promotion_budget_store.py\<close>) and its three stores:
  in memory (\<open>src/application/stubs/budget_store_stub.py\<close>), in files and in Redis
  (\<open>src/infrastructure/adapters/persistence/budget_store.py\<close>). They implement one specification, \<open>grant_all\<close>.

  \<open>consume\<close> is one step: it runs under a lock, or as a Lua script in Redis. The lock of the file store only covers
  the threads of one process.
\<close>

section \<open>In memory\<close>

record memory_budgets =
  mb_default :: int
  mb_custom :: "(string, int) dict"
  mb_usage :: "(string \<times> string, int) dict"

definition get_or :: "('k, 'v) dict \<Rightarrow> 'k \<Rightarrow> 'v \<Rightarrow> 'v" where
  "get_or d k v = (case dict_get d k of None \<Rightarrow> v | Some x \<Rightarrow> x)"

definition memory_set_budget :: "string \<Rightarrow> int \<Rightarrow> memory_budgets \<Rightarrow> memory_budgets" where
  "memory_set_budget king budget b = b\<lparr>mb_custom := dict_set king budget (mb_custom b)\<rparr>"

definition memory_budget :: "memory_budgets \<Rightarrow> string \<Rightarrow> int" where
  "memory_budget b king = get_or (mb_custom b) king (mb_default b)"

definition memory_usage :: "memory_budgets \<Rightarrow> string \<Rightarrow> string \<Rightarrow> int" where
  "memory_usage b king cycle = get_or (mb_usage b) (king, cycle) 0"

definition memory_can_promote :: "memory_budgets \<Rightarrow> string \<Rightarrow> string \<Rightarrow> int \<Rightarrow> bool" where
  "memory_can_promote b king cycle count \<longleftrightarrow> memory_usage b king cycle + count \<le> memory_budget b king"

definition budget_exceeded :: "string \<Rightarrow> string \<Rightarrow> int \<Rightarrow> int \<Rightarrow> exn" where
  "budget_exceeded king cycle budget used = Exn PromotionBudgetExceededError
     (''King '' @ king @ '' budget exceeded for cycle '' @ cycle @ '': used '' @ show_int used @ ''/'' @ show_int budget)"

definition memory_consume :: "string \<Rightarrow> string \<Rightarrow> int \<Rightarrow> (memory_budgets, int) act" where
  "memory_consume king cycle count = (\<lambda>b.
     let used = memory_usage b king cycle; budget = memory_budget b king in
     if used + count > budget then (Inl (budget_exceeded king cycle budget (used + count)), b)
     else (Inr (used + count), b\<lparr>mb_usage := dict_set (king, cycle) (used + count) (mb_usage b)\<rparr>))"

section \<open>In files\<close>

record budget_record =
  br_king_id :: string
  br_cycle_id :: string
  br_budget :: int
  br_used :: int
  br_last_updated :: string

text \<open>The file of a King and a cycle; \<open>None\<close> is a file whose content is no record. The ids are path components.\<close>

record file_budgets =
  fb_default :: int
  fb_custom :: "(string, int) dict"
  fb_files :: "(string \<times> string, budget_record option) dict"
  fb_clock :: "nat \<Rightarrow> datetime"
  fb_clock_reads :: nat

definition file_set_budget :: "string \<Rightarrow> int \<Rightarrow> file_budgets \<Rightarrow> file_budgets" where
  "file_set_budget king budget b = b\<lparr>fb_custom := dict_set king budget (fb_custom b)\<rparr>"

definition file_budget :: "file_budgets \<Rightarrow> string \<Rightarrow> int" where
  "file_budget b king = get_or (fb_custom b) king (fb_default b)"

definition read_budget_record :: "file_budgets \<Rightarrow> string \<Rightarrow> string \<Rightarrow> budget_record option" where
  "read_budget_record b king cycle = (case dict_get (fb_files b) (king, cycle) of None \<Rightarrow> None | Some r \<Rightarrow> r)"

definition write_budget_record :: "budget_record \<Rightarrow> file_budgets \<Rightarrow> file_budgets" where
  "write_budget_record r b = b\<lparr>fb_files := dict_set (br_king_id r, br_cycle_id r) (Some r) (fb_files b)\<rparr>"

definition file_usage :: "file_budgets \<Rightarrow> string \<Rightarrow> string \<Rightarrow> int" where
  "file_usage b king cycle = (case read_budget_record b king cycle of None \<Rightarrow> 0 | Some r \<Rightarrow> br_used r)"

definition file_can_promote :: "file_budgets \<Rightarrow> string \<Rightarrow> string \<Rightarrow> int \<Rightarrow> bool" where
  "file_can_promote b king cycle count \<longleftrightarrow> file_usage b king cycle + count \<le> file_budget b king"

definition file_consume :: "string \<Rightarrow> string \<Rightarrow> int \<Rightarrow> (file_budgets, int) act" where
  "file_consume king cycle count = (\<lambda>b.
     let budget = file_budget b king; used = file_usage b king cycle in
     if used + count > budget then (Inl (budget_exceeded king cycle budget (used + count)), b)
     else (Inr (used + count), write_budget_record \<lparr>br_king_id = king, br_cycle_id = cycle, br_budget = budget,
       br_used = used + count, br_last_updated = isoformat (fb_clock b (fb_clock_reads b))\<rparr>
       (b\<lparr>fb_clock_reads := fb_clock_reads b + 1\<rparr>)))"

section \<open>In Redis\<close>

record redis_budgets =
  rb_default :: int
  rb_custom :: "(string, int) dict"
  rb_prefix :: string
  rb_keys :: "(string, int) dict"

definition redis_set_budget :: "string \<Rightarrow> int \<Rightarrow> redis_budgets \<Rightarrow> redis_budgets" where
  "redis_set_budget king budget b = b\<lparr>rb_custom := dict_set king budget (rb_custom b)\<rparr>"

definition redis_budget :: "redis_budgets \<Rightarrow> string \<Rightarrow> int" where
  "redis_budget b king = get_or (rb_custom b) king (rb_default b)"

definition redis_key :: "redis_budgets \<Rightarrow> string \<Rightarrow> string \<Rightarrow> string" where
  "redis_key b king cycle = rb_prefix b @ '':'' @ cycle @ '':'' @ king"

definition redis_usage :: "redis_budgets \<Rightarrow> string \<Rightarrow> string \<Rightarrow> int" where
  "redis_usage b king cycle = get_or (rb_keys b) (redis_key b king cycle) 0"

definition redis_can_promote :: "redis_budgets \<Rightarrow> string \<Rightarrow> string \<Rightarrow> int \<Rightarrow> bool" where
  "redis_can_promote b king cycle count \<longleftrightarrow> redis_usage b king cycle + count \<le> redis_budget b king"

definition consume_script :: "string \<Rightarrow> int \<Rightarrow> int \<Rightarrow> redis_budgets \<Rightarrow> int \<times> redis_budgets" where
  "consume_script key budget count b =
     (let current = get_or (rb_keys b) key 0 in
      if current + count > budget then (-1, b)
      else (current + count, b\<lparr>rb_keys := dict_set key (current + count) (rb_keys b)\<rparr>))"

definition redis_consume :: "string \<Rightarrow> string \<Rightarrow> int \<Rightarrow> (redis_budgets, int) act" where
  "redis_consume king cycle count = (\<lambda>b.
     let budget = redis_budget b king; (result, b') = consume_script (redis_key b king cycle) budget count b in
     if result = -1 then (Inl (budget_exceeded king cycle budget (redis_usage b' king cycle + count)), b')
     else (Inr result, b'))"

section \<open>The specification\<close>

text \<open>Requests are granted, in order, as long as they fit in the King's budget for the cycle.\<close>

type_synonym budget_request = "string \<times> string \<times> int"

fun grant_all ::
  "(string \<Rightarrow> int) \<Rightarrow> (string \<Rightarrow> string \<Rightarrow> int) \<Rightarrow> budget_request list \<Rightarrow> budget_request list \<times> (string \<Rightarrow> string \<Rightarrow> int)" where
  "grant_all budget usage [] = ([], usage)"
| "grant_all budget usage ((king, cycle, count) # requests) =
     (if usage king cycle + count \<le> budget king then
        (let (granted, usage') = grant_all budget (usage(king := (usage king)(cycle := usage king cycle + count))) requests
         in ((king, cycle, count) # granted, usage'))
      else grant_all budget usage requests)"

definition granted_to :: "string \<Rightarrow> string \<Rightarrow> budget_request list \<Rightarrow> int" where
  "granted_to king cycle granted = sum_list (map (snd \<circ> snd) (filter (\<lambda>(k, c, _). k = king \<and> c = cycle) granted))"

lemma grant_all_bound:
  "grant_all budget usage requests = (granted, usage') \<Longrightarrow> list_all (\<lambda>(_, _, n). 0 < n) requests \<Longrightarrow>
     usage' king cycle = usage king cycle + granted_to king cycle granted \<and>
     usage king cycle \<le> usage' king cycle \<and> usage' king cycle \<le> max (usage king cycle) (budget king)"
proof (induction budget usage requests arbitrary: granted rule: grant_all.induct)
  case (2 budget usage k c n requests)
  let ?usage = "usage(k := (usage k)(c := usage k c + n))"
  have positive: "0 < n" "list_all (\<lambda>(_, _, n). 0 < n) requests" using "2.prems"(2) by auto
  show ?case
  proof (cases "usage k c + n \<le> budget k")
    case True
    obtain rest u where rest: "grant_all budget ?usage requests = (rest, u)" by fastforce
    then have out: "granted = (k, c, n) # rest" "u = usage'" using "2.prems"(1) True by auto
    have "usage' king cycle = ?usage king cycle + granted_to king cycle rest \<and>
        ?usage king cycle \<le> usage' king cycle \<and> usage' king cycle \<le> max (?usage king cycle) (budget king)"
      using "2.IH"(1) [OF True rest [unfolded out(2)] positive(2)] .
    then show ?thesis using True positive(1) by (cases "k = king \<and> c = cycle") (auto simp: out(1) granted_to_def)
  next
    case False
    then show ?thesis using "2.IH"(2) [OF False _ positive(2)] "2.prems"(1) by simp
  qed
qed (simp add: granted_to_def)

section \<open>Stores implement it\<close>

fun run_consumes :: "(string \<Rightarrow> string \<Rightarrow> int \<Rightarrow> ('b, int) act) \<Rightarrow> budget_request list \<Rightarrow> 'b \<Rightarrow> budget_request list \<times> 'b" where
  "run_consumes consume [] b = ([], b)"
| "run_consumes consume ((king, cycle, count) # requests) b =
     (case consume king cycle count b of
        (Inr _, b') \<Rightarrow> (let (granted, b'') = run_consumes consume requests b' in ((king, cycle, count) # granted, b''))
      | (Inl _, b') \<Rightarrow> run_consumes consume requests b')"

text \<open>\<open>king_ok\<close>: the names a store keeps apart.\<close>

locale promotion_budget =
  fixes budget_of :: "'b \<Rightarrow> string \<Rightarrow> int" and usage_of :: "'b \<Rightarrow> string \<Rightarrow> string \<Rightarrow> int"
    and consume :: "string \<Rightarrow> string \<Rightarrow> int \<Rightarrow> ('b, int) act" and king_ok :: "string \<Rightarrow> bool"
  assumes granted: "0 < n \<Longrightarrow> 0 \<le> usage_of b k c \<Longrightarrow> usage_of b k c + n \<le> budget_of b k \<Longrightarrow>
      \<exists>b'. consume k c n b = (Inr (usage_of b k c + n), b') \<and> budget_of b' = budget_of b \<and>
        usage_of b' k c = usage_of b k c + n \<and>
        (\<forall>k' c'. king_ok k \<longrightarrow> king_ok k' \<longrightarrow> (k', c') \<noteq> (k, c) \<longrightarrow> usage_of b' k' c' = usage_of b k' c')"
    and refused: "0 < n \<Longrightarrow> 0 \<le> usage_of b k c \<Longrightarrow> budget_of b k < usage_of b k c + n \<Longrightarrow> \<exists>e. consume k c n b = (Inl e, b)"
begin

definition agrees :: "(string \<Rightarrow> string \<Rightarrow> int) \<Rightarrow> 'b \<Rightarrow> bool" where
  "agrees usage b \<longleftrightarrow> (\<forall>k c. king_ok k \<longrightarrow> usage_of b k c = usage k c \<and> 0 \<le> usage k c)"

lemma refines:
  "agrees usage b \<Longrightarrow> list_all (\<lambda>(k, _, n). king_ok k \<and> 0 < n) requests \<Longrightarrow>
     \<exists>b'. run_consumes consume requests b = (fst (grant_all (budget_of b) usage requests), b') \<and>
       budget_of b' = budget_of b \<and> agrees (snd (grant_all (budget_of b) usage requests)) b'"
proof (induction requests arbitrary: usage b)
  case (Cons r requests)
  obtain k c n where r: "r = (k, c, n)" by (cases r)
  have ok: "king_ok k" "0 < n" "list_all (\<lambda>(k, _, n). king_ok k \<and> 0 < n) requests" using Cons.prems(2) by (auto simp: r)
  have now: "usage_of b k c = usage k c" "0 \<le> usage_of b k c" using Cons.prems(1) ok(1) by (auto simp: agrees_def)
  let ?usage = "usage(k := (usage k)(c := usage k c + n))"
  show ?case
  proof (cases "usage k c + n \<le> budget_of b k")
    case True
    obtain b1 where b1: "consume k c n b = (Inr (usage_of b k c + n), b1)" "budget_of b1 = budget_of b"
      "usage_of b1 k c = usage_of b k c + n"
      "\<forall>k' c'. king_ok k \<longrightarrow> king_ok k' \<longrightarrow> (k', c') \<noteq> (k, c) \<longrightarrow> usage_of b1 k' c' = usage_of b k' c'"
      using granted [OF ok(2) now(2)] True now(1) by auto
    have "agrees ?usage b1"
      using Cons.prems(1) b1(3,4) ok now by (auto simp: agrees_def)
    from Cons.IH [OF this ok(3)] True b1(1,2) show ?thesis
      by (auto simp: r case_prod_beta Let_def simp del: fun_upd_apply)
  next
    case False
    then obtain e where "consume k c n b = (Inl e, b)" using refused [OF ok(2) now(2)] now(1) by auto
    with Cons.IH [OF Cons.prems(1) ok(3)] False show ?thesis by (auto simp: r)
  qed
qed simp

lemma respects_budget:
  assumes "\<forall>k c. king_ok k \<longrightarrow> 0 \<le> usage_of b k c" and "list_all (\<lambda>(k, _, n). king_ok k \<and> 0 < n) requests"
    and run: "run_consumes consume requests b = (granted, b')" and "king_ok king"
  shows "granted = fst (grant_all (budget_of b) (usage_of b) requests) \<and>
    usage_of b' king cycle = usage_of b king cycle + granted_to king cycle granted \<and>
    usage_of b' king cycle \<le> max (usage_of b king cycle) (budget_of b king)"
proof -
  have "agrees (usage_of b) b" using assms(1) by (auto simp: agrees_def)
  from refines [OF this assms(2)] run have eq: "granted = fst (grant_all (budget_of b) (usage_of b) requests)"
    "agrees (snd (grant_all (budget_of b) (usage_of b) requests)) b'" by auto
  have "list_all (\<lambda>(_, _, n). 0 < n) requests" using assms(2) by (auto simp: list_all_iff)
  from grant_all_bound [OF prod.collapse [symmetric] this, of "budget_of b" "usage_of b" king cycle]
  show ?thesis using eq assms(4) by (simp add: agrees_def)
qed

end

interpretation memory_store: promotion_budget memory_budget memory_usage memory_consume "\<lambda>_. True"
proof
  fix n :: int and b k c
  let ?u = "memory_usage b k c + n"
  let ?b = "b\<lparr>mb_usage := dict_set (k, c) ?u (mb_usage b)\<rparr>"
  show "\<exists>b'. memory_consume k c n b = (Inr ?u, b') \<and> memory_budget b' = memory_budget b \<and> memory_usage b' k c = ?u \<and>
      (\<forall>k' c'. True \<longrightarrow> True \<longrightarrow> (k', c') \<noteq> (k, c) \<longrightarrow> memory_usage b' k' c' = memory_usage b k' c')"
    if "?u \<le> memory_budget b k"
  proof (intro exI [of _ ?b] conjI allI impI)
    show "memory_consume k c n b = (Inr ?u, ?b)" using that by (simp add: memory_consume_def Let_def)
    show "memory_budget ?b = memory_budget b" by (simp add: memory_budget_def fun_eq_iff)
    show "memory_usage ?b k c = ?u" by (simp add: memory_usage_def get_or_def)
    fix k' c' assume "(k', c') \<noteq> (k, c)"
    then show "memory_usage ?b k' c' = memory_usage b k' c'" by (simp add: memory_usage_def get_or_def)
  qed
  show "\<exists>e. memory_consume k c n b = (Inl e, b)" if "memory_budget b k < ?u"
    using that by (simp add: memory_consume_def Let_def)
qed

interpretation file_store: promotion_budget file_budget file_usage file_consume "\<lambda>_. True"
proof
  fix n :: int and b k c
  let ?u = "file_usage b k c + n"
  let ?b = "write_budget_record \<lparr>br_king_id = k, br_cycle_id = c, br_budget = file_budget b k, br_used = ?u,
    br_last_updated = isoformat (fb_clock b (fb_clock_reads b))\<rparr> (b\<lparr>fb_clock_reads := fb_clock_reads b + 1\<rparr>)"
  show "\<exists>b'. file_consume k c n b = (Inr ?u, b') \<and> file_budget b' = file_budget b \<and> file_usage b' k c = ?u \<and>
      (\<forall>k' c'. True \<longrightarrow> True \<longrightarrow> (k', c') \<noteq> (k, c) \<longrightarrow> file_usage b' k' c' = file_usage b k' c')"
    if "?u \<le> file_budget b k"
  proof (intro exI [of _ ?b] conjI allI impI)
    show "file_consume k c n b = (Inr ?u, ?b)" using that by (simp add: file_consume_def Let_def)
    show "file_budget ?b = file_budget b" by (simp add: file_budget_def write_budget_record_def fun_eq_iff)
    show "file_usage ?b k c = ?u" by (simp add: file_usage_def read_budget_record_def write_budget_record_def)
    fix k' c' assume "(k', c') \<noteq> (k, c)"
    then show "file_usage ?b k' c' = file_usage b k' c'"
      by (simp add: file_usage_def read_budget_record_def write_budget_record_def)
  qed
  show "\<exists>e. file_consume k c n b = (Inl e, b)" if "file_budget b k < ?u"
    using that by (simp add: file_consume_def Let_def)
qed

text \<open>A Redis key names one King and cycle when the King's name has no colon.\<close>

definition no_colon :: "string \<Rightarrow> bool" where
  "no_colon k \<longleftrightarrow> CHR '':'' \<notin> set k"

lemma colon_suffix:
  "x @ '':'' @ k = y @ '':'' @ k' \<Longrightarrow> no_colon k \<Longrightarrow> no_colon k' \<Longrightarrow> x = y \<and> k = k'"
proof (induction x arbitrary: y)
  case Nil
  then show ?case by (cases y) (auto simp: no_colon_def)
next
  case (Cons a x)
  then show ?case by (cases y) (auto simp: no_colon_def)
qed

lemma redis_key_inj: "no_colon k \<Longrightarrow> no_colon k' \<Longrightarrow> redis_key b k c = redis_key b k' c' \<Longrightarrow> k = k' \<and> c = c'"
  using colon_suffix [of c k c' k'] by (auto simp: redis_key_def)

interpretation redis_store: promotion_budget redis_budget redis_usage redis_consume no_colon
proof
  fix n :: int and b k c
  assume n: "0 < n" "0 \<le> redis_usage b k c"
  let ?u = "redis_usage b k c + n"
  let ?b = "b\<lparr>rb_keys := dict_set (redis_key b k c) ?u (rb_keys b)\<rparr>"
  show "\<exists>b'. redis_consume k c n b = (Inr ?u, b') \<and> redis_budget b' = redis_budget b \<and> redis_usage b' k c = ?u \<and>
      (\<forall>k' c'. no_colon k \<longrightarrow> no_colon k' \<longrightarrow> (k', c') \<noteq> (k, c) \<longrightarrow> redis_usage b' k' c' = redis_usage b k' c')"
    if "?u \<le> redis_budget b k"
  proof (intro exI [of _ ?b] conjI allI impI)
    show "redis_consume k c n b = (Inr ?u, ?b)"
      using that n by (simp add: redis_consume_def consume_script_def redis_usage_def Let_def)
    show "redis_budget ?b = redis_budget b" by (simp add: redis_budget_def fun_eq_iff)
    show "redis_usage ?b k c = ?u" by (simp add: redis_usage_def redis_key_def get_or_def)
    fix k' c' assume "no_colon k" "no_colon k'" "(k', c') \<noteq> (k, c)"
    then have "redis_key b k' c' \<noteq> redis_key b k c" using redis_key_inj by blast
    then show "redis_usage ?b k' c' = redis_usage b k' c'"
      by (simp add: redis_usage_def redis_key_def get_or_def)
  qed
  show "\<exists>e. redis_consume k c n b = (Inl e, b)" if "redis_budget b k < ?u"
    using that by (simp add: redis_consume_def consume_script_def redis_usage_def Let_def)
qed

section \<open>Claim\<close>

text \<open>
  C26: The three stores grant exactly the same requests: those of the specification, which grants in order whatever fits
  in the King's budget for the cycle. So what is granted to a King in a cycle is what the usage grows by, and the
  usage never passes the budget by a grant; for Redis, as long as no King's name contains the separator of its keys.
\<close>

theorem budget_stores_respect_budget:
  fixes requests :: "budget_request list" and king cycle :: string
  assumes positive: "list_all (\<lambda>(_, _, n). 0 < n) requests"
  shows "(let (granted, m') = run_consumes memory_consume requests m in (\<forall>k c. 0 \<le> memory_usage m k c) \<longrightarrow>
      granted = fst (grant_all (memory_budget m) (memory_usage m) requests) \<and>
      memory_usage m' king cycle = memory_usage m king cycle + granted_to king cycle granted \<and>
      memory_usage m' king cycle \<le> max (memory_usage m king cycle) (memory_budget m king)) \<and>
    (let (granted, f') = run_consumes file_consume requests f in (\<forall>k c. 0 \<le> file_usage f k c) \<longrightarrow>
      granted = fst (grant_all (file_budget f) (file_usage f) requests) \<and>
      file_usage f' king cycle = file_usage f king cycle + granted_to king cycle granted \<and>
      file_usage f' king cycle \<le> max (file_usage f king cycle) (file_budget f king)) \<and>
    (let (granted, r') = run_consumes redis_consume requests r in
      (\<forall>k c. 0 \<le> redis_usage r k c) \<and> list_all (\<lambda>(k, _). no_colon k) requests \<and> no_colon king \<longrightarrow>
      granted = fst (grant_all (redis_budget r) (redis_usage r) requests) \<and>
      redis_usage r' king cycle = redis_usage r king cycle + granted_to king cycle granted \<and>
      redis_usage r' king cycle \<le> max (redis_usage r king cycle) (redis_budget r king))"
proof -
  obtain gm m' where m: "run_consumes memory_consume requests m = (gm, m')" by (rule prod.exhaust)
  obtain gf f' where f: "run_consumes file_consume requests f = (gf, f')" by (rule prod.exhaust)
  obtain gr r' where r: "run_consumes redis_consume requests r = (gr, r')" by (rule prod.exhaust)
  have "list_all (\<lambda>(k, _, n). no_colon k \<and> 0 < n) requests" if "list_all (\<lambda>(k, _). no_colon k) requests"
    using positive that by (auto simp: list_all_iff)
  note red = redis_store.respects_budget [OF _ this r, of king cycle]
  have positive': "list_all (\<lambda>(k, _, n). True \<and> 0 < n) requests" using positive by simp
  note mem = memory_store.respects_budget [OF _ positive' m TrueI, of king cycle]
  note fil = file_store.respects_budget [OF _ positive' f TrueI, of king cycle]
  show ?thesis unfolding m f r Let_def prod.case
  proof (rule conjI [OF _ conjI], goal_cases)
    case 1
    show ?case by (rule impI, rule mem, simp)
  next
    case 2
    show ?case by (rule impI, rule fil, simp)
  next
    case 3
    show ?case by (rule impI, rule red) auto
  qed
qed

text \<open>A King with the default budget of three asks for two, two and one.\<close>

definition example_memory :: memory_budgets where
  "example_memory = \<lparr>mb_default = 3, mb_custom = [], mb_usage = []\<rparr>"

definition example_redis :: redis_budgets where
  "example_redis = \<lparr>rb_default = 3, rb_custom = [], rb_prefix = ''budget'', rb_keys = []\<rparr>"

definition example_requests :: "budget_request list" where
  "example_requests = [(''Bael'', ''2026-Q1'', 2), (''Bael'', ''2026-Q1'', 2), (''Bael'', ''2026-Q1'', 1)]"

lemma budget_stores_respect_budget_witness:
  "fst (run_consumes memory_consume example_requests example_memory) = [(''Bael'', ''2026-Q1'', 2), (''Bael'', ''2026-Q1'', 1)] \<and>
   memory_usage (snd (run_consumes memory_consume example_requests example_memory)) ''Bael'' ''2026-Q1'' = 3 \<and>
   fst (run_consumes redis_consume example_requests example_redis) = [(''Bael'', ''2026-Q1'', 2), (''Bael'', ''2026-Q1'', 1)]"
proof -
  have "list_all (\<lambda>(_, _, n). 0 < n) example_requests" by (simp add: example_requests_def)
  note applied = budget_stores_respect_budget [OF this, of example_memory "''Bael''" "''2026-Q1''"
    "\<lparr>fb_default = 3, fb_custom = [], fb_files = [], fb_clock = int, fb_clock_reads = 0\<rparr>" example_redis]
  have usage: "memory_usage example_memory k c = 0" "redis_usage example_redis k c = 0" for k c
    by (simp_all add: memory_usage_def redis_usage_def get_or_def example_memory_def example_redis_def)
  have budget: "memory_budget example_memory k = 3" "redis_budget example_redis k = 3" for k
    by (simp_all add: memory_budget_def redis_budget_def get_or_def example_memory_def example_redis_def)
  have grants: "fst (grant_all b u example_requests) = [(''Bael'', ''2026-Q1'', 2), (''Bael'', ''2026-Q1'', 1)]"
    if "b ''Bael'' = 3" "u ''Bael'' ''2026-Q1'' = 0" for b u
    using that by (simp add: example_requests_def)
  have names: "list_all (\<lambda>(k, _). no_colon k) example_requests" "no_colon ''Bael''"
    by (simp_all add: example_requests_def no_colon_def)
  from applied show ?thesis
    by (simp add: case_prod_beta Let_def usage budget grants names) (simp add: granted_to_def)
qed

end
