(* ===== verification/Adoption.thy ===== *)
theory Adoption
  imports Petition_World Promotion_Budget Event_Envelope
begin

text \<open>
  Adoption of an escalated petition by a King (\<open>src/application/services/petition_adoption_service.py\<close>,
  \<open>src/application/ports/petition_adoption.py\<close>, the map of Kings of \<open>src/domain/models/motion_seed.py\<close>).

  The rest of the world of petitions is the budget store and what the event writer stored. The repository has two event
  writers with a method \<open>write_event\<close>: \<open>EventWriterService\<close> (\<open>src/application/services/event_writer_service.py\<close>), which
  the constructor of the service names, and \<open>EventWriterStub\<close> (\<open>src/infrastructure/stubs/event_writer_stub.py\<close>), over which
  every construction in the repository (in its tests) is made. Their keywords differ.
\<close>

section \<open>Kings and motions\<close>

record king_info =
  kg_name :: string
  kg_realm_id :: string
  kg_realm_label :: string

definition king_realm_map :: "(string \<times> king_info) list" where
  "king_realm_map =
    [(''5b8e679b-abb5-41e6-8d17-36531db04757'', \<lparr>kg_name = ''Bael'',
        kg_realm_id = ''realm_privacy_discretion_services'', kg_realm_label = ''Privacy & Discretion Services''\<rparr>),
     (''177ee194-ff00-45b7-a3b0-b05e7675e718'', \<lparr>kg_name = ''Beleth'',
        kg_realm_id = ''realm_relationship_facilitation'', kg_realm_label = ''Relationship Facilitation''\<rparr>),
     (''1a4a2056-e2b5-42a7-a338-8b8b67509f1f'', \<lparr>kg_name = ''Paimon'',
        kg_realm_id = ''realm_knowledge_skill_development'', kg_realm_label = ''Knowledge & Skill Development''\<rparr>),
     (''6a00c2d0-55e9-4b4e-89d5-c7de3a2fd26d'', \<lparr>kg_name = ''Purson'',
        kg_realm_id = ''realm_predictive_analytics_forecasting'', kg_realm_label = ''Predictive Analytics & Forecasting''\<rparr>),
     (''87a5c59f-369b-405d-975b-4369c4bd1488'', \<lparr>kg_name = ''Asmoday'',
        kg_realm_id = ''realm_character_virtue_development'', kg_realm_label = ''Character & Virtue Development''\<rparr>),
     (''782597cf-8a7b-48c9-bc9f-128019f4bcc2'', \<lparr>kg_name = ''Balam'',
        kg_realm_id = ''realm_accurate_guidance_counsel'', kg_realm_label = ''Accurate Guidance & Counsel''\<rparr>),
     (''85484a39-60e3-4e47-8aee-2dcbd68347df'', \<lparr>kg_name = ''Vine'',
        kg_realm_id = ''realm_threat_anomaly_detection'', kg_realm_label = ''Threat & Anomaly Detection''\<rparr>),
     (''9b439711-9217-4c30-8c0f-9a589c3c7e38'', \<lparr>kg_name = ''Zagan'',
        kg_realm_id = ''realm_personality_charisma_enhancement'', kg_realm_label = ''Personality & Charisma Enhancement''\<rparr>),
     (''da58a598-bfab-42e9-849c-1c34012104c6'', \<lparr>kg_name = ''Belial'',
        kg_realm_id = ''realm_talent_acquisition_team_building'', kg_realm_label = ''Talent Acquisition & Team Building''\<rparr>)]"

definition is_king :: "string \<Rightarrow> bool" where
  "is_king archon_id \<longleftrightarrow> archon_id \<in> set (map fst king_realm_map)"

definition get_king_realm :: "string \<Rightarrow> string option" where
  "get_king_realm king_id = map_option kg_realm_id (map_of king_realm_map king_id)"

definition get_realm_king :: "string \<Rightarrow> string option" where
  "get_realm_king realm_id = map_of (map (\<lambda>(king_id, info). (kg_realm_id info, king_id)) king_realm_map) realm_id"

definition validate_king_realm_match :: "string \<Rightarrow> string \<Rightarrow> bool" where
  "validate_king_realm_match king_id realm_id \<longleftrightarrow> get_king_realm king_id = Some realm_id"

text \<open>A King has a realm, and a realm one King.\<close>

lemma kings_and_realms: "get_king_realm k = Some r \<longleftrightarrow> get_realm_king r = Some k"
  by (auto simp: get_king_realm_def get_realm_king_def king_realm_map_def split: if_splits)

record realm_assignment =
  ra_primary_realm :: string
  ra_primary_sponsor_id :: string
  ra_primary_sponsor_name :: string

record motion_from_adoption =
  mo_motion_id :: uuid
  mo_title :: string
  mo_intent :: string
  mo_rationale :: string
  mo_sponsor_id :: uuid
  mo_created_at :: datetime
  mo_source_petition_ref :: uuid
  mo_realm_assignment :: realm_assignment

section \<open>The service\<close>

record adoption_request =
  aq_petition_id :: uuid
  aq_king_id :: uuid
  aq_realm_id :: string
  aq_motion_title :: string
  aq_motion_body :: string
  aq_adoption_rationale :: string

record adoption_result =
  ad_success :: bool
  ad_motion_id :: "uuid option"
  ad_errors :: "string list"
  ad_budget_consumed :: int

record 'b promotion_store =
  bs_can_promote :: "'b \<Rightarrow> string \<Rightarrow> string \<Rightarrow> int \<Rightarrow> bool"
  bs_consume :: "string \<Rightarrow> string \<Rightarrow> int \<Rightarrow> ('b, int) act"

section \<open>The event writers\<close>

record stub_event =
  se_event_type :: string
  se_event_payload :: payload
  se_agent_id :: "string option"
  se_local_timestamp :: datetime

text \<open>The budget store, and the events of a stub.\<close>

type_synonym 'b adoption_world = "('b \<times> stub_event list) petition_world"

definition stub_events :: "'b adoption_world \<Rightarrow> stub_event list" where
  "stub_events w = snd (pw_env w)"

definition on_budget :: "('b, 'a) act \<Rightarrow> ('b adoption_world, 'a) act" where
  "on_budget m = in_env (\<lambda>(b, es). case m b of (r, b') \<Rightarrow> (r, (b', es)))"

text \<open>\<open>EventWriterStub.write_event\<close>, whose other keywords have defaults; a time is never false.\<close>

definition stub_write_event ::
  "string \<Rightarrow> payload \<Rightarrow> string option \<Rightarrow> datetime option \<Rightarrow> ('b adoption_world, stub_event) act" where
  "stub_write_event event_type event_payload agent_id local_timestamp =
     act_bind (case local_timestamp of Some t \<Rightarrow> act_return t | None \<Rightarrow> clock_now) (\<lambda>t w.
       let event = \<lparr>se_event_type = event_type, se_event_payload = event_payload, se_agent_id = agent_id,
             se_local_timestamp = t\<rparr>
       in (Inr event, w\<lparr>pw_env := (fst (pw_env w), snd (pw_env w) @ [event])\<rparr>))"

definition stub_clear :: "('b adoption_world, unit) act" where
  "stub_clear = (\<lambda>w. (Inr (), w\<lparr>pw_env := (fst (pw_env w), [])\<rparr>))"

text \<open>The keywords of \<open>EventWriterService.write_event\<close>, all without a default.\<close>

definition event_writer_keywords :: "string list" where
  "event_writer_keywords = [''event_type'', ''payload'', ''agent_id'', ''local_timestamp'']"

text \<open>Calling a method without awaiting it: Python checks the keywords, and nothing else happens.\<close>

definition call_unawaited :: "string \<Rightarrow> string list \<Rightarrow> string list \<Rightarrow> ('s, unit) act" where
  "call_unawaited name keywords given =
     (case filter (\<lambda>k. k \<notin> set keywords) given of
        k # _ \<Rightarrow> act_raise (unexpected_keyword name k)
      | [] \<Rightarrow> (case filter (\<lambda>k. k \<notin> set given) keywords of
          [] \<Rightarrow> act_return ()
        | missing \<Rightarrow> act_raise (Exn TypeError (name @ ''() missing '' @ show_nat (length missing) @
            '' required keyword-only arguments''))))"

text \<open>The class of the writer a service was given, and what its call of \<open>write_event\<close> does there.\<close>

datatype event_writer = EventWriterService | EventWriterStub

definition write_adoption_event :: "event_writer \<Rightarrow> string \<Rightarrow> payload \<Rightarrow> string \<Rightarrow> ('b adoption_world, unit) act" where
  "write_adoption_event writer event_type event_payload agent_id =
     (case writer of
        EventWriterService \<Rightarrow> call_unawaited ''EventWriterService.write_event'' event_writer_keywords
          [''event_type'', ''event_payload'', ''agent_id'']
      | EventWriterStub \<Rightarrow> act_bind (stub_write_event event_type event_payload (Some agent_id) None) (\<lambda>_. act_return ()))"

record 'b adoption_service =
  as_repository :: "'b adoption_world petition_repository"
  as_budget :: "'b promotion_store"
  as_is_halted :: "('b adoption_world, bool) act"
  as_event_writer :: event_writer

definition adopted_event_dict :: "uuid \<Rightarrow> uuid \<Rightarrow> uuid \<Rightarrow> string \<Rightarrow> datetime \<Rightarrow> int \<Rightarrow> string \<Rightarrow> payload" where
  "adopted_event_dict petition_id motion_id king_id rationale adopted_at budget_consumed realm_id =
     [(''petition_id'', PyStr (uuid_str petition_id)), (''motion_id'', PyStr (uuid_str motion_id)),
      (''sponsor_king_id'', PyStr (uuid_str king_id)), (''adoption_rationale'', PyStr rationale),
      (''adopted_at'', PyStr (isoformat adopted_at)), (''budget_consumed'', PyInt budget_consumed),
      (''realm_id'', PyStr realm_id), (''schema_version'', PyStr ''1.0.0'')]"

definition create_motion_from_adoption :: "adoption_request \<Rightarrow> ('x petition_world, motion_from_adoption) act" where
  "create_motion_from_adoption rq =
     act_bind new_uuid (\<lambda>motion_id.
     act_bind clock_now (\<lambda>created_at.
     let king = uuid_str (aq_king_id rq);
         king_name = (case map_of king_realm_map king of None \<Rightarrow> ''Unknown King'' | Some info \<Rightarrow> kg_name info)
     in act_return \<lparr>mo_motion_id = motion_id, mo_title = aq_motion_title rq, mo_intent = aq_motion_body rq,
       mo_rationale = aq_adoption_rationale rq, mo_sponsor_id = aq_king_id rq, mo_created_at = created_at,
       mo_source_petition_ref = aq_petition_id rq, mo_realm_assignment = \<lparr>ra_primary_realm = aq_realm_id rq,
         ra_primary_sponsor_id = king, ra_primary_sponsor_name = king_name\<rparr>\<rparr>))"

definition petition_not_escalated :: "uuid \<Rightarrow> petition_state \<Rightarrow> exn" where
  "petition_not_escalated i s = Exn PetitionNotEscalatedException
     (''Petition '' @ uuid_str i @ '' is not escalated (current state: '' @ petition_state_value s @ '')'')"

definition realm_mismatch :: "string \<Rightarrow> string option \<Rightarrow> exn" where
  "realm_mismatch king_realm petition_realm = Exn RealmMismatchException
     (''Realm mismatch: King realm is '' @ king_realm @ '', petition realm is '' @
      (case petition_realm of Some (c # cs) \<Rightarrow> c # cs | _ \<Rightarrow> ''unknown''))"

definition insufficient_budget :: "uuid \<Rightarrow> string \<Rightarrow> int \<Rightarrow> exn" where
  "insufficient_budget king_id cycle remaining = Exn InsufficientBudgetException
     (''Insufficient budget: King '' @ uuid_str king_id @ '' has '' @ show_int remaining @ '' remaining in cycle '' @ cycle)"

definition adoption_cycle :: string where
  "adoption_cycle = ''2026-Q1''"

definition adopt_petition :: "'b adoption_service \<Rightarrow> adoption_request \<Rightarrow> ('b adoption_world, adoption_result) act" where
  "adopt_petition sv rq =
     act_bind (as_is_halted sv) (\<lambda>halted.
     if halted then act_raise (Exn SystemHaltedException ''System is halted, adoption not permitted'')
     else
       act_bind (rp_get (as_repository sv) (aq_petition_id rq)) (\<lambda>found. case found of
         None \<Rightarrow> act_return \<lparr>ad_success = False, ad_motion_id = None, ad_errors = [''PETITION_NOT_FOUND''],
           ad_budget_consumed = 0\<rparr>
       | Some petition \<Rightarrow>
           if pt_state petition \<noteq> ESCALATED then act_raise (petition_not_escalated (aq_petition_id rq) (pt_state petition))
           else if pt_escalated_to_realm petition \<noteq> Some (aq_realm_id rq) then
             act_raise (realm_mismatch (aq_realm_id rq) (pt_escalated_to_realm petition))
           else
             act_bind (\<lambda>w. (Inr (bs_can_promote (as_budget sv) (fst (pw_env w)) (uuid_str (aq_king_id rq)) adoption_cycle 1), w)) (\<lambda>can.
             if \<not> can then act_raise (insufficient_budget (aq_king_id rq) adoption_cycle 0)
             else
               act_bind (on_budget (bs_consume (as_budget sv) (uuid_str (aq_king_id rq)) adoption_cycle 1)) (\<lambda>_.
               act_bind (create_motion_from_adoption rq) (\<lambda>motion.
               act_bind (rp_mark_adopted (as_repository sv) (aq_petition_id rq) (mo_motion_id motion) (aq_king_id rq)) (\<lambda>_.
               act_bind (write_adoption_event (as_event_writer sv) ''petition.adoption.adopted''
                 (adopted_event_dict (aq_petition_id rq) (mo_motion_id motion) (aq_king_id rq) (aq_adoption_rationale rq)
                   (mo_created_at motion) 1 (aq_realm_id rq)) (uuid_str (aq_king_id rq))) (\<lambda>_.
               act_return \<lparr>ad_success = True, ad_motion_id = Some (mo_motion_id motion), ad_errors = [],
                 ad_budget_consumed = 1\<rparr>)))))))"

fun run_adoptions ::
  "'b adoption_service \<Rightarrow> adoption_request list \<Rightarrow> 'b adoption_world \<Rightarrow> (exn + adoption_result) list \<times> 'b adoption_world" where
  "run_adoptions sv [] w = ([], w)"
| "run_adoptions sv (rq # rqs) w =
     (let (r, w') = adopt_petition sv rq w; (rs, w'') = run_adoptions sv rqs w' in (r # rs, w''))"

text \<open>The service over the petition repository in memory, a budget store and either event writer, while not halted.\<close>

definition adoption_over :: "event_writer \<Rightarrow> 'b promotion_store \<Rightarrow> 'b adoption_service" where
  "adoption_over writer store = \<lparr>as_repository = stub_repository, as_budget = store, as_is_halted = act_return False,
     as_event_writer = writer\<rparr>"

section \<open>What an adoption does\<close>

text \<open>The event of an adoption, with the writer that takes it.\<close>

definition adopted_event :: "adoption_request \<Rightarrow> uuid \<Rightarrow> datetime \<Rightarrow> datetime \<Rightarrow> stub_event" where
  "adopted_event rq motion_id created_at now =
     \<lparr>se_event_type = ''petition.adoption.adopted'', se_event_payload = adopted_event_dict (aq_petition_id rq) motion_id
        (aq_king_id rq) (aq_adoption_rationale rq) created_at 1 (aq_realm_id rq),
      se_agent_id = Some (uuid_str (aq_king_id rq)), se_local_timestamp = now\<rparr>"

definition rejected_keyword :: exn where
  "rejected_keyword = unexpected_keyword ''EventWriterService.write_event'' ''event_payload''"

lemma write_adoption_event_run:
  "write_adoption_event EventWriterService ty pl a w = (Inl rejected_keyword, w)"
  "write_adoption_event EventWriterStub ty pl a w = (Inr (), w\<lparr>pw_clock_reads := pw_clock_reads w + 1,
     pw_env := (fst (pw_env w), stub_events w @ [\<lparr>se_event_type = ty, se_event_payload = pl, se_agent_id = Some a,
       se_local_timestamp = pw_clock w (pw_clock_reads w)\<rparr>])\<rparr>)"
  by (simp_all add: write_adoption_event_def call_unawaited_def event_writer_keywords_def rejected_keyword_def
      stub_write_event_def act_bind_def clock_now_def stub_events_def Let_def)

definition escalated_to :: "string \<Rightarrow> petition_submission \<Rightarrow> bool" where
  "escalated_to realm p \<longleftrightarrow> pt_state p = ESCALATED \<and> pt_escalated_to_realm p = Some realm \<and> submission_ok p"

text \<open>A request for a petition that is not escalated, or not to that realm, changes nothing.\<close>

lemma adoption_refused:
  assumes "\<And>p. dict_get (pw_submissions w) (aq_petition_id rq) = Some p \<Longrightarrow>
    pt_state p \<noteq> ESCALATED \<or> pt_escalated_to_realm p \<noteq> Some (aq_realm_id rq)"
  shows "snd (adopt_petition (adoption_over writer store) rq w) = w"
  using assms
  by (auto simp: adopt_petition_def adoption_over_def stub_repository_def stub_get_def act_bind_def split: option.splits)

lemma stub_mark_adopted_run:
  assumes "dict_get (pw_submissions w) i = Some p" and "submission_ok p"
  shows "\<exists>r w' q. stub_mark_adopted i m k w = (r, w') \<and> pw_env w' = pw_env w \<and> dict_get (pw_submissions w') i = Some q \<and>
    (\<forall>realm. escalated_to realm q = escalated_to realm p) \<and>
    (pt_adopted_as_motion_id p = None \<longrightarrow> pt_adopted_as_motion_id q = Some m \<and> pt_adopted_by_king_id q = Some k) \<and>
    (pt_adopted_as_motion_id p \<noteq> None \<longrightarrow> q = p)"
proof (cases "pt_adopted_as_motion_id p")
  case (Some m')
  then show ?thesis using assms by (auto simp: stub_mark_adopted_def stub_get_def act_bind_def)
next
  case None
  let ?q = "p\<lparr>pt_updated_at := pw_clock w (pw_clock_reads w), pt_adopted_as_motion_id := Some m,
    pt_adopted_at := Some (pw_clock w (Suc (pw_clock_reads w))), pt_adopted_by_king_id := Some k\<rparr>"
  have ok: "submission_ok ?q" using assms(2) by (simp add: submission_ok_def)
  then have "mk_petition_submission ?q = Inr ?q" by (simp add: mk_petition_submission_iff)
  with None assms have "stub_mark_adopted i m k w = (Inr ?q,
      w\<lparr>pw_submissions := dict_set i ?q (pw_submissions w), pw_clock_reads := pw_clock_reads w + 2\<rparr>)"
    by (simp add: stub_mark_adopted_def stub_get_def act_bind_def clock_now_def put_submission_def)
  then show ?thesis using None ok assms(2) by (simp add: escalated_to_def)
qed

lemma stub_mark_adopted_again:
  assumes "dict_get (pw_submissions w) i = Some p" and "pt_adopted_as_motion_id p = Some m" and "m' \<noteq> m"
  shows "\<exists>e. stub_mark_adopted i m' k w = (Inl e, w)"
  using assms by (simp add: stub_mark_adopted_def stub_get_def act_bind_def)

lemma stub_mark_adopted_first:
  assumes "dict_get (pw_submissions w) i = Some p" and "submission_ok p" and "pt_adopted_as_motion_id p = None"
  shows "\<exists>w' q. stub_mark_adopted i m k w = (Inr q, w') \<and> pw_env w' = pw_env w \<and> dict_get (pw_submissions w') i = Some q \<and>
    pw_uuid w' = pw_uuid w \<and> pw_uuid_draws w' = pw_uuid_draws w \<and> (\<forall>realm. escalated_to realm q = escalated_to realm p) \<and>
    pt_adopted_as_motion_id q = Some m \<and> pt_adopted_by_king_id q = Some k"
proof -
  let ?q = "p\<lparr>pt_updated_at := pw_clock w (pw_clock_reads w), pt_adopted_as_motion_id := Some m,
    pt_adopted_at := Some (pw_clock w (Suc (pw_clock_reads w))), pt_adopted_by_king_id := Some k\<rparr>"
  have ok: "submission_ok ?q" using assms(2) by (simp add: submission_ok_def)
  then have "mk_petition_submission ?q = Inr ?q" by (simp add: mk_petition_submission_iff)
  with assms have "stub_mark_adopted i m k w = (Inr ?q,
      w\<lparr>pw_submissions := dict_set i ?q (pw_submissions w), pw_clock_reads := pw_clock_reads w + 2\<rparr>)"
    by (simp add: stub_mark_adopted_def stub_get_def act_bind_def clock_now_def put_submission_def)
  then show ?thesis using ok assms(2) by (simp add: escalated_to_def)
qed

locale adoption_budget = promotion_budget budget_of usage_of consume king_ok
  for budget_of :: "'b \<Rightarrow> string \<Rightarrow> int" and usage_of :: "'b \<Rightarrow> string \<Rightarrow> string \<Rightarrow> int"
    and consume :: "string \<Rightarrow> string \<Rightarrow> int \<Rightarrow> ('b, int) act" and king_ok :: "string \<Rightarrow> bool" +
  fixes can_promote :: "'b \<Rightarrow> string \<Rightarrow> string \<Rightarrow> int \<Rightarrow> bool"
  assumes can_promote: "can_promote b k c n \<longleftrightarrow> usage_of b k c + n \<le> budget_of b k"
begin

definition service :: "event_writer \<Rightarrow> 'b adoption_service" where
  "service writer = adoption_over writer \<lparr>bs_can_promote = can_promote, bs_consume = consume\<rparr>"

definition used :: "'b adoption_world \<Rightarrow> uuid \<Rightarrow> int" where
  "used w king = usage_of (fst (pw_env w)) (uuid_str king) adoption_cycle"

definition granted_to :: "'b adoption_world \<Rightarrow> uuid \<Rightarrow> int" where
  "granted_to w king = budget_of (fst (pw_env w)) (uuid_str king)"

lemma adopt_without_budget:
  assumes "dict_get (pw_submissions w) (aq_petition_id rq) = Some p" and "escalated_to (aq_realm_id rq) p"
    and "granted_to w (aq_king_id rq) \<le> used w (aq_king_id rq)"
  shows "\<exists>e. adopt_petition (service writer) rq w = (Inl e, w)"
  using assms by (simp add: adopt_petition_def service_def adoption_over_def stub_repository_def stub_get_def act_bind_def
      escalated_to_def can_promote used_def granted_to_def)

text \<open>With budget: it is spent, the petition marked, and the event written, in this order.\<close>

lemma adopt_with_budget:
  assumes p: "dict_get (pw_submissions w) (aq_petition_id rq) = Some p" "escalated_to (aq_realm_id rq) p"
    and room: "used w (aq_king_id rq) < granted_to w (aq_king_id rq)" and start: "0 \<le> used w (aq_king_id rq)"
  obtains b where "budget_of b = budget_of (fst (pw_env w))"
    and "usage_of b (uuid_str (aq_king_id rq)) adoption_cycle = used w (aq_king_id rq) + 1"
    and "adopt_petition (service writer) rq w =
      act_bind (stub_mark_adopted (aq_petition_id rq) (pw_uuid w (pw_uuid_draws w)) (aq_king_id rq)) (\<lambda>_.
      act_bind (write_adoption_event writer ''petition.adoption.adopted'' (adopted_event_dict (aq_petition_id rq)
          (pw_uuid w (pw_uuid_draws w)) (aq_king_id rq) (aq_adoption_rationale rq) (pw_clock w (pw_clock_reads w)) 1
          (aq_realm_id rq)) (uuid_str (aq_king_id rq))) (\<lambda>_.
      act_return \<lparr>ad_success = True, ad_motion_id = Some (pw_uuid w (pw_uuid_draws w)), ad_errors = [], ad_budget_consumed = 1\<rparr>))
      (w\<lparr>pw_env := (b, stub_events w), pw_uuid_draws := pw_uuid_draws w + 1, pw_clock_reads := pw_clock_reads w + 1\<rparr>)"
proof -
  obtain b where b: "consume (uuid_str (aq_king_id rq)) adoption_cycle 1 (fst (pw_env w)) = (Inr (used w (aq_king_id rq) + 1), b)"
    "budget_of b = budget_of (fst (pw_env w))"
    "usage_of b (uuid_str (aq_king_id rq)) adoption_cycle = used w (aq_king_id rq) + 1"
    using granted [of 1 "fst (pw_env w)" "uuid_str (aq_king_id rq)" adoption_cycle] room start
    unfolding used_def granted_to_def by auto
  obtain b0 es where env: "pw_env w = (b0, es)" by fastforce
  show thesis
    using p b(1) room env
    by (intro that [OF b(2,3)])
      (simp add: adopt_petition_def service_def adoption_over_def stub_repository_def stub_get_def act_bind_def [of "act_return False"]
        act_bind_def [of "\<lambda>w. (Inr _, w)"] act_bind_def [of "on_budget _"] act_bind_def [of new_uuid] act_bind_def [of clock_now]
        on_budget_def in_env_def escalated_to_def can_promote used_def granted_to_def create_motion_from_adoption_def new_uuid_def
        clock_now_def Let_def stub_events_def act_bind_def [of "act_bind _ _"])
qed
lemma first_adoption:
  assumes p: "dict_get (pw_submissions w) (aq_petition_id rq) = Some p" "escalated_to (aq_realm_id rq) p"
      "pt_adopted_as_motion_id p = None"
    and room: "used w (aq_king_id rq) < granted_to w (aq_king_id rq)" and start: "0 \<le> used w (aq_king_id rq)"
  shows "\<exists>r w' q now. adopt_petition (service writer) rq w = (r, w') \<and>
    granted_to w' (aq_king_id rq) = granted_to w (aq_king_id rq) \<and> used w' (aq_king_id rq) = used w (aq_king_id rq) + 1 \<and>
    pw_uuid w' = pw_uuid w \<and> pw_uuid_draws w' = pw_uuid_draws w + 1 \<and>
    dict_get (pw_submissions w') (aq_petition_id rq) = Some q \<and> escalated_to (aq_realm_id rq) q \<and>
    pt_adopted_as_motion_id q = Some (pw_uuid w (pw_uuid_draws w)) \<and> pt_adopted_by_king_id q = Some (aq_king_id rq) \<and>
    (case writer of
       EventWriterService \<Rightarrow> r = Inl rejected_keyword \<and> stub_events w' = stub_events w
     | EventWriterStub \<Rightarrow> r = Inr \<lparr>ad_success = True, ad_motion_id = Some (pw_uuid w (pw_uuid_draws w)), ad_errors = [],
           ad_budget_consumed = 1\<rparr> \<and>
         stub_events w' = stub_events w @ [adopted_event rq (pw_uuid w (pw_uuid_draws w)) (pw_clock w (pw_clock_reads w)) now])"
proof -
  from adopt_with_budget [OF p(1,2) room start, of writer] obtain b where
    b: "budget_of b = budget_of (fst (pw_env w))"
      "usage_of b (uuid_str (aq_king_id rq)) adoption_cycle = used w (aq_king_id rq) + 1"
    and run: "adopt_petition (service writer) rq w =
      act_bind (stub_mark_adopted (aq_petition_id rq) (pw_uuid w (pw_uuid_draws w)) (aq_king_id rq)) (\<lambda>_.
      act_bind (write_adoption_event writer ''petition.adoption.adopted'' (adopted_event_dict (aq_petition_id rq)
          (pw_uuid w (pw_uuid_draws w)) (aq_king_id rq) (aq_adoption_rationale rq) (pw_clock w (pw_clock_reads w)) 1
          (aq_realm_id rq)) (uuid_str (aq_king_id rq))) (\<lambda>_.
      act_return \<lparr>ad_success = True, ad_motion_id = Some (pw_uuid w (pw_uuid_draws w)), ad_errors = [], ad_budget_consumed = 1\<rparr>))
      (w\<lparr>pw_env := (b, stub_events w), pw_uuid_draws := pw_uuid_draws w + 1, pw_clock_reads := pw_clock_reads w + 1\<rparr>)"
    by blast
  let ?w = "w\<lparr>pw_env := (b, stub_events w), pw_uuid_draws := pw_uuid_draws w + 1, pw_clock_reads := pw_clock_reads w + 1\<rparr>"
  have there: "dict_get (pw_submissions ?w) (aq_petition_id rq) = Some p" "submission_ok p"
    using p by (simp_all add: escalated_to_def)
  obtain v q where v: "stub_mark_adopted (aq_petition_id rq) (pw_uuid w (pw_uuid_draws w)) (aq_king_id rq) ?w = (Inr q, v)"
      "pw_env v = (b, stub_events w)" "dict_get (pw_submissions v) (aq_petition_id rq) = Some q" "pw_uuid v = pw_uuid w"
      "pw_uuid_draws v = pw_uuid_draws w + 1" "escalated_to (aq_realm_id rq) q"
      "pt_adopted_as_motion_id q = Some (pw_uuid w (pw_uuid_draws w))" "pt_adopted_by_king_id q = Some (aq_king_id rq)"
    using stub_mark_adopted_first [OF there p(3), of "pw_uuid w (pw_uuid_draws w)" "aq_king_id rq"] p(2) by auto
  show ?thesis
  proof (cases writer)
    case EventWriterService
    have "adopt_petition (service writer) rq w = (Inl rejected_keyword, v)"
      unfolding run using v(1) EventWriterService by (simp add: write_adoption_event_run)
    then show ?thesis
      using v b EventWriterService by (simp add: used_def granted_to_def stub_events_def)
  next
    case EventWriterStub
    let ?e = "adopted_event rq (pw_uuid w (pw_uuid_draws w)) (pw_clock w (pw_clock_reads w)) (pw_clock v (pw_clock_reads v))"
    have "adopt_petition (service writer) rq w = (Inr \<lparr>ad_success = True, ad_motion_id = Some (pw_uuid w (pw_uuid_draws w)),
        ad_errors = [], ad_budget_consumed = 1\<rparr>, v\<lparr>pw_clock_reads := pw_clock_reads v + 1, pw_env := (b, stub_events w @ [?e])\<rparr>)"
      unfolding run using v(1,2) EventWriterStub
      by (simp add: write_adoption_event_run stub_events_def [of v] adopted_event_def)
    then show ?thesis
      using v b EventWriterStub by (auto simp: used_def granted_to_def stub_events_def)
  qed
qed

lemma adopted_again:
  assumes p: "dict_get (pw_submissions w) (aq_petition_id rq) = Some p" "escalated_to (aq_realm_id rq) p"
      "pt_adopted_as_motion_id p = Some m" "pw_uuid w (pw_uuid_draws w) \<noteq> m"
    and start: "0 \<le> used w (aq_king_id rq)"
  shows "\<exists>e w'. adopt_petition (service writer) rq w = (Inl e, w') \<and> granted_to w' (aq_king_id rq) = granted_to w (aq_king_id rq) \<and>
    used w' (aq_king_id rq) = min (used w (aq_king_id rq) + 1) (max (used w (aq_king_id rq)) (granted_to w (aq_king_id rq))) \<and>
    pw_uuid w' = pw_uuid w \<and> pw_uuid_draws w' \<le> pw_uuid_draws w + 1 \<and> pw_uuid_draws w \<le> pw_uuid_draws w' \<and>
    pw_submissions w' = pw_submissions w \<and> stub_events w' = stub_events w"
proof (cases "used w (aq_king_id rq) < granted_to w (aq_king_id rq)")
  case False
  then show ?thesis using adopt_without_budget [OF p(1,2), of writer] by auto
next
  case True
  from adopt_with_budget [OF p(1,2) True start, of writer] obtain b where
    b: "budget_of b = budget_of (fst (pw_env w))"
      "usage_of b (uuid_str (aq_king_id rq)) adoption_cycle = used w (aq_king_id rq) + 1"
    and run: "adopt_petition (service writer) rq w =
      act_bind (stub_mark_adopted (aq_petition_id rq) (pw_uuid w (pw_uuid_draws w)) (aq_king_id rq)) (\<lambda>_.
      act_bind (write_adoption_event writer ''petition.adoption.adopted'' (adopted_event_dict (aq_petition_id rq)
          (pw_uuid w (pw_uuid_draws w)) (aq_king_id rq) (aq_adoption_rationale rq) (pw_clock w (pw_clock_reads w)) 1
          (aq_realm_id rq)) (uuid_str (aq_king_id rq))) (\<lambda>_.
      act_return \<lparr>ad_success = True, ad_motion_id = Some (pw_uuid w (pw_uuid_draws w)), ad_errors = [], ad_budget_consumed = 1\<rparr>))
      (w\<lparr>pw_env := (b, stub_events w), pw_uuid_draws := pw_uuid_draws w + 1, pw_clock_reads := pw_clock_reads w + 1\<rparr>)"
    by blast
  let ?w = "w\<lparr>pw_env := (b, stub_events w), pw_uuid_draws := pw_uuid_draws w + 1, pw_clock_reads := pw_clock_reads w + 1\<rparr>"
  have "dict_get (pw_submissions ?w) (aq_petition_id rq) = Some p" using p(1) by simp
  from stub_mark_adopted_again [OF this p(3,4)] obtain e where
    "stub_mark_adopted (aq_petition_id rq) (pw_uuid w (pw_uuid_draws w)) (aq_king_id rq) ?w = (Inl e, ?w)" by blast
  then have "adopt_petition (service writer) rq w = (Inl e, ?w)" unfolding run by simp
  then show ?thesis using True b by (simp add: used_def granted_to_def stub_events_def)
qed

abbreviation all_for :: "uuid \<Rightarrow> uuid \<Rightarrow> string \<Rightarrow> adoption_request list \<Rightarrow> bool" where
  "all_for i king realm rqs \<equiv> list_all (\<lambda>rq. aq_petition_id rq = i \<and> aq_king_id rq = king \<and> aq_realm_id rq = realm) rqs"

text \<open>Once the petition is adopted every further request raises, at the price of its unit of budget.\<close>

lemma adoptions_after:
  assumes "run_adoptions (service writer) rqs w = (rs, w')" and "all_for i king realm rqs"
    and "dict_get (pw_submissions w) i = Some p" "escalated_to realm p" "pt_adopted_as_motion_id p = Some m"
    and "\<forall>k<length rqs. pw_uuid w (pw_uuid_draws w + k) \<noteq> m" and "0 \<le> used w king"
  shows "list_all isl rs \<and> length rs = length rqs \<and> pw_submissions w' = pw_submissions w \<and> stub_events w' = stub_events w \<and>
    used w' king = min (used w king + int (length rqs)) (max (used w king) (granted_to w king))"
  using assms
proof (induction rqs arbitrary: w rs)
  case (Cons rq rqs)
  have rq: "aq_petition_id rq = i" "aq_king_id rq = king" "aq_realm_id rq = realm" "all_for i king realm rqs"
    using Cons.prems(2) by auto
  have first: "pw_uuid w (pw_uuid_draws w) \<noteq> m" using Cons.prems(6) by (metis add_0_right length_greater_0_conv list.distinct(1))
  obtain e u where u: "adopt_petition (service writer) rq w = (Inl e, u)" "granted_to u king = granted_to w king"
    "used u king = min (used w king + 1) (max (used w king) (granted_to w king))" "pw_uuid u = pw_uuid w"
    "pw_uuid_draws u \<le> pw_uuid_draws w + 1" "pw_uuid_draws w \<le> pw_uuid_draws u"
    "pw_submissions u = pw_submissions w" "stub_events u = stub_events w"
    using adopted_again [of w rq p m writer] Cons.prems(3-5,7) first unfolding rq by blast
  obtain rest v where more: "run_adoptions (service writer) rqs u = (rest, v)" by fastforce
  have out: "v = w'" "rs = Inl e # rest" using Cons.prems(1) by (simp_all add: u(1) more)
  have fresh: "\<forall>k<length rqs. pw_uuid u (pw_uuid_draws u + k) \<noteq> m"
  proof (intro allI impI)
    fix k assume k: "k < length rqs"
    obtain j where j: "pw_uuid_draws u + k = pw_uuid_draws w + j" "j < length (rq # rqs)"
    proof (cases "pw_uuid_draws u = pw_uuid_draws w")
      case True
      then show thesis using that [of k] k by simp
    next
      case False
      then have "pw_uuid_draws u = pw_uuid_draws w + 1" using u(5,6) by linarith
      then show thesis using that [of "k + 1"] k by simp
    qed
    then show "pw_uuid u (pw_uuid_draws u + k) \<noteq> m" using Cons.prems(6) u(4) by simp
  qed
  have start: "0 \<le> used u king" using Cons.prems(7) u(3) by simp
  have there: "dict_get (pw_submissions u) i = Some p" using Cons.prems(3) u(7) by simp
  note later = Cons.IH [OF more [unfolded out(1)] rq(4) there Cons.prems(4,5) fresh start]
  have "used w' king = min (used w king + int (length (rq # rqs))) (max (used w king) (granted_to w king))"
    using later u(2,3) by (simp add: min_def max_def)
  then show ?case using later u(7,8) by (simp add: out)
qed simp

lemma adoptions_unpaid:
  assumes "run_adoptions (service writer) rqs w = (rs, w')" and "all_for i king realm rqs"
    and "dict_get (pw_submissions w) i = Some p" "escalated_to realm p" and "granted_to w king \<le> used w king"
  shows "list_all isl rs \<and> length rs = length rqs \<and> w' = w"
  using assms
proof (induction rqs arbitrary: rs)
  case (Cons rq rqs)
  have rq: "aq_petition_id rq = i" "aq_king_id rq = king" "aq_realm_id rq = realm" "all_for i king realm rqs"
    using Cons.prems(2) by auto
  obtain e where e: "adopt_petition (service writer) rq w = (Inl e, w)"
    using adopt_without_budget [of w rq p writer] Cons.prems(3-5) unfolding rq by blast
  obtain rest v where more: "run_adoptions (service writer) rqs w = (rest, v)" by fastforce
  then show ?case using Cons.prems(1) Cons.IH [OF _ rq(4) Cons.prems(3-5)] e by auto
qed simp

lemma adoptions:
  assumes run: "run_adoptions (service writer) rqs w = (rs, w')" and rqs: "all_for i king realm rqs"
    and p: "dict_get (pw_submissions w) i = Some p" "escalated_to realm p" "pt_adopted_as_motion_id p = None"
    and fresh: "\<forall>k. 0 < k \<and> k < length rqs \<longrightarrow> pw_uuid w (pw_uuid_draws w + k) \<noteq> pw_uuid w (pw_uuid_draws w)"
    and start: "0 \<le> used w king"
  shows "length rs = length rqs \<and>
    used w' king = min (used w king + int (length rqs)) (max (used w king) (granted_to w king)) \<and>
    (if rqs = [] \<or> granted_to w king \<le> used w king then list_all isl rs \<and> w' = w
     else list_all isl (tl rs) \<and>
       (\<exists>q. dict_get (pw_submissions w') i = Some q \<and> pt_adopted_as_motion_id q = Some (pw_uuid w (pw_uuid_draws w)) \<and>
          pt_adopted_by_king_id q = Some king) \<and>
       (case writer of
          EventWriterService \<Rightarrow> hd rs = Inl rejected_keyword \<and> stub_events w' = stub_events w
        | EventWriterStub \<Rightarrow> hd rs = Inr \<lparr>ad_success = True, ad_motion_id = Some (pw_uuid w (pw_uuid_draws w)),
              ad_errors = [], ad_budget_consumed = 1\<rparr> \<and>
            (\<exists>now. stub_events w' = stub_events w @
               [adopted_event (hd rqs) (pw_uuid w (pw_uuid_draws w)) (pw_clock w (pw_clock_reads w)) now])))"
proof (cases "rqs = [] \<or> granted_to w king \<le> used w king")
  case True
  then show ?thesis
  proof
    assume "rqs = []"
    then show ?thesis using run by auto
  next
    assume none: "granted_to w king \<le> used w king"
    then show ?thesis using adoptions_unpaid [OF run rqs p(1,2) none] by auto
  qed
next
  case False
  then obtain rq rest where rqs': "rqs = rq # rest" by (cases rqs) auto
  have rq: "aq_petition_id rq = i" "aq_king_id rq = king" "aq_realm_id rq = realm" "all_for i king realm rest"
    using rqs by (auto simp: rqs')
  have room: "used w king < granted_to w king" using False by simp
  let ?m = "pw_uuid w (pw_uuid_draws w)"
  obtain r u q now where u: "adopt_petition (service writer) rq w = (r, u)" "granted_to u king = granted_to w king"
    "used u king = used w king + 1" "pw_uuid u = pw_uuid w" "pw_uuid_draws u = pw_uuid_draws w + 1"
    "dict_get (pw_submissions u) i = Some q" "escalated_to realm q" "pt_adopted_as_motion_id q = Some ?m"
    "pt_adopted_by_king_id q = Some king"
    "case writer of
       EventWriterService \<Rightarrow> r = Inl rejected_keyword \<and> stub_events u = stub_events w
     | EventWriterStub \<Rightarrow> r = Inr \<lparr>ad_success = True, ad_motion_id = Some ?m, ad_errors = [], ad_budget_consumed = 1\<rparr> \<and>
         stub_events u = stub_events w @ [adopted_event rq ?m (pw_clock w (pw_clock_reads w)) now]"
    using first_adoption [of w rq p writer] p room start unfolding rq by blast
  obtain rs' v where more: "run_adoptions (service writer) rest u = (rs', v)" by fastforce
  have out: "v = w'" "rs = r # rs'" using run by (simp_all add: rqs' u(1) more)
  have "\<forall>k<length rest. pw_uuid u (pw_uuid_draws u + k) \<noteq> ?m"
  proof (intro allI impI)
    fix k assume "k < length rest"
    then show "pw_uuid u (pw_uuid_draws u + k) \<noteq> ?m" using fresh [rule_format, of "Suc k"] u(4,5) by (simp add: rqs')
  qed
  note later = adoptions_after [OF more [unfolded out(1)] rq(4) u(6-8) this]
  have after: "list_all isl rs' \<and> length rs' = length rest \<and> pw_submissions w' = pw_submissions u \<and> stub_events w' = stub_events u \<and>
      used w' king = min (used u king + int (length rest)) (max (used u king) (granted_to u king))"
    using later start u(3) by simp
  have "used w' king = min (used w king + int (length rqs)) (max (used w king) (granted_to w king))"
    using after u(2,3) room by (simp add: rqs' min_def max_def)
  moreover have "\<not> (rqs = [] \<or> granted_to w king \<le> used w king)" using False .
  ultimately show ?thesis
    using after u(6,8-10) by (cases writer) (auto simp: out rqs')
qed

end

interpretation memory_adoption: adoption_budget memory_budget memory_usage memory_consume "\<lambda>_. True" memory_can_promote
  by unfold_locales (simp add: memory_can_promote_def)

interpretation file_adoption: adoption_budget file_budget file_usage file_consume "\<lambda>_. True" file_can_promote
  by unfold_locales (simp add: file_can_promote_def)

interpretation redis_adoption: adoption_budget redis_budget redis_usage redis_consume no_colon redis_can_promote
  by unfold_locales (simp add: redis_can_promote_def)

section \<open>Claim\<close>

definition memory_promotion_store :: "memory_budgets promotion_store" where
  "memory_promotion_store = \<lparr>bs_can_promote = memory_can_promote, bs_consume = memory_consume\<rparr>"

text \<open>
  C38: How adoption ends, over the repository and the budget store in memory, for requests of one King for a petition that
  is escalated to the realm he names and not adopted yet, one after another, when the ids drawn do not repeat. Every
  request takes one unit of his budget for the cycle as long as there is one left, also those that are refused because
  the petition is adopted already. Without budget every request raises and nothing changes. With budget the first one
  puts the petition on record as adopted by him, and all later ones raise. What the first answers depends on the event
  writer: with \<open>EventWriterStub\<close> it succeeds with the motion, and the one event of the adoption is stored; with
  \<open>EventWriterService\<close> it raises TypeError, for it passes the keyword \<open>event_payload\<close>, which that writer does not have,
  after the budget is spent and the petition marked, and no event is written.
\<close>

theorem adoption_outcomes:
  assumes "list_all (\<lambda>rq. aq_petition_id rq = i \<and> aq_king_id rq = king \<and> aq_realm_id rq = realm) rqs"
    and "dict_get (pw_submissions w) i = Some p" and "escalated_to realm p" and "pt_adopted_as_motion_id p = None"
    and "\<forall>k. 0 < k \<and> k < length rqs \<longrightarrow> pw_uuid w (pw_uuid_draws w + k) \<noteq> pw_uuid w (pw_uuid_draws w)"
    and "budget = memory_budget (fst (pw_env w)) (uuid_str king)"
    and "spent = memory_usage (fst (pw_env w)) (uuid_str king) adoption_cycle" and "0 \<le> spent"
    and "motion = pw_uuid w (pw_uuid_draws w)"
    and "run_adoptions (adoption_over writer memory_promotion_store) rqs w = (rs, w')"
  shows "length rs = length rqs \<and>
    memory_usage (fst (pw_env w')) (uuid_str king) adoption_cycle = min (spent + int (length rqs)) (max spent budget) \<and>
    (if rqs = [] \<or> budget \<le> spent then list_all isl rs \<and> w' = w
     else list_all isl (tl rs) \<and>
       (\<exists>q. dict_get (pw_submissions w') i = Some q \<and> pt_adopted_as_motion_id q = Some motion \<and>
          pt_adopted_by_king_id q = Some king) \<and>
       (case writer of
          EventWriterService \<Rightarrow> hd rs = Inl (unexpected_keyword ''EventWriterService.write_event'' ''event_payload'') \<and>
            stub_events w' = stub_events w
        | EventWriterStub \<Rightarrow> hd rs = Inr \<lparr>ad_success = True, ad_motion_id = Some motion, ad_errors = [], ad_budget_consumed = 1\<rparr> \<and>
            (\<exists>now. stub_events w' = stub_events w @ [adopted_event (hd rqs) motion (pw_clock w (pw_clock_reads w)) now])))"
proof -
  have run: "run_adoptions (memory_adoption.service writer) rqs w = (rs, w')"
    using assms(10) by (simp add: memory_adoption.service_def memory_promotion_store_def)
  have start: "0 \<le> memory_adoption.used w king" using assms(7,8) by (simp add: memory_adoption.used_def)
  show ?thesis
    using memory_adoption.adoptions [OF run assms(1-5) start]
    unfolding memory_adoption.used_def memory_adoption.granted_to_def assms(6,7,9) rejected_keyword_def by blast
qed

definition example_request :: adoption_request where
  "example_request = \<lparr>aq_petition_id = 1, aq_king_id = 7, aq_realm_id = ''default'', aq_motion_title = ''Fairness'',
     aq_motion_body = ''be fair'', aq_adoption_rationale = ''just''\<rparr>"

definition escalated_example :: petition_submission where
  "escalated_example = example_petition\<lparr>pt_state := ESCALATED, pt_escalated_to_realm := Some ''default''\<rparr>"

definition adoption_example_world :: "memory_budgets adoption_world" where
  "adoption_example_world = \<lparr>pw_submissions = [(1, escalated_example)], pw_env = (example_memory, []), pw_clock = int,
     pw_clock_reads = 0, pw_uuid = of_nat, pw_uuid_draws = 40\<rparr>"

text \<open>Four requests of a King with a budget of three.\<close>

lemma adoption_outcomes_witness:
  "\<exists>rs w' q e. run_adoptions (adoption_over EventWriterStub memory_promotion_store) (replicate 4 example_request)
       adoption_example_world = (rs, w') \<and>
     ad_success (projr (hd rs)) \<and> list_all isl (tl rs) \<and> length rs = 4 \<and>
     memory_usage (fst (pw_env w')) (uuid_str 7) adoption_cycle = 3 \<and> stub_events w' = [e] \<and>
     dict_get (pw_submissions w') 1 = Some q \<and> pt_adopted_by_king_id q = Some 7 \<and> pt_adopted_as_motion_id q = Some 40"
proof -
  obtain rs w' where run: "run_adoptions (adoption_over EventWriterStub memory_promotion_store) (replicate 4 example_request)
      adoption_example_world = (rs, w')" by (rule prod.exhaust)
  have requests: "list_all (\<lambda>rq. aq_petition_id rq = 1 \<and> aq_king_id rq = 7 \<and> aq_realm_id rq = ''default'')
      (replicate 4 example_request)" by (simp add: list_all_iff example_request_def)
  have p: "dict_get (pw_submissions adoption_example_world) 1 = Some escalated_example"
    by (simp add: adoption_example_world_def dict_get_def)
  have e: "escalated_to ''default'' escalated_example" "pt_adopted_as_motion_id escalated_example = None"
    by (simp_all add: escalated_to_def escalated_example_def example_petition_def new_submission_def submission_ok_def
        max_text_length_def)
  have u: "memory_usage (fst (pw_env adoption_example_world)) k c = 0" "memory_budget (fst (pw_env adoption_example_world)) k = 3"
    "pw_uuid adoption_example_world (pw_uuid_draws adoption_example_world) = 40" "stub_events adoption_example_world = []" for k c
    by (simp_all add: adoption_example_world_def memory_usage_def memory_budget_def get_or_def example_memory_def stub_events_def)
  have ids: "pw_uuid adoption_example_world (pw_uuid_draws adoption_example_world + k) \<noteq> 40" if "0 < k" "k < 4" for k
  proof -
    have "k = 1 \<or> k = 2 \<or> k = 3" using that by linarith
    then show ?thesis by (auto simp: adoption_example_world_def)
  qed
  have fresh: "\<forall>k. 0 < k \<and> k < length (replicate 4 example_request) \<longrightarrow> pw_uuid adoption_example_world
      (pw_uuid_draws adoption_example_world + k) \<noteq> pw_uuid adoption_example_world (pw_uuid_draws adoption_example_world)"
    using ids u(3) by simp
  have "0 \<le> memory_usage (fst (pw_env adoption_example_world)) (uuid_str 7) adoption_cycle" by (simp only: u(1))
  from adoption_outcomes [OF requests p e fresh refl refl this refl run] run show ?thesis by (auto simp: u)
qed

end
