(* ===== verification/Co_Sign.thy ===== *)
theory Co_Sign
  imports Petition_World
begin

text \<open>
  Co-signing of petitions: the co-sign (\<open>src/domain/models/co_sign.py\<close>), its repository in memory
  (\<open>src/infrastructure/stubs/co_sign_repository_stub.py\<close>) and in PostgreSQL
  (\<open>src/infrastructure/adapters/persistence/co_sign_repository.py\<close> with the table of \<open>src/migrations/024\<close>), the identity
  store and the rate limiter (\<open>identity_store_stub.py\<close>, \<open>co_sign_rate_limiter_stub.py\<close>), the thresholds
  (\<open>src/application/services/escalation_threshold_service.py\<close>), automatic escalation
  (\<open>auto_escalation_executor_service.py\<close>) and the service that composes them (\<open>co_sign_submission_service.py\<close>).

  Their state is the rest of the world of petitions. BLAKE3 is a parameter.
\<close>

section \<open>The co-sign\<close>

record co_sign =
  cs_cosign_id :: uuid
  cs_petition_id :: uuid
  cs_signer_id :: uuid
  cs_signed_at :: datetime
  cs_content_hash :: bytes
  cs_identity_verified :: bool
  cs_witness_event_id :: "uuid option"

definition mk_co_sign :: "co_sign \<Rightarrow> exn + co_sign" where
  "mk_co_sign c = (if length (cs_content_hash c) \<noteq> 32 then
     Inl (Exn ValueError (''content_hash must be 32 bytes (BLAKE3), got '' @ show_nat (length (cs_content_hash c)))) else Inr c)"

definition co_sign_content :: "uuid \<Rightarrow> uuid \<Rightarrow> datetime \<Rightarrow> bytes" where
  "co_sign_content petition_id signer_id signed_at =
     str_encode (uuid_str petition_id @ ''|'' @ uuid_str signer_id @ ''|'' @ isoformat signed_at)"

definition co_sign_signable_content :: "co_sign \<Rightarrow> bytes" where
  "co_sign_signable_content c = co_sign_content (cs_petition_id c) (cs_signer_id c) (cs_signed_at c)"

definition compute_content_hash :: "(bytes \<Rightarrow> bytes) \<Rightarrow> uuid \<Rightarrow> uuid \<Rightarrow> datetime \<Rightarrow> bytes" where
  "compute_content_hash blake3 petition_id signer_id signed_at = blake3 (co_sign_content petition_id signer_id signed_at)"

definition verify_content_hash :: "(bytes \<Rightarrow> bytes) \<Rightarrow> co_sign \<Rightarrow> bool" where
  "verify_content_hash blake3 c \<longleftrightarrow>
     cs_content_hash c = compute_content_hash blake3 (cs_petition_id c) (cs_signer_id c) (cs_signed_at c)"

section \<open>State\<close>

record co_sign_repository_stub =
  cr_co_signs :: "(uuid \<times> uuid, co_sign) dict"
  cr_counts :: "(uuid, int) dict"
  cr_valid_petitions :: "uuid list"

record rate_limiter_stub =
  rl_limit :: int
  rl_window_minutes :: int
  rl_counts :: "(uuid, int) dict"
  rl_reset_at :: "(uuid, datetime) dict"

record identity_store_stub =
  is_valid_identities :: "uuid list"
  is_suspended_identities :: "(uuid, string option) dict"
  is_available :: bool

text \<open>The table of co-signs, and the state of the stubs.\<close>

record co_sign_env =
  ce_stub :: co_sign_repository_stub
  ce_table :: "(uuid \<times> uuid, co_sign) dict"
  ce_limiter :: rate_limiter_stub
  ce_identities :: identity_store_stub
  ce_halted :: bool

type_synonym co_sign_world = "co_sign_env petition_world"

definition dict_or :: "('k, 'v) dict \<Rightarrow> 'k \<Rightarrow> 'v \<Rightarrow> 'v" where
  "dict_or d k v = (case dict_get d k of None \<Rightarrow> v | Some x \<Rightarrow> x)"

section \<open>Errors\<close>

definition already_signed :: "uuid \<Rightarrow> uuid \<Rightarrow> exn" where
  "already_signed petition_id signer_id = Exn AlreadySignedError
     (''FR-6.2/NFR-3.5: Signer '' @ uuid_str signer_id @ '' already co-signed petition '' @ uuid_str petition_id)"

definition co_sign_petition_not_found :: "uuid \<Rightarrow> exn" where
  "co_sign_petition_not_found i = Exn CoSignPetitionNotFoundError (''FR-6.1: Petition not found: '' @ uuid_str i)"

definition co_sign_petition_fated :: "uuid \<Rightarrow> petition_state \<Rightarrow> exn" where
  "co_sign_petition_fated i s = Exn CoSignPetitionFatedError (''FR-6.3: Petition '' @ uuid_str i @ '' already has fate: '' @
     petition_state_value s @ ''. Co-signing is not permitted after fate assignment.'')"

definition identity_not_found :: "uuid \<Rightarrow> exn" where
  "identity_not_found i = Exn IdentityNotFoundError (''Signer identity '' @ uuid_str i @ '' not found in identity store'')"

definition identity_suspended :: "uuid \<Rightarrow> string option \<Rightarrow> exn" where
  "identity_suspended i reason = Exn IdentitySuspendedError (''Signer identity '' @ uuid_str i @ '' is suspended'' @
     (case reason of Some (c # cs) \<Rightarrow> '': '' @ c # cs | _ \<Rightarrow> []))"

definition identity_service_unavailable :: exn where
  "identity_service_unavailable =
     Exn IdentityServiceUnavailableError ''Identity verification service is temporarily unavailable''"

definition rate_limit_exceeded :: "uuid \<Rightarrow> int \<Rightarrow> int \<Rightarrow> datetime \<Rightarrow> exn" where
  "rate_limit_exceeded i current_count limit reset_at = Exn CoSignRateLimitExceededError
     (''FR-6.6: Co-sign rate limit exceeded for signer '' @ uuid_str i @ '': '' @ show_int current_count @ ''/'' @
      show_int limit @ '' co-signs. Resets at '' @ isoformat reset_at @ ''.'')"

section \<open>Repositories\<close>

text \<open>\<open>create\<close> is given the co-sign's fields; it returns the petition's new count.\<close>

record co_sign_repository =
  cp_create :: "co_sign \<Rightarrow> (co_sign_world, int) act"
  cp_get_existing :: "uuid \<Rightarrow> uuid \<Rightarrow> (co_sign_world, (uuid \<times> datetime) option) act"

definition cosign_key :: "co_sign \<Rightarrow> uuid \<times> uuid" where
  "cosign_key c = (cs_petition_id c, cs_signer_id c)"

definition existing_signature :: "(uuid \<times> uuid, co_sign) dict \<Rightarrow> uuid \<Rightarrow> uuid \<Rightarrow> (uuid \<times> datetime) option" where
  "existing_signature d p s = map_option (\<lambda>c. (cs_cosign_id c, cs_signed_at c)) (dict_get d (p, s))"

subsection \<open>In memory\<close>

definition add_valid_petition :: "uuid \<Rightarrow> co_sign_repository_stub \<Rightarrow> co_sign_repository_stub" where
  "add_valid_petition i r = r\<lparr>cr_valid_petitions := List.insert i (cr_valid_petitions r),
     cr_counts := (if dict_get (cr_counts r) i = None then dict_set i 0 (cr_counts r) else cr_counts r)\<rparr>"

definition stub_create :: "co_sign \<Rightarrow> (co_sign_world, int) act" where
  "stub_create c = (\<lambda>w.
     let r = ce_stub (pw_env w) in
     if cs_petition_id c \<notin> set (cr_valid_petitions r) then (Inl (co_sign_petition_not_found (cs_petition_id c)), w)
     else if dict_get (cr_co_signs r) (cosign_key c) \<noteq> None then
       (Inl (already_signed (cs_petition_id c) (cs_signer_id c)), w)
     else
       (let n = dict_or (cr_counts r) (cs_petition_id c) 0 + 1
        in (Inr n, w\<lparr>pw_env := (pw_env w)\<lparr>ce_stub := r\<lparr>cr_co_signs := dict_set (cosign_key c) c (cr_co_signs r),
              cr_counts := dict_set (cs_petition_id c) n (cr_counts r)\<rparr>\<rparr>\<rparr>)))"

definition stub_get_existing :: "uuid \<Rightarrow> uuid \<Rightarrow> (co_sign_world, (uuid \<times> datetime) option) act" where
  "stub_get_existing p s = (\<lambda>w. (Inr (existing_signature (cr_co_signs (ce_stub (pw_env w))) p s), w))"

definition stub_exists :: "uuid \<Rightarrow> uuid \<Rightarrow> (co_sign_world, bool) act" where
  "stub_exists p s = (\<lambda>w. (Inr (dict_get (cr_co_signs (ce_stub (pw_env w))) (p, s) \<noteq> None), w))"

definition stub_get_count :: "uuid \<Rightarrow> (co_sign_world, int) act" where
  "stub_get_count p = (\<lambda>w. (Inr (dict_or (cr_counts (ce_stub (pw_env w))) p 0), w))"

definition signers_of :: "(uuid \<times> uuid, co_sign) dict \<Rightarrow> uuid \<Rightarrow> uuid list" where
  "signers_of d p = map cs_signer_id (sort_key cs_signed_at (filter (\<lambda>c. cs_petition_id c = p) (map snd d)))"

definition stub_get_signers :: "uuid \<Rightarrow> int \<Rightarrow> int \<Rightarrow> (co_sign_world, uuid list) act" where
  "stub_get_signers p limit offset = (\<lambda>w.
     (Inr (py_slice (signers_of (cr_co_signs (ce_stub (pw_env w))) p) offset (offset + limit)), w))"

definition stub_co_signs :: co_sign_repository where
  "stub_co_signs = \<lparr>cp_create = stub_create, cp_get_existing = stub_get_existing\<rparr>"

subsection \<open>In PostgreSQL\<close>

text \<open>
  INSERT and UPDATE in one transaction. The INSERT checks the length of the hash, then the uniqueness of id and of
  petition and signer, then that the petition exists; of these the code tells the second and the third apart by the
  words of the message.
\<close>

definition pg_create :: "co_sign \<Rightarrow> (co_sign_world, int) act" where
  "pg_create c = (\<lambda>w.
     let table = ce_table (pw_env w) in
     if length (cs_content_hash c) \<noteq> 32 then (Inl (Exn DBAPIError ''chk_co_signs_content_hash_length''), w)
     else if cs_cosign_id c \<in> set (map (cs_cosign_id \<circ> snd) table) \<or> dict_get table (cosign_key c) \<noteq> None then
       (Inl (already_signed (cs_petition_id c) (cs_signer_id c)), w)
     else case dict_get (pw_submissions w) (cs_petition_id c) of
       None \<Rightarrow> (Inl (co_sign_petition_not_found (cs_petition_id c)), w)
     | Some row \<Rightarrow>
         (let n = pt_co_signer_count row + 1
          in (Inr n, w\<lparr>pw_env := (pw_env w)\<lparr>ce_table := dict_set (cosign_key c) c table\<rparr>,
                pw_submissions := dict_set (cs_petition_id c) (row\<lparr>pt_co_signer_count := n\<rparr>) (pw_submissions w)\<rparr>)))"

definition pg_get_existing :: "uuid \<Rightarrow> uuid \<Rightarrow> (co_sign_world, (uuid \<times> datetime) option) act" where
  "pg_get_existing p s = (\<lambda>w. (Inr (existing_signature (ce_table (pw_env w)) p s), w))"

definition pg_exists :: "uuid \<Rightarrow> uuid \<Rightarrow> (co_sign_world, bool) act" where
  "pg_exists p s = (\<lambda>w. (Inr (dict_get (ce_table (pw_env w)) (p, s) \<noteq> None), w))"

definition pg_get_count :: "uuid \<Rightarrow> (co_sign_world, int) act" where
  "pg_get_count p = (\<lambda>w. (Inr (case dict_get (pw_submissions w) p of None \<Rightarrow> 0 | Some row \<Rightarrow> pt_co_signer_count row), w))"

definition pg_get_signers :: "uuid \<Rightarrow> nat \<Rightarrow> nat \<Rightarrow> (co_sign_world, uuid list) act" where
  "pg_get_signers p limit offset = (\<lambda>w. (Inr (take limit (drop offset (signers_of (ce_table (pw_env w)) p))), w))"

definition count_by_signer_since :: "uuid \<Rightarrow> datetime \<Rightarrow> (co_sign_world, nat) act" where
  "count_by_signer_since s since = (\<lambda>w.
     (Inr (length (filter (\<lambda>c. cs_signer_id c = s \<and> since \<le> cs_signed_at c) (map snd (ce_table (pw_env w))))), w))"

definition pg_co_signs :: co_sign_repository where
  "pg_co_signs = \<lparr>cp_create = pg_create, cp_get_existing = pg_get_existing\<rparr>"

text \<open>The two SELECTs of a verification.\<close>

record count_verification =
  cv_petition_id :: uuid
  cv_counter_value :: int
  cv_actual_count :: int
  cv_is_consistent :: bool
  cv_discrepancy :: int

definition verify_count :: "uuid \<Rightarrow> (co_sign_world, count_verification) act" where
  "verify_count p = (\<lambda>w.
     let counter = (case dict_get (pw_submissions w) p of None \<Rightarrow> 0 | Some row \<Rightarrow> pt_co_signer_count row);
         actual = int (length (filter (\<lambda>c. cs_petition_id c = p) (map snd (ce_table (pw_env w)))))
     in (Inr \<lparr>cv_petition_id = p, cv_counter_value = counter, cv_actual_count = actual,
           cv_is_consistent = (counter = actual), cv_discrepancy = counter - actual\<rparr>, w))"

fun verify_batch :: "uuid list \<Rightarrow> (co_sign_world, count_verification list) act" where
  "verify_batch [] = act_return []"
| "verify_batch (p # ps) = act_bind (verify_count p) (\<lambda>r. act_bind (verify_batch ps) (\<lambda>rs. act_return (r # rs)))"

section \<open>Signers\<close>

datatype identity_status = VALID | NOT_FOUND | SUSPENDED | SERVICE_UNAVAILABLE

record identity_verification =
  iv_identity_id :: uuid
  iv_status :: identity_status
  iv_verified_at :: datetime
  iv_suspension_reason :: "string option"

text \<open>The \<open>details\<close> of a verification are for people only and left out.\<close>

definition identity_verify :: "uuid \<Rightarrow> (co_sign_world, identity_verification) act" where
  "identity_verify i =
     act_bind clock_now (\<lambda>now w.
       let st = ce_identities (pw_env w);
           (status, reason) =
             (if \<not> is_available st then (SERVICE_UNAVAILABLE, None)
              else case dict_get (is_suspended_identities st) i of
                Some reason \<Rightarrow> (SUSPENDED, reason)
              | None \<Rightarrow> if i \<in> set (is_valid_identities st) then (VALID, None) else (NOT_FOUND, None))
       in (Inr \<lparr>iv_identity_id = i, iv_status = status, iv_verified_at = now, iv_suspension_reason = reason\<rparr>, w))"

record rate_limit_result =
  rt_allowed :: bool
  rt_remaining :: int
  rt_reset_at :: datetime
  rt_current_count :: int
  rt_limit :: int

definition window :: "rate_limiter_stub \<Rightarrow> timedelta" where
  "window l = rl_window_minutes l * 60 * microseconds_per_second"

definition check_rate_limit :: "uuid \<Rightarrow> (co_sign_world, rate_limit_result) act" where
  "check_rate_limit i = (\<lambda>w.
     let l = ce_limiter (pw_env w); current_count = dict_or (rl_counts l) i 0 in
     act_bind (case dict_get (rl_reset_at l) i of
         Some t \<Rightarrow> act_return t
       | None \<Rightarrow> act_bind clock_now (\<lambda>now. act_return (now + window l))) (\<lambda>reset_at.
       act_return \<lparr>rt_allowed = (current_count < rl_limit l), rt_remaining = max 0 (rl_limit l - current_count),
         rt_reset_at = reset_at, rt_current_count = current_count, rt_limit = rl_limit l\<rparr>) w)"

definition set_limiter :: "rate_limiter_stub \<Rightarrow> (co_sign_world, unit) act" where
  "set_limiter l = (\<lambda>w. (Inr (), w\<lparr>pw_env := (pw_env w)\<lparr>ce_limiter := l\<rparr>\<rparr>))"

definition record_co_sign :: "uuid \<Rightarrow> (co_sign_world, unit) act" where
  "record_co_sign i = (\<lambda>w.
     let l = ce_limiter (pw_env w); l' = l\<lparr>rl_counts := dict_set i (dict_or (rl_counts l) i 0 + 1) (rl_counts l)\<rparr> in
     act_bind (set_limiter l') (\<lambda>_.
       if dict_get (rl_reset_at l) i = None then
         act_bind clock_now (\<lambda>now. set_limiter (l'\<lparr>rl_reset_at := dict_set i (now + window l) (rl_reset_at l)\<rparr>))
       else act_return ()) w)"

section \<open>Escalation\<close>

record escalation_thresholds =
  th_cessation :: int
  th_grievance :: int

text \<open>\<open>env\<close>: the environment variables, parsed, with their defaults.\<close>

definition or_zero :: "int option \<Rightarrow> int \<Rightarrow> int" where
  "or_zero v d = (case v of None \<Rightarrow> d | Some n \<Rightarrow> if n = 0 then d else n)"

definition mk_escalation_thresholds :: "int option \<Rightarrow> int option \<Rightarrow> int option \<Rightarrow> int option \<Rightarrow> escalation_thresholds" where
  "mk_escalation_thresholds cessation grievance env_cessation env_grievance =
     \<lparr>th_cessation = or_zero cessation (case env_cessation of None \<Rightarrow> 100 | Some n \<Rightarrow> n),
      th_grievance = or_zero grievance (case env_grievance of None \<Rightarrow> 50 | Some n \<Rightarrow> n)\<rparr>"

definition get_threshold_for_type :: "escalation_thresholds \<Rightarrow> petition_type \<Rightarrow> int option" where
  "get_threshold_for_type th ty = (case ty of CESSATION \<Rightarrow> Some (th_cessation th) | GRIEVANCE \<Rightarrow> Some (th_grievance th) | _ \<Rightarrow> None)"

definition check_threshold :: "escalation_thresholds \<Rightarrow> petition_type \<Rightarrow> int \<Rightarrow> bool \<times> int option" where
  "check_threshold th ty count =
     (let threshold = get_threshold_for_type th ty
      in (case threshold of None \<Rightarrow> False | Some n \<Rightarrow> n \<le> count, threshold))"

record auto_escalation_result =
  ar_escalation_id :: "uuid option"
  ar_petition_id :: uuid
  ar_triggered :: bool
  ar_event_id :: "uuid option"
  ar_timestamp :: datetime
  ar_already_escalated :: bool
  ar_trigger_type :: string
  ar_co_signer_count :: int
  ar_threshold :: int

definition co_sign_halted :: "(co_sign_world, bool) act" where
  "co_sign_halted = (\<lambda>w. (Inr (ce_halted (pw_env w)), w))"

text \<open>
  The service builds the events of the cancelled deliberation and of the escalation, and drops them; of the first the
  model keeps the two ids it draws.
\<close>

definition auto_escalate ::
  "co_sign_world petition_repository \<Rightarrow> uuid \<Rightarrow> string \<Rightarrow> int \<Rightarrow> int \<Rightarrow> (co_sign_world, auto_escalation_result) act" where
  "auto_escalate rp petition_id trigger_type count threshold =
     act_bind co_sign_halted (\<lambda>halted.
     if halted then act_raise (Exn SystemHaltedError ''Auto-escalation operations are not permitted during system halt'')
     else
       act_bind (rp_get rp petition_id) (\<lambda>found. case found of
         None \<Rightarrow> act_raise (co_sign_petition_not_found petition_id)
       | Some p \<Rightarrow>
           let result = (\<lambda>i triggered e t already. \<lparr>ar_escalation_id = i, ar_petition_id = petition_id,
                 ar_triggered = triggered, ar_event_id = e, ar_timestamp = t, ar_already_escalated = already,
                 ar_trigger_type = trigger_type, ar_co_signer_count = count, ar_threshold = threshold\<rparr>)
           in if pt_state p = ESCALATED then act_bind clock_now (\<lambda>t. act_return (result None False None t True))
           else if pt_state p \<noteq> RECEIVED \<and> pt_state p \<noteq> DELIBERATING then
             act_bind clock_now (\<lambda>t. act_return (result None False None t False))
           else
             act_bind new_uuid (\<lambda>escalation_id.
             act_bind new_uuid (\<lambda>event_id.
             act_bind clock_now (\<lambda>triggered_at.
             act_bind (if pt_state p = DELIBERATING then act_bind new_uuid (\<lambda>_. act_bind new_uuid (\<lambda>_. act_return ()))
               else act_return ()) (\<lambda>_.
             act_bind (rp_assign_fate_cas rp petition_id (pt_state p) ESCALATED None (Some ''CO_SIGNER_THRESHOLD'')
               (Some (pt_realm p))) (\<lambda>_.
             act_return (result (Some escalation_id) True (Some event_id) triggered_at False))))))))"

definition check_already_escalated :: "co_sign_world petition_repository \<Rightarrow> uuid \<Rightarrow> (co_sign_world, bool) act" where
  "check_already_escalated rp petition_id = act_bind (rp_get rp petition_id) (\<lambda>found. case found of
       None \<Rightarrow> act_raise (co_sign_petition_not_found petition_id)
     | Some p \<Rightarrow> act_return (pt_state p = ESCALATED))"

section \<open>The service\<close>

record co_sign_service =
  sv_co_signs :: co_sign_repository
  sv_petitions :: "co_sign_world petition_repository"
  sv_blake3 :: "bytes \<Rightarrow> bytes"
  sv_identity :: bool
  sv_rate_limit :: bool
  sv_thresholds :: "escalation_thresholds option"
  sv_auto_escalate :: "(uuid \<Rightarrow> string \<Rightarrow> int \<Rightarrow> int \<Rightarrow> (co_sign_world, auto_escalation_result) act) option"

record co_sign_result =
  re_co_sign :: co_sign
  re_co_signer_count :: int
  re_rate_limit_remaining :: "int option"
  re_rate_limit_reset_at :: "datetime option"
  re_threshold_reached :: bool
  re_threshold_value :: "int option"
  re_petition_type :: petition_type
  re_escalation_triggered :: bool
  re_escalation_id :: "uuid option"

text \<open>Whether the signer's identity was verified.\<close>

definition verified_signer :: "co_sign_service \<Rightarrow> uuid \<Rightarrow> (co_sign_world, bool) act" where
  "verified_signer sv signer_id =
     (if \<not> sv_identity sv then act_return False
      else act_bind (identity_verify signer_id) (\<lambda>v. case iv_status v of
          NOT_FOUND \<Rightarrow> act_raise (identity_not_found signer_id)
        | SUSPENDED \<Rightarrow> act_raise (identity_suspended signer_id (iv_suspension_reason v))
        | SERVICE_UNAVAILABLE \<Rightarrow> act_raise identity_service_unavailable
        | VALID \<Rightarrow> act_return True))"

text \<open>What is left of the rate limit, and until when. The clock read before an error is only for its \<open>Retry-After\<close>.\<close>

definition within_rate_limit :: "co_sign_service \<Rightarrow> uuid \<Rightarrow> (co_sign_world, (int \<times> datetime) option) act" where
  "within_rate_limit sv signer_id =
     (if \<not> sv_rate_limit sv then act_return None
      else act_bind (check_rate_limit signer_id) (\<lambda>r.
        if rt_allowed r then act_return (Some (rt_remaining r, rt_reset_at r))
        else act_bind clock_now (\<lambda>_.
          act_raise (rate_limit_exceeded signer_id (rt_current_count r) (rt_limit r) (rt_reset_at r)))))"

definition co_signable :: "co_sign_service \<Rightarrow> uuid \<Rightarrow> uuid \<Rightarrow> (co_sign_world, petition_submission) act" where
  "co_signable sv petition_id signer_id =
     act_bind (rp_get (sv_petitions sv) petition_id) (\<lambda>found. case found of
       None \<Rightarrow> act_raise (co_sign_petition_not_found petition_id)
     | Some p \<Rightarrow>
         if petition_is_terminal (pt_state p) then act_raise (co_sign_petition_fated petition_id (pt_state p))
         else act_bind (cp_get_existing (sv_co_signs sv) petition_id signer_id) (\<lambda>existing.
           if existing \<noteq> None then act_raise (already_signed petition_id signer_id) else act_return p))"

text \<open>An exception of the executor is logged and forgotten.\<close>

definition escalate_if_reached ::
  "co_sign_service \<Rightarrow> uuid \<Rightarrow> int \<Rightarrow> bool \<times> int option \<Rightarrow> (co_sign_world, bool \<times> uuid option) act" where
  "escalate_if_reached sv petition_id count reached = (case (reached, sv_auto_escalate sv) of
       ((True, threshold), Some execute) \<Rightarrow>
         act_try (act_bind (execute petition_id ''CO_SIGNER_THRESHOLD'' count (case threshold of None \<Rightarrow> 0 | Some n \<Rightarrow> n))
             (\<lambda>r. act_return (ar_triggered r, ar_escalation_id r)))
           (\<lambda>_. act_return (False, None))
     | _ \<Rightarrow> act_return (False, None))"

definition co_sign_checks ::
  "co_sign_service \<Rightarrow> uuid \<Rightarrow> uuid \<Rightarrow> (co_sign_world, bool \<times> (int \<times> datetime) option \<times> petition_submission) act" where
  "co_sign_checks sv petition_id signer_id =
     act_bind co_sign_halted (\<lambda>halted.
     if halted then act_raise (Exn SystemHaltedError ''Co-sign operations are not permitted during system halt'')
     else
       act_bind (verified_signer sv signer_id) (\<lambda>identity_verified.
       act_bind (within_rate_limit sv signer_id) (\<lambda>rate.
       act_bind (co_signable sv petition_id signer_id) (\<lambda>petition.
       act_return (identity_verified, rate, petition)))))"

definition new_co_sign :: "co_sign_service \<Rightarrow> uuid \<Rightarrow> uuid \<Rightarrow> bool \<Rightarrow> (co_sign_world, co_sign) act" where
  "new_co_sign sv petition_id signer_id identity_verified =
     act_bind new_uuid (\<lambda>cosign_id.
     act_bind clock_now (\<lambda>signed_at.
     act_return \<lparr>cs_cosign_id = cosign_id, cs_petition_id = petition_id, cs_signer_id = signer_id, cs_signed_at = signed_at,
       cs_content_hash = compute_content_hash (sv_blake3 sv) petition_id signer_id signed_at,
       cs_identity_verified = identity_verified, cs_witness_event_id = None\<rparr>))"

definition after_co_sign ::
  "co_sign_service \<Rightarrow> co_sign \<Rightarrow> (int \<times> datetime) option \<Rightarrow> petition_submission \<Rightarrow> int \<Rightarrow> (co_sign_world, co_sign_result) act" where
  "after_co_sign sv c rate petition new_count =
     act_bind (act_when (sv_rate_limit sv) (record_co_sign (cs_signer_id c))) (\<lambda>_.
     let reached = (case sv_thresholds sv of None \<Rightarrow> (False, None) | Some th \<Rightarrow> check_threshold th (pt_type petition) new_count)
     in act_bind (escalate_if_reached sv (cs_petition_id c) new_count reached) (\<lambda>(triggered, escalation_id).
     act_return \<lparr>re_co_sign = c, re_co_signer_count = new_count,
       re_rate_limit_remaining = map_option (\<lambda>(n, _). n - 1) rate, re_rate_limit_reset_at = map_option snd rate,
       re_threshold_reached = fst reached, re_threshold_value = snd reached, re_petition_type = pt_type petition,
       re_escalation_triggered = triggered, re_escalation_id = escalation_id\<rparr>))"

definition submit_co_sign :: "co_sign_service \<Rightarrow> uuid \<Rightarrow> uuid \<Rightarrow> (co_sign_world, co_sign_result) act" where
  "submit_co_sign sv petition_id signer_id =
     act_bind (co_sign_checks sv petition_id signer_id) (\<lambda>(identity_verified, rate, petition).
     act_bind (new_co_sign sv petition_id signer_id identity_verified) (\<lambda>c.
     act_bind (cp_create (sv_co_signs sv) c) (\<lambda>new_count.
     after_co_sign sv c rate petition new_count)))"

section \<open>One signature per signer\<close>

text \<open>Requests to co-sign, and those that were accepted, with the count each was told.\<close>

fun run_co_signs :: "co_sign_service \<Rightarrow> (uuid \<times> uuid) list \<Rightarrow> co_sign_world \<Rightarrow> ((uuid \<times> uuid) \<times> int) list \<times> co_sign_world" where
  "run_co_signs sv [] w = ([], w)"
| "run_co_signs sv ((p, s) # rqs) w =
     (let (r, w') = submit_co_sign sv p s w; (accepted, w'') = run_co_signs sv rqs w'
      in ((case r of Inl _ \<Rightarrow> accepted | Inr re \<Rightarrow> ((p, s), re_co_signer_count re) # accepted), w''))"

definition limit_used :: "co_sign_world \<Rightarrow> uuid \<Rightarrow> int" where
  "limit_used w s = dict_or (rl_counts (ce_limiter (pw_env w))) s 0"

definition limit_of :: "co_sign_world \<Rightarrow> int" where
  "limit_of w = rl_limit (ce_limiter (pw_env w))"

lemma record_co_sign_run:
  "\<exists>u. record_co_sign i w = (Inr (), u) \<and> pw_submissions u = pw_submissions w \<and> ce_stub (pw_env u) = ce_stub (pw_env w) \<and>
     ce_table (pw_env u) = ce_table (pw_env w) \<and> ce_halted (pw_env u) = ce_halted (pw_env w) \<and>
     limit_of u = limit_of w \<and> limit_used u = (limit_used w)(i := limit_used w i + 1)"
  by (cases "dict_get (rl_reset_at (ce_limiter (pw_env w))) i")
    (auto simp: record_co_sign_def set_limiter_def clock_now_def act_bind_def Let_def limit_of_def limit_used_def dict_or_def
      dict_get_set fun_eq_iff)

text \<open>Everything is as it was but the clock and the ids drawn.\<close>

definition ticks :: "'x petition_world \<Rightarrow> 'x petition_world \<Rightarrow> bool" where
  "ticks w w' \<longleftrightarrow> pw_submissions w' = pw_submissions w \<and> pw_env w' = pw_env w"

lemma ticks_frame: "frame_relation ticks"
  by unfold_locales (auto simp: ticks_def)

lemmas ticks_intros = frame_relation.framed_return [OF ticks_frame] frame_relation.framed_raise [OF ticks_frame]
  frame_relation.framed_bind [OF ticks_frame]

lemma ticks_reads:
  assumes "\<And>s r t. m s = (r, t) \<Longrightarrow> t = s"
  shows "framed ticks m"
  unfolding framed_def ticks_def by (auto dest!: assms)

lemma ticks_steps: "framed ticks clock_now" "framed ticks new_uuid" "framed ticks co_sign_halted"
  by (auto intro!: framedI simp: ticks_def clock_now_def new_uuid_def co_sign_halted_def)

lemma ticks_signer: "framed ticks (verified_signer sv s)" "framed ticks (within_rate_limit sv s)"
proof -
  have "framed ticks (identity_verify s)"
    by (auto intro!: framedI simp: ticks_def identity_verify_def act_bind_def clock_now_def Let_def split: prod.splits)
  then show "framed ticks (verified_signer sv s)"
    by (auto simp: verified_signer_def intro!: ticks_intros split: identity_status.splits)
  have "framed ticks (check_rate_limit s)"
    by (auto intro!: framedI simp: ticks_def check_rate_limit_def act_bind_def clock_now_def Let_def split: option.splits)
  then show "framed ticks (within_rate_limit sv s)"
    by (auto simp: within_rate_limit_def intro!: ticks_intros ticks_steps)
qed

lemma ticks_new: "framed ticks (new_co_sign sv p s v)"
  by (auto simp: new_co_sign_def intro!: ticks_intros ticks_steps)

text \<open>What a store of co-signs and the repository of petitions beside it promise.\<close>

locale co_sign_store =
  fixes cp :: co_sign_repository and rp :: "co_sign_world petition_repository"
    and signatures :: "co_sign_world \<Rightarrow> (uuid \<times> uuid) list" and counted :: "co_sign_world \<Rightarrow> uuid \<Rightarrow> int"
  assumes ambient: "pw_submissions w' = pw_submissions w \<Longrightarrow> ce_stub (pw_env w') = ce_stub (pw_env w) \<Longrightarrow>
      ce_table (pw_env w') = ce_table (pw_env w) \<Longrightarrow> signatures w' = signatures w \<and> counted w' = counted w"
    and created: "cp_create cp c w = (Inr n, w') \<Longrightarrow>
      cosign_key c \<notin> set (signatures w) \<and> signatures w' = signatures w @ [cosign_key c] \<and>
      n = counted w (cs_petition_id c) + 1 \<and> counted w' = (counted w)(cs_petition_id c := n) \<and>
      ce_limiter (pw_env w') = ce_limiter (pw_env w)"
    and not_created: "cp_create cp c w = (Inl err, w') \<Longrightarrow> w' = w"
    and existing_reads: "cp_get_existing cp p s w = (r, w') \<Longrightarrow> w' = w"
    and get_reads: "rp_get rp i w = (g, w') \<Longrightarrow> w' = w"
    and assign_keeps: "rp_assign_fate_cas rp i e t reason src realm w = (a, w') \<Longrightarrow>
      signatures w' = signatures w \<and> counted w' = counted w \<and> ce_limiter (pw_env w') = ce_limiter (pw_env w)"
begin

definition quiet :: "co_sign_world \<Rightarrow> co_sign_world \<Rightarrow> bool" where
  "quiet w w' \<longleftrightarrow> signatures w' = signatures w \<and> counted w' = counted w \<and> ce_limiter (pw_env w') = ce_limiter (pw_env w)"

lemma quiet_frame: "frame_relation quiet"
  by unfold_locales (auto simp: quiet_def)

lemmas quiet_intros = frame_relation.framed_return [OF quiet_frame] frame_relation.framed_raise [OF quiet_frame]
  frame_relation.framed_bind [OF quiet_frame] frame_relation.framed_try [OF quiet_frame]

lemma quietI: "pw_submissions w' = pw_submissions w \<Longrightarrow> ce_stub (pw_env w') = ce_stub (pw_env w) \<Longrightarrow>
    ce_table (pw_env w') = ce_table (pw_env w) \<Longrightarrow> ce_limiter (pw_env w') = ce_limiter (pw_env w) \<Longrightarrow> quiet w w'"
  unfolding quiet_def by (intro conjI conjunct1 [OF ambient] conjunct2 [OF ambient])

lemma quiet_ticks: "ticks w w' \<Longrightarrow> quiet w w'"
  by (rule quietI) (simp_all add: ticks_def)

lemma quiet_tick: "framed quiet clock_now" "framed quiet new_uuid" "framed quiet co_sign_halted"
  by (rule framedI, rule quiet_ticks, erule framedD [OF ticks_steps(1)])
    (rule framedI, rule quiet_ticks, erule framedD [OF ticks_steps(2)],
     rule framedI, rule quiet_ticks, erule framedD [OF ticks_steps(3)])

lemma quiet_ports: "framed quiet (rp_get rp i)" "framed quiet (rp_assign_fate_cas rp i e t reason src realm)"
  by (auto intro!: framedI simp: quiet_def dest: get_reads assign_keeps)

lemma ticks_checks:
  assumes "sv_co_signs sv = cp" "sv_petitions sv = rp"
  shows "framed ticks (co_sign_checks sv p s)"
proof -
  have "framed ticks (rp_get rp i)" for i using get_reads by (rule ticks_reads)
  moreover have "framed ticks (cp_get_existing cp p s)" using existing_reads by (rule ticks_reads)
  ultimately have "framed ticks (co_signable sv p s)"
    by (auto simp: co_signable_def assms intro!: ticks_intros split: option.splits)
  then show ?thesis by (auto simp: co_sign_checks_def intro!: ticks_intros ticks_steps ticks_signer)
qed

lemma quiet_escalate:
  assumes "sv_auto_escalate sv \<in> {None, Some (auto_escalate rp)}"
  shows "framed quiet (escalate_if_reached sv p n reached)"
proof -
  have "framed quiet (auto_escalate rp i ty c th)" for i ty c th
    by (auto simp: auto_escalate_def Let_def intro!: quiet_intros quiet_tick quiet_ports split: option.splits)
  then show ?thesis using assms
    by (auto simp: escalate_if_reached_def intro!: quiet_intros split: option.splits prod.splits bool.splits)
qed

text \<open>Within the rate limit means below it.\<close>

lemma checks_below_limit:
  assumes "co_sign_checks sv p s w = (Inr x, w')" and "sv_rate_limit sv"
  shows "limit_used w s < limit_of w"
proof -
  obtain halted w1 where 1: "co_sign_halted w = (Inr halted, w1)" "\<not> halted"
    "act_bind (verified_signer sv s) (\<lambda>v. act_bind (within_rate_limit sv s) (\<lambda>rate.
       act_bind (co_signable sv p s) (\<lambda>petition. act_return (v, rate, petition)))) w1 = (Inr x, w')"
    using assms(1) by (auto simp: co_sign_checks_def co_sign_halted_def act_bind_def split: if_splits)
  then have w1: "w1 = w" by (simp add: co_sign_halted_def)
  obtain v w2 where 2: "verified_signer sv s w = (Inr v, w2)"
    "act_bind (within_rate_limit sv s) (\<lambda>rate. act_bind (co_signable sv p s) (\<lambda>petition. act_return (v, rate, petition))) w2 =
       (Inr x, w')"
    using 1(3) unfolding w1 by (rule act_bind_InrE)
  have "ce_limiter (pw_env w2) = ce_limiter (pw_env w)"
    using 2(1) by (auto simp: verified_signer_def identity_verify_def clock_now_def act_bind_def Let_def
        split: if_splits prod.splits identity_status.splits)
  moreover obtain rate w3 where 3: "within_rate_limit sv s w2 = (Inr rate, w3)"
    using 2(2) by (rule act_bind_InrE)
  then have "limit_used w2 s < limit_of w2"
    using assms(2) by (auto simp: within_rate_limit_def check_rate_limit_def clock_now_def act_bind_def Let_def
        limit_used_def limit_of_def split: if_splits prod.splits sum.splits option.splits)
  ultimately show ?thesis by (simp add: limit_used_def limit_of_def)
qed

definition wired :: "co_sign_service \<Rightarrow> bool" where
  "wired sv \<longleftrightarrow> sv_co_signs sv = cp \<and> sv_petitions sv = rp \<and> sv_auto_escalate sv \<in> {None, Some (auto_escalate rp)}"

lemma escalate_returns: "\<exists>x u. escalate_if_reached sv p n reached w = (Inr x, u)"
  by (auto simp: escalate_if_reached_def act_try_def split: option.splits bool.splits prod.splits sum.splits)

lemma after_returns:
  assumes "wired sv"
  shows "\<exists>re w'. after_co_sign sv c rate petition n w = (Inr re, w') \<and> re_co_signer_count re = n \<and>
    signatures w' = signatures w \<and> counted w' = counted w \<and>
    (sv_rate_limit sv \<longrightarrow> limit_of w' = limit_of w \<and>
       limit_used w' = (limit_used w)(cs_signer_id c := limit_used w (cs_signer_id c) + 1))"
proof -
  let ?noted = "act_when (sv_rate_limit sv) (record_co_sign (cs_signer_id c))"
  obtain u where u: "?noted w = (Inr (), u)" and
    kept: "pw_submissions u = pw_submissions w" "ce_stub (pw_env u) = ce_stub (pw_env w)" "ce_table (pw_env u) = ce_table (pw_env w)"
    and used: "sv_rate_limit sv \<longrightarrow> limit_of u = limit_of w \<and>
      limit_used u = (limit_used w)(cs_signer_id c := limit_used w (cs_signer_id c) + 1)"
    using record_co_sign_run [of "cs_signer_id c" w] by (cases "sv_rate_limit sv") (auto simp: act_when_def)
  define reached where "reached = (case sv_thresholds sv of None \<Rightarrow> (False, None) | Some th \<Rightarrow> check_threshold th (pt_type petition) n)"
  obtain triggered i w' where e: "escalate_if_reached sv (cs_petition_id c) n reached u = (Inr (triggered, i), w')"
    using escalate_returns by fastforce
  have "sv_auto_escalate sv \<in> {None, Some (auto_escalate rp)}" using assms by (simp add: wired_def)
  from framedD [OF quiet_escalate [OF this] e] have q: "quiet u w'" .
  have k: "signatures u = signatures w" "counted u = counted w" using ambient [OF kept] by simp_all
  have "after_co_sign sv c rate petition n w = (Inr \<lparr>re_co_sign = c, re_co_signer_count = n,
       re_rate_limit_remaining = map_option (\<lambda>(n, _). n - 1) rate, re_rate_limit_reset_at = map_option snd rate,
       re_threshold_reached = fst reached, re_threshold_value = snd reached, re_petition_type = pt_type petition,
       re_escalation_triggered = triggered, re_escalation_id = i\<rparr>, w')"
    unfolding after_co_sign_def Let_def reached_def [symmetric] by (simp add: u e act_bind_def)
  then show ?thesis using q used k by (simp add: quiet_def limit_of_def limit_used_def fun_eq_iff)
qed

lemma step:
  assumes "wired sv" and run: "submit_co_sign sv p s w = (r, w')"
  shows "case r of
      Inl _ \<Rightarrow> signatures w' = signatures w \<and> counted w' = counted w \<and> ce_limiter (pw_env w') = ce_limiter (pw_env w)
    | Inr re \<Rightarrow> (p, s) \<notin> set (signatures w) \<and> signatures w' = signatures w @ [(p, s)] \<and>
        re_co_signer_count re = counted w p + 1 \<and> counted w' = (counted w)(p := counted w p + 1) \<and>
        (sv_rate_limit sv \<longrightarrow> limit_used w s < limit_of w \<and> limit_of w' = limit_of w \<and>
           limit_used w' = (limit_used w)(s := limit_used w s + 1))"
proof -
  have sv: "sv_co_signs sv = cp" "sv_petitions sv = rp" using assms(1) by (simp_all add: wired_def)
  from run show ?thesis unfolding submit_co_sign_def sv
  proof (cases rule: act_bind_cases)
    case (raised e)
    then show ?thesis using quiet_ticks [OF framedD [OF ticks_checks [OF sv] raised(1)]] by (simp add: quiet_def)
  next
    case (returned x u)
    obtain v rate petition where x: "x = (v, rate, petition)" by (cases x)
    have q: "quiet w u" using quiet_ticks [OF framedD [OF ticks_checks [OF sv] returned(1)]] .
    obtain c u2 where c: "new_co_sign sv p s v u = (Inr c, u2)" "cs_petition_id c = p" "cs_signer_id c = s"
      by (auto simp: new_co_sign_def new_uuid_def clock_now_def act_bind_def)
    have q2: "quiet u u2" using quiet_ticks [OF framedD [OF ticks_new c(1)]] .
    have rest: "act_bind (cp_create cp c) (after_co_sign sv c rate petition) u2 = (r, w')"
      using returned(2) by (simp add: x c(1))
    from rest show ?thesis
    proof (cases rule: act_bind_cases)
      case (raised e)
      then show ?thesis using not_created [OF raised(1)] q q2 by (simp add: quiet_def)
    next
      case (returned n u3)
      note new = created [OF returned(1), unfolded cosign_key_def c(2,3)]
      obtain re where "r = Inr re" "re_co_signer_count re = n" "signatures w' = signatures u3" "counted w' = counted u3"
        "sv_rate_limit sv \<longrightarrow> limit_of w' = limit_of u3 \<and> limit_used w' = (limit_used u3)(s := limit_used u3 s + 1)"
        using after_returns [OF assms(1), of c rate petition n u3] returned(2) c(3) by auto
      moreover have "limit_used u3 = limit_used w" "limit_of u3 = limit_of w"
        using q q2 new by (simp_all add: quiet_def limit_used_def limit_of_def fun_eq_iff)
      moreover have "sv_rate_limit sv \<longrightarrow> limit_used w s < limit_of w"
        using checks_below_limit [OF \<open>co_sign_checks sv p s w = (Inr x, u)\<close>] by blast
      ultimately show ?thesis using new q q2 by (simp add: quiet_def)
    qed
  qed
qed

definition counts_ok :: "co_sign_world \<Rightarrow> bool" where
  "counts_ok w \<longleftrightarrow> distinct (signatures w) \<and> (\<forall>p. counted w p = int (length (filter (\<lambda>k. fst k = p) (signatures w))))"

lemma runs:
  assumes "wired sv" and "run_co_signs sv rqs w = (accepted, w')" and "counts_ok w"
  shows "signatures w' = signatures w @ map fst accepted \<and> counts_ok w' \<and>
    (\<forall>i < length accepted. snd (accepted ! i) = int (length (filter (\<lambda>k. fst k = fst (fst (accepted ! i)))
       (signatures w @ take (Suc i) (map fst accepted))))) \<and>
    (sv_rate_limit sv \<longrightarrow> (\<forall>s. int (length (filter (\<lambda>k. snd k = s) (map fst accepted))) \<le> max 0 (limit_of w - limit_used w s)))"
  using assms(2,3)
proof (induction rqs arbitrary: w accepted)
  case (Cons rq rqs)
  obtain p s where rq: "rq = (p, s)" by fastforce
  obtain r u where one: "submit_co_sign sv p s w = (r, u)" by fastforce
  obtain rest v where more: "run_co_signs sv rqs u = (rest, v)" by fastforce
  have v: "v = w'" using Cons.prems(1) by (simp add: rq one more)
  note st = step [OF assms(1) one]
  note ih = Cons.IH [OF more [unfolded v]]
  show ?case
  proof (cases r)
    case (Inl e)
    have "counts_ok u" using st Cons.prems(2) by (simp add: Inl counts_ok_def)
    moreover have "accepted = rest" using Cons.prems(1) by (simp add: rq one more Inl)
    moreover have "limit_of u = limit_of w" "limit_used u = limit_used w"
      using st by (simp_all add: Inl limit_of_def limit_used_def fun_eq_iff)
    ultimately show ?thesis using ih st by (simp add: Inl)
  next
    case (Inr re)
    have acc: "accepted = ((p, s), re_co_signer_count re) # rest" using Cons.prems(1) by (simp add: rq one more Inr)
    have sigs: "signatures u = signatures w @ [(p, s)]" using st by (simp add: Inr)
    have ok: "counts_ok u" using st Cons.prems(2) by (simp add: Inr counts_ok_def)
    note later = ih [OF ok]
    have told: "snd (accepted ! i) = int (length (filter (\<lambda>k. fst k = fst (fst (accepted ! i)))
       (signatures w @ take (Suc i) (map fst accepted))))" if "i < length accepted" for i
    proof (cases i)
      case 0
      then show ?thesis using st Cons.prems(2) by (simp add: acc Inr counts_ok_def)
    next
      case (Suc j)
      then show ?thesis using later that by (simp add: acc sigs)
    qed
    have limit: "int (length (filter (\<lambda>k. snd k = t) (map fst accepted))) \<le> max 0 (limit_of w - limit_used w t)"
      if "sv_rate_limit sv" for t
    proof -
      have "int (length (filter (\<lambda>k. snd k = t) (map fst rest))) \<le> max 0 (limit_of u - limit_used u t)"
        using later that by blast
      then show ?thesis using st that by (auto simp: acc Inr)
    qed
    show ?thesis using later told limit by (auto simp: acc sigs)
  qed
qed simp

end

definition stub_signatures :: "co_sign_world \<Rightarrow> (uuid \<times> uuid) list" where
  "stub_signatures w = map fst (cr_co_signs (ce_stub (pw_env w)))"

definition stub_counted :: "co_sign_world \<Rightarrow> uuid \<Rightarrow> int" where
  "stub_counted w p = dict_or (cr_counts (ce_stub (pw_env w))) p 0"

definition pg_signatures :: "co_sign_world \<Rightarrow> (uuid \<times> uuid) list" where
  "pg_signatures w = map fst (ce_table (pw_env w))"

definition pg_counted :: "co_sign_world \<Rightarrow> uuid \<Rightarrow> int" where
  "pg_counted w p = (case dict_get (pw_submissions w) p of None \<Rightarrow> 0 | Some row \<Rightarrow> pt_co_signer_count row)"

lemma new_key: "dict_get d k = None \<Longrightarrow> k \<notin> set (map fst d) \<and> map fst (dict_set k v d) = map fst d @ [k]"
  by (simp add: dict_get_None_iff keys_dict_set)

interpretation stub_co_sign: co_sign_store stub_co_signs stub_repository stub_signatures stub_counted
proof
  fix w w' :: co_sign_world
  show "stub_signatures w' = stub_signatures w \<and> stub_counted w' = stub_counted w"
    if "ce_stub (pw_env w') = ce_stub (pw_env w)"
    using that by (simp add: stub_signatures_def stub_counted_def fun_eq_iff)
  show "cosign_key c \<notin> set (stub_signatures w) \<and> stub_signatures w' = stub_signatures w @ [cosign_key c] \<and>
      n = stub_counted w (cs_petition_id c) + 1 \<and> stub_counted w' = (stub_counted w)(cs_petition_id c := n) \<and>
      ce_limiter (pw_env w') = ce_limiter (pw_env w)" if "cp_create stub_co_signs c w = (Inr n, w')" for c n
    using that new_key [of "cr_co_signs (ce_stub (pw_env w))" "cosign_key c" c]
    by (auto simp: stub_co_signs_def stub_create_def stub_signatures_def stub_counted_def dict_or_def dict_get_set fun_eq_iff
        Let_def split: if_splits)
  show "w' = w" if "cp_create stub_co_signs c w = (Inl err, w')" for c err
    using that by (auto simp: stub_co_signs_def stub_create_def Let_def split: if_splits)
  show "w' = w" if "cp_get_existing stub_co_signs p s w = (r, w')" for p s r
    using that by (simp add: stub_co_signs_def stub_get_existing_def)
  show "w' = w" if "rp_get stub_repository i w = (g, w')" for i g
    using that by (simp add: stub_repository_def stub_get_def)
  show "stub_signatures w' = stub_signatures w \<and> stub_counted w' = stub_counted w \<and> ce_limiter (pw_env w') = ce_limiter (pw_env w)"
    if "rp_assign_fate_cas stub_repository i e t reason src realm w = (a, w')" for i e t reason src realm a
  proof -
    have "pw_env w' = pw_env w"
      using that stub_assign_Inl stub_assign_Inr by (cases a) (fastforce simp: stub_repository_def)+
    then show ?thesis by (simp add: stub_signatures_def stub_counted_def fun_eq_iff)
  qed
qed

interpretation pg_co_sign: co_sign_store pg_co_signs "postgres_repository (\<lambda>table. table)" pg_signatures pg_counted
proof
  fix w w' :: co_sign_world
  show "pg_signatures w' = pg_signatures w \<and> pg_counted w' = pg_counted w"
    if "pw_submissions w' = pw_submissions w" "ce_table (pw_env w') = ce_table (pw_env w)"
    using that by (simp add: pg_signatures_def pg_counted_def fun_eq_iff)
  show "cosign_key c \<notin> set (pg_signatures w) \<and> pg_signatures w' = pg_signatures w @ [cosign_key c] \<and>
      n = pg_counted w (cs_petition_id c) + 1 \<and> pg_counted w' = (pg_counted w)(cs_petition_id c := n) \<and>
      ce_limiter (pw_env w') = ce_limiter (pw_env w)" if "cp_create pg_co_signs c w = (Inr n, w')" for c n
    using that new_key [of "ce_table (pw_env w)" "cosign_key c" c]
    by (auto simp: pg_co_signs_def pg_create_def pg_signatures_def pg_counted_def dict_get_set fun_eq_iff
        Let_def split: if_splits option.splits)
  show "w' = w" if "cp_create pg_co_signs c w = (Inl err, w')" for c err
    using that by (auto simp: pg_co_signs_def pg_create_def Let_def split: if_splits option.splits)
  show "w' = w" if "cp_get_existing pg_co_signs p s w = (r, w')" for p s r
    using that by (simp add: pg_co_signs_def pg_get_existing_def)
  show "w' = w" if "rp_get (postgres_repository (\<lambda>table. table)) i w = (g, w')" for i g
    using that by (auto simp: postgres_repository_def pg_get_def split: option.splits sum.splits)
  show "pg_signatures w' = pg_signatures w \<and> pg_counted w' = pg_counted w \<and> ce_limiter (pw_env w') = ce_limiter (pw_env w)"
    if "rp_assign_fate_cas (postgres_repository (\<lambda>table. table)) i e t reason src realm w = (a, w')" for i e t reason src realm a
    using that
    by (auto simp: postgres_repository_def pg_assign_fate_cas_def act_bind_def clock_now_def Let_def pg_signatures_def
        pg_counted_def dict_get_set fun_eq_iff split: if_splits option.splits sum.splits)
qed

section \<open>Reaching the threshold\<close>

text \<open>What automatic escalation needs of the two repositories: \<open>same_petition\<close> up to the count and what is not stored.\<close>

definition same_petition :: "petition_submission \<Rightarrow> petition_submission \<Rightarrow> bool" where
  "same_petition q q' \<longleftrightarrow> pt_state q' = pt_state q \<and> pt_type q' = pt_type q \<and> pt_realm q' = pt_realm q \<and>
     (submission_ok q \<longrightarrow> submission_ok q')"

definition escalated_by_threshold :: "string \<Rightarrow> petition_submission \<Rightarrow> bool" where
  "escalated_by_threshold realm q \<longleftrightarrow> pt_state q = ESCALATED \<and> pt_escalation_source q = Some ''CO_SIGNER_THRESHOLD'' \<and>
     pt_escalated_to_realm q = Some realm"

locale escalating_store = co_sign_store cp rp signatures counted
  for cp :: co_sign_repository and rp :: "co_sign_world petition_repository"
    and signatures :: "co_sign_world \<Rightarrow> (uuid \<times> uuid) list" and counted :: "co_sign_world \<Rightarrow> uuid \<Rightarrow> int" +
  assumes found: "dict_get (pw_submissions w) i = Some q \<Longrightarrow> submission_ok q \<Longrightarrow>
      \<exists>g. rp_get rp i w = (Inr (Some g), w) \<and> same_petition q g"
    and escalates: "dict_get (pw_submissions w) i = Some q \<Longrightarrow> submission_ok q \<Longrightarrow> ESCALATED \<in> set (state_transition_matrix (pt_state q)) \<Longrightarrow>
      \<exists>a w' q'. rp_assign_fate_cas rp i (pt_state q) ESCALATED None (Some ''CO_SIGNER_THRESHOLD'') (Some realm) w = (Inr a, w') \<and>
        dict_get (pw_submissions w') i = Some q' \<and> escalated_by_threshold realm q'"
    and created_keeps: "cp_create cp c w = (Inr n, w') \<Longrightarrow> ce_halted (pw_env w') = ce_halted (pw_env w) \<and>
      (dict_get (pw_submissions w) i = Some q \<longrightarrow> (\<exists>q'. dict_get (pw_submissions w') i = Some q' \<and> same_petition q q'))"
begin

lemma checks_petition:
  assumes "co_sign_checks sv p s w = (Inr (v, rate, g), u)" and sv: "sv_co_signs sv = cp" "sv_petitions sv = rp"
    and q: "dict_get (pw_submissions w) p = Some q" "submission_ok q"
  shows "ticks w u \<and> \<not> ce_halted (pw_env w) \<and> \<not> petition_is_terminal (pt_state q) \<and> pt_type g = pt_type q"
proof -
  have halt: "\<not> ce_halted (pw_env w)"
    using assms(1) by (auto simp: co_sign_checks_def co_sign_halted_def act_bind_def split: if_splits)
  have "act_bind (verified_signer sv s) (\<lambda>v. act_bind (within_rate_limit sv s) (\<lambda>rate.
      act_bind (co_signable sv p s) (\<lambda>petition. act_return (v, rate, petition)))) w = (Inr (v, rate, g), u)"
    using assms(1) halt by (simp add: co_sign_checks_def co_sign_halted_def act_bind_def)
  then obtain v1 w1 where 1: "verified_signer sv s w = (Inr v1, w1)"
    "act_bind (within_rate_limit sv s) (\<lambda>rate. act_bind (co_signable sv p s) (\<lambda>petition. act_return (v1, rate, petition))) w1 =
      (Inr (v, rate, g), u)" by (rule act_bind_InrE)
  from 1(2) obtain r2 w2 where 2: "within_rate_limit sv s w1 = (Inr r2, w2)"
    "act_bind (co_signable sv p s) (\<lambda>petition. act_return (v1, r2, petition)) w2 = (Inr (v, rate, g), u)" by (rule act_bind_InrE)
  from 2(2) obtain g2 w3 where 3: "co_signable sv p s w2 = (Inr g2, w3)" "g2 = g" by (rule act_bind_InrE) simp
  have "ticks w w1" "ticks w1 w2" using framedD [OF ticks_signer(1) 1(1)] framedD [OF ticks_signer(2) 2(1)] .
  then have "dict_get (pw_submissions w2) p = Some q" using q(1) by (simp add: ticks_def)
  from found [OF this q(2)] obtain g' where "rp_get rp p w2 = (Inr (Some g'), w2)" "same_petition q g'" by blast
  then have "\<not> petition_is_terminal (pt_state q) \<and> pt_type g = pt_type q"
    using 3 by (auto simp: co_signable_def sv same_petition_def act_bind_def split: if_splits prod.splits sum.splits)
  then show ?thesis using halt framedD [OF ticks_checks [OF sv] assms(1)] by simp
qed

lemma auto_escalate_runs:
  assumes q: "dict_get (pw_submissions w) i = Some q" "submission_ok q" "\<not> petition_is_terminal (pt_state q)"
    and "\<not> ce_halted (pw_env w)"
  shows "\<exists>res w' q'. auto_escalate rp i ty c th w = (Inr res, w') \<and> ar_triggered res \<and>
    dict_get (pw_submissions w') i = Some q' \<and> escalated_by_threshold (pt_realm q) q'"
proof -
  from found [OF q(1,2)] obtain g where g: "rp_get rp i w = (Inr (Some g), w)" "same_petition q g" by blast
  have open_state: "pt_state q = RECEIVED \<or> pt_state q = DELIBERATING"
    using q(3) by (cases "pt_state q") (simp_all add: petition_is_terminal_def terminal_states_def)
  let ?w = "if pt_state q = DELIBERATING
    then w\<lparr>pw_clock_reads := Suc (pw_clock_reads w), pw_uuid_draws := Suc (Suc (Suc (Suc (pw_uuid_draws w))))\<rparr>
    else w\<lparr>pw_uuid_draws := Suc (Suc (pw_uuid_draws w)), pw_clock_reads := Suc (pw_clock_reads w)\<rparr>"
  have "ESCALATED \<in> set (state_transition_matrix (pt_state q))" using open_state by auto
  moreover have "dict_get (pw_submissions ?w) i = Some q" using q(1) by simp
  ultimately obtain a w' q' where
    a: "rp_assign_fate_cas rp i (pt_state q) ESCALATED None (Some ''CO_SIGNER_THRESHOLD'') (Some (pt_realm q)) ?w = (Inr a, w')"
      "dict_get (pw_submissions w') i = Some q'" "escalated_by_threshold (pt_realm q) q'"
    using escalates [of ?w i q "pt_realm q"] q(2) by blast
  have "pt_state g = pt_state q" "pt_realm g = pt_realm q" using g(2) by (simp_all add: same_petition_def)
  then have "\<exists>res. auto_escalate rp i ty c th w = (Inr res, w') \<and> ar_triggered res"
    using open_state a(1) assms(4)
    by (auto simp: auto_escalate_def co_sign_halted_def g(1) act_bind_def new_uuid_def clock_now_def Let_def)
  then show ?thesis using a(2,3) by blast
qed

lemma threshold_escalates:
  assumes sv: "sv_co_signs sv = cp" "sv_petitions sv = rp" "sv_auto_escalate sv = Some (auto_escalate rp)" "sv_thresholds sv = Some th"
    and q: "dict_get (pw_submissions w) p = Some q" "submission_ok q"
    and run: "submit_co_sign sv p s w = (Inr re, w')"
  shows "re_threshold_reached re = (case get_threshold_for_type th (pt_type q) of None \<Rightarrow> False | Some n \<Rightarrow> n \<le> counted w p + 1) \<and>
    re_escalation_triggered re = re_threshold_reached re \<and>
    (\<exists>q'. dict_get (pw_submissions w') p = Some q' \<and>
       (if re_threshold_reached re then escalated_by_threshold (pt_realm q) q' else same_petition q q'))"
proof -
  from run obtain v rate g u where checks: "co_sign_checks sv p s w = (Inr (v, rate, g), u)"
    and rest: "act_bind (new_co_sign sv p s v) (\<lambda>c. act_bind (cp_create (sv_co_signs sv) c) (after_co_sign sv c rate g)) u = (Inr re, w')"
    unfolding submit_co_sign_def by (rule act_bind_InrE) (auto split: prod.splits)
  note g = checks_petition [OF checks sv(1,2) q]
  from rest obtain c u2 where c: "new_co_sign sv p s v u = (Inr c, u2)"
    "act_bind (cp_create cp c) (after_co_sign sv c rate g) u2 = (Inr re, w')" unfolding sv(1) by (rule act_bind_InrE)
  have id: "cs_petition_id c = p" "cs_signer_id c = s" using c(1) by (auto simp: new_co_sign_def new_uuid_def clock_now_def act_bind_def)
  have t: "ticks w u2" using g framedD [OF ticks_new c(1)] by (simp add: ticks_def)
  from c(2) obtain n u3 where n: "cp_create cp c u2 = (Inr n, u3)" "after_co_sign sv c rate g n u3 = (Inr re, w')" by (rule act_bind_InrE)
  have count: "n = counted w p + 1" using created [OF n(1)] quiet_ticks [OF t] id by (simp add: quiet_def)
  have "dict_get (pw_submissions u2) p = Some q" using q(1) t by (simp add: ticks_def)
  then obtain q3 where q3: "dict_get (pw_submissions u3) p = Some q3" "same_petition q q3"
    using created_keeps [OF n(1)] by blast
  have halt3: "\<not> ce_halted (pw_env u3)" using created_keeps [OF n(1)] g t by (simp add: ticks_def)
  obtain u4 where u4: "act_when (sv_rate_limit sv) (record_co_sign s) u3 = (Inr (), u4)" "pw_submissions u4 = pw_submissions u3"
    "ce_halted (pw_env u4) = ce_halted (pw_env u3)"
    using record_co_sign_run [of s u3] by (cases "sv_rate_limit sv") (auto simp: act_when_def)
  define reached where "reached = check_threshold th (pt_type q) n"
  from n(2) obtain triggered i where e: "escalate_if_reached sv p n reached u4 = (Inr (triggered, i), w')"
    "re_threshold_reached re = fst reached" "re_escalation_triggered re = triggered"
    unfolding after_co_sign_def by (auto simp: u4(1) id sv(4) g reached_def Let_def act_bind_def split: prod.splits sum.splits)
  have "fst reached = (case get_threshold_for_type th (pt_type q) of None \<Rightarrow> False | Some n \<Rightarrow> n \<le> counted w p + 1)"
    by (simp add: reached_def check_threshold_def count Let_def)
  moreover have "triggered = fst reached \<and> (\<exists>q'. dict_get (pw_submissions w') p = Some q' \<and>
      (if fst reached then escalated_by_threshold (pt_realm q) q' else same_petition q q'))"
  proof (cases "fst reached")
    case True
    have ok: "submission_ok q3" "\<not> petition_is_terminal (pt_state q3)" "pt_realm q3 = pt_realm q"
      using q3(2) q(2) g by (simp_all add: same_petition_def)
    have "dict_get (pw_submissions u4) p = Some q3" "\<not> ce_halted (pw_env u4)" using q3(1) u4 halt3 by simp_all
    obtain m where m: "reached = (True, m)" using True by (cases reached) simp
    from auto_escalate_runs [OF \<open>dict_get (pw_submissions u4) p = Some q3\<close> ok(1,2) \<open>\<not> ce_halted (pw_env u4)\<close>,
        of "''CO_SIGNER_THRESHOLD''" n "case m of None \<Rightarrow> 0 | Some n \<Rightarrow> n"]
    obtain res u5 q5 where esc: "auto_escalate rp p ''CO_SIGNER_THRESHOLD'' n (case m of None \<Rightarrow> 0 | Some n \<Rightarrow> n) u4 = (Inr res, u5)"
      "ar_triggered res" "dict_get (pw_submissions u5) p = Some q5" "escalated_by_threshold (pt_realm q3) q5" by blast
    have "escalate_if_reached sv p n reached u4 = (Inr (True, ar_escalation_id res), u5)"
      using esc(1,2) by (simp add: escalate_if_reached_def sv(3) m act_try_def act_bind_def)
    with e(1) esc(3,4) ok(3) show ?thesis by (simp add: m)
  next
    case False
    then have "w' = u4" "\<not> triggered" using e(1) by (cases reached; simp add: escalate_if_reached_def)+
    then show ?thesis using False q3 u4 by simp
  qed
  ultimately show ?thesis using e by simp
qed

end

lemma same_petition_refl: "same_petition q q"
  by (simp add: same_petition_def)

interpretation stub_escalation: escalating_store stub_co_signs stub_repository stub_signatures stub_counted
proof
  fix w w' :: co_sign_world and i q
  show "\<exists>g. rp_get stub_repository i w = (Inr (Some g), w) \<and> same_petition q g" if "dict_get (pw_submissions w) i = Some q"
    using that by (simp add: stub_repository_def stub_get_def same_petition_refl)
  show "\<exists>a w' q'. rp_assign_fate_cas stub_repository i (pt_state q) ESCALATED None (Some ''CO_SIGNER_THRESHOLD'') (Some realm) w =
      (Inr a, w') \<and> dict_get (pw_submissions w') i = Some q' \<and> escalated_by_threshold realm q'"
    if "dict_get (pw_submissions w) i = Some q" "submission_ok q" "ESCALATED \<in> set (state_transition_matrix (pt_state q))" for realm
  proof -
    have "\<not> petition_is_terminal (pt_state q)"
      using that(3) petitions.terminal_iff by (auto simp: valid_petition_move_def)
    moreover have "mk_petition_submission (q\<lparr>pt_state := ESCALATED, pt_updated_at := t, pt_fate_reason := None,
        pt_escalation_source := a, pt_escalated_at := b, pt_escalated_to_realm := c\<rparr>) = Inr (q\<lparr>pt_state := ESCALATED,
        pt_updated_at := t, pt_fate_reason := None, pt_escalation_source := a, pt_escalated_at := b, pt_escalated_to_realm := c\<rparr>)"
      for t a b c using that(2) by (simp add: mk_petition_submission_iff submission_ok_def)
    ultimately show ?thesis
      using that(1,3) by (simp add: stub_repository_def stub_assign_fate_cas_def stub_get_def act_bind_def clock_now_def
          put_submission_def or_else_def escalated_by_threshold_def)
  qed
  show "ce_halted (pw_env w') = ce_halted (pw_env w) \<and> (dict_get (pw_submissions w) i = Some q \<longrightarrow>
      (\<exists>q'. dict_get (pw_submissions w') i = Some q' \<and> same_petition q q'))" if "cp_create stub_co_signs c w = (Inr n, w')" for c n
    using that by (auto simp: stub_co_signs_def stub_create_def Let_def same_petition_refl split: if_splits)
qed

interpretation pg_escalation: escalating_store pg_co_signs "postgres_repository (\<lambda>table. table)" pg_signatures pg_counted
proof
  fix w w' :: co_sign_world and i q
  show "\<exists>g. rp_get (postgres_repository (\<lambda>table. table)) i w = (Inr (Some g), w) \<and> same_petition q g"
    if "dict_get (pw_submissions w) i = Some q" "submission_ok q"
  proof -
    have "submission_ok (stored_row q)" using that(2) by (simp add: submission_ok_def stored_row_def)
    then have "mk_petition_submission (stored_row q) = Inr (stored_row q)" by (simp add: mk_petition_submission_iff)
    with \<open>submission_ok (stored_row q)\<close> that show ?thesis
      by (simp add: postgres_repository_def pg_get_def same_petition_def) (simp add: stored_row_def)
  qed
  show "\<exists>a w' q'. rp_assign_fate_cas (postgres_repository (\<lambda>table. table)) i (pt_state q) ESCALATED None
      (Some ''CO_SIGNER_THRESHOLD'') (Some realm) w = (Inr a, w') \<and> dict_get (pw_submissions w') i = Some q' \<and>
      escalated_by_threshold realm q'"
    if "dict_get (pw_submissions w) i = Some q" "submission_ok q" "ESCALATED \<in> set (state_transition_matrix (pt_state q))" for realm
  proof -
    have "\<not> petition_is_terminal (pt_state q)"
      using that(3) petitions.terminal_iff by (auto simp: valid_petition_move_def)
    moreover have "mk_petition_submission (stored_row (q\<lparr>pt_state := ESCALATED, pt_updated_at := t, pt_escalation_source := a,
        pt_escalated_at := b, pt_escalated_to_realm := c\<rparr>)) = Inr (stored_row (q\<lparr>pt_state := ESCALATED, pt_updated_at := t,
        pt_escalation_source := a, pt_escalated_at := b, pt_escalated_to_realm := c\<rparr>))"
      for t a b c using that(2) by (simp add: mk_petition_submission_iff submission_ok_def stored_row_def)
    ultimately show ?thesis
      using that(1,3) by (simp add: postgres_repository_def pg_assign_fate_cas_def act_bind_def clock_now_def
          coalesce_def escalated_by_threshold_def Let_def)
  qed
  show "ce_halted (pw_env w') = ce_halted (pw_env w) \<and> (dict_get (pw_submissions w) i = Some q \<longrightarrow>
      (\<exists>q'. dict_get (pw_submissions w') i = Some q' \<and> same_petition q q'))" if "cp_create pg_co_signs c w = (Inr n, w')" for c n
    using that by (auto simp: pg_co_signs_def pg_create_def Let_def same_petition_def submission_ok_def dict_get_set
        split: if_splits option.splits)
qed

section \<open>Claims\<close>

text \<open>
  C39: Nobody signs a petition twice, the counts are those of the signatures, and nobody signs beyond the rate limit.
  Over either repository, for any sequence of requests to the service: the accepted ones are appended to the
  signatures, which stay distinct; each is told how many signatures its petition then has, and that is what the
  repository counts; and with the rate limiter, of a signer's requests no more are accepted than were left of his limit,
  for its window never ends.
\<close>

theorem one_signature_each:
  assumes "(cp, rp, sigs, counted) = (stub_co_signs, stub_repository, stub_signatures, stub_counted) \<or>
      (cp, rp, sigs, counted) = (pg_co_signs, postgres_repository (\<lambda>table. table), pg_signatures, pg_counted)"
    and "sv_co_signs sv = cp" and "sv_petitions sv = rp" and "sv_auto_escalate sv \<in> {None, Some (auto_escalate rp)}"
    and "distinct (sigs w)" and "\<forall>p. counted w p = int (length (filter (\<lambda>k. fst k = p) (sigs w)))"
    and "run_co_signs sv requests w = (accepted, w')"
  shows "sigs w' = sigs w @ map fst accepted \<and> distinct (sigs w') \<and>
    (\<forall>p. counted w' p = int (length (filter (\<lambda>k. fst k = p) (sigs w')))) \<and>
    (\<forall>i < length accepted. snd (accepted ! i) = int (length (filter (\<lambda>k. fst k = fst (fst (accepted ! i)))
       (sigs w @ take (Suc i) (map fst accepted))))) \<and>
    (sv_rate_limit sv \<longrightarrow> (\<forall>s. int (length (filter (\<lambda>k. snd k = s) (map fst accepted))) \<le> max 0 (limit_of w - limit_used w s)))"
  using assms(1)
proof
  assume "(cp, rp, sigs, counted) = (stub_co_signs, stub_repository, stub_signatures, stub_counted)"
  then have e: "cp = stub_co_signs" "rp = stub_repository" "sigs = stub_signatures" "counted = stub_counted" by simp_all
  have "stub_co_sign.wired sv" "stub_co_sign.counts_ok w"
    using assms(2-6) by (simp_all add: e stub_co_sign.wired_def stub_co_sign.counts_ok_def)
  from stub_co_sign.runs [OF this(1) assms(7) this(2)] show ?thesis
    unfolding e stub_co_sign.counts_ok_def by (elim conjE) (intro conjI)
next
  assume "(cp, rp, sigs, counted) = (pg_co_signs, postgres_repository (\<lambda>table. table), pg_signatures, pg_counted)"
  then have e: "cp = pg_co_signs" "rp = postgres_repository (\<lambda>table. table)" "sigs = pg_signatures" "counted = pg_counted" by simp_all
  have "pg_co_sign.wired sv" "pg_co_sign.counts_ok w"
    using assms(2-6) by (simp_all add: e pg_co_sign.wired_def pg_co_sign.counts_ok_def)
  from pg_co_sign.runs [OF this(1) assms(7) this(2)] show ?thesis
    unfolding e pg_co_sign.counts_ok_def by (elim conjE) (intro conjI)
qed

text \<open>
  C40: Reaching the threshold escalates. Over either repository, a co-sign that is accepted is told that the threshold
  is reached exactly when its type has one and the new count is at least that; then, and only then, automatic
  escalation is triggered, and it leaves the petition \<open>ESCALATED\<close> to its own realm, with the threshold as the source.
\<close>

theorem co_sign_threshold:
  assumes "(cp, rp, counted) = (stub_co_signs, stub_repository, stub_counted) \<or>
      (cp, rp, counted) = (pg_co_signs, postgres_repository (\<lambda>table. table), pg_counted)"
    and "sv_co_signs sv = cp" and "sv_petitions sv = rp" and "sv_auto_escalate sv = Some (auto_escalate rp)"
    and "sv_thresholds sv = Some th"
    and "dict_get (pw_submissions w) p = Some q" and "submission_ok q"
    and "submit_co_sign sv p s w = (Inr re, w')"
  shows "re_threshold_reached re = (case get_threshold_for_type th (pt_type q) of None \<Rightarrow> False | Some n \<Rightarrow> n \<le> counted w p + 1) \<and>
    re_escalation_triggered re = re_threshold_reached re \<and>
    (\<exists>q'. dict_get (pw_submissions w') p = Some q' \<and>
       (if re_threshold_reached re then pt_state q' = ESCALATED \<and> pt_escalated_to_realm q' = Some (pt_realm q) \<and>
          pt_escalation_source q' = Some ''CO_SIGNER_THRESHOLD''
        else pt_state q' = pt_state q))"
  using assms(1)
proof
  assume "(cp, rp, counted) = (stub_co_signs, stub_repository, stub_counted)"
  then show ?thesis
    using stub_escalation.threshold_escalates [OF _ _ _ assms(5-8)] assms(2-4)
    by (auto simp: escalated_by_threshold_def same_petition_def split: if_splits)
next
  assume "(cp, rp, counted) = (pg_co_signs, postgres_repository (\<lambda>table. table), pg_counted)"
  then show ?thesis
    using pg_escalation.threshold_escalates [OF _ _ _ assms(5-8)] assms(2-4)
    by (auto simp: escalated_by_threshold_def same_petition_def split: if_splits)
qed

text \<open>The service over the stubs, with a threshold of two.\<close>

definition co_sign_example_service :: co_sign_service where
  "co_sign_example_service = \<lparr>sv_co_signs = stub_co_signs, sv_petitions = stub_repository, sv_blake3 = (\<lambda>_. replicate 32 0),
     sv_identity = True, sv_rate_limit = True, sv_thresholds = Some \<lparr>th_cessation = 100, th_grievance = 2\<rparr>,
     sv_auto_escalate = Some (auto_escalate stub_repository)\<rparr>"

definition co_sign_example_world :: co_sign_world where
  "co_sign_example_world = \<lparr>pw_submissions = [(1, example_petition)],
     pw_env = \<lparr>ce_stub = \<lparr>cr_co_signs = [], cr_counts = [(1, 0)], cr_valid_petitions = [1]\<rparr>, ce_table = [],
       ce_limiter = \<lparr>rl_limit = 50, rl_window_minutes = 60, rl_counts = [], rl_reset_at = []\<rparr>,
       ce_identities = \<lparr>is_valid_identities = [5, 6], is_suspended_identities = [], is_available = True\<rparr>, ce_halted = False\<rparr>,
     pw_clock = int, pw_clock_reads = 0, pw_uuid = of_nat, pw_uuid_draws = 0\<rparr>"

lemmas co_sign_eval = submit_co_sign_def co_sign_checks_def new_co_sign_def after_co_sign_def co_sign_halted_def
  verified_signer_def within_rate_limit_def co_signable_def identity_verify_def check_rate_limit_def record_co_sign_def
  set_limiter_def escalate_if_reached_def check_threshold_def get_threshold_for_type_def auto_escalate_def
  stub_co_signs_def stub_create_def stub_get_existing_def existing_signature_def cosign_key_def dict_or_def act_when_def
  act_try_def stub_repository_def stub_assign_fate_cas_def stub_get_def clock_now_def new_uuid_def put_submission_def
  act_bind_def or_else_def dict_get_def mk_petition_submission_iff submission_ok_def max_text_length_def petition_is_terminal_def
  terminal_states_def mk_petition_submission_def Let_def

lemma co_sign_example_run:
  "\<exists>w'. run_co_signs co_sign_example_service [(1, 5), (1, 5), (1, 6)] co_sign_example_world = ([((1, 5), 1), ((1, 6), 2)], w')"
  by (simp add: co_sign_eval co_sign_example_service_def co_sign_example_world_def example_petition_def new_submission_def)

lemma co_sign_example_single:
  "\<exists>re w'. submit_co_sign co_sign_example_service 1 5 co_sign_example_world = (Inr re, w')"
  by (simp add: co_sign_eval co_sign_example_service_def co_sign_example_world_def example_petition_def new_submission_def)

lemma co_sign_example_config:
  "sv_co_signs co_sign_example_service = stub_co_signs" "sv_petitions co_sign_example_service = stub_repository"
  "sv_auto_escalate co_sign_example_service = Some (auto_escalate stub_repository)"
  "sv_thresholds co_sign_example_service = Some \<lparr>th_cessation = 100, th_grievance = 2\<rparr>"
  by (simp_all add: co_sign_example_service_def)

lemma one_signature_each_witness:
  "\<exists>w'. run_co_signs co_sign_example_service [(1, 5), (1, 5), (1, 6)] co_sign_example_world = ([((1, 5), 1), ((1, 6), 2)], w') \<and>
     stub_signatures w' = [(1, 5), (1, 6)] \<and> stub_counted w' 1 = 2"
proof -
  obtain w' where run: "run_co_signs co_sign_example_service [(1, 5), (1, 5), (1, 6)] co_sign_example_world =
      ([((1, 5), 1), ((1, 6), 2)], w')" using co_sign_example_run by blast
  have before: "stub_signatures co_sign_example_world = []" "stub_counted co_sign_example_world p = 0" for p
    by (simp_all add: stub_signatures_def stub_counted_def co_sign_example_world_def dict_or_def dict_get_def)
  have "distinct (stub_signatures co_sign_example_world)"
    "\<forall>p. stub_counted co_sign_example_world p = int (length (filter (\<lambda>k. fst k = p) (stub_signatures co_sign_example_world)))"
    "sv_auto_escalate co_sign_example_service \<in> {None, Some (auto_escalate stub_repository)}"
    by (simp_all add: before co_sign_example_config)
  from one_signature_each [OF disjI1 [OF refl] co_sign_example_config(1,2) this(3,1,2) run] run show ?thesis
    by (simp add: before)
qed

text \<open>The second signature of a grievance.\<close>

lemma co_sign_threshold_witness:
  "\<exists>w1 re w' q'. run_co_signs co_sign_example_service [(1, 5)] co_sign_example_world = ([((1, 5), 1)], w1) \<and>
     submit_co_sign co_sign_example_service 1 6 w1 = (Inr re, w') \<and> re_threshold_reached re \<and>
     dict_get (pw_submissions w') 1 = Some q' \<and> pt_state q' = ESCALATED"
proof -
  obtain w1 re w' where run: "run_co_signs co_sign_example_service [(1, 5)] co_sign_example_world = ([((1, 5), 1)], w1)"
    "submit_co_sign co_sign_example_service 1 6 w1 = (Inr re, w')" "pw_submissions w1 = [(1, example_petition)]"
    "stub_counted w1 1 = 1"
    by (simp add: co_sign_eval stub_counted_def co_sign_example_service_def co_sign_example_world_def example_petition_def
        new_submission_def)
  have "dict_get (pw_submissions w1) 1 = Some example_petition" "submission_ok example_petition"
    by (simp_all add: run(3) dict_get_def example_petition_def new_submission_def submission_ok_def max_text_length_def)
  from co_sign_threshold [OF disjI1 [OF refl] co_sign_example_config this run(2)] run(1,2,4) show ?thesis
    by (auto simp: get_threshold_for_type_def example_petition_def new_submission_def)
qed

end
