(* ===== verification/Task_Result.thy ===== *)
theory Task_Result
  imports Task_Consent
begin

text \<open>
  Results and problem reports of a Cluster (\<open>src/application/services/governance/task_result_service.py\<close>, with the
  values and errors of \<open>src/application/ports/governance/task_result_port.py\<close> and the categories of
  \<open>src/domain/governance/task/problem_report.py\<close>).
\<close>

datatype problem_category = BLOCKED | UNCLEAR_SPEC | RESOURCE_UNAVAILABLE | TECHNICAL_ISSUE | OTHER

fun problem_category_value :: "problem_category \<Rightarrow> string" where
  "problem_category_value BLOCKED = ''blocked''"
| "problem_category_value UNCLEAR_SPEC = ''unclear_spec''"
| "problem_category_value RESOURCE_UNAVAILABLE = ''resource_unavailable''"
| "problem_category_value TECHNICAL_ISSUE = ''technical_issue''"
| "problem_category_value OTHER = ''other''"

record task_result_value =
  trv_task_id :: uuid
  trv_cluster_id :: string
  trv_output :: payload
  trv_submitted_at :: datetime

record problem_report_value =
  prv_task_id :: uuid
  prv_cluster_id :: string
  prv_category :: problem_category
  prv_description :: string
  prv_reported_at :: datetime

text \<open>The domain's own report, which refuses blank fields. The service does not build it.\<close>

record problem_report =
  pr_task_id :: uuid
  pr_cluster_id :: string
  pr_category :: problem_category
  pr_description :: string
  pr_reported_at :: datetime

definition mk_problem_report :: "uuid \<Rightarrow> string \<Rightarrow> problem_category \<Rightarrow> string \<Rightarrow> datetime \<Rightarrow> exn + problem_report" where
  "mk_problem_report task_id cluster_id category description reported_at =
     (if blank cluster_id then Inl (Exn ConstitutionalViolationError ''FR7: ProblemReport requires non-empty cluster_id'')
      else if blank description then
        Inl (Exn ConstitutionalViolationError ''FR7: ProblemReport requires non-empty description'')
      else Inr \<lparr>pr_task_id = task_id, pr_cluster_id = cluster_id, pr_category = category,
        pr_description = description, pr_reported_at = reported_at\<rparr>)"

definition problem_report_to_event_payload :: "problem_report \<Rightarrow> payload" where
  "problem_report_to_event_payload r =
     [(''task_id'', PyStr (uuid_str (pr_task_id r))), (''cluster_id'', PyStr (pr_cluster_id r)),
      (''category'', PyStr (problem_category_value (pr_category r))), (''description'', PyStr (pr_description r)),
      (''reported_at'', PyStr (isoformat (pr_reported_at r)))]"

record 'v submission_outcome =
  so_success :: bool
  so_result :: 'v
  so_new_status :: string
  so_message :: string

definition unauthorized_result :: "string \<Rightarrow> uuid \<Rightarrow> exn" where
  "unauthorized_result cluster_id task_id = Exn UnauthorizedResultError
     (''FR6: Cluster '' @ cluster_id @ '' is not the assigned worker for task '' @ uuid_str task_id)"

definition invalid_result_state :: "uuid \<Rightarrow> task_status \<Rightarrow> string \<Rightarrow> exn" where
  "invalid_result_state task_id current_state operation = Exn InvalidResultStateError
     (''FR6: Cannot '' @ operation @ '' - task '' @ uuid_str task_id @ '' is in '' @ task_status_value current_state @ '' state'')"

section \<open>The operations\<close>

definition emit_result_event ::
  "(governance_event \<Rightarrow> ('l, persisted_event) act) \<Rightarrow> uuid \<Rightarrow> string \<Rightarrow> payload \<Rightarrow> datetime \<Rightarrow> ('l world, unit) act" where
  "emit_result_event append_event task_id cluster_id output timestamp =
     emit_event append_event ''executive.task.reported'' timestamp cluster_id (uuid_str task_id)
       [(''task_id'', PyStr (uuid_str task_id)), (''cluster_id'', PyStr cluster_id), (''output'', PyDict output),
        (''submitted_at'', PyStr (isoformat timestamp))]"

definition emit_problem_report_event ::
  "(governance_event \<Rightarrow> ('l, persisted_event) act) \<Rightarrow> uuid \<Rightarrow> string \<Rightarrow> problem_category \<Rightarrow> string \<Rightarrow> datetime
    \<Rightarrow> ('l world, unit) act" where
  "emit_problem_report_event append_event task_id cluster_id category description timestamp =
     emit_event append_event ''executive.task.problem_reported'' timestamp cluster_id (uuid_str task_id)
       [(''task_id'', PyStr (uuid_str task_id)), (''cluster_id'', PyStr cluster_id),
        (''category'', PyStr (problem_category_value category)), (''description'', PyStr description),
        (''reported_at'', PyStr (isoformat timestamp))]"

definition result_body ::
  "(governance_event \<Rightarrow> ('l, persisted_event) act) \<Rightarrow> uuid \<Rightarrow> string \<Rightarrow> payload
    \<Rightarrow> ('l world, task_result_value submission_outcome \<times> payload) act" where
  "result_body append_event task_id cluster_id output =
     act_bind (get_task task_id) (\<lambda>task.
     if ts_cluster_id task \<noteq> Some cluster_id then act_raise (unauthorized_result cluster_id task_id)
     else if ts_current_status task \<noteq> IN_PROGRESS then
       act_raise (invalid_result_state task_id (ts_current_status task) ''submit_result'')
     else
       act_bind time_now (\<lambda>now.
       let result_value = \<lparr>trv_task_id = task_id, trv_cluster_id = cluster_id, trv_output = output, trv_submitted_at = now\<rparr>
       in act_bind (act_lift (transition task REPORTED now)) (\<lambda>new_task.
       act_bind (save_task new_task) (\<lambda>_.
       act_bind (emit_result_event append_event task_id cluster_id output now) (\<lambda>_.
       act_return (\<lparr>so_success = True, so_result = result_value, so_new_status = ''reported'',
         so_message = ''Task result submitted successfully''\<rparr>, [(''new_status'', PyStr ''reported'')]))))))"

definition submit_result ::
  "(governance_event \<Rightarrow> ('l, persisted_event) act) \<Rightarrow> uuid \<Rightarrow> string \<Rightarrow> payload
    \<Rightarrow> ('l world, task_result_value submission_outcome) act" where
  "submit_result append_event task_id cluster_id output =
     two_phase_execution append_event ''task.result'' cluster_id (uuid_str task_id)
       [(''output_keys'', PyList (map (PyStr \<circ> fst) output))] (result_body append_event task_id cluster_id output)"

definition problem_body ::
  "(governance_event \<Rightarrow> ('l, persisted_event) act) \<Rightarrow> uuid \<Rightarrow> string \<Rightarrow> problem_category \<Rightarrow> string
    \<Rightarrow> ('l world, problem_report_value submission_outcome \<times> payload) act" where
  "problem_body append_event task_id cluster_id category description =
     act_bind (get_task task_id) (\<lambda>task.
     if ts_cluster_id task \<noteq> Some cluster_id then act_raise (unauthorized_result cluster_id task_id)
     else if ts_current_status task \<noteq> IN_PROGRESS then
       act_raise (invalid_result_state task_id (ts_current_status task) ''submit_problem_report'')
     else
       act_bind time_now (\<lambda>now.
       act_bind (emit_problem_report_event append_event task_id cluster_id category description now) (\<lambda>_.
       act_return (\<lparr>so_success = True, so_result = \<lparr>prv_task_id = task_id, prv_cluster_id = cluster_id,
           prv_category = category, prv_description = description, prv_reported_at = now\<rparr>,
         so_new_status = ''in_progress'', so_message = ''Problem report submitted successfully''\<rparr>,
         [(''reported'', PyBool True), (''category'', PyStr (problem_category_value category))]))))"

definition submit_problem_report ::
  "(governance_event \<Rightarrow> ('l, persisted_event) act) \<Rightarrow> uuid \<Rightarrow> string \<Rightarrow> problem_category \<Rightarrow> string
    \<Rightarrow> ('l world, problem_report_value submission_outcome) act" where
  "submit_problem_report append_event task_id cluster_id category description =
     two_phase_execution append_event ''task.problem_report'' cluster_id (uuid_str task_id)
       [(''category'', PyStr (problem_category_value category))]
       (problem_body append_event task_id cluster_id category description)"

section \<open>What they do\<close>

lemma result_messages:
  "\<not> blank (exn_str (unauthorized_result c i))" "\<not> blank (exn_str (invalid_result_state i s op))"
  by (rule not_blankI [of "CHR ''F''"]; simp add: unauthorized_result_def invalid_result_state_def is_py_space_def)+

lemma result_ops: "op_ok ''task.result''" "op_ok ''task.problem_report''"
  "first_segment ''task.result'' = ''task''" "first_segment ''task.problem_report'' = ''task''"
  by code_simp+

lemma result_event_types: "event_type_pattern ''executive.task.reported''" "event_type_pattern ''executive.task.problem_reported''"
  by code_simp+

definition result_payload_of :: "uuid \<Rightarrow> string \<Rightarrow> payload \<Rightarrow> task_state \<Rightarrow> datetime \<Rightarrow> payload" where
  "result_payload_of i c output t now = [(''task_id'', PyStr (uuid_str i)), (''cluster_id'', PyStr c),
     (''output'', PyDict output), (''submitted_at'', PyStr (isoformat now))]"

definition result_outcome :: "uuid \<Rightarrow> string \<Rightarrow> payload \<Rightarrow> task_state \<Rightarrow> task_result_value submission_outcome" where
  "result_outcome i c output t = \<lparr>so_success = True, so_result = \<lparr>trv_task_id = i, trv_cluster_id = c, trv_output = output,
     trv_submitted_at = ts_state_entered_at t\<rparr>, so_new_status = ''reported'', so_message = ''Task result submitted successfully''\<rparr>"

text \<open>Submitting a result has the shape of a consent operation; the task says when it was submitted.\<close>

lemma result_body_steps:
  "result_body append_event i c output =
     consent_steps i c (unauthorized_result c i) {IN_PROGRESS} (\<lambda>s. invalid_result_state i s ''submit_result'') REPORTED
       (\<lambda>t now. emit_event append_event ''executive.task.reported'' now c (uuid_str i) (result_payload_of i c output t now))
       (\<lambda>t. (result_outcome i c output t, [(''new_status'', PyStr ''reported'')]))"
proof -
  have step: "act_bind (act_lift (transition task REPORTED now)) f = act_bind (act_lift (transition task REPORTED now)) g"
    if "\<And>t. ts_state_entered_at t = now \<Longrightarrow> f t = g t" for task now and f g :: "task_state \<Rightarrow> ('l world, 'b) act"
  proof (cases "transition task REPORTED now")
    case (Inr t)
    then have "ts_state_entered_at t = now" by (simp add: transition_Inr)
    then show ?thesis using that Inr by (simp add: act_bind_def fun_eq_iff)
  qed (simp add: act_bind_def fun_eq_iff)
  show ?thesis
    unfolding result_body_def consent_steps_def Let_def
    by (intro arg_cong [of _ _ "act_bind (get_task i)"] ext if_cong arg_cong [of _ _ "act_bind time_now"] refl)
      (auto simp: emit_result_event_def result_payload_of_def result_outcome_def intro!: fun_cong [OF step])
qed

lemma problem_body_run:
  assumes "memory_inv (w_ledger w)" and "\<not> blank c"
  shows "\<exists>r w'. problem_body memory_append_event i c category description w = (r, w') \<and>
    (case dict_get (w_tasks w) i of
       None \<Rightarrow> r = Inl (Exn KeyError (''UUID('' @ py_repr (uuid_str i) @ '')'')) \<and> w' = w
     | Some t \<Rightarrow>
         if ts_cluster_id t \<noteq> Some c then r = Inl (unauthorized_result c i) \<and> w' = w
         else if ts_current_status t \<noteq> IN_PROGRESS then
           r = Inl (invalid_result_state i (ts_current_status t) ''submit_problem_report'') \<and> w' = w
         else \<exists>x p q. r = Inr (x, p) \<and> so_result x = \<lparr>prv_task_id = i, prv_cluster_id = c, prv_category = category,
             prv_description = description, prv_reported_at = w_clock w (w_clock_reads w)\<rparr> \<and> w_tasks w' = w_tasks w \<and>
           ml_events (w_ledger w') = ml_events (w_ledger w) @ [q] \<and> ge_event_type (pe_event q) = ''executive.task.problem_reported'' \<and>
           ge_actor_id (pe_event q) = c)"
proof (cases "dict_get (w_tasks w) i")
  case None
  then show ?thesis by (simp add: problem_body_def act_bind_def get_task_None)
next
  case (Some t)
  let ?w1 = "w\<lparr>w_clock_reads := w_clock_reads w + 1\<rparr>"
  let ?now = "w_clock w (w_clock_reads w)"
  let ?p = "[(''task_id'', PyStr (uuid_str i)), (''cluster_id'', PyStr c), (''category'', PyStr (problem_category_value category)),
    (''description'', PyStr description), (''reported_at'', PyStr (isoformat ?now))]"
  have "memory_inv (w_ledger ?w1)" using assms(1) by simp
  from emit_event_run [OF this result_event_types(2) assms(2) uuid_str_nonblank, of ?now i ?p]
  obtain w2 q where w2: "emit_problem_report_event memory_append_event i c category description ?now ?w1 = (Inr (), w2)"
      "w_tasks w2 = w_tasks w" "ml_events (w_ledger w2) = ml_events (w_ledger w) @ [q]"
      "ge_event_type (pe_event q) = ''executive.task.problem_reported''" "ge_actor_id (pe_event q) = c"
    unfolding emit_problem_report_event_def same_tasks_def by auto
  show ?thesis
    using w2 by (auto simp: problem_body_def act_bind_def get_task_Some [OF Some] Some same_tasks_def)
qed

lemma problem_body_frames:
  "framed same_pending (problem_body append_event i c category description)"
  "framed (world_grows ml_events memory_inv) (problem_body memory_append_event i c category description)"
proof -
  have prim: "framed same_pending time_now" "framed same_pending (get_task i)"
    by (rule framedI; auto simp: same_pending_def get_task_def split: option.splits)+
  show "framed same_pending (problem_body append_event i c category description)"
    unfolding problem_body_def emit_problem_report_event_def
    by (auto intro!: same_pending.framed_raise same_pending.framed_bind same_pending.framed_return prim emit_event_frames(2))
  show "framed (world_grows ml_events memory_inv) (problem_body memory_append_event i c category description)"
    unfolding problem_body_def emit_problem_report_event_def
    by (auto intro!: world_grows.framed_raise world_grows.framed_bind world_grows.framed_return primitive_grows
        memory.emit_event_grows)
qed

text \<open>
  The event of a problem report is the one of the domain object when that exists; for a blank description there is
  none, and the service records its report all the same.
\<close>

lemma problem_report_event:
  assumes "mk_problem_report i c category description now = Inr r"
  shows "emit_problem_report_event append_event i c category description now =
    emit_event append_event ''executive.task.problem_reported'' now c (uuid_str i) (problem_report_to_event_payload r)"
  using assms by (auto simp: mk_problem_report_def emit_problem_report_event_def problem_report_to_event_payload_def split: if_splits)

lemma blank_description_accepted:
  assumes "memory_inv (w_ledger w)" and "\<not> blank c" and "dict_get (w_tasks w) i = Some t" and "ts_cluster_id t = Some c"
    and "ts_current_status t = IN_PROGRESS"
  shows "mk_problem_report i c category '''' now = Inl (Exn ConstitutionalViolationError ''FR7: ProblemReport requires non-empty description'')"
    and "\<exists>x w'. problem_body memory_append_event i c category '''' w = (Inr x, w') \<and>
      length (ml_events (w_ledger w')) = Suc (length (ml_events (w_ledger w)))"
  using problem_body_run [OF assms(1,2), of i category "''''"] assms(2-)
  by (auto simp: mk_problem_report_def)

section \<open>Claim\<close>

text \<open>
  Only the Cluster that a task is assigned to can report on it, only while the task is in progress, and the
  report is on record. Any other request is refused with the error of its cause and recorded as an intent with its
  failure. A result moves exactly this task to \<open>reported\<close> and its event carries the output; a problem report moves
  no task.
\<close>

theorem report_spec:
  assumes "memory_inv (w_ledger w)" and "tasks_ok w" and "\<not> blank c"
    and "dict_get (w_pending w) (w_uuid w (w_uuid_draws w)) = None"
    and "submit_result memory_append_event i c output w = (r, w')"
    and "submit_problem_report memory_append_event i c category description w = (q, v)"
  shows "consent_spec i c (unauthorized_result c i) {IN_PROGRESS} (\<lambda>s. invalid_result_state i s ''submit_result'') REPORTED
      ''executive.task.reported'' (\<lambda>t now. [(''task_id'', PyStr (uuid_str i)), (''cluster_id'', PyStr c),
         (''output'', PyDict output), (''submitted_at'', PyStr (isoformat now))])
      (\<lambda>t. \<lparr>so_success = True, so_result = \<lparr>trv_task_id = i, trv_cluster_id = c, trv_output = output,
         trv_submitted_at = ts_state_entered_at t\<rparr>, so_new_status = ''reported'',
         so_message = ''Task result submitted successfully''\<rparr>) w r w' \<and>
    w_tasks v = w_tasks w \<and>
    (case dict_get (w_tasks w) i of
       None \<Rightarrow> q = Inl (Exn KeyError (''UUID('' @ py_repr (uuid_str i) @ '')'')) \<and> records w v [intent_type, failure_type]
     | Some t \<Rightarrow>
         if ts_cluster_id t \<noteq> Some c then q = Inl (unauthorized_result c i) \<and> records w v [intent_type, failure_type]
         else if ts_current_status t \<noteq> IN_PROGRESS then
           q = Inl (invalid_result_state i (ts_current_status t) ''submit_problem_report'') \<and> records w v [intent_type, failure_type]
         else (\<exists>x. q = Inr x \<and> prv_description (so_result x) = description \<and> prv_category (so_result x) = category) \<and>
           records w v [intent_type, ''executive.task.problem_reported'', commit_type] \<and>
           ge_actor_id (new_events w v ! 1) = c)"
proof (intro conjI)
  show "consent_spec i c (unauthorized_result c i) {IN_PROGRESS} (\<lambda>s. invalid_result_state i s ''submit_result'') REPORTED
      ''executive.task.reported'' (\<lambda>t now. [(''task_id'', PyStr (uuid_str i)), (''cluster_id'', PyStr c),
         (''output'', PyDict output), (''submitted_at'', PyStr (isoformat now))])
      (\<lambda>t. \<lparr>so_success = True, so_result = \<lparr>trv_task_id = i, trv_cluster_id = c, trv_output = output,
         trv_submitted_at = ts_state_entered_at t\<rparr>, so_new_status = ''reported'',
         so_message = ''Task result submitted successfully''\<rparr>) w r w'"
    by (rule consent_memory [OF assms(1-4) _ result_event_types(1) result_ops(1,3) result_messages uuid_str_nonblank
        assms(5) [unfolded submit_result_def result_body_steps result_payload_of_def result_outcome_def]]) simp
  have key: "\<not> blank (''UUID('' @ py_repr (uuid_str i) @ '')'')"
    by (rule not_blankI [of "CHR ''U''"]) (simp_all add: is_py_space_def)
  obtain intent w1 rb w2 where *: "problem_body memory_append_event i c category description w1 = (rb, w2)"
      "same_tasks w w1" "same_tasks w2 v" "memory_inv (w_ledger w1)"
      "ml_events (w_ledger w1) = ml_events (w_ledger w) @ [intent]" "ge_event_type (pe_event intent) = intent_type"
    and outcome: "case rb of
       Inr (x, _) \<Rightarrow> q = Inr x \<and> w_pending v = w_pending w \<and>
         (\<exists>commit. ml_events (w_ledger v) = ml_events (w_ledger w2) @ [commit] \<and> ge_event_type (pe_event commit) = commit_type)
     | Inl e \<Rightarrow> q = Inl e \<and> (\<not> blank (exn_str e) \<longrightarrow> w_pending v = w_pending w \<and>
         (\<exists>failure. ml_events (w_ledger v) = ml_events (w_ledger w2) @ [failure] \<and> ge_event_type (pe_event failure) = failure_type))"
    using two_phase_memory [OF assms(1) result_ops(2) assms(3) uuid_str_nonblank problem_body_frames assms(4)
        assms(6) [unfolded submit_problem_report_def]]
    unfolding result_ops(4)
    by (elim exE conjE) (rule that, auto simp: intent_type_def commit_type_def failure_type_def split: sum.splits)
  have tasks: "w_tasks w1 = w_tasks w" "w_tasks v = w_tasks w2" using *(2,3) by (simp_all add: same_tasks_def)
  note body = problem_body_run [OF *(4) assms(3), of i category description, unfolded *(1) tasks(1)]
  show "w_tasks v = w_tasks w" using body tasks by (auto split: option.splits if_splits)
  show "case dict_get (w_tasks w) i of
       None \<Rightarrow> q = Inl (Exn KeyError (''UUID('' @ py_repr (uuid_str i) @ '')'')) \<and> records w v [intent_type, failure_type]
     | Some t \<Rightarrow>
         if ts_cluster_id t \<noteq> Some c then q = Inl (unauthorized_result c i) \<and> records w v [intent_type, failure_type]
         else if ts_current_status t \<noteq> IN_PROGRESS then
           q = Inl (invalid_result_state i (ts_current_status t) ''submit_problem_report'') \<and> records w v [intent_type, failure_type]
         else (\<exists>x. q = Inr x \<and> prv_description (so_result x) = description \<and> prv_category (so_result x) = category) \<and>
           records w v [intent_type, ''executive.task.problem_reported'', commit_type] \<and>
           ge_actor_id (new_events w v ! 1) = c"
    using body outcome *(5,6) key result_messages
    by (auto simp: records_def new_events_def split: option.splits if_splits)
qed

text \<open>A task in progress.\<close>

definition working_task :: task_state where
  "working_task = example_task\<lparr>ts_current_status := IN_PROGRESS\<rparr>"

lemma report_spec_witness:
  "let w = example_world [(7, working_task)] 5; (r, w') = submit_result memory_append_event 7 ''cluster-1'' [(''ok'', PyBool True)] w in
   \<not> isl r \<and> dict_get (w_tasks w') 7 = Some (working_task\<lparr>ts_current_status := REPORTED, ts_state_entered_at := 5\<rparr>) \<and>
   records w w' [intent_type, ''executive.task.reported'', commit_type]"
proof -
  let ?w = "example_world [(7, working_task)] 5"
  obtain r w' where run: "submit_result memory_append_event 7 ''cluster-1'' [(''ok'', PyBool True)] ?w = (r, w')" by fastforce
  obtain q v where run2: "submit_problem_report memory_append_event 7 ''cluster-1'' BLOCKED ''stuck'' ?w = (q, v)" by fastforce
  have c: "\<not> blank ''cluster-1''" by code_simp
  have t: "task_ok working_task" "ts_task_id working_task = 7" by code_simp+
  have w: "dict_get (w_tasks ?w) 7 = Some working_task" "w_clock ?w k = 5" "w_tasks ?w = [(7, working_task)]" for k
    by (simp_all add: example_world_def dict_get_def)
  have d: "dict_get [(7 :: uuid, t)] 7 = Some t" for t :: task_state by (simp add: dict_get_def)
  have s: "ts_cluster_id working_task = Some ''cluster-1''" "ts_current_status working_task = IN_PROGRESS"
    by (simp_all add: working_task_def example_task_def)
  have ok: "memory_inv (w_ledger ?w)" "tasks_ok ?w" "dict_get (w_pending ?w) (w_uuid ?w (w_uuid_draws ?w)) = None"
    using t by (auto simp: example_world_def tasks_ok_def dict_ok_def dict_get_def split: if_splits)
  from report_spec [OF ok(1,2) c ok(3) run run2] show ?thesis
    by (simp add: consent_spec_def w d s Let_def run)
qed

end
