(* ===== verification/Audit_Proof.thy ===== *)
theory Audit_Proof
  imports Merkle Validators Governance_World
begin

text \<open>
  Proofs that a ledger is complete (\<open>src/application/services/governance/ledger_proof_service.py\<close>, with the proof
  objects of \<open>src/domain/governance/audit/completeness_proof.py\<close>): the service reads the whole ledger in batches,
  checks the links between its events, and hands out the first and last hash, the count and the Merkle root. The
  ledger is asked through \<open>count_events\<close> and \<open>read_events\<close> (locale \<open>event_reader\<close>); the event emitter is a parameter.
\<close>

section \<open>Proof objects\<close>

record hash_chain_proof =
  hp_genesis_hash :: string
  hp_latest_hash :: string
  hp_total_events :: int
  hp_algorithm :: string
  hp_chain_valid :: bool
  hp_first_sequence :: int
  hp_last_sequence :: int

definition mk_hash_chain_proof :: "hash_chain_proof \<Rightarrow> exn + hash_chain_proof" where
  "mk_hash_chain_proof p =
     (if hp_total_events p < 0 then
        Inl (Exn ValueError (''total_events must be non-negative, got '' @ show_int (hp_total_events p)))
      else if hp_total_events p = 0 then
        (if hp_genesis_hash p \<noteq> [] \<or> hp_latest_hash p \<noteq> [] then
           Inl (Exn ValueError ''genesis_hash and latest_hash must be empty for zero events'')
         else if hp_first_sequence p \<noteq> 0 \<or> hp_last_sequence p \<noteq> 0 then
           Inl (Exn ValueError ''first_sequence and last_sequence must be 0 for zero events'')
         else Inr p)
      else if hp_genesis_hash p = [] \<or> hp_latest_hash p = [] then
        Inl (Exn ValueError ''genesis_hash and latest_hash required for non-empty chain'')
      else if hp_first_sequence p < 1 then
        Inl (Exn ValueError (''first_sequence must be >= 1 for non-empty chain, got '' @ show_int (hp_first_sequence p)))
      else if hp_last_sequence p < hp_first_sequence p then
        Inl (Exn ValueError (''last_sequence ('' @ show_int (hp_last_sequence p) @ '') must be >= first_sequence ('' @
          show_int (hp_first_sequence p) @ '')''))
      else Inr p)"

record completeness_proof =
  cp_proof_id :: uuid
  cp_generated_at :: datetime
  cp_hash_chain_proof :: hash_chain_proof
  cp_merkle_root :: string
  cp_total_events :: int
  cp_latest_sequence :: int
  cp_algorithm :: string

definition mk_completeness_proof :: "completeness_proof \<Rightarrow> exn + completeness_proof" where
  "mk_completeness_proof p =
     (if cp_total_events p \<noteq> hp_total_events (cp_hash_chain_proof p) then
        Inl (Exn ValueError (''total_events mismatch: proof has '' @ show_int (cp_total_events p) @
          '', hash_chain_proof has '' @ show_int (hp_total_events (cp_hash_chain_proof p))))
      else if cp_algorithm p \<noteq> hp_algorithm (cp_hash_chain_proof p) then
        Inl (Exn ValueError (''algorithm mismatch: proof has '' @ py_repr (cp_algorithm p) @
          '', hash_chain_proof has '' @ py_repr (hp_algorithm (cp_hash_chain_proof p))))
      else Inr p)"

section \<open>Reading the whole ledger\<close>

text \<open>The loop \<open>while len(all_events) < total\<close>: a batch that is not empty brings it closer to the end.\<close>

function read_batches ::
  "(ledger_read_options option \<Rightarrow> exn + persisted_event list) \<Rightarrow> int \<Rightarrow> persisted_event list \<Rightarrow> int
    \<Rightarrow> exn + persisted_event list" where
  "read_batches read_events total_events all_events offset =
     (if int (length all_events) < total_events then
        (case read_events (Some (default_read_options\<lparr>ro_limit := 10000, ro_offset := offset\<rparr>)) of
           Inl e \<Rightarrow> Inl e
         | Inr batch \<Rightarrow>
             if batch = [] then Inr all_events
             else read_batches read_events total_events (all_events @ batch) (offset + 10000))
      else Inr all_events)"
  by pat_completeness auto
termination
  by (relation "measure (\<lambda>(_, n, xs, _). nat (n - int (length xs)))") (auto simp: length_greater_0_conv [symmetric] simp del: length_greater_0_conv)

declare read_batches.simps [simp del]

definition get_all_events ::
  "exn + int \<Rightarrow> (ledger_read_options option \<Rightarrow> exn + persisted_event list) \<Rightarrow> exn + persisted_event list" where
  "get_all_events count_events read_events =
     (case count_events of
        Inl e \<Rightarrow> Inl e
      | Inr total_events \<Rightarrow> if total_events = 0 then Inr [] else read_batches read_events total_events [] 0)"

section \<open>The service\<close>

definition is_valid_genesis_prev_hash :: "string \<Rightarrow> bool" where
  "is_valid_genesis_prev_hash prev_hash =
     (if prev_hash = [] then True
      else if take 64 prev_hash = zeros64 then True
      else if CHR '':'' \<in> set prev_hash then take 64 (snd (split_once (CHR '':'') prev_hash)) = zeros64
      else False)"

definition detect_algorithm :: "string \<Rightarrow> string" where
  "detect_algorithm hash_value =
     (if CHR '':'' \<in> set hash_value then py_lower (fst (split_once (CHR '':'') hash_value)) else default_algorithm)"

abbreviation pe_hash :: "persisted_event \<Rightarrow> string" where
  "pe_hash p \<equiv> ge_hash (pe_event p)"

abbreviation pe_prev_hash :: "persisted_event \<Rightarrow> string" where
  "pe_prev_hash p \<equiv> ge_prev_hash (pe_event p)"

text \<open>The loop over neighbours, which stops at the first bad link.\<close>

fun links_valid :: "persisted_event list \<Rightarrow> bool" where
  "links_valid (prev_event # curr_event # events) =
     (if pe_prev_hash curr_event \<noteq> pe_hash prev_event then False
      else if pe_sequence curr_event \<noteq> pe_sequence prev_event + 1 then False
      else links_valid (curr_event # events))"
| "links_valid events = True"

definition proof_of_chain :: "persisted_event list \<Rightarrow> exn + hash_chain_proof" where
  "proof_of_chain events =
     (if events = [] then
        mk_hash_chain_proof \<lparr>hp_genesis_hash = [], hp_latest_hash = [], hp_total_events = 0,
          hp_algorithm = default_algorithm, hp_chain_valid = True, hp_first_sequence = 0, hp_last_sequence = 0\<rparr>
      else
        let genesis = hd events; algorithm = detect_algorithm (pe_hash genesis) in
        if \<not> is_valid_genesis_prev_hash (pe_prev_hash genesis) then
          mk_hash_chain_proof \<lparr>hp_genesis_hash = pe_hash genesis, hp_latest_hash = pe_hash (last events),
            hp_total_events = int (length events), hp_algorithm = algorithm, hp_chain_valid = False,
            hp_first_sequence = pe_sequence genesis, hp_last_sequence = pe_sequence (last events)\<rparr>
        else
          mk_hash_chain_proof \<lparr>hp_genesis_hash = pe_hash genesis, hp_latest_hash = pe_hash (last events),
            hp_total_events = int (length events), hp_algorithm = algorithm, hp_chain_valid = links_valid events,
            hp_first_sequence = pe_sequence genesis, hp_last_sequence = pe_sequence (last events)\<rparr>)"

definition ledger_merkle_root :: "hash_lib \<Rightarrow> persisted_event list \<Rightarrow> exn + string" where
  "ledger_merkle_root lib events =
     (if events = [] then Inr (default_algorithm @ '':empty'')
      else compute_merkle_root lib (map pe_hash events) (detect_algorithm (pe_hash (hd events))))"

definition emit_proof_generated_event ::
  "(string \<Rightarrow> string \<Rightarrow> payload \<Rightarrow> ('l world, unit) act) \<Rightarrow> uuid \<Rightarrow> uuid \<Rightarrow> datetime \<Rightarrow> int \<Rightarrow> string \<Rightarrow> bool
    \<Rightarrow> ('l world, unit) act" where
  "emit_proof_generated_event emit proof_id requester_id generated_at total_events root chain_valid =
     emit ''audit.proof.generated'' (uuid_str requester_id)
       [(''proof_id'', PyStr (uuid_str proof_id)), (''requester_id'', PyStr (uuid_str requester_id)),
        (''generated_at'', PyStr (isoformat generated_at)), (''total_events'', PyInt total_events),
        (''merkle_root'', PyStr root), (''chain_valid'', PyBool chain_valid)]"

text \<open>All events of the world's ledger.\<close>

definition read_ledger ::
  "('l \<Rightarrow> exn + int) \<Rightarrow> ('l \<Rightarrow> ledger_read_options option \<Rightarrow> exn + persisted_event list)
    \<Rightarrow> ('l world, persisted_event list) act" where
  "read_ledger count_events read_events =
     (\<lambda>w. (get_all_events (count_events (w_ledger w)) (read_events (w_ledger w)), w))"

definition generate_completeness_proof ::
  "hash_lib \<Rightarrow> ('l \<Rightarrow> exn + int) \<Rightarrow> ('l \<Rightarrow> ledger_read_options option \<Rightarrow> exn + persisted_event list)
    \<Rightarrow> (string \<Rightarrow> string \<Rightarrow> payload \<Rightarrow> ('l world, unit) act) \<Rightarrow> uuid \<Rightarrow> ('l world, completeness_proof) act" where
  "generate_completeness_proof lib count_events read_events emit requester_id =
     act_bind time_now (\<lambda>now.
     act_bind uuid4 (\<lambda>proof_id.
     act_bind (read_ledger count_events read_events) (\<lambda>events.
     act_bind (act_lift (proof_of_chain events)) (\<lambda>chain.
     if \<not> hp_chain_valid chain then
       act_raise (Exn ProofGenerationError ''Hash chain verification failed - ledger may be corrupted'')
     else
       act_bind (act_lift (ledger_merkle_root lib events)) (\<lambda>root.
       act_bind (act_lift (mk_completeness_proof \<lparr>cp_proof_id = proof_id, cp_generated_at = now,
           cp_hash_chain_proof = chain, cp_merkle_root = root, cp_total_events = int (length events),
           cp_latest_sequence = (if events = [] then 0 else pe_sequence (last events)),
           cp_algorithm = hp_algorithm chain\<rparr>)) (\<lambda>completeness.
       act_bind (emit_proof_generated_event emit proof_id requester_id now (int (length events)) root
           (hp_chain_valid chain)) (\<lambda>_.
       act_return completeness)))))))"

definition generate_hash_chain_proof ::
  "('l \<Rightarrow> exn + int) \<Rightarrow> ('l \<Rightarrow> ledger_read_options option \<Rightarrow> exn + persisted_event list) \<Rightarrow> ('l world, hash_chain_proof) act" where
  "generate_hash_chain_proof count_events read_events =
     act_bind (read_ledger count_events read_events) (\<lambda>events. act_lift (proof_of_chain events))"

text \<open>The search for an event, with its index.\<close>

fun find_indexed :: "(persisted_event \<Rightarrow> bool) \<Rightarrow> int \<Rightarrow> persisted_event list \<Rightarrow> (int \<times> persisted_event) option" where
  "find_indexed wanted i [] = None"
| "find_indexed wanted i (event # events) = (if wanted event then Some (i, event) else find_indexed wanted (i + 1) events)"

definition merkle_proof_of ::
  "hash_lib \<Rightarrow> persisted_event list \<Rightarrow> int \<Rightarrow> uuid \<Rightarrow> exn + merkle_proof" where
  "merkle_proof_of lib events index event_id =
     (case mk_merkle_tree lib (map pe_hash events) (detect_algorithm (pe_hash (hd events))) of
        Inl e \<Rightarrow> Inl e
      | Inr tree \<Rightarrow> generate_proof tree index event_id 0)"

definition generate_merkle_proof_for_event ::
  "hash_lib \<Rightarrow> ('l \<Rightarrow> exn + int) \<Rightarrow> ('l \<Rightarrow> ledger_read_options option \<Rightarrow> exn + persisted_event list) \<Rightarrow> uuid
    \<Rightarrow> ('l world, merkle_proof) act" where
  "generate_merkle_proof_for_event lib count_events read_events event_id =
     act_bind (read_ledger count_events read_events) (\<lambda>events.
     if events = [] then act_raise (Exn ProofGenerationError ''Cannot generate proof from empty ledger'')
     else
       (case find_indexed (\<lambda>p. ge_event_id (pe_event p) = event_id) 0 events of
          None \<Rightarrow> act_raise (Exn ProofGenerationError (''Event '' @ uuid_str event_id @ '' not found in ledger''))
        | Some (index, _) \<Rightarrow> act_lift (merkle_proof_of lib events index event_id)))"

definition generate_merkle_proof_for_sequence ::
  "hash_lib \<Rightarrow> ('l \<Rightarrow> exn + int) \<Rightarrow> ('l \<Rightarrow> ledger_read_options option \<Rightarrow> exn + persisted_event list) \<Rightarrow> int
    \<Rightarrow> ('l world, merkle_proof) act" where
  "generate_merkle_proof_for_sequence lib count_events read_events sequence =
     act_bind (read_ledger count_events read_events) (\<lambda>events.
     if events = [] then act_raise (Exn ProofGenerationError ''Cannot generate proof from empty ledger'')
     else
       (case find_indexed (\<lambda>p. pe_sequence p = sequence) 0 events of
          None \<Rightarrow> act_raise (Exn ProofGenerationError (''Sequence '' @ show_int sequence @ '' not found in ledger''))
        | Some (index, target) \<Rightarrow> act_lift (merkle_proof_of lib events index (ge_event_id (pe_event target)))))"

definition verify_completeness_proof :: "hash_lib \<Rightarrow> completeness_proof \<Rightarrow> persisted_event list \<Rightarrow> exn + bool" where
  "verify_completeness_proof lib completeness events =
     (if int (length events) \<noteq> cp_total_events completeness then Inr False
      else
        (case proof_of_chain events of
           Inl e \<Rightarrow> Inl e
         | Inr computed \<Rightarrow>
             if \<not> hp_chain_valid computed then Inr False
             else if hp_genesis_hash computed \<noteq> hp_genesis_hash (cp_hash_chain_proof completeness) then Inr False
             else if hp_latest_hash computed \<noteq> hp_latest_hash (cp_hash_chain_proof completeness) then Inr False
             else
               (case ledger_merkle_root lib events of
                  Inl e \<Rightarrow> Inl e
                | Inr root \<Rightarrow> Inr (root = cp_merkle_root completeness))))"

section \<open>Ledgers that can be read back\<close>

text \<open>
  What the service relies on: the count is the number of events, and a batch is a stretch of the events in order.
\<close>

locale event_reader =
  fixes count_events :: "'l \<Rightarrow> exn + int"
    and read_events :: "'l \<Rightarrow> ledger_read_options option \<Rightarrow> exn + persisted_event list"
    and log :: "'l \<Rightarrow> persisted_event list"
    and readable :: "'l \<Rightarrow> bool"
  assumes count: "readable l \<Longrightarrow> count_events l = Inr (int (length (log l)))"
    and batch: "readable l \<Longrightarrow> 0 \<le> k \<Longrightarrow>
      read_events l (Some (default_read_options\<lparr>ro_limit := 10000, ro_offset := k\<rparr>)) = Inr (take 10000 (drop (nat k) (log l)))"
begin

lemma read_batches_log:
  assumes "readable l" and "0 \<le> k"
  shows "read_batches (read_events l) (int (length (log l))) (take (nat k) (log l)) k = Inr (log l)"
  using assms(2)
proof (induction "length (log l) - nat k" arbitrary: k rule: less_induct)
  case less
  show ?case
  proof (cases "nat k < length (log l)")
    case True
    have "nat (k + 10000) = nat k + 10000" using less.prems by (simp add: nat_add_distrib)
    then have "take (nat k) (log l) @ take 10000 (drop (nat k) (log l)) = take (nat (k + 10000)) (log l)"
      by (simp add: take_add)
    then show ?thesis
      using less.hyps [of "k + 10000"] less.prems True batch [OF assms(1) less.prems]
      by (subst read_batches.simps) (auto simp: min_absorb2 nat_add_distrib nat_less_iff)
  qed (subst read_batches.simps, simp add: min_absorb1)
qed

lemma all_events: "readable l \<Longrightarrow> get_all_events (count_events l) (read_events l) = Inr (log l)"
  using read_batches_log [of l 0] by (simp add: get_all_events_def count)

lemma read_ledger_log: "readable (w_ledger w) \<Longrightarrow> read_ledger count_events read_events w = (Inr (log (w_ledger w)), w)"
  by (simp add: read_ledger_def all_events)

end

text \<open>The PostgreSQL ledger is such a ledger as long as its rows pass the validation of event metadata.\<close>

definition table_readable :: "ledger_table \<Rightarrow> bool" where
  "table_readable t \<longleftrightarrow> table_valid t \<and> (\<forall>p\<in>set (table_log t). metadata_ok (ge_metadata (pe_event p)))"

definition postgres_count :: "ledger_table \<Rightarrow> exn + int" where
  "postgres_count t = Inr (postgres_count_events t None)"

lemma map_raise_Inr: "\<forall>x\<in>set xs. f x = Inr (g x) \<Longrightarrow> map_raise f xs = Inr (map g xs)"
  by (induction xs) auto

interpretation postgres_reader: event_reader postgres_count postgres_read_events table_log table_readable
proof
  have all: "filter (row_matches (default_read_options\<lparr>ro_limit := n, ro_offset := k\<rparr>)) rows = rows"
    "filter (row_matches default_read_options) rows = rows" for n k rows
    by (simp_all add: row_matches_def default_read_options_def)
  show "postgres_count t = Inr (int (length (table_log t)))" if "table_readable t" for t
    by (simp add: postgres_count_def postgres_count_events_def all table_log_def)
  show "postgres_read_events t (Some (default_read_options\<lparr>ro_limit := 10000, ro_offset := k\<rparr>)) =
      Inr (take 10000 (drop (nat k) (table_log t)))" if t: "table_readable t" and k: "0 \<le> k" for t k
  proof -
    have "\<forall>row\<in>set (lt_rows t). row_to_persisted_event row = Inr (row_event row)"
      using t by (auto simp: table_readable_def table_valid_def table_log_def intro!: row_to_persisted_event_ok)
    then have "map_raise row_to_persisted_event (take 10000 (drop (nat k) (lt_rows t))) =
        Inr (map row_event (take 10000 (drop (nat k) (lt_rows t))))"
      by (intro map_raise_Inr) (auto dest: in_set_takeD in_set_dropD)
    then show ?thesis
      using t k by (simp add: postgres_read_events_def all Let_def rows_by_sequence_sorted table_readable_def
          table_valid_def table_log_def take_map drop_map)
  qed
qed

text \<open>
  \<open>InMemoryGovernanceLedger\<close> has no \<open>count_events\<close>. For the examples, which need a ledger that keeps hashes, a
  \<open>count_events\<close> with the contract of the port is added to it: a parameter of the examples, not code of the repository.
\<close>

lemma py_slice_window: "0 \<le> k \<Longrightarrow> 0 \<le> n \<Longrightarrow> py_slice xs k (k + n) = take (nat n) (drop (nat k) xs)"
proof -
  assume "0 \<le> k" "0 \<le> n"
  moreover have "take (min (length xs) (a + m) - min (length xs) a) (drop (min (length xs) a) xs) = take m (drop a xs)" for a m
    by (cases "a < length xs") (auto simp: min_def)
  ultimately show ?thesis by (simp add: py_slice_def py_slice_bound_def nat_add_distrib min.commute)
qed

definition example_count :: "memory_ledger \<Rightarrow> exn + int" where
  "example_count l = Inr (int (length (ml_events l)))"

interpretation example_reader: event_reader example_count memory_read_events ml_events "\<lambda>_. True"
proof
  show "example_count l = Inr (int (length (ml_events l)))" for l
    by (simp add: example_count_def)
  show "memory_read_events l (Some (default_read_options\<lparr>ro_limit := 10000, ro_offset := k\<rparr>)) =
      Inr (take 10000 (drop (nat k) (ml_events l)))" if "0 \<le> k" for l k
    using py_slice_window [OF that, of 10000 "ml_events l"]
    by (simp add: memory_read_events_def default_read_options_def)
qed

section \<open>What the service says of a chain\<close>

lemma links_valid_nth:
  "links_valid es \<longleftrightarrow> (\<forall>i. Suc i < length es \<longrightarrow> pe_prev_hash (es ! Suc i) = pe_hash (es ! i) \<and>
     pe_sequence (es ! Suc i) = pe_sequence (es ! i) + 1)"
proof (induction es rule: links_valid.induct)
  case (1 p q es)
  have "(\<forall>i. Suc i < length (p # q # es) \<longrightarrow> P i) \<longleftrightarrow> P 0 \<and> (\<forall>i. Suc i < length (q # es) \<longrightarrow> P (Suc i))" for P
    by (metis Suc_less_eq length_Cons not0_implies_Suc zero_less_Suc)
  then show ?case using 1 by (simp add: all_conj_distrib)
qed simp_all

lemma links_valid_sequence: "links_valid es \<Longrightarrow> i < length es \<Longrightarrow> pe_sequence (es ! i) = pe_sequence (es ! 0) + int i"
  by (induction i) (auto simp: links_valid_nth)

lemma chain_ok_nth:
  "chain_ok lib prev es \<Longrightarrow> Suc i < length es \<Longrightarrow> ge_hash (es ! i) \<noteq> [] \<and> ge_prev_hash (es ! Suc i) = ge_hash (es ! i)"
proof (induction es arbitrary: prev i)
  case (Cons e es)
  show ?case
  proof (cases i)
    case 0
    then show ?thesis using Cons.prems by (cases es) (auto simp: link_ok_def)
  next
    case (Suc j)
    then show ?thesis using Cons.prems Cons.IH [of "Some e" j] by simp
  qed
qed simp

lemma py_lower_supported: "a \<in> supported_algorithms \<Longrightarrow> py_lower a = a"
  by (auto simp: supported_algorithms_def py_lower_def lower_char_def)

lemma hashed_event_algorithm:
  assumes "event_hash_ok lib e"
  shows "\<exists>d. digest_of lib (detect_algorithm (ge_hash e)) = Some d"
proof -
  obtain a x where a: "extract_algorithm_from_hash (ge_hash e) = Inr a" "compute_hash lib x a = Inr (ge_hash e)"
    using assms by (auto simp: event_hash_ok_def)
  then obtain d where d: "digest_of lib a = Some d" "ge_hash e = prefixed a (d x)"
    by (auto simp: compute_hash_Inr)
  have sup: "a \<in> supported_algorithms" by (rule digest_of_supported [OF d(1)])
  have "detect_algorithm (ge_hash e) = a"
    using split_prefixed [OF sup] py_lower_supported [OF sup] by (simp add: detect_algorithm_def d(2) prefixed_def)
  then show ?thesis using d(1) by blast
qed

lemma genesis_prev_hash_valid: "is_genesis_hash h \<Longrightarrow> is_valid_genesis_prev_hash h"
  by (auto simp: is_genesis_hash_def is_valid_genesis_prev_hash_def extract_hex_digest_def zeros64_def
      split: if_splits sum.splits)

text \<open>A chain with consecutive sequence numbers.\<close>

definition lawful_log :: "hash_lib \<Rightarrow> persisted_event list \<Rightarrow> bool" where
  "lawful_log lib es \<longleftrightarrow> chain_ok lib None (map pe_event es) \<and> map pe_sequence es = map int [1..<length es + 1]"

lemma numbered_nth:
  assumes "map pe_sequence es = map int [1..<length es + 1]" and "i < length es"
  shows "pe_sequence (es ! i) = int i + 1"
proof -
  have "pe_sequence (es ! i) = map pe_sequence es ! i" using assms(2) by simp
  then show ?thesis unfolding assms(1) using assms(2) by (simp del: upt_Suc)
qed

lemma lawful_log_nth:
  assumes "lawful_log lib es" and "i < length es"
  shows "pe_sequence (es ! i) = int i + 1" and "event_hash_ok lib (pe_event (es ! i))"
proof -
  show "pe_sequence (es ! i) = int i + 1" using assms numbered_nth unfolding lawful_log_def by blast
  have "chain_ok lib None (take i (map pe_event es) @ drop i (map pe_event es))" using assms(1) by (simp add: lawful_log_def)
  then have "chain_ok lib (if take i (map pe_event es) = [] then None else Some (last (take i (map pe_event es))))
      (drop i (map pe_event es))"
    by (simp only: chain_ok_append)
  then show "event_hash_ok lib (pe_event (es ! i))"
    using assms(2) by (simp add: Cons_nth_drop_Suc [symmetric] del: append_take_drop_id)
qed

lemma lawful_log_links: "lawful_log lib es \<Longrightarrow> links_valid es"
  unfolding links_valid_nth
  using chain_ok_nth [of lib None "map pe_event es"] lawful_log_nth(1) [of lib es] by (auto simp: lawful_log_def)

lemma proof_of_lawful_log:
  assumes "lawful_log lib es"
  shows "proof_of_chain es = Inr \<lparr>hp_genesis_hash = (if es = [] then [] else pe_hash (hd es)),
      hp_latest_hash = (if es = [] then [] else pe_hash (last es)), hp_total_events = int (length es),
      hp_algorithm = (if es = [] then default_algorithm else detect_algorithm (pe_hash (hd es))), hp_chain_valid = True,
      hp_first_sequence = (if es = [] then 0 else 1), hp_last_sequence = int (length es)\<rparr>"
proof (cases "es = []")
  case False
  then have n: "0 < length es" by simp
  have first: "pe_sequence (hd es) = 1" "event_hash_ok lib (pe_event (hd es))"
    using lawful_log_nth [OF assms n] False by (simp_all add: hd_conv_nth)
  have latest: "pe_sequence (last es) = int (length es)" "event_hash_ok lib (pe_event (last es))"
    using lawful_log_nth [OF assms, of "length es - 1"] False n by (simp_all add: last_conv_nth)
  have genesis: "is_valid_genesis_prev_hash (pe_prev_hash (hd es))"
    using assms False by (cases es) (auto simp: lawful_log_def link_ok_def intro: genesis_prev_hash_valid)
  show ?thesis
    using False first latest genesis lawful_log_links [OF assms] event_hash_okD n
    by (simp add: proof_of_chain_def Let_def mk_hash_chain_proof_def Suc_le_eq)
qed (simp add: proof_of_chain_def mk_hash_chain_proof_def)

text \<open>Its Merkle tree exists, and its proofs verify against the root of the completeness proof.\<close>

lemma lawful_log_tree:
  assumes "lawful_log lib es" and "es \<noteq> []"
  obtains t where "mk_merkle_tree lib (map pe_hash es) (detect_algorithm (pe_hash (hd es))) = Inr t"
    and "ledger_merkle_root lib es = Inr (merkle_root t)"
proof -
  have "event_hash_ok lib (pe_event (hd es))"
    using lawful_log_nth(2) [OF assms(1), of 0] assms(2) by (simp add: hd_conv_nth)
  then obtain d where "digest_of lib (detect_algorithm (pe_hash (hd es))) = Some d" using hashed_event_algorithm by blast
  then obtain t where t: "mk_merkle_tree lib (map pe_hash es) (detect_algorithm (pe_hash (hd es))) = Inr t"
    using mk_merkle_tree_available assms(2) by (metis Nil_is_map_conv)
  then show thesis
    using that [of t] assms(2) by (simp add: ledger_merkle_root_def compute_merkle_root_def)
qed

lemma lawful_log_root: "lawful_log lib es \<Longrightarrow> \<exists>root. ledger_merkle_root lib es = Inr root"
  by (cases "es = []") (auto simp: ledger_merkle_root_def elim: lawful_log_tree)

lemma find_indexed_nth:
  "(\<And>j. j < length es \<Longrightarrow> wanted (es ! j) \<longleftrightarrow> j = i) \<Longrightarrow> i < length es \<Longrightarrow> find_indexed wanted k es = Some (k + int i, es ! i)"
proof (induction es arbitrary: i k)
  case (Cons e es)
  show ?case
  proof (cases i)
    case 0
    then show ?thesis using Cons.prems(1) [of 0] by simp
  next
    case (Suc m)
    then show ?thesis
      using Cons.prems(1) [of 0] Cons.prems(1) [of "Suc j" for j] Cons.prems(2) Cons.IH [of m "k + 1"] by simp
  qed
qed simp

text \<open>An event emitter that never raises; it may change anything.\<close>

definition emitter_works :: "(string \<Rightarrow> string \<Rightarrow> payload \<Rightarrow> ('s, unit) act) \<Rightarrow> bool" where
  "emitter_works emit \<longleftrightarrow> (\<forall>ty a p s. \<exists>s'. emit ty a p s = (Inr (), s'))"

context event_reader
begin

lemma lawful_log_generates:
  assumes "readable (w_ledger w)" and law: "lawful_log lib (log (w_ledger w))"
  shows "\<exists>p. generate_completeness_proof lib count_events read_events emit requester w =
      act_bind (emit_proof_generated_event emit (w_uuid w (w_uuid_draws w)) requester (w_clock w (w_clock_reads w))
          (int (length (log (w_ledger w)))) (cp_merkle_root p) True) (\<lambda>_. act_return p)
        (w\<lparr>w_clock_reads := Suc (w_clock_reads w), w_uuid_draws := Suc (w_uuid_draws w)\<rparr>) \<and>
    verify_completeness_proof lib p (log (w_ledger w)) = Inr True \<and>
    cp_total_events p = int (length (log (w_ledger w))) \<and> ledger_merkle_root lib (log (w_ledger w)) = Inr (cp_merkle_root p)"
proof -
  let ?es = "log (w_ledger w)"
  let ?w1 = "w\<lparr>w_clock_reads := Suc (w_clock_reads w), w_uuid_draws := Suc (w_uuid_draws w)\<rparr>"
  obtain root where root: "ledger_merkle_root lib ?es = Inr root" using lawful_log_root [OF law] by blast
  have read: "read_ledger count_events read_events ?w1 = (Inr ?es, ?w1)" using read_ledger_log [of ?w1] assms(1) by simp
  obtain c where c: "proof_of_chain ?es = Inr c" "hp_chain_valid c" "hp_total_events c = int (length ?es)" using proof_of_lawful_log [OF law] by simp
  let ?p = "\<lparr>cp_proof_id = w_uuid w (w_uuid_draws w), cp_generated_at = w_clock w (w_clock_reads w), cp_hash_chain_proof = c,
    cp_merkle_root = root, cp_total_events = int (length ?es),
    cp_latest_sequence = (if ?es = [] then 0 else pe_sequence (last ?es)), cp_algorithm = hp_algorithm c\<rparr>"
  have "mk_completeness_proof ?p = Inr ?p" by (simp add: mk_completeness_proof_def c(3))
  then have "generate_completeness_proof lib count_events read_events emit requester w =
      act_bind (emit_proof_generated_event emit (w_uuid w (w_uuid_draws w)) requester (w_clock w (w_clock_reads w))
          (int (length ?es)) root True) (\<lambda>_. act_return ?p) ?w1"
    using root c read by (simp add: generate_completeness_proof_def act_bind_def)
  moreover have "verify_completeness_proof lib ?p ?es = Inr True"
    using root c by (simp add: verify_completeness_proof_def)
  ultimately show ?thesis using root by (intro exI [of _ ?p]) simp
qed

lemma lawful_log_proved:
  assumes "readable (w_ledger w)" and law: "lawful_log lib (log (w_ledger w))"
    and emit: "emitter_works emit"
  shows "\<exists>p w'. generate_completeness_proof lib count_events read_events emit requester w = (Inr p, w') \<and>
    verify_completeness_proof lib p (log (w_ledger w)) = Inr True \<and>
    cp_total_events p = int (length (log (w_ledger w))) \<and> ledger_merkle_root lib (log (w_ledger w)) = Inr (cp_merkle_root p)"
proof -
  have sent: "\<exists>s'. act_bind (emit_proof_generated_event emit u r t n h b) (\<lambda>_. act_return p) s = (Inr p, s')" for p u r t n h b s
  proof -
    obtain s' where "emit_proof_generated_event emit u r t n h b s = (Inr (), s')"
      using emit unfolding emit_proof_generated_event_def emitter_works_def by blast
    then show ?thesis by (simp add: act_bind_def)
  qed
  show ?thesis using lawful_log_generates [OF assms(1) law, of emit requester] sent by metis
qed

lemma lawful_event_proved:
  assumes "readable (w_ledger w)" and law: "lawful_log lib (log (w_ledger w))" and i: "i < length (log (w_ledger w))"
    and root: "ledger_merkle_root lib (log (w_ledger w)) = Inr root"
  shows "\<exists>m. generate_merkle_proof_for_sequence lib count_events read_events (int i + 1) w = (Inr m, w) \<and>
    mp_event_hash m = pe_hash (log (w_ledger w) ! i) \<and> mp_merkle_root m = root \<and> mv_is_valid (verify_merkle_proof lib m)"
proof -
  let ?es = "log (w_ledger w)"
  have ne: "?es \<noteq> []" using i by auto
  obtain t where t: "mk_merkle_tree lib (map pe_hash ?es) (detect_algorithm (pe_hash (hd ?es))) = Inr t"
      "ledger_merkle_root lib ?es = Inr (merkle_root t)"
    using lawful_log_tree [OF law ne] by blast
  have find: "find_indexed (\<lambda>p. pe_sequence p = int i + 1) 0 ?es = Some (int i, ?es ! i)"
    using find_indexed_nth [of ?es "\<lambda>p. pe_sequence p = int i + 1" i 0] lawful_log_nth(1) [OF law] i by simp
  obtain m where "generate_proof t (int i) (ge_event_id (pe_event (?es ! i))) 0 = Inr m" "mp_event_hash m = pe_hash (?es ! i)"
      "mp_merkle_root m = merkle_root t" "mv_is_valid (verify_merkle_proof lib m)"
    using generated_proof_verifies [OF t(1), of "int i" "ge_event_id (pe_event (?es ! i))" 0] i by auto
  then show ?thesis
    using ne find t root read_ledger_log [OF assms(1)]
    by (simp add: generate_merkle_proof_for_sequence_def act_bind_def merkle_proof_of_def)
qed

end

section \<open>What an accepted proof commits to\<close>

text \<open>The digests have 32 bytes.\<close>

definition digests32 :: "hash_lib \<Rightarrow> bool" where
  "digests32 lib \<longleftrightarrow> (\<forall>a d x. digest_of lib a = Some d \<longrightarrow> length (d x) = 32)"

lemma verify_completeness_True:
  assumes "verify_completeness_proof lib p es = Inr True"
  shows "int (length es) = cp_total_events p" and "ledger_merkle_root lib es = Inr (cp_merkle_root p)"
    and "es \<noteq> [] \<Longrightarrow> pe_hash (hd es) = hp_genesis_hash (cp_hash_chain_proof p) \<and>
      pe_hash (last es) = hp_latest_hash (cp_hash_chain_proof p) \<and> links_valid es"
  using assms
  by (auto simp: verify_completeness_proof_def proof_of_chain_def mk_hash_chain_proof_def Let_def split: if_splits sum.splits)

lemma same_hashes_same_links:
  assumes "links_valid es" and "links_valid fs" and "map pe_hash es = map pe_hash fs" and "Suc i < length es"
  shows "pe_prev_hash (es ! Suc i) = pe_prev_hash (fs ! Suc i)"
    and "pe_sequence (es ! Suc i) - pe_sequence (es ! i) = pe_sequence (fs ! Suc i) - pe_sequence (fs ! i)"
proof -
  have "length es = length fs" using map_eq_imp_length_eq [OF assms(3)] .
  moreover from this have "pe_hash (es ! i) = pe_hash (fs ! i)"
    using assms(3,4) by (metis Suc_lessD nth_map)
  ultimately show "pe_prev_hash (es ! Suc i) = pe_prev_hash (fs ! Suc i)"
    "pe_sequence (es ! Suc i) - pe_sequence (es ! i) = pe_sequence (fs ! Suc i) - pe_sequence (fs ! i)"
    using assms(1,2,4) by (simp_all add: links_valid_nth)
qed

text \<open>What went through the validated ledger is lawful, over any ledger that keeps events and numbers without gaps.\<close>

lemma validated_log_lawful:
  assumes "readable_ledger append_event log (\<lambda>e. e) valid get_latest"
    and "\<not> vs_skip_hash_chain vs" and "valid l" and "log l = []"
    and "append_run (validated_append_event vs get_latest append_event) es l = (rs, l')"
    and "\<forall>i<length (log l'). pe_sequence (log l' ! i) = int i + 1"
  shows "lawful_log (vs_lib vs) (log l')"
proof -
  have "chain_ok (vs_lib vs) None (map pe_event (log l'))"
    using readable_ledger.validated_chain_run [OF assms(1) refl assms(2,3) _ assms(5)] assms(4) by simp
  moreover have "map pe_sequence (log l') = map int [1..<length (log l') + 1]"
    using assms(6) by (intro nth_equalityI) (simp_all del: upt_Suc)
  ultimately show ?thesis by (simp add: lawful_log_def)
qed

section \<open>Claims\<close>

text \<open>
  C27: what is written through the validated ledger can be proved complete over every ledger that keeps the contract of
  the ledger port: appends keep the events with their hashes, \<open>get_latest_event\<close>, \<open>count_events\<close> and
  \<open>read_events\<close> answer for the events recorded, and the events are numbered from 1 without gaps. From empty and after
  any appends, accepted or refused, a completeness proof is made that is accepted for the events (the request answers
  it unless the event emitter raises while it announces it), and for every event an inclusion proof is produced that
  verifies against the root in the completeness proof. No ledger of the repository has all of this: the in-memory
  one lacks \<open>get_latest_event\<close> and \<open>count_events\<close>, the PostgreSQL one drops the hashes, see \<open>postgres_never_proved\<close>.
\<close>

theorem validated_ledger_proved:
  assumes "readable_ledger append_event log (\<lambda>e. e) valid get_latest"
    and "event_reader count_events read_events log readable"
    and "\<not> vs_skip_hash_chain vs" and "valid l" and "log l = []"
    and "append_run (validated_append_event vs get_latest append_event) es l = (rs, l')"
    and "readable l'" and "\<forall>i<length (log l'). pe_sequence (log l' ! i) = int i + 1"
    and "w_ledger w = l'"
  shows "\<exists>p. generate_completeness_proof (vs_lib vs) count_events read_events emit requester w =
      act_bind (emit_proof_generated_event emit (w_uuid w (w_uuid_draws w)) requester (w_clock w (w_clock_reads w))
          (int (length (log l'))) (cp_merkle_root p) True) (\<lambda>_. act_return p)
        (w\<lparr>w_clock_reads := Suc (w_clock_reads w), w_uuid_draws := Suc (w_uuid_draws w)\<rparr>) \<and>
    verify_completeness_proof (vs_lib vs) p (log l') = Inr True \<and> cp_total_events p = int (length (log l')) \<and>
    (\<forall>i<length (log l'). \<exists>m.
       generate_merkle_proof_for_sequence (vs_lib vs) count_events read_events (int i + 1) w = (Inr m, w) \<and>
       mp_event_hash m = pe_hash (log l' ! i) \<and> mp_merkle_root m = cp_merkle_root p \<and>
       mv_is_valid (verify_merkle_proof (vs_lib vs) m))"
proof -
  note law = validated_log_lawful [OF assms(1,3-6,8), folded assms(9)] and read = assms(7) [folded assms(9)]
  show ?thesis
    using event_reader.lawful_log_generates [OF assms(2) read law, of emit requester]
      event_reader.lawful_event_proved [OF assms(2) read law] unfolding assms(9) by blast
qed

theorem validated_ledger_proved_witness:
  "let l = snd (append_run (validated_append_event example_validation example_latest memory_append_event)
     (projr (chain_events example_lib [example_event 1, example_event 2] ''sha256'')) memory_ledger_init);
     w = (example_world [] 5)\<lparr>w_ledger := l\<rparr> in
   \<exists>p w'. generate_completeness_proof example_lib example_count memory_read_events (\<lambda>_ _ _. act_return ()) 3 w = (Inr p, w') \<and>
     verify_completeness_proof example_lib p (ml_events l) = Inr True"
proof -
  let ?run = "append_run (validated_append_event example_validation example_latest memory_append_event)
    (projr (chain_events example_lib [example_event 1, example_event 2] ''sha256'')) memory_ledger_init"
  have run: "?run = (fst ?run, snd ?run)" by simp
  have lib: "vs_lib example_validation = example_lib" and skip: "\<not> vs_skip_hash_chain example_validation"
    by (simp_all add: example_validation_def)
  have empty: "ml_events memory_ledger_init = []" by (simp add: memory_ledger_init_def)
  have "memory_inv (snd ?run)"
    using ledger_port.append_run_log [OF memory.validated_port memory_inv_init run] by blast
  then have gapless: "\<forall>i<length (ml_events (snd ?run)). pe_sequence (ml_events (snd ?run) ! i) = int i + 1"
    unfolding memory_inv_def using numbered_nth by blast
  have sent: "\<exists>w'. act_bind (emit_proof_generated_event (\<lambda>_ _ _. act_return ()) u r t n h b) (\<lambda>_. act_return p) w = (Inr p, w')"
    for p u r t n h b and w :: "memory_ledger world"
    by (simp add: emit_proof_generated_event_def act_bind_def)
  let ?w = "(example_world [] 5)\<lparr>w_ledger := snd ?run\<rparr>"
  have ledger: "w_ledger ?w = snd ?run" by simp
  obtain p where "\<exists>w'. generate_completeness_proof example_lib example_count memory_read_events (\<lambda>_ _ _. act_return ()) 3 ?w = (Inr p, w')"
      "verify_completeness_proof example_lib p (ml_events (snd ?run)) = Inr True"
    using validated_ledger_proved [OF example_readable.readable_ledger_axioms example_reader.event_reader_axioms
        skip memory_inv_init empty run TrueI gapless ledger, where emit = "\<lambda>_ _ _. act_return ()" and requester = 3] sent
    unfolding lib by metis
  then show ?thesis unfolding Let_def by blast
qed

text \<open>
  C29: what a completeness proof commits to. Two lists of events that are accepted for one proof have the same hashes in
  the same order, the same links but the first, and sequence numbers a constant apart; or two Merkle trees over their
  hashes exhibit a collision. (Nothing is said of the content of the events.)
\<close>

theorem completeness_proof_commits:
  assumes "verify_completeness_proof lib p es = Inr True" and "verify_completeness_proof lib p fs = Inr True"
    and "digests32 lib"
  shows "map pe_hash es = map pe_hash fs \<and>
      (\<forall>i. Suc i < length es \<longrightarrow> pe_prev_hash (es ! Suc i) = pe_prev_hash (fs ! Suc i) \<and>
         pe_sequence (es ! Suc i) - pe_sequence (es ! i) = pe_sequence (fs ! Suc i) - pe_sequence (fs ! i)) \<or>
    (\<exists>a d t u. digest_of lib a = Some d \<and> mk_merkle_tree lib (map pe_hash es) a = Inr t \<and>
       mk_merkle_tree lib (map pe_hash fs) a = Inr u \<and> trees_collide d t u)"
proof (cases "es = []")
  case True
  then show ?thesis using verify_completeness_True(1) [OF assms(1)] verify_completeness_True(1) [OF assms(2)] by simp
next
  case False
  have len: "length es = length fs"
    using verify_completeness_True(1) [OF assms(1)] verify_completeness_True(1) [OF assms(2)] by simp
  then have fs: "fs \<noteq> []" using False by auto
  let ?a = "detect_algorithm (pe_hash (hd es))"
  have first: "pe_hash (hd es) = pe_hash (hd fs)"
    using verify_completeness_True(3) [OF assms(1)] verify_completeness_True(3) [OF assms(2)] False fs by simp
  have links: "links_valid es" "links_valid fs"
    using verify_completeness_True(3) [OF assms(1)] verify_completeness_True(3) [OF assms(2)] False fs by simp_all
  obtain t u where t: "mk_merkle_tree lib (map pe_hash es) ?a = Inr t" "mk_merkle_tree lib (map pe_hash fs) ?a = Inr u"
      "merkle_root t = merkle_root u"
    using verify_completeness_True(2) [OF assms(1)] verify_completeness_True(2) [OF assms(2)] False fs first
    by (auto simp: ledger_merkle_root_def compute_merkle_root_def split: sum.splits)
  obtain d where d: "digest_of lib ?a = Some d" using mk_merkle_tree_digest [OF t(1)] False by auto
  have "map pe_hash es = map pe_hash fs \<or> trees_collide d t u"
    using same_root_same_hashes [OF d _ t] assms(3) d len by (simp add: digests32_def)
  then show ?thesis
    using same_hashes_same_links [OF links] d t(1,2) by blast
qed

theorem completeness_proof_commits_witness:
  "\<exists>p es. length es = 2 \<and> verify_completeness_proof example_lib p es = Inr True \<and>
     (map pe_hash es = map pe_hash es \<and> pe_sequence (es ! 1) - pe_sequence (es ! 0) = 1 \<or>
      (\<exists>a t u. mk_merkle_tree example_lib (map pe_hash es) a = Inr t \<and> trees_collide checksum32 t u))"
proof (rule example_chain)
  fix e f assume *: "chain_ok example_lib None [e, f]"
  let ?es = "[\<lparr>pe_event = e, pe_sequence = 1\<rparr>, \<lparr>pe_event = f, pe_sequence = 2\<rparr>]"
  have law: "lawful_log example_lib ?es" using * by (simp add: lawful_log_def upt_rec)
  have emit: "emitter_works (\<lambda>_ _ _. act_return () :: (memory_ledger world, unit) act)" by (simp add: emitter_works_def)
  let ?w = "(example_world [] 5)\<lparr>w_ledger := \<lparr>ml_events = ?es, ml_next_sequence = 3\<rparr>\<rparr>"
  obtain p where p: "verify_completeness_proof example_lib p ?es = Inr True"
    using example_reader.lawful_log_proved [where w = ?w, OF TrueI _ emit, of example_lib] law by auto
  have d: "d = checksum32" if "digest_of example_lib a = Some d" for a d
    using that by (auto simp: digest_of_def example_lib_def split: if_splits)
  then have len: "digests32 example_lib" unfolding digests32_def by (metis length_checksum32)
  have "map pe_hash ?es = map pe_hash ?es \<and> pe_sequence (?es ! 1) - pe_sequence (?es ! 0) = 1 \<or>
      (\<exists>a t u. mk_merkle_tree example_lib (map pe_hash ?es) a = Inr t \<and> trees_collide checksum32 t u)"
    using completeness_proof_commits [OF p p len] d by fastforce
  then show ?thesis using p by (intro exI [of _ p] exI [of _ ?es]) simp
qed

text \<open>
  Over the PostgreSQL ledger, whose rows keep no hashes, no completeness proof is ever produced for a ledger that is
  not empty: the request raises \<open>ValueError\<close>, and nothing is emitted.
\<close>

theorem postgres_never_proved:
  assumes "table_readable (w_ledger w)" and "lt_rows (w_ledger w) \<noteq> []"
  shows "generate_completeness_proof lib postgres_count postgres_read_events emit requester w =
    (Inl (Exn ValueError ''genesis_hash and latest_hash required for non-empty chain''),
     w\<lparr>w_clock_reads := w_clock_reads w + 1, w_uuid_draws := w_uuid_draws w + 1\<rparr>)"
proof -
  let ?w1 = "w\<lparr>w_clock_reads := Suc (w_clock_reads w), w_uuid_draws := Suc (w_uuid_draws w)\<rparr>"
  have read: "read_ledger postgres_count postgres_read_events ?w1 = (Inr (table_log (w_ledger w)), ?w1)"
    using postgres_reader.read_ledger_log [of ?w1] assms(1) by simp
  have ne: "table_log (w_ledger w) \<noteq> []" using assms(2) by (simp add: table_log_def)
  then have "proof_of_chain (table_log (w_ledger w)) = Inl (Exn ValueError ''genesis_hash and latest_hash required for non-empty chain'')"
    using table_log_ge_hash [of "hd (table_log (w_ledger w))" "w_ledger w"]
    by (simp add: proof_of_chain_def Let_def mk_hash_chain_proof_def)
  then show ?thesis by (simp add: generate_completeness_proof_def act_bind_def read)
qed

theorem postgres_never_proved_witness:
  "\<exists>t :: ledger_table. lt_rows t \<noteq> [] \<and> isl (fst (generate_completeness_proof example_lib postgres_count postgres_read_events
     (\<lambda>_ _ _. act_return ()) 3 \<lparr>w_tasks = [], w_ledger = t, w_pending = [], w_clock = \<lambda>_. 5, w_clock_reads = 0,
       w_uuid = \<lambda>k. word_of_nat k, w_uuid_draws = 0\<rparr>))"
proof -
  let ?t = "snd (postgres_append_event (\<lambda>p. p) (example_event 1) ledger_table_init)"
  let ?w = "\<lparr>w_tasks = [], w_ledger = ?t, w_pending = [], w_clock = \<lambda>_. 5, w_clock_reads = 0,
    w_uuid = \<lambda>k. word_of_nat k, w_uuid_draws = 0\<rparr>"
  have "map lr_sequence (lt_rows ?t) = [1] \<and> lt_next ?t = 2 \<and> list_all (\<lambda>row. metadata_ok (ge_metadata (pe_event (row_event row)))) (lt_rows ?t)"
    by code_simp
  then obtain row where rows: "lt_rows ?t = [row]" "lt_next ?t = 2" "lr_sequence row = 1"
      "metadata_ok (ge_metadata (pe_event (row_event row)))"
    by (auto simp: map_eq_Cons_conv)
  then have "table_readable (w_ledger ?w)" "lt_rows (w_ledger ?w) \<noteq> []"
    by (auto simp: table_readable_def table_valid_def table_inv_def table_log_def)
  from postgres_never_proved [OF this, of example_lib "\<lambda>_ _ _. act_return ()" 3] show ?thesis
    using rows by (intro exI [of _ ?t]) auto
qed

end
