(* ===== verification/Audit_Export.thy ===== *)
theory Audit_Export
  imports Audit_Proof
begin

text \<open>
  Export of the ledger (\<open>src/application/services/governance/ledger_export_service.py\<close>, with the export object of
  \<open>src/domain/governance/audit/ledger_export.py\<close>): all events, after a search for personal data in actors and payload
  texts, with metadata and what the service found about the chain; and its JSON text.
\<close>

section \<open>The export object\<close>

record export_metadata =
  xm_export_id :: uuid
  xm_exported_at :: datetime
  xm_format_version :: string
  xm_total_events :: int
  xm_genesis_hash :: string
  xm_latest_hash :: string
  xm_sequence_range :: "int \<times> int"

definition show_range :: "int \<times> int \<Rightarrow> string" where
  "show_range r = ''('' @ show_int (fst r) @ '', '' @ show_int (snd r) @ '')''"

definition mk_export_metadata :: "export_metadata \<Rightarrow> exn + export_metadata" where
  "mk_export_metadata m =
     (if xm_total_events m < 0 then
        Inl (Exn ValueError (''total_events must be non-negative, got '' @ show_int (xm_total_events m)))
      else
        let (start, finish) = xm_sequence_range m in
        if xm_total_events m = 0 then
          (if start \<noteq> 0 \<or> finish \<noteq> 0 then
             Inl (Exn ValueError (''sequence_range must be (0, 0) for empty export, got '' @ show_range (xm_sequence_range m)))
           else Inr m)
        else if start < 1 \<or> finish < start then
          Inl (Exn ValueError (''sequence_range must have start >= 1 and end >= start, got '' @ show_range (xm_sequence_range m)))
        else Inr m)"

record verification_info =
  vi_hash_algorithm :: string
  vi_chain_valid :: bool
  vi_genesis_to_latest :: bool

record ledger_export =
  lx_metadata :: export_metadata
  lx_events :: "persisted_event list"
  lx_verification :: verification_info

text \<open>The loop of \<open>validate_completeness\<close>.\<close>

fun check_sequences :: "int \<Rightarrow> persisted_event list \<Rightarrow> exn + unit" where
  "check_sequences expected_seq [] = Inr ()"
| "check_sequences expected_seq (event # events) =
     (if pe_sequence event \<noteq> expected_seq then
        Inl (Exn PartialExportError (''Sequence gap detected: expected '' @ show_int expected_seq @ '', got '' @
          show_int (pe_sequence event)))
      else check_sequences (expected_seq + 1) events)"

definition validate_completeness :: "ledger_export \<Rightarrow> exn + bool" where
  "validate_completeness x =
     (if lx_events x = [] then Inr True
      else
        (case check_sequences 1 (lx_events x) of
           Inl e \<Rightarrow> Inl e
         | Inr _ \<Rightarrow>
             let m = lx_metadata x; n = int (length (lx_events x)); (start, finish) = xm_sequence_range m in
             if n \<noteq> xm_total_events m then
               Inl (Exn PartialExportError (''Event count mismatch: metadata says '' @ show_int (xm_total_events m) @
                 '', found '' @ show_int n))
             else if pe_sequence (hd (lx_events x)) \<noteq> start then
               Inl (Exn PartialExportError (''Start sequence mismatch: metadata says '' @ show_int start @
                 '', first event is '' @ show_int (pe_sequence (hd (lx_events x)))))
             else if pe_sequence (last (lx_events x)) \<noteq> finish then
               Inl (Exn PartialExportError (''End sequence mismatch: metadata says '' @ show_int finish @
                 '', last event is '' @ show_int (pe_sequence (last (lx_events x)))))
             else Inr True))"

section \<open>\<open>json.dumps(value, default=str)\<close>\<close>

text \<open>
  The encoder of the standard library with its default of escaping everything outside printable ASCII. \<open>default=str\<close>
  prints datetimes with a blank, UUIDs and \<open>bytes\<close> as strings. With \<open>indent=2\<close> every element starts a line.
\<close>

definition json_dumps_char :: "char \<Rightarrow> string" where
  "json_dumps_char c =
     (let n = (of_char c :: nat) in if 127 \<le> n then [CHR 0x5C, CHR ''u''] @ pad_digits 16 4 n else json_escape_char c)"

definition json_dumps_str :: "string \<Rightarrow> string" where
  "json_dumps_str s = [CHR 0x22] @ concat (map json_dumps_char s) @ [CHR 0x22]"

definition str_datetime :: "datetime \<Rightarrow> string" where
  "str_datetime t = take 10 (isoformat t) @ '' '' @ drop 11 (isoformat t)"

definition bytes_repr_char :: "char \<Rightarrow> 8 word \<Rightarrow> string" where
  "bytes_repr_char q b =
     (let n = unat b; c = char_of n in
      if c = q \<or> n = 92 then [CHR 0x5C, c]
      else if n = 10 then [CHR 0x5C, CHR ''n'']
      else if n = 13 then [CHR 0x5C, CHR ''r'']
      else if n = 9 then [CHR 0x5C, CHR ''t'']
      else if n < 32 \<or> 127 \<le> n then [CHR 0x5C, CHR ''x''] @ pad_digits 16 2 n
      else [c])"

definition str_bytes :: "bytes \<Rightarrow> string" where
  "str_bytes bs =
     (let q = (if 39 \<in> set bs \<and> 34 \<notin> set bs then CHR 0x22 else CHR 0x27)
      in [CHR ''b'', q] @ concat (map (bytes_repr_char q) bs) @ [q])"

definition json_float :: "pyfloat \<Rightarrow> string" where
  "json_float f =
     (case f of FloatNaN \<Rightarrow> ''NaN'' | FloatInf neg \<Rightarrow> (if neg then ''-Infinity'' else ''Infinity'') | FloatFinite s \<Rightarrow> s)"

text \<open>What goes before, between and behind the elements of a container at a level of nesting.\<close>

definition json_enclose :: "bool \<Rightarrow> nat \<Rightarrow> char \<Rightarrow> char \<Rightarrow> string list \<Rightarrow> string" where
  "json_enclose pretty level opening closing items =
     (if items = [] then [opening, closing]
      else if pretty then
        [opening, CHR 0x0A] @ replicate (2 * (level + 1)) (CHR '' '') @
        str_join ('','' @ [CHR 0x0A] @ replicate (2 * (level + 1)) (CHR '' '')) items @
        [CHR 0x0A] @ replicate (2 * level) (CHR '' '') @ [closing]
      else [opening] @ str_join '', '' items @ [closing])"

fun json_dumps :: "bool \<Rightarrow> nat \<Rightarrow> pyval \<Rightarrow> string"
  and json_dumps_list :: "bool \<Rightarrow> nat \<Rightarrow> pyval list \<Rightarrow> string list"
  and json_dumps_items :: "bool \<Rightarrow> nat \<Rightarrow> (string \<times> pyval) list \<Rightarrow> string list" where
  "json_dumps pretty level PyNone = ''null''"
| "json_dumps pretty level (PyBool b) = (if b then ''true'' else ''false'')"
| "json_dumps pretty level (PyInt i) = show_int i"
| "json_dumps pretty level (PyFloat f) = json_float f"
| "json_dumps pretty level (PyStr s) = json_dumps_str s"
| "json_dumps pretty level (PyDatetime t) = json_dumps_str (str_datetime t)"
| "json_dumps pretty level (PyUUID u) = json_dumps_str (uuid_str u)"
| "json_dumps pretty level (PyBytes bs) = json_dumps_str (str_bytes bs)"
| "json_dumps pretty level (PyList vs) = json_enclose pretty level (CHR ''['') (CHR '']'') (json_dumps_list pretty (level + 1) vs)"
| "json_dumps pretty level (PyTuple vs) = json_enclose pretty level (CHR ''['') (CHR '']'') (json_dumps_list pretty (level + 1) vs)"
| "json_dumps pretty level (PyDict kvs) = json_enclose pretty level (CHR 0x7B) (CHR 0x7D) (json_dumps_items pretty (level + 1) kvs)"
| "json_dumps_list pretty level [] = []"
| "json_dumps_list pretty level (v # vs) = json_dumps pretty level v # json_dumps_list pretty level vs"
| "json_dumps_items pretty level [] = []"
| "json_dumps_items pretty level ((k, v) # kvs) =
     (json_dumps_str k @ '': '' @ json_dumps pretty level v) # json_dumps_items pretty level kvs"

section \<open>The search for personal data\<close>

definition ascii_letter :: "char \<Rightarrow> bool" where
  "ascii_letter c = (let n = (of_char c :: nat) in 65 \<le> n \<and> n \<le> 90 \<or> 97 \<le> n \<and> n \<le> 122)"

definition ascii_lower :: "char \<Rightarrow> bool" where
  "ascii_lower c = (let n = (of_char c :: nat) in 97 \<le> n \<and> n \<le> 122)"

definition ascii_upper :: "char \<Rightarrow> bool" where
  "ascii_upper c = (let n = (of_char c :: nat) in 65 \<le> n \<and> n \<le> 90)"

text \<open>\<open>EMAIL_PATTERN.search\<close>: a local part that is not empty, the at sign, then a domain, a dot and two letters.\<close>

definition email_local :: "char \<Rightarrow> bool" where
  "email_local c = (ascii_letter c \<or> is_digit c \<or> c \<in> set ''._%+-'')"

definition email_domain :: "char \<Rightarrow> bool" where
  "email_domain c = (ascii_letter c \<or> is_digit c \<or> c \<in> set ''.-'')"

fun two_letters :: "string \<Rightarrow> bool" where
  "two_letters (c # d # s) = (ascii_letter c \<and> ascii_letter d)"
| "two_letters s = False"

fun domain_follows :: "bool \<Rightarrow> string \<Rightarrow> bool" where
  "domain_follows started [] = False"
| "domain_follows started (c # s) = (started \<and> c = CHR ''.'' \<and> two_letters s \<or> email_domain c \<and> domain_follows True s)"

fun email_search :: "bool \<Rightarrow> string \<Rightarrow> bool" where
  "email_search after_local [] = False"
| "email_search after_local (c # s) =
     (after_local \<and> c = CHR ''@'' \<and> domain_follows False s \<or> email_search (email_local c) s)"

text \<open>
  \<open>NAME_PATTERN.findall\<close>: two capitalised words one blank apart, between word boundaries. The runs of small letters
  end where they stop, for a shorter run is followed by a letter.
\<close>

definition word_char :: "char \<Rightarrow> bool" where
  "word_char c = (ascii_letter c \<or> is_digit c \<or> c = CHR ''_'')"

definition name_at :: "string \<Rightarrow> (string \<times> string) option" where
  "name_at s =
     (case s of
        [] \<Rightarrow> None
      | c # s1 \<Rightarrow>
          let w1 = takeWhile ascii_lower s1; r1 = dropWhile ascii_lower s1 in
          (case r1 of
             b # d # s2 \<Rightarrow>
               let w2 = takeWhile ascii_lower s2; r2 = dropWhile ascii_lower s2 in
               if ascii_upper c \<and> w1 \<noteq> [] \<and> b = CHR '' '' \<and> ascii_upper d \<and> w2 \<noteq> [] \<and> (r2 = [] \<or> \<not> word_char (hd r2))
               then Some (c # w1 @ b # d # w2, r2) else None
           | _ \<Rightarrow> None))"

lemma dropWhile_shorter: "dropWhile p xs = b # d # ys \<Longrightarrow> length (dropWhile q ys) < length xs"
  using length_dropWhile_le [of p xs] length_dropWhile_le [of q ys] by simp

lemma name_at_shorter: "name_at s = Some (m, r) \<Longrightarrow> length r < length s"
  by (auto simp: name_at_def Let_def less_Suc_eq split: list.splits if_splits dest!: dropWhile_shorter)

function find_names :: "bool \<Rightarrow> string \<Rightarrow> string list" where
  "find_names after_word [] = []"
| "find_names after_word (c # s) =
     (case (if after_word then None else name_at (c # s)) of
        Some (m, r) \<Rightarrow> m # find_names True r
      | None \<Rightarrow> find_names (word_char c) s)"
  by pat_completeness auto
termination
  by (relation "measure (\<lambda>(_, s). length s)") (auto dest: name_at_shorter split: if_splits)

definition technical_terms :: "string list" where
  "technical_terms = [''Event Type'', ''Task State'', ''Panel Finding'', ''Prince Panel'', ''King Service'',
     ''Time Authority'', ''Hash Chain'', ''Ledger Export'', ''Constitutional Violation'', ''Governance Event'']"

definition check_string_for_pii :: "string \<Rightarrow> uuid \<Rightarrow> exn + unit" where
  "check_string_for_pii content event_id =
     (if email_search False content then
        Inl (Exn PIIDetectedError (''Event '' @ uuid_str event_id @
          '' contains email address pattern. Ledger must not contain PII.''))
      else
        (case find (\<lambda>m. m \<notin> set technical_terms) (find_names False content) of
           Some m \<Rightarrow> Inl (Exn PIIDetectedError (''Event '' @ uuid_str event_id @ '' may contain personal name: '' @
             py_repr m @ ''. Ledger must not contain PII.''))
         | None \<Rightarrow> Inr ()))"

text \<open>\<open>UUID_PATTERN.match\<close>: its \<open>$\<close> also matches before a newline at the end.\<close>

fun hex_groups :: "nat list \<Rightarrow> string \<Rightarrow> bool" where
  "hex_groups [] s = (s = [] \<or> s = [CHR 0x0A])"
| "hex_groups [n] s = (n \<le> length s \<and> list_all is_hex_digit (take n s) \<and> hex_groups [] (drop n s))"
| "hex_groups (n # m # ns) s =
     (n < length s \<and> list_all is_hex_digit (take n s) \<and> s ! n = CHR ''-'' \<and> hex_groups (m # ns) (drop (n + 1) s))"

definition uuid_pattern :: "string \<Rightarrow> bool" where
  "uuid_pattern s = hex_groups [8, 4, 4, 4, 12] s"

definition is_valid_export_actor :: "string \<Rightarrow> bool" where
  "is_valid_export_actor actor_id = (actor_id = ''system'' \<or> uuid_pattern actor_id)"

fun check_no_pii :: "persisted_event list \<Rightarrow> exn + unit" where
  "check_no_pii [] = Inr ()"
| "check_no_pii (event # events) =
     (if \<not> is_valid_export_actor (ge_actor_id (pe_event event)) then
        Inl (Exn PIIDetectedError (''Event '' @ uuid_str (ge_event_id (pe_event event)) @ '' has invalid actor_id: '' @
          py_repr (ge_actor_id (pe_event event)) @ ''. Expected UUID or '' @ py_repr ''system'' @ ''.''))
      else
        (case check_string_for_pii (json_dumps False 0 (PyDict (ge_payload (pe_event event)))) (ge_event_id (pe_event event)) of
           Inl e \<Rightarrow> Inl e
         | Inr _ \<Rightarrow> check_no_pii events))"

section \<open>The service\<close>

definition export_genesis_ok :: "string \<Rightarrow> bool" where
  "export_genesis_ok prev_hash =
     (if prev_hash \<noteq> [] \<and> take 64 prev_hash \<noteq> zeros64 then
        CHR '':'' \<in> set prev_hash \<and> take 64 (snd (split_once (CHR '':'') prev_hash)) = zeros64
      else True)"

fun export_links :: "persisted_event list \<Rightarrow> bool" where
  "export_links (prev_event # curr_event # events) =
     (if pe_prev_hash curr_event \<noteq> pe_hash prev_event then False else export_links (curr_event # events))"
| "export_links events = True"

definition validate_export_chain :: "persisted_event list \<Rightarrow> bool" where
  "validate_export_chain events =
     (if events = [] then True
      else if \<not> export_genesis_ok (pe_prev_hash (hd events)) then False
      else export_links events)"

definition detect_hash_algorithm :: "persisted_event list \<Rightarrow> string" where
  "detect_hash_algorithm events =
     (if events = [] then ''BLAKE3''
      else if take 7 (pe_hash (hd events)) = ''blake3:'' then ''BLAKE3''
      else if take 7 (pe_hash (hd events)) = ''sha256:'' then ''SHA256''
      else ''UNKNOWN'')"

definition emit_export_event ::
  "(string \<Rightarrow> string \<Rightarrow> payload \<Rightarrow> ('l world, unit) act) \<Rightarrow> uuid \<Rightarrow> uuid \<Rightarrow> int \<Rightarrow> int \<times> int \<Rightarrow> datetime \<Rightarrow> ('l world, unit) act" where
  "emit_export_event emit export_id requester_id total_events sequence_range exported_at =
     emit ''audit.ledger.exported'' (uuid_str requester_id)
       [(''export_id'', PyStr (uuid_str export_id)), (''requester_id'', PyStr (uuid_str requester_id)),
        (''exported_at'', PyStr (isoformat exported_at)), (''total_events'', PyInt total_events),
        (''sequence_range'', PyList [PyInt (fst sequence_range), PyInt (snd sequence_range)])]"

definition export_complete ::
  "('l \<Rightarrow> exn + int) \<Rightarrow> ('l \<Rightarrow> ledger_read_options option \<Rightarrow> exn + persisted_event list)
    \<Rightarrow> (string \<Rightarrow> string \<Rightarrow> payload \<Rightarrow> ('l world, unit) act) \<Rightarrow> uuid \<Rightarrow> ('l world, ledger_export) act" where
  "export_complete count_events read_events emit requester_id =
     act_bind time_now (\<lambda>now.
     act_bind uuid4 (\<lambda>export_id.
     act_bind (read_ledger count_events read_events) (\<lambda>events.
     act_bind (act_lift (check_no_pii events)) (\<lambda>_.
     let chain_valid = validate_export_chain events;
         sequence_range = (if events = [] then (0, 0) else (pe_sequence (hd events), pe_sequence (last events)))
     in act_bind (act_lift (mk_export_metadata \<lparr>xm_export_id = export_id, xm_exported_at = now,
          xm_format_version = ''1.0.0'', xm_total_events = int (length events),
          xm_genesis_hash = (if events = [] then [] else pe_hash (hd events)),
          xm_latest_hash = (if events = [] then [] else pe_hash (last events)),
          xm_sequence_range = sequence_range\<rparr>)) (\<lambda>metadata.
        let export = \<lparr>lx_metadata = metadata, lx_events = events,
              lx_verification = \<lparr>vi_hash_algorithm = detect_hash_algorithm events, vi_chain_valid = chain_valid,
                vi_genesis_to_latest = True\<rparr>\<rparr>
        in act_bind (act_lift (validate_completeness export)) (\<lambda>_.
           act_bind (emit_export_event emit export_id requester_id (int (length events)) sequence_range now) (\<lambda>_.
           act_return export)))))))"

definition event_to_dict :: "persisted_event \<Rightarrow> pyval" where
  "event_to_dict persisted =
     (let event = pe_event persisted in PyDict
       [(''sequence'', PyInt (pe_sequence persisted)), (''event_id'', PyStr (uuid_str (ge_event_id event))),
        (''event_type'', PyStr (ge_event_type event)), (''timestamp'', PyStr (isoformat (em_timestamp (ge_metadata event)))),
        (''actor_id'', PyStr (ge_actor_id event)), (''schema_version'', PyStr (em_schema_version (ge_metadata event))),
        (''trace_id'', PyStr (ge_trace_id event)), (''prev_hash'', PyStr (ge_prev_hash event)),
        (''event_hash'', PyStr (ge_hash event)), (''payload'', PyDict (ge_payload event))])"

definition export_to_dict :: "ledger_export \<Rightarrow> pyval" where
  "export_to_dict x =
     (let m = lx_metadata x; v = lx_verification x in PyDict
       [(''metadata'', PyDict
          [(''export_id'', PyStr (uuid_str (xm_export_id m))), (''exported_at'', PyStr (isoformat (xm_exported_at m))),
           (''format_version'', PyStr (xm_format_version m)), (''total_events'', PyInt (xm_total_events m)),
           (''genesis_hash'', PyStr (xm_genesis_hash m)), (''latest_hash'', PyStr (xm_latest_hash m)),
           (''sequence_range'', PyList [PyInt (fst (xm_sequence_range m)), PyInt (snd (xm_sequence_range m))])]),
        (''events'', PyList (map event_to_dict (lx_events x))),
        (''verification'', PyDict
          [(''hash_algorithm'', PyStr (vi_hash_algorithm v)), (''chain_valid'', PyBool (vi_chain_valid v)),
           (''genesis_to_latest'', PyBool (vi_genesis_to_latest v))])])"

definition serialize_to_json :: "ledger_export \<Rightarrow> bool \<Rightarrow> string" where
  "serialize_to_json x pretty_print = json_dumps pretty_print 0 (export_to_dict x)"

definition export_to_json ::
  "('l \<Rightarrow> exn + int) \<Rightarrow> ('l \<Rightarrow> ledger_read_options option \<Rightarrow> exn + persisted_event list)
    \<Rightarrow> (string \<Rightarrow> string \<Rightarrow> payload \<Rightarrow> ('l world, unit) act) \<Rightarrow> uuid \<Rightarrow> bool \<Rightarrow> ('l world, string) act" where
  "export_to_json count_events read_events emit requester_id pretty_print =
     act_bind (export_complete count_events read_events emit requester_id) (\<lambda>x. act_return (serialize_to_json x pretty_print))"

section \<open>What an export contains\<close>

lemma pii_examples:
  "find_names False ''by Al Bo'' = [''Al Bo'']" "\<not> uuid_pattern ''cluster-1''"
  "email_search False ''a@b.cd'' \<and> \<not> email_search False ''a@b.c''"
  by code_simp+

lemma check_sequences_iff: "check_sequences k es = Inr () \<longleftrightarrow> (\<forall>i<length es. pe_sequence (es ! i) = k + int i)"
proof (induction es arbitrary: k)
  case (Cons e es)
  have "(\<forall>i<length (e # es). pe_sequence ((e # es) ! i) = k + int i) \<longleftrightarrow>
      pe_sequence e = k \<and> (\<forall>i<length es. pe_sequence (es ! i) = k + 1 + int i)"
    by (simp add: All_less_Suc2 ac_simps)
  then show ?case using Cons by auto
qed simp

text \<open>The sequence numbers are 1, 2, 3 and so on.\<close>

definition gapless :: "persisted_event list \<Rightarrow> bool" where
  "gapless es \<longleftrightarrow> map pe_sequence es = map int [1..<length es + 1]"

lemma gapless_iff: "gapless es \<longleftrightarrow> (\<forall>i<length es. pe_sequence (es ! i) = 1 + int i)"
  unfolding gapless_def list_eq_iff_nth_eq by (auto simp del: upt_Suc)

lemma gapless_check: "check_sequences 1 es = Inr () \<longleftrightarrow> gapless es"
  by (simp add: check_sequences_iff gapless_iff)

lemma gapless_ends:
  "gapless es \<Longrightarrow> es \<noteq> [] \<Longrightarrow> pe_sequence (hd es) = 1 \<and> pe_sequence (last es) = int (length es)"
  by (simp add: gapless_iff hd_conv_nth last_conv_nth of_nat_diff Suc_le_eq)

lemma check_no_pii_iff:
  "check_no_pii es = Inr () \<longleftrightarrow> (\<forall>e\<in>set es. is_valid_export_actor (ge_actor_id (pe_event e)) \<and>
     check_string_for_pii (json_dumps False 0 (PyDict (ge_payload (pe_event e)))) (ge_event_id (pe_event e)) = Inr ())"
  by (induction es) (auto split: sum.splits)

lemma check_no_pii_cases: "check_no_pii es = Inr () \<or> (\<exists>m. check_no_pii es = Inl (Exn PIIDetectedError m))"
  by (induction es) (auto simp: check_string_for_pii_def split: sum.splits option.splits if_splits)

definition export_of :: "uuid \<Rightarrow> datetime \<Rightarrow> persisted_event list \<Rightarrow> ledger_export" where
  "export_of export_id now es = \<lparr>lx_metadata = \<lparr>xm_export_id = export_id, xm_exported_at = now, xm_format_version = ''1.0.0'',
       xm_total_events = int (length es), xm_genesis_hash = (if es = [] then [] else pe_hash (hd es)),
       xm_latest_hash = (if es = [] then [] else pe_hash (last es)),
       xm_sequence_range = (if es = [] then (0, 0) else (1, int (length es)))\<rparr>,
     lx_events = es, lx_verification = \<lparr>vi_hash_algorithm = detect_hash_algorithm es,
       vi_chain_valid = validate_export_chain es, vi_genesis_to_latest = True\<rparr>\<rparr>"

lemma export_of_complete:
  assumes "gapless es"
  shows "mk_export_metadata (lx_metadata (export_of i now es)) = Inr (lx_metadata (export_of i now es))"
    and "validate_completeness (export_of i now es) = Inr True"
  using assms gapless_ends [OF assms] gapless_check [of es]
  by (auto simp: mk_export_metadata_def validate_completeness_def export_of_def Let_def Suc_le_eq)

context event_reader
begin

lemma export_complete_returns:
  assumes "readable (w_ledger w)" and "check_no_pii (log (w_ledger w)) = Inr ()" and gapless: "gapless (log (w_ledger w))"
    and emit: "emitter_works emit"
  shows "\<exists>w'. export_complete count_events read_events emit requester w =
    (Inr (export_of (w_uuid w (w_uuid_draws w)) (w_clock w (w_clock_reads w)) (log (w_ledger w))), w')"
proof -
  let ?es = "log (w_ledger w)"
  let ?x = "export_of (w_uuid w (w_uuid_draws w)) (w_clock w (w_clock_reads w)) ?es"
  let ?w1 = "w\<lparr>w_clock_reads := Suc (w_clock_reads w), w_uuid_draws := Suc (w_uuid_draws w)\<rparr>"
  have read: "read_ledger count_events read_events ?w1 = (Inr ?es, ?w1)" using read_ledger_log [of ?w1] assms(1) by simp
  obtain w' where w': "emit_export_event emit (w_uuid w (w_uuid_draws w)) requester (int (length ?es))
      (if ?es = [] then (0, 0) else (1, int (length ?es))) (w_clock w (w_clock_reads w)) ?w1 = (Inr (), w')"
    using emit unfolding emit_export_event_def emitter_works_def by blast
  note complete = export_of_complete [OF gapless, of "w_uuid w (w_uuid_draws w)" "w_clock w (w_clock_reads w)", unfolded export_of_def]
  show ?thesis
  proof (cases "?es = []")
    case True
    then show ?thesis using w' complete by (simp add: export_complete_def act_bind_def read assms(2) export_of_def Let_def)
  next
    case False
    then show ?thesis
      using w' complete gapless_ends [OF gapless False]
      by (simp add: export_complete_def act_bind_def read assms(2) export_of_def Let_def)
  qed
qed

lemma export_complete_pii:
  assumes "readable (w_ledger w)" and "e \<in> set (log (w_ledger w))" and "\<not> is_valid_export_actor (ge_actor_id (pe_event e))"
  shows "\<exists>m w'. export_complete count_events read_events emit requester w = (Inl (Exn PIIDetectedError m), w') \<and>
    w_ledger w' = w_ledger w"
proof -
  let ?w1 = "w\<lparr>w_clock_reads := Suc (w_clock_reads w), w_uuid_draws := Suc (w_uuid_draws w)\<rparr>"
  have read: "read_ledger count_events read_events ?w1 = (Inr (log (w_ledger w)), ?w1)"
    using read_ledger_log [of ?w1] assms(1) by simp
  have "check_no_pii (log (w_ledger w)) \<noteq> Inr ()" using assms(2,3) by (auto simp: check_no_pii_iff)
  then obtain m where "check_no_pii (log (w_ledger w)) = Inl (Exn PIIDetectedError m)" using check_no_pii_cases by blast
  then show ?thesis by (simp add: export_complete_def act_bind_def read)
qed

end

end
