(* ===== verification/Audit_Verification.thy ===== *)
theory Audit_Verification
  imports Audit_Export
begin

text \<open>
  Independent verification of an export (\<open>src/application/services/governance/independent_verification_service.py\<close>, with
  the results of \<open>src/domain/governance/audit/verification_result.py\<close>): links, sequence, Merkle root and replay, each with
  its issues, and one status; and the reading of an exported file.
\<close>

section \<open>Results\<close>

datatype verification_status = VALID | INVALID | PARTIAL

fun verification_status_value :: "verification_status \<Rightarrow> string" where
  "verification_status_value VALID = ''valid''"
| "verification_status_value INVALID = ''invalid''"
| "verification_status_value PARTIAL = ''partial''"

datatype issue_type = ISSUE_HASH_MISMATCH | ISSUE_SEQUENCE_GAP | ISSUE_BROKEN_LINK | ISSUE_MERKLE_MISMATCH | ISSUE_STATE_MISMATCH

record detected_issue =
  di_issue_type :: issue_type
  di_event_id :: "uuid option"
  di_sequence_number :: "int option"
  di_description :: string
  di_expected :: "string option"
  di_actual :: "string option"

record verification_result =
  vr_verification_id :: uuid
  vr_verified_at :: datetime
  vr_status :: verification_status
  vr_hash_chain_valid :: bool
  vr_merkle_valid :: bool
  vr_sequence_complete :: bool
  vr_state_replay_valid :: bool
  vr_issues :: "detected_issue list"
  vr_total_events_verified :: int

definition mk_verification_result :: "verification_result \<Rightarrow> exn + verification_result" where
  "mk_verification_result r =
     (if vr_total_events_verified r < 0 then
        Inl (Exn ValueError (''total_events_verified must be non-negative, got '' @ show_int (vr_total_events_verified r)))
      else Inr r)"

section \<open>The checks\<close>

definition genesis_issue :: "persisted_event \<Rightarrow> detected_issue" where
  "genesis_issue genesis = \<lparr>di_issue_type = ISSUE_BROKEN_LINK, di_event_id = Some (ge_event_id (pe_event genesis)),
     di_sequence_number = Some (pe_sequence genesis),
     di_description = ''Genesis event has invalid prev_hash: '' @ pe_prev_hash genesis,
     di_expected = Some ''empty or zeros'', di_actual = Some (pe_prev_hash genesis)\<rparr>"

definition link_issue :: "persisted_event \<Rightarrow> persisted_event \<Rightarrow> detected_issue" where
  "link_issue prev_event curr_event = \<lparr>di_issue_type = ISSUE_BROKEN_LINK, di_event_id = Some (ge_event_id (pe_event curr_event)),
     di_sequence_number = Some (pe_sequence curr_event),
     di_description = ''Broken link at event '' @ show_int (pe_sequence curr_event),
     di_expected = Some (pe_hash prev_event), di_actual = Some (pe_prev_hash curr_event)\<rparr>"

text \<open>The loop over neighbours collects one issue for each broken link.\<close>

fun link_issues :: "persisted_event list \<Rightarrow> detected_issue list" where
  "link_issues (prev_event # curr_event # events) =
     (if pe_prev_hash curr_event \<noteq> pe_hash prev_event then [link_issue prev_event curr_event] else []) @
     link_issues (curr_event # events)"
| "link_issues events = []"

text \<open>The service's own copy of the test of the first link.\<close>

definition verifier_genesis_ok :: "string \<Rightarrow> bool" where
  "verifier_genesis_ok prev_hash =
     (if prev_hash = [] then True
      else if take 64 prev_hash = zeros64 then True
      else if CHR '':'' \<in> set prev_hash then take 64 (snd (split_once (CHR '':'') prev_hash)) = zeros64
      else False)"

definition verifier_algorithm :: "string \<Rightarrow> string" where
  "verifier_algorithm hash_value =
     (if CHR '':'' \<in> set hash_value then py_lower (fst (split_once (CHR '':'') hash_value)) else ''sha256'')"

definition verify_hash_chain :: "persisted_event list \<Rightarrow> bool \<times> detected_issue list" where
  "verify_hash_chain events =
     (if events = [] then (True, [])
      else
        let issues = (if \<not> verifier_genesis_ok (pe_prev_hash (hd events)) then [genesis_issue (hd events)] else []) @
          link_issues events
        in (issues = [], issues))"

definition gap_issue :: "int \<Rightarrow> persisted_event \<Rightarrow> detected_issue" where
  "gap_issue expected_seq event = \<lparr>di_issue_type = ISSUE_SEQUENCE_GAP, di_event_id = Some (ge_event_id (pe_event event)),
     di_sequence_number = Some (pe_sequence event), di_description = ''Gap at sequence '' @ show_int expected_seq,
     di_expected = Some (show_int expected_seq), di_actual = Some (show_int (pe_sequence event))\<rparr>"

fun sequence_issues :: "int \<Rightarrow> persisted_event list \<Rightarrow> detected_issue list" where
  "sequence_issues expected_seq [] = []"
| "sequence_issues expected_seq (event # events) =
     (if pe_sequence event \<noteq> expected_seq then [gap_issue expected_seq event] else []) @
     sequence_issues (pe_sequence event + 1) events"

definition verify_sequence :: "persisted_event list \<Rightarrow> bool \<times> detected_issue list" where
  "verify_sequence events = (let issues = sequence_issues 1 events in (issues = [], issues))"

definition merkle_issue :: "string \<Rightarrow> string \<Rightarrow> string \<Rightarrow> detected_issue" where
  "merkle_issue description expected_root actual = \<lparr>di_issue_type = ISSUE_MERKLE_MISMATCH, di_event_id = None,
     di_sequence_number = None, di_description = description, di_expected = Some expected_root, di_actual = Some actual\<rparr>"

definition verify_merkle :: "hash_lib \<Rightarrow> persisted_event list \<Rightarrow> string \<Rightarrow> exn + bool \<times> detected_issue list" where
  "verify_merkle lib events expected_root =
     (if events = [] then
        (let issues = (if expected_root \<noteq> [] \<and> expected_root \<notin> {[], ''sha256:empty'', ''blake3:empty''}
           then [merkle_issue ''Merkle root mismatch for empty ledger'' expected_root ''empty''] else [])
         in Inr (issues = [], issues))
      else
        (case compute_merkle_root lib (map pe_hash events) (verifier_algorithm expected_root) of
           Inl e \<Rightarrow> Inl e
         | Inr computed_root \<Rightarrow>
             let issues = (if computed_root \<noteq> expected_root
               then [merkle_issue ''Merkle root mismatch'' expected_root computed_root] else [])
             in Inr (issues = [], issues)))"

definition state_issue :: "string \<Rightarrow> string \<Rightarrow> string \<Rightarrow> detected_issue" where
  "state_issue description expected actual = \<lparr>di_issue_type = ISSUE_STATE_MISMATCH, di_event_id = None,
     di_sequence_number = None, di_description = description, di_expected = Some expected, di_actual = Some actual\<rparr>"

text \<open>The replayer answers with a state or with \<open>None\<close>, or raises.\<close>

definition verify_state_replay ::
  "(persisted_event list \<Rightarrow> ('l world, 'st option) act) \<Rightarrow> persisted_event list \<Rightarrow> ('l world, bool \<times> detected_issue list) act" where
  "verify_state_replay replay events =
     (if events = [] then act_return (True, [])
      else
        act_bind
          (act_try
            (act_bind (replay events) (\<lambda>state.
               act_return (case state of
                   None \<Rightarrow> [state_issue ''State could not be derived from events'' ''Valid state'' ''None'']
                 | Some _ \<Rightarrow> [])))
            (\<lambda>e. act_return [state_issue (''State replay failed: '' @ exn_str e) ''Successful replay'' ''Exception'']))
          (\<lambda>issues. act_return (issues = [], issues)))"

definition determine_status :: "bool \<Rightarrow> bool \<Rightarrow> bool \<Rightarrow> bool \<Rightarrow> detected_issue list \<Rightarrow> verification_status" where
  "determine_status chain_valid seq_complete merkle_valid replay_valid issues =
     (let checks = [chain_valid, seq_complete, merkle_valid, replay_valid] in
      if (chain_valid \<and> seq_complete \<and> merkle_valid \<and> replay_valid) \<and> issues = [] then VALID
      else if issues = [] then VALID
      else if list_ex (\<lambda>c. c) checks \<and> \<not> list_all (\<lambda>c. c) checks then PARTIAL
      else if \<not> list_ex (\<lambda>c. c) checks then INVALID
      else PARTIAL)"

definition emit_verification_event ::
  "(string \<Rightarrow> string \<Rightarrow> payload \<Rightarrow> ('l world, unit) act) option \<Rightarrow> uuid \<Rightarrow> uuid \<Rightarrow> datetime \<Rightarrow> verification_result
    \<Rightarrow> ('l world, unit) act" where
  "emit_verification_event emitter verification_id verifier_id verified_at result =
     (case emitter of
        None \<Rightarrow> act_return ()
      | Some emit \<Rightarrow>
          emit ''audit.verification.completed'' (uuid_str verifier_id)
            [(''verification_id'', PyStr (uuid_str verification_id)), (''verifier_id'', PyStr (uuid_str verifier_id)),
             (''verified_at'', PyStr (isoformat verified_at)),
             (''status'', PyStr (verification_status_value (vr_status result))),
             (''hash_chain_valid'', PyBool (vr_hash_chain_valid result)), (''merkle_valid'', PyBool (vr_merkle_valid result)),
             (''sequence_complete'', PyBool (vr_sequence_complete result)),
             (''state_replay_valid'', PyBool (vr_state_replay_valid result)),
             (''issues_count'', PyInt (int (length (vr_issues result)))),
             (''total_events_verified'', PyInt (vr_total_events_verified result))])"

definition verify_complete ::
  "hash_lib \<Rightarrow> (persisted_event list \<Rightarrow> ('l world, 'st option) act)
    \<Rightarrow> (string \<Rightarrow> string \<Rightarrow> payload \<Rightarrow> ('l world, unit) act) option \<Rightarrow> ledger_export \<Rightarrow> uuid option \<Rightarrow> string option
    \<Rightarrow> ('l world, verification_result) act" where
  "verify_complete lib replay emitter export verifier_id expected_merkle_root =
     act_bind time_now (\<lambda>now.
     act_bind uuid4 (\<lambda>verification_id.
     let events = lx_events export; (chain_valid, chain_issues) = verify_hash_chain events;
         (seq_complete, seq_issues) = verify_sequence events
     in act_bind
          (act_lift (case expected_merkle_root of
              None \<Rightarrow> Inr (True, [])
            | Some root \<Rightarrow> if root = [] then Inr (True, []) else verify_merkle lib events root)) (\<lambda>(merkle_valid, merkle_issues).
        act_bind (verify_state_replay replay events) (\<lambda>(replay_valid, replay_issues).
        let issues = chain_issues @ seq_issues @ merkle_issues @ replay_issues;
            status = determine_status chain_valid seq_complete merkle_valid replay_valid issues
        in act_bind (act_lift (mk_verification_result \<lparr>vr_verification_id = verification_id, vr_verified_at = now,
               vr_status = status, vr_hash_chain_valid = chain_valid, vr_merkle_valid = merkle_valid,
               vr_sequence_complete = seq_complete, vr_state_replay_valid = replay_valid, vr_issues = issues,
               vr_total_events_verified = int (length events)\<rparr>)) (\<lambda>result.
           act_bind
             (case (emitter, verifier_id) of
                (Some _, Some verifier) \<Rightarrow> emit_verification_event emitter verification_id verifier now result
              | _ \<Rightarrow> act_return ()) (\<lambda>_.
           act_return result))))))"

section \<open>Reading an exported file\<close>

text \<open>
  Access to the parsed JSON value. \<open>str\<close> of a \<open>KeyError\<close> quotes the key. The code takes values as they are; here a value
  of another type than the exporter writes raises \<open>TypeError\<close>.
\<close>

definition item :: "pyval \<Rightarrow> string \<Rightarrow> exn + pyval" where
  "item d key =
     (case d of
        PyDict kvs \<Rightarrow> (case dict_get kvs key of None \<Rightarrow> Inl (Exn KeyError (py_repr key)) | Some v \<Rightarrow> Inr v)
      | _ \<Rightarrow> Inl (Exn TypeError ''not a dictionary''))"

definition str_item :: "pyval \<Rightarrow> string \<Rightarrow> exn + string" where
  "str_item d key = (case item d key of Inl e \<Rightarrow> Inl e | Inr (PyStr s) \<Rightarrow> Inr s | Inr _ \<Rightarrow> Inl (Exn TypeError ''not a string''))"

definition int_item :: "pyval \<Rightarrow> string \<Rightarrow> exn + int" where
  "int_item d key = (case item d key of Inl e \<Rightarrow> Inl e | Inr (PyInt i) \<Rightarrow> Inr i | Inr _ \<Rightarrow> Inl (Exn TypeError ''not an integer''))"

definition bool_item :: "pyval \<Rightarrow> string \<Rightarrow> exn + bool" where
  "bool_item d key = (case item d key of Inl e \<Rightarrow> Inl e | Inr (PyBool b) \<Rightarrow> Inr b | Inr _ \<Rightarrow> Inl (Exn TypeError ''not a boolean''))"

definition list_item :: "pyval \<Rightarrow> string \<Rightarrow> exn + pyval list" where
  "list_item d key = (case item d key of Inl e \<Rightarrow> Inl e | Inr (PyList vs) \<Rightarrow> Inr vs | Inr _ \<Rightarrow> Inl (Exn TypeError ''not a list''))"

definition dict_item :: "pyval \<Rightarrow> string \<Rightarrow> exn + payload" where
  "dict_item d key = (case item d key of Inl e \<Rightarrow> Inl e | Inr (PyDict kvs) \<Rightarrow> Inr kvs | Inr _ \<Rightarrow> Inl (Exn TypeError ''not a dictionary''))"

definition pair_item :: "pyval \<Rightarrow> string \<Rightarrow> exn + int \<times> int" where
  "pair_item d key =
     (case list_item d key of
        Inl e \<Rightarrow> Inl e
      | Inr [PyInt i, PyInt j] \<Rightarrow> Inr (i, j)
      | Inr _ \<Rightarrow> Inl (Exn TypeError ''not a pair of integers''))"

text \<open>\<open>e.get(key, default)\<close>.\<close>

definition get_item :: "pyval \<Rightarrow> string \<Rightarrow> string \<Rightarrow> exn + string" where
  "get_item d key dflt = (case item d key of Inl (Exn KeyError m) \<Rightarrow> Inr dflt | _ \<Rightarrow> str_item d key)"

text \<open>\<open>UUID(s)\<close> and \<open>datetime.fromisoformat(s)\<close> are arguments; nothing is assumed of them unless a lemma says so.\<close>

definition parse_export_metadata ::
  "(string \<Rightarrow> exn + uuid) \<Rightarrow> (string \<Rightarrow> exn + datetime) \<Rightarrow> pyval \<Rightarrow> ('s, export_metadata) act" where
  "parse_export_metadata to_uuid fromisoformat d =
     act_bind (act_lift (item d ''metadata'')) (\<lambda>m.
     act_bind (act_lift (str_item m ''export_id'')) (\<lambda>export_id_text.
     act_bind (act_lift (to_uuid export_id_text)) (\<lambda>export_id.
     act_bind (act_lift (str_item m ''exported_at'')) (\<lambda>exported_at_text.
     act_bind (act_lift (fromisoformat exported_at_text)) (\<lambda>exported_at.
     act_bind (act_lift (str_item m ''format_version'')) (\<lambda>format_version.
     act_bind (act_lift (int_item m ''total_events'')) (\<lambda>total_events.
     act_bind (act_lift (str_item m ''genesis_hash'')) (\<lambda>genesis_hash.
     act_bind (act_lift (str_item m ''latest_hash'')) (\<lambda>latest_hash.
     act_bind (act_lift (pair_item m ''sequence_range'')) (\<lambda>sequence_range.
     act_lift (mk_export_metadata \<lparr>xm_export_id = export_id, xm_exported_at = exported_at,
       xm_format_version = format_version, xm_total_events = total_events, xm_genesis_hash = genesis_hash,
       xm_latest_hash = latest_hash, xm_sequence_range = sequence_range\<rparr>)))))))))))"

definition parse_event ::
  "(string \<Rightarrow> exn + uuid) \<Rightarrow> (string \<Rightarrow> exn + datetime) \<Rightarrow> pyval \<Rightarrow> ('l world, persisted_event) act" where
  "parse_event to_uuid fromisoformat e =
     act_bind (act_lift (str_item e ''event_id'')) (\<lambda>event_id_text.
     act_bind (act_lift (to_uuid event_id_text)) (\<lambda>event_id.
     act_bind (act_lift (str_item e ''event_type'')) (\<lambda>event_type.
     act_bind (act_lift (str_item e ''timestamp'')) (\<lambda>timestamp_text.
     act_bind (act_lift (fromisoformat timestamp_text)) (\<lambda>timestamp.
     act_bind (act_lift (str_item e ''actor_id'')) (\<lambda>actor_id.
     act_bind (act_lift (get_item e ''schema_version'' ''1.0.0'')) (\<lambda>schema_version.
     act_bind uuid4 (\<lambda>fresh.
     act_bind (act_lift (get_item e ''trace_id'' (uuid_str fresh))) (\<lambda>trace_id.
     act_bind (act_lift (str_item e ''prev_hash'')) (\<lambda>prev_hash.
     act_bind (act_lift (str_item e ''hash'')) (\<lambda>hash.
     act_bind (act_lift (mk_event_metadata \<lparr>em_event_id = event_id, em_event_type = event_type, em_timestamp = timestamp,
       em_actor_id = actor_id, em_schema_version = schema_version, em_trace_id = trace_id,
       em_prev_hash = prev_hash, em_hash = hash\<rparr>)) (\<lambda>metadata.
     act_bind (act_lift (dict_item e ''payload'')) (\<lambda>payload.
     act_bind (act_lift (int_item e ''sequence'')) (\<lambda>sequence.
     act_lift (mk_persisted_event \<lparr>ge_metadata = metadata, ge_payload = payload\<rparr> sequence)))))))))))))))"

fun parse_events ::
  "(string \<Rightarrow> exn + uuid) \<Rightarrow> (string \<Rightarrow> exn + datetime) \<Rightarrow> pyval list \<Rightarrow> ('l world, persisted_event list) act" where
  "parse_events to_uuid fromisoformat [] = act_return []"
| "parse_events to_uuid fromisoformat (e # es) =
     act_bind (parse_event to_uuid fromisoformat e) (\<lambda>p.
     act_bind (parse_events to_uuid fromisoformat es) (\<lambda>ps. act_return (p # ps)))"

definition parse_ledger_export ::
  "(string \<Rightarrow> exn + uuid) \<Rightarrow> (string \<Rightarrow> exn + datetime) \<Rightarrow> pyval \<Rightarrow> ('l world, ledger_export) act" where
  "parse_ledger_export to_uuid fromisoformat d =
     act_bind (parse_export_metadata to_uuid fromisoformat d) (\<lambda>metadata.
     act_bind (act_lift (list_item d ''events'')) (\<lambda>es.
     act_bind (parse_events to_uuid fromisoformat es) (\<lambda>events.
     act_bind (act_lift (item d ''verification'')) (\<lambda>v.
     act_bind (act_lift (str_item v ''hash_algorithm'')) (\<lambda>hash_algorithm.
     act_bind (act_lift (bool_item v ''chain_valid'')) (\<lambda>chain_valid.
     act_bind (act_lift (bool_item v ''genesis_to_latest'')) (\<lambda>genesis_to_latest.
     act_return \<lparr>lx_metadata = metadata, lx_events = events, lx_verification =
       \<lparr>vi_hash_algorithm = hash_algorithm, vi_chain_valid = chain_valid, vi_genesis_to_latest = genesis_to_latest\<rparr>\<rparr>)))))))"

text \<open>\<open>verify_offline\<close>, given the value \<open>json.loads\<close> makes of the text.\<close>

definition verify_offline ::
  "hash_lib \<Rightarrow> (persisted_event list \<Rightarrow> ('l world, 'st option) act)
    \<Rightarrow> (string \<Rightarrow> string \<Rightarrow> payload \<Rightarrow> ('l world, unit) act) option
    \<Rightarrow> (string \<Rightarrow> exn + uuid) \<Rightarrow> (string \<Rightarrow> exn + datetime) \<Rightarrow> pyval \<Rightarrow> ('l world, verification_result) act" where
  "verify_offline lib replay emitter to_uuid fromisoformat export_data =
     act_bind (parse_ledger_export to_uuid fromisoformat export_data) (\<lambda>export.
     verify_complete lib replay emitter export None None)"

section \<open>What the checks find\<close>

lemma link_issues_Nil:
  "link_issues es = [] \<longleftrightarrow> (\<forall>i. Suc i < length es \<longrightarrow> pe_prev_hash (es ! Suc i) = pe_hash (es ! i))"
proof (induction es rule: link_issues.induct)
  case (1 p q es)
  have "(\<forall>i. Suc i < length (p # q # es) \<longrightarrow> P i) \<longleftrightarrow> P 0 \<and> (\<forall>i. Suc i < length (q # es) \<longrightarrow> P (Suc i))" for P
    by (metis Suc_less_eq length_Cons not0_implies_Suc zero_less_Suc)
  then show ?case using 1 by simp
qed simp_all

lemma sequence_issues_Nil: "sequence_issues k es = [] \<longleftrightarrow> check_sequences k es = Inr ()"
  by (induction k es rule: check_sequences.induct) auto

text \<open>The first link is good and every other one joins neighbours.\<close>

definition links_joined :: "persisted_event list \<Rightarrow> bool" where
  "links_joined es \<longleftrightarrow> (es \<noteq> [] \<longrightarrow> is_valid_genesis_prev_hash (pe_prev_hash (hd es))) \<and>
     (\<forall>i. Suc i < length es \<longrightarrow> pe_prev_hash (es ! Suc i) = pe_hash (es ! i))"

lemma verifier_genesis_ok [simp]: "verifier_genesis_ok h = is_valid_genesis_prev_hash h"
  by (simp add: verifier_genesis_ok_def is_valid_genesis_prev_hash_def)

lemma verify_hash_chain_iff:
  "fst (verify_hash_chain es) \<longleftrightarrow> links_joined es" "fst (verify_hash_chain es) \<longleftrightarrow> snd (verify_hash_chain es) = []"
  by (auto simp: verify_hash_chain_def Let_def links_joined_def link_issues_Nil)

lemma verify_sequence_iff:
  "fst (verify_sequence es) \<longleftrightarrow> gapless es" "fst (verify_sequence es) \<longleftrightarrow> snd (verify_sequence es) = []"
  by (auto simp: verify_sequence_def Let_def sequence_issues_Nil gapless_check)

text \<open>Whether a Merkle root was asked for, and what the comparison says.\<close>

definition merkle_check :: "hash_lib \<Rightarrow> persisted_event list \<Rightarrow> string option \<Rightarrow> exn + bool \<times> detected_issue list" where
  "merkle_check lib events expected_merkle_root =
     (case expected_merkle_root of
        None \<Rightarrow> Inr (True, [])
      | Some root \<Rightarrow> if root = [] then Inr (True, []) else verify_merkle lib events root)"

lemma merkle_check_issues: "merkle_check lib es root = Inr (ok, issues) \<Longrightarrow> ok \<longleftrightarrow> issues = []"
  by (auto simp: merkle_check_def verify_merkle_def Let_def split: option.splits sum.splits if_splits)

lemma state_replay_issues: "verify_state_replay replay es w = (Inr (ok, issues), w') \<Longrightarrow> ok \<longleftrightarrow> issues = []"
  unfolding verify_state_replay_def
  by (auto simp: act_bind_def act_try_def split: if_splits sum.splits prod.splits option.splits)

lemma state_replay_returns: "\<exists>ok issues w'. verify_state_replay replay es w = (Inr (ok, issues), w')"
  unfolding verify_state_replay_def
  by (auto simp: act_bind_def act_try_def split: sum.splits prod.splits)

lemma status_of_checks:
  assumes "cv \<longleftrightarrow> ci = []" "sc \<longleftrightarrow> si = []" "mv \<longleftrightarrow> mi = []" "rv \<longleftrightarrow> ri = []"
  shows "determine_status cv sc mv rv (ci @ si @ mi @ ri) =
    (if cv \<and> sc \<and> mv \<and> rv then VALID else if \<not> cv \<and> \<not> sc \<and> \<not> mv \<and> \<not> rv then INVALID else PARTIAL)"
  using assms by (cases cv; cases sc; cases mv; cases rv) (simp_all add: determine_status_def)

text \<open>One run of the verifier: the four checks, the result they give, and the report of it.\<close>

definition verification_of ::
  "uuid \<Rightarrow> datetime \<Rightarrow> persisted_event list \<Rightarrow> bool \<times> detected_issue list \<Rightarrow> bool \<times> detected_issue list \<Rightarrow> verification_result" where
  "verification_of i now es m p =
     (let c = verify_hash_chain es; s = verify_sequence es; issues = snd c @ snd s @ snd m @ snd p in
      \<lparr>vr_verification_id = i, vr_verified_at = now, vr_status = determine_status (fst c) (fst s) (fst m) (fst p) issues,
       vr_hash_chain_valid = fst c, vr_merkle_valid = fst m, vr_sequence_complete = fst s, vr_state_replay_valid = fst p,
       vr_issues = issues, vr_total_events_verified = int (length es)\<rparr>)"

definition report_of ::
  "(string \<Rightarrow> string \<Rightarrow> payload \<Rightarrow> ('l world, unit) act) option \<Rightarrow> uuid option \<Rightarrow> verification_result \<Rightarrow> ('l world, unit) act" where
  "report_of emitter verifier r =
     (case (emitter, verifier) of
        (Some _, Some v) \<Rightarrow> emit_verification_event emitter (vr_verification_id r) v (vr_verified_at r) r
      | _ \<Rightarrow> act_return ())"

lemma verify_complete_merkle_error:
  assumes "merkle_check lib (lx_events x) root = Inl e"
  shows "verify_complete lib replay emitter x verifier root w =
    (Inl e, w\<lparr>w_clock_reads := Suc (w_clock_reads w), w_uuid_draws := Suc (w_uuid_draws w)\<rparr>)"
  using assms unfolding merkle_check_def by (simp add: verify_complete_def act_bind_def Let_def split_beta)

lemma verify_complete_run:
  assumes "merkle_check lib (lx_events x) root = Inr m"
    and "verify_state_replay replay (lx_events x)
      (w\<lparr>w_clock_reads := Suc (w_clock_reads w), w_uuid_draws := Suc (w_uuid_draws w)\<rparr>) = (Inr p, w2)"
    and "r = verification_of (w_uuid w (w_uuid_draws w)) (w_clock w (w_clock_reads w)) (lx_events x) m p"
  shows "verify_complete lib replay emitter x verifier root w = act_bind (report_of emitter verifier r) (\<lambda>_. act_return r) w2"
proof -
  have r: "vr_verification_id r = w_uuid w (w_uuid_draws w)" "vr_verified_at r = w_clock w (w_clock_reads w)"
    by (simp_all add: assms(3) verification_of_def Let_def)
  show ?thesis
    using assms(1) [unfolded merkle_check_def] assms(2) assms(3) [unfolded verification_of_def Let_def]
    by (cases emitter; cases verifier) (simp_all add: verify_complete_def Let_def split_beta report_of_def r mk_verification_result_def)
qed

lemma verify_complete_cases:
  assumes "verify_complete lib replay emitter x verifier root w = (Inr r, w')"
  obtains m p w2 where "merkle_check lib (lx_events x) root = Inr m" and
    "verify_state_replay replay (lx_events x)
       (w\<lparr>w_clock_reads := Suc (w_clock_reads w), w_uuid_draws := Suc (w_uuid_draws w)\<rparr>) = (Inr p, w2)"
    and "r = verification_of (w_uuid w (w_uuid_draws w)) (w_clock w (w_clock_reads w)) (lx_events x) m p"
proof (cases "merkle_check lib (lx_events x) root")
  case (Inl e)
  then show thesis using assms verify_complete_merkle_error [OF Inl] by (metis Inl_Inr_False prod.inject)
next
  case (Inr m)
  obtain ok issues w2 where p: "verify_state_replay replay (lx_events x)
       (w\<lparr>w_clock_reads := Suc (w_clock_reads w), w_uuid_draws := Suc (w_uuid_draws w)\<rparr>) = (Inr (ok, issues), w2)"
    using state_replay_returns by blast
  from verify_complete_run [OF Inr p refl, of emitter verifier] assms
  show thesis using that [OF Inr p] by (auto simp: act_bind_def split: sum.splits prod.splits)
qed

lemma verification_of_status:
  assumes "merkle_check lib es root = Inr m" and "verify_state_replay replay es w = (Inr p, w2)"
    and "r = verification_of i now es m p"
  shows "vr_hash_chain_valid r \<longleftrightarrow> links_joined es" and "vr_sequence_complete r \<longleftrightarrow> gapless es"
    and "vr_merkle_valid r = fst m" and "vr_state_replay_valid r = fst p"
    and "vr_status r = (if links_joined es \<and> gapless es \<and> fst m \<and> fst p then VALID
      else if \<not> links_joined es \<and> \<not> gapless es \<and> \<not> fst m \<and> \<not> fst p then INVALID else PARTIAL)"
    and "vr_issues r = [] \<longleftrightarrow> vr_status r = VALID"
proof -
  have iff: "fst m \<longleftrightarrow> snd m = []" "fst p \<longleftrightarrow> snd p = []"
    using merkle_check_issues [of lib es root "fst m" "snd m"] state_replay_issues [of replay es w "fst p" "snd p"] assms(1,2) by simp_all
  show "vr_hash_chain_valid r \<longleftrightarrow> links_joined es" "vr_sequence_complete r \<longleftrightarrow> gapless es"
    "vr_merkle_valid r = fst m" "vr_state_replay_valid r = fst p"
    by (simp_all add: assms(3) verification_of_def Let_def verify_hash_chain_iff(1) verify_sequence_iff(1))
  show status: "vr_status r = (if links_joined es \<and> gapless es \<and> fst m \<and> fst p then VALID
      else if \<not> links_joined es \<and> \<not> gapless es \<and> \<not> fst m \<and> \<not> fst p then INVALID else PARTIAL)"
    using status_of_checks [OF verify_hash_chain_iff(2) [of es] verify_sequence_iff(2) [of es] iff]
    by (simp add: assms(3) verification_of_def Let_def verify_hash_chain_iff(1) verify_sequence_iff(1))
  show "vr_issues r = [] \<longleftrightarrow> vr_status r = VALID"
    unfolding status
    using iff verify_hash_chain_iff [of es] verify_sequence_iff [of es] by (auto simp: assms(3) verification_of_def Let_def)
qed

text \<open>A replayer that derives a state from these events, and an emitter that is absent or works.\<close>

definition replay_accepts :: "(persisted_event list \<Rightarrow> ('s, 'st option) act) \<Rightarrow> persisted_event list \<Rightarrow> bool" where
  "replay_accepts replay es \<longleftrightarrow> (\<forall>s. \<exists>st s'. replay es s = (Inr (Some st), s'))"

definition reporter_works :: "(string \<Rightarrow> string \<Rightarrow> payload \<Rightarrow> ('s, unit) act) option \<Rightarrow> bool" where
  "reporter_works emitter \<longleftrightarrow> (case emitter of None \<Rightarrow> True | Some emit \<Rightarrow> emitter_works emit)"

text \<open>With the other three checks passed, the verdict and the issues are those of the state replay.\<close>

lemma verify_complete_rests_on_replay:
  assumes "links_joined (lx_events x)" and "gapless (lx_events x)" and "merkle_check lib (lx_events x) root = Inr (True, [])"
  shows "\<exists>r w2. verify_state_replay replay (lx_events x)
        (w\<lparr>w_clock_reads := Suc (w_clock_reads w), w_uuid_draws := Suc (w_uuid_draws w)\<rparr>) =
        (Inr (vr_state_replay_valid r, vr_issues r), w2) \<and>
      verify_complete lib replay emitter x verifier root w = act_bind (report_of emitter verifier r) (\<lambda>_. act_return r) w2 \<and>
      vr_hash_chain_valid r \<and> vr_sequence_complete r \<and> vr_merkle_valid r \<and>
      vr_status r = (if vr_state_replay_valid r then VALID else PARTIAL)"
proof -
  obtain ok issues w2 where p: "verify_state_replay replay (lx_events x)
      (w\<lparr>w_clock_reads := Suc (w_clock_reads w), w_uuid_draws := Suc (w_uuid_draws w)\<rparr>) = (Inr (ok, issues), w2)"
    using state_replay_returns by blast
  let ?r = "verification_of (w_uuid w (w_uuid_draws w)) (w_clock w (w_clock_reads w)) (lx_events x) (True, []) (ok, issues)"
  have "vr_issues ?r = issues"
    using assms(1,2) verify_hash_chain_iff [of "lx_events x"] verify_sequence_iff [of "lx_events x"]
    by (simp add: verification_of_def Let_def)
  then show ?thesis
    using p verify_complete_run [OF assms(3) p refl, of emitter verifier] verification_of_status(1-5) [OF assms(3) p refl] assms(1,2)
    by (intro exI [of _ ?r] exI [of _ w2]) simp
qed

lemma verify_complete_accepts:
  assumes "links_joined (lx_events x)" and "gapless (lx_events x)" and "merkle_check lib (lx_events x) root = Inr (True, [])"
    and "replay_accepts replay (lx_events x)" and "reporter_works emitter"
  shows "\<exists>r w'. verify_complete lib replay emitter x verifier root w = (Inr r, w') \<and> vr_status r = VALID \<and> vr_issues r = []"
proof -
  let ?es = "lx_events x"
  let ?w1 = "w\<lparr>w_clock_reads := Suc (w_clock_reads w), w_uuid_draws := Suc (w_uuid_draws w)\<rparr>"
  obtain w2 where p: "verify_state_replay replay ?es ?w1 = (Inr (True, []), w2)"
  proof -
    obtain st s' where "replay ?es ?w1 = (Inr (Some st), s')" using assms(4) unfolding replay_accepts_def by blast
    then show thesis using that by (cases "?es = []") (simp_all add: verify_state_replay_def act_bind_def act_try_def)
  qed
  let ?r = "verification_of (w_uuid w (w_uuid_draws w)) (w_clock w (w_clock_reads w)) ?es (True, []) (True, [])"
  have "\<exists>w3. report_of emitter verifier ?r w2 = (Inr (), w3)"
    using assms(5) unfolding reporter_works_def emitter_works_def report_of_def emit_verification_event_def
    by (cases emitter; cases verifier) simp_all
  then obtain w3 where "report_of emitter verifier ?r w2 = (Inr (), w3)" ..
  then have "verify_complete lib replay emitter x verifier root w = (Inr ?r, w3)"
    using verify_complete_run [OF assms(3) p refl, of emitter verifier] by (simp add: act_bind_def)
  moreover have "vr_status ?r = VALID" "vr_issues ?r = []"
    using verification_of_status(5,6) [OF assms(3) p refl] assms(1,2) by simp_all
  ultimately show ?thesis by auto
qed

section \<open>Exported files cannot be read\<close>

lemma exported_event_has_no_hash:
  "item (event_to_dict p) ''hash'' = Inl (Exn KeyError (py_repr ''hash''))"
  by (simp add: item_def event_to_dict_def Let_def dict_get_def)

definition always_raises :: "('s, 'a) act \<Rightarrow> bool" where
  "always_raises m \<longleftrightarrow> (\<forall>s. \<exists>e t. m s = (Inl e, t))"

lemma always_raises_later: "(\<And>x. always_raises (f x)) \<Longrightarrow> always_raises (act_bind m f)"
  unfolding always_raises_def act_bind_def by (auto split: prod.splits sum.splits)

lemma always_raises_now: "always_raises m \<Longrightarrow> always_raises (act_bind m f)"
  unfolding always_raises_def by (metis act_bind_Inl)

lemma always_raises_lift: "always_raises (f x) \<Longrightarrow> always_raises (act_bind (act_lift (Inr x)) f)"
  unfolding always_raises_def by (simp add: act_bind_def)

lemma parse_event_raises: "always_raises (parse_event to_uuid fromisoformat (event_to_dict p))"
proof -
  have no_hash: "always_raises (act_lift (str_item (event_to_dict p) ''hash'') :: ('l world, string) act)"
    by (simp add: str_item_def exported_event_has_no_hash always_raises_def)
  show ?thesis
    unfolding parse_event_def
    by (rule always_raises_later, rule always_raises_later, rule always_raises_later, rule always_raises_later, rule always_raises_later,
        rule always_raises_later, rule always_raises_later, rule always_raises_later, rule always_raises_later, rule always_raises_later, rule always_raises_now, rule no_hash)
qed

lemma export_to_dict_items:
  "item (export_to_dict x) ''events'' = Inr (PyList (map event_to_dict (lx_events x)))"
  by (simp add: item_def export_to_dict_def Let_def dict_get_def)

lemma parse_ledger_export_raises:
  assumes "lx_events x \<noteq> []"
  shows "always_raises (parse_ledger_export to_uuid fromisoformat (export_to_dict x))"
proof -
  obtain p ps where ps: "lx_events x = p # ps" using assms by (cases "lx_events x") auto
  have no_event: "always_raises (parse_events to_uuid fromisoformat (map event_to_dict (lx_events x)))"
    using always_raises_now [OF parse_event_raises] ps by simp
  have events: "list_item (export_to_dict x) ''events'' = Inr (map event_to_dict (lx_events x))"
    by (simp add: list_item_def export_to_dict_items)
  show ?thesis
    unfolding parse_ledger_export_def events
    by (rule always_raises_later, rule always_raises_lift, rule always_raises_now, rule no_event)
qed

text \<open>With library functions that invert \<open>str\<close> and \<open>isoformat\<close> it is the missing key that is reported.\<close>

lemma export_of_items:
  assumes "gapless es" and "to_uuid (uuid_str i) = Inr i" and "fromisoformat (isoformat now) = Inr now"
  shows "parse_export_metadata to_uuid fromisoformat (export_to_dict (export_of i now es)) w =
    (Inr (lx_metadata (export_of i now es)), w)"
proof -
  let ?x = "export_of i now es"
  let ?m = "PyDict [(''export_id'', PyStr (uuid_str (xm_export_id (lx_metadata ?x)))),
    (''exported_at'', PyStr (isoformat (xm_exported_at (lx_metadata ?x)))),
    (''format_version'', PyStr (xm_format_version (lx_metadata ?x))), (''total_events'', PyInt (xm_total_events (lx_metadata ?x))),
    (''genesis_hash'', PyStr (xm_genesis_hash (lx_metadata ?x))), (''latest_hash'', PyStr (xm_latest_hash (lx_metadata ?x))),
    (''sequence_range'', PyList [PyInt (fst (xm_sequence_range (lx_metadata ?x))), PyInt (snd (xm_sequence_range (lx_metadata ?x)))])]"
  have m: "item (export_to_dict ?x) ''metadata'' = Inr ?m"
    by (simp add: item_def export_to_dict_def Let_def dict_get_def)
  have mi: "str_item ?m ''export_id'' = Inr (uuid_str (xm_export_id (lx_metadata ?x)))"
    "str_item ?m ''exported_at'' = Inr (isoformat (xm_exported_at (lx_metadata ?x)))"
    "str_item ?m ''format_version'' = Inr (xm_format_version (lx_metadata ?x))"
    "int_item ?m ''total_events'' = Inr (xm_total_events (lx_metadata ?x))"
    "str_item ?m ''genesis_hash'' = Inr (xm_genesis_hash (lx_metadata ?x))"
    "str_item ?m ''latest_hash'' = Inr (xm_latest_hash (lx_metadata ?x))"
    "pair_item ?m ''sequence_range'' = Inr (fst (xm_sequence_range (lx_metadata ?x)), snd (xm_sequence_range (lx_metadata ?x)))"
    by (simp_all add: str_item_def int_item_def pair_item_def list_item_def item_def dict_get_def)
  have whole: "\<lparr>xm_export_id = xm_export_id m, xm_exported_at = xm_exported_at m, xm_format_version = xm_format_version m,
      xm_total_events = xm_total_events m, xm_genesis_hash = xm_genesis_hash m, xm_latest_hash = xm_latest_hash m,
      xm_sequence_range = xm_sequence_range m\<rparr> = m" for m :: export_metadata
    by (cases m) simp
  have ids: "to_uuid (uuid_str (xm_export_id (lx_metadata ?x))) = Inr (xm_export_id (lx_metadata ?x))"
    "fromisoformat (isoformat (xm_exported_at (lx_metadata ?x))) = Inr (xm_exported_at (lx_metadata ?x))"
    using assms(2,3) by (simp_all add: export_of_def)
  show ?thesis
    unfolding parse_export_metadata_def act_bind_def act_lift_def m
    using export_of_complete(1) [OF assms(1), of i now] by (simp add: mi ids whole)
qed

lemma parse_event_KeyError:
  assumes "to_uuid (uuid_str (ge_event_id (pe_event p))) = Inr (ge_event_id (pe_event p))"
    and "fromisoformat (isoformat (em_timestamp (ge_metadata (pe_event p)))) = Inr (em_timestamp (ge_metadata (pe_event p)))"
  shows "\<exists>w'. parse_event to_uuid fromisoformat (event_to_dict p) w = (Inl (Exn KeyError (py_repr ''hash'')), w')"
proof -
  have ev: "str_item (event_to_dict p) ''event_id'' = Inr (uuid_str (ge_event_id (pe_event p)))"
    "str_item (event_to_dict p) ''event_type'' = Inr (ge_event_type (pe_event p))"
    "str_item (event_to_dict p) ''timestamp'' = Inr (isoformat (em_timestamp (ge_metadata (pe_event p))))"
    "str_item (event_to_dict p) ''actor_id'' = Inr (ge_actor_id (pe_event p))"
    "get_item (event_to_dict p) ''schema_version'' dflt = Inr (em_schema_version (ge_metadata (pe_event p)))"
    "get_item (event_to_dict p) ''trace_id'' dflt = Inr (ge_trace_id (pe_event p))"
    "str_item (event_to_dict p) ''prev_hash'' = Inr (ge_prev_hash (pe_event p))"
    "str_item (event_to_dict p) ''hash'' = Inl (Exn KeyError (py_repr ''hash''))" for dflt
    by (simp_all add: str_item_def get_item_def item_def event_to_dict_def Let_def dict_get_def)
  show ?thesis unfolding parse_event_def act_bind_def act_lift_def by (simp add: ev assms)
qed

section \<open>Events without their content\<close>

text \<open>All that the services look at: sequence numbers and the two hash fields.\<close>

definition same_skeleton :: "persisted_event list \<Rightarrow> persisted_event list \<Rightarrow> bool" where
  "same_skeleton es fs \<longleftrightarrow>
     map (\<lambda>p. (pe_sequence p, pe_prev_hash p, pe_hash p)) es = map (\<lambda>p. (pe_sequence p, pe_prev_hash p, pe_hash p)) fs"

lemma same_skeleton_facts:
  assumes "same_skeleton es fs"
  shows "length es = length fs" "es = [] \<longleftrightarrow> fs = []" "map pe_hash es = map pe_hash fs"
    "links_valid es = links_valid fs" "links_joined es = links_joined fs" "gapless es = gapless fs"
    "es \<noteq> [] \<Longrightarrow> pe_prev_hash (hd es) = pe_prev_hash (hd fs) \<and> pe_hash (hd es) = pe_hash (hd fs) \<and>
       pe_hash (last es) = pe_hash (last fs) \<and> pe_sequence (hd es) = pe_sequence (hd fs) \<and>
       pe_sequence (last es) = pe_sequence (last fs)"
proof -
  show len: "length es = length fs" using assms unfolding same_skeleton_def by (rule map_eq_imp_length_eq)
  then show ne: "es = [] \<longleftrightarrow> fs = []" by auto
  have nth: "pe_sequence (es ! i) = pe_sequence (fs ! i) \<and> pe_prev_hash (es ! i) = pe_prev_hash (fs ! i) \<and>
      pe_hash (es ! i) = pe_hash (fs ! i)" if "i < length es" for i
    using assms that len unfolding same_skeleton_def list_eq_iff_nth_eq by auto
  show "map pe_hash es = map pe_hash fs" using nth len by (simp add: list_eq_iff_nth_eq)
  show "links_valid es = links_valid fs" using nth len by (auto simp: links_valid_nth)
  show "gapless es = gapless fs" using nth len by (auto simp: gapless_iff)
  show ends: "pe_prev_hash (hd es) = pe_prev_hash (hd fs) \<and> pe_hash (hd es) = pe_hash (hd fs) \<and>
       pe_hash (last es) = pe_hash (last fs) \<and> pe_sequence (hd es) = pe_sequence (hd fs) \<and>
       pe_sequence (last es) = pe_sequence (last fs)" if "es \<noteq> []"
    using nth [of 0] nth [of "length es - 1"] that ne len by (simp add: hd_conv_nth last_conv_nth)
  show "links_joined es = links_joined fs"
    using nth len ne ends by (auto simp: links_joined_def)
qed

lemma same_skeleton_proofs:
  assumes "same_skeleton es fs"
  shows "verify_completeness_proof lib p es = verify_completeness_proof lib p fs"
    and "ledger_merkle_root lib es = ledger_merkle_root lib fs"
proof -
  note f = same_skeleton_facts [OF assms]
  show root: "ledger_merkle_root lib es = ledger_merkle_root lib fs"
    using f(2,3,7) by (auto simp: ledger_merkle_root_def)
  have "proof_of_chain es = proof_of_chain fs"
    using f by (auto simp: proof_of_chain_def Let_def)
  then show "verify_completeness_proof lib p es = verify_completeness_proof lib p fs"
    using f(1) root by (simp add: verify_completeness_proof_def split: sum.split)
qed

lemma same_skeleton_update:
  assumes "i < length es" and "ge_hash e = pe_hash (es ! i)" and "ge_prev_hash e = pe_prev_hash (es ! i)"
  shows "same_skeleton es (es[i := (es ! i)\<lparr>pe_event := e\<rparr>])"
  using assms by (auto simp: same_skeleton_def list_eq_iff_nth_eq nth_list_update)

lemma lawful_log_joined:
  assumes "lawful_log lib es"
  shows "links_joined es" and "gapless es"
proof -
  have "is_valid_genesis_prev_hash (pe_prev_hash (hd es))" if "es \<noteq> []"
    using assms that by (cases es) (auto simp: lawful_log_def link_ok_def intro: genesis_prev_hash_valid)
  then show "links_joined es"
    using chain_ok_nth [of lib None "map pe_event es"] assms by (auto simp: links_joined_def lawful_log_def)
  show "gapless es" using assms by (simp add: lawful_log_def gapless_def)
qed

text \<open>The root of a completeness proof names its algorithm, so the verifier recomputes the same tree.\<close>

lemma root_prefixed:
  assumes "mk_merkle_tree lib hs a = Inr t" and "hs \<noteq> []"
  shows "\<exists>y. merkle_root t = prefixed a y" and "a \<in> supported_algorithms"
proof -
  obtain d where d: "digest_of lib a = Some d" using mk_merkle_tree_digest [OF assms] by blast
  then show "a \<in> supported_algorithms" by (rule digest_of_supported)
  let ?xs = "pad_to_power_of_two (map (leaf_of d a) hs)"
  obtain k where k: "length ?xs = 2 ^ k" "merkle_root t = apex (node_of d a) k ?xs"
    using mk_merkle_tree_available [OF d assms(2)] assms(1) by (metis sum.inject(2))
  have "\<forall>x\<in>set ?xs. \<exists>y. x = prefixed a (d y)"
    using set_padded [OF assms(2), of "leaf_of d a"] by (auto simp: leaf_of_def)
  then show "\<exists>y. merkle_root t = prefixed a y" using apex_prefixed [OF k(1)] k(2) by metis
qed

lemma lawful_root_check:
  assumes "lawful_log lib es" and "ledger_merkle_root lib es = Inr root" and "same_skeleton es fs"
  shows "merkle_check lib fs (Some root) = Inr (True, [])"
proof (cases "es = []")
  case True
  then have "root = ''blake3:empty''" "fs = []"
    using assms(2) same_skeleton_facts(2) [OF assms(3)] by (simp_all add: ledger_merkle_root_def default_algorithm_def)
  then show ?thesis by (simp add: merkle_check_def verify_merkle_def)
next
  case False
  let ?a = "detect_algorithm (pe_hash (hd es))"
  obtain t where t: "mk_merkle_tree lib (map pe_hash es) ?a = Inr t" "root = merkle_root t"
    using lawful_log_tree [OF assms(1) False] assms(2) by (metis sum.inject(2))
  obtain y where y: "root = prefixed ?a y" and sup: "?a \<in> supported_algorithms"
    using root_prefixed [OF t(1)] False t(2) by auto
  have "verifier_algorithm root = ?a"
    using split_prefixed [OF sup] py_lower_supported [OF sup] by (simp add: verifier_algorithm_def y prefixed_def)
  then show ?thesis
    using t same_skeleton_facts(2,3) [OF assms(3)] False y
    by (simp add: merkle_check_def verify_merkle_def compute_merkle_root_def prefixed_def)
qed

section \<open>Claims\<close>

text \<open>
  What a verification result says. The chain is called valid just when every event links to its neighbour, the
  sequence complete just when it counts 1, 2, 3 and so on; the status is valid just when there is no issue, and invalid
  only when all four checks fail, which cannot be without a Merkle root to compare with.
\<close>

theorem verification_status_spec:
  assumes "verify_complete lib replay emitter x verifier root w = (Inr r, w')"
  shows "(vr_hash_chain_valid r \<longleftrightarrow> links_joined (lx_events x)) \<and> (vr_sequence_complete r \<longleftrightarrow> gapless (lx_events x)) \<and>
    (vr_status r = VALID \<longleftrightarrow> vr_issues r = []) \<and>
    (vr_status r = VALID \<longleftrightarrow> vr_hash_chain_valid r \<and> vr_sequence_complete r \<and> vr_merkle_valid r \<and> vr_state_replay_valid r) \<and>
    (vr_status r = INVALID \<longleftrightarrow> \<not> vr_hash_chain_valid r \<and> \<not> vr_sequence_complete r \<and> \<not> vr_merkle_valid r \<and> \<not> vr_state_replay_valid r) \<and>
    (root = None \<longrightarrow> vr_merkle_valid r \<and> vr_status r \<noteq> INVALID)"
proof -
  obtain m p w2 where *: "merkle_check lib (lx_events x) root = Inr m"
    "verify_state_replay replay (lx_events x)
       (w\<lparr>w_clock_reads := Suc (w_clock_reads w), w_uuid_draws := Suc (w_uuid_draws w)\<rparr>) = (Inr p, w2)"
    "r = verification_of (w_uuid w (w_uuid_draws w)) (w_clock w (w_clock_reads w)) (lx_events x) m p"
    using verify_complete_cases [OF assms] by blast
  note status = verification_of_status [OF *]
  have "fst m" if "root = None" using *(1) that by (auto simp: merkle_check_def)
  then show ?thesis
    using status(1-4) status(6) by (auto simp: status(5) split: if_splits)
qed

theorem verification_status_spec_witness:
  "\<exists>r w'. verify_complete example_lib (\<lambda>_. act_return (Some ())) None
       (export_of 1 5 [\<lparr>pe_event = example_event 1, pe_sequence = 1\<rparr>, \<lparr>pe_event = example_event 2, pe_sequence = 4\<rparr>])
       None None (example_world [] 5) = (Inr r, w') \<and>
     vr_status r \<noteq> INVALID \<and> \<not> vr_sequence_complete r \<and> vr_issues r \<noteq> []"
proof -
  let ?es = "[\<lparr>pe_event = example_event 1, pe_sequence = 1\<rparr>, \<lparr>pe_event = example_event 2, pe_sequence = 4\<rparr>]"
  let ?w1 = "(example_world [] 5)\<lparr>w_clock_reads := Suc (w_clock_reads (example_world [] 5)),
    w_uuid_draws := Suc (w_uuid_draws (example_world [] 5))\<rparr>"
  have p: "verify_state_replay (\<lambda>_. act_return (Some ())) (lx_events (export_of 1 5 ?es)) ?w1 = (Inr (True, []), ?w1)"
    by (simp add: export_of_def verify_state_replay_def act_bind_def act_try_def)
  have m: "merkle_check example_lib (lx_events (export_of 1 5 ?es)) None = Inr (True, [])" by (simp add: merkle_check_def)
  from verify_complete_run [OF m p refl, of None None] obtain r w' where
    run: "verify_complete example_lib (\<lambda>_. act_return (Some ())) None (export_of 1 5 ?es) None None (example_world [] 5) = (Inr r, w')"
    by (auto simp: report_of_def act_bind_def)
  have "\<not> gapless (lx_events (export_of 1 5 ?es))" by (simp add: export_of_def gapless_def)
  then show ?thesis using verification_status_spec [OF run] run by auto
qed

text \<open>
  C28: tampering that the verification of exports does not notice. Replace any event of a chain, other than the last, by
  one with other content and the old two hash fields. The break detector notices (or a digest function fails), but in
  independent verification, even against the Merkle root of the original ledger, the checks of hash chain, sequence and
  Merkle root all pass: its issues are exactly those of the state replayer, a collaborator that is not part of the
  repository and may reject the events, and its status is VALID when that has none and PARTIAL otherwise, never
  INVALID. (The result is returned unless reporting it raises.) Every completeness proof is accepted for the tampered
  events exactly as for the original.
\<close>

theorem tampering_unnoticed:
  assumes "lawful_log lib es" and "i + 1 < length es" and "\<not> same_content (pe_event (es ! i)) e'"
    and "\<forall>p\<in>set es. payload_floats_ok (pe_event p)" and "payload_floats_ok e'"
    and "ge_hash e' = pe_hash (es ! i)" and "ge_prev_hash e' = pe_prev_hash (es ! i)"
    and "ledger_merkle_root lib es = Inr root"
    and "lx_events x = es[i := (es ! i)\<lparr>pe_event := e'\<rparr>]"
  shows "(\<exists>r w2. verify_state_replay replay (lx_events x)
         (w\<lparr>w_clock_reads := Suc (w_clock_reads w), w_uuid_draws := Suc (w_uuid_draws w)\<rparr>) =
         (Inr (vr_state_replay_valid r, vr_issues r), w2) \<and>
       verify_complete lib replay emitter x verifier (Some root) w =
         act_bind (report_of emitter verifier r) (\<lambda>_. act_return r) w2 \<and>
       vr_hash_chain_valid r \<and> vr_sequence_complete r \<and> vr_merkle_valid r \<and>
       vr_status r = (if vr_state_replay_valid r then VALID else PARTIAL)) \<and>
    verify_completeness_proof lib p (lx_events x) = verify_completeness_proof lib p es \<and>
    ((\<forall>n. check_sequence lib detector (map pe_event (lx_events x)) now \<noteq>
        Inr \<lparr>has_break = False, break_info = None, events_verified = n\<rparr>) \<or>
     digest_failure lib (map pe_event es) (map pe_event (lx_events x)))"
proof -
  have skeleton: "same_skeleton es (lx_events x)"
    using same_skeleton_update [OF _ assms(6,7)] assms(2,9) by simp
  note same = same_skeleton_facts [OF skeleton]
  have passed: "links_joined (lx_events x)" "gapless (lx_events x)" "merkle_check lib (lx_events x) (Some root) = Inr (True, [])"
    using lawful_log_joined [OF assms(1)] same(5,6) lawful_root_check [OF assms(1,8) skeleton] by simp_all
  have events: "map pe_event (lx_events x) = (map pe_event es)[i := e']"
    using assms(9) by (simp add: map_update)
  have "(\<forall>n. check_sequence lib detector ((map pe_event es)[i := e']) now \<noteq>
        Inr \<lparr>has_break = False, break_info = None, events_verified = n\<rparr>) \<or>
     digest_failure lib (map pe_event es) ((map pe_event es)[i := e'])"
    using assms(1-5) by (intro tampered_chain_breaks) (simp_all add: lawful_log_def)
  then show ?thesis
    using verify_complete_rests_on_replay [OF passed, of replay w emitter verifier] same_skeleton_proofs(1) [OF skeleton]
    by (simp only: events)
qed

theorem tampering_unnoticed_witness:
  "\<exists>es x root r w'. length es = 2 \<and> lx_events x \<noteq> es \<and> ledger_merkle_root example_lib es = Inr root \<and>
     verify_complete example_lib (\<lambda>_. act_return (Some ())) None x None (Some root) (example_world [] 5) = (Inr r, w') \<and>
     vr_status r = VALID"
proof (rule example_chain)
  fix e f assume *: "chain_ok example_lib None [e, f]" "ge_payload e = [(''task_id'', PyStr ''7'')]"
    "payload_floats_ok e" "payload_floats_ok f"
  let ?es = "[\<lparr>pe_event = e, pe_sequence = 1\<rparr>, \<lparr>pe_event = f, pe_sequence = 2\<rparr>]"
  let ?e = "e\<lparr>ge_payload := []\<rparr>"
  have law: "lawful_log example_lib ?es" using *(1) by (simp add: lawful_log_def upt_rec)
  obtain root where root: "ledger_merkle_root example_lib ?es = Inr root" using lawful_log_root [OF law] by blast
  obtain x :: ledger_export where x: "lx_events x = ?es[0 := (?es ! 0)\<lparr>pe_event := ?e\<rparr>]"
    by (rule that [of "export_of 1 5 (?es[0 := (?es ! 0)\<lparr>pe_event := ?e\<rparr>])"]) (simp add: export_of_def)
  have content: "\<not> same_content (pe_event (?es ! 0)) ?e" "payload_floats_ok ?e" "?e \<noteq> e" "ge_hash ?e = pe_hash (?es ! 0)"
      "ge_prev_hash ?e = pe_prev_hash (?es ! 0)"
    using *(2) by (auto simp: same_content_def canonical_value_def payload_floats_ok_def ge_accessors dest: arg_cong [of _ _ ge_payload])
  have floats: "\<forall>p\<in>set ?es. payload_floats_ok (pe_event p)" using *(3,4) by simp
  have i: "0 + 1 < length ?es" by simp
  have replayed: "verify_state_replay (\<lambda>_. act_return (Some ())) (lx_events x) w = (Inr (True, []), w)"
    for w :: "memory_ledger world"
    by (simp add: x verify_state_replay_def act_bind_def act_try_def)
  obtain r w' where "verify_complete example_lib (\<lambda>_. act_return (Some ())) None x None (Some root) (example_world [] 5) = (Inr r, w')"
      "vr_status r = VALID"
    using tampering_unnoticed [OF law i content(1) floats content(2,4,5) root x, THEN conjunct1,
        of "\<lambda>_. act_return (Some ())" "example_world [] 5" None None]
    unfolding replayed by (auto simp: report_of_def act_bind_def)
  moreover have "lx_events x \<noteq> ?es" using content(3) by (simp add: x)
  ultimately show ?thesis using root by (intro exI [of _ ?es] exI [of _ x] exI [of _ root] exI [of _ r] exI [of _ w']) simp
qed

text \<open>
  An exported file can never be verified offline. The exporter writes the hash of an event under the key
  \<open>event_hash\<close>, the verifier reads \<open>hash\<close>: for every export with an event, and whatever the library functions
  that read ids and times do, verification raises; when they invert what the exporter wrote, it raises \<open>KeyError\<close> on
  that key.
\<close>

theorem exported_never_verified:
  assumes "es \<noteq> []"
  shows "\<exists>e w'. verify_offline lib replay emitter to_uuid fromisoformat (export_to_dict (export_of i now es)) w = (Inl e, w') \<and>
    (gapless es \<and> (\<forall>u\<in>insert i ((ge_event_id \<circ> pe_event) ` set es). to_uuid (uuid_str u) = Inr u) \<and>
     (\<forall>t\<in>insert now ((em_timestamp \<circ> ge_metadata \<circ> pe_event) ` set es). fromisoformat (isoformat t) = Inr t) \<longrightarrow>
       e = Exn KeyError (py_repr ''hash''))"
proof -
  let ?x = "export_of i now es"
  have ne: "lx_events ?x \<noteq> []" using assms by (simp add: export_of_def)
  obtain e w1 where raised: "parse_ledger_export to_uuid fromisoformat (export_to_dict ?x) w = (Inl e, w1)"
    using parse_ledger_export_raises [OF ne] unfolding always_raises_def by blast
  have "e = Exn KeyError (py_repr ''hash'')"
    if "gapless es" and u: "\<forall>u\<in>insert i ((ge_event_id \<circ> pe_event) ` set es). to_uuid (uuid_str u) = Inr u"
      and t: "\<forall>t\<in>insert now ((em_timestamp \<circ> ge_metadata \<circ> pe_event) ` set es). fromisoformat (isoformat t) = Inr t"
  proof -
    obtain p ps where es: "es = p # ps" using assms by (cases es) auto
    obtain w2 where "parse_event to_uuid fromisoformat (event_to_dict p) w = (Inl (Exn KeyError (py_repr ''hash'')), w2)"
      using parse_event_KeyError [of to_uuid p fromisoformat w] u t es by auto
    moreover have "list_item (export_to_dict ?x) ''events'' = Inr (map event_to_dict es)"
      by (simp add: list_item_def export_to_dict_items) (simp add: export_of_def)
    ultimately show ?thesis
      using raised export_of_items [OF that(1), of to_uuid i fromisoformat now w] u t
      by (simp add: parse_ledger_export_def act_bind_def es)
  qed
  then show ?thesis using raised by (auto simp: verify_offline_def)
qed

theorem exported_never_verified_witness:
  "\<exists>w'. verify_offline example_lib (\<lambda>_. act_return (Some ())) None (\<lambda>_. Inr 1) (\<lambda>_. Inr 0)
     (export_to_dict (export_of 1 0 [\<lparr>pe_event = example_event 1, pe_sequence = 1\<rparr>])) (example_world [] 5) =
     (Inl (Exn KeyError (py_repr ''hash'')), w')"
proof -
  let ?es = "[\<lparr>pe_event = example_event 1, pe_sequence = 1\<rparr>]"
  have ne: "?es \<noteq> []" by simp
  have "gapless ?es" "ge_event_id (example_event 1) = 1" "em_timestamp (ge_metadata (example_event 1)) = 0"
    by (simp_all add: gapless_def example_event_def ge_accessors)
  then show ?thesis
    using exported_never_verified [OF ne, of example_lib "\<lambda>_. act_return (Some ())" None "\<lambda>_. Inr 1" "\<lambda>_. Inr 0" 1 0
        "example_world [] 5"]
    by auto
qed

text \<open>
  Over the PostgreSQL ledger, whose rows keep no hashes, the export calls the chain valid, and independent
  verification agrees and finds no issue, although no event of the export has a hash at all.
\<close>

theorem postgres_export_vacuous:
  assumes "table_readable (w_ledger w)" and "lt_rows (w_ledger w) \<noteq> []" and "gapless (table_log (w_ledger w))"
    and "check_no_pii (table_log (w_ledger w)) = Inr ()" and "emitter_works emit"
    and "replay_accepts replay (table_log (w_ledger w))"
  shows "\<exists>x w' r w''. export_complete postgres_count postgres_read_events emit requester w = (Inr x, w') \<and>
    vi_chain_valid (lx_verification x) \<and> lx_events x \<noteq> [] \<and> (\<forall>p\<in>set (lx_events x). pe_hash p = []) \<and>
    verify_complete lib replay None x None None w' = (Inr r, w'') \<and> vr_status r = VALID \<and> vr_issues r = []"
proof -
  let ?es = "table_log (w_ledger w)" and ?x = "export_of (w_uuid w (w_uuid_draws w)) (w_clock w (w_clock_reads w)) (table_log (w_ledger w))"
  have x: "lx_events ?x = ?es" "vi_chain_valid (lx_verification ?x) = validate_export_chain ?es" by (simp_all add: export_of_def)
  have blank: "\<forall>p\<in>set ?es. pe_hash p = [] \<and> pe_prev_hash p = []"
    by (auto simp: table_log_def row_event_def ge_accessors)
  have ne: "?es \<noteq> []" using assms(2) by (simp add: table_log_def)
  obtain w' where w': "export_complete postgres_count postgres_read_events emit requester w = (Inr ?x, w')"
    using postgres_reader.export_complete_returns [OF assms(1,4,3,5)] by blast
  have joined: "links_joined ?es"
    using blank ne by (auto simp: links_joined_def is_valid_genesis_prev_hash_def)
  have "export_links fs" if "\<forall>p\<in>set fs. pe_hash p = [] \<and> pe_prev_hash p = []" for fs
    using that by (induction fs rule: export_links.induct) auto
  then have "validate_export_chain ?es" using blank ne by (simp add: validate_export_chain_def export_genesis_ok_def)
  moreover have none: "merkle_check lib (lx_events ?x) None = Inr (True, [])" by (simp add: merkle_check_def)
  have "\<exists>r w''. verify_complete lib replay None ?x None None w' = (Inr r, w'') \<and> vr_status r = VALID \<and> vr_issues r = []"
    using joined assms(3) none assms(6) by (intro verify_complete_accepts) (simp_all add: x reporter_works_def)
  ultimately show ?thesis using w' ne blank x by metis
qed

theorem postgres_export_vacuous_witness:
  "\<exists>t x w' r w''. lt_rows t \<noteq> [] \<and>
     export_complete postgres_count postgres_read_events (\<lambda>_ _ _. act_return ()) 3
       \<lparr>w_tasks = [], w_ledger = t, w_pending = [], w_clock = \<lambda>_. 5, w_clock_reads = 0, w_uuid = \<lambda>k. word_of_nat k, w_uuid_draws = 0\<rparr> =
       (Inr x, w') \<and> vi_chain_valid (lx_verification x) \<and>
     verify_complete example_lib (\<lambda>_. act_return (Some ())) None x None None w' = (Inr r, w'') \<and> vr_status r = VALID"
proof -
  let ?e = "(example_event 1)\<lparr>ge_metadata := (ge_metadata (example_event 1))\<lparr>em_actor_id := ''system''\<rparr>\<rparr>"
  let ?t = "snd (postgres_append_event (\<lambda>p. p) ?e ledger_table_init)"
  let ?w = "\<lparr>w_tasks = [], w_ledger = ?t, w_pending = [], w_clock = \<lambda>_. 5, w_clock_reads = 0,
    w_uuid = \<lambda>k. word_of_nat k, w_uuid_draws = 0\<rparr>"
  have "map lr_sequence (lt_rows ?t) = [1] \<and> lt_next ?t = 2 \<and>
      list_all (\<lambda>row. metadata_ok (ge_metadata (pe_event (row_event row)))) (lt_rows ?t) \<and> check_no_pii (table_log ?t) = Inr ()"
    by code_simp
  then obtain row where rows: "lt_rows ?t = [row]" "lt_next ?t = 2" "lr_sequence row = 1"
      "metadata_ok (ge_metadata (pe_event (row_event row)))" "check_no_pii (table_log ?t) = Inr ()"
    by (auto simp: map_eq_Cons_conv)
  then have "table_readable (w_ledger ?w)" "lt_rows (w_ledger ?w) \<noteq> []" "gapless (table_log (w_ledger ?w))"
      "check_no_pii (table_log (w_ledger ?w)) = Inr ()"
    by (auto simp: table_readable_def table_valid_def table_inv_def table_log_def gapless_def row_event_def)
  moreover have "emitter_works (\<lambda>_ _ _. act_return () :: (ledger_table world, unit) act)"
    "replay_accepts (\<lambda>_. act_return (Some ()) :: (ledger_table world, unit option) act) (table_log (w_ledger ?w))"
    by (simp_all add: emitter_works_def replay_accepts_def)
  ultimately show ?thesis
    using postgres_export_vacuous [of ?w "\<lambda>_ _ _. act_return ()" "\<lambda>_. act_return (Some ())" 3 example_lib] rows(1)
    by (intro exI [of _ ?t]) auto
qed

end
