(* ===== verification/Epochs.thy ===== *)
theory Epochs
  imports Audit_Proof Audit_Export
begin

text \<open>
  Epochs of the ledger (\<open>src/application/services/governance/epoch_manager.py\<close>, with the values of
  \<open>src/application/ports/governance/merkle_tree_port.py\<close>): the ledger is cut into stretches of equal length, each gets a
  Merkle tree, and its root is to be published as an event of the ledger.
\<close>

record epoch_info =
  ei_epoch_id :: int
  ei_root_hash :: string
  ei_algorithm :: string
  ei_start_sequence :: int
  ei_end_sequence :: int
  ei_event_count :: int
  ei_created_at :: datetime
  ei_root_event_id :: "uuid option"

record epoch_config =
  ec_events_per_epoch :: int
  ec_time_based :: bool
  ec_epoch_duration_seconds :: int

text \<open>The service's configuration and cache, over the world it works in.\<close>

record 'l epoch_manager =
  em_config :: epoch_config
  em_built_epochs :: "(int, epoch_info) dict"
  em_world :: "'l world"

definition in_world :: "('l world, 'a) act \<Rightarrow> ('l epoch_manager, 'a) act" where
  "in_world m = (\<lambda>s. case m (em_world s) of (r, w) \<Rightarrow> (r, s\<lparr>em_world := w\<rparr>))"

definition get_config :: "('l epoch_manager, epoch_config) act" where
  "get_config = (\<lambda>s. (Inr (em_config s), s))"

definition update_config :: "epoch_config \<Rightarrow> ('l epoch_manager, unit) act" where
  "update_config config = (\<lambda>s. (Inr (), s\<lparr>em_config := config\<rparr>))"

definition cache_epoch :: "epoch_info \<Rightarrow> ('l epoch_manager, unit) act" where
  "cache_epoch info = (\<lambda>s. (Inr (), s\<lparr>em_built_epochs := dict_set (ei_epoch_id info) info (em_built_epochs s)\<rparr>))"

section \<open>Epoch arithmetic\<close>

definition compute_epoch_id :: "epoch_config \<Rightarrow> int \<Rightarrow> int" where
  "compute_epoch_id config sequence =
     (if ec_events_per_epoch config \<le> 0 then 0 else (sequence - 1) div ec_events_per_epoch config)"

definition get_epoch_sequence_range :: "epoch_config \<Rightarrow> int \<Rightarrow> int \<times> int" where
  "get_epoch_sequence_range config epoch_id =
     (epoch_id * ec_events_per_epoch config + 1, (epoch_id + 1) * ec_events_per_epoch config)"

definition check_epoch_boundary :: "int \<Rightarrow> ('l epoch_manager, bool) act" where
  "check_epoch_boundary current_sequence = (\<lambda>s.
     (Inr
       (if ec_events_per_epoch (em_config s) \<le> 0 then False
        else if current_sequence mod ec_events_per_epoch (em_config s) = 0 then
          dict_get (em_built_epochs s) (compute_epoch_id (em_config s) current_sequence) = None
        else False), s))"

definition get_epoch_info :: "'l epoch_manager \<Rightarrow> int \<Rightarrow> epoch_info option" where
  "get_epoch_info s epoch_id = dict_get (em_built_epochs s) epoch_id"

definition list_epochs :: "'l epoch_manager \<Rightarrow> epoch_info list" where
  "list_epochs s = sort_key ei_epoch_id (map snd (em_built_epochs s))"

definition get_latest_epoch :: "'l epoch_manager \<Rightarrow> epoch_info option" where
  "get_latest_epoch s =
     (if em_built_epochs s = [] then None else dict_get (em_built_epochs s) (Max (set (map fst (em_built_epochs s)))))"

section \<open>Building and publishing\<close>

text \<open>The checks of \<open>build_epoch\<close> on the events it reads, up to the root.\<close>

definition epoch_root ::
  "hash_lib \<Rightarrow> int \<Rightarrow> int \<Rightarrow> int \<Rightarrow> string \<Rightarrow> persisted_event list \<Rightarrow> exn + string" where
  "epoch_root lib epoch_id start_sequence end_sequence algorithm events =
     (if events = [] then
        Inl (Exn ValueError (''No events found for epoch '' @ show_int epoch_id @ '' (sequences '' @
          show_int start_sequence @ ''-'' @ show_int end_sequence @ '')''))
      else
        let sequences = set (map pe_sequence events); expected_end = min end_sequence (Max sequences) in
        (case find (\<lambda>seq. seq \<notin> sequences) [start_sequence..expected_end] of
           Some seq \<Rightarrow> Inl (Exn ValueError (''Gap in sequence: missing event '' @ show_int seq @ '' in epoch '' @ show_int epoch_id))
         | None \<Rightarrow>
             let event_hashes = filter (\<lambda>h. h \<noteq> []) (map pe_hash events) in
             if event_hashes = [] then Inl (Exn ValueError (''No hashed events found in epoch '' @ show_int epoch_id))
             else compute_merkle_root lib event_hashes algorithm))"

definition build_epoch ::
  "hash_lib \<Rightarrow> ('l \<Rightarrow> ledger_read_options option \<Rightarrow> exn + persisted_event list) \<Rightarrow> int \<Rightarrow> string
    \<Rightarrow> ('l epoch_manager, epoch_info) act" where
  "build_epoch lib read_events epoch_id algorithm =
     act_bind get_config (\<lambda>config.
     let (start_sequence, end_sequence) = get_epoch_sequence_range config epoch_id;
         options = default_read_options\<lparr>ro_start_sequence := Some start_sequence, ro_end_sequence := Some end_sequence,
           ro_limit := ec_events_per_epoch config + 10\<rparr>
     in act_bind (in_world (\<lambda>w. (read_events (w_ledger w) (Some options), w))) (\<lambda>events.
        act_bind (act_lift (epoch_root lib epoch_id start_sequence end_sequence algorithm events)) (\<lambda>root.
        act_bind (in_world time_now) (\<lambda>now.
        let info = \<lparr>ei_epoch_id = epoch_id, ei_root_hash = root, ei_algorithm = algorithm,
              ei_start_sequence = start_sequence, ei_end_sequence = pe_sequence (last events),
              ei_event_count = int (length events), ei_created_at = now, ei_root_event_id = None\<rparr>
        in act_bind (cache_epoch info) (\<lambda>_. act_return info)))))"

text \<open>
  The metadata of an event check that \<open>trace_id\<close> is a \<open>str\<close>, after all other fields. \<open>publish_epoch_root\<close> passes the
  \<open>UUID\<close> itself.
\<close>

definition trace_id_is_str :: "pyval \<Rightarrow> exn + unit" where
  "trace_id_is_str trace_id =
     (case trace_id of
        PyStr _ \<Rightarrow> Inr ()
      | PyUUID _ \<Rightarrow> Inl (Exn ConstitutionalViolationError
          ''AD-4: Event metadata validation failed - trace_id must be string, got UUID'')
      | _ \<Rightarrow> Inl (Exn ConstitutionalViolationError ''AD-4: Event metadata validation failed - trace_id must be string''))"

definition publish_epoch_root ::
  "hash_lib \<Rightarrow> ('l \<Rightarrow> exn + persisted_event option) \<Rightarrow> (governance_event \<Rightarrow> ('l, persisted_event) act) \<Rightarrow> epoch_info \<Rightarrow> string
    \<Rightarrow> ('l epoch_manager, epoch_info) act" where
  "publish_epoch_root lib get_latest append_event info actor_id =
     act_bind (in_world uuid4) (\<lambda>event_id.
     act_bind (in_world uuid4) (\<lambda>trace_id.
     act_bind (in_world time_now) (\<lambda>now.
     act_bind (act_lift (mk_event_metadata \<lparr>em_event_id = event_id, em_event_type = ''ledger.merkle.root_published'',
       em_timestamp = now, em_actor_id = actor_id, em_schema_version = ''1.0.0'', em_trace_id = uuid_str trace_id,
       em_prev_hash = [], em_hash = []\<rparr>)) (\<lambda>metadata.
     act_bind (act_lift (trace_id_is_str (PyUUID trace_id))) (\<lambda>_.
     let event = \<lparr>ge_metadata = metadata, ge_payload =
           [(''epoch'', PyInt (ei_epoch_id info)), (''merkle_root'', PyStr (ei_root_hash info)),
            (''start_sequence'', PyInt (ei_start_sequence info)), (''end_sequence'', PyInt (ei_end_sequence info)),
            (''event_count'', PyInt (ei_event_count info)), (''algorithm'', PyStr (ei_algorithm info))]\<rparr>
     in act_bind (in_world (\<lambda>w. (get_latest (w_ledger w), w))) (\<lambda>latest.
        act_bind (act_lift (add_hash_to_event lib event (map_option pe_hash latest) (ei_algorithm info))) (\<lambda>hashed_event.
        act_bind (in_world (on_ledger (append_event hashed_event))) (\<lambda>persisted.
        let updated_info = info\<lparr>ei_root_event_id := Some (ge_event_id (pe_event persisted))\<rparr>
        in act_bind (cache_epoch updated_info) (\<lambda>_. act_return updated_info)))))))))"

definition create_epoch_if_needed ::
  "hash_lib \<Rightarrow> ('l \<Rightarrow> ledger_read_options option \<Rightarrow> exn + persisted_event list) \<Rightarrow> ('l \<Rightarrow> exn + persisted_event option)
    \<Rightarrow> (governance_event \<Rightarrow> ('l, persisted_event) act) \<Rightarrow> int \<Rightarrow> string \<Rightarrow> bool \<Rightarrow> ('l epoch_manager, epoch_info option) act" where
  "create_epoch_if_needed lib read_events get_latest append_event current_sequence algorithm publish =
     act_bind (check_epoch_boundary current_sequence) (\<lambda>due.
     if \<not> due then act_return None
     else
       act_bind get_config (\<lambda>config.
       act_bind (build_epoch lib read_events (compute_epoch_id config current_sequence) algorithm) (\<lambda>info.
       if publish then
         act_bind (publish_epoch_root lib get_latest append_event info ''system'') (\<lambda>updated. act_return (Some updated))
       else act_return (Some info))))"

section \<open>What happens to an epoch\<close>

text \<open>Publishing raises whatever the ledger does, and never reaches it.\<close>

definition same_ledger_world :: "'l epoch_manager \<Rightarrow> 'l epoch_manager \<Rightarrow> bool" where
  "same_ledger_world s t \<longleftrightarrow> w_ledger (em_world t) = w_ledger (em_world s) \<and> em_config t = em_config s"

lemma publish_epoch_root_raises:
  "\<exists>m t. publish_epoch_root lib get_latest append_event info actor_id s = (Inl (Exn ConstitutionalViolationError m), t) \<and>
     same_ledger_world s t \<and> em_built_epochs t = em_built_epochs s"
proof -
  have ty: "\<exists>x. validate_event_type ''ledger.merkle.root_published'' False = Inr x" "\<exists>x. validate_schema_version ''1.0.0'' = Inr x"
    by code_simp+
  show ?thesis
  proof (cases "blank actor_id")
    case True
    then show ?thesis
      using ty by (auto simp: publish_epoch_root_def act_bind_def in_world_def mk_event_metadata_def same_ledger_world_def)
  next
    case False
    then show ?thesis
      using ty by (auto simp: publish_epoch_root_def act_bind_def in_world_def mk_event_metadata_def trace_id_is_str_def
          same_ledger_world_def uuid_str_nonblank)
  qed
qed

lemma build_epoch_cases:
  assumes "build_epoch lib read_events epoch_id algorithm s = (r, t)"
  shows "same_ledger_world s t" and "r = Inr info \<Longrightarrow> ei_epoch_id info = epoch_id \<and> ei_root_event_id info = None \<and>
      em_built_epochs t = dict_set epoch_id info (em_built_epochs s)"
    and "r = Inl e \<Longrightarrow> em_built_epochs t = em_built_epochs s"
  using assms
  by (auto simp: build_epoch_def act_bind_def get_config_def in_world_def cache_epoch_def same_ledger_world_def Let_def
      split: prod.splits sum.splits)

section \<open>The stretch of an epoch\<close>

lemma filter_nth_range:
  "(\<And>i. i < length es \<Longrightarrow> P (es ! i) \<longleftrightarrow> a \<le> i \<and> i < b) \<Longrightarrow> filter P es = take (b - a) (drop a es)"
proof (induction es arbitrary: a b)
  case (Cons e es)
  have "P (es ! i) \<longleftrightarrow> a - 1 \<le> i \<and> i < b - 1" if "i < length es" for i
    using Cons.prems [of "Suc i"] that by auto
  from Cons.IH [OF this] have "filter P es = take (b - 1 - (a - 1)) (drop (a - 1) es)" .
  moreover have "P e \<longleftrightarrow> a = 0 \<and> 0 < b" using Cons.prems [of 0] by simp
  ultimately show ?case by (cases a; cases b) auto
qed simp

lemma memory_read_epoch:
  assumes gapless: "gapless (ml_events l)" and "0 \<le> a" and "0 < n"
  shows "memory_read_events l (Some (default_read_options\<lparr>ro_start_sequence := Some (a + 1), ro_end_sequence := Some (a + n),
      ro_limit := n + 10\<rparr>)) = Inr (take (nat n) (drop (nat a) (ml_events l)))"
proof -
  have "filter (\<lambda>e. a + 1 \<le> pe_sequence e \<and> pe_sequence e \<le> a + n) (ml_events l) =
      take (nat (a + n) - nat a) (drop (nat a) (ml_events l))"
    using assms by (intro filter_nth_range) (auto simp: gapless_iff)
  then have "filter (\<lambda>e. pe_sequence e \<le> a + n) (filter (\<lambda>e. a + 1 \<le> pe_sequence e) (ml_events l)) =
      take (nat n) (drop (nat a) (ml_events l))"
    using assms(2,3) by (simp add: conj_commute nat_add_distrib)
  then show ?thesis
    using assms(2,3) by (simp add: memory_read_events_def default_read_options_def Let_def py_slice_prefix min_def)
qed

lemma gapless_stretch:
  assumes "gapless es" and "a + n \<le> length es"
  shows "map pe_sequence (take n (drop a es)) = map int [a + 1..<a + n + 1]"
proof -
  have "map pe_sequence (take n (drop a es)) = take n (drop a (map int [1..<length es + 1]))"
    using assms(1) unfolding gapless_def by (simp add: take_map [symmetric] drop_map [symmetric])
  also have "\<dots> = map int [a + 1..<a + n + 1]"
    using assms(2) by (simp add: take_map drop_map drop_upt take_upt del: upt_Suc)
  finally show ?thesis .
qed

lemma epoch_root_stretch:
  assumes seqs: "map pe_sequence ws = map int [a + 1..<a + m + 1]" and "m \<le> n"
    and hashed: "filter (\<lambda>h. h \<noteq> []) (map pe_hash ws) \<noteq> []"
  shows "epoch_root lib epoch_id (int a + 1) (int a + int n) algorithm ws =
    compute_merkle_root lib (filter (\<lambda>h. h \<noteq> []) (map pe_hash ws)) algorithm"
proof -
  have set: "set (map pe_sequence ws) = {int a + 1..int a + int m}"
    unfolding seqs by (auto simp: image_int_atLeastLessThan simp del: upt_Suc)
  have ne: "ws \<noteq> []" using hashed by auto
  moreover have "length ws = m" using arg_cong [OF seqs, of length] by simp
  ultimately have "Max {int a + 1..int a + int m} = int a + int m" by (cases ws) (auto intro!: Max_eqI)
  then have "find (\<lambda>seq. seq \<notin> set (map pe_sequence ws)) [int a + 1..min (int a + int n) (Max (set (map pe_sequence ws)))] = None"
    unfolding set using assms(2) by (simp add: find_None_iff)
  then show ?thesis using ne hashed by (simp add: epoch_root_def Let_def del: set_map)
qed

text \<open>The epochs partition the sequence numbers.\<close>

lemma epoch_of_sequence:
  assumes "0 < ec_events_per_epoch config"
  shows "compute_epoch_id config q = k \<longleftrightarrow>
    fst (get_epoch_sequence_range config k) \<le> q \<and> q \<le> snd (get_epoch_sequence_range config k)"
proof -
  let ?n = "ec_events_per_epoch config"
  have "(q - 1) div ?n = k \<longleftrightarrow> k * ?n \<le> q - 1 \<and> q - 1 < (k + 1) * ?n"
  proof
    assume "(q - 1) div ?n = k"
    then show "k * ?n \<le> q - 1 \<and> q - 1 < (k + 1) * ?n"
      using div_mult_mod_eq [of "q - 1" ?n] pos_mod_bound [OF assms, of "q - 1"] pos_mod_sign [OF assms, of "q - 1"]
      by (simp add: algebra_simps)
  next
    assume *: "k * ?n \<le> q - 1 \<and> q - 1 < (k + 1) * ?n"
    then have "q - 1 - k * ?n \<in> {0..<?n}" by (simp add: algebra_simps)
    then show "(q - 1) div ?n = k"
      by (intro int_div_pos_eq [of _ _ _ "q - 1 - k * ?n"]) (auto simp: algebra_simps)
  qed
  then show ?thesis using assms by (auto simp: compute_epoch_id_def get_epoch_sequence_range_def)
qed

lemma build_epoch_memory:
  assumes n: "ec_events_per_epoch (em_config s) = int n" "0 < n" and gapless: "gapless es"
    and es: "es = ml_events (w_ledger (em_world s))" and ws: "ws = take n (drop (k * n) es)"
    and hashed: "filter (\<lambda>h. h \<noteq> []) (map pe_hash ws) \<noteq> []"
    and root: "compute_merkle_root lib (filter (\<lambda>h. h \<noteq> []) (map pe_hash ws)) algorithm = Inr root"
  shows "\<exists>info s'. build_epoch lib memory_read_events (int k) algorithm s = (Inr info, s') \<and>
    get_epoch_info s' (int k) = Some info \<and> ei_root_hash info = root \<and> ei_event_count info = int (length ws) \<and>
    ei_start_sequence info = int (k * n) + 1 \<and> ei_end_sequence info = int (k * n + length ws)"
proof -
  have ne: "ws \<noteq> []" using hashed by auto
  have short: "length ws \<le> n" by (simp add: ws)
  have "ws = take (length ws) (drop (k * n) es)" "k * n + length ws \<le> length es"
    using ne by (auto simp: ws min_def)
  then have seqs: "map pe_sequence ws = map int [k * n + 1..<k * n + length ws + 1]"
    using gapless_stretch [OF gapless, of "k * n" "length ws"] by simp
  from epoch_root_stretch [OF seqs short hashed] root
  have er: "epoch_root lib (int k) (int (k * n) + 1) (int (k * n) + int n) algorithm ws = Inr root" by simp
  have read: "memory_read_events (w_ledger (em_world s)) (Some (default_read_options\<lparr>ro_start_sequence := Some (int (k * n) + 1),
      ro_end_sequence := Some (int (k * n) + int n), ro_limit := int n + 10\<rparr>)) = Inr ws"
    using memory_read_epoch [of "w_ledger (em_world s)" "int (k * n)" "int n"] gapless es n(2) ws by (simp add: nat_mult_distrib)
  have "pe_sequence (last ws) = last (map pe_sequence ws)" using ne by (simp add: last_map)
  then have final: "pe_sequence (last ws) = int (k * n + length ws)" unfolding seqs using ne by (cases ws) (simp_all add: last_map)
  have range: "get_epoch_sequence_range (em_config s) (int k) = (int (k * n) + 1, int (k * n) + int n)"
    by (simp add: get_epoch_sequence_range_def n(1) algebra_simps)
  show ?thesis
    using read er final
    by (simp add: build_epoch_def act_bind_def get_config_def range in_world_def cache_epoch_def Let_def n(1)
        get_epoch_info_def)
qed

lemma lawful_stretch_hashed:
  assumes "lawful_log lib es"
  shows "gapless es" and "filter (\<lambda>h. h \<noteq> []) (map pe_hash (take n (drop a es))) = map pe_hash (take n (drop a es))"
proof -
  show "gapless es" using assms by (simp add: lawful_log_def gapless_def)
  have "pe_hash p \<noteq> []" if "p \<in> set es" for p
    using that lawful_log_nth(2) [OF assms] event_hash_okD by (metis in_set_conv_nth)
  then show "filter (\<lambda>h. h \<noteq> []) (map pe_hash (take n (drop a es))) = map pe_hash (take n (drop a es))"
    by (auto simp: filter_id_conv dest: in_set_takeD in_set_dropD)
qed

text \<open>An epoch manager over a chain of two events, for the witnesses.\<close>

lemma example_epochs:
  assumes "\<And>(s :: memory_ledger epoch_manager) es. \<lbrakk>ec_events_per_epoch (em_config s) = n; em_built_epochs s = [];
    ml_events (w_ledger (em_world s)) = es; length es = 2; lawful_log example_lib es\<rbrakk> \<Longrightarrow> thesis"
  shows thesis
proof (rule example_chain)
  fix e f assume *: "chain_ok example_lib None [e, f]"
  let ?es = "[\<lparr>pe_event = e, pe_sequence = 1\<rparr>, \<lparr>pe_event = f, pe_sequence = 2\<rparr>]"
  let ?s = "\<lparr>em_config = \<lparr>ec_events_per_epoch = n, ec_time_based = False, ec_epoch_duration_seconds = 0\<rparr>, em_built_epochs = [],
    em_world = (example_world [] 5)\<lparr>w_ledger := \<lparr>ml_events = ?es, ml_next_sequence = 3\<rparr>\<rparr>\<rparr>"
  have "lawful_log example_lib ?es" using * by (simp add: lawful_log_def upt_rec)
  then show thesis by (intro assms [of ?s ?es]) simp_all
qed

lemma example_digest: "digest_of example_lib ''sha256'' = Some checksum32"
  by (simp add: digest_of_def example_lib_def)

section \<open>Claims\<close>

text \<open>
  C30: the epochs of a gapless ledger in memory, full or not. An epoch with at least one hashed event is built and cached:
  its count is the number of events recorded in its stretch, its range holds just the recorded sequence numbers the manager
  assigns to it (so a partial epoch ends where the ledger ends), its root is the Merkle root of the hashes of its hashed
  events, and each of these has an inclusion proof that verifies against the root. Events without a hash are counted, but
  left out of the tree.
\<close>

theorem epoch_root_proves:
  assumes "ec_events_per_epoch (em_config s) = int n" and "0 < n" and "gapless (ml_events (w_ledger (em_world s)))"
    and "stretch = take n (drop (k * n) (ml_events (w_ledger (em_world s))))"
    and "hashes = filter (\<lambda>h. h \<noteq> []) (map pe_hash stretch)" and "hashes \<noteq> []" and "digest_of lib algorithm = Some d"
  shows "\<exists>info s' t. build_epoch lib memory_read_events (int k) algorithm s = (Inr info, s') \<and>
    get_epoch_info s' (int k) = Some info \<and> ei_event_count info = int (length stretch) \<and>
    (\<forall>q. ei_start_sequence info \<le> q \<and> q \<le> ei_end_sequence info \<longleftrightarrow>
       compute_epoch_id (em_config s) q = int k \<and> q \<le> int (length (ml_events (w_ledger (em_world s))))) \<and>
    mk_merkle_tree lib hashes algorithm = Inr t \<and> ei_root_hash info = merkle_root t \<and>
    (\<forall>i<length hashes. \<exists>p. generate_proof t (int i) event_id (int k) = Inr p \<and> mp_merkle_root p = ei_root_hash info \<and>
       mp_event_hash p = hashes ! i \<and> mv_is_valid (verify_merkle_proof lib p))"
proof -
  let ?es = "ml_events (w_ledger (em_world s))"
  obtain t where t: "mk_merkle_tree lib hashes algorithm = Inr t" using mk_merkle_tree_available [OF assms(7)] assms(6) by metis
  then have "compute_merkle_root lib hashes algorithm = Inr (merkle_root t)" by (simp add: compute_merkle_root_def)
  from build_epoch_memory [OF assms(1-3) refl assms(4) assms(6) [unfolded assms(5)] this [unfolded assms(5)]] obtain info s' where
    info: "build_epoch lib memory_read_events (int k) algorithm s = (Inr info, s')" "get_epoch_info s' (int k) = Some info"
      "ei_root_hash info = merkle_root t" "ei_event_count info = int (length stretch)"
      "ei_start_sequence info = int (k * n) + 1" "ei_end_sequence info = int (k * n + length stretch)"
    by blast
  have "stretch \<noteq> []" using assms(5,6) by auto
  then have "k * n + length stretch = min (k * n + n) (length ?es)" by (auto simp: assms(4) min_def)
  then have "int (k * n + length stretch) = min (int (k * n + n)) (int (length ?es))" by (simp only: of_nat_min)
  then have "\<forall>q. ei_start_sequence info \<le> q \<and> q \<le> ei_end_sequence info \<longleftrightarrow>
      compute_epoch_id (em_config s) q = int k \<and> q \<le> int (length ?es)"
    using assms(1,2) epoch_of_sequence [of "em_config s"] unfolding info(5,6) by (auto simp: get_epoch_sequence_range_def algebra_simps)
  moreover have "\<exists>p. generate_proof t (int i) event_id (int k) = Inr p \<and> mp_merkle_root p = ei_root_hash info \<and>
       mp_event_hash p = hashes ! i \<and> mv_is_valid (verify_merkle_proof lib p)" if "i < length hashes" for i
    using generated_proof_verifies [OF t, of "int i" event_id "int k"] that info(3) by auto
  ultimately show ?thesis using info t by (intro exI [of _ info] exI [of _ s'] exI [of _ t]) simp
qed

theorem epoch_root_proves_witness:
  "\<exists>(s :: memory_ledger epoch_manager) info s'. length (ml_events (w_ledger (em_world s))) = 2 \<and>
    build_epoch example_lib memory_read_events 1 ''sha256'' s = (Inr info, s') \<and>
    ei_event_count info = 1 \<and> ei_start_sequence info \<le> 2 \<and> 2 \<le> ei_end_sequence info"
proof (rule example_epochs [of 1])
  fix s :: "memory_ledger epoch_manager" and es
  assume s: "ec_events_per_epoch (em_config s) = 1" "ml_events (w_ledger (em_world s)) = es" "length es = 2"
    "lawful_log example_lib es"
  have prems: "ec_events_per_epoch (em_config s) = int 1" "0 < (1::nat)" "gapless (ml_events (w_ledger (em_world s)))"
    using s lawful_stretch_hashed(1) [OF s(4)] by simp_all
  have hashed: "filter (\<lambda>h. h \<noteq> []) (map pe_hash (take 1 (drop (1 * 1) (ml_events (w_ledger (em_world s)))))) \<noteq> []"
    unfolding s(2) lawful_stretch_hashed(2) [OF s(4)] using s(3) by simp
  from epoch_root_proves [OF prems refl refl hashed example_digest, of 0] obtain info s' where
    info: "build_epoch example_lib memory_read_events 1 ''sha256'' s = (Inr info, s')" "ei_event_count info = 1"
      "ei_start_sequence info \<le> 2 \<and> 2 \<le> ei_end_sequence info \<longleftrightarrow> compute_epoch_id (em_config s) 2 = 1 \<and> 2 \<le> int (length es)"
    unfolding s(2) using s(3) by auto
  have "compute_epoch_id (em_config s) 2 = 1" using s(1) by (simp add: compute_epoch_id_def)
  then show ?thesis using info s by (intro exI [of _ s] exI [of _ info] exI [of _ s']) simp
qed

text \<open>
  No epoch root is ever published. Whatever the ledger does, a request that should publish the root of a due epoch
  builds and caches the epoch, then raises, because the event is given a UUID where its metadata demand a string; the
  ledger stays as it was, and every later request for the same epoch answers that there is nothing to do.
\<close>

theorem epoch_never_published:
  assumes "create_epoch_if_needed lib read_events get_latest append_event q algorithm publish s = (r, t)"
  shows "w_ledger (em_world t) = w_ledger (em_world s) \<and>
    (publish \<longrightarrow> r = Inr None \<or> isl r) \<and>
    (\<forall>info u. check_epoch_boundary q s = (Inr True, s) \<and> publish \<and>
        build_epoch lib read_events (compute_epoch_id (em_config s) q) algorithm s = (Inr info, u) \<longrightarrow>
       (\<exists>m. r = Inl (Exn ConstitutionalViolationError m)) \<and>
       get_epoch_info t (compute_epoch_id (em_config s) q) = Some info \<and> ei_root_event_id info = None \<and>
       create_epoch_if_needed lib read_events get_latest append_event q algorithm publish t = (Inr None, t))"
proof (cases "fst (check_epoch_boundary q s) = Inr True")
  case False
  then have idle: "check_epoch_boundary q s = (Inr False, s)"
    unfolding check_epoch_boundary_def by (auto split: if_splits)
  then have "r = Inr None \<and> t = s" using assms by (simp add: create_epoch_if_needed_def act_bind_def)
  then show ?thesis using idle by simp
next
  case True
  let ?id = "compute_epoch_id (em_config s) q"
  have due: "check_epoch_boundary q s = (Inr True, s)" using True by (simp add: check_epoch_boundary_def)
  obtain b u where b: "build_epoch lib read_events ?id algorithm s = (b, u)" by fastforce
  note build = build_epoch_cases [OF b]
  show ?thesis
  proof (cases b)
    case (Inl e)
    then have "r = Inl e \<and> t = u" using assms due b by (simp add: create_epoch_if_needed_def act_bind_def get_config_def)
    then show ?thesis using build(1) b Inl by (auto simp: same_ledger_world_def)
  next
    case (Inr info)
    note built = build(2) [OF Inr]
    obtain m v where p: "publish_epoch_root lib get_latest append_event info ''system'' u = (Inl (Exn ConstitutionalViolationError m), v)"
        "same_ledger_world u v" "em_built_epochs v = em_built_epochs u"
      using publish_epoch_root_raises by blast
    show ?thesis
    proof (cases publish)
      case False
      then have "t = u" using assms due b Inr by (simp add: create_epoch_if_needed_def act_bind_def get_config_def)
      then show ?thesis using build(1) False by (simp add: same_ledger_world_def)
    next
      case True
      then have rt: "r = Inl (Exn ConstitutionalViolationError m)" "t = v"
        using assms due b Inr p(1) by (simp_all add: create_epoch_if_needed_def act_bind_def get_config_def)
      have cached: "dict_get (em_built_epochs t) ?id = Some info" "em_config t = em_config s"
        using built p(2,3) build(1) rt(2) by (simp_all add: same_ledger_world_def)
      then have "check_epoch_boundary q t = (Inr False, t)" by (simp add: check_epoch_boundary_def)
      then have "create_epoch_if_needed lib read_events get_latest append_event q algorithm publish t = (Inr None, t)"
        by (simp add: create_epoch_if_needed_def act_bind_def)
      then show ?thesis
        using rt build(1) p(2) cached built b Inr by (auto simp: same_ledger_world_def get_epoch_info_def)
    qed
  qed
qed

theorem epoch_never_published_witness:
  "\<exists>(s :: memory_ledger epoch_manager) t. ml_events (w_ledger (em_world s)) \<noteq> [] \<and>
    isl (fst (create_epoch_if_needed example_lib memory_read_events example_latest memory_append_event 2 ''sha256'' True s)) \<and>
    create_epoch_if_needed example_lib memory_read_events example_latest memory_append_event 2 ''sha256'' True
      (snd (create_epoch_if_needed example_lib memory_read_events example_latest memory_append_event 2 ''sha256'' True s)) =
      (Inr None, t)"
proof (rule example_epochs [of 2])
  fix s :: "memory_ledger epoch_manager" and es
  assume s: "ec_events_per_epoch (em_config s) = 2" "em_built_epochs s = []" "ml_events (w_ledger (em_world s)) = es"
    "length es = 2" "lawful_log example_lib es"
  let ?do = "create_epoch_if_needed example_lib memory_read_events example_latest memory_append_event 2 ''sha256'' True"
  have due: "check_epoch_boundary 2 s = (Inr True, s)" and id: "compute_epoch_id (em_config s) 2 = 0"
    using s(1,2) by (simp_all add: check_epoch_boundary_def compute_epoch_id_def)
  have "map pe_hash es \<noteq> []" using s(4) by auto
  then obtain t where "mk_merkle_tree example_lib (map pe_hash es) ''sha256'' = Inr t"
    using mk_merkle_tree_available [OF example_digest] by metis
  then have root: "compute_merkle_root example_lib (filter (\<lambda>h. h \<noteq> []) (map pe_hash (take 2 (drop (0 * 2) es)))) ''sha256'' =
      Inr (merkle_root t)"
    unfolding lawful_stretch_hashed(2) [OF s(5)] using s(4) by (simp add: compute_merkle_root_def)
  have two: "ec_events_per_epoch (em_config s) = int 2" "0 < (2::nat)" using s(1) by simp_all
  have hashed: "filter (\<lambda>h. h \<noteq> []) (map pe_hash (take 2 (drop (0 * 2) es))) \<noteq> []"
    unfolding lawful_stretch_hashed(2) [OF s(5)] using s(4) by auto
  from build_epoch_memory [OF two lawful_stretch_hashed(1) [OF s(5)] s(3) [symmetric] refl hashed root]
  obtain info u where b: "build_epoch example_lib memory_read_events 0 ''sha256'' s = (Inr info, u)"
    by auto
  obtain r v where run: "?do s = (r, v)" by fastforce
  have "build_epoch example_lib memory_read_events (compute_epoch_id (em_config s) 2) ''sha256'' s = (Inr info, u)"
    using b id by simp
  then have prem: "check_epoch_boundary 2 s = (Inr True, s) \<and> True \<and>
      build_epoch example_lib memory_read_events (compute_epoch_id (em_config s) 2) ''sha256'' s = (Inr info, u)"
    using due by simp
  note published = epoch_never_published [OF run, THEN conjunct2, THEN conjunct2, rule_format, OF prem]
  have "isl r" and "?do v = (Inr None, v)"
    using published by auto
  then show ?thesis using run s(3,4) by (intro exI [of _ s] exI [of _ v]) auto
qed

end
