(* ===== verification/Orphan_Intents.thy ===== *)
theory Orphan_Intents
  imports Two_Phase Validators
begin

text \<open>
  Intents that never got an outcome: the detector that closes them
  (\<open>src/application/services/governance/orphan_intent_detector.py\<close>) and the one that looks for them in the ledger
  (\<open>src/application/services/governance/two_phase_gap_detector.py\<close>). \<open>total_seconds\<close> stands for the float that
  \<open>timedelta.total_seconds()\<close> returns.
\<close>

section \<open>Closing orphans\<close>

record orphan_resolution =
  or_correlation_id :: uuid
  or_emitted_at :: datetime
  or_resolved_at :: datetime
  or_age :: timedelta

definition orphan_failure_details :: "(timedelta \<Rightarrow> pyfloat) \<Rightarrow> timedelta \<Rightarrow> timedelta \<Rightarrow> payload" where
  "orphan_failure_details total_seconds orphan_timeout age = [
     (''timeout_seconds'', PyFloat (total_seconds orphan_timeout)),
     (''auto_resolved'', PyBool True),
     (''orphan_age_seconds'', PyFloat (total_seconds age))]"

text \<open>The second loop: an exception of one orphan is logged and the next follows.\<close>

fun resolve_orphans ::
  "(governance_event \<Rightarrow> ('l, persisted_event) act) \<Rightarrow> (timedelta \<Rightarrow> pyfloat) \<Rightarrow> timedelta \<Rightarrow> datetime
    \<Rightarrow> (uuid \<times> datetime \<times> timedelta) list \<Rightarrow> ('l world, orphan_resolution list) act" where
  "resolve_orphans append_event total_seconds orphan_timeout now [] = act_return []"
| "resolve_orphans append_event total_seconds orphan_timeout now ((correlation_id, emitted_at, age) # orphans) =
     act_bind (act_try
       (act_bind (emit_failure append_event correlation_id ''ORPHAN_TIMEOUT''
          (orphan_failure_details total_seconds orphan_timeout age)) (\<lambda>_.
        act_return [\<lparr>or_correlation_id = correlation_id, or_emitted_at = emitted_at, or_resolved_at = now, or_age = age\<rparr>]))
       (\<lambda>_. act_return [])) (\<lambda>resolved.
     act_bind (resolve_orphans append_event total_seconds orphan_timeout now orphans) (\<lambda>rest.
     act_return (resolved @ rest)))"

definition orphans_to_resolve :: "timedelta \<Rightarrow> datetime \<Rightarrow> (uuid \<times> datetime) list \<Rightarrow> (uuid \<times> datetime \<times> timedelta) list" where
  "orphans_to_resolve orphan_timeout now pending_intents =
     map (\<lambda>(correlation_id, emitted_at). (correlation_id, emitted_at, now - emitted_at))
       (filter (\<lambda>(correlation_id, emitted_at). now - emitted_at \<ge> orphan_timeout) pending_intents)"

definition scan_and_resolve_orphans ::
  "(governance_event \<Rightarrow> ('l, persisted_event) act) \<Rightarrow> (timedelta \<Rightarrow> pyfloat) \<Rightarrow> timedelta
    \<Rightarrow> ('l world, orphan_resolution list) act" where
  "scan_and_resolve_orphans append_event total_seconds orphan_timeout =
     act_bind time_now (\<lambda>now.
     act_bind (\<lambda>w. (Inr (get_pending_intents_with_age w), w)) (\<lambda>pending_intents.
     resolve_orphans append_event total_seconds orphan_timeout now (orphans_to_resolve orphan_timeout now pending_intents)))"

section \<open>Looking for gaps in the ledger\<close>

datatype two_phase_violation_type = ORPHANED_INTENT | OUTCOME_WITHOUT_INTENT

fun two_phase_violation_type_value :: "two_phase_violation_type \<Rightarrow> string" where
  "two_phase_violation_type_value ORPHANED_INTENT = ''orphaned_intent''"
| "two_phase_violation_type_value OUTCOME_WITHOUT_INTENT = ''outcome_without_intent''"

record two_phase_violation =
  tv_event_id :: uuid
  tv_correlation_id :: string
  tv_violation_type :: two_phase_violation_type
  tv_event_type :: string
  tv_age :: timedelta

text \<open>
  The detector asks the ledger for the events that match a pattern, which no ledger of the repository offers; the reader
  is an argument. \<open>payload.get("correlation_id")\<close> is a string in every event the emitter writes; another value counts
  as none here.
\<close>

definition payload_correlation :: "governance_event \<Rightarrow> string option" where
  "payload_correlation e =
     (case dict_get (ge_payload e) ''correlation_id'' of Some (PyStr s) \<Rightarrow> if s = [] then None else Some s | _ \<Rightarrow> None)"

definition gap_violation :: "datetime \<Rightarrow> governance_event \<Rightarrow> string \<Rightarrow> two_phase_violation" where
  "gap_violation now intent correlation_id =
     \<lparr>tv_event_id = ge_event_id intent, tv_correlation_id = correlation_id, tv_violation_type = ORPHANED_INTENT,
      tv_event_type = ge_event_type intent, tv_age = now - em_timestamp (ge_metadata intent)\<rparr>"

fun gap_violations :: "timedelta \<Rightarrow> datetime \<Rightarrow> governance_event list \<Rightarrow> governance_event list \<Rightarrow> two_phase_violation list" where
  "gap_violations orphan_timeout now outcomes [] = []"
| "gap_violations orphan_timeout now outcomes (intent # intents) =
     (case payload_correlation intent of
        None \<Rightarrow> gap_violations orphan_timeout now outcomes intents
      | Some correlation_id \<Rightarrow>
          if list_ex (\<lambda>outcome. payload_correlation outcome = Some correlation_id) outcomes then
            gap_violations orphan_timeout now outcomes intents
          else if now - em_timestamp (ge_metadata intent) \<ge> orphan_timeout then
            gap_violation now intent correlation_id # gap_violations orphan_timeout now outcomes intents
          else gap_violations orphan_timeout now outcomes intents)"

definition verify_two_phase_completeness ::
  "(string \<Rightarrow> ('l world, governance_event list) act) \<Rightarrow> timedelta \<Rightarrow> ('l world, two_phase_violation list) act" where
  "verify_two_phase_completeness read_pattern orphan_timeout =
     act_bind time_now (\<lambda>now.
     act_bind (read_pattern ''*.intent.emitted'') (\<lambda>intents.
     if intents = [] then act_return []
     else
       act_bind (read_pattern ''*.commit.confirmed|*.failure.recorded'') (\<lambda>outcomes.
       act_return (gap_violations orphan_timeout now outcomes intents))))"

definition emit_orphan_violation_event ::
  "(governance_event \<Rightarrow> ('l, persisted_event) act) \<Rightarrow> (timedelta \<Rightarrow> pyfloat) \<Rightarrow> two_phase_violation \<Rightarrow> ('l world, unit) act" where
  "emit_orphan_violation_event append_event total_seconds violation =
     act_bind time_now (\<lambda>now.
     act_bind uuid4 (\<lambda>event_id.
     act_bind (act_lift (governance_event_create event_id ''ledger.integrity.orphaned_intent_detected'' now
       ''system.gap_detector'' (tv_correlation_id violation)
       [(''intent_event_id'', PyStr (uuid_str (tv_event_id violation))),
        (''correlation_id'', PyStr (tv_correlation_id violation)),
        (''violation_type'', PyStr (two_phase_violation_type_value (tv_violation_type violation))),
        (''original_event_type'', PyStr (tv_event_type violation)),
        (''orphan_age_seconds'', PyFloat (total_seconds (tv_age violation))),
        (''detected_at'', PyStr (isoformat now))] current_schema_version)) (\<lambda>event.
     act_bind (on_ledger (append_event event)) (\<lambda>_. act_return ()))))"

fun emit_orphan_violations ::
  "(governance_event \<Rightarrow> ('l, persisted_event) act) \<Rightarrow> (timedelta \<Rightarrow> pyfloat) \<Rightarrow> two_phase_violation list \<Rightarrow> ('l world, unit) act" where
  "emit_orphan_violations append_event total_seconds [] = act_return ()"
| "emit_orphan_violations append_event total_seconds (violation # violations) =
     act_bind (emit_orphan_violation_event append_event total_seconds violation) (\<lambda>_.
     emit_orphan_violations append_event total_seconds violations)"

definition scan_and_emit_violations ::
  "(string \<Rightarrow> ('l world, governance_event list) act) \<Rightarrow> (governance_event \<Rightarrow> ('l, persisted_event) act)
    \<Rightarrow> (timedelta \<Rightarrow> pyfloat) \<Rightarrow> timedelta \<Rightarrow> ('l world, two_phase_violation list) act" where
  "scan_and_emit_violations read_pattern append_event total_seconds orphan_timeout =
     act_bind (verify_two_phase_completeness read_pattern orphan_timeout) (\<lambda>violations.
     act_bind (emit_orphan_violations append_event total_seconds violations) (\<lambda>_.
     act_return violations))"

text \<open>\<open>read_events\<close> of every ledger under \<open>src/\<close> has the parameter \<open>options\<close> only, as in the port.\<close>

definition ledger_read_pattern :: "string \<Rightarrow> string \<Rightarrow> ('l world, governance_event list) act" where
  "ledger_read_pattern ledger_class pattern = act_raise (Exn TypeError
     (ledger_class @ ''.read_events() got an unexpected keyword argument '' @
      [CHR 0x27] @ ''event_type_pattern'' @ [CHR 0x27]))"

section \<open>The registry of pending intents\<close>

text \<open>Every pending intent is kept under its correlation id and can be closed.\<close>

definition closable :: "uuid \<times> pending_intent \<Rightarrow> bool" where
  "closable ip \<longleftrightarrow> pi_correlation_id (snd ip) = fst ip \<and> op_ok (pi_operation_type (snd ip)) \<and> \<not> blank (pi_actor_id (snd ip))"

definition pending_ok :: "'l world \<Rightarrow> bool" where
  "pending_ok w \<longleftrightarrow> dict_ok (w_pending w) \<and> (\<forall>ip\<in>set (w_pending w). closable ip)"

lemma closable_lookup:
  "pending_ok w \<Longrightarrow> (i, p) \<in> set (w_pending w) \<Longrightarrow>
    dict_get (w_pending w) i = Some p \<and> pi_correlation_id p = i \<and> op_ok (pi_operation_type p) \<and> \<not> blank (pi_actor_id p)"
  by (auto simp: pending_ok_def closable_def dict_get_Some_iff)

text \<open>If the intent of an operation can be typed, so can its outcomes.\<close>

lemma branch_patterns:
  assumes "CHR ''.'' \<in> set operation" and "event_type_pattern (first_segment operation @ ''.intent.emitted'')"
  shows "op_ok operation"
proof -
  let ?b = "first_segment operation"
  have seg: "first_segment (?b @ ''.intent.emitted'') = ?b"
    by (simp add: first_segment_def takeWhile_append)
  then have "derive_branch (?b @ ''.intent.emitted'') = Inr ?b"
    using assms(2) by (simp add: derive_branch_def validate_event_type_def)
  then have b: "?b \<noteq> []" "\<forall>c\<in>set ?b. is_lower_alpha c" using derive_branch_Inr by blast+
  have run: "run_of is_lower_alpha (?b @ CHR ''.'' # s) = Some (CHR ''.'' # s)" for s
    using b by (intro run_of_append) (auto simp: is_lower_alpha_def)
  have rest: "(case run_of is_lower_alpha s of None \<Rightarrow> False | Some s3 \<Rightarrow>
      case eat_dot s3 of None \<Rightarrow> False | Some s4 \<Rightarrow>
      case run_of (\<lambda>c. is_lower_alpha c \<or> c = CHR ''_'') s4 of None \<Rightarrow> False | Some s5 \<Rightarrow> at_dollar s5)"
    if "s = ''commit.confirmed'' \<or> s = ''failure.recorded''" for s
    using that by (elim disjE; hypsubst; code_simp)
  have "\<not> blank operation"
  proof -
    obtain c where "c \<in> set ?b" using b(1) by (cases ?b) auto
    then have "c \<in> set operation" "is_lower_alpha c" using b(2) by (auto simp: first_segment_def dest: set_takeWhileD)
    moreover have "\<not> is_py_space c" using \<open>is_lower_alpha c\<close> by (auto simp: is_lower_alpha_def is_py_space_def)
    ultimately show ?thesis by (auto simp: blank_iff)
  qed
  then show ?thesis
    using assms rest by (simp add: op_ok_def event_type_pattern_def matches_dotted_def run eat_dot_def)
qed


text \<open>The emitter keeps the registry that way, whatever it is asked for.\<close>

lemma mk_intent_emitted_eventD:
  "mk_intent_emitted_event i = Inr j \<Longrightarrow> j = i \<and> CHR ''.'' \<in> set (ie_operation_type i)"
  by (auto simp: mk_intent_emitted_event_def check_operation_type_def derive_branch_from_operation_type_def split: sum.splits if_splits)

lemma governance_event_createD: "governance_event_create i t now a tr pl v = Inr e \<Longrightarrow> event_type_pattern t \<and> \<not> blank a"
  by (auto simp: governance_event_create_def mk_event_metadata_def validate_event_type_def split: sum.splits if_splits)

lemma emit_intent_pending:
  assumes "emit_intent append_event op a tgt pl w = (r, w')"
  shows "w_pending w' = w_pending w \<or>
    (\<exists>p. w_pending w' = dict_set (w_uuid w (w_uuid_draws w)) p (w_pending w) \<and> closable (w_uuid w (w_uuid_draws w), p))"
  using assms
  by (auto simp: emit_intent_def act_bind_def on_ledger_def set_pending_def closable_def intent_event_type_def two_phase_event_type_def
      derive_branch_from_operation_type_def branch_patterns
      dest!: mk_intent_emitted_eventD governance_event_createD split: sum.splits prod.splits if_splits)

lemma set_dict_set: "dict_ok d \<Longrightarrow> set (dict_set k v d) \<subseteq> insert (k, v) (set d)"
  by (induction k v d rule: dict_set.induct) (auto simp: dict_ok_def)

lemma emit_intent_pending_ok:
  assumes "pending_ok w" and "emit_intent append_event op a tgt pl w = (r, w')"
  shows "pending_ok w'"
  using emit_intent_pending [OF assms(2)] assms(1) set_dict_set
  by (fastforce simp: pending_ok_def dict_ok_set)

lemma emit_outcome_pending_ok:
  assumes "pending_ok w" and "emit_commit append_event cid result w = (r, w') \<or> emit_failure append_event cid reason details w = (r', w')"
  shows "pending_ok w'"
proof -
  have "w_pending w' = w_pending w \<or> w_pending w' = dict_del cid (w_pending w)"
    using assms(2)
    by (auto simp: emit_commit_def emit_failure_def Let_def act_bind_def on_ledger_def lookup_pending_def del_pending_def
        split: sum.splits prod.splits option.splits)
  then show ?thesis using assms(1) by (auto simp: pending_ok_def dict_ok_del) (auto simp: dict_del_def)
qed

section \<open>A scan over the ledger in memory\<close>

definition resolution_of :: "datetime \<Rightarrow> uuid \<times> pending_intent \<Rightarrow> orphan_resolution" where
  "resolution_of now ip = \<lparr>or_correlation_id = fst ip, or_emitted_at = pi_emitted_at (snd ip), or_resolved_at = now,
     or_age = now - pi_emitted_at (snd ip)\<rparr>"

definition closes_orphan :: "persisted_event \<Rightarrow> uuid \<times> pending_intent \<Rightarrow> bool" where
  "closes_orphan f ip \<longleftrightarrow> ge_event_type (pe_event f) = first_segment (pi_operation_type (snd ip)) @ ''.failure.recorded'' \<and>
     ge_trace_id (pe_event f) = uuid_str (fst ip) \<and>
     dict_get (ge_payload (pe_event f)) ''failure_reason'' = Some (PyStr ''ORPHAN_TIMEOUT'') \<and>
     dict_get (ge_payload (pe_event f)) ''was_orphan'' = Some (PyBool True)"

lemma resolve_orphans_memory:
  assumes "memory_inv (w_ledger w)" and "pending_ok w" and "distinct (map fst ips)" and "set ips \<subseteq> set (w_pending w)"
  shows "\<exists>w' fs. resolve_orphans memory_append_event total_seconds orphan_timeout now
       (map (\<lambda>(i, p). (i, pi_emitted_at p, now - pi_emitted_at p)) ips) w = (Inr (map (resolution_of now) ips), w') \<and>
     w_tasks w' = w_tasks w \<and> w_pending w' = filter (\<lambda>ip. fst ip \<notin> fst ` set ips) (w_pending w) \<and>
     memory_inv (w_ledger w') \<and> ml_events (w_ledger w') = ml_events (w_ledger w) @ fs \<and> list_all2 closes_orphan fs ips"
  using assms
proof (induction ips arbitrary: w)
  case Nil
  then show ?case by (auto intro: exI [of _ w])
next
  case (Cons ip ips)
  obtain i p where ip: "ip = (i, p)" by fastforce
  have p: "dict_get (w_pending w) i = Some p" "op_ok (pi_operation_type p)" "\<not> blank (pi_actor_id p)"
    using closable_lookup [OF Cons.prems(2), of i p] Cons.prems(4) ip by auto
  have reason: "\<not> blank ''ORPHAN_TIMEOUT''" by code_simp
  let ?details = "orphan_failure_details total_seconds orphan_timeout (now - pi_emitted_at p)"
  obtain w1 f where w1: "emit_failure memory_append_event i ''ORPHAN_TIMEOUT'' ?details w = (Inr (), w1)"
      "w_tasks w1 = w_tasks w" "w_pending w1 = dict_del i (w_pending w)" "memory_inv (w_ledger w1)"
      "ml_events (w_ledger w1) = ml_events (w_ledger w) @ [f]" "closes_orphan f ip"
    using memory.append_success [OF Cons.prems(1) memory_append [OF Cons.prems(1)]]
    by (auto simp: emit_failure_run [OF p reason] memory_append [OF Cons.prems(1)] closes_orphan_def outcome_event_def
        ge_accessors ip dict_get_def)
  have ok: "pending_ok w1" using Cons.prems(2) w1(3) dict_ok_del by (auto simp: pending_ok_def) (auto simp: dict_del_def)
  have "set ips \<subseteq> set (w_pending w1)" using Cons.prems(3,4) w1(3) ip by (auto simp: dict_del_def)
  then obtain w' fs where w': "resolve_orphans memory_append_event total_seconds orphan_timeout now
       (map (\<lambda>(i, p). (i, pi_emitted_at p, now - pi_emitted_at p)) ips) w1 = (Inr (map (resolution_of now) ips), w')"
     "w_tasks w' = w_tasks w1" "w_pending w' = filter (\<lambda>ip. fst ip \<notin> fst ` set ips) (w_pending w1)"
     "memory_inv (w_ledger w')" "ml_events (w_ledger w') = ml_events (w_ledger w1) @ fs" "list_all2 closes_orphan fs ips"
    using Cons.IH [OF w1(4) ok] Cons.prems(3) by auto
  then show ?case
    using w1 ip by (intro exI [of _ w'] exI [of _ "f # fs"])
      (auto simp: act_bind_def act_try_def resolution_of_def dict_del_def intro!: filter_cong)
qed

lemma filter_keys:
  assumes "distinct (map fst d)"
  shows "filter (\<lambda>ip. fst ip \<notin> fst ` set (filter P d)) d = filter (\<lambda>ip. \<not> P ip) d"
proof (rule filter_cong [OF refl])
  fix ip assume ip: "ip \<in> set d"
  have "ip = jp" if "jp \<in> set d" "fst ip = fst jp" for jp
    using assms that ip by (metis distinct_map inj_onD)
  then have "(\<exists>jp\<in>set d. P jp \<and> fst ip = fst jp) \<longleftrightarrow> P ip" using ip by metis
  then show "fst ip \<notin> fst ` set (filter P d) \<longleftrightarrow> \<not> P ip" by fastforce
qed

lemma orphans_to_resolve_map:
  "\<forall>ip\<in>set ips. pi_correlation_id (snd ip) = fst ip \<Longrightarrow>
    orphans_to_resolve orphan_timeout now (map (\<lambda>(_, p). (pi_correlation_id p, pi_emitted_at p)) ips) =
    map (\<lambda>(i, p). (i, pi_emitted_at p, now - pi_emitted_at p))
      (filter (\<lambda>ip. now - pi_emitted_at (snd ip) \<ge> orphan_timeout) ips)"
  by (induction ips) (auto simp: orphans_to_resolve_def)

text \<open>What the gap detector reports, for a reader that returns intents and outcomes.\<close>

lemma gap_violations_exact:
  "v \<in> set (gap_violations orphan_timeout now outcomes intents) \<longleftrightarrow>
     (\<exists>intent\<in>set intents. \<exists>c. payload_correlation intent = Some c \<and> v = gap_violation now intent c \<and>
        (\<forall>outcome\<in>set outcomes. payload_correlation outcome \<noteq> Some c) \<and>
        now - em_timestamp (ge_metadata intent) \<ge> orphan_timeout)"
  by (induction intents) (auto simp: list_ex_iff split: option.splits)

text \<open>Over the ledgers of the repository the detector raises before it has read anything.\<close>

lemma gap_detector_never_runs:
  "\<exists>m. scan_and_emit_violations (ledger_read_pattern ledger_class) append_event total_seconds orphan_timeout w =
     (Inl (Exn TypeError m), w\<lparr>w_clock_reads := w_clock_reads w + 1\<rparr>)"
  by (simp add: scan_and_emit_violations_def verify_two_phase_completeness_def ledger_read_pattern_def act_bind_def act_raise_def)

section \<open>Claim\<close>

text \<open>
  C31: no orphan survives a scan. Over the in-memory ledger and any registry the emitter can build, the detector answers
  just the intents that have been pending for the timeout or longer, in their order; each of them gets exactly one
  failure in the ledger, marked as an orphan, and leaves the registry; younger intents and all tasks stay as they were.
\<close>

theorem orphans_closed:
  assumes "memory_inv (w_ledger w)" and "pending_ok w"
  shows "\<exists>w' fs. scan_and_resolve_orphans memory_append_event total_seconds orphan_timeout w =
       (Inr (map (resolution_of (w_clock w (w_clock_reads w)))
          (filter (\<lambda>ip. w_clock w (w_clock_reads w) - pi_emitted_at (snd ip) \<ge> orphan_timeout) (w_pending w))), w') \<and>
     w_tasks w' = w_tasks w \<and>
     w_pending w' = filter (\<lambda>ip. w_clock w (w_clock_reads w) - pi_emitted_at (snd ip) < orphan_timeout) (w_pending w) \<and>
     pending_ok w' \<and> ml_events (w_ledger w') = ml_events (w_ledger w) @ fs \<and>
     list_all2 closes_orphan fs
       (filter (\<lambda>ip. w_clock w (w_clock_reads w) - pi_emitted_at (snd ip) \<ge> orphan_timeout) (w_pending w))"
proof -
  let ?now = "w_clock w (w_clock_reads w)" and ?w = "w\<lparr>w_clock_reads := Suc (w_clock_reads w)\<rparr>"
  let ?due = "filter (\<lambda>ip. ?now - pi_emitted_at (snd ip) \<ge> orphan_timeout) (w_pending w)"
  have ids: "\<forall>ip\<in>set (w_pending w). pi_correlation_id (snd ip) = fst ip" and keys: "distinct (map fst (w_pending w))"
    using assms(2) by (auto simp: pending_ok_def closable_def dict_ok_def)
  have todo: "orphans_to_resolve orphan_timeout ?now (get_pending_intents_with_age w) =
      map (\<lambda>(i, p). (i, pi_emitted_at p, ?now - pi_emitted_at p)) ?due"
    using ids unfolding get_pending_intents_with_age_def by (rule orphans_to_resolve_map)
  have "memory_inv (w_ledger ?w)" "pending_ok ?w" "distinct (map fst ?due)" "set ?due \<subseteq> set (w_pending ?w)"
    using assms keys by (auto simp: pending_ok_def distinct_map_filter)
  from resolve_orphans_memory [OF this, of total_seconds orphan_timeout ?now] obtain w' fs where
    run: "resolve_orphans memory_append_event total_seconds orphan_timeout ?now
        (map (\<lambda>(i, p). (i, pi_emitted_at p, ?now - pi_emitted_at p)) ?due) ?w = (Inr (map (resolution_of ?now) ?due), w')"
      "w_tasks w' = w_tasks w" "w_pending w' = filter (\<lambda>ip. fst ip \<notin> fst ` set ?due) (w_pending w)"
      "ml_events (w_ledger w') = ml_events (w_ledger w) @ fs" "list_all2 closes_orphan fs ?due"
    by auto
  have left: "filter (\<lambda>ip. fst ip \<notin> fst ` set ?due) (w_pending w) =
      filter (\<lambda>ip. ?now - pi_emitted_at (snd ip) < orphan_timeout) (w_pending w)"
    unfolding filter_keys [OF keys] by (simp add: not_le)
  have "pending_ok w'"
    using assms(2) run(3) unfolding pending_ok_def dict_ok_def by (auto simp: distinct_map_filter)
  then show ?thesis
    using run(1,2,4,5) run(3) [unfolded left] todo
    by (intro exI [of _ w'] exI [of _ fs]) (simp add: scan_and_resolve_orphans_def act_bind_def get_pending_intents_with_age_def)
qed

theorem orphans_closed_witness:
  "\<exists>w' f. scan_and_resolve_orphans memory_append_event (\<lambda>_. FloatNaN) (300000000)
      ((example_world [] (360000000))\<lparr>w_pending :=
        [(7, \<lparr>pi_correlation_id = 7, pi_intent_event_id = 8, pi_operation_type = ''task.accept'', pi_actor_id = ''c'',
           pi_target_entity_id = ''t'', pi_intent_payload = [], pi_emitted_at = 0\<rparr>)]\<rparr>) =
      (Inr [\<lparr>or_correlation_id = 7, or_emitted_at = 0, or_resolved_at = 360000000, or_age = 360000000\<rparr>], w') \<and>
    w_pending w' = [] \<and> ml_events (w_ledger w') = [f]"
proof -
  let ?p = "\<lparr>pi_correlation_id = 7, pi_intent_event_id = 8, pi_operation_type = ''task.accept'', pi_actor_id = ''c'',
    pi_target_entity_id = ''t'', pi_intent_payload = [], pi_emitted_at = 0\<rparr>"
  let ?w = "(example_world [] (360000000))\<lparr>w_pending := [(7, ?p)]\<rparr>"
  have ok: "memory_inv (w_ledger ?w)" "pending_ok ?w"
    using consent_ops_ok(1) by (auto simp: example_world_def pending_ok_def closable_def dict_ok_def blank_iff is_py_space_def)
  show ?thesis
    using orphans_closed [OF ok, of "\<lambda>_. FloatNaN" "300000000"]
    by (auto simp: example_world_def resolution_of_def list_all2_Cons2 memory_ledger_init_def)
qed

end
