(* ===== verification/Cluster_Exit.thy ===== *)
theory Cluster_Exit
  imports Two_Phase
begin

text \<open>
  A Cluster leaves the system: the exit itself (\<open>src/application/services/governance/exit_service.py\<close>), the release of
  its obligations (\<open>obligation_release_service.py\<close>), the preservation of its contributions
  (\<open>contribution_preservation_service.py\<close>) and the end of contact (\<open>contact_prevention_service.py\<close>), with the values of
  \<open>src/domain/governance/exit/\<close>. The ports of these services have no implementation in the repository and are
  arguments; \<open>emit\<close> is the event emitter. What the constructors check of the type of a field holds by typing. (In one
  message of \<open>ExitResult\<close> the sign for at most is written in ASCII.)
\<close>

section \<open>Leaving\<close>

datatype exit_status = EXIT_INITIATED | EXIT_PROCESSING | EXIT_COMPLETED

record exit_request =
  xr_request_id :: uuid
  xr_cluster_id :: uuid
  xr_requested_at :: datetime
  xr_tasks_at_request :: "uuid list"

record exit_result =
  xs_request_id :: uuid
  xs_cluster_id :: uuid
  xs_status :: exit_status
  xs_initiated_at :: datetime
  xs_completed_at :: "datetime option"
  xs_tasks_affected :: int
  xs_obligations_released :: int
  xs_round_trips :: int

definition max_round_trips :: int where
  "max_round_trips = 2"

definition mk_exit_result :: "exit_result \<Rightarrow> exn + exit_result" where
  "mk_exit_result r =
     (if (case xs_completed_at r of Some c \<Rightarrow> c < xs_initiated_at r | None \<Rightarrow> False) then
        Inl (Exn ValueError ''ExitResult validation failed - completed_at cannot be before initiated_at'')
      else if xs_tasks_affected r < 0 then
        Inl (Exn ValueError ''ExitResult validation failed - tasks_affected must be non-negative integer'')
      else if xs_obligations_released r < 0 then
        Inl (Exn ValueError ''ExitResult validation failed - obligations_released must be non-negative integer'')
      else if xs_round_trips r < 0 then
        Inl (Exn ValueError ''ExitResult validation failed - round_trips must be non-negative integer'')
      else if xs_round_trips r > max_round_trips then
        Inl (Exn ValueError (''NFR-EXIT-01 VIOLATION: Exit exceeded '' @ show_int max_round_trips @ '' round-trips. Actual: '' @
          show_int (xs_round_trips r) @ ''. Exit must complete in <=2 round-trips.''))
      else Inr r)"

text \<open>\<open>float_ms\<close> stands for the float that \<open>total_seconds() * 1000\<close> is.\<close>

definition duration_ms :: "(timedelta \<Rightarrow> pyfloat) \<Rightarrow> exit_result \<Rightarrow> pyval" where
  "duration_ms float_ms r =
     (case xs_completed_at r of None \<Rightarrow> PyNone | Some c \<Rightarrow> PyFloat (float_ms (c - xs_initiated_at r)))"

record 'l exit_port =
  xp_record_exit_request :: "exit_request \<Rightarrow> ('l world, unit) act"
  xp_record_exit_result :: "exit_result \<Rightarrow> ('l world, unit) act"
  xp_has_cluster_exited :: "uuid \<Rightarrow> ('l world, bool) act"
  xp_get_cluster_active_tasks :: "uuid \<Rightarrow> ('l world, uuid list) act"

type_synonym 'l exit_emitter = "string \<Rightarrow> string \<Rightarrow> payload \<Rightarrow> ('l world, unit) act"

definition already_exited :: "uuid \<Rightarrow> exn" where
  "already_exited cluster_id = Exn AlreadyExitedError
     (''Cluster '' @ uuid_str cluster_id @ '' has already exited and cannot exit again'')"

definition initiate_exit ::
  "'l exit_port \<Rightarrow> 'l exit_emitter \<Rightarrow> (timedelta \<Rightarrow> pyfloat) \<Rightarrow> uuid \<Rightarrow> ('l world, exit_result) act" where
  "initiate_exit port emit float_ms cluster_id =
     act_bind time_now (\<lambda>now.
     act_bind (xp_has_cluster_exited port cluster_id) (\<lambda>exited.
     if exited then act_raise (already_exited cluster_id)
     else
       act_bind (xp_get_cluster_active_tasks port cluster_id) (\<lambda>active_tasks.
       act_bind uuid4 (\<lambda>request_id.
       let request = \<lparr>xr_request_id = request_id, xr_cluster_id = cluster_id, xr_requested_at = now,
             xr_tasks_at_request = active_tasks\<rparr>
       in act_bind (xp_record_exit_request port request) (\<lambda>_.
       act_bind (emit ''custodial.exit.initiated'' (uuid_str cluster_id)
         [(''request_id'', PyStr (uuid_str request_id)), (''cluster_id'', PyStr (uuid_str cluster_id)),
          (''initiated_at'', PyStr (isoformat now)), (''active_tasks'', PyInt (int (length active_tasks)))]) (\<lambda>_.
       let tasks_affected = int (length active_tasks); obligations_released = tasks_affected
       in act_bind time_now (\<lambda>completed_at.
       act_bind (act_lift (mk_exit_result \<lparr>xs_request_id = request_id, xs_cluster_id = cluster_id,
         xs_status = EXIT_COMPLETED, xs_initiated_at = now, xs_completed_at = Some completed_at,
         xs_tasks_affected = tasks_affected, xs_obligations_released = obligations_released, xs_round_trips = 2\<rparr>)) (\<lambda>result.
       act_bind (xp_record_exit_result port result) (\<lambda>_.
       act_bind (emit ''custodial.exit.completed'' ''system''
         [(''request_id'', PyStr (uuid_str request_id)), (''cluster_id'', PyStr (uuid_str cluster_id)),
          (''initiated_at'', PyStr (isoformat now)), (''completed_at'', PyStr (isoformat completed_at)),
          (''tasks_affected'', PyInt tasks_affected), (''obligations_released'', PyInt obligations_released),
          (''duration_ms'', duration_ms float_ms result)]) (\<lambda>_.
       act_return result))))))))))"

definition get_exit_status :: "'l exit_port \<Rightarrow> uuid \<Rightarrow> ('l world, exit_status option) act" where
  "get_exit_status port cluster_id =
     act_bind (xp_has_cluster_exited port cluster_id) (\<lambda>exited.
     act_return (if exited then Some EXIT_COMPLETED else None))"

section \<open>Releasing obligations\<close>

datatype release_type = NULLIFIED_ON_EXIT | RELEASED_ON_EXIT

record obligation_release =
  ob_release_id :: uuid
  ob_cluster_id :: uuid
  ob_task_id :: uuid
  ob_previous_state :: task_status
  ob_release_type :: release_type
  ob_released_at :: datetime
  ob_work_preserved :: bool

definition mk_obligation_release :: "obligation_release \<Rightarrow> exn + obligation_release" where
  "mk_obligation_release r =
     (if ob_release_type r = NULLIFIED_ON_EXIT \<and> ob_work_preserved r then
        Inl (Exn ValueError ''work_preserved must be False for NULLIFIED_ON_EXIT releases'')
      else Inr r)"

record release_result =
  rl_cluster_id :: uuid
  rl_nullified_count :: int
  rl_released_count :: int
  rl_pending_cancelled :: int
  rl_total_obligations :: int
  rl_released_at :: datetime

definition mk_release_result :: "release_result \<Rightarrow> exn + release_result" where
  "mk_release_result r =
     (if rl_nullified_count r < 0 then Inl (Exn ValueError ''nullified_count must be non-negative'')
      else if rl_released_count r < 0 then Inl (Exn ValueError ''released_count must be non-negative'')
      else if rl_pending_cancelled r < 0 then Inl (Exn ValueError ''pending_cancelled must be non-negative'')
      else if rl_total_obligations r < 0 then Inl (Exn ValueError ''total_obligations must be non-negative'')
      else if rl_total_obligations r \<noteq> rl_nullified_count r + rl_released_count r then
        Inl (Exn ValueError (''total_obligations ('' @ show_int (rl_total_obligations r) @ '') must equal nullified_count ('' @
          show_int (rl_nullified_count r) @ '') + released_count ('' @ show_int (rl_released_count r) @ '')''))
      else Inr r)"

fun release_category :: "task_status \<Rightarrow> release_type option" where
  "release_category AUTHORIZED = Some NULLIFIED_ON_EXIT"
| "release_category ACTIVATED = Some NULLIFIED_ON_EXIT"
| "release_category ROUTED = Some NULLIFIED_ON_EXIT"
| "release_category ACCEPTED = Some RELEASED_ON_EXIT"
| "release_category IN_PROGRESS = Some RELEASED_ON_EXIT"
| "release_category REPORTED = Some RELEASED_ON_EXIT"
| "release_category AGGREGATED = Some RELEASED_ON_EXIT"
| "release_category _ = None"

type_synonym 'l task_transition = "uuid \<Rightarrow> task_status \<Rightarrow> string \<Rightarrow> ('l world, unit) act"

definition nullify_on_exit :: "'l task_transition \<Rightarrow> 'l exit_emitter \<Rightarrow> uuid \<Rightarrow> uuid \<Rightarrow> task_status \<Rightarrow> ('l world, unit) act" where
  "nullify_on_exit transition_task emit task_id cluster_id previous_state =
     act_bind (transition_task task_id NULLIFIED ''cluster_exit_pre_consent'') (\<lambda>_.
     emit ''executive.task.nullified_on_exit'' ''system''
       [(''task_id'', PyStr (uuid_str task_id)), (''cluster_id'', PyStr (uuid_str cluster_id)),
        (''previous_state'', PyStr (task_status_value previous_state)), (''reason'', PyStr ''cluster_exit_pre_consent''),
        (''work_preserved'', PyBool False)])"

definition release_on_exit :: "'l task_transition \<Rightarrow> 'l exit_emitter \<Rightarrow> uuid \<Rightarrow> uuid \<Rightarrow> task_status \<Rightarrow> ('l world, unit) act" where
  "release_on_exit transition_task emit task_id cluster_id previous_state =
     act_bind (transition_task task_id QUARANTINED ''cluster_exit_post_consent'') (\<lambda>_.
     emit ''executive.task.released_on_exit'' ''system''
       [(''task_id'', PyStr (uuid_str task_id)), (''cluster_id'', PyStr (uuid_str cluster_id)),
        (''previous_state'', PyStr (task_status_value previous_state)), (''reason'', PyStr ''cluster_exit_post_consent''),
        (''work_preserved'', PyBool True)])"

text \<open>The loop over the tasks, with its two counters and the list of releases, which nothing reads.\<close>

fun release_loop ::
  "'l task_transition \<Rightarrow> 'l exit_emitter \<Rightarrow> uuid \<Rightarrow> datetime \<Rightarrow> int \<Rightarrow> int \<Rightarrow> obligation_release list \<Rightarrow> task_state list
    \<Rightarrow> ('l world, int \<times> int \<times> obligation_release list) act" where
  "release_loop transition_task emit cluster_id now nullified released releases [] = act_return (nullified, released, releases)"
| "release_loop transition_task emit cluster_id now nullified released releases (task # tasks) =
     (let task_status = ts_current_status task; task_id = ts_task_id task in
      if is_terminal task_status then release_loop transition_task emit cluster_id now nullified released releases tasks
      else
        (case release_category task_status of
           None \<Rightarrow> release_loop transition_task emit cluster_id now nullified released releases tasks
         | Some NULLIFIED_ON_EXIT \<Rightarrow>
             act_bind (nullify_on_exit transition_task emit task_id cluster_id task_status) (\<lambda>_.
             act_bind uuid4 (\<lambda>release_id.
             act_bind (act_lift (mk_obligation_release \<lparr>ob_release_id = release_id, ob_cluster_id = cluster_id,
               ob_task_id = task_id, ob_previous_state = task_status, ob_release_type = NULLIFIED_ON_EXIT,
               ob_released_at = now, ob_work_preserved = False\<rparr>)) (\<lambda>r.
             release_loop transition_task emit cluster_id now (nullified + 1) released (releases @ [r]) tasks)))
         | Some RELEASED_ON_EXIT \<Rightarrow>
             act_bind (release_on_exit transition_task emit task_id cluster_id task_status) (\<lambda>_.
             act_bind uuid4 (\<lambda>release_id.
             act_bind (act_lift (mk_obligation_release \<lparr>ob_release_id = release_id, ob_cluster_id = cluster_id,
               ob_task_id = task_id, ob_previous_state = task_status, ob_release_type = RELEASED_ON_EXIT,
               ob_released_at = now, ob_work_preserved = True\<rparr>)) (\<lambda>r.
             release_loop transition_task emit cluster_id now nullified (released + 1) (releases @ [r]) tasks)))))"

definition cancel_pending_requests :: "(uuid \<Rightarrow> ('l world, int) act) \<Rightarrow> 'l exit_emitter \<Rightarrow> uuid \<Rightarrow> ('l world, int) act" where
  "cancel_pending_requests cancel_pending emit cluster_id =
     act_bind (cancel_pending cluster_id) (\<lambda>cancelled.
     act_bind (act_when (cancelled > 0) (emit ''executive.pending_requests.cancelled'' ''system''
       [(''cluster_id'', PyStr (uuid_str cluster_id)), (''cancelled_count'', PyInt cancelled)])) (\<lambda>_.
     act_return cancelled))"

definition release_all ::
  "(uuid \<Rightarrow> ('l world, task_state list) act) \<Rightarrow> 'l task_transition \<Rightarrow> (uuid \<Rightarrow> ('l world, int) act) \<Rightarrow> 'l exit_emitter
    \<Rightarrow> uuid \<Rightarrow> ('l world, release_result) act" where
  "release_all get_tasks transition_task cancel_pending emit cluster_id =
     act_bind time_now (\<lambda>now.
     act_bind (get_tasks cluster_id) (\<lambda>tasks.
     act_bind (release_loop transition_task emit cluster_id now 0 0 [] tasks) (\<lambda>(nullified, released, releases).
     act_bind (cancel_pending_requests cancel_pending emit cluster_id) (\<lambda>pending_cancelled.
     act_bind (act_lift (mk_release_result \<lparr>rl_cluster_id = cluster_id, rl_nullified_count = nullified,
       rl_released_count = released, rl_pending_cancelled = pending_cancelled,
       rl_total_obligations = nullified + released, rl_released_at = now\<rparr>)) (\<lambda>result.
     act_bind (emit ''custodial.obligations.released'' ''system''
       [(''cluster_id'', PyStr (uuid_str cluster_id)), (''nullified_count'', PyInt nullified),
        (''released_count'', PyInt released), (''pending_cancelled'', PyInt pending_cancelled),
        (''total_obligations'', PyInt (rl_total_obligations result)), (''released_at'', PyStr (isoformat now))]) (\<lambda>_.
     act_return result))))))"

section \<open>Preserving contributions\<close>

datatype contribution_type = TASK_COMPLETED | TASK_REPORTED | DELIBERATION_PARTICIPATED

record contribution_record =
  cb_record_id :: uuid
  cb_cluster_id :: uuid
  cb_task_id :: uuid
  cb_contribution_type :: contribution_type
  cb_contributed_at :: datetime
  cb_preserved_at :: "datetime option"
  cb_result_hash :: string

definition mk_contribution_record :: "contribution_record \<Rightarrow> exn + contribution_record" where
  "mk_contribution_record r =
     (if blank (cb_result_hash r) then
        Inl (Exn ValueError ''ContributionRecord validation failed - result_hash must not be empty or whitespace'')
      else Inr r)"

definition is_preserved :: "contribution_record \<Rightarrow> bool" where
  "is_preserved r = (cb_preserved_at r \<noteq> None)"

record preservation_result =
  pv_cluster_id :: uuid
  pv_contributions_preserved :: int
  pv_task_ids :: "uuid list"
  pv_preserved_at :: datetime

fun preserve_loop ::
  "(uuid \<Rightarrow> datetime \<Rightarrow> ('l world, unit) act) \<Rightarrow> datetime \<Rightarrow> contribution_record list \<Rightarrow> ('l world, uuid list) act" where
  "preserve_loop mark_preserved now [] = act_return []"
| "preserve_loop mark_preserved now (contribution # contributions) =
     (if is_preserved contribution then preserve_loop mark_preserved now contributions
      else
        act_bind (mark_preserved (cb_record_id contribution) now) (\<lambda>_.
        act_bind (preserve_loop mark_preserved now contributions) (\<lambda>preserved_task_ids.
        act_return (cb_task_id contribution # preserved_task_ids))))"

definition preserve ::
  "(uuid \<Rightarrow> ('l world, contribution_record list) act) \<Rightarrow> (uuid \<Rightarrow> datetime \<Rightarrow> ('l world, unit) act) \<Rightarrow> 'l exit_emitter
    \<Rightarrow> uuid \<Rightarrow> ('l world, preservation_result) act" where
  "preserve get_for_cluster mark_preserved emit cluster_id =
     act_bind time_now (\<lambda>now.
     act_bind (get_for_cluster cluster_id) (\<lambda>contributions.
     act_bind (preserve_loop mark_preserved now contributions) (\<lambda>preserved_task_ids.
     act_bind (emit ''custodial.contributions.preserved'' ''system''
       [(''cluster_id'', PyStr (uuid_str cluster_id)), (''contributions_preserved'', PyInt (int (length preserved_task_ids))),
        (''task_ids'', PyList (map (\<lambda>t. PyStr (uuid_str t)) preserved_task_ids)),
        (''preserved_at'', PyStr (isoformat now))]) (\<lambda>_.
     act_return \<lparr>pv_cluster_id = cluster_id, pv_contributions_preserved = int (length preserved_task_ids),
       pv_task_ids = preserved_task_ids, pv_preserved_at = now\<rparr>))))"

section \<open>Ending contact\<close>

datatype contact_block_status = PERMANENTLY_BLOCKED

record contact_block =
  bk_block_id :: uuid
  bk_cluster_id :: uuid
  bk_blocked_at :: datetime
  bk_reason :: string
  bk_status :: contact_block_status

definition block_on_exit :: "(contact_block \<Rightarrow> ('l world, unit) act) \<Rightarrow> 'l exit_emitter \<Rightarrow> uuid \<Rightarrow> ('l world, contact_block) act" where
  "block_on_exit add_block emit cluster_id =
     act_bind time_now (\<lambda>now.
     act_bind uuid4 (\<lambda>block_id.
     let block = \<lparr>bk_block_id = block_id, bk_cluster_id = cluster_id, bk_blocked_at = now, bk_reason = ''exit'',
           bk_status = PERMANENTLY_BLOCKED\<rparr>
     in act_bind (add_block block) (\<lambda>_.
        act_bind (emit ''custodial.contact.blocked'' ''system''
          [(''block_id'', PyStr (uuid_str block_id)), (''cluster_id'', PyStr (uuid_str cluster_id)),
           (''blocked_at'', PyStr (isoformat now)), (''reason'', PyStr ''exit''), (''permanent'', PyBool True)]) (\<lambda>_.
        act_return block))))"

record contact_violation =
  cv_violation_id :: uuid
  cv_cluster_id :: uuid
  cv_attempted_by :: string
  cv_attempted_at :: datetime
  cv_blocked :: bool

definition mk_contact_violation :: "contact_violation \<Rightarrow> exn + contact_violation" where
  "mk_contact_violation v =
     (if \<not> cv_blocked v then
        Inl (Exn ValueError ''ContactViolation.blocked must be True. Contact to exited Clusters is always blocked.'')
      else Inr v)"

definition record_contact_attempt :: "'l exit_emitter \<Rightarrow> uuid \<Rightarrow> string \<Rightarrow> ('l world, contact_violation) act" where
  "record_contact_attempt emit cluster_id attempted_by =
     act_bind time_now (\<lambda>now.
     act_bind uuid4 (\<lambda>violation_id.
     act_bind (act_lift (mk_contact_violation \<lparr>cv_violation_id = violation_id, cv_cluster_id = cluster_id,
       cv_attempted_by = attempted_by, cv_attempted_at = now, cv_blocked = True\<rparr>)) (\<lambda>violation.
     act_bind (emit ''constitutional.violation.contact_attempt'' attempted_by
       [(''violation_id'', PyStr (uuid_str violation_id)), (''cluster_id'', PyStr (uuid_str cluster_id)),
        (''attempted_by'', PyStr attempted_by), (''attempted_at'', PyStr (isoformat now)), (''blocked'', PyBool True),
        (''violation_type'', PyStr ''nfr_exit_02_contact_after_exit'')]) (\<lambda>_.
     act_return violation))))"

section \<open>The calls of a release\<close>

text \<open>
  What the service asks of its collaborators. The task port, the port of pending requests and the emitter are arbitrary
  actions on a state of their own (\<open>'x\<close>, which holds the tasks too); beside it the world logs every call with the
  exception it raised, if any.
\<close>

datatype exit_call =
    AskTasks uuid
  | MoveTask uuid task_status string
  | EmitEvent string string payload
  | CancelPending uuid

type_synonym exit_log = "(exit_call \<times> exn option) list"

definition exit_log :: "('x \<times> exit_log) world \<Rightarrow> exit_log" where
  "exit_log w = snd (w_ledger w)"

definition calling :: "exit_call \<Rightarrow> ('x, 'a) act \<Rightarrow> (('x \<times> exit_log) world, 'a) act" where
  "calling call m = (\<lambda>w. case m (fst (w_ledger w)) of (r, x) \<Rightarrow>
     (r, w\<lparr>w_ledger := (x, exit_log w @ [(call, case r of Inl e \<Rightarrow> Some e | Inr _ \<Rightarrow> None)])\<rparr>))"

definition logged_release ::
  "(uuid \<Rightarrow> ('x, task_state list) act) \<Rightarrow> (uuid \<Rightarrow> task_status \<Rightarrow> string \<Rightarrow> ('x, unit) act) \<Rightarrow> (uuid \<Rightarrow> ('x, int) act)
    \<Rightarrow> (string \<Rightarrow> string \<Rightarrow> payload \<Rightarrow> ('x, unit) act) \<Rightarrow> uuid \<Rightarrow> (('x \<times> exit_log) world, release_result) act" where
  "logged_release get_tasks transition_task cancel emit cluster_id =
     release_all (\<lambda>c. calling (AskTasks c) (get_tasks c)) (\<lambda>i to reason. calling (MoveTask i to reason) (transition_task i to reason))
       (\<lambda>c. calling (CancelPending c) (cancel c)) (\<lambda>t a p. calling (EmitEvent t a p) (emit t a p)) cluster_id"

text \<open>
  The calls the release is to make for the tasks it is told of, when \<open>n\<close> pending requests are cancelled: a task the
  Cluster has not consented to is nullified, one it has consented to and not finished is quarantined, and each of these
  is announced; the others are left alone.
\<close>

definition unconsented :: "task_status set" where
  "unconsented = {AUTHORIZED, ACTIVATED, ROUTED}"

definition consented :: "task_status set" where
  "consented = {ACCEPTED, IN_PROGRESS, REPORTED, AGGREGATED}"

definition count_in :: "task_status set \<Rightarrow> task_state list \<Rightarrow> int" where
  "count_in S tasks = int (length (filter (\<lambda>t. ts_current_status t \<in> S) tasks))"

definition exit_payload :: "uuid \<Rightarrow> task_state \<Rightarrow> string \<Rightarrow> bool \<Rightarrow> payload" where
  "exit_payload c t reason preserved =
     [(''task_id'', PyStr (uuid_str (ts_task_id t))), (''cluster_id'', PyStr (uuid_str c)),
      (''previous_state'', PyStr (task_status_value (ts_current_status t))), (''reason'', PyStr reason),
      (''work_preserved'', PyBool preserved)]"

definition task_calls :: "uuid \<Rightarrow> task_state \<Rightarrow> exit_call list" where
  "task_calls c t =
     (if ts_current_status t \<in> unconsented then
        [MoveTask (ts_task_id t) NULLIFIED ''cluster_exit_pre_consent'',
         EmitEvent ''executive.task.nullified_on_exit'' ''system'' (exit_payload c t ''cluster_exit_pre_consent'' False)]
      else if ts_current_status t \<in> consented then
        [MoveTask (ts_task_id t) QUARANTINED ''cluster_exit_post_consent'',
         EmitEvent ''executive.task.released_on_exit'' ''system'' (exit_payload c t ''cluster_exit_post_consent'' True)]
      else [])"

definition announcements :: "uuid \<Rightarrow> datetime \<Rightarrow> int \<Rightarrow> int \<Rightarrow> int \<Rightarrow> exit_call list" where
  "announcements c now k m n =
     (if 0 < n then [EmitEvent ''executive.pending_requests.cancelled'' ''system''
        [(''cluster_id'', PyStr (uuid_str c)), (''cancelled_count'', PyInt n)]] else []) @
     [EmitEvent ''custodial.obligations.released'' ''system''
        [(''cluster_id'', PyStr (uuid_str c)), (''nullified_count'', PyInt k), (''released_count'', PyInt m),
         (''pending_cancelled'', PyInt n), (''total_obligations'', PyInt (k + m)), (''released_at'', PyStr (isoformat now))]]"

definition release_plan :: "uuid \<Rightarrow> datetime \<Rightarrow> task_state list \<Rightarrow> int \<Rightarrow> exit_call list" where
  "release_plan c now tasks n =
     AskTasks c # concat (map (task_calls c) tasks) @ CancelPending c #
     announcements c now (count_in unconsented tasks) (count_in consented tasks) n"

text \<open>The calls made are the plan, all answered, when the request returns, and the plan up to the call that raised otherwise.\<close>

definition carried_out :: "exit_call list \<Rightarrow> exit_log \<Rightarrow> exn + 'a \<Rightarrow> bool" where
  "carried_out plan calls r \<longleftrightarrow> (case r of
       Inr _ \<Rightarrow> calls = map (\<lambda>c. (c, None)) plan
     | Inl e \<Rightarrow> \<exists>before call after. plan = before @ call # after \<and> calls = map (\<lambda>c. (c, None)) before @ [(call, Some e)])"

lemma carried_out_cut:
  "carried_out plan calls (Inl e :: exn + 'a) \<Longrightarrow> carried_out (plan @ extra) calls (Inl e :: exn + 'b)"
  by (fastforce simp: carried_out_def)

lemma carried_out_later:
  "carried_out plan calls r \<Longrightarrow> carried_out (before @ plan) (map (\<lambda>c. (c, None)) before @ calls) r"
  unfolding carried_out_def by (cases r) (auto, metis append.assoc map_append)

definition follows :: "(('x \<times> exit_log) world, 'a) act \<Rightarrow> exit_call list \<Rightarrow> ('a \<Rightarrow> bool) \<Rightarrow> bool" where
  "follows m plan Q \<longleftrightarrow> (\<forall>w. \<exists>r w' calls. m w = (r, w') \<and> exit_log w' = exit_log w @ calls \<and> carried_out plan calls r \<and>
     (\<forall>v. r = Inr v \<longrightarrow> Q v))"

lemma followsE:
  assumes "follows m plan Q"
  obtains r w' calls where "m w = (r, w')" and "exit_log w' = exit_log w @ calls" and "carried_out plan calls r"
    and "\<forall>v. r = Inr v \<longrightarrow> Q v"
  using assms unfolding follows_def by blast

lemma follows_calling: "follows (calling call m) [call] (\<lambda>_. True)"
  unfolding follows_def
proof
  fix w :: "('a \<times> exit_log) world"
  obtain r x where "m (fst (w_ledger w)) = (r, x)" by fastforce
  then show "\<exists>r w' calls. calling call m w = (r, w') \<and> exit_log w' = exit_log w @ calls \<and> carried_out [call] calls r \<and>
      (\<forall>v. r = Inr v \<longrightarrow> True)"
    by (cases r) (auto simp: calling_def exit_log_def carried_out_def)
qed

lemma follows_quiet: "Q x \<Longrightarrow> follows (act_return x) [] Q" "follows uuid4 [] (\<lambda>_. True)"
  by (auto simp: follows_def carried_out_def exit_log_def)

lemma follows_bind:
  assumes m: "follows m p P" and f: "\<And>v. P v \<Longrightarrow> follows (f v) q Q"
  shows "follows (act_bind m f) (p @ q) Q"
  unfolding follows_def
proof
  fix w
  obtain r u calls where u: "m w = (r, u)" "exit_log u = exit_log w @ calls" "carried_out p calls r" "\<forall>v. r = Inr v \<longrightarrow> P v"
    by (rule followsE [OF m, of w])
  show "\<exists>r w' calls. act_bind m f w = (r, w') \<and> exit_log w' = exit_log w @ calls \<and> carried_out (p @ q) calls r \<and>
      (\<forall>v. r = Inr v \<longrightarrow> Q v)"
  proof (cases r)
    case (Inl e)
    have "act_bind m f w = (Inl e, u)" using u(1) Inl by simp
    then show ?thesis using u(2) carried_out_cut [OF u(3) [unfolded Inl]]
      by (intro exI [of _ "Inl e"] exI [of _ u] exI [of _ calls]) simp
  next
    case (Inr v)
    obtain r' w' later where l: "f v u = (r', w')" "exit_log w' = exit_log u @ later" "carried_out q later r'"
        "\<forall>x. r' = Inr x \<longrightarrow> Q x"
      using u(4) Inr by (blast intro: followsE [OF f, of v u])
    have "carried_out (p @ q) (calls @ later) r'"
      using carried_out_later [OF l(3), of p] u(3) Inr by (simp add: carried_out_def)
    then show ?thesis using u(1,2) Inr l by (intro exI [of _ r'] exI [of _ w'] exI [of _ "calls @ later"]) simp
  qed
qed

lemma follows_call:
  "Q x \<Longrightarrow> follows (act_bind (calling call m) (\<lambda>_. act_return x)) [call] Q"
  "follows k q Q \<Longrightarrow> follows (act_bind (calling call m) (\<lambda>_. k)) (call # q) Q"
  using follows_bind [OF follows_calling follows_quiet(1), of Q "\<lambda>_. x" call m]
    follows_bind [OF follows_calling, of "\<lambda>_. k" q Q call m] by simp_all

lemma carried_out_calls: "carried_out plan calls r \<Longrightarrow> fst ` set calls \<subseteq> set plan"
  unfolding carried_out_def by (cases r) (auto simp: image_image)

text \<open>The calls for one task, and for all of them.\<close>

lemma follows_task:
  fixes tr :: "uuid \<Rightarrow> task_status \<Rightarrow> string \<Rightarrow> ('x, unit) act" and em :: "string \<Rightarrow> string \<Rightarrow> payload \<Rightarrow> ('x, unit) act"
  shows "ts_current_status t \<in> unconsented \<Longrightarrow>
      follows (nullify_on_exit (\<lambda>i to reason. calling (MoveTask i to reason) (tr i to reason))
        (\<lambda>t a p. calling (EmitEvent t a p) (em t a p)) (ts_task_id t) c (ts_current_status t)) (task_calls c t) (\<lambda>_. True)"
    and "ts_current_status t \<in> consented \<Longrightarrow>
      follows (release_on_exit (\<lambda>i to reason. calling (MoveTask i to reason) (tr i to reason))
        (\<lambda>t a p. calling (EmitEvent t a p) (em t a p)) (ts_task_id t) c (ts_current_status t)) (task_calls c t) (\<lambda>_. True)"
  using follows_bind [OF follows_calling follows_calling]
  by (auto simp: nullify_on_exit_def release_on_exit_def task_calls_def exit_payload_def consented_def unconsented_def)

lemma count_in_Cons [simp]:
  "count_in S (t # ts) = (if ts_current_status t \<in> S then 1 else 0) + count_in S ts" "count_in S [] = 0"
  by (simp_all add: count_in_def)

lemma release_category_iff:
  "release_category st = Some NULLIFIED_ON_EXIT \<longleftrightarrow> st \<in> unconsented"
  "release_category st = Some RELEASED_ON_EXIT \<longleftrightarrow> st \<in> consented"
  by (cases st; simp add: unconsented_def consented_def)+

lemma live_status:
  "st \<in> unconsented \<Longrightarrow> \<not> is_terminal st \<and> st \<notin> consented" "st \<in> consented \<Longrightarrow> \<not> is_terminal st"
  by (auto simp: unconsented_def consented_def is_terminal_def terminal_states_def)

text \<open>One task of the loop: its calls, an id for the release, and the rest.\<close>

lemma follows_released:
  assumes "follows m p (\<lambda>_. True)" and "\<And>i. mk_obligation_release (ob i) = Inr (ob i)" and "\<And>i. follows (k (ob i)) q Q"
  shows "follows (act_bind m (\<lambda>_. act_bind uuid4 (\<lambda>i. act_bind (act_lift (mk_obligation_release (ob i))) k))) (p @ q) Q"
proof -
  have "act_bind (act_lift (mk_obligation_release (ob i))) k = k (ob i)" for i
    by (simp add: assms(2) act_bind_def act_lift_def)
  then show ?thesis
    using follows_bind [OF assms(1) follows_bind [OF follows_quiet(2) assms(3)]] by simp
qed

lemma follows_loop:
  fixes tr :: "uuid \<Rightarrow> task_status \<Rightarrow> string \<Rightarrow> ('x, unit) act" and em :: "string \<Rightarrow> string \<Rightarrow> payload \<Rightarrow> ('x, unit) act"
  shows "follows (release_loop (\<lambda>i to reason. calling (MoveTask i to reason) (tr i to reason))
      (\<lambda>t a p. calling (EmitEvent t a p) (em t a p)) c now a b rs ts) (concat (map (task_calls c) ts))
      (\<lambda>v. fst v = a + count_in unconsented ts \<and> fst (snd v) = b + count_in consented ts)"
proof (induction ts arbitrary: a b rs)
  case (Cons t ts)
  let ?st = "ts_current_status t" and ?i = "ts_task_id t"
  let ?tr = "\<lambda>i to reason. calling (MoveTask i to reason) (tr i to reason)" and ?em = "\<lambda>t a p. calling (EmitEvent t a p) (em t a p)"
  let ?ob = "\<lambda>k b i. \<lparr>ob_release_id = i, ob_cluster_id = c, ob_task_id = ?i, ob_previous_state = ?st, ob_release_type = k,
    ob_released_at = now, ob_work_preserved = b\<rparr>"
  consider (pre) "?st \<in> unconsented" | (post) "?st \<in> consented"
    | (other) "release_category ?st = None" "?st \<notin> unconsented" "?st \<notin> consented"
    using release_category_iff by (metis not_None_eq release_type.exhaust)
  then show ?case
  proof cases
    case pre
    have "mk_obligation_release (?ob NULLIFIED_ON_EXIT False i) = Inr (?ob NULLIFIED_ON_EXIT False i)" for i
      by (simp add: mk_obligation_release_def)
    note follows_released [OF follows_task(1) [OF pre, of tr em c] this,
        where k = "\<lambda>r. release_loop ?tr ?em c now (a + 1) b (rs @ [r]) ts", OF Cons.IH]
    then show ?thesis
      using release_category_iff(1) [of ?st] pre live_status(1) [OF pre] by (simp add: Let_def add.assoc)
  next
    case post
    have "mk_obligation_release (?ob RELEASED_ON_EXIT True i) = Inr (?ob RELEASED_ON_EXIT True i)" for i
      by (simp add: mk_obligation_release_def)
    note follows_released [OF follows_task(2) [OF post, of tr em c] this,
        where k = "\<lambda>r. release_loop ?tr ?em c now a (b + 1) (rs @ [r]) ts", OF Cons.IH]
    moreover have "?st \<notin> unconsented" using live_status(1) [of ?st] post by blast
    ultimately show ?thesis
      using release_category_iff(2) [of ?st] post live_status(2) [OF post] by (simp add: Let_def add.assoc)
  next
    case other
    then show ?thesis using Cons.IH [of a b rs] by (simp add: Let_def task_calls_def)
  qed
qed (simp add: follows_quiet)

text \<open>What follows the loop.\<close>

definition release_end ::
  "'l exit_emitter \<Rightarrow> uuid \<Rightarrow> datetime \<Rightarrow> int \<Rightarrow> int \<Rightarrow> int \<Rightarrow> ('l world, release_result) act" where
  "release_end emit c now nullified released n =
     act_bind (act_when (n > 0) (emit ''executive.pending_requests.cancelled'' ''system''
       [(''cluster_id'', PyStr (uuid_str c)), (''cancelled_count'', PyInt n)])) (\<lambda>_.
     act_bind (act_lift (mk_release_result \<lparr>rl_cluster_id = c, rl_nullified_count = nullified, rl_released_count = released,
       rl_pending_cancelled = n, rl_total_obligations = nullified + released, rl_released_at = now\<rparr>)) (\<lambda>result.
     act_bind (emit ''custodial.obligations.released'' ''system''
       [(''cluster_id'', PyStr (uuid_str c)), (''nullified_count'', PyInt nullified),
        (''released_count'', PyInt released), (''pending_cancelled'', PyInt n),
        (''total_obligations'', PyInt (rl_total_obligations result)), (''released_at'', PyStr (isoformat now))]) (\<lambda>_.
     act_return result)))"

lemma act_bind_laws:
  "act_bind (act_return x) f = f x" "act_bind (act_bind m g) h = act_bind m (\<lambda>x. act_bind (g x) h)"
  by (auto simp: act_bind_def fun_eq_iff split: prod.splits sum.splits)

lemma release_all_steps:
  "release_all get_tasks tr cancel emit c = act_bind time_now (\<lambda>now. act_bind (get_tasks c) (\<lambda>tasks.
     act_bind (release_loop tr emit c now 0 0 [] tasks) (\<lambda>(k, m, _). act_bind (cancel c) (release_end emit c now k m))))"
  by (simp add: release_all_def cancel_pending_requests_def release_end_def [abs_def] act_bind_laws)

lemma follows_end:
  assumes "0 \<le> n" and "0 \<le> k" and "0 \<le> m"
  shows "follows (release_end (\<lambda>t a p. calling (EmitEvent t a p) (em t a p)) c now k m n)
    (announcements c now k m n)
    (\<lambda>r. r = \<lparr>rl_cluster_id = c, rl_nullified_count = k, rl_released_count = m, rl_pending_cancelled = n,
       rl_total_obligations = k + m, rl_released_at = now\<rparr>)"
proof -
  let ?r = "\<lparr>rl_cluster_id = c, rl_nullified_count = k, rl_released_count = m, rl_pending_cancelled = n,
    rl_total_obligations = k + m, rl_released_at = now\<rparr>"
  have "act_bind (act_lift (mk_release_result ?r)) f = f ?r" for f :: "release_result \<Rightarrow> ('s, release_result) act"
    using assms by (simp add: mk_release_result_def act_bind_def act_lift_def)
  note made = this
  show ?thesis
  proof (cases "0 < n")
    case True
    then show ?thesis
      unfolding release_end_def made act_when_def announcements_def by (simp add: follows_call)
  next
    case False
    then show ?thesis
      unfolding release_end_def made act_when_def announcements_def by (simp add: act_bind_laws follows_call)
  qed
qed

text \<open>
  The exit itself moves no task, whatever its result says was released: it never asks the release service.
\<close>

definition exit_port_quiet :: "'l exit_port \<Rightarrow> 'l exit_emitter \<Rightarrow> bool" where
  "exit_port_quiet port emit \<longleftrightarrow>
     (\<forall>x. framed same_tasks (xp_record_exit_request port x)) \<and> (\<forall>x. framed same_tasks (xp_record_exit_result port x)) \<and>
     (\<forall>c. framed same_tasks (xp_has_cluster_exited port c)) \<and> (\<forall>c. framed same_tasks (xp_get_cluster_active_tasks port c)) \<and>
     (\<forall>t a p. framed same_tasks (emit t a p))"

lemma exit_moves_no_task: "exit_port_quiet port emit \<Longrightarrow> framed same_tasks (initiate_exit port emit float_ms c)"
  unfolding initiate_exit_def Let_def exit_port_quiet_def
  by (auto intro!: same_tasks.framed_intros same_tasks_primitive split: if_splits)

lemma exit_result_counts:
  "act_returns (initiate_exit port emit float_ms c) w (\<lambda>r _. xs_cluster_id r = c \<and> xs_status r = EXIT_COMPLETED \<and>
     xs_round_trips r = 2 \<and> 0 \<le> xs_tasks_affected r \<and> xs_obligations_released r = xs_tasks_affected r)"
  unfolding initiate_exit_def Let_def
  by (intro act_returns_bind_any act_returns_if act_returns_raise act_returns_bind_lift act_returns_return)
    (auto simp: mk_exit_result_def split: if_splits)

text \<open>
  Some of these calls other parts of the repository would not carry out: the lifecycle table has no move of a reported or
  aggregated task to QUARANTINED, and the type of the event about cancelled requests has not the form the ledger's events
  must have.
\<close>

lemma release_against_other_parts:
  "\<not> is_valid_transition REPORTED QUARANTINED" "\<not> is_valid_transition AGGREGATED QUARANTINED"
  "\<not> event_type_pattern ''executive.pending_requests.cancelled''"
  by code_simp+

section \<open>Claim\<close>

text \<open>
  C32: What a release asks of its collaborators, whatever they answer and wherever they raise (the count of cancelled
  requests is not negative). It asks for the tasks, then task by task, in order, has every one without consent nullified
  and every one with consent that is not finished (a reported or aggregated one too) quarantined, each move followed by
  its event; it leaves finished tasks alone, cancels the pending requests, announces that if there were any, and
  announces the release. The first exception ends the request there and is raised; without one it returns the counts.
\<close>

theorem release_all_spec:
  assumes "fst (get_tasks c (fst (w_ledger w))) = Inr tasks" and "\<forall>x k. fst (cancel c x) = Inr k \<longrightarrow> 0 \<le> k"
  shows "\<exists>r w' n calls. logged_release get_tasks tr cancel em c w = (r, w') \<and> exit_log w' = exit_log w @ calls \<and>
    carried_out (release_plan c (w_clock w (w_clock_reads w)) tasks n) calls r \<and>
    ((CancelPending c, None) \<in> set calls \<longrightarrow> (\<exists>x. fst (cancel c x) = Inr n)) \<and>
    (\<forall>result. r = Inr result \<longrightarrow> result = \<lparr>rl_cluster_id = c, rl_nullified_count = count_in unconsented tasks,
       rl_released_count = count_in consented tasks, rl_pending_cancelled = n,
       rl_total_obligations = count_in unconsented tasks + count_in consented tasks,
       rl_released_at = w_clock w (w_clock_reads w)\<rparr>)"
proof -
  let ?now = "w_clock w (w_clock_reads w)" and ?k = "count_in unconsented tasks" and ?m = "count_in consented tasks"
  let ?tr = "\<lambda>i to reason. calling (MoveTask i to reason) (tr i to reason)" and ?em = "\<lambda>t a p. calling (EmitEvent t a p) (em t a p)"
  let ?loop = "release_loop ?tr ?em c ?now 0 0 [] tasks" and ?P = "concat (map (task_calls c) tasks)"
  obtain x where x: "get_tasks c (fst (w_ledger w)) = (Inr tasks, x)" using assms(1) by (metis prod.collapse)
  let ?w1 = "w\<lparr>w_clock_reads := Suc (w_clock_reads w), w_ledger := (x, exit_log w @ [(AskTasks c, None)])\<rparr>"
  have start: "logged_release get_tasks tr cancel em c w = act_bind ?loop (\<lambda>(k, m, _).
      act_bind (calling (CancelPending c) (cancel c)) (release_end ?em c ?now k m)) ?w1"
    unfolding logged_release_def release_all_steps using x by (simp add: act_bind_def calling_def exit_log_def)
  have asked: "carried_out (release_plan c ?now tasks n) ((AskTasks c, None) # calls) r"
    if "carried_out (?P @ CancelPending c # announcements c ?now ?k ?m n) calls r"
    for n calls and r :: "exn + release_result"
    using carried_out_later [OF that, of "[AskTasks c]"] by (simp add: release_plan_def)
  obtain r2 w2 calls where loop: "?loop ?w1 = (r2, w2)" "exit_log w2 = exit_log ?w1 @ calls" "carried_out ?P calls r2"
      "\<forall>v. r2 = Inr v \<longrightarrow> fst v = 0 + ?k \<and> fst (snd v) = 0 + ?m"
    by (rule followsE [OF follows_loop [of tr em c ?now 0 0 "[]" tasks], of ?w1])
  have log1: "exit_log ?w1 = exit_log w @ [(AskTasks c, None)]" by (simp add: exit_log_def)
  show ?thesis
  proof (cases r2)
    case (Inl e)
    have "(CancelPending c, None) \<notin> set calls"
      using carried_out_calls [OF loop(3)] by (force simp: task_calls_def split: if_splits)
    then show ?thesis
      using loop(1,2) Inl asked [OF carried_out_cut [OF loop(3) [unfolded Inl]], of 0] log1 unfolding start
      by (intro exI [of _ "Inl e"] exI [of _ w2] exI [of _ 0] exI [of _ "(AskTasks c, None) # calls"]) simp
  next
    case (Inr v)
    then obtain rs where v: "r2 = Inr (?k, ?m, rs)" using loop(4) Inr by (cases v) auto
    have calls: "calls = map (\<lambda>c. (c, None)) ?P" using loop(3) v by (simp add: carried_out_def)
    obtain r3 y where y: "cancel c (fst (w_ledger w2)) = (r3, y)" by fastforce
    let ?w3 = "w2\<lparr>w_ledger := (y, exit_log w2 @ [(CancelPending c, case r3 of Inl e \<Rightarrow> Some e | Inr _ \<Rightarrow> None)])\<rparr>"
    have run: "logged_release get_tasks tr cancel em c w =
        (case r3 of Inl e \<Rightarrow> (Inl e, ?w3) | Inr n \<Rightarrow> release_end ?em c ?now ?k ?m n ?w3)"
      unfolding start using loop(1) v y by (simp add: act_bind_def calling_def split: sum.splits)
    have log3: "exit_log ?w3 = exit_log w2 @ [(CancelPending c, case r3 of Inl e \<Rightarrow> Some e | Inr _ \<Rightarrow> None)]"
      by (simp add: exit_log_def)
    show ?thesis
    proof (cases r3)
      case (Inl e)
      have made: "carried_out (?P @ CancelPending c # announcements c ?now ?k ?m 0) (calls @ [(CancelPending c, Some e)])
          (Inl e :: exn + release_result)"
        unfolding calls carried_out_def by auto
      have "(CancelPending c, None) \<notin> set calls"
        using carried_out_calls [OF loop(3)] by (force simp: task_calls_def split: if_splits)
      then show ?thesis
        using run Inl loop(2) log1 log3 asked [OF made]
        by (intro exI [of _ "Inl e"] exI [of _ ?w3] exI [of _ 0]
            exI [of _ "(AskTasks c, None) # calls @ [(CancelPending c, Some e)]"]) simp
    next
      case (Inr n)
      have n: "0 \<le> n" "0 \<le> ?k" "0 \<le> ?m" using assms(2) y Inr by (auto simp: count_in_def) (metis fst_conv)
      obtain r w' later where fin: "release_end ?em c ?now ?k ?m n ?w3 = (r, w')" "exit_log w' = exit_log ?w3 @ later"
          "carried_out (announcements c ?now ?k ?m n) later r"
          "\<forall>v. r = Inr v \<longrightarrow> v = \<lparr>rl_cluster_id = c, rl_nullified_count = ?k, rl_released_count = ?m,
             rl_pending_cancelled = n, rl_total_obligations = ?k + ?m, rl_released_at = ?now\<rparr>"
        by (rule followsE [OF follows_end [OF n, of em c ?now], of ?w3])
      have made: "carried_out (?P @ CancelPending c # announcements c ?now ?k ?m n) (calls @ (CancelPending c, None) # later) r"
        using carried_out_later [OF fin(3), of "?P @ [CancelPending c]"] unfolding calls by simp
      have "\<exists>x. fst (cancel c x) = Inr n" using y Inr by (metis fst_conv)
      then show ?thesis
        using run Inr fin(1,2,4) loop(2) log1 log3 asked [OF made]
        by (intro exI [of _ r] exI [of _ w'] exI [of _ n] exI [of _ "(AskTasks c, None) # calls @ (CancelPending c, None) # later"])
          simp
    qed
  qed
qed

definition exit_world :: "(unit \<times> exit_log) world" where
  "exit_world = \<lparr>w_tasks = [], w_ledger = ((), []), w_pending = [], w_clock = \<lambda>_. 5, w_clock_reads = 0,
     w_uuid = word_of_nat, w_uuid_draws = 0\<rparr>"

theorem release_all_spec_witness:
  "\<exists>r w'. logged_release (\<lambda>_. act_return [routed_task]) (\<lambda>_ _ _. act_return ()) (\<lambda>_. act_return 2) (\<lambda>_ _ _. act_return ()) 3
       exit_world = (Inr r, w') \<and>
     rl_nullified_count r = 1 \<and> rl_released_count r = 0 \<and> rl_pending_cancelled r = 2 \<and>
     map fst (exit_log w') = release_plan 3 5 [routed_task] 2"
proof -
  let ?m = "logged_release (\<lambda>_. act_return [routed_task]) (\<lambda>_ _ _. act_return ()) (\<lambda>_. act_return 2) (\<lambda>_ _ _. act_return ()) 3
    exit_world"
  have status: "ts_current_status routed_task = ROUTED" by (simp add: routed_task_def)
  have "\<not> isl (fst ?m)"
    by (simp add: logged_release_def release_all_def act_bind_def calling_def exit_world_def status is_terminal_def
        terminal_states_def nullify_on_exit_def mk_obligation_release_def cancel_pending_requests_def act_when_def
        mk_release_result_def Let_def)
  moreover obtain r w' n calls where *: "?m = (r, w')" "exit_log w' = exit_log exit_world @ calls"
      "carried_out (release_plan 3 (w_clock exit_world (w_clock_reads exit_world)) [routed_task] n) calls r"
      "(CancelPending 3, None) \<in> set calls \<longrightarrow> (\<exists>x :: unit. fst (act_return 2 x) = Inr n)"
      "\<forall>result. r = Inr result \<longrightarrow> result = \<lparr>rl_cluster_id = 3, rl_nullified_count = count_in unconsented [routed_task],
         rl_released_count = count_in consented [routed_task], rl_pending_cancelled = n,
         rl_total_obligations = count_in unconsented [routed_task] + count_in consented [routed_task],
         rl_released_at = w_clock exit_world (w_clock_reads exit_world)\<rparr>"
    using release_all_spec [where get_tasks = "\<lambda>_. act_return [routed_task]" and tr = "\<lambda>_ _ _. act_return ()"
        and cancel = "\<lambda>_. act_return 2" and em = "\<lambda>_ _ _. act_return ()" and w = exit_world and c = 3 and tasks = "[routed_task]"]
    by auto
  ultimately obtain v where v: "r = Inr v" by (cases r) (auto simp: isl_def)
  have "calls = map (\<lambda>c. (c, None)) (release_plan 3 5 [routed_task] n)" using *(3) v by (simp add: carried_out_def exit_world_def)
  then have "n = 2" "map fst calls = release_plan 3 5 [routed_task] n"
    using *(4) by (auto simp: release_plan_def comp_def)
  then show ?thesis
    using * v status by (simp add: exit_log_def exit_world_def unconsented_def consented_def)
qed

end
