(* ===== verification/Cessation.thy ===== *)
theory Cessation
  imports Orphan_Intents
begin

text \<open>
  The end of a system: the trigger of its cessation (\<open>src/application/services/governance/cessation_trigger_service.py\<close>),
  the record of it (\<open>cessation_record_service.py\<close>) and the validation of what wants to follow it
  (\<open>reconstitution_validation_service.py\<close>), with the values of \<open>src/domain/governance/cessation/\<close>. The ports of these
  services have no implementation in the repository: they are arguments, over a state of their own beside the world of
  the emitter. \<open>utcnow()\<close> of the time authority reads the same clock as \<open>now()\<close>.
\<close>

record ('l, 'p) system =
  sy_world :: "'l world"
  sy_ports :: 'p

definition on_world :: "('l world, 'a) act \<Rightarrow> (('l, 'p) system, 'a) act" where
  "on_world m = (\<lambda>s. case m (sy_world s) of (r, w) \<Rightarrow> (r, s\<lparr>sy_world := w\<rparr>))"

definition on_ports :: "('p, 'a) act \<Rightarrow> (('l, 'p) system, 'a) act" where
  "on_ports m = (\<lambda>s. case m (sy_ports s) of (r, p) \<Rightarrow> (r, s\<lparr>sy_ports := p\<rparr>))"

text \<open>
  The three services call \<open>emit_commit\<close> with the keyword \<open>outcome_payload\<close>, which the method of the emitter does not
  have (it is \<open>result_payload\<close> there and in the port), so the call raises before anything happens.
\<close>

type_synonym 'l commit_call = "uuid \<Rightarrow> payload \<Rightarrow> ('l world, unit) act"

definition commit_with_outcome_payload :: "'l commit_call" where
  "commit_with_outcome_payload correlation_id outcome_payload = act_raise (Exn TypeError
     (''TwoPhaseEventEmitter.emit_commit() got an unexpected keyword argument '' @
      [CHR 0x27] @ ''outcome_payload'' @ [CHR 0x27]))"

section \<open>The state of a cessation\<close>

datatype cessation_status = ACTIVE | CESSATION_TRIGGERED | CEASED

fun cessation_status_value :: "cessation_status \<Rightarrow> string" where
  "cessation_status_value ACTIVE = ''active''"
| "cessation_status_value CESSATION_TRIGGERED = ''cessation_triggered''"
| "cessation_status_value CEASED = ''ceased''"

definition allows_new_motions :: "cessation_status \<Rightarrow> bool" where
  "allows_new_motions s = (s = ACTIVE)"

definition allows_execution :: "cessation_status \<Rightarrow> bool" where
  "allows_execution s = (s \<in> {ACTIVE, CESSATION_TRIGGERED})"

fun cessation_transitions :: "cessation_status \<Rightarrow> cessation_status list" where
  "cessation_transitions ACTIVE = [CESSATION_TRIGGERED]"
| "cessation_transitions CESSATION_TRIGGERED = [CEASED]"
| "cessation_transitions CEASED = []"

record cessation_trigger =
  ct_trigger_id :: uuid
  ct_operator_id :: uuid
  ct_triggered_at :: datetime
  ct_reason :: string

definition mk_cessation_trigger :: "cessation_trigger \<Rightarrow> exn + cessation_trigger" where
  "mk_cessation_trigger t =
     (if blank (ct_reason t) then Inl (Exn ValueError ''Cessation reason is required and cannot be empty'') else Inr t)"

record cessation_state =
  cst_status :: cessation_status
  cst_trigger :: "cessation_trigger option"
  cst_motions_blocked :: bool
  cst_execution_halted :: bool
  cst_in_flight_count :: int

definition cessation_active :: cessation_state where
  "cessation_active = \<lparr>cst_status = ACTIVE, cst_trigger = None, cst_motions_blocked = False, cst_execution_halted = False,
     cst_in_flight_count = 0\<rparr>"

definition cessation_triggered :: "cessation_trigger \<Rightarrow> int \<Rightarrow> cessation_state" where
  "cessation_triggered t n = \<lparr>cst_status = CESSATION_TRIGGERED, cst_trigger = Some t, cst_motions_blocked = True,
     cst_execution_halted = False, cst_in_flight_count = n\<rparr>"

definition cessation_ceased :: "cessation_trigger \<Rightarrow> cessation_state" where
  "cessation_ceased t = \<lparr>cst_status = CEASED, cst_trigger = Some t, cst_motions_blocked = True, cst_execution_halted = True,
     cst_in_flight_count = 0\<rparr>"

definition with_in_flight_count :: "cessation_state \<Rightarrow> int \<Rightarrow> cessation_state" where
  "with_in_flight_count s n = s\<lparr>cst_in_flight_count := n\<rparr>"

section \<open>Triggering\<close>

record 'p cessation_ports =
  cp_get_state :: "('p, cessation_state) act"
  cp_record_trigger :: "cessation_trigger \<Rightarrow> ('p, unit) act"
  cp_mark_ceased :: "('p, unit) act"
  cp_update_in_flight_count :: "int \<Rightarrow> ('p, unit) act"
  cp_block_new_motions :: "string \<Rightarrow> ('p, unit) act"
  cp_get_in_flight_count :: "('p, int) act"
  cp_begin_halt :: "string \<Rightarrow> int \<Rightarrow> ('p, unit) act"
  cp_is_halt_complete :: "('p, bool) act"
  cp_force_halt :: "('p, int) act"

definition already_triggered :: "cessation_trigger \<Rightarrow> exn" where
  "already_triggered t = Exn CessationAlreadyTriggeredError (''Cessation already triggered at '' @
     isoformat (ct_triggered_at t) @ '' (trigger_id='' @ uuid_str (ct_trigger_id t) @ '')'')"

text \<open>The body of the \<open>try\<close> block.\<close>

definition carry_out_cessation ::
  "'l commit_call \<Rightarrow> 'p cessation_ports \<Rightarrow> int \<Rightarrow> uuid \<Rightarrow> cessation_trigger \<Rightarrow> (('l, 'p) system, cessation_trigger) act" where
  "carry_out_cessation commit ports grace_period correlation_id trigger =
     act_bind (on_ports (cp_block_new_motions ports ''cessation_triggered'')) (\<lambda>_.
     act_bind (on_ports (cp_get_in_flight_count ports)) (\<lambda>in_flight_count.
     act_bind (on_ports (cp_begin_halt ports (uuid_str (ct_trigger_id trigger)) grace_period)) (\<lambda>_.
     act_bind (on_ports (cp_record_trigger ports trigger)) (\<lambda>_.
     act_bind (on_ports (cp_update_in_flight_count ports in_flight_count)) (\<lambda>_.
     act_bind (on_world (commit correlation_id
       [(''trigger_id'', PyStr (uuid_str (ct_trigger_id trigger))), (''motions_blocked'', PyBool True),
        (''execution_halt_begun'', PyBool True), (''in_flight_count'', PyInt in_flight_count),
        (''grace_period_seconds'', PyInt grace_period)])) (\<lambda>_.
     act_return trigger))))))"

definition trigger_cessation ::
  "'l commit_call \<Rightarrow> (governance_event \<Rightarrow> ('l, persisted_event) act) \<Rightarrow> 'p cessation_ports \<Rightarrow> int \<Rightarrow> uuid \<Rightarrow> string
    \<Rightarrow> (('l, 'p) system, cessation_trigger) act" where
  "trigger_cessation commit append_event ports grace_period operator_id reason =
     act_bind (on_world time_now) (\<lambda>now.
     if blank reason then act_raise (Exn ValueError ''Cessation reason is required and cannot be empty'')
     else
       act_bind (on_ports (cp_get_state ports)) (\<lambda>current_state.
       if cst_status current_state \<noteq> ACTIVE then
         (case cst_trigger current_state of
            None \<Rightarrow> act_bind (on_world uuid4) (\<lambda>_. act_raise (Exn CessationAlreadyTriggeredError
              ''Cessation already in progress but trigger details unavailable''))
          | Some t \<Rightarrow> act_raise (already_triggered t))
       else
         act_bind (on_world uuid4) (\<lambda>trigger_id.
         act_bind (act_lift (mk_cessation_trigger \<lparr>ct_trigger_id = trigger_id, ct_operator_id = operator_id,
           ct_triggered_at = now, ct_reason = py_strip reason\<rparr>)) (\<lambda>trigger.
         act_bind (on_world (emit_intent append_event ''constitutional.cessation.triggered'' (uuid_str operator_id)
           (uuid_str trigger_id)
           [(''trigger_id'', PyStr (uuid_str trigger_id)), (''operator_id'', PyStr (uuid_str operator_id)),
            (''triggered_at'', PyStr (isoformat now)), (''reason'', PyStr (ct_reason trigger))])) (\<lambda>correlation_id.
         act_try (carry_out_cessation commit ports grace_period correlation_id trigger)
           (\<lambda>e. act_bind (on_world (emit_failure append_event correlation_id (exn_str e)
               [(''trigger_id'', PyStr (uuid_str trigger_id)), (''error_type'', PyStr (exn_class_name (exn_kind e)))])) (\<lambda>_.
             act_raise e)))))))"

definition check_and_finalize :: "'p cessation_ports \<Rightarrow> (('l, 'p) system, bool) act" where
  "check_and_finalize ports =
     act_bind (on_ports (cp_get_state ports)) (\<lambda>current_state.
     if cst_status current_state \<noteq> CESSATION_TRIGGERED then act_return (cst_status current_state = CEASED)
     else
       act_bind (on_ports (cp_is_halt_complete ports)) (\<lambda>complete.
       if complete then act_bind (on_ports (cp_mark_ceased ports)) (\<lambda>_. act_return True)
       else
         act_bind (on_ports (cp_get_in_flight_count ports)) (\<lambda>count.
         act_bind (on_ports (cp_update_in_flight_count ports count)) (\<lambda>_. act_return False))))"

definition force_finalize :: "'p cessation_ports \<Rightarrow> (('l, 'p) system, int) act" where
  "force_finalize ports =
     act_bind (on_ports (cp_force_halt ports)) (\<lambda>force_stopped.
     act_bind (on_ports (cp_mark_ceased ports)) (\<lambda>_. act_return force_stopped))"

section \<open>The record\<close>

record system_snapshot =
  sn_active_tasks :: int
  sn_pending_motions :: int
  sn_in_progress_executions :: int
  sn_legitimacy_band :: string
  sn_component_statuses :: "(string, string) dict"
  sn_captured_at :: datetime

record cessation_record =
  cr_record_id :: uuid
  cr_trigger_id :: uuid
  cr_operator_id :: uuid
  cr_created_at :: datetime
  cr_final_ledger_hash :: string
  cr_final_sequence_number :: int
  cr_system_snapshot :: system_snapshot
  cr_interrupted_work_ids :: "uuid list"
  cr_reason :: string

definition mk_cessation_record :: "cessation_record \<Rightarrow> exn + cessation_record" where
  "mk_cessation_record r =
     (if blank (cr_reason r) then Inl (Exn ValueError ''Cessation reason is required and cannot be empty'') else Inr r)"

text \<open>A piece of work in progress: its id, and its type and state where they are given.\<close>

record work_item =
  wi_id :: uuid
  wi_type :: "string option"
  wi_state :: "string option"

record 'p record_ports =
  rp_get_record :: "('p, cessation_record option) act"
  rp_create_record_atomic :: "cessation_record \<Rightarrow> ('p, unit) act"
  rp_get_final_state :: "('p, string \<times> int) act"
  rp_get_in_progress :: "('p, work_item list) act"
  rp_label_interrupted :: "uuid \<Rightarrow> uuid \<Rightarrow> datetime \<Rightarrow> string \<Rightarrow> string \<Rightarrow> ('p, unit) act"
  rp_count_active :: "('p, int) act"
  rp_count_in_progress :: "('p, int) act"
  rp_count_pending :: "('p, int) act"
  rp_get_current_band :: "('p, string) act"
  rp_get_all_statuses :: "('p, (string, string) dict) act"

definition collect_snapshot :: "'p record_ports \<Rightarrow> datetime \<Rightarrow> ('p, system_snapshot) act" where
  "collect_snapshot ports timestamp =
     act_bind (rp_count_active ports) (\<lambda>active_tasks.
     act_bind (rp_count_pending ports) (\<lambda>pending_motions.
     act_bind (rp_count_in_progress ports) (\<lambda>in_progress_executions.
     act_bind (rp_get_current_band ports) (\<lambda>legitimacy_band.
     act_bind (rp_get_all_statuses ports) (\<lambda>component_statuses.
     act_return \<lparr>sn_active_tasks = active_tasks, sn_pending_motions = pending_motions,
       sn_in_progress_executions = in_progress_executions, sn_legitimacy_band = legitimacy_band,
       sn_component_statuses = component_statuses, sn_captured_at = timestamp\<rparr>)))))"

fun label_each :: "'p record_ports \<Rightarrow> uuid \<Rightarrow> datetime \<Rightarrow> work_item list \<Rightarrow> ('p, uuid list) act" where
  "label_each ports record_id timestamp [] = act_return []"
| "label_each ports record_id timestamp (work # works) =
     (let work_type = (case wi_type work of Some t \<Rightarrow> t | None \<Rightarrow> ''unknown'');
          previous_state = (case wi_state work of Some st \<Rightarrow> st | None \<Rightarrow> ''unknown'')
      in act_bind (rp_label_interrupted ports (wi_id work) record_id timestamp previous_state work_type) (\<lambda>_.
         act_bind (label_each ports record_id timestamp works) (\<lambda>interrupted_ids.
         act_return (wi_id work # interrupted_ids))))"

definition label_interrupted_work :: "'p record_ports \<Rightarrow> uuid \<Rightarrow> datetime \<Rightarrow> ('p, uuid list) act" where
  "label_interrupted_work ports record_id timestamp =
     act_bind (rp_get_in_progress ports) (label_each ports record_id timestamp)"

definition record_already_exists :: "uuid \<Rightarrow> exn" where
  "record_already_exists existing_record_id = Exn CessationRecordAlreadyExistsError
     (''Cessation record already exists: '' @ uuid_str existing_record_id @
      ''. Only one cessation record allowed per system instance.'')"

definition record_creation_failed :: "exn \<Rightarrow> exn" where
  "record_creation_failed e = Exn CessationRecordCreationError (''Failed to create cessation record: '' @ exn_str e)"

definition write_record ::
  "'l commit_call \<Rightarrow> 'p record_ports \<Rightarrow> uuid \<Rightarrow> uuid \<Rightarrow> datetime \<Rightarrow> cessation_trigger \<Rightarrow> (('l, 'p) system, cessation_record) act" where
  "write_record commit ports correlation_id record_id now trigger =
     act_bind (on_ports (collect_snapshot ports now)) (\<lambda>snapshot.
     act_bind (on_ports (rp_get_final_state ports)) (\<lambda>(final_hash, final_seq).
     act_bind (on_ports (label_interrupted_work ports record_id now)) (\<lambda>interrupted_ids.
     act_bind (act_lift (mk_cessation_record \<lparr>cr_record_id = record_id, cr_trigger_id = ct_trigger_id trigger,
       cr_operator_id = ct_operator_id trigger, cr_created_at = now, cr_final_ledger_hash = final_hash,
       cr_final_sequence_number = final_seq, cr_system_snapshot = snapshot, cr_interrupted_work_ids = interrupted_ids,
       cr_reason = ct_reason trigger\<rparr>)) (\<lambda>r.
     act_bind (on_ports (rp_create_record_atomic ports r)) (\<lambda>_.
     act_bind (on_world (commit correlation_id
       [(''record_id'', PyStr (uuid_str (cr_record_id r))), (''trigger_id'', PyStr (uuid_str (ct_trigger_id trigger))),
        (''final_ledger_hash'', PyStr final_hash), (''final_sequence_number'', PyInt final_seq),
        (''interrupted_work_count'', PyInt (int (length interrupted_ids)))])) (\<lambda>_.
     act_return r))))))"

definition create_record ::
  "'l commit_call \<Rightarrow> (governance_event \<Rightarrow> ('l, persisted_event) act) \<Rightarrow> 'p record_ports \<Rightarrow> cessation_trigger
    \<Rightarrow> (('l, 'p) system, cessation_record) act" where
  "create_record commit append_event ports trigger =
     act_bind (on_world time_now) (\<lambda>now.
     act_bind (on_world uuid4) (\<lambda>record_id.
     act_bind (on_ports (rp_get_record ports)) (\<lambda>existing.
     case existing of
       Some r \<Rightarrow> act_raise (record_already_exists (cr_record_id r))
     | None \<Rightarrow>
         act_bind (on_world (emit_intent append_event ''constitutional.cessation.record_created''
           (uuid_str (ct_operator_id trigger)) (uuid_str record_id)
           [(''record_id'', PyStr (uuid_str record_id)), (''trigger_id'', PyStr (uuid_str (ct_trigger_id trigger))),
            (''operator_id'', PyStr (uuid_str (ct_operator_id trigger))), (''created_at'', PyStr (isoformat now))])) (\<lambda>correlation_id.
         act_try (write_record commit ports correlation_id record_id now trigger) (\<lambda>e.
           if exn_kind e = CessationRecordAlreadyExistsError then act_raise e
           else
             act_bind (on_world (emit_failure append_event correlation_id (exn_str e)
               [(''record_id'', PyStr (uuid_str record_id)), (''trigger_id'', PyStr (uuid_str (ct_trigger_id trigger))),
                (''error_type'', PyStr (exn_class_name (exn_kind e)))])) (\<lambda>_.
             act_raise (record_creation_failed e)))))))"

section \<open>Reconstitution\<close>

datatype validation_status = VALID | REJECTED

datatype rejection_reason = CONTINUITY_CLAIM | LEGITIMACY_INHERITANCE | MISSING_CESSATION_REFERENCE | INVALID_ARTIFACT_STRUCTURE

fun rejection_reason_value :: "rejection_reason \<Rightarrow> string" where
  "rejection_reason_value CONTINUITY_CLAIM = ''continuity_claim''"
| "rejection_reason_value LEGITIMACY_INHERITANCE = ''legitimacy_inheritance''"
| "rejection_reason_value MISSING_CESSATION_REFERENCE = ''missing_cessation_reference''"
| "rejection_reason_value INVALID_ARTIFACT_STRUCTURE = ''invalid_artifact_structure''"

fun rejection_message :: "rejection_reason \<Rightarrow> string" where
  "rejection_message CONTINUITY_CLAIM = ''New instance cannot claim continuity with ceased system. Each system instance is a distinct constitutional entity.''"
| "rejection_message LEGITIMACY_INHERITANCE = ''New instance cannot inherit legitimacy from previous instance. Legitimacy must be earned through operation, not claimed.''"
| "rejection_message MISSING_CESSATION_REFERENCE = ''Reconstitution artifact must reference the cessation record of the previous instance to acknowledge its end.''"
| "rejection_message INVALID_ARTIFACT_STRUCTURE = ''Reconstitution artifact has invalid structure. All required fields must be present and valid.''"

record reconstitution_artifact =
  ra_artifact_id :: uuid
  ra_cessation_record_id :: "uuid option"
  ra_proposed_legitimacy_band :: string
  ra_claims_continuity :: bool
  ra_proposed_at :: datetime
  ra_proposer_id :: uuid

record validation_result =
  vl_artifact_id :: uuid
  vl_status :: validation_status
  vl_rejection_reasons :: "rejection_reason list"
  vl_rejection_messages :: "string list"
  vl_validated_at :: datetime

definition baseline_legitimacy_band :: string where
  "baseline_legitimacy_band = ''STABLE''"

text \<open>The three checks, with the reasons and messages they append. The record is only asked for when it is referenced.\<close>

definition artifact_rejections :: "reconstitution_artifact \<Rightarrow> cessation_record option \<Rightarrow> (rejection_reason \<times> string) list" where
  "artifact_rejections artifact existing =
     (if ra_claims_continuity artifact then [(CONTINUITY_CLAIM, rejection_message CONTINUITY_CLAIM)] else []) @
     (if ra_proposed_legitimacy_band artifact \<noteq> baseline_legitimacy_band
      then [(LEGITIMACY_INHERITANCE, rejection_message LEGITIMACY_INHERITANCE)] else []) @
     (case ra_cessation_record_id artifact of
        None \<Rightarrow> [(MISSING_CESSATION_REFERENCE, rejection_message MISSING_CESSATION_REFERENCE)]
      | Some i \<Rightarrow>
          if (case existing of None \<Rightarrow> True | Some r \<Rightarrow> cr_record_id r \<noteq> i)
          then [(MISSING_CESSATION_REFERENCE, ''Referenced cessation record does not exist.'')] else [])"

definition validate_artifact ::
  "'l commit_call \<Rightarrow> (governance_event \<Rightarrow> ('l, persisted_event) act) \<Rightarrow> ('p, cessation_record option) act
    \<Rightarrow> (validation_result \<Rightarrow> ('p, unit) act) \<Rightarrow> reconstitution_artifact \<Rightarrow> (('l, 'p) system, validation_result) act" where
  "validate_artifact commit append_event get_record store_validation_result artifact =
     act_bind (on_world time_now) (\<lambda>now.
     act_bind (on_world (emit_intent append_event ''constitutional.reconstitution.validated''
       (uuid_str (ra_proposer_id artifact)) (uuid_str (ra_artifact_id artifact))
       [(''artifact_id'', PyStr (uuid_str (ra_artifact_id artifact))),
        (''proposed_legitimacy_band'', PyStr (ra_proposed_legitimacy_band artifact)),
        (''claims_continuity'', PyBool (ra_claims_continuity artifact)),
        (''proposed_at'', PyStr (isoformat (ra_proposed_at artifact)))])) (\<lambda>correlation_id.
     act_bind (if ra_cessation_record_id artifact = None then act_return None else on_ports get_record) (\<lambda>existing.
     let rejections = artifact_rejections artifact existing;
         status = (if rejections = [] then VALID else REJECTED);
         result = \<lparr>vl_artifact_id = ra_artifact_id artifact, vl_status = status, vl_rejection_reasons = map fst rejections,
           vl_rejection_messages = map snd rejections, vl_validated_at = now\<rparr>
     in act_bind (on_ports (store_validation_result result)) (\<lambda>_.
        act_bind (on_world (commit correlation_id
          [(''artifact_id'', PyStr (uuid_str (ra_artifact_id artifact))),
           (''status'', PyStr (if status = VALID then ''valid'' else ''rejected'')),
           (''rejection_count'', PyInt (int (length rejections))),
           (''rejection_reasons'', PyList (map (\<lambda>r. PyStr (rejection_reason_value (fst r))) rejections)),
           (''validated_at'', PyStr (isoformat now))])) (\<lambda>_.
        act_return result)))))"

section \<open>The emitter over the ledger in memory\<close>

lemma blank_py_strip: "blank (py_strip s) \<longleftrightarrow> blank s"
proof
  assume *: "blank (py_strip s)"
  show "blank s"
  proof (rule ccontr)
    let ?r = "dropWhile is_py_space (rev (dropWhile is_py_space s))"
    assume "\<not> blank s"
    then have "?r \<noteq> []" by (simp add: blank_def py_strip_def)
    then have space: "\<not> is_py_space (hd ?r)" and "hd ?r \<in> set ?r" by (rule hd_dropWhile, rule hd_in_set)
    then have "hd ?r \<in> set (py_strip s)" unfolding py_strip_def set_rev by blast
    then show False using * space unfolding blank_iff by blast
  qed
next
  assume "blank s"
  then have "py_strip s = []" by (simp add: blank_def)
  then show "blank (py_strip s)" by (simp add: blank_iff)
qed

lemma emit_intent_memory:
  assumes "memory_inv (w_ledger w)" and "op_ok op" and "\<not> blank a" and "\<not> blank tgt"
  shows "\<exists>w' p f. emit_intent memory_append_event op a tgt pl w = (Inr (w_uuid w (w_uuid_draws w)), w') \<and>
    memory_inv (w_ledger w') \<and> w_pending w' = dict_set (w_uuid w (w_uuid_draws w)) p (w_pending w) \<and>
    pi_operation_type p = op \<and> pi_actor_id p = a \<and> ml_events (w_ledger w') = ml_events (w_ledger w) @ [f] \<and>
    ge_event_type (pe_event f) = first_segment op @ ''.intent.emitted''"
  using memory.append_success [OF assms(1) memory_append [OF assms(1)]]
  by (auto simp: emit_intent_run [OF assms(2-4)] memory_append [OF assms(1)] intent_event_def ge_accessors)

lemma emit_failure_memory:
  assumes "memory_inv (w_ledger w)" and "dict_get (w_pending w) cid = Some p" and "op_ok (pi_operation_type p)"
    and "\<not> blank (pi_actor_id p)" and "\<not> blank reason"
  shows "\<exists>w' f. emit_failure memory_append_event cid reason details w = (Inr (), w') \<and> memory_inv (w_ledger w') \<and>
    w_pending w' = dict_del cid (w_pending w) \<and> ml_events (w_ledger w') = ml_events (w_ledger w) @ [f] \<and>
    ge_event_type (pe_event f) = first_segment (pi_operation_type p) @ ''.failure.recorded''"
  using memory.append_success [OF assms(1) memory_append [OF assms(1)]]
  by (auto simp: emit_failure_run [OF assms(2-5)] memory_append [OF assms(1)] outcome_event_def ge_accessors)

text \<open>An intent whose body only raises is closed by one failure, and the registry is as before.\<close>

lemma announced_and_failed:
  assumes "memory_inv (w_ledger w)" and "op_ok op" and "\<not> blank a" and "\<not> blank tgt"
    and "dict_get (w_pending w) (w_uuid w (w_uuid_draws w)) = None"
  shows "\<exists>w2 f. emit_intent memory_append_event op a tgt pl w = (Inr (w_uuid w (w_uuid_draws w)), w2) \<and>
    ge_event_type (pe_event f) = first_segment op @ ''.intent.emitted'' \<and>
    (\<forall>reason details. \<not> blank reason \<longrightarrow>
      (\<exists>w3 g. emit_failure memory_append_event (w_uuid w (w_uuid_draws w)) reason details w2 = (Inr (), w3) \<and>
         w_pending w3 = w_pending w \<and> ml_events (w_ledger w3) = ml_events (w_ledger w) @ [f, g] \<and>
         ge_event_type (pe_event g) = first_segment op @ ''.failure.recorded''))"
proof -
  let ?cid = "w_uuid w (w_uuid_draws w)"
  obtain w2 p f where w2: "emit_intent memory_append_event op a tgt pl w = (Inr ?cid, w2)" "memory_inv (w_ledger w2)"
      "w_pending w2 = dict_set ?cid p (w_pending w)" "pi_operation_type p = op" "pi_actor_id p = a"
      "ml_events (w_ledger w2) = ml_events (w_ledger w) @ [f]"
      "ge_event_type (pe_event f) = first_segment op @ ''.intent.emitted''"
    using emit_intent_memory [OF assms(1-4), of pl] by blast
  have lookup: "dict_get (w_pending w2) ?cid = Some p" using w2(3) by simp
  have ops: "op_ok (pi_operation_type p)" "\<not> blank (pi_actor_id p)" using w2(4,5) assms(2,3) by simp_all
  have restored: "dict_del ?cid (w_pending w2) = w_pending w" using w2(3) dict_del_set_fresh [OF assms(5)] by simp
  show ?thesis
    using w2(1,4,6,7) emit_failure_memory [OF w2(2) lookup ops] restored
    by (intro exI [of _ w2] exI [of _ f]) fastforce
qed

lemma cessation_ops_ok: "op_ok ''constitutional.cessation.triggered''" "op_ok ''constitutional.cessation.record_created''"
    "op_ok ''constitutional.reconstitution.validated''"
  by code_simp+

lemma commit_call_raises:
  "\<exists>m. commit_with_outcome_payload cid payload w = (Inl (Exn TypeError m), w) \<and> \<not> blank m"
  by (simp add: commit_with_outcome_payload_def act_raise_def blank_iff is_py_space_def)

section \<open>A cessation over lawful ports\<close>

text \<open>What the ports promise; \<open>st\<close> is the state they keep.\<close>

definition lawful_cessation :: "('p \<Rightarrow> cessation_state) \<Rightarrow> 'p cessation_ports \<Rightarrow> bool" where
  "lawful_cessation st ports \<longleftrightarrow>
     (\<forall>p. cp_get_state ports p = (Inr (st p), p)) \<and>
     (\<forall>reason p. \<exists>p'. cp_block_new_motions ports reason p = (Inr (), p') \<and> st p' = st p) \<and>
     (\<forall>p. \<exists>n p'. cp_get_in_flight_count ports p = (Inr n, p') \<and> st p' = st p) \<and>
     (\<forall>i n p. \<exists>p'. cp_begin_halt ports i n p = (Inr (), p') \<and> st p' = st p) \<and>
     (\<forall>t p. cst_status (st p) = ACTIVE \<longrightarrow>
        (\<exists>p'. cp_record_trigger ports t p = (Inr (), p') \<and> cst_status (st p') = CESSATION_TRIGGERED \<and> cst_trigger (st p') = Some t)) \<and>
     (\<forall>n p. \<exists>p'. cp_update_in_flight_count ports n p = (Inr (), p') \<and> st p' = with_in_flight_count (st p) n)"

lemma carry_out_cessation_raises:
  assumes "lawful_cessation st ports" and "cst_status (st (sy_ports s)) = ACTIVE"
  shows "\<exists>m p'. carry_out_cessation commit_with_outcome_payload ports grace cid t s =
      (Inl (Exn TypeError m), s\<lparr>sy_ports := p'\<rparr>) \<and> \<not> blank m \<and>
    cst_status (st p') = CESSATION_TRIGGERED \<and> cst_trigger (st p') = Some t"
proof -
  note law = assms(1) [unfolded lawful_cessation_def]
  obtain p1 where p1: "cp_block_new_motions ports ''cessation_triggered'' (sy_ports s) = (Inr (), p1)" "st p1 = st (sy_ports s)"
    using law by blast
  obtain n p2 where p2: "cp_get_in_flight_count ports p1 = (Inr n, p2)" "st p2 = st p1" using law by blast
  obtain p3 where p3: "cp_begin_halt ports (uuid_str (ct_trigger_id t)) grace p2 = (Inr (), p3)" "st p3 = st p2" using law by blast
  have "cst_status (st p3) = ACTIVE" using assms(2) p1(2) p2(2) p3(2) by simp
  then obtain p4 where p4: "cp_record_trigger ports t p3 = (Inr (), p4)" "cst_status (st p4) = CESSATION_TRIGGERED"
      "cst_trigger (st p4) = Some t" using law by blast
  obtain p5 where p5: "cp_update_in_flight_count ports n p4 = (Inr (), p5)" "st p5 = with_in_flight_count (st p4) n"
    using law by blast
  obtain m where m: "commit_with_outcome_payload cid
       [(''trigger_id'', PyStr (uuid_str (ct_trigger_id t))), (''motions_blocked'', PyBool True),
        (''execution_halt_begun'', PyBool True), (''in_flight_count'', PyInt n), (''grace_period_seconds'', PyInt grace)] (sy_world s) =
      (Inl (Exn TypeError m), sy_world s)" "\<not> blank m"
    using commit_call_raises by blast
  show ?thesis
    using p1 p2 p3 p4 p5 m
    by (intro exI [of _ m] exI [of _ p5])
      (simp add: carry_out_cessation_def act_bind_def on_ports_def on_world_def with_in_flight_count_def)
qed

lemma trigger_refused:
  assumes "lawful_cessation st ports" and "cst_status (st (sy_ports s)) \<noteq> ACTIVE" and "cst_trigger (st (sy_ports s)) = Some t"
    and "\<not> blank reason"
  shows "trigger_cessation commit append_event ports grace operator_id reason s =
    (Inl (already_triggered t), s\<lparr>sy_world := (sy_world s)\<lparr>w_clock_reads := w_clock_reads (sy_world s) + 1\<rparr>\<rparr>)"
  using assms by (simp add: trigger_cessation_def act_bind_def on_world_def on_ports_def lawful_cessation_def act_raise_def)

section \<open>The record over lawful ports\<close>

text \<open>\<open>kept\<close> is the record the port holds; it takes one when it holds none.\<close>

definition lawful_record :: "('p \<Rightarrow> cessation_record option) \<Rightarrow> 'p record_ports \<Rightarrow> bool" where
  "lawful_record kept ports \<longleftrightarrow>
     (\<forall>p. rp_get_record ports p = (Inr (kept p), p)) \<and>
     (\<forall>r p. kept p = None \<longrightarrow> (\<exists>p'. rp_create_record_atomic ports r p = (Inr (), p') \<and> kept p' = Some r)) \<and>
     (\<forall>p. \<exists>x p'. rp_get_final_state ports p = (Inr x, p') \<and> kept p' = kept p) \<and>
     (\<forall>p. \<exists>x p'. rp_get_in_progress ports p = (Inr x, p') \<and> kept p' = kept p) \<and>
     (\<forall>i j t st ty p. \<exists>p'. rp_label_interrupted ports i j t st ty p = (Inr (), p') \<and> kept p' = kept p) \<and>
     (\<forall>now p. \<exists>x p'. collect_snapshot ports now p = (Inr x, p') \<and> kept p' = kept p)"

lemma label_each_lawful:
  assumes "lawful_record kept ports"
  shows "\<exists>p'. label_each ports i now works p = (Inr (map wi_id works), p') \<and> kept p' = kept p"
proof (induction works arbitrary: p)
  case Nil
  then show ?case by (simp add: act_return_def)
next
  case (Cons work works)
  obtain p1 where p1: "rp_label_interrupted ports (wi_id work) i now (case wi_state work of Some st \<Rightarrow> st | None \<Rightarrow> ''unknown'')
      (case wi_type work of Some t \<Rightarrow> t | None \<Rightarrow> ''unknown'') p = (Inr (), p1)" "kept p1 = kept p"
    using assms unfolding lawful_record_def by blast
  obtain p2 where "label_each ports i now works p1 = (Inr (map wi_id works), p2)" "kept p2 = kept p1" using Cons.IH by blast
  then show ?case using p1 by (intro exI [of _ p2]) (simp add: act_bind_def act_return_def)
qed

lemma write_record_raises:
  assumes "lawful_record kept ports" and "kept (sy_ports s) = None" and "\<not> blank (ct_reason t)"
  shows "\<exists>m p' r. write_record commit_with_outcome_payload ports cid rid now t s = (Inl (Exn TypeError m), s\<lparr>sy_ports := p'\<rparr>) \<and>
    kept p' = Some r \<and> cr_record_id r = rid \<and> cr_trigger_id r = ct_trigger_id t \<and> cr_reason r = ct_reason t \<and> \<not> blank m"
proof -
  note law = assms(1) [unfolded lawful_record_def]
  obtain sn p1 where p1: "collect_snapshot ports now (sy_ports s) = (Inr sn, p1)" "kept p1 = kept (sy_ports s)" using law by blast
  obtain x p2 where p2: "rp_get_final_state ports p1 = (Inr x, p2)" "kept p2 = kept p1" using law by blast
  obtain h q where x: "x = (h, q)" by fastforce
  obtain ws p3 where p3: "rp_get_in_progress ports p2 = (Inr ws, p3)" "kept p3 = kept p2" using law by blast
  obtain p4 where p4: "label_each ports rid now ws p3 = (Inr (map wi_id ws), p4)" "kept p4 = kept p3"
    using label_each_lawful [OF assms(1)] by blast
  let ?r = "\<lparr>cr_record_id = rid, cr_trigger_id = ct_trigger_id t, cr_operator_id = ct_operator_id t, cr_created_at = now,
    cr_final_ledger_hash = h, cr_final_sequence_number = q, cr_system_snapshot = sn, cr_interrupted_work_ids = map wi_id ws,
    cr_reason = ct_reason t\<rparr>"
  have "kept p4 = None" using assms(2) p1(2) p2(2) p3(2) p4(2) by simp
  then obtain p5 where p5: "rp_create_record_atomic ports ?r p4 = (Inr (), p5)" "kept p5 = Some ?r" using law by blast
  let ?pl = "[(''record_id'', PyStr (uuid_str rid)), (''trigger_id'', PyStr (uuid_str (ct_trigger_id t))),
        (''final_ledger_hash'', PyStr h), (''final_sequence_number'', PyInt q),
        (''interrupted_work_count'', PyInt (int (length ws)))]"
  obtain m where m: "commit_with_outcome_payload cid ?pl (sy_world s) = (Inl (Exn TypeError m), sy_world s)" "\<not> blank m"
    using commit_call_raises by blast
  show ?thesis
    using p1 p2 x p3 p4 p5 m assms(3)
    by (intro exI [of _ m] exI [of _ p5] exI [of _ ?r])
      (simp add: write_record_def label_interrupted_work_def act_bind_def on_ports_def on_world_def mk_cessation_record_def)
qed

lemma create_record_refused:
  assumes "lawful_record kept ports" and "kept (sy_ports s) = Some r"
  shows "fst (create_record commit append_event ports t s) = Inl (record_already_exists (cr_record_id r))"
  using assms by (simp add: create_record_def act_bind_def on_world_def on_ports_def lawful_record_def act_raise_def)

section \<open>What a reconstitution needs\<close>

lemma artifact_valid_iff:
  "artifact_rejections artifact existing = [] \<longleftrightarrow>
     \<not> ra_claims_continuity artifact \<and> ra_proposed_legitimacy_band artifact = ''STABLE'' \<and>
     (\<exists>r. existing = Some r \<and> ra_cessation_record_id artifact = Some (cr_record_id r))"
  by (auto simp: artifact_rejections_def baseline_legitimacy_band_def split: option.splits)

text \<open>The name of the baseline is that of the member of the enum; its value, which artifacts of the system carry, is refused.\<close>

lemma band_value_rejected:
  "ra_proposed_legitimacy_band artifact = ''stable'' \<Longrightarrow> artifact_rejections artifact existing \<noteq> []"
  by (simp add: artifact_valid_iff)

section \<open>Claims\<close>

text \<open>
  C33: a cessation happens and is reported as failed. On an active system with lawful ports and the emitter of the
  repository, a request with a reason triggers the cessation, for good; but it raises \<open>TypeError\<close>, the ledger holds its
  intent and a failure, and every later request is told that cessation was already triggered.
\<close>

theorem cessation_reported_failed:
  assumes "lawful_cessation st ports" and "memory_inv (w_ledger (sy_world s))" and "cst_status (st (sy_ports s)) = ACTIVE"
    and "\<not> blank reason"
    and "dict_get (w_pending (sy_world s)) (w_uuid (sy_world s) (w_uuid_draws (sy_world s) + 1)) = None"
  shows "\<exists>m s' t intent failure. trigger_cessation commit_with_outcome_payload memory_append_event ports grace operator_id reason s =
      (Inl (Exn TypeError m), s') \<and>
    cst_status (st (sy_ports s')) = CESSATION_TRIGGERED \<and> cst_trigger (st (sy_ports s')) = Some t \<and>
    ct_operator_id t = operator_id \<and> ct_reason t = py_strip reason \<and> w_pending (sy_world s') = w_pending (sy_world s) \<and>
    ml_events (w_ledger (sy_world s')) = ml_events (w_ledger (sy_world s)) @ [intent, failure] \<and>
    ge_event_type (pe_event intent) = ''constitutional.intent.emitted'' \<and>
    ge_event_type (pe_event failure) = ''constitutional.failure.recorded'' \<and>
    (\<forall>i reason'. \<not> blank reason' \<longrightarrow>
       fst (trigger_cessation commit_with_outcome_payload memory_append_event ports grace i reason' s') = Inl (already_triggered t))"
proof -
  let ?w = "sy_world s"
  let ?id = "w_uuid ?w (w_uuid_draws ?w)" and ?now = "w_clock ?w (w_clock_reads ?w)"
  let ?w1 = "?w\<lparr>w_clock_reads := Suc (w_clock_reads ?w), w_uuid_draws := Suc (w_uuid_draws ?w)\<rparr>"
  let ?cid = "w_uuid ?w (Suc (w_uuid_draws ?w))"
  let ?t = "\<lparr>ct_trigger_id = ?id, ct_operator_id = operator_id, ct_triggered_at = ?now, ct_reason = py_strip reason\<rparr>"
  let ?pl = "[(''trigger_id'', PyStr (uuid_str ?id)), (''operator_id'', PyStr (uuid_str operator_id)),
      (''triggered_at'', PyStr (isoformat ?now)), (''reason'', PyStr (py_strip reason))]"
  have "memory_inv (w_ledger ?w1)" "dict_get (w_pending ?w1) (w_uuid ?w1 (w_uuid_draws ?w1)) = None" using assms(2,5) by simp_all
  from announced_and_failed [OF this(1) cessation_ops_ok(1) uuid_str_nonblank uuid_str_nonblank this(2), of operator_id ?id ?pl]
  obtain w2 f where intent: "emit_intent memory_append_event ''constitutional.cessation.triggered'' (uuid_str operator_id)
        (uuid_str ?id) ?pl ?w1 = (Inr ?cid, w2)"
      "ge_event_type (pe_event f) = first_segment ''constitutional.cessation.triggered'' @ ''.intent.emitted''"
    and fails: "\<And>reason details. \<not> blank reason \<Longrightarrow>
      \<exists>w3 g. emit_failure memory_append_event ?cid reason details w2 = (Inr (), w3) \<and>
         w_pending w3 = w_pending ?w \<and> ml_events (w_ledger w3) = ml_events (w_ledger ?w) @ [f, g] \<and>
         ge_event_type (pe_event g) = first_segment ''constitutional.cessation.triggered'' @ ''.failure.recorded''"
    by auto
  obtain m p' where body: "carry_out_cessation commit_with_outcome_payload ports grace ?cid ?t (s\<lparr>sy_world := w2\<rparr>) =
      (Inl (Exn TypeError m), s\<lparr>sy_world := w2, sy_ports := p'\<rparr>)" "\<not> blank m"
      "cst_status (st p') = CESSATION_TRIGGERED" "cst_trigger (st p') = Some ?t"
    using carry_out_cessation_raises [OF assms(1), of "s\<lparr>sy_world := w2\<rparr>" grace ?cid ?t] assms(3) by auto
  let ?details = "[(''trigger_id'', PyStr (uuid_str ?id)), (''error_type'', PyStr ''TypeError'')]"
  obtain w3 g where failure: "emit_failure memory_append_event ?cid m ?details w2 = (Inr (), w3)" "w_pending w3 = w_pending ?w"
      "ml_events (w_ledger w3) = ml_events (w_ledger ?w) @ [f, g]"
      "ge_event_type (pe_event g) = first_segment ''constitutional.cessation.triggered'' @ ''.failure.recorded''"
    using fails [OF body(2), of ?details] by blast
  let ?s' = "s\<lparr>sy_world := w3, sy_ports := p'\<rparr>"
  have state: "cp_get_state ports (sy_ports s) = (Inr (st (sy_ports s)), sy_ports s)"
    using assms(1) by (simp add: lawful_cessation_def)
  have run: "trigger_cessation commit_with_outcome_payload memory_append_event ports grace operator_id reason s =
      (Inl (Exn TypeError m), ?s')"
    using state assms(3,4) intent(1) body(1) failure(1)
    by (simp add: trigger_cessation_def act_bind_def act_try_def on_world_def on_ports_def mk_cessation_trigger_def
        blank_py_strip act_raise_def)
  have "first_segment ''constitutional.cessation.triggered'' = ''constitutional''" by code_simp
  moreover have "fst (trigger_cessation commit_with_outcome_payload memory_append_event ports grace i reason' ?s') =
      Inl (already_triggered ?t)" if "\<not> blank reason'" for i reason'
    using trigger_refused [OF assms(1), of ?s' ?t reason'] body(3,4) that by simp
  ultimately show ?thesis
    using run body(3,4) intent(2) failure(2-4)
    by (intro exI [of _ m] exI [of _ ?s'] exI [of _ ?t] exI [of _ f] exI [of _ g]) simp
qed

theorem cessation_reported_failed_witness:
  "\<exists>(ports :: cessation_state cessation_ports) m s'.
     trigger_cessation commit_with_outcome_payload memory_append_event ports 60 3 ''end''
       \<lparr>sy_world = example_world [] 5, sy_ports = cessation_active\<rparr> = (Inl (Exn TypeError m), s') \<and>
     cst_status (sy_ports s') = CESSATION_TRIGGERED"
proof -
  let ?ports = "\<lparr>cp_get_state = (\<lambda>p. (Inr p, p)), cp_record_trigger = (\<lambda>t p. (Inr (), cessation_triggered t 0)),
    cp_mark_ceased = (\<lambda>p. (Inr (), p\<lparr>cst_status := CEASED\<rparr>)),
    cp_update_in_flight_count = (\<lambda>n p. (Inr (), with_in_flight_count p n)),
    cp_block_new_motions = (\<lambda>_ p. (Inr (), p)), cp_get_in_flight_count = (\<lambda>p. (Inr 2, p)),
    cp_begin_halt = (\<lambda>_ _ p. (Inr (), p)), cp_is_halt_complete = (\<lambda>p. (Inr True, p)), cp_force_halt = (\<lambda>p. (Inr 0, p))\<rparr>"
  let ?s = "\<lparr>sy_world = example_world [] 5, sy_ports = cessation_active\<rparr>"
  have law: "lawful_cessation (\<lambda>p. p) ?ports" by (simp add: lawful_cessation_def cessation_triggered_def)
  have s: "memory_inv (w_ledger (sy_world ?s))" "cst_status (sy_ports ?s) = ACTIVE" "\<not> blank ''end''"
    "dict_get (w_pending (sy_world ?s)) (w_uuid (sy_world ?s) (w_uuid_draws (sy_world ?s) + 1)) = None"
    by (simp_all add: example_world_def cessation_active_def blank_iff is_py_space_def dict_get_def)
  show ?thesis using cessation_reported_failed [OF law s, of 60 3] by (intro exI [of _ ?ports]) blast
qed

text \<open>
  The record of a cessation is kept and reported as not created. Over lawful ports and the emitter of the repository,
  the first request to record a cessation keeps a record of it; but it raises \<open>CessationRecordCreationError\<close>, the
  ledger holds its intent and a failure, and every later request is told that the record already exists.
\<close>

theorem record_reported_failed:
  assumes "lawful_record kept ports" and "memory_inv (w_ledger (sy_world s))" and "kept (sy_ports s) = None"
    and "\<not> blank (ct_reason t)"
    and "dict_get (w_pending (sy_world s)) (w_uuid (sy_world s) (w_uuid_draws (sy_world s) + 1)) = None"
  shows "\<exists>m s' r intent failure. create_record commit_with_outcome_payload memory_append_event ports t s =
      (Inl (Exn CessationRecordCreationError m), s') \<and>
    kept (sy_ports s') = Some r \<and> cr_trigger_id r = ct_trigger_id t \<and> cr_reason r = ct_reason t \<and>
    w_pending (sy_world s') = w_pending (sy_world s) \<and>
    ml_events (w_ledger (sy_world s')) = ml_events (w_ledger (sy_world s)) @ [intent, failure] \<and>
    ge_event_type (pe_event intent) = ''constitutional.intent.emitted'' \<and>
    ge_event_type (pe_event failure) = ''constitutional.failure.recorded'' \<and>
    (\<forall>u. fst (create_record commit_with_outcome_payload memory_append_event ports u s') = Inl (record_already_exists (cr_record_id r)))"
proof -
  let ?w = "sy_world s"
  let ?id = "w_uuid ?w (w_uuid_draws ?w)" and ?now = "w_clock ?w (w_clock_reads ?w)"
  let ?w1 = "?w\<lparr>w_clock_reads := Suc (w_clock_reads ?w), w_uuid_draws := Suc (w_uuid_draws ?w)\<rparr>"
  let ?cid = "w_uuid ?w (Suc (w_uuid_draws ?w))"
  let ?pl = "[(''record_id'', PyStr (uuid_str ?id)), (''trigger_id'', PyStr (uuid_str (ct_trigger_id t))),
      (''operator_id'', PyStr (uuid_str (ct_operator_id t))), (''created_at'', PyStr (isoformat ?now))]"
  have "memory_inv (w_ledger ?w1)" "dict_get (w_pending ?w1) (w_uuid ?w1 (w_uuid_draws ?w1)) = None" using assms(2,5) by simp_all
  from announced_and_failed [OF this(1) cessation_ops_ok(2) uuid_str_nonblank uuid_str_nonblank this(2), of "ct_operator_id t" ?id ?pl]
  obtain w2 f where intent: "emit_intent memory_append_event ''constitutional.cessation.record_created'' (uuid_str (ct_operator_id t))
        (uuid_str ?id) ?pl ?w1 = (Inr ?cid, w2)"
      "ge_event_type (pe_event f) = first_segment ''constitutional.cessation.record_created'' @ ''.intent.emitted''"
    and fails: "\<And>reason details. \<not> blank reason \<Longrightarrow>
      \<exists>w3 g. emit_failure memory_append_event ?cid reason details w2 = (Inr (), w3) \<and>
         w_pending w3 = w_pending ?w \<and> ml_events (w_ledger w3) = ml_events (w_ledger ?w) @ [f, g] \<and>
         ge_event_type (pe_event g) = first_segment ''constitutional.cessation.record_created'' @ ''.failure.recorded''"
    by auto
  obtain m p' r where body: "write_record commit_with_outcome_payload ports ?cid ?id ?now t (s\<lparr>sy_world := w2\<rparr>) =
      (Inl (Exn TypeError m), s\<lparr>sy_world := w2, sy_ports := p'\<rparr>)" "kept p' = Some r" "cr_record_id r = ?id"
      "cr_trigger_id r = ct_trigger_id t" "cr_reason r = ct_reason t" "\<not> blank m"
    using write_record_raises [OF assms(1), of "s\<lparr>sy_world := w2\<rparr>" t ?cid ?id ?now] assms(3,4) by auto
  let ?details = "[(''record_id'', PyStr (uuid_str ?id)), (''trigger_id'', PyStr (uuid_str (ct_trigger_id t))),
      (''error_type'', PyStr ''TypeError'')]"
  obtain w3 g where failure: "emit_failure memory_append_event ?cid m ?details w2 = (Inr (), w3)" "w_pending w3 = w_pending ?w"
      "ml_events (w_ledger w3) = ml_events (w_ledger ?w) @ [f, g]"
      "ge_event_type (pe_event g) = first_segment ''constitutional.cessation.record_created'' @ ''.failure.recorded''"
    using fails [OF body(6), of ?details] by blast
  let ?s' = "s\<lparr>sy_world := w3, sy_ports := p'\<rparr>"
  have none: "rp_get_record ports (sy_ports s) = (Inr None, sy_ports s)" using assms(1,3) by (simp add: lawful_record_def)
  have run: "create_record commit_with_outcome_payload memory_append_event ports t s =
      (Inl (record_creation_failed (Exn TypeError m)), ?s')"
    using none intent(1) body(1) failure(1)
    by (simp add: create_record_def act_bind_def act_try_def on_world_def on_ports_def act_raise_def)
  have "first_segment ''constitutional.cessation.record_created'' = ''constitutional''" by code_simp
  moreover have "fst (create_record commit_with_outcome_payload memory_append_event ports u ?s') =
      Inl (record_already_exists (cr_record_id r))" for u
    using create_record_refused [OF assms(1), of ?s' r] body(2) by simp
  ultimately show ?thesis
    using run body(2-5) intent(2) failure(2-4)
    by (intro exI [of _ "''Failed to create cessation record: '' @ m"] exI [of _ ?s'] exI [of _ r] exI [of _ f] exI [of _ g])
      (simp add: record_creation_failed_def)
qed

theorem record_reported_failed_witness:
  "\<exists>(ports :: cessation_record option record_ports) t m s'.
     create_record commit_with_outcome_payload memory_append_event ports t \<lparr>sy_world = example_world [] 5, sy_ports = None\<rparr> =
       (Inl (Exn CessationRecordCreationError m), s') \<and> sy_ports s' \<noteq> None"
proof -
  let ?ports = "\<lparr>rp_get_record = (\<lambda>p. (Inr p, p)), rp_create_record_atomic = (\<lambda>r p. (Inr (), Some r)),
    rp_get_final_state = act_return (''h'', 1), rp_get_in_progress = act_return [],
    rp_label_interrupted = (\<lambda>_ _ _ _ _. act_return ()), rp_count_active = act_return 0, rp_count_in_progress = act_return 0,
    rp_count_pending = act_return 0, rp_get_current_band = act_return ''stable'', rp_get_all_statuses = act_return []\<rparr>"
  let ?s = "\<lparr>sy_world = example_world [] 5, sy_ports = None :: cessation_record option\<rparr>"
  let ?t = "\<lparr>ct_trigger_id = 1, ct_operator_id = 2, ct_triggered_at = 4, ct_reason = ''end''\<rparr>"
  have law: "lawful_record (\<lambda>p. p) ?ports" by (simp add: lawful_record_def collect_snapshot_def act_return_def act_bind_def)
  have s: "memory_inv (w_ledger (sy_world ?s))" "sy_ports ?s = None" "\<not> blank (ct_reason ?t)"
    "dict_get (w_pending (sy_world ?s)) (w_uuid (sy_world ?s) (w_uuid_draws (sy_world ?s) + 1)) = None"
    by (simp_all add: example_world_def blank_iff is_py_space_def dict_get_def)
  obtain m s' r where "create_record commit_with_outcome_payload memory_append_event ?ports ?t ?s =
      (Inl (Exn CessationRecordCreationError m), s')" "sy_ports s' = Some r"
    using record_reported_failed [OF law s] by blast
  then show ?thesis by (intro exI [of _ ?ports] exI [of _ ?t] exI [of _ m] exI [of _ s']) simp
qed

end
