(* ===== verification/Coercion_Filter.thy ===== *)
theory Coercion_Filter
  imports Governance_World
begin

text \<open>
  The coercion filter (\<open>src/application/services/governance/coercion_filter_service.py\<close>) with the values of
  \<open>src/domain/governance/filter/\<close>, the pattern library read from a file
  (\<open>src/infrastructure/adapters/governance/yaml_pattern_library_adapter.py\<close>) and the filter that accepts everything
  (\<open>in_memory_adapters.py\<close>). Regular expressions (\<open>re\<close>), BLAKE2 and the monotonic clock are arguments.
\<close>

section \<open>Patterns\<close>

datatype pattern_severity = TRANSFORM | REJECT | BLOCK

datatype pattern_category = CAT_URGENCY_PRESSURE | CAT_GUILT_INDUCTION | CAT_FALSE_SCARCITY | CAT_ENGAGEMENT_OPTIMIZATION | CAT_HARD_VIOLATION

fun pattern_category_value :: "pattern_category \<Rightarrow> string" where
  "pattern_category_value CAT_URGENCY_PRESSURE = ''urgency_pressure''"
| "pattern_category_value CAT_GUILT_INDUCTION = ''guilt_induction''"
| "pattern_category_value CAT_FALSE_SCARCITY = ''false_scarcity''"
| "pattern_category_value CAT_ENGAGEMENT_OPTIMIZATION = ''engagement_optimization''"
| "pattern_category_value CAT_HARD_VIOLATION = ''hard_violation''"

fun default_severity :: "pattern_category \<Rightarrow> pattern_severity" where
  "default_severity CAT_URGENCY_PRESSURE = TRANSFORM"
| "default_severity CAT_GUILT_INDUCTION = REJECT"
| "default_severity CAT_FALSE_SCARCITY = REJECT"
| "default_severity CAT_ENGAGEMENT_OPTIMIZATION = TRANSFORM"
| "default_severity CAT_HARD_VIOLATION = BLOCK"

record coercion_pattern =
  cp_id :: string
  cp_category :: pattern_category
  cp_severity :: pattern_severity
  cp_pattern :: string
  cp_description :: string
  cp_replacement :: "string option"
  cp_rejection_reason :: "string option"
  cp_violation_type :: "string option"
  cp_case_sensitive :: bool

text \<open>
  What the code uses of \<open>re\<close>: the error of \<open>re.compile\<close>; \<open>re.search\<close> with or without \<open>IGNORECASE\<close>, which answers
  the start and the text of a match; \<open>re.sub\<close>. The service searches without flags.
\<close>

record regex =
  rx_compile_error :: "string \<Rightarrow> string option"
  rx_search :: "bool \<Rightarrow> string \<Rightarrow> string \<Rightarrow> exn + (nat \<times> string) option"
  rx_sub :: "bool \<Rightarrow> string \<Rightarrow> string \<Rightarrow> string \<Rightarrow> exn + string"

definition mk_coercion_pattern :: "regex \<Rightarrow> coercion_pattern \<Rightarrow> exn + coercion_pattern" where
  "mk_coercion_pattern rx p =
     (if cp_id p = [] then Inl (Exn ValueError ''Pattern ID is required'')
      else if cp_pattern p = [] then Inl (Exn ValueError ''Pattern regex is required'')
      else if cp_description p = [] then Inl (Exn ValueError ''Pattern description is required'')
      else
        (case rx_compile_error rx (cp_pattern p) of
           Some e \<Rightarrow> Inl (Exn ValueError (''Invalid regex pattern '' @ [CHR 0x27] @ cp_pattern p @ [CHR 0x27] @ '': '' @ e))
         | None \<Rightarrow>
             Inr (if cp_severity p = TRANSFORM \<and> cp_replacement p = None then p\<lparr>cp_replacement := Some []\<rparr> else p)))"

definition pattern_matches :: "regex \<Rightarrow> coercion_pattern \<Rightarrow> string \<Rightarrow> exn + bool" where
  "pattern_matches rx p content =
     (case rx_search rx (\<not> cp_case_sensitive p) (cp_pattern p) content of Inl e \<Rightarrow> Inl e | Inr m \<Rightarrow> Inr (m \<noteq> None))"

fun severity_value :: "pattern_severity \<Rightarrow> string" where
  "severity_value TRANSFORM = ''transform''"
| "severity_value REJECT = ''reject''"
| "severity_value BLOCK = ''block''"

definition apply_pattern :: "regex \<Rightarrow> coercion_pattern \<Rightarrow> string \<Rightarrow> exn + string" where
  "apply_pattern rx p content =
     (if cp_severity p \<noteq> TRANSFORM then
        Inl (Exn ValueError (''Can only apply TRANSFORM patterns, got '' @ severity_value (cp_severity p)))
      else rx_sub rx (\<not> cp_case_sensitive p) (cp_pattern p)
        (case cp_replacement p of Some r \<Rightarrow> r | None \<Rightarrow> []) content)"

section \<open>Results\<close>

datatype filter_decision = DECISION_ACCEPTED | DECISION_REJECTED | DECISION_BLOCKED

datatype rejection_reason =
  URGENCY_PRESSURE | GUILT_INDUCTION | FALSE_SCARCITY | ENGAGEMENT_OPTIMIZATION | EXCESSIVE_EMPHASIS | IMPLICIT_THREAT

fun reason_description :: "rejection_reason \<Rightarrow> string" where
  "reason_description URGENCY_PRESSURE = ''Content uses time pressure to coerce action''"
| "reason_description GUILT_INDUCTION = ''Content attempts to induce guilt''"
| "reason_description FALSE_SCARCITY = ''Content creates artificial scarcity''"
| "reason_description ENGAGEMENT_OPTIMIZATION = ''Content optimizes for engagement over clarity''"
| "reason_description EXCESSIVE_EMPHASIS = ''Content uses excessive caps, punctuation, or emphasis''"
| "reason_description IMPLICIT_THREAT = ''Content implies negative consequences''"

fun guidance :: "rejection_reason \<Rightarrow> string" where
  "guidance URGENCY_PRESSURE = ''Remove time pressure language; present information neutrally''"
| "guidance GUILT_INDUCTION = ''Remove guilt-inducing phrases; use neutral tone''"
| "guidance FALSE_SCARCITY = ''Remove artificial scarcity claims; present availability factually''"
| "guidance ENGAGEMENT_OPTIMIZATION = ''Use neutral, informational tone; avoid engagement hooks''"
| "guidance EXCESSIVE_EMPHASIS = ''Remove excessive caps, punctuation, and formatting emphasis''"
| "guidance IMPLICIT_THREAT = ''Remove implied negative consequences; state facts only''"

datatype violation_type = EXPLICIT_THREAT | DECEPTION | MANIPULATION | COERCION | HARASSMENT

fun violation_description :: "violation_type \<Rightarrow> string" where
  "violation_description EXPLICIT_THREAT = ''Content contains explicit threats''"
| "violation_description DECEPTION = ''Content contains deliberately false information''"
| "violation_description MANIPULATION = ''Content uses psychological manipulation tactics''"
| "violation_description COERCION = ''Content attempts to coerce through force or pressure''"
| "violation_description HARASSMENT = ''Content constitutes harassment''"

text \<open>The version is the library's: a \<open>FilterVersion\<close> by the signatures, a \<open>PatternLibraryVersion\<close> from the file.\<close>

record 'v filtered_content =
  fc_content :: string
  fc_original_hash :: string
  fc_filter_version :: 'v
  fc_filtered_at :: datetime

record transformation_rule =
  tl_rule_id :: string
  tl_pattern :: string
  tl_replacement :: string
  tl_description :: string
  tl_category :: string
  tl_version :: string

definition mk_transformation_rule :: "transformation_rule \<Rightarrow> exn + transformation_rule" where
  "mk_transformation_rule r =
     (if tl_rule_id r = [] then Inl (Exn ValueError ''Rule ID is required'')
      else if tl_pattern r = [] then Inl (Exn ValueError ''Pattern is required'')
      else if tl_category r = [] then Inl (Exn ValueError ''Category is required'')
      else if tl_version r = [] then Inl (Exn ValueError ''Version is required'')
      else if \<not> semver_pattern (tl_version r) then
        Inl (Exn ValueError (''Version must be in semver format (X.Y.Z), got: '' @ tl_version r))
      else Inr r)"

record transformation =
  tf_pattern_matched :: string
  tf_original_text :: string
  tf_replacement_text :: string
  tf_rule_id :: string
  tf_position :: "nat option"

definition mk_transformation :: "transformation \<Rightarrow> exn + transformation" where
  "mk_transformation t = (if tf_rule_id t = [] then Inl (Exn ValueError ''Rule ID is required for audit trail'') else Inr t)"

record 'v filter_result =
  fr_decision :: filter_decision
  fr_version :: 'v
  fr_timestamp :: datetime
  fr_content :: "'v filtered_content option"
  fr_transformations :: "transformation list"
  fr_rejection_reason :: "rejection_reason option"
  fr_rejection_guidance :: "string option"
  fr_violation_type :: "violation_type option"
  fr_violation_details :: "string option"

definition mk_filter_result :: "'v filter_result \<Rightarrow> exn + 'v filter_result" where
  "mk_filter_result r =
     (case fr_decision r of
        DECISION_ACCEPTED \<Rightarrow>
          if fr_content r = None then Inl (Exn ValueError ''ACCEPTED result must include content'')
          else if fr_rejection_reason r \<noteq> None then Inl (Exn ValueError ''ACCEPTED result cannot have rejection_reason'')
          else if fr_violation_type r \<noteq> None then Inl (Exn ValueError ''ACCEPTED result cannot have violation_type'')
          else Inr r
      | DECISION_REJECTED \<Rightarrow>
          if fr_content r \<noteq> None then Inl (Exn ValueError ''REJECTED result cannot include content'')
          else if fr_rejection_reason r = None then Inl (Exn ValueError ''REJECTED result must include rejection_reason'')
          else if fr_violation_type r \<noteq> None then Inl (Exn ValueError ''REJECTED result cannot have violation_type'')
          else Inr r
      | DECISION_BLOCKED \<Rightarrow>
          if fr_content r \<noteq> None then Inl (Exn ValueError ''BLOCKED result cannot include content'')
          else if fr_violation_type r = None then Inl (Exn ValueError ''BLOCKED result must include violation_type'')
          else if fr_rejection_reason r \<noteq> None then Inl (Exn ValueError ''BLOCKED result cannot have rejection_reason'')
          else Inr r)"

definition filter_accepted :: "'v filtered_content \<Rightarrow> 'v \<Rightarrow> datetime \<Rightarrow> transformation list \<Rightarrow> exn + 'v filter_result" where
  "filter_accepted content version timestamp transformations = mk_filter_result
     \<lparr>fr_decision = DECISION_ACCEPTED, fr_version = version, fr_timestamp = timestamp, fr_content = Some content,
      fr_transformations = transformations, fr_rejection_reason = None, fr_rejection_guidance = None,
      fr_violation_type = None, fr_violation_details = None\<rparr>"

definition filter_rejected :: "rejection_reason \<Rightarrow> 'v \<Rightarrow> datetime \<Rightarrow> string \<Rightarrow> exn + 'v filter_result" where
  "filter_rejected reason version timestamp g = mk_filter_result
     \<lparr>fr_decision = DECISION_REJECTED, fr_version = version, fr_timestamp = timestamp, fr_content = None,
      fr_transformations = [], fr_rejection_reason = Some reason,
      fr_rejection_guidance = Some (if g = [] then guidance reason else g),
      fr_violation_type = None, fr_violation_details = None\<rparr>"

definition filter_blocked :: "violation_type \<Rightarrow> 'v \<Rightarrow> datetime \<Rightarrow> string \<Rightarrow> exn + 'v filter_result" where
  "filter_blocked violation version timestamp details = mk_filter_result
     \<lparr>fr_decision = DECISION_BLOCKED, fr_version = version, fr_timestamp = timestamp, fr_content = None,
      fr_transformations = [], fr_rejection_reason = None, fr_rejection_guidance = None,
      fr_violation_type = Some violation, fr_violation_details = Some details\<rparr>"

section \<open>The service\<close>

text \<open>
  The service reads what the library answers as dictionaries, with the key \<open>pattern\<close> and one for the verdict. The port
  and the library that reads the file answer \<open>CoercionPattern\<close> objects, which cannot be indexed.
\<close>

datatype 'a pattern_info = InfoDict string 'a | InfoPattern coercion_pattern

definition not_subscriptable :: exn where
  "not_subscriptable = Exn TypeError ([CHR 0x27] @ ''CoercionPattern'' @ [CHR 0x27] @ '' object is not subscriptable'')"

record ('s, 'v) pattern_library =
  pl_get_current_version :: "('s, 'v) act"
  pl_get_blocking_patterns :: "('s, violation_type pattern_info list) act"
  pl_get_rejection_patterns :: "('s, rejection_reason pattern_info list) act"
  pl_get_transformation_rules :: "('s, transformation_rule list) act"

text \<open>The loop of both checks: the pattern and the verdict of the first entry that matches.\<close>

fun first_match :: "regex \<Rightarrow> string \<Rightarrow> 'a pattern_info list \<Rightarrow> exn + (string \<times> 'a) option" where
  "first_match rx content [] = Inr None"
| "first_match rx content (InfoPattern p # infos) = Inl not_subscriptable"
| "first_match rx content (InfoDict pattern verdict # infos) =
     (case rx_search rx False pattern content of
        Inl e \<Rightarrow> Inl e
      | Inr (Some m) \<Rightarrow> Inr (Some (pattern, verdict))
      | Inr None \<Rightarrow> first_match rx content infos)"

definition check_violations :: "regex \<Rightarrow> ('s, 'v) pattern_library \<Rightarrow> string \<Rightarrow> ('s, (violation_type \<times> string) option) act" where
  "check_violations rx lib content =
     act_bind (pl_get_blocking_patterns lib) (\<lambda>infos.
     act_bind (act_lift (first_match rx content infos)) (\<lambda>m.
     act_return (map_option (\<lambda>(pattern, violation). (violation, ''Pattern matched: '' @ pattern)) m)))"

definition check_rejections :: "regex \<Rightarrow> ('s, 'v) pattern_library \<Rightarrow> string \<Rightarrow> ('s, (rejection_reason \<times> string) option) act" where
  "check_rejections rx lib content =
     act_bind (pl_get_rejection_patterns lib) (\<lambda>infos.
     act_bind (act_lift (first_match rx content infos)) (\<lambda>m.
     act_return (map_option (\<lambda>(pattern, reason). (reason, guidance reason)) m)))"

fun apply_rules :: "regex \<Rightarrow> string \<Rightarrow> transformation list \<Rightarrow> transformation_rule list \<Rightarrow> exn + string \<times> transformation list" where
  "apply_rules rx result transformations [] = Inr (result, transformations)"
| "apply_rules rx result transformations (rule # rules) =
     (case rx_search rx False (tl_pattern rule) result of
        Inl e \<Rightarrow> Inl e
      | Inr None \<Rightarrow> apply_rules rx result transformations rules
      | Inr (Some (start, original_text)) \<Rightarrow>
          (case rx_sub rx False (tl_pattern rule) (tl_replacement rule) result of
             Inl e \<Rightarrow> Inl e
           | Inr result' \<Rightarrow>
               (case mk_transformation \<lparr>tf_pattern_matched = tl_pattern rule, tf_original_text = original_text,
                  tf_replacement_text = tl_replacement rule, tf_rule_id = tl_rule_id rule, tf_position = Some start\<rparr> of
                  Inl e \<Rightarrow> Inl e
                | Inr t \<Rightarrow> apply_rules rx result' (transformations @ [t]) rules)))"

definition apply_transformations ::
  "regex \<Rightarrow> ('s, 'v) pattern_library \<Rightarrow> string \<Rightarrow> ('s, string \<times> transformation list) act" where
  "apply_transformations rx lib content =
     act_bind (pl_get_transformation_rules lib) (\<lambda>rules. act_lift (apply_rules rx content [] rules))"

definition timeout_us :: int where
  "timeout_us = 200 * 1000"

text \<open>
  \<open>monotonic\<close> answers microseconds; the time authority's readings are counted together with those of the wall clock.
\<close>

definition read_monotonic :: "(nat \<Rightarrow> int) \<Rightarrow> ('l world, int) act" where
  "read_monotonic micros = (\<lambda>w. (Inr (micros (w_clock_reads w)), w\<lparr>w_clock_reads := w_clock_reads w + 1\<rparr>))"

definition filter_body ::
  "regex \<Rightarrow> (string \<Rightarrow> string) \<Rightarrow> ('l world, int) act \<Rightarrow> ('l world, 'v) pattern_library \<Rightarrow> string \<Rightarrow> datetime \<Rightarrow> int \<Rightarrow> 'v
    \<Rightarrow> ('l world, 'v filter_result) act" where
  "filter_body rx blake2b monotonic lib content start_time start_monotonic version =
     act_bind (check_violations rx lib content) (\<lambda>violation.
     case violation of
       Some (v, details) \<Rightarrow> act_lift (filter_blocked v version start_time details)
     | None \<Rightarrow>
         act_bind (check_rejections rx lib content) (\<lambda>rejection.
         case rejection of
           Some (reason, g) \<Rightarrow> act_lift (filter_rejected reason version start_time g)
         | None \<Rightarrow>
             act_bind (apply_transformations rx lib content) (\<lambda>(transformed, transformations).
             act_bind monotonic (\<lambda>m.
             if m - start_monotonic > timeout_us then
               act_lift (filter_rejected EXCESSIVE_EMPHASIS version start_time ''Content too complex. Please simplify.'')
             else
               act_bind time_now (\<lambda>filtered_at.
               act_lift (filter_accepted \<lparr>fc_content = transformed, fc_original_hash = blake2b content,
                 fc_filter_version = version, fc_filtered_at = filtered_at\<rparr> version start_time transformations))))))"

definition filter_error :: "exn \<Rightarrow> string" where
  "filter_error e = ''Filter error: '' @ exn_str e @ ''. Please retry.''"

definition do_filter ::
  "regex \<Rightarrow> (string \<Rightarrow> string) \<Rightarrow> ('l world, int) act \<Rightarrow> ('l world, 'v) pattern_library \<Rightarrow> string \<Rightarrow> ('l world, 'v filter_result) act" where
  "do_filter rx blake2b monotonic lib content =
     act_bind time_now (\<lambda>start_time.
     act_bind monotonic (\<lambda>start_monotonic.
     act_bind (pl_get_current_version lib) (\<lambda>version.
     act_try (filter_body rx blake2b monotonic lib content start_time start_monotonic version)
       (\<lambda>e. act_lift (filter_rejected EXCESSIVE_EMPHASIS version start_time (filter_error e))))))"

text \<open>\<open>filter_content\<close> and \<open>preview_filter\<close> are both \<open>_do_filter\<close>; the message type is not looked at.\<close>

definition filter_content ::
  "regex \<Rightarrow> (string \<Rightarrow> string) \<Rightarrow> ('l world, int) act \<Rightarrow> ('l world, 'v) pattern_library \<Rightarrow> string \<Rightarrow> ('l world, 'v filter_result) act" where
  "filter_content = do_filter"

section \<open>The library that reads the file, once loaded\<close>

fun yaml_transformation_rules :: "string \<Rightarrow> coercion_pattern list \<Rightarrow> exn + transformation_rule list" where
  "yaml_transformation_rules version [] = Inr []"
| "yaml_transformation_rules version (p # ps) =
     (case mk_transformation_rule \<lparr>tl_rule_id = cp_id p, tl_pattern = cp_pattern p,
        tl_replacement = (case cp_replacement p of Some r \<Rightarrow> r | None \<Rightarrow> []), tl_description = cp_description p,
        tl_category = pattern_category_value (cp_category p), tl_version = version\<rparr> of
        Inl e \<Rightarrow> Inl e
      | Inr rule \<Rightarrow>
          (case yaml_transformation_rules version ps of Inl e \<Rightarrow> Inl e | Inr rules \<Rightarrow> Inr (rule # rules)))"

definition yaml_library :: "string \<Rightarrow> coercion_pattern list \<Rightarrow> ('s, string) pattern_library" where
  "yaml_library version patterns =
     \<lparr>pl_get_current_version = act_return version,
      pl_get_blocking_patterns = act_return (map InfoPattern (filter (\<lambda>p. cp_severity p = BLOCK) patterns)),
      pl_get_rejection_patterns = act_return (map InfoPattern (filter (\<lambda>p. cp_severity p = REJECT) patterns)),
      pl_get_transformation_rules = act_lift (yaml_transformation_rules version (filter (\<lambda>p. cp_severity p = TRANSFORM) patterns))\<rparr>"

text \<open>The filter of the in-memory adapters, which accepts everything.\<close>

definition passthrough_filter :: "(string \<Rightarrow> string) \<Rightarrow> 'v \<Rightarrow> string \<Rightarrow> ('l world, 'v filter_result) act" where
  "passthrough_filter blake2b version content =
     act_bind time_now (\<lambda>filtered_at.
     act_bind time_now (\<lambda>timestamp.
     act_lift (filter_accepted \<lparr>fc_content = content, fc_original_hash = blake2b content, fc_filter_version = version,
       fc_filtered_at = filtered_at\<rparr> version timestamp [])))"

section \<open>Lemmas\<close>

lemma read_monotonic_run [simp]:
  "read_monotonic micros w = (Inr (micros (w_clock_reads w)), w\<lparr>w_clock_reads := w_clock_reads w + 1\<rparr>)"
  by (simp add: read_monotonic_def)

lemmas result_makers = filter_accepted_def filter_rejected_def filter_blocked_def mk_filter_result_def

lemma guidance_nonempty [simp]: "guidance reason \<noteq> []"
  by (cases reason) simp_all

lemma first_match_patterns: "ps \<noteq> [] \<Longrightarrow> first_match rx content (map InfoPattern ps) = Inl not_subscriptable"
  by (cases ps) simp_all

lemma first_match_find:
  assumes "\<And>f p c. rx_search rx f p c = Inr (found f p c)"
  shows "first_match rx content (map (\<lambda>(p, v). InfoDict p v) infos) =
    Inr (find (\<lambda>(p, _). found False p content \<noteq> None) infos)"
  by (induction infos) (auto simp: assms split: option.splits)

lemma check_violations_patterns:
  "pl_get_blocking_patterns lib = act_return (map InfoPattern ps) \<Longrightarrow>
     check_violations rx lib content w = (if ps = [] then Inr None else Inl not_subscriptable, w)"
  by (simp add: check_violations_def act_bind_def first_match_patterns)

lemma check_rejections_patterns:
  "pl_get_rejection_patterns lib = act_return (map InfoPattern ps) \<Longrightarrow>
     check_rejections rx lib content w = (if ps = [] then Inr None else Inl not_subscriptable, w)"
  by (simp add: check_rejections_def act_bind_def first_match_patterns)

lemma check_violations_dicts:
  assumes "\<And>f p c. rx_search rx f p c = Inr (found f p c)"
    and "pl_get_blocking_patterns lib = act_return (map (\<lambda>(p, v). InfoDict p v) violations)"
  shows "check_violations rx lib content w =
    (Inr (map_option (\<lambda>(p, v). (v, ''Pattern matched: '' @ p)) (find (\<lambda>(p, _). found False p content \<noteq> None) violations)), w)"
  by (simp add: check_violations_def act_bind_def first_match_find [OF assms(1)] assms(2))

lemma check_rejections_dicts:
  assumes "\<And>f p c. rx_search rx f p c = Inr (found f p c)"
    and "pl_get_rejection_patterns lib = act_return (map (\<lambda>(p, v). InfoDict p v) rejections)"
  shows "check_rejections rx lib content w =
    (Inr (map_option (\<lambda>(p, r). (r, guidance r)) (find (\<lambda>(p, _). found False p content \<noteq> None) rejections)), w)"
  by (simp add: check_rejections_def act_bind_def first_match_find [OF assms(1)] assms(2))

lemma yaml_answers:
  "pl_get_current_version (yaml_library version patterns) = act_return version"
  "pl_get_blocking_patterns (yaml_library version patterns) =
     act_return (map InfoPattern (filter (\<lambda>p. cp_severity p = BLOCK) patterns))"
  "pl_get_rejection_patterns (yaml_library version patterns) =
     act_return (map InfoPattern (filter (\<lambda>p. cp_severity p = REJECT) patterns))"
  by (simp_all add: yaml_library_def)

lemma yaml_filter_run:
  fixes w :: "'a world"
  assumes "\<exists>p\<in>set patterns. cp_severity p = BLOCK \<or> cp_severity p = REJECT"
  shows "filter_content rx blake2b (read_monotonic micros) (yaml_library version patterns) content w =
    (Inr \<lparr>fr_decision = DECISION_REJECTED, fr_version = version, fr_timestamp = w_clock w (w_clock_reads w),
       fr_content = None, fr_transformations = [], fr_rejection_reason = Some EXCESSIVE_EMPHASIS,
       fr_rejection_guidance = Some (filter_error not_subscriptable), fr_violation_type = None,
       fr_violation_details = None\<rparr>, w\<lparr>w_clock_reads := w_clock_reads w + 2\<rparr>)"
proof -
  let ?block = "filter (\<lambda>p. cp_severity p = BLOCK) patterns" and ?reject = "filter (\<lambda>p. cp_severity p = REJECT) patterns"
  have some: "?block \<noteq> [] \<or> ?reject \<noteq> []" using assms by (auto simp: filter_empty_conv)
  have body: "filter_body rx blake2b (read_monotonic micros) (yaml_library version patterns) content st sm version u =
      (Inl not_subscriptable, u)" for st sm and u :: "'a world"
    using some by (cases "?block = []")
      (simp_all add: filter_body_def act_bind_def check_violations_patterns [OF yaml_answers(2)]
        check_rejections_patterns [OF yaml_answers(3)])
  have "filter_error not_subscriptable \<noteq> []" by (simp add: filter_error_def)
  then show ?thesis
    by (simp add: filter_content_def do_filter_def act_bind_def act_try_def yaml_answers(1) body filter_rejected_def
        mk_filter_result_def)
qed

text \<open>For the example: a pattern is found in the text that equals it; one rule rewrites a text into one that is blocked.\<close>

definition example_regex :: regex where
  "example_regex = \<lparr>rx_compile_error = \<lambda>_. None, rx_search = \<lambda>_ p c. Inr (if p = c then Some (0, c) else None),
     rx_sub = \<lambda>_ p r c. Inr r\<rparr>"

definition example_rules :: "transformation_rule list" where
  "example_rules = [\<lparr>tl_rule_id = ''r1'', tl_pattern = ''comply'', tl_replacement = ''obey'',
        tl_description = ''rewrite'', tl_category = ''urgency'', tl_version = ''1''\<rparr>]"

definition example_library :: "('s, nat) pattern_library" where
  "example_library =
     \<lparr>pl_get_current_version = act_return 1,
      pl_get_blocking_patterns = act_return (map (\<lambda>(p, v). InfoDict p v) [(''obey'', COERCION)]),
      pl_get_rejection_patterns = act_return (map (\<lambda>(p, v). InfoDict p v) []),
      pl_get_transformation_rules = act_return example_rules\<rparr>"

section \<open>Properties\<close>

text \<open>
  The filter over a library of dictionaries. The first blocking pattern, in the library's order, that is found in the
  text blocks it with its violation; otherwise the first rejecting pattern rejects it with the guidance of its reason;
  otherwise the rules are applied in order, each to what the earlier ones left, and the text is accepted as they leave it,
  with the hash of the original and one transformation for each rule that matched, unless more than 200 ms have gone by or
  a rule raised, which both reject. The accepted text is not held against the patterns again.
\<close>

theorem filter_content_spec:
  assumes "\<And>f p c. rx_search rx f p c = Inr (found f p c)" and "pl_get_current_version lib = act_return version"
    and "pl_get_blocking_patterns lib = act_return (map (\<lambda>(p, v). InfoDict p v) violations)"
    and "pl_get_rejection_patterns lib = act_return (map (\<lambda>(p, v). InfoDict p v) rejections)"
    and "pl_get_transformation_rules lib = act_return rules"
  shows "\<exists>r. fst (filter_content rx blake2b (read_monotonic micros) lib content w) = Inr r \<and> fr_version r = version \<and>
    (case find (\<lambda>(p, _). found False p content \<noteq> None) violations of
       Some (p, v) \<Rightarrow> fr_decision r = DECISION_BLOCKED \<and> fr_violation_type r = Some v \<and>
         fr_violation_details r = Some (''Pattern matched: '' @ p)
     | None \<Rightarrow>
        (case find (\<lambda>(p, _). found False p content \<noteq> None) rejections of
           Some (_, reason) \<Rightarrow> fr_decision r = DECISION_REJECTED \<and> fr_rejection_reason r = Some reason \<and>
             fr_rejection_guidance r = Some (guidance reason)
         | None \<Rightarrow>
            (case apply_rules rx content [] rules of
               Inl e \<Rightarrow> fr_decision r = DECISION_REJECTED \<and> fr_rejection_guidance r = Some (filter_error e)
             | Inr (result, transformations) \<Rightarrow>
                 if micros (w_clock_reads w + 2) - micros (w_clock_reads w + 1) > timeout_us then
                   fr_decision r = DECISION_REJECTED \<and>
                   fr_rejection_guidance r = Some ''Content too complex. Please simplify.''
                 else fr_decision r = DECISION_ACCEPTED \<and> fr_transformations r = transformations \<and>
                   fr_content r = Some \<lparr>fc_content = result, fc_original_hash = blake2b content,
                     fc_filter_version = version, fc_filtered_at = w_clock w (w_clock_reads w + 3)\<rparr>)))"
proof -
  note checks = check_violations_dicts [OF assms(1,3)] check_rejections_dicts [OF assms(1,4)]
  note run = filter_content_def do_filter_def filter_body_def act_bind_def act_try_def assms(2) checks
    apply_transformations_def assms(5) result_makers filter_error_def numeral_2_eq_2 numeral_3_eq_3
  show ?thesis
  proof (cases "find (\<lambda>(p, _). found False p content \<noteq> None) violations")
    case (Some pv)
    then show ?thesis by (cases pv) (simp add: run)
  next
    case no_violation: None
    show ?thesis
    proof (cases "find (\<lambda>(p, _). found False p content \<noteq> None) rejections")
      case (Some pv)
      then show ?thesis using no_violation by (cases pv) (simp add: run)
    next
      case None
      then show ?thesis using no_violation
        by (cases "apply_rules rx content [] rules") (auto simp: run split: prod.splits)
    qed
  qed
qed

theorem filter_content_spec_witness:
  "\<exists>r. fst (filter_content example_regex (\<lambda>s. s) (read_monotonic (\<lambda>_. 0)) example_library ''comply'' (example_world [] 5)) = Inr r \<and>
     fr_decision r = DECISION_ACCEPTED \<and> map_option fc_content (fr_content r) = Some ''obey'' \<and>
     fst (check_violations example_regex example_library ''obey'' ()) = Inr (Some (COERCION, ''Pattern matched: obey''))"
proof -
  have rx: "rx_search example_regex f p c = Inr ((\<lambda>_ p c. if p = c then Some (0, c) else None) f p c)" for f p c
    by (simp add: example_regex_def)
  have blocked: "fst (check_violations example_regex example_library ''obey'' ()) =
      Inr (Some (COERCION, ''Pattern matched: obey''))"
    by code_simp
  have rules: "\<exists>ts. apply_rules example_regex ''comply'' [] example_rules = Inr (''obey'', ts)"
    by (simp add: example_regex_def example_rules_def mk_transformation_def)
  have lib: "pl_get_current_version example_library = act_return 1"
    "pl_get_blocking_patterns example_library = act_return (map (\<lambda>(p, v). InfoDict p v) [(''obey'', COERCION)])"
    "pl_get_rejection_patterns example_library = act_return (map (\<lambda>(p, v). InfoDict p v) [])"
    "pl_get_transformation_rules example_library = act_return example_rules"
    by (simp_all add: example_library_def)
  show ?thesis
    using filter_content_spec [OF rx lib, where content = "''comply''" and blake2b = "\<lambda>s. s"
        and micros = "\<lambda>_. 0" and w = "example_world [] 5"] blocked rules
    by (auto simp: timeout_us_def)
qed

end
