(* ===== verification/Task_Activation.thy ===== *)
theory Task_Activation
  imports Task_Consent Coercion_Filter
begin

text \<open>
  Activating a task (\<open>src/application/services/governance/task_activation_service.py\<close>): an Earl's request becomes a
  task, its text passes the filter, and a task whose text is accepted is routed to its Cluster. Results and views are
  those of \<open>src/domain/governance/task/task_activation_request.py\<close>. The filter, the message port and the number of
  hours in the intent's payload (a float) are arguments. The service reads \<open>datetime.utcnow()\<close>: the time read is the
  world's, but the value is naive, so subtracting an aware time from it raises.
\<close>

datatype filter_outcome = OUTCOME_ACCEPTED | OUTCOME_TRANSFORMED | OUTCOME_REJECTED | OUTCOME_BLOCKED

datatype routing_status = ROUTING_ROUTED | ROUTING_PENDING_REWRITE | ROUTING_BLOCKED | ROUTING_PENDING_FILTER

record task_filtered_content =
  tfc_content :: string
  tfc_filter_decision_id :: uuid
  tfc_original_hash :: string
  tfc_transformation_applied :: bool

record task_activation_request =
  trq_request_id :: uuid
  trq_task_id :: uuid
  trq_earl_id :: string
  trq_cluster_id :: string
  trq_description :: string
  trq_requirements :: "string list"
  trq_expected_outcomes :: "string list"
  trq_ttl :: timedelta
  trq_created_at :: datetime
  trq_filtered_content :: "task_filtered_content option"
  trq_filter_decision_id :: "uuid option"
  trq_filter_outcome :: "filter_outcome option"

definition mk_task_activation_request :: "task_activation_request \<Rightarrow> exn + task_activation_request" where
  "mk_task_activation_request q =
     (if blank (trq_earl_id q) then Inl (Exn ValueError ''earl_id must be non-empty string'')
      else if blank (trq_cluster_id q) then Inl (Exn ValueError ''cluster_id must be non-empty string'')
      else if blank (trq_description q) then Inl (Exn ValueError ''description must be non-empty string'')
      else if trq_ttl q \<le> 0 then Inl (Exn ValueError ''ttl must be positive duration'')
      else Inr q)"

definition is_filtered :: "task_activation_request \<Rightarrow> bool" where
  "is_filtered q \<longleftrightarrow> trq_filter_outcome q \<noteq> None"

definition is_routable :: "task_activation_request \<Rightarrow> bool" where
  "is_routable q \<longleftrightarrow> trq_filter_outcome q \<in> {Some OUTCOME_ACCEPTED, Some OUTCOME_TRANSFORMED}"

record task_activation_result =
  tar_success :: bool
  tar_task_state :: task_state
  tar_filter_outcome :: filter_outcome
  tar_filter_decision_id :: uuid
  tar_routing_status :: routing_status
  tar_message :: string
  tar_rejection_reason :: "string option"

record task_state_view =
  tsv_task_id :: uuid
  tsv_current_status :: string
  tsv_cluster_id :: "string option"
  tsv_created_at :: datetime
  tsv_state_entered_at :: datetime
  tsv_ttl :: timedelta
  tsv_ttl_remaining :: "timedelta option"
  tsv_is_pre_consent :: bool
  tsv_is_post_consent :: bool
  tsv_is_terminal :: bool

section \<open>Creating an activation\<close>

definition transition_task :: "task_state \<Rightarrow> task_status \<Rightarrow> ('l world, task_state) act" where
  "transition_task task new_status =
     act_bind time_now (\<lambda>now.
     act_bind (act_lift (transition task new_status now)) (\<lambda>new_task.
     act_bind (save_task new_task) (\<lambda>_. act_return new_task)))"

text \<open>\<open>send participant_id content message_type metadata\<close>; what it answers is not looked at.\<close>

type_synonym 'l send = "string \<Rightarrow> task_filtered_content \<Rightarrow> string \<Rightarrow> payload \<Rightarrow> ('l world, bool) act"

definition route_to_cluster_internal :: "'l send \<Rightarrow> task_state \<Rightarrow> string \<Rightarrow> task_filtered_content option \<Rightarrow> ('l world, unit) act" where
  "route_to_cluster_internal send task cluster_id filtered_content =
     (case filtered_content of
        None \<Rightarrow> act_raise (Exn ValueError ''Cannot route without filtered content'')
      | Some content \<Rightarrow>
          act_bind (transition_task task ROUTED) (\<lambda>task'.
          act_bind (send cluster_id content ''task_activation''
            [(''task_id'', PyStr (uuid_str (ts_task_id task'))), (''earl_id'', PyStr (ts_earl_id task'))]) (\<lambda>_.
          act_return ())))"

definition text_or :: "string option \<Rightarrow> string \<Rightarrow> string" where
  "text_or s d = (case s of Some x \<Rightarrow> if x = [] then d else x | None \<Rightarrow> d)"

definition handle_filter_result ::
  "'l send \<Rightarrow> task_state \<Rightarrow> string \<Rightarrow> 'v filter_result \<Rightarrow> ('l world, task_activation_result \<times> payload) act" where
  "handle_filter_result send task cluster_id filter_result =
     act_bind uuid4 (\<lambda>decision_id.
     case fr_decision filter_result of
       DECISION_ACCEPTED \<Rightarrow>
         act_bind
           (case fr_content filter_result of
              None \<Rightarrow> act_return ()
            | Some c \<Rightarrow> route_to_cluster_internal send task cluster_id (Some
                \<lparr>tfc_content = fc_content c, tfc_filter_decision_id = decision_id,
                 tfc_original_hash = fc_original_hash c,
                 tfc_transformation_applied = 0 < length (fr_transformations filter_result)\<rparr>)) (\<lambda>_.
         act_return
           (\<lparr>tar_success = True, tar_task_state = task, tar_filter_outcome = OUTCOME_ACCEPTED,
             tar_filter_decision_id = decision_id, tar_routing_status = ROUTING_ROUTED,
             tar_message = ''Task activation routed to Cluster'', tar_rejection_reason = None\<rparr>,
            [(''routed'', PyBool True), (''cluster_id'', PyStr cluster_id)]))
     | DECISION_REJECTED \<Rightarrow>
         act_return
           (\<lparr>tar_success = False, tar_task_state = task, tar_filter_outcome = OUTCOME_REJECTED,
             tar_filter_decision_id = decision_id, tar_routing_status = ROUTING_PENDING_REWRITE,
             tar_message = ''Content rejected by filter. Please revise.'',
             tar_rejection_reason = map_option
               (\<lambda>reason. text_or (fr_rejection_guidance filter_result) (reason_description reason))
               (fr_rejection_reason filter_result)\<rparr>,
            [(''routed'', PyBool False), (''reason'', PyStr ''rejected'')])
     | DECISION_BLOCKED \<Rightarrow>
         act_return
           (\<lparr>tar_success = False, tar_task_state = task, tar_filter_outcome = OUTCOME_BLOCKED,
             tar_filter_decision_id = decision_id, tar_routing_status = ROUTING_BLOCKED,
             tar_message = ''Content blocked due to violation.'',
             tar_rejection_reason = map_option
               (\<lambda>violation. text_or (fr_violation_details filter_result) (violation_description violation))
               (fr_violation_type filter_result)\<rparr>,
            [(''routed'', PyBool False), (''reason'', PyStr ''blocked'')]))"

fun join_lines :: "string list \<Rightarrow> string" where
  "join_lines [] = []"
| "join_lines [x] = x"
| "join_lines (x # xs) = x @ [CHR 0x0A] @ join_lines xs"

definition content_to_filter :: "string \<Rightarrow> string list \<Rightarrow> string list \<Rightarrow> string" where
  "content_to_filter description requirements expected_outcomes =
     description @ [CHR 0x0A] @ join_lines requirements @ [CHR 0x0A] @ join_lines expected_outcomes"

definition activation_body ::
  "(string \<Rightarrow> ('l world, 'v filter_result) act) \<Rightarrow> 'l send \<Rightarrow> task_state \<Rightarrow> string \<Rightarrow> string
    \<Rightarrow> ('l world, task_activation_result \<times> payload) act" where
  "activation_body filter_port send task cluster_id content =
     act_bind (transition_task task ACTIVATED) (\<lambda>task'.
     act_bind (filter_port content) (\<lambda>filter_result.
     handle_filter_result send task' cluster_id filter_result))"

definition activation_ttl :: "timedelta option \<Rightarrow> timedelta" where
  "activation_ttl ttl = (case ttl of Some d \<Rightarrow> d | None \<Rightarrow> hours 72)"

definition create_activation ::
  "(governance_event \<Rightarrow> ('l, persisted_event) act) \<Rightarrow> (timedelta \<Rightarrow> pyval) \<Rightarrow> (string \<Rightarrow> ('l world, 'v filter_result) act)
    \<Rightarrow> 'l send \<Rightarrow> string \<Rightarrow> string \<Rightarrow> string \<Rightarrow> string list \<Rightarrow> string list \<Rightarrow> timedelta option
    \<Rightarrow> ('l world, task_activation_result) act" where
  "create_activation append_event ttl_hours filter_port send earl_id cluster_id description requirements expected_outcomes ttl =
     (let effective_ttl = activation_ttl ttl in
      act_bind (create_task earl_id (Some cluster_id) effective_ttl) (\<lambda>task.
      two_phase_execution append_event ''task.activate'' earl_id (uuid_str (ts_task_id task))
        [(''cluster_id'', PyStr cluster_id), (''ttl_hours'', ttl_hours effective_ttl)]
        (activation_body filter_port send task cluster_id
          (content_to_filter description requirements expected_outcomes))))"

section \<open>Routing and reading\<close>

text \<open>\<open>route_to_cluster\<close> does not use its Cluster.\<close>

definition route_to_cluster :: "uuid \<Rightarrow> string \<Rightarrow> ('l world, bool) act" where
  "route_to_cluster task_id cluster_id =
     act_bind (get_task task_id) (\<lambda>task.
     if ts_current_status task \<noteq> ACTIVATED then
       act_raise (Exn ValueError (''Task '' @ uuid_str task_id @ '' is not in ACTIVATED state. Current state: '' @
         task_status_value (ts_current_status task)))
     else act_bind (transition_task task ROUTED) (\<lambda>_. act_return True))"

definition not_owner :: "string \<Rightarrow> uuid \<Rightarrow> exn" where
  "not_owner earl_id task_id = Exn UnauthorizedAccessError
     (''Earl '' @ earl_id @ '' does not own task '' @ uuid_str task_id)"

text \<open>The store's tasks hold aware creation times; \<open>datetime.utcnow()\<close> is naive.\<close>

definition calculate_ttl_remaining :: "task_state \<Rightarrow> exn + timedelta option" where
  "calculate_ttl_remaining task =
     (if \<not> is_pre_consent (ts_current_status task) then Inr None
      else Inl (Exn TypeError (''can'' @ [CHR 0x27] @ ''t subtract offset-naive and offset-aware datetimes'')))"

definition get_task_state :: "uuid \<Rightarrow> string \<Rightarrow> ('l world, task_state_view) act" where
  "get_task_state task_id earl_id =
     act_bind (get_task task_id) (\<lambda>task.
     if ts_earl_id task \<noteq> earl_id then act_raise (not_owner earl_id task_id)
     else
       act_bind (act_lift (calculate_ttl_remaining task)) (\<lambda>ttl_remaining.
       act_return
         \<lparr>tsv_task_id = ts_task_id task, tsv_current_status = task_status_value (ts_current_status task),
          tsv_cluster_id = ts_cluster_id task, tsv_created_at = ts_created_at task,
          tsv_state_entered_at = ts_state_entered_at task, tsv_ttl = ts_ttl task, tsv_ttl_remaining = ttl_remaining,
          tsv_is_pre_consent = is_pre_consent (ts_current_status task),
          tsv_is_post_consent = is_post_consent (ts_current_status task),
          tsv_is_terminal = is_terminal (ts_current_status task)\<rparr>))"

text \<open>
  The history is asked of the ledger by keywords that \<open>read_events\<close> does not have; \<open>ledger_class\<close> is the qualified
  name in the interpreter's message.
\<close>

definition get_task_history :: "string \<Rightarrow> uuid \<Rightarrow> string \<Rightarrow> ('l world, payload list) act" where
  "get_task_history ledger_class task_id earl_id =
     act_bind (get_task task_id) (\<lambda>task.
     if ts_earl_id task \<noteq> earl_id then act_raise (not_owner earl_id task_id)
     else act_raise (Exn TypeError (ledger_class @ ''.read_events() got an unexpected keyword argument '' @ [CHR 0x27] @
       ''event_type_pattern'' @ [CHR 0x27])))"

section \<open>What an activation changes\<close>

text \<open>A call that leaves tasks, ledger and registry of intents alone.\<close>

definition untouched :: "'l world \<Rightarrow> 'l world \<Rightarrow> bool" where
  "untouched w w' \<longleftrightarrow> w_tasks w' = w_tasks w \<and> w_ledger w' = w_ledger w \<and> w_pending w' = w_pending w"

interpretation untouched: frame_relation untouched
  by unfold_locales (auto simp: untouched_def)

lemma transition_task_run:
  "task_ok t \<Longrightarrow> is_valid_transition (ts_current_status t) s \<Longrightarrow>
     transition_task t s w =
       (let t' = t\<lparr>ts_current_status := s, ts_state_entered_at := w_clock w (w_clock_reads w)\<rparr> in
        (Inr t', w\<lparr>w_clock_reads := w_clock_reads w + 1, w_tasks := dict_set (ts_task_id t) t' (w_tasks w)\<rparr>))"
  by (simp add: transition_task_def act_bind_def transition_ok Let_def)

text \<open>The body of the two-phase operation, from a world that holds the new task.\<close>

definition activation_outcome ::
  "task_state \<Rightarrow> 'l world \<Rightarrow> exn + task_activation_result \<times> payload \<Rightarrow> 'l world \<Rightarrow> bool" where
  "activation_outcome t w rb w' \<longleftrightarrow> w_ledger w' = w_ledger w \<and> w_pending w' = w_pending w \<and>
     (\<exists>t'. w_tasks w' = dict_set (ts_task_id t) t' (w_tasks w) \<and> same_identity t t' \<and>
       (case rb of
          Inl _ \<Rightarrow> ts_current_status t' \<in> {ACTIVATED, ROUTED}
        | Inr (res, _) \<Rightarrow> ts_current_status (tar_task_state res) = ACTIVATED \<and> same_identity t (tar_task_state res) \<and>
            (tar_success res \<longleftrightarrow> tar_routing_status res = ROUTING_ROUTED) \<and>
            ts_current_status t' = (if tar_success res then ROUTED else ACTIVATED)))"

lemma route_untouched:
  assumes "task_ok t" and "ts_current_status t = ACTIVATED" and "\<And>i c ty m. framed untouched (send i c ty m)"
    and "route_to_cluster_internal send t c (Some content) w = (r, w')"
  shows "untouched (w\<lparr>w_tasks := dict_set (ts_task_id t)
    (t\<lparr>ts_current_status := ROUTED, ts_state_entered_at := w_clock w (w_clock_reads w)\<rparr>) (w_tasks w)\<rparr>) w'"
  using assms(1,2,4) framedD [OF assms(3)]
  by (auto simp: route_to_cluster_internal_def act_bind_def transition_task_run Let_def untouched_def
      split: prod.splits sum.splits dest!: framedD [OF assms(3)])

lemma handle_filter_result_outcome:
  assumes ok: "task_ok t" "ts_current_status t = ACTIVATED" and res: "mk_filter_result fr = Inr fr"
    and send: "\<And>i c ty m. framed untouched (send i c ty m)"
    and stored: "dict_set (ts_task_id t) t (w_tasks w) = w_tasks w"
    and run: "handle_filter_result send t c fr w = (rb, w')"
  shows "activation_outcome t w rb w'"
proof (cases "fr_decision fr")
  case DECISION_ACCEPTED
  with res obtain fc where fc: "fr_content fr = Some fc" by (auto simp: mk_filter_result_def split: if_splits)
  let ?t = "t\<lparr>ts_current_status := ROUTED, ts_state_entered_at := w_clock w (w_clock_reads w)\<rparr>"
  have routed: "untouched (w\<lparr>w_tasks := dict_set (ts_task_id t) ?t (w_tasks w)\<rparr>) w' \<and>
      (case rb of Inl _ \<Rightarrow> True | Inr (res, _) \<Rightarrow> tar_task_state res = t \<and> tar_success res \<and>
         tar_routing_status res = ROUTING_ROUTED)"
    using run route_untouched [OF ok send, where c = c and w = "w\<lparr>w_uuid_draws := w_uuid_draws w + 1\<rparr>"]
    by (auto simp: handle_filter_result_def DECISION_ACCEPTED fc untouched_def elim!: act_bind_cases)
  then show ?thesis
    using ok by (auto simp: activation_outcome_def untouched_def same_identity_def split: sum.splits)
next
  case DECISION_REJECTED
  with run have "untouched w w' \<and> (\<exists>res p. rb = Inr (res, p) \<and> tar_task_state res = t \<and> \<not> tar_success res \<and>
      tar_routing_status res = ROUTING_PENDING_REWRITE)"
    by (auto simp: handle_filter_result_def act_bind_def untouched_def)
  then show ?thesis
    using ok stored by (auto simp: activation_outcome_def untouched_def same_identity_def intro!: exI [of _ t])
next
  case DECISION_BLOCKED
  with run have "untouched w w' \<and> (\<exists>res p. rb = Inr (res, p) \<and> tar_task_state res = t \<and> \<not> tar_success res \<and>
      tar_routing_status res = ROUTING_BLOCKED)"
    by (auto simp: handle_filter_result_def act_bind_def untouched_def)
  then show ?thesis
    using ok stored by (auto simp: activation_outcome_def untouched_def same_identity_def intro!: exI [of _ t])
qed

lemma activation_body_outcome:
  assumes t: "task_ok t" "ts_current_status t = AUTHORIZED"
    and filter_port: "framed untouched (filter_port content)"
      "\<And>w fr w'. filter_port content w = (Inr fr, w') \<Longrightarrow> mk_filter_result fr = Inr fr"
    and send: "\<And>i c ty m. framed untouched (send i c ty m)"
    and run: "activation_body filter_port send t c content w = (rb, w')"
  shows "activation_outcome t w rb w'"
proof -
  let ?t = "t\<lparr>ts_current_status := ACTIVATED, ts_state_entered_at := w_clock w (w_clock_reads w)\<rparr>"
  let ?w = "w\<lparr>w_clock_reads := w_clock_reads w + 1, w_tasks := dict_set (ts_task_id t) ?t (w_tasks w)\<rparr>"
  have "act_bind (filter_port content) (handle_filter_result send ?t c) ?w = (rb, w')"
    using run t by (simp add: activation_body_def act_bind_def transition_task_run Let_def)
  then show ?thesis
  proof (cases rule: act_bind_cases)
    case (raised e)
    then show ?thesis
      using framedD [OF filter_port(1) raised(1)]
      by (auto simp: activation_outcome_def untouched_def same_identity_def intro!: exI [of _ ?t])
  next
    case (returned fr u)
    have u: "w_tasks u = dict_set (ts_task_id t) ?t (w_tasks w)" "w_ledger u = w_ledger w" "w_pending u = w_pending w"
      using framedD [OF filter_port(1) returned(1)] by (simp_all add: untouched_def)
    have "activation_outcome ?t u rb w'"
      by (rule handle_filter_result_outcome [OF _ _ filter_port(2) [OF returned(1)] send _ returned(2)])
        (use t u in \<open>simp_all add: dict_set_set\<close>)
    moreover have "same_identity ?t x \<longleftrightarrow> same_identity t x" for x by (simp add: same_identity_def)
    ultimately show ?thesis
      by (simp add: activation_outcome_def u dict_set_set cong: sum.case_cong prod.case_cong)
  qed
qed

text \<open>What the store answers for a new task.\<close>

definition new_task :: "string \<Rightarrow> string \<Rightarrow> timedelta \<Rightarrow> 'l world \<Rightarrow> task_state" where
  "new_task earl_id cluster_id ttl w =
     \<lparr>ts_task_id = w_uuid w (w_uuid_draws w), ts_earl_id = earl_id, ts_cluster_id = Some cluster_id,
      ts_current_status = AUTHORIZED, ts_created_at = w_clock w (w_clock_reads w),
      ts_state_entered_at = w_clock w (w_clock_reads w), ts_ttl = ttl, ts_inactivity_timeout = hours 48,
      ts_reporting_timeout = days 7\<rparr>"

lemma new_task_ok: "\<not> blank earl_id \<Longrightarrow> 0 < ttl \<Longrightarrow> task_ok (new_task earl_id cluster_id ttl w)"
  by (simp add: task_ok_def new_task_def hours_def days_def microseconds_per_second_def)

lemma new_task_status [simp]: "ts_current_status (new_task earl_id cluster_id ttl w) = AUTHORIZED"
  by (simp add: new_task_def)

lemma create_task_run:
  assumes "\<not> blank earl_id" and "0 < ttl"
  shows "create_task earl_id (Some cluster_id) ttl w =
    (let t = new_task earl_id cluster_id ttl w in
     (Inr t, w\<lparr>w_uuid_draws := w_uuid_draws w + 1, w_clock_reads := w_clock_reads w + 1,
       w_tasks := dict_set (ts_task_id t) t (w_tasks w)\<rparr>))"
  using assms by (simp add: create_task_def act_bind_def create_task_state_def mk_task_state_def new_task_def Let_def
      hours_def days_def microseconds_per_second_def)

lemma create_task_refused:
  assumes "blank earl_id \<or> ttl \<le> 0"
  shows "\<exists>e. create_task earl_id c ttl w =
    (Inl e, w\<lparr>w_uuid_draws := w_uuid_draws w + 1, w_clock_reads := w_clock_reads w + 1\<rparr>) \<and>
    exn_kind e = ConstitutionalViolationError"
  using assms by (auto simp: create_task_def act_bind_def create_task_state_def mk_task_state_def)

text \<open>An intent was recorded and nothing after it; it stays pending.\<close>

definition leaves_intent :: "uuid \<Rightarrow> memory_ledger world \<Rightarrow> memory_ledger world \<Rightarrow> bool" where
  "leaves_intent correlation_id w w' \<longleftrightarrow> dict_get (w_pending w') correlation_id \<noteq> None \<and>
     take (length (ml_events (w_ledger w))) (ml_events (w_ledger w')) = ml_events (w_ledger w) \<and>
     map ge_event_type (new_events w w') = [intent_type]"

definition activation_spec ::
  "string \<Rightarrow> string \<Rightarrow> timedelta \<Rightarrow> memory_ledger world \<Rightarrow> exn + task_activation_result \<Rightarrow> memory_ledger world \<Rightarrow> bool" where
  "activation_spec earl_id cluster_id ttl w r w' \<longleftrightarrow>
     (if blank earl_id \<or> ttl \<le> 0 then
        (\<exists>e. r = Inl e \<and> exn_kind e = ConstitutionalViolationError) \<and> w_tasks w' = w_tasks w \<and> w_ledger w' = w_ledger w
      else
        (\<exists>t. same_identity (new_task earl_id cluster_id ttl w) t \<and> w_tasks w' = dict_set (ts_task_id t) t (w_tasks w) \<and>
          (case r of
             Inr res \<Rightarrow> ts_current_status (tar_task_state res) = ACTIVATED \<and> same_identity t (tar_task_state res) \<and>
               (tar_success res \<longleftrightarrow> tar_routing_status res = ROUTING_ROUTED) \<and>
               ts_current_status t = (if tar_success res then ROUTED else ACTIVATED) \<and>
               records w w' [intent_type, commit_type]
           | Inl e \<Rightarrow> ts_current_status t \<in> {ACTIVATED, ROUTED} \<and>
               (if blank (exn_str e) then
                  leaves_intent (w_uuid w (w_uuid_draws w + 1)) w w'
                else records w w' [intent_type, failure_type]))))"

text \<open>Routing by hand, and the Cluster it is asked for.\<close>

lemma route_to_cluster_run:
  assumes "tasks_ok w" and "dict_get (w_tasks w) i = Some t" and "ts_current_status t = ACTIVATED"
  shows "route_to_cluster i c w = (Inr True, w\<lparr>w_clock_reads := w_clock_reads w + 1, w_tasks := dict_set i
    (t\<lparr>ts_current_status := ROUTED, ts_state_entered_at := w_clock w (w_clock_reads w)\<rparr>) (w_tasks w)\<rparr>)"
proof -
  have "task_ok t" "ts_task_id t = i" using assms(1,2) by (auto simp: tasks_ok_def)
  then show ?thesis
    using assms(3) by (simp add: route_to_cluster_def act_bind_def get_task_Some [OF assms(2)] transition_task_run Let_def)
qed

text \<open>An Earl can read neither the state of a task that waits for consent nor the history of any task.\<close>

lemma earl_reads_nothing:
  assumes "dict_get (w_tasks w) i = Some t" and "ts_earl_id t = earl"
  shows "\<exists>e. get_task_history ledger_class i earl w = (Inl e, w) \<and> exn_kind e = TypeError"
    and "is_pre_consent (ts_current_status t) \<Longrightarrow> \<exists>e. get_task_state i earl w = (Inl e, w) \<and> exn_kind e = TypeError"
  using assms(2) by (simp_all add: get_task_history_def get_task_state_def calculate_ttl_remaining_def act_bind_def
      get_task_Some [OF assms(1)])

lemma passthrough_untouched:
  "framed untouched (passthrough_filter blake2b version content)"
  "passthrough_filter blake2b version content w = (Inr fr, w') \<Longrightarrow> mk_filter_result fr = Inr fr"
  by (auto simp: passthrough_filter_def act_bind_def filter_accepted_def mk_filter_result_def framed_def untouched_def)

lemma activate_op: "op_ok ''task.activate''" "first_segment ''task.activate'' = ''task''"
  by code_simp+

lemma activation_memory:
  assumes "memory_inv (w_ledger w)" and "dict_get (w_pending w) (w_uuid w (w_uuid_draws w + 1)) = None"
    and "\<not> blank earl" and "0 < activation_ttl ttl"
    and "\<And>a rb b. activation_body filter_port send (new_task earl c (activation_ttl ttl) w) c
        (content_to_filter description requirements outcomes) a = (rb, b) \<Longrightarrow>
      activation_outcome (new_task earl c (activation_ttl ttl) w) a rb b \<and> Q rb"
    and "create_activation memory_append_event ttl_hours filter_port send earl c description requirements outcomes ttl w =
      (r, w')"
  shows "activation_spec earl c (activation_ttl ttl) w r w' \<and>
    (\<exists>rb. Q rb \<and> (case rb of Inr (x, _) \<Rightarrow> r = Inr x | Inl e \<Rightarrow> r = Inl e))"
proof -
  let ?ttl = "activation_ttl ttl"
  let ?t = "new_task earl c ?ttl w"
  let ?body = "activation_body filter_port send ?t c (content_to_filter description requirements outcomes)"
  let ?u = "w\<lparr>w_uuid_draws := w_uuid_draws w + 1, w_clock_reads := w_clock_reads w + 1,
       w_tasks := dict_set (ts_task_id ?t) ?t (w_tasks w)\<rparr>"
  have t: "task_ok ?t" "ts_current_status ?t = AUTHORIZED" using assms(3,4) by (simp_all add: new_task_ok)
  have body: "activation_outcome ?t a rb b" if "?body a = (rb, b)" for a rb b
    using assms(5) [OF that] by simp
  have frames: "framed same_pending ?body" "framed (world_grows ml_events memory_inv) ?body"
    using body by (auto simp: activation_outcome_def same_pending_def intro!: framedI framed_same_ledger)
  have run: "two_phase_execution memory_append_event ''task.activate'' earl (uuid_str (ts_task_id ?t))
      [(''cluster_id'', PyStr c), (''ttl_hours'', ttl_hours ?ttl)] ?body ?u = (r, w')"
    using assms(6,3,4) by (simp add: create_activation_def Let_def act_bind_def create_task_run Let_def)
  have u: "memory_inv (w_ledger ?u)" "\<not> blank earl" "dict_get (w_pending ?u) (w_uuid ?u (w_uuid_draws ?u)) = None"
    using assms(1-3) by simp_all
  obtain intent w1 rb w2 where *: "?body w1 = (rb, w2)" "same_tasks ?u w1" "same_tasks w2 w'"
      "ml_events (w_ledger w1) = ml_events (w_ledger ?u) @ [intent]"
      "ge_event_type (pe_event intent) = intent_type"
    and outcome: "case rb of
       Inr (x, _) \<Rightarrow> r = Inr x \<and> w_pending w' = w_pending ?u \<and>
         (\<exists>commit. ml_events (w_ledger w') = ml_events (w_ledger w2) @ [commit] \<and>
            ge_event_type (pe_event commit) = commit_type)
     | Inl e \<Rightarrow> r = Inl e \<and> (if blank (exn_str e) then ml_events (w_ledger w') = ml_events (w_ledger w2) \<and>
           dict_get (w_pending w') (w_uuid ?u (w_uuid_draws ?u)) \<noteq> None
         else w_pending w' = w_pending ?u \<and>
         (\<exists>failure. ml_events (w_ledger w') = ml_events (w_ledger w2) @ [failure] \<and>
            ge_event_type (pe_event failure) = failure_type))"
    using two_phase_memory [OF u(1) activate_op(1) u(2) uuid_str_nonblank frames u(3) run]
    unfolding activate_op(2)
    by (elim exE conjE)
      (rule that, auto simp: intent_type_def commit_type_def failure_type_def split: sum.splits if_splits)
  obtain t' where t': "w_ledger w2 = w_ledger w1" "w_tasks w2 = dict_set (ts_task_id ?t) t' (w_tasks w1)"
      "same_identity ?t t'"
    and after: "case rb of
          Inl _ \<Rightarrow> ts_current_status t' \<in> {ACTIVATED, ROUTED}
        | Inr (res, _) \<Rightarrow> ts_current_status (tar_task_state res) = ACTIVATED \<and> same_identity ?t (tar_task_state res) \<and>
            (tar_success res \<longleftrightarrow> tar_routing_status res = ROUTING_ROUTED) \<and>
            ts_current_status t' = (if tar_success res then ROUTED else ACTIVATED)"
    using body [OF *(1)] unfolding activation_outcome_def by blast
  have id: "ts_task_id t' = ts_task_id ?t" "same_identity t' x \<longleftrightarrow> same_identity ?t x" for x
    using t'(3) by (auto simp: same_identity_def)
  have tasks: "w_tasks w' = dict_set (ts_task_id t') t' (w_tasks w)"
    using t'(2) *(2,3) id(1) by (simp add: same_tasks_def dict_set_set)
  have rb: "case rb of Inr (x, _) \<Rightarrow> r = Inr x \<and> records w w' [intent_type, commit_type]
      | Inl e \<Rightarrow> r = Inl e \<and> (if blank (exn_str e) then
            leaves_intent (w_uuid w (w_uuid_draws w + 1)) w w'
          else records w w' [intent_type, failure_type])"
  proof (cases rb)
    case (Inl e)
    then show ?thesis using outcome *(4,5) t'(1) by (cases "blank (exn_str e)") (auto simp: records_def leaves_intent_def new_events_def)
  next
    case (Inr xp)
    then show ?thesis using outcome *(4,5) t'(1) by (cases xp) (auto simp: records_def leaves_intent_def new_events_def)
  qed
  from rb after have "case r of
             Inr res \<Rightarrow> ts_current_status (tar_task_state res) = ACTIVATED \<and> same_identity t' (tar_task_state res) \<and>
               (tar_success res \<longleftrightarrow> tar_routing_status res = ROUTING_ROUTED) \<and>
               ts_current_status t' = (if tar_success res then ROUTED else ACTIVATED) \<and>
               records w w' [intent_type, commit_type]
           | Inl e \<Rightarrow> ts_current_status t' \<in> {ACTIVATED, ROUTED} \<and>
               (if blank (exn_str e) then
                  leaves_intent (w_uuid w (w_uuid_draws w + 1)) w w'
                else records w w' [intent_type, failure_type])"
    by (cases rb) (auto simp: id(2))
  moreover have no: "\<not> (blank earl \<or> ?ttl \<le> 0)" using assms(3,4) by simp
  ultimately have "activation_spec earl c ?ttl w r w'"
    using tasks t'(3) unfolding activation_spec_def if_not_P [OF no] by blast
  moreover have "case rb of Inr (x, _) \<Rightarrow> r = Inr x | Inl e \<Rightarrow> r = Inl e" using rb by (auto split: sum.splits)
  ultimately show ?thesis using assms(5) [OF *(1)] by blast
qed

section \<open>Properties\<close>

text \<open>
  C34: creating an activation over the in-memory ledger. A blank Earl or a TTL that is not positive is refused before
  anything is recorded. Otherwise the new task is stored whatever happens next: routed to its Cluster exactly if the
  activation succeeds, and left \<open>activated\<close> when the filter rejects or blocks the text, both with an intent and its
  commit. If the filter or the message port raises, the failure is recorded but the task is not taken back: it stays
  \<open>activated\<close>, or even \<open>routed\<close> although no message went out. An exception with a blank message (\<open>TimeoutError()\<close>, say)
  leaves no failure in the ledger, only the intent, which stays pending. The task in the result is the one from before routing: it
  says \<open>activated\<close> also when the store says \<open>routed\<close>.
\<close>

theorem create_activation_spec:
  assumes "memory_inv (w_ledger w)" and "dict_get (w_pending w) (w_uuid w (w_uuid_draws w + 1)) = None"
    and "\<And>x. framed untouched (filter_port x)"
    and "\<And>x u fr u'. filter_port x u = (Inr fr, u') \<Longrightarrow> mk_filter_result fr = Inr fr"
    and "\<And>i x ty m. framed untouched (send i x ty m)"
    and "create_activation memory_append_event ttl_hours filter_port send earl c description requirements outcomes ttl w =
      (r, w')"
  shows "activation_spec earl c (activation_ttl ttl) w r w'"
proof (cases "blank earl \<or> activation_ttl ttl \<le> 0")
  case True
  with create_task_refused [OF True, of "Some c" w] assms(6) show ?thesis
    by (auto simp: activation_spec_def create_activation_def Let_def act_bind_def)
next
  case False
  then have ok: "\<not> blank earl" "0 < activation_ttl ttl" by simp_all
  have body: "activation_outcome (new_task earl c (activation_ttl ttl) w) a rb b \<and> True"
    if "activation_body filter_port send (new_task earl c (activation_ttl ttl) w) c
        (content_to_filter description requirements outcomes) a = (rb, b)" for a rb b
    using activation_body_outcome [OF new_task_ok [OF ok] new_task_status assms(3-5) that] by simp
  show ?thesis by (rule activation_memory [OF assms(1,2) ok body assms(6), THEN conjunct1])
qed

theorem create_activation_spec_witness:
  "let (r, w') = create_activation memory_append_event (\<lambda>_. PyNone) (passthrough_filter (\<lambda>s. s) (0 :: nat))
     (\<lambda>_ _ _ _. act_return True) ''earl'' ''cluster-1'' ''build'' [''test''] [] None (example_world [] 5)
   in activation_spec ''earl'' ''cluster-1'' (hours 72) (example_world [] 5) r w'"
proof -
  let ?run = "create_activation memory_append_event (\<lambda>_. PyNone) (passthrough_filter (\<lambda>s. s) (0 :: nat))
     (\<lambda>_ _ _ _. act_return True) ''earl'' ''cluster-1'' ''build'' [''test''] [] None (example_world [] 5)"
  obtain r w' where run: "?run = (r, w')" by fastforce
  have w: "memory_inv (w_ledger (example_world [] 5))"
    "dict_get (w_pending (example_world [] 5)) (w_uuid (example_world [] 5) (w_uuid_draws (example_world [] 5) + 1)) = None"
    by (simp_all add: example_world_def memory_inv_def memory_ledger_init_def)
  have "activation_spec ''earl'' ''cluster-1'' (activation_ttl None) (example_world [] 5) r w'"
    by (rule create_activation_spec [OF w passthrough_untouched untouched.framed_return run])
  then show ?thesis using run by (simp add: activation_ttl_def)
qed

text \<open>
  C35: activation through the filter over the pattern file. As soon as the file has one pattern that blocks or rejects,
  every activation is answered "rejected, please revise", whatever its text: the filter reads the patterns as
  dictionaries, the library answers objects, and the error is turned into a rejection whose guidance is the
  interpreter's message. No task is ever routed and no message goes out; each leaves a task that stays \<open>activated\<close>.
\<close>

theorem yaml_filter_never_routes:
  assumes "memory_inv (w_ledger w)" and "dict_get (w_pending w) (w_uuid w (w_uuid_draws w + 1)) = None"
    and "\<not> blank earl" and "0 < activation_ttl ttl"
    and "\<exists>p\<in>set patterns. cp_severity p = BLOCK \<or> cp_severity p = REJECT"
    and "create_activation memory_append_event ttl_hours
        (filter_content rx blake2b (read_monotonic micros) (yaml_library version patterns)) send
        earl c description requirements outcomes ttl w = (r, w')"
  shows "activation_spec earl c (activation_ttl ttl) w r w' \<and>
    (\<exists>res. r = Inr res \<and> \<not> tar_success res \<and> tar_routing_status res = ROUTING_PENDING_REWRITE \<and>
       tar_rejection_reason res = Some (filter_error not_subscriptable))"
proof -
  let ?filter = "filter_content rx blake2b (read_monotonic micros) (yaml_library version patterns)"
  have body: "activation_outcome (new_task earl c (activation_ttl ttl) w) a rb b \<and>
      (\<exists>res p. rb = Inr (res, p) \<and> \<not> tar_success res \<and> tar_routing_status res = ROUTING_PENDING_REWRITE \<and>
         tar_rejection_reason res = Some (filter_error not_subscriptable))"
    if run: "activation_body ?filter send (new_task earl c (activation_ttl ttl) w) c
        (content_to_filter description requirements outcomes) a = (rb, b)" for a rb b
    using run [symmetric] assms(3,4)
    by (simp add: activation_body_def act_bind_def transition_task_run new_task_ok Let_def yaml_filter_run [OF assms(5)]
        handle_filter_result_def activation_outcome_def same_identity_def text_or_def filter_error_def)
      (rule exI, rule conjI, rule refl, simp)
  show ?thesis using activation_memory [OF assms(1-4) body assms(6)] by auto
qed

theorem yaml_filter_never_routes_witness:
  "let p = \<lparr>cp_id = ''b1'', cp_category = CAT_HARD_VIOLATION, cp_severity = BLOCK, cp_pattern = ''threat'',
       cp_description = ''a threat'', cp_replacement = None, cp_rejection_reason = None, cp_violation_type = None,
       cp_case_sensitive = False\<rparr>;
     (r, w') = create_activation memory_append_event (\<lambda>_. PyNone)
       (filter_content example_regex (\<lambda>s. s) (read_monotonic (\<lambda>_. 0)) (yaml_library ''1'' [p]))
       (\<lambda>_ _ _ _. act_return True) ''earl'' ''cluster-1'' ''build'' [''test''] [] None (example_world [] 5)
   in \<exists>res. r = Inr res \<and> tar_rejection_reason res = Some (filter_error not_subscriptable)"
proof -
  obtain p where p: "p = \<lparr>cp_id = ''b1'', cp_category = CAT_HARD_VIOLATION, cp_severity = BLOCK, cp_pattern = ''threat'',
       cp_description = ''a threat'', cp_replacement = None, cp_rejection_reason = None, cp_violation_type = None,
       cp_case_sensitive = False\<rparr>" by blast
  obtain r w' where run: "create_activation memory_append_event (\<lambda>_. PyNone)
       (filter_content example_regex (\<lambda>s. s) (read_monotonic (\<lambda>_. 0)) (yaml_library ''1'' [p]))
       (\<lambda>_ _ _ _. act_return True) ''earl'' ''cluster-1'' ''build'' [''test''] [] None (example_world [] 5) = (r, w')"
    by fastforce
  have w: "memory_inv (w_ledger (example_world [] 5))"
    "dict_get (w_pending (example_world [] 5)) (w_uuid (example_world [] 5) (w_uuid_draws (example_world [] 5) + 1)) = None"
    by (simp_all add: example_world_def memory_inv_def memory_ledger_init_def)
  have ok: "\<not> blank ''earl''" "0 < activation_ttl None" by code_simp+
  have block: "\<exists>q\<in>set [p]. cp_severity q = BLOCK \<or> cp_severity q = REJECT" by (simp add: p)
  show ?thesis
    using yaml_filter_never_routes [OF w ok block run] run unfolding p [symmetric] by auto
qed

end
