(* ===== verification/Acknowledgment.thy ===== *)
theory Acknowledgment
  imports Petition Event_Envelope
begin

text \<open>
  Acknowledging a petition (\<open>src/application/services/acknowledgment_execution_service.py\<close>): reason codes and
  acknowledgments (\<open>src/domain/models/acknowledgment_reason.py\<close>, \<open>acknowledgment.py\<close>), the event
  (\<open>src/domain/events/acknowledgment.py\<close>) and the repository of acknowledgments
  (\<open>src/infrastructure/stubs/acknowledgment_execution_stub.py\<close>). The petition repository, the hash service, the event
  writer and the sessions are arguments: no class of the repository has the operations that the service calls on them.
  Nothing is assumed of them but that they do not reach into the repository of acknowledgments.
\<close>

section \<open>Reason codes\<close>

datatype reason_code = ADDRESSED | NOTED | DUPLICATE | OUT_OF_SCOPE | REFUSED | NO_ACTION_WARRANTED | WITHDRAWN | EXPIRED | KNIGHT_REFERRAL

fun reason_code_value :: "reason_code \<Rightarrow> string" where
  "reason_code_value ADDRESSED = ''ADDRESSED''"
| "reason_code_value NOTED = ''NOTED''"
| "reason_code_value DUPLICATE = ''DUPLICATE''"
| "reason_code_value OUT_OF_SCOPE = ''OUT_OF_SCOPE''"
| "reason_code_value REFUSED = ''REFUSED''"
| "reason_code_value NO_ACTION_WARRANTED = ''NO_ACTION_WARRANTED''"
| "reason_code_value WITHDRAWN = ''WITHDRAWN''"
| "reason_code_value EXPIRED = ''EXPIRED''"
| "reason_code_value KNIGHT_REFERRAL = ''KNIGHT_REFERRAL''"

definition requires_rationale :: "reason_code \<Rightarrow> bool" where
  "requires_rationale code \<longleftrightarrow> code \<in> {REFUSED, NO_ACTION_WARRANTED}"

definition requires_reference :: "reason_code \<Rightarrow> bool" where
  "requires_reference code \<longleftrightarrow> code = DUPLICATE"

text \<open>\<open>not rationale or not rationale.strip()\<close>.\<close>

definition no_text :: "string option \<Rightarrow> bool" where
  "no_text s = (case s of None \<Rightarrow> True | Some x \<Rightarrow> blank x)"

definition rationale_required :: "reason_code \<Rightarrow> exn" where
  "rationale_required code = Exn RationaleRequiredError
     (''Rationale is required for reason code '' @ [CHR 0x27] @ reason_code_value code @ [CHR 0x27] @
      ''. Per FR-3.3, acknowledgments with REFUSED or NO_ACTION_WARRANTED must include a non-empty rationale explaining the decision.'')"

definition reference_required :: exn where
  "reference_required = Exn ReferenceRequiredError
     ''Reference petition ID is required for DUPLICATE acknowledgments. Per FR-3.4, DUPLICATE reason code must include the petition_id of the original or already-resolved petition.''"

definition validate_acknowledgment_requirements :: "reason_code \<Rightarrow> string option \<Rightarrow> uuid option \<Rightarrow> exn + unit" where
  "validate_acknowledgment_requirements code rationale reference =
     (if requires_rationale code \<and> no_text rationale then Inl (rationale_required code)
      else if requires_reference code \<and> reference = None then Inl reference_required
      else Inr ())"

section \<open>Acknowledgments\<close>

definition min_acknowledging_archons :: nat where
  "min_acknowledging_archons = 2"

definition acknowledgment_schema_version :: string where
  "acknowledgment_schema_version = ''1.0.0''"

record acknowledgment =
  ak_id :: uuid
  ak_petition_id :: uuid
  ak_reason_code :: reason_code
  ak_rationale :: "string option"
  ak_reference_petition_id :: "uuid option"
  ak_acknowledging_archon_ids :: "int list"
  ak_acknowledged_by_king_id :: "uuid option"
  ak_acknowledged_at :: datetime
  ak_witness_hash :: string

definition insufficient_archons :: "nat \<Rightarrow> exn" where
  "insufficient_archons actual_count = Exn InsufficientArchonsError
     (''At least '' @ show_nat min_acknowledging_archons @ '' archons must vote ACKNOWLEDGE, but only '' @ show_nat actual_count @
      '' were provided. This violates FR-11.5 supermajority consensus requirement.'')"

definition mk_acknowledgment :: "acknowledgment \<Rightarrow> exn + acknowledgment" where
  "mk_acknowledgment a =
     (case validate_acknowledgment_requirements (ak_reason_code a) (ak_rationale a) (ak_reference_petition_id a) of
        Inl e \<Rightarrow> Inl e
      | Inr _ \<Rightarrow>
          if ak_reason_code a \<noteq> KNIGHT_REFERRAL \<and> ak_acknowledged_by_king_id a = None \<and>
             length (ak_acknowledging_archon_ids a) < min_acknowledging_archons then
            Inl (insufficient_archons (length (ak_acknowledging_archon_ids a)))
          else if blank (ak_witness_hash a) then Inl (Exn ValueError ''witness_hash is required for CT-12 compliance'')
          else Inr a)"

section \<open>The event\<close>

record acknowledged_event =
  ae_event_id :: uuid
  ae_acknowledgment_id :: uuid
  ae_petition_id :: uuid
  ae_reason_code :: reason_code
  ae_acknowledging_archon_ids :: "int list"
  ae_acknowledged_at :: datetime
  ae_witness_hash :: string
  ae_rationale :: "string option"
  ae_reference_petition_id :: "uuid option"
  ae_created_at :: datetime

text \<open>The schema version is the default, which its check accepts.\<close>

definition mk_acknowledged_event :: "acknowledged_event \<Rightarrow> exn + acknowledged_event" where
  "mk_acknowledged_event e =
     (if length (ae_acknowledging_archon_ids e) < 2 then
        Inl (Exn ValueError (''acknowledging_archon_ids must contain at least 2 IDs, got '' @
          show_nat (length (ae_acknowledging_archon_ids e))))
      else if blank (ae_witness_hash e) then Inl (Exn ValueError ''witness_hash is required for CT-12 witnessing compliance'')
      else if requires_rationale (ae_reason_code e) \<and> no_text (ae_rationale e) then
        Inl (Exn ValueError (''rationale is required for reason code '' @ reason_code_value (ae_reason_code e) @ '' per FR-3.3''))
      else if requires_reference (ae_reason_code e) \<and> ae_reference_petition_id e = None then
        Inl (Exn ValueError ''reference_petition_id is required for DUPLICATE reason per FR-3.4'')
      else Inr e)"

definition str_or_none :: "string option \<Rightarrow> pyval" where
  "str_or_none s = (case s of None \<Rightarrow> PyNone | Some x \<Rightarrow> PyStr x)"

definition acknowledged_event_dict :: "acknowledged_event \<Rightarrow> payload" where
  "acknowledged_event_dict e =
     [(''event_type'', PyStr ''petition.fate.acknowledged''), (''event_id'', PyStr (uuid_str (ae_event_id e))),
      (''acknowledgment_id'', PyStr (uuid_str (ae_acknowledgment_id e))), (''petition_id'', PyStr (uuid_str (ae_petition_id e))),
      (''reason_code'', PyStr (reason_code_value (ae_reason_code e))), (''rationale'', str_or_none (ae_rationale e)),
      (''reference_petition_id'', str_or_none (map_option uuid_str (ae_reference_petition_id e))),
      (''acknowledging_archon_ids'', PyList (map PyInt (ae_acknowledging_archon_ids e))),
      (''acknowledged_at'', PyStr (isoformat (ae_acknowledged_at e))), (''witness_hash'', PyStr (ae_witness_hash e)),
      (''schema_version'', PyInt 1), (''created_at'', PyStr (isoformat (ae_created_at e)))]"

section \<open>World and ports\<close>

text \<open>
  The repository of acknowledgments, clock and ids, and the state of all other collaborators (\<open>'p\<close>), which alone they can
  read and change. The commands given to them are logged, with the exception each raised, if any.
\<close>

datatype ack_command =
    UpdateState uuid petition_state string
  | MarkAcknowledged uuid uuid
  | WriteEvent payload
  | WriteKingEvent payload

record 'p ack_world =
  aw_store :: 'p
  aw_acks :: "(uuid, acknowledgment) dict"
  aw_by_petition :: "(uuid, acknowledgment) dict"
  aw_commands :: "(ack_command \<times> exn option) list"
  aw_clock :: "nat \<Rightarrow> datetime"
  aw_clock_reads :: nat
  aw_uuid :: "nat \<Rightarrow> uuid"
  aw_uuid_draws :: nat

definition ask :: "('p, 'a) act \<Rightarrow> ('p ack_world, 'a) act" where
  "ask m = (\<lambda>w. case m (aw_store w) of (r, s) \<Rightarrow> (r, w\<lparr>aw_store := s\<rparr>))"

definition tell :: "ack_command \<Rightarrow> ('p, unit) act \<Rightarrow> ('p ack_world, unit) act" where
  "tell command m = (\<lambda>w. case m (aw_store w) of (r, s) \<Rightarrow>
     (r, w\<lparr>aw_store := s, aw_commands := aw_commands w @ [(command, case r of Inl e \<Rightarrow> Some e | Inr _ \<Rightarrow> None)]\<rparr>))"

definition ack_now :: "('p ack_world, datetime) act" where
  "ack_now = (\<lambda>w. (Inr (aw_clock w (aw_clock_reads w)), w\<lparr>aw_clock_reads := aw_clock_reads w + 1\<rparr>))"

definition ack_uuid4 :: "('p ack_world, uuid) act" where
  "ack_uuid4 = (\<lambda>w. (Inr (aw_uuid w (aw_uuid_draws w)), w\<lparr>aw_uuid_draws := aw_uuid_draws w + 1\<rparr>))"

definition acknowledgment_already_exists :: "uuid \<Rightarrow> uuid \<Rightarrow> exn" where
  "acknowledgment_already_exists petition_id existing_id = Exn AcknowledgmentAlreadyExistsError
     (''Petition '' @ uuid_str petition_id @ '' has already been acknowledged (acknowledgment_id: '' @ uuid_str existing_id @
      ''). Per NFR-3.2, fate assignment is atomic and single.'')"

definition save_acknowledgment :: "acknowledgment \<Rightarrow> ('p ack_world, unit) act" where
  "save_acknowledgment a = (\<lambda>w.
     case dict_get (aw_by_petition w) (ak_petition_id a) of
       Some existing \<Rightarrow> (Inl (acknowledgment_already_exists (ak_petition_id a) (ak_id existing)), w)
     | None \<Rightarrow> (Inr (), w\<lparr>aw_acks := dict_set (ak_id a) a (aw_acks w),
         aw_by_petition := dict_set (ak_petition_id a) a (aw_by_petition w)\<rparr>))"

definition get_acknowledgment_by_petition :: "uuid \<Rightarrow> ('p ack_world, acknowledgment option) act" where
  "get_acknowledgment_by_petition i = (\<lambda>w. (Inr (dict_get (aw_by_petition w) i), w))"

definition get_acknowledgment :: "uuid \<Rightarrow> ('p ack_world, acknowledgment option) act" where
  "get_acknowledgment i = (\<lambda>w. (Inr (dict_get (aw_acks w) i), w))"

text \<open>
  The operations the service calls on its other collaborators, by the names it uses: arbitrary actions, any of which may
  raise. Sessions are optional and only their start is looked at; \<open>kp_tenths\<close> is \<open>f'{x:.1f}'\<close> of a number of seconds.
\<close>

record 'p ack_ports =
  kp_get_by_id :: "uuid \<Rightarrow> ('p, petition_submission option) act"
  kp_get :: "uuid \<Rightarrow> ('p, petition_submission option) act"
  kp_update_state :: "uuid \<Rightarrow> petition_state \<Rightarrow> string \<Rightarrow> ('p, unit) act"
  kp_mark_acknowledged :: "uuid \<Rightarrow> uuid \<Rightarrow> ('p, unit) act"
  kp_compute_hash :: "string \<Rightarrow> ('p, string) act"
  kp_hash :: "string \<Rightarrow> ('p, string) act"
  kp_write :: "payload \<Rightarrow> ('p, unit) act"
  kp_write_event :: "string \<Rightarrow> payload \<Rightarrow> string \<Rightarrow> ('p, unit) act"
  kp_session :: "(uuid \<Rightarrow> ('p, datetime option) act) option"
  kp_min_dwell_seconds :: int
  kp_tenths :: "timedelta \<Rightarrow> string"

section \<open>Errors of the service\<close>

definition invalid_archon_count :: "nat \<Rightarrow> exn" where
  "invalid_archon_count actual_count = Exn InvalidArchonCountError
     (''Acknowledgment requires at least '' @ show_nat min_acknowledging_archons @ '' archons, but only '' @
      show_nat actual_count @ '' were provided. Per FR-11.5, supermajority (2-of-3) is required.'')"

definition ack_petition_not_found :: "uuid \<Rightarrow> exn" where
  "ack_petition_not_found i = Exn PetitionNotFoundError (''Petition not found: '' @ uuid_str i)"

definition not_deliberating :: "uuid \<Rightarrow> petition_state \<Rightarrow> exn" where
  "not_deliberating i state = Exn PetitionNotInDeliberatingStateError
     (''Petition '' @ uuid_str i @ '' is in state '' @ [CHR 0x27] @ petition_state_value state @ [CHR 0x27] @ '', but must be in '' @
      [CHR 0x27] @ ''DELIBERATING'' @ [CHR 0x27] @ '' state for acknowledgment. Per FR-3.1, acknowledgment requires deliberation consensus.'')"

definition invalid_reference :: "uuid \<Rightarrow> uuid \<Rightarrow> exn" where
  "invalid_reference i reference = Exn InvalidReferencePetitionError
     (''DUPLICATE acknowledgment for petition '' @ uuid_str i @ '' references non-existent petition '' @ uuid_str reference @
      ''. Per FR-3.4, reference_petition_id must point to an existing petition.'')"

definition witness_hash_generation :: "uuid \<Rightarrow> string \<Rightarrow> exn" where
  "witness_hash_generation i reason = Exn WitnessHashGenerationError
     (''Failed to generate witness hash for acknowledgment of petition '' @ uuid_str i @ '': '' @ reason @
      ''. Per CT-12, witnessing is required.'')"

definition session_not_found :: "uuid \<Rightarrow> exn" where
  "session_not_found i = Exn DeliberationSessionNotFoundError
     (''No deliberation session found for petition '' @ uuid_str i @
      '', but petition is in DELIBERATING state. This indicates inconsistent state.'')"

definition dwell_time_not_elapsed :: "(timedelta \<Rightarrow> string) \<Rightarrow> uuid \<Rightarrow> int \<Rightarrow> timedelta \<Rightarrow> exn" where
  "dwell_time_not_elapsed tenths i min_dwell_seconds elapsed = Exn DwellTimeNotElapsedError
     (''Petition '' @ uuid_str i @ '' has only been deliberating for '' @ tenths elapsed @ '' seconds, but minimum dwell time is '' @
      show_int min_dwell_seconds @ '' seconds. Remaining: '' @
      tenths (max 0 (min_dwell_seconds * microseconds_per_second - elapsed)) @
      '' seconds. Per FR-3.5, acknowledgment is delayed until dwell time passes.'')"

section \<open>Executing an acknowledgment\<close>

definition exempt :: "reason_code \<Rightarrow> bool" where
  "exempt code \<longleftrightarrow> code \<in> {KNIGHT_REFERRAL, EXPIRED}"

definition enforce_dwell_time :: "'p ack_ports \<Rightarrow> uuid \<Rightarrow> ('p ack_world, unit) act" where
  "enforce_dwell_time ports petition_id =
     (if kp_min_dwell_seconds ports = 0 then act_return ()
      else case kp_session ports of
        None \<Rightarrow> act_return ()
      | Some session_of \<Rightarrow>
          act_bind (ask (session_of petition_id)) (\<lambda>session.
          case session of
            None \<Rightarrow> act_raise (session_not_found petition_id)
          | Some started \<Rightarrow>
              act_bind ack_now (\<lambda>now.
              if now - started < kp_min_dwell_seconds ports * microseconds_per_second then
                act_raise (dwell_time_not_elapsed (kp_tenths ports) petition_id (kp_min_dwell_seconds ports) (now - started))
              else act_return ())))"

definition witness_content :: "uuid \<Rightarrow> uuid \<Rightarrow> reason_code \<Rightarrow> int list \<Rightarrow> datetime \<Rightarrow> string option \<Rightarrow> uuid option \<Rightarrow> string" where
  "witness_content acknowledgment_id petition_id code archons acknowledged_at rationale reference =
     join_str ''|''
       ([''acknowledgment_id:'' @ uuid_str acknowledgment_id, ''petition_id:'' @ uuid_str petition_id,
         ''reason_code:'' @ reason_code_value code, ''archons:'' @ join_str '','' (map show_int (sort archons)),
         ''acknowledged_at:'' @ isoformat acknowledged_at, ''schema_version:'' @ acknowledgment_schema_version] @
        (case rationale of None \<Rightarrow> [] | Some x \<Rightarrow> if x = [] then [] else [''rationale:'' @ x]) @
        (case reference of None \<Rightarrow> [] | Some i \<Rightarrow> [''reference_petition_id:'' @ uuid_str i]))"

definition check_reference :: "'p ack_ports \<Rightarrow> uuid \<Rightarrow> uuid option \<Rightarrow> ('p ack_world, unit) act" where
  "check_reference ports petition_id reference =
     (case reference of
        None \<Rightarrow> act_return ()
      | Some i \<Rightarrow> act_bind (ask (kp_get_by_id ports i)) (\<lambda>p.
          if p = None then act_raise (invalid_reference petition_id i) else act_return ()))"

text \<open>What remains once no acknowledgment was found: building it, and storing it; then the checks in front.\<close>

definition prepare_acknowledgment ::
  "'p ack_ports \<Rightarrow> uuid \<Rightarrow> reason_code \<Rightarrow> int list \<Rightarrow> string option \<Rightarrow> uuid option \<Rightarrow> ('p ack_world, acknowledgment) act" where
  "prepare_acknowledgment ports petition_id code archons rationale reference =
     act_bind (check_reference ports petition_id reference) (\<lambda>_.
     act_bind ack_uuid4 (\<lambda>acknowledgment_id.
     act_bind ack_now (\<lambda>acknowledged_at.
     act_bind (act_try (ask (kp_compute_hash ports
         (witness_content acknowledgment_id petition_id code archons acknowledged_at rationale reference)))
       (\<lambda>e. act_raise (witness_hash_generation petition_id (exn_str e)))) (\<lambda>witness_hash.
     act_lift (mk_acknowledgment \<lparr>ak_id = acknowledgment_id, ak_petition_id = petition_id, ak_reason_code = code,
         ak_rationale = rationale, ak_reference_petition_id = reference, ak_acknowledging_archon_ids = archons,
         ak_acknowledged_by_king_id = None, ak_acknowledged_at = acknowledged_at, ak_witness_hash = witness_hash\<rparr>)))))"

definition record_acknowledgment :: "'p ack_ports \<Rightarrow> acknowledgment \<Rightarrow> ('p ack_world, acknowledgment) act" where
  "record_acknowledgment ports a =
     act_bind (save_acknowledgment a) (\<lambda>_.
     act_bind (tell (UpdateState (ak_petition_id a) ACKNOWLEDGED (reason_code_value (ak_reason_code a)))
       (kp_update_state ports (ak_petition_id a) ACKNOWLEDGED (reason_code_value (ak_reason_code a)))) (\<lambda>_.
     act_bind ack_uuid4 (\<lambda>event_id.
     act_bind ack_now (\<lambda>created_at.
     act_bind (act_lift (mk_acknowledged_event \<lparr>ae_event_id = event_id, ae_acknowledgment_id = ak_id a,
         ae_petition_id = ak_petition_id a, ae_reason_code = ak_reason_code a,
         ae_acknowledging_archon_ids = ak_acknowledging_archon_ids a, ae_acknowledged_at = ak_acknowledged_at a,
         ae_witness_hash = ak_witness_hash a, ae_rationale = ak_rationale a,
         ae_reference_petition_id = ak_reference_petition_id a, ae_created_at = created_at\<rparr>)) (\<lambda>event.
     act_bind (tell (WriteEvent (acknowledged_event_dict event)) (kp_write ports (acknowledged_event_dict event))) (\<lambda>_.
     act_return a))))))"

definition valid_states :: "reason_code \<Rightarrow> petition_state set" where
  "valid_states code = (if exempt code then {DELIBERATING, REFERRED} else {DELIBERATING})"

definition execute ::
  "'p ack_ports \<Rightarrow> uuid \<Rightarrow> reason_code \<Rightarrow> int list \<Rightarrow> string option \<Rightarrow> uuid option \<Rightarrow> ('p ack_world, acknowledgment) act" where
  "execute ports petition_id code archons rationale reference =
     (if \<not> exempt code \<and> length archons < min_acknowledging_archons then act_raise (invalid_archon_count (length archons))
      else
        act_bind (act_lift (validate_acknowledgment_requirements code rationale reference)) (\<lambda>_.
        act_bind (ask (kp_get_by_id ports petition_id)) (\<lambda>petition.
        case petition of
          None \<Rightarrow> act_raise (ack_petition_not_found petition_id)
        | Some p \<Rightarrow>
            if pt_state p \<notin> valid_states code then act_raise (not_deliberating petition_id (pt_state p))
            else
              act_bind (if exempt code then act_return () else enforce_dwell_time ports petition_id) (\<lambda>_.
              act_bind (get_acknowledgment_by_petition petition_id) (\<lambda>existing.
              case existing of
                Some a \<Rightarrow> act_return a
              | None \<Rightarrow>
                  act_bind (prepare_acknowledgment ports petition_id code archons rationale reference)
                    (record_acknowledgment ports))))))"

text \<open>The codes in the message stand in the order of a set of strings; here in the order they are written.\<close>

definition execute_system_acknowledge :: "'p ack_ports \<Rightarrow> uuid \<Rightarrow> reason_code \<Rightarrow> string \<Rightarrow> ('p ack_world, acknowledgment) act" where
  "execute_system_acknowledge ports petition_id code rationale =
     (if code \<notin> {EXPIRED, KNIGHT_REFERRAL} then
        act_raise (Exn ValueError (''execute_system_acknowledge only accepts system reason codes: '' @
          repr_str_list [''EXPIRED'', ''KNIGHT_REFERRAL''] @ '', got '' @ reason_code_value code))
      else execute ports petition_id code [] (Some rationale) None)"

section \<open>The King's acknowledgment\<close>

definition king_witness_content :: "uuid \<Rightarrow> uuid \<Rightarrow> uuid \<Rightarrow> reason_code \<Rightarrow> datetime \<Rightarrow> string \<Rightarrow> string \<Rightarrow> string" where
  "king_witness_content acknowledgment_id petition_id king_id code acknowledged_at rationale realm_id =
     join_str ''|''
       ([''acknowledgment_id:'' @ uuid_str acknowledgment_id, ''petition_id:'' @ uuid_str petition_id,
         ''king_id:'' @ uuid_str king_id, ''reason_code:'' @ reason_code_value code,
         ''acknowledged_at:'' @ isoformat acknowledged_at, ''realm_id:'' @ realm_id,
         ''schema_version:'' @ acknowledgment_schema_version] @
        (if rationale = [] then [] else [''rationale:'' @ rationale]))"

definition king_event_dict :: "uuid \<Rightarrow> uuid \<Rightarrow> reason_code \<Rightarrow> string \<Rightarrow> datetime \<Rightarrow> string \<Rightarrow> payload" where
  "king_event_dict petition_id king_id code rationale acknowledged_at realm_id =
     [(''petition_id'', PyStr (uuid_str petition_id)), (''king_id'', PyStr (uuid_str king_id)),
      (''reason_code'', PyStr (reason_code_value code)), (''rationale'', PyStr rationale),
      (''acknowledged_at'', PyStr (isoformat acknowledged_at)), (''realm_id'', PyStr realm_id),
      (''schema_version'', PyStr ''1.0.0'')]"

definition min_king_rationale_length :: nat where
  "min_king_rationale_length = 100"

definition not_escalated :: "uuid \<Rightarrow> petition_state \<Rightarrow> exn" where
  "not_escalated i state = Exn PetitionNotEscalatedError
     (''FR-5.8: King can only acknowledge ESCALATED petitions, but petition '' @ uuid_str i @ '' is in '' @
      petition_state_value state @ '' state.'')"

definition king_realm_mismatch :: "uuid \<Rightarrow> string option \<Rightarrow> string \<Rightarrow> exn" where
  "king_realm_mismatch i escalated_to realm_id = Exn RealmMismatchError
     (''RULING-3: King from realm '' @ [CHR 0x27] @ realm_id @ [CHR 0x27] @ '' cannot acknowledge petition escalated to realm '' @
      [CHR 0x27] @ (case escalated_to of None \<Rightarrow> ''None'' | Some r \<Rightarrow> r) @ [CHR 0x27] @ '' (RULING-3).'')"

text \<open>\<open>WitnessHashGenerationError\<close> takes two arguments and gets one.\<close>

definition witness_hash_arity :: exn where
  "witness_hash_arity = Exn TypeError
     (''WitnessHashGenerationError.__init__() missing 1 required positional argument: '' @ [CHR 0x27] @ ''reason'' @ [CHR 0x27])"

definition execute_king_acknowledge ::
  "'p ack_ports \<Rightarrow> uuid \<Rightarrow> uuid \<Rightarrow> reason_code \<Rightarrow> string \<Rightarrow> string \<Rightarrow> ('p ack_world, acknowledgment) act" where
  "execute_king_acknowledge ports petition_id king_id code rationale realm_id =
     (if length (py_strip rationale) < min_king_rationale_length then
        act_raise (Exn ValueError (''King acknowledgment requires rationale >= '' @ show_nat min_king_rationale_length @
          '' chars, got '' @ show_nat (length (py_strip rationale)) @
          '' chars. Kings have a higher bar for explaining decisions to petitioners (FR-5.8).''))
      else
        act_bind (ask (kp_get ports petition_id)) (\<lambda>petition.
        case petition of
          None \<Rightarrow> act_raise (ack_petition_not_found petition_id)
        | Some p \<Rightarrow>
            if pt_state p \<noteq> ESCALATED then act_raise (not_escalated petition_id (pt_state p))
            else if pt_escalated_to_realm p \<noteq> Some realm_id then
              act_raise (king_realm_mismatch petition_id (pt_escalated_to_realm p) realm_id)
            else
              act_bind (act_lift (validate_acknowledgment_requirements code (Some rationale) None)) (\<lambda>_.
              act_bind (get_acknowledgment_by_petition petition_id) (\<lambda>existing.
              case existing of
                Some a \<Rightarrow> act_raise (acknowledgment_already_exists petition_id (ak_id a))
              | None \<Rightarrow>
                  act_bind ack_uuid4 (\<lambda>acknowledgment_id.
                  act_bind ack_now (\<lambda>acknowledged_at.
                  act_bind (act_try (ask (kp_hash ports
                      (king_witness_content acknowledgment_id petition_id king_id code acknowledged_at rationale realm_id)))
                    (\<lambda>_. act_raise witness_hash_arity)) (\<lambda>witness_hash.
                  act_bind (act_lift (mk_acknowledgment \<lparr>ak_id = acknowledgment_id, ak_petition_id = petition_id,
                      ak_reason_code = code, ak_rationale = Some rationale, ak_reference_petition_id = None,
                      ak_acknowledging_archon_ids = [], ak_acknowledged_by_king_id = Some king_id,
                      ak_acknowledged_at = acknowledged_at, ak_witness_hash = witness_hash\<rparr>)) (\<lambda>a.
                  act_bind (save_acknowledgment a) (\<lambda>_.
                  act_bind (tell (MarkAcknowledged petition_id acknowledgment_id)
                    (kp_mark_acknowledged ports petition_id acknowledgment_id)) (\<lambda>_.
                  act_bind (tell (WriteKingEvent (king_event_dict petition_id king_id code rationale acknowledged_at realm_id))
                    (kp_write_event ports ''petition.escalation.acknowledged_by_king''
                      (king_event_dict petition_id king_id code rationale acknowledged_at realm_id) (uuid_str king_id))) (\<lambda>_.
                  act_return a)))))))))))"

section \<open>What asking leaves alone\<close>

text \<open>Nothing is stored and no command given; the collaborators may have changed.\<close>

definition untouched_ack :: "'p ack_world \<Rightarrow> 'p ack_world \<Rightarrow> bool" where
  "untouched_ack w w' \<longleftrightarrow> aw_acks w' = aw_acks w \<and> aw_by_petition w' = aw_by_petition w \<and> aw_commands w' = aw_commands w"

interpretation untouched_ack: frame_relation untouched_ack
  by unfold_locales (auto simp: untouched_ack_def)

lemma ask_untouched: "framed untouched_ack (ask m)" "framed untouched_ack ack_now" "framed untouched_ack ack_uuid4"
  by (auto simp: framed_def untouched_ack_def ack_now_def ack_uuid4_def ask_def split: prod.splits)

lemma dwell_untouched: "framed untouched_ack (enforce_dwell_time ports i)"
  unfolding enforce_dwell_time_def
  by (auto intro!: untouched_ack.framed_intros ask_untouched split: option.splits)

lemma check_reference_untouched: "framed untouched_ack (check_reference ports i reference)"
  unfolding check_reference_def
  by (auto intro!: untouched_ack.framed_intros ask_untouched split: option.splits)

section \<open>Outcomes\<close>

text \<open>What an acknowledgment built for a request looks like.\<close>

definition acknowledges :: "uuid \<Rightarrow> reason_code \<Rightarrow> int list \<Rightarrow> string option \<Rightarrow> uuid option \<Rightarrow> acknowledgment \<Rightarrow> bool" where
  "acknowledges petition_id code archons rationale reference a \<longleftrightarrow> ak_petition_id a = petition_id \<and> ak_reason_code a = code \<and>
     ak_acknowledging_archon_ids a = archons \<and> ak_rationale a = rationale \<and> ak_reference_petition_id a = reference \<and>
     ak_acknowledged_by_king_id a = None"

lemma mk_acknowledgment_Inr:
  "mk_acknowledgment a = Inr b \<longleftrightarrow> b = a \<and> \<not> blank (ak_witness_hash a) \<and>
     validate_acknowledgment_requirements (ak_reason_code a) (ak_rationale a) (ak_reference_petition_id a) = Inr () \<and>
     (ak_reason_code a = KNIGHT_REFERRAL \<or> ak_acknowledged_by_king_id a \<noteq> None \<or>
       min_acknowledging_archons \<le> length (ak_acknowledging_archon_ids a))"
  by (auto simp: mk_acknowledgment_def split: sum.splits)

lemma prepare_untouched: "framed untouched_ack (prepare_acknowledgment ports i code archons rationale reference)"
  unfolding prepare_acknowledgment_def
  by (intro untouched_ack.framed_intros ask_untouched check_reference_untouched)

lemma prepare_returns:
  assumes "prepare_acknowledgment ports i code archons rationale reference w = (Inr a, w')"
  shows "acknowledges i code archons rationale reference a \<and> mk_acknowledgment a = Inr a"
  using assms unfolding prepare_acknowledgment_def
  by (elim act_bind_InrE) (auto simp: acknowledges_def mk_acknowledgment_Inr)

lemma knight_prepared:
  assumes "\<forall>c s. \<exists>h. fst (kp_compute_hash ports c s) = Inr h \<and> \<not> blank h"
  shows "\<exists>a w'. prepare_acknowledgment ports i KNIGHT_REFERRAL [] rationale None w = (Inr a, w')"
proof -
  let ?c = "witness_content (aw_uuid w (aw_uuid_draws w)) i KNIGHT_REFERRAL [] (aw_clock w (aw_clock_reads w)) rationale None"
  obtain h s where "kp_compute_hash ports ?c (aw_store w) = (Inr h, s)" "\<not> blank h"
    using assms by (metis prod.collapse)
  then show ?thesis
    by (simp add: prepare_acknowledgment_def check_reference_def act_bind_def act_try_def ask_def ack_uuid4_def ack_now_def
        mk_acknowledgment_def validate_acknowledgment_requirements_def requires_rationale_def requires_reference_def)
qed

text \<open>
  An acknowledgment that is stored: the change of the petition's state comes next, then the event, which needs two archons.
  The first of the two commands that raises ends the request.
\<close>

definition recorded :: "acknowledgment \<Rightarrow> 'p ack_world \<Rightarrow> exn + acknowledgment \<Rightarrow> 'p ack_world \<Rightarrow> bool" where
  "recorded a w r w' \<longleftrightarrow>
     aw_acks w' = dict_set (ak_id a) a (aw_acks w) \<and> aw_by_petition w' = dict_set (ak_petition_id a) a (aw_by_petition w) \<and>
     (let update = UpdateState (ak_petition_id a) ACKNOWLEDGED (reason_code_value (ak_reason_code a)) in
      (\<exists>e. r = Inl e \<and> aw_commands w' = aw_commands w @ [(update, Some e)]) \<or>
      (if length (ak_acknowledging_archon_ids a) < 2 then
         (\<exists>e. r = Inl e \<and> exn_kind e = ValueError) \<and> aw_commands w' = aw_commands w @ [(update, None)]
       else \<exists>event. ae_acknowledgment_id event = ak_id a \<and> ae_petition_id event = ak_petition_id a \<and>
         ae_reason_code event = ak_reason_code a \<and> ae_acknowledging_archon_ids event = ak_acknowledging_archon_ids a \<and>
         (r = Inr a \<and> aw_commands w' = aw_commands w @ [(update, None), (WriteEvent (acknowledged_event_dict event), None)] \<or>
          (\<exists>e. r = Inl e \<and>
             aw_commands w' = aw_commands w @ [(update, None), (WriteEvent (acknowledged_event_dict event), Some e)]))))"

lemma recorded_same_ack: "untouched_ack w v \<Longrightarrow> recorded a v r w' \<longleftrightarrow> recorded a w r w'"
  by (simp add: recorded_def untouched_ack_def)

lemma record_recorded:
  assumes "mk_acknowledgment a = Inr a" and "dict_get (aw_by_petition w) (ak_petition_id a) = None"
    and "record_acknowledgment ports a w = (r, w')"
  shows "recorded a w r w'"
proof -
  let ?w1 = "w\<lparr>aw_acks := dict_set (ak_id a) a (aw_acks w), aw_by_petition := dict_set (ak_petition_id a) a (aw_by_petition w)\<rparr>"
  let ?update = "UpdateState (ak_petition_id a) ACKNOWLEDGED (reason_code_value (ak_reason_code a))"
  have save: "save_acknowledgment a w = (Inr (), ?w1)" using assms(2) by (simp add: save_acknowledgment_def)
  obtain ru s where update: "kp_update_state ports (ak_petition_id a) ACKNOWLEDGED (reason_code_value (ak_reason_code a))
      (aw_store w) = (ru, s)" by fastforce
  have valid: "\<not> blank (ak_witness_hash a)" "requires_rationale (ak_reason_code a) \<Longrightarrow> \<not> no_text (ak_rationale a)"
    "requires_reference (ak_reason_code a) \<Longrightarrow> ak_reference_petition_id a \<noteq> None"
    using assms(1) by (auto simp: mk_acknowledgment_Inr validate_acknowledgment_requirements_def split: if_splits)
  show ?thesis
  proof (cases ru)
    case (Inl e)
    then show ?thesis using assms(3) by (auto simp: record_acknowledgment_def act_bind_def save tell_def update recorded_def)
  next
    case (Inr u)
    let ?event = "\<lparr>ae_event_id = aw_uuid w (aw_uuid_draws w), ae_acknowledgment_id = ak_id a, ae_petition_id = ak_petition_id a,
      ae_reason_code = ak_reason_code a, ae_acknowledging_archon_ids = ak_acknowledging_archon_ids a,
      ae_acknowledged_at = ak_acknowledged_at a, ae_witness_hash = ak_witness_hash a, ae_rationale = ak_rationale a,
      ae_reference_petition_id = ak_reference_petition_id a, ae_created_at = aw_clock w (aw_clock_reads w)\<rparr>"
    show ?thesis
    proof (cases "length (ak_acknowledging_archon_ids a) < 2")
      case True
      then show ?thesis
        using assms(3) Inr by (auto simp: record_acknowledgment_def act_bind_def save tell_def update ack_uuid4_def ack_now_def
            mk_acknowledged_event_def recorded_def)
    next
      case False
      then have event: "mk_acknowledged_event ?event = Inr ?event" using valid by (auto simp: mk_acknowledged_event_def)
      obtain rv t where "kp_write ports (acknowledged_event_dict ?event) s = (rv, t)" by fastforce
      then have "w' = ?w1\<lparr>aw_store := t, aw_uuid_draws := aw_uuid_draws w + 1, aw_clock_reads := aw_clock_reads w + 1,
          aw_commands := aw_commands w @ [(?update, None),
            (WriteEvent (acknowledged_event_dict ?event), case rv of Inl e \<Rightarrow> Some e | Inr _ \<Rightarrow> None)]\<rparr> \<and>
          r = (case rv of Inl e \<Rightarrow> Inl e | Inr _ \<Rightarrow> Inr a)"
        using assms(3) Inr event
        by (cases rv) (auto simp: record_acknowledgment_def act_bind_def save tell_def update ack_uuid4_def ack_now_def)
      then show ?thesis using False by (cases rv) (auto simp: recorded_def Let_def intro!: exI [of _ ?event])
    qed
  qed
qed

text \<open>A request either stores nothing, gives no command, and raises or answers what was there; or it stores a new acknowledgment.\<close>

lemma execute_outcome:
  assumes "execute ports i code archons rationale reference w = (r, w')"
  shows "untouched_ack w w' \<and> ((\<exists>e. r = Inl e) \<or> (\<exists>a. r = Inr a \<and> dict_get (aw_by_petition w) i = Some a)) \<or>
    (\<exists>a p. dict_get (aw_by_petition w) i = None \<and> fst (kp_get_by_id ports i (aw_store w)) = Inr (Some p) \<and>
       pt_state p \<in> valid_states code \<and> acknowledges i code archons rationale reference a \<and>
       mk_acknowledgment a = Inr a \<and> (\<not> exempt code \<longrightarrow> 2 \<le> length archons) \<and> recorded a w r w')"
proof (cases "(\<not> exempt code \<and> length archons < min_acknowledging_archons) \<or>
    validate_acknowledgment_requirements code rationale reference \<noteq> Inr () \<or>
    (case fst (kp_get_by_id ports i (aw_store w)) of Inr (Some p) \<Rightarrow> pt_state p \<notin> valid_states code | _ \<Rightarrow> True)")
  case True
  then have "untouched_ack w w' \<and> (\<exists>e. r = Inl e)"
    using assms by (auto simp: execute_def act_bind_def ask_def untouched_ack_def split: if_splits option.splits sum.splits prod.splits)
  then show ?thesis by blast
next
  case False
  then obtain p s where p: "kp_get_by_id ports i (aw_store w) = (Inr (Some p), s)" "pt_state p \<in> valid_states code"
    and ok: "validate_acknowledgment_requirements code rationale reference = Inr ()"
      "\<not> (\<not> exempt code \<and> length archons < min_acknowledging_archons)"
    by (cases "kp_get_by_id ports i (aw_store w)") (auto split: option.splits sum.splits)
  let ?w0 = "w\<lparr>aw_store := s\<rparr>" and ?dwell = "if exempt code then act_return () else enforce_dwell_time ports i"
  have w0: "untouched_ack w ?w0" by (simp add: untouched_ack_def)
  have get: "ask (kp_get_by_id ports i) w = (Inr (Some p), ?w0)" by (simp add: ask_def p(1))
  have "act_bind ?dwell (\<lambda>_. act_bind (get_acknowledgment_by_petition i) (\<lambda>existing. case existing of
        Some a \<Rightarrow> act_return a
      | None \<Rightarrow> act_bind (prepare_acknowledgment ports i code archons rationale reference) (record_acknowledgment ports))) ?w0 =
      (r, w')"
    using assms p(2) ok get by (simp add: execute_def split del: if_split)
  moreover have dwell: "framed untouched_ack ?dwell" by (simp add: dwell_untouched untouched_ack.framed_return)
  ultimately show ?thesis
  proof (cases rule: act_bind_cases)
    case (raised e)
    then show ?thesis using untouched_ack.frame_trans [OF w0 framedD [OF dwell raised(1)]] by blast
  next
    case (returned x u)
    have u: "untouched_ack w u" using untouched_ack.frame_trans [OF w0 framedD [OF dwell returned(1)]] .
    then have by_petition: "aw_by_petition u = aw_by_petition w" by (simp add: untouched_ack_def)
    show ?thesis
    proof (cases "dict_get (aw_by_petition w) i")
      case (Some a)
      then show ?thesis using returned(2) u by (simp add: get_acknowledgment_by_petition_def act_bind_def by_petition)
    next
      case None
      then have "act_bind (prepare_acknowledgment ports i code archons rationale reference) (record_acknowledgment ports) u =
          (r, w')"
        using returned(2) by (simp add: get_acknowledgment_by_petition_def act_bind_def by_petition)
      then show ?thesis
      proof (cases rule: act_bind_cases)
        case (raised e)
        then show ?thesis using untouched_ack.frame_trans [OF u framedD [OF prepare_untouched raised(1)]] by blast
      next
        case (returned a w1)
        note w1 = untouched_ack.frame_trans [OF u framedD [OF prepare_untouched returned(1)]]
        note a = prepare_returns [OF returned(1)]
        have "dict_get (aw_by_petition w1) (ak_petition_id a) = None"
          using w1 a None by (simp add: untouched_ack_def acknowledges_def)
        then have "recorded a w r w'" using record_recorded [OF _ _ returned(2)] a recorded_same_ack [OF w1] by blast
        then show ?thesis using a p None ok(2) by (auto simp: min_acknowledging_archons_def)
      qed
    qed
  qed
qed

text \<open>Requests for one petition, one after another, whatever each of them answers.\<close>

fun run_requests ::
  "'p ack_ports \<Rightarrow> uuid \<Rightarrow> (reason_code \<times> int list \<times> string option \<times> uuid option) list \<Rightarrow> 'p ack_world \<Rightarrow> 'p ack_world" where
  "run_requests ports i [] w = w"
| "run_requests ports i ((code, archons, rationale, reference) # requests) w =
     run_requests ports i requests (snd (execute ports i code archons rationale reference w))"

lemma execute_existing:
  assumes "dict_get (aw_by_petition w) i = Some a"
  shows "untouched_ack w (snd (execute ports i code archons rationale reference w))"
proof -
  obtain r w' where run: "execute ports i code archons rationale reference w = (r, w')" by fastforce
  show ?thesis using execute_outcome [OF run] assms run by auto
qed

lemma run_requests_existing:
  "dict_get (aw_by_petition w) i = Some a \<Longrightarrow> untouched_ack w (run_requests ports i requests w)"
proof (induction requests arbitrary: w)
  case Nil
  show ?case by (simp add: untouched_ack.frame_refl)
next
  case (Cons request requests)
  obtain code archons rationale reference where request: "request = (code, archons, rationale, reference)" by (cases request)
  have step: "untouched_ack w (snd (execute ports i code archons rationale reference w))"
    by (rule execute_existing [OF Cons.prems])
  then have "dict_get (aw_by_petition (snd (execute ports i code archons rationale reference w))) i = Some a"
    using Cons.prems by (simp add: untouched_ack_def)
  from untouched_ack.frame_trans [OF step Cons.IH [OF this]] show ?case by (simp add: request)
qed

lemma king_never_returns:
  assumes "\<And>i a s. \<exists>e s'. kp_mark_acknowledged ports i a s = (Inl e, s')"
  shows "\<exists>e. fst (execute_king_acknowledge ports i king code rationale realm w) = Inl e"
proof (rule ccontr)
  assume "\<nexists>e. fst (execute_king_acknowledge ports i king code rationale realm w) = Inl e"
  then obtain a w' where "execute_king_acknowledge ports i king code rationale realm w = (Inr a, w')"
    by (metis prod.collapse sumE)
  then obtain b u x v where "tell (MarkAcknowledged i b) (kp_mark_acknowledged ports i b) u = (Inr x, v)"
    unfolding execute_king_acknowledge_def
    by (auto split: if_splits option.splits elim!: act_bind_InrE)
  then obtain s where "kp_mark_acknowledged ports i b (aw_store u) = (Inr x, s)" by (auto simp: tell_def split: prod.splits)
  then show False using assms [of i b "aw_store u"] by simp
qed

text \<open>
  The content that is hashed joins its parts with a bar and does not quote them: a rationale can pass for a reference.
\<close>

lemma witness_content_ambiguous:
  "witness_content a p code archons t (Some (x @ ''|reference_petition_id:'' @ uuid_str i)) None =
   witness_content a p code archons t (Some x) (Some i)" if "x \<noteq> []"
  using that by (simp add: witness_content_def)

text \<open>For the examples: petitions in a dictionary; changing a state fails if \<open>down\<close>.\<close>

definition example_ack_ports :: "bool \<Rightarrow> (uuid, petition_submission) dict ack_ports" where
  "example_ack_ports down =
     \<lparr>kp_get_by_id = \<lambda>i s. (Inr (dict_get s i), s), kp_get = \<lambda>i s. (Inr (dict_get s i), s),
      kp_update_state = \<lambda>i state reason s. case dict_get s i of
          Some p \<Rightarrow> if down then (Inl (Exn RuntimeError ''down''), s) else (Inr (), dict_set i (p\<lparr>pt_state := state\<rparr>) s)
        | None \<Rightarrow> (Inl (Exn KeyError ''Submission not found''), s),
      kp_mark_acknowledged = \<lambda>_ _. act_raise (Exn AttributeError ''mark_acknowledged''),
      kp_compute_hash = \<lambda>_. act_return ''h'', kp_hash = \<lambda>_. act_return ''h'',
      kp_write = \<lambda>_. act_return (), kp_write_event = \<lambda>_ _ _. act_return (),
      kp_session = None, kp_min_dwell_seconds = 0, kp_tenths = \<lambda>_. []\<rparr>"

definition example_ack_petition :: "petition_state \<Rightarrow> petition_submission" where
  "example_ack_petition state = new_submission 1 GENERAL ''a petition'' state None None ''realm'' 0 0"

definition example_ack_world :: "petition_state \<Rightarrow> (uuid, petition_submission) dict ack_world" where
  "example_ack_world state = \<lparr>aw_store = [(1, example_ack_petition state)], aw_acks = [], aw_by_petition = [], aw_commands = [],
     aw_clock = int, aw_clock_reads = 0, aw_uuid = word_of_nat, aw_uuid_draws = 0\<rparr>"

lemmas example_ack_run = execute_def example_ack_ports_def example_ack_world_def example_ack_petition_def new_submission_def
  dict_get_def valid_states_def exempt_def min_acknowledging_archons_def validate_acknowledgment_requirements_def
  requires_rationale_def requires_reference_def enforce_dwell_time_def get_acknowledgment_by_petition_def
  prepare_acknowledgment_def check_reference_def ack_uuid4_def ack_now_def act_bind_def act_try_def ask_def tell_def
  mk_acknowledgment_def blank_def py_strip_def is_py_space_def record_acknowledgment_def save_acknowledgment_def

section \<open>Properties\<close>

text \<open>
  C36: acknowledging with a code of the archons, whatever the collaborators answer and wherever they raise. Either nothing
  is stored and no command given, and the call raises or returns the acknowledgment the petition already had. Or the
  petition had none, the petition repository answered it as in deliberation, at least two archons acknowledge, and the new
  acknowledgment is stored. Then the change of the petition's state is asked for; if that raises, no event is written; if
  not, exactly one event that names the acknowledgment is written, and only when that does not raise either the new
  acknowledgment is returned. So a failing change of state or write leaves the acknowledgment without the event.
\<close>

theorem acknowledge_all_or_nothing:
  assumes "\<not> exempt code" and "execute ports i code archons rationale reference w = (r, w')"
  shows "untouched_ack w w' \<and> (case r of Inl _ \<Rightarrow> True | Inr a \<Rightarrow> dict_get (aw_by_petition w) i = Some a) \<or>
    (\<exists>a p event. dict_get (aw_by_petition w) i = None \<and> fst (kp_get_by_id ports i (aw_store w)) = Inr (Some p) \<and>
       pt_state p = DELIBERATING \<and> 2 \<le> length archons \<and> acknowledges i code archons rationale reference a \<and>
       aw_acks w' = dict_set (ak_id a) a (aw_acks w) \<and> aw_by_petition w' = dict_set i a (aw_by_petition w) \<and>
       ae_acknowledgment_id event = ak_id a \<and> ae_petition_id event = i \<and> ae_reason_code event = code \<and>
       ae_acknowledging_archon_ids event = archons \<and>
       (let update = UpdateState i ACKNOWLEDGED (reason_code_value code); write = WriteEvent (acknowledged_event_dict event) in
        case r of
          Inr b \<Rightarrow> b = a \<and> aw_commands w' = aw_commands w @ [(update, None), (write, None)]
        | Inl e \<Rightarrow> aw_commands w' = aw_commands w @ [(update, Some e)] \<or>
            aw_commands w' = aw_commands w @ [(update, None), (write, Some e)]))"
  using execute_outcome [OF assms(2)]
proof (elim disjE exE conjE)
  fix a p
  assume *: "dict_get (aw_by_petition w) i = None" "fst (kp_get_by_id ports i (aw_store w)) = Inr (Some p)"
    "pt_state p \<in> valid_states code" "acknowledges i code archons rationale reference a" "\<not> exempt code \<longrightarrow> 2 \<le> length archons"
    "recorded a w r w'"
  have a: "ak_petition_id a = i" "ak_reason_code a = code" "ak_acknowledging_archon_ids a = archons"
    using *(4) by (simp_all add: acknowledges_def)
  have p: "pt_state p = DELIBERATING" "2 \<le> length archons" "\<not> length archons < 2"
    using *(3,5) assms(1) by (auto simp: valid_states_def)
  have "\<exists>event :: acknowledged_event. ae_acknowledgment_id event = ak_id a \<and> ae_petition_id event = i \<and>
      ae_reason_code event = code \<and> ae_acknowledging_archon_ids event = archons"
    by (intro exI [of _ "\<lparr>ae_event_id = 0, ae_acknowledgment_id = ak_id a, ae_petition_id = i, ae_reason_code = code,
      ae_acknowledging_archon_ids = archons, ae_acknowledged_at = 0, ae_witness_hash = [], ae_rationale = None,
      ae_reference_petition_id = None, ae_created_at = 0\<rparr>"]) simp
  with *(6) show ?thesis
    using *(1,2,4) p(1,2) unfolding recorded_def Let_def a if_not_P [OF p(3)]
    by (elim conjE disjE exE) (intro disjI2 exI conjI; assumption?; simp)+
qed auto

theorem acknowledge_all_or_nothing_witness:
  "\<exists>r w'. execute (example_ack_ports True) 1 NOTED [1, 2] None None (example_ack_world DELIBERATING) = (r, w') \<and>
     (\<exists>e a. r = Inl e \<and> aw_commands w' = [(UpdateState 1 ACKNOWLEDGED ''NOTED'', Some e)] \<and>
       aw_by_petition w' = [(1, a)] \<and> acknowledges 1 NOTED [1, 2] None None a)"
proof -
  let ?w = "example_ack_world DELIBERATING"
  obtain r w' where run: "execute (example_ack_ports True) 1 NOTED [1, 2] None None ?w = (r, w')" by fastforce
  have "\<not> exempt NOTED" by (simp add: exempt_def)
  note out = acknowledge_all_or_nothing [OF this run]
  have start: "aw_commands ?w = []" "aw_by_petition ?w = []" by (simp_all add: example_ack_world_def)
  have "length (aw_commands (snd (execute (example_ack_ports True) 1 NOTED [1, 2] None None ?w))) = 1"
    by (simp add: example_ack_run)
  then have "length (aw_commands w') = 1" by (simp add: run)
  then show ?thesis
    using run out start by (auto simp: untouched_ack_def Let_def split: sum.splits)
qed

text \<open>
  A half acknowledgment stays one. If a request for a petition without acknowledgment raises and leaves one behind,
  then no further request for that petition, of whatever kind and however often, gives any command: its state is not
  changed and no event is written. The acknowledgment is what each of them finds, and the first that passes the checks
  returns it.
\<close>

theorem half_acknowledged_stays:
  assumes "dict_get (aw_by_petition w) i = None"
    and "execute ports i code archons rationale reference w = (Inl e, w')" and "dict_get (aw_by_petition w') i = Some a"
  shows "let v = run_requests ports i requests w' in
    aw_commands v = aw_commands w' \<and> dict_get (aw_by_petition v) i = Some a \<and>
    (case fst (execute ports i code' archons' rationale' reference' v) of Inl _ \<Rightarrow> True | Inr b \<Rightarrow> b = a)"
proof -
  obtain v where v: "v = run_requests ports i requests w'" by blast
  have same: "untouched_ack w' v" unfolding v by (rule run_requests_existing [OF assms(3)])
  have found: "dict_get (aw_by_petition v) i = Some a" using same assms(3) by (simp add: untouched_ack_def)
  obtain r u where run: "execute ports i code' archons' rationale' reference' v = (r, u)" by fastforce
  have "case r of Inl _ \<Rightarrow> True | Inr b \<Rightarrow> b = a"
    using execute_outcome [OF run] found by (auto split: sum.splits)
  then show ?thesis using same found run by (simp add: v [symmetric] untouched_ack_def)
qed

theorem half_acknowledged_stays_witness:
  "let f = execute (example_ack_ports True) 1 KNIGHT_REFERRAL [] None None; w' = snd (f (example_ack_world REFERRED)) in
   (\<exists>e. fst (f (example_ack_world REFERRED)) = Inl e) \<and> (\<exists>a. fst (f w') = Inr a) \<and>
   aw_commands (run_requests (example_ack_ports True) 1 [(KNIGHT_REFERRAL, [], None, None)] w') = aw_commands w'"
proof -
  let ?w = "example_ack_world REFERRED" and ?f = "execute (example_ack_ports True) 1 KNIGHT_REFERRAL [] None None"
  obtain e w' where run: "?f ?w = (Inl e, w')" and saved: "dict_get (aw_by_petition w') 1 \<noteq> None"
      "dict_get (aw_store w') 1 \<noteq> None" "pt_state (the (dict_get (aw_store w') 1)) = REFERRED"
    by (simp add: example_ack_run)
  obtain a where a: "dict_get (aw_by_petition w') 1 = Some a" using saved(1) by blast
  obtain p where p: "dict_get (aw_store w') 1 = Some p" "pt_state p = REFERRED" using saved(2,3) by auto
  have none: "dict_get (aw_by_petition ?w) 1 = None" by (simp add: example_ack_world_def)
  note stays = half_acknowledged_stays [OF none run a, where requests = "[(KNIGHT_REFERRAL, [], None, None)]"
      and code' = NOTED and archons' = "[]" and rationale' = None and reference' = None]
  have again: "fst (?f w') = Inr a"
    using a p by (simp add: execute_def exempt_def validate_acknowledgment_requirements_def requires_rationale_def ask_def
        requires_reference_def valid_states_def get_acknowledgment_by_petition_def example_ack_ports_def act_bind_def)
  then show ?thesis using stays run unfolding Let_def by auto
qed

text \<open>
  C37: the system cannot acknowledge. Whatever the collaborators do, a system request never returns a new acknowledgment and
  never writes an event. It returns only an acknowledgment the petition already had. For an expired referral the
  acknowledgment demands archons, of which a system request has none, so nothing is stored and no command given. For the
  recommendation of a Knight it is the event that demands them: if the petition repository answers the petition in
  deliberation or referred, the petition has no acknowledgment and the hash service answers a hash, the acknowledgment is
  stored, the change of the petition's state is asked for, and the call raises, with the ValueError of the event when the
  state was changed.
\<close>

theorem system_acknowledge_never_new:
  assumes "execute_system_acknowledge ports i code rationale w = (r, w')"
  shows "(let half = (\<exists>a. acknowledges i KNIGHT_REFERRAL [] (Some rationale) None a \<and>
         aw_acks w' = dict_set (ak_id a) a (aw_acks w) \<and> aw_by_petition w' = dict_set i a (aw_by_petition w) \<and>
         (\<exists>e. r = Inl e \<and>
            (aw_commands w' = aw_commands w @ [(UpdateState i ACKNOWLEDGED ''KNIGHT_REFERRAL'', Some e)] \<or>
             exn_kind e = ValueError \<and> aw_commands w' = aw_commands w @ [(UpdateState i ACKNOWLEDGED ''KNIGHT_REFERRAL'', None)])))
     in (untouched_ack w w' \<and> (case r of Inl _ \<Rightarrow> True | Inr a \<Rightarrow> dict_get (aw_by_petition w) i = Some a) \<or>
         code = KNIGHT_REFERRAL \<and> half) \<and>
        (\<forall>p. code = KNIGHT_REFERRAL \<and> dict_get (aw_by_petition w) i = None \<and>
           fst (kp_get_by_id ports i (aw_store w)) = Inr (Some p) \<and> pt_state p \<in> {DELIBERATING, REFERRED} \<and>
           (\<forall>c s. \<exists>h. fst (kp_compute_hash ports c s) = Inr h \<and> \<not> blank h) \<longrightarrow> half))"
proof (cases "code \<in> {EXPIRED, KNIGHT_REFERRAL}")
  case False
  then show ?thesis using assms by (auto simp: execute_system_acknowledge_def untouched_ack_def Let_def split: if_splits)
next
  case True
  then have run: "execute ports i code [] (Some rationale) None w = (r, w')"
    using assms by (auto simp: execute_system_acknowledge_def)
  let ?half = "\<exists>a. acknowledges i KNIGHT_REFERRAL [] (Some rationale) None a \<and>
       aw_acks w' = dict_set (ak_id a) a (aw_acks w) \<and> aw_by_petition w' = dict_set i a (aw_by_petition w) \<and>
       (\<exists>e. r = Inl e \<and>
          (aw_commands w' = aw_commands w @ [(UpdateState i ACKNOWLEDGED ''KNIGHT_REFERRAL'', Some e)] \<or>
           exn_kind e = ValueError \<and> aw_commands w' = aw_commands w @ [(UpdateState i ACKNOWLEDGED ''KNIGHT_REFERRAL'', None)]))"
  have half: "code = KNIGHT_REFERRAL \<and> ?half"
    if "recorded a w r w'" "acknowledges i code [] (Some rationale) None a" "mk_acknowledgment a = Inr a" for a
  proof -
    have a: "ak_acknowledging_archon_ids a = []" "ak_acknowledged_by_king_id a = None" "ak_reason_code a = code" "ak_petition_id a = i"
      using that(2) by (simp_all add: acknowledges_def)
    then have "code = KNIGHT_REFERRAL" using that(3) by (auto simp: mk_acknowledgment_Inr min_acknowledging_archons_def)
    then show ?thesis using that(1,2) unfolding recorded_def Let_def a by (intro conjI exI [of _ a]) auto
  qed
  have outcome: "untouched_ack w w' \<and> (case r of Inl _ \<Rightarrow> True | Inr a \<Rightarrow> dict_get (aw_by_petition w) i = Some a) \<or>
      code = KNIGHT_REFERRAL \<and> ?half"
    using execute_outcome [OF run] half by (auto split: sum.splits)
  have "?half" if "code = KNIGHT_REFERRAL" "dict_get (aw_by_petition w) i = None"
    "fst (kp_get_by_id ports i (aw_store w)) = Inr (Some p)" "pt_state p \<in> {DELIBERATING, REFERRED}"
    "\<forall>c s. \<exists>h. fst (kp_compute_hash ports c s) = Inr h \<and> \<not> blank h" for p
  proof -
    note pre = that
    obtain s where get: "kp_get_by_id ports i (aw_store w) = (Inr (Some p), s)" using pre(3) by (metis prod.collapse)
    let ?w0 = "w\<lparr>aw_store := s\<rparr>"
    obtain a w1 where a: "prepare_acknowledgment ports i KNIGHT_REFERRAL [] (Some rationale) None ?w0 = (Inr a, w1)"
      using knight_prepared [OF pre(5)] by blast
    have w1: "untouched_ack w w1"
      using untouched_ack.frame_trans [OF _ framedD [OF prepare_untouched a]] by (simp add: untouched_ack_def)
    have knight: "exempt KNIGHT_REFERRAL" "valid_states KNIGHT_REFERRAL = {DELIBERATING, REFERRED}"
        "validate_acknowledgment_requirements KNIGHT_REFERRAL (Some rationale) None = Inr ()"
      by (simp_all add: exempt_def valid_states_def validate_acknowledgment_requirements_def requires_rationale_def
          requires_reference_def)
    have asked: "ask (kp_get_by_id ports i) w = (Inr (Some p), ?w0)" by (simp add: ask_def get)
    have none: "get_acknowledgment_by_petition i ?w0 = (Inr None, ?w0)" using pre(2) by (simp add: get_acknowledgment_by_petition_def)
    have "pt_state p \<in> valid_states KNIGHT_REFERRAL" using pre(4) knight(2) by simp
    then have "record_acknowledgment ports a w1 = (r, w')"
      using run [unfolded pre(1)] knight(1,3) asked none a by (simp add: execute_def)
    moreover note made = prepare_returns [OF a]
    moreover have "dict_get (aw_by_petition w1) (ak_petition_id a) = None"
      using w1 pre(2) made by (simp add: untouched_ack_def acknowledges_def)
    ultimately have "recorded a w r w'" using record_recorded recorded_same_ack [OF w1] by blast
    then show ?thesis using half made pre(1) by blast
  qed
  then show ?thesis using outcome unfolding Let_def by blast
qed

theorem system_acknowledge_never_new_witness:
  "\<exists>e w'. execute_system_acknowledge (example_ack_ports False) 1 KNIGHT_REFERRAL ''because'' (example_ack_world DELIBERATING) =
     (Inl e, w') \<and> aw_by_petition w' \<noteq> [] \<and>
     (\<exists>x. aw_commands w' = [(UpdateState 1 ACKNOWLEDGED ''KNIGHT_REFERRAL'', x)])"
proof -
  let ?w = "example_ack_world DELIBERATING"
  obtain r w' where run: "execute_system_acknowledge (example_ack_ports False) 1 KNIGHT_REFERRAL ''because'' ?w = (r, w')"
    by fastforce
  have prems: "dict_get (aw_by_petition ?w) 1 = None" "aw_commands ?w = []" "aw_by_petition ?w = []"
    "fst (kp_get_by_id (example_ack_ports False) 1 (aw_store ?w)) = Inr (Some (example_ack_petition DELIBERATING))"
    "pt_state (example_ack_petition DELIBERATING) = DELIBERATING"
    by (simp_all add: example_ack_world_def example_ack_ports_def example_ack_petition_def new_submission_def dict_get_def)
  have hash: "\<forall>c s. \<exists>h. fst (kp_compute_hash (example_ack_ports False) c s) = Inr h \<and> \<not> blank h"
    by (simp add: example_ack_ports_def blank_def py_strip_def is_py_space_def)
  show ?thesis
    using system_acknowledge_never_new [OF run, unfolded Let_def, THEN conjunct2] prems hash run by auto
qed

end
