(* ===== verification/Spec2Isabelle.thy ===== *)
theory Spec2Isabelle
  imports Hash_Chain Merkle Task_Consent Task_Timeout Halt_Transition Validators Legitimacy Deliberation_Orchestrator Halt_Circuit
    Petition_Service Adoption Co_Sign Task_Result Audit_Verification Epochs Orphan_Intents
    Cluster_Exit Cessation Task_Activation Acknowledgment
begin

text \<open>
  A verification library for the governance core of Archon 72 (Python, \<open>src/src/\<close>): an append-only, hash-chained
  ledger of governance events; tasks that need the consent of the Cluster they are offered to; the halt of the whole
  system; the legitimacy band that violations lower and people restore; petitions, their deliberation by three archons,
  their fates, co-signatures and adoption. Paths below are relative to \<open>src/src/\<close>.

  \<^bold>\<open>Foundations.\<close>

  \<^item> \<open>Prelude\<close>: exceptions as values; the actions \<open>('s, 'a) act = 's \<Rightarrow> (exn + 'a) \<times> 's\<close> in which the services
    are written, with the rules for what an action keeps (\<open>frame_relation\<close>, \<open>framed\<close>) and ends in (\<open>act_post\<close>,
    \<open>act_returns\<close>); insertion-ordered dictionaries; slices and string operations of Python.
  \<^item> \<open>Py_Text\<close>: how integers, bytes, UUIDs and datetimes are printed, with injectivity where hashes depend on it.
  \<^item> \<open>Transition_System\<close>: the locale of lifecycle tables; used for tasks and for petitions.

  \<^bold>\<open>The ledger of events\<close> (\<open>domain/governance/events/\<close>, \<open>application/services/governance/\<close>,
  \<open>infrastructure/adapters/governance/\<close>).

  \<^item> \<open>Canonical_Json\<close> (\<open>canonical_json.py\<close>), \<open>Event_Types\<close> and \<open>Event_Envelope\<close> (\<open>event_types.py\<close>,
    \<open>schema_versions.py\<close>, \<open>event_envelope.py\<close>), \<open>Hash_Algorithms\<close> (\<open>hash_algorithms.py\<close>): what is hashed and how.
  \<^item> \<open>Hash_Chain\<close> (\<open>hash_chain.py\<close>, \<open>hash_break_detection.py\<close>): chains and the break detector. The detector is exact,
    finds any tampering but of the last event, and the last hash commits to the whole chain; each up to an explicit
    collision of the digest.
  \<^item> \<open>Merkle\<close> (\<open>merkle_tree.py\<close>): soundness and completeness of inclusion proofs, and what padding gives away.
  \<^item> \<open>Ledger\<close> (\<open>ledger_port.py\<close>, \<open>in_memory_adapters.py\<close>, \<open>postgres_ledger_adapter.py\<close>, \<open>migrations/009\<close>): the locale
    \<open>ledger_port\<close> of append-only ledgers and its two models. \<open>Validators\<close> (\<open>validators/\<close>,
    \<open>ledger_validation_service.py\<close>, \<open>validated_ledger_adapter.py\<close>): validation on write; over a ledger that reads back
    what it stores (\<open>readable_ledger\<close>) the log is a hash chain.
  \<^item> \<open>Two_Phase\<close> (\<open>two_phase_events.py\<close>, \<open>two_phase_event_emitter.py\<close>, \<open>two_phase_execution.py\<close>) and
    \<open>Event_Emission\<close>: an operation is announced, carried out, and committed or failed in the log. \<open>Orphan_Intents\<close>
    (\<open>orphan_intent_detector.py\<close>, \<open>two_phase_gap_detector.py\<close>): what was announced and never settled is closed by a scan.

  \<^bold>\<open>Audit of the ledger\<close> (\<open>domain/governance/audit/\<close>, \<open>application/services/governance/\<close>).

  \<^item> \<open>Audit_Proof\<close> (\<open>completeness_proof.py\<close>, \<open>ledger_proof_service.py\<close>): reading the whole ledger in batches, completeness
    and inclusion proofs. Whatever went through the validated ledger can be proved over a ledger with the whole contract
    of the port, and a proof commits to the hashes of the events, not to their content. No ledger of the repository has
    all of that contract: over the PostgreSQL ledger, which drops hashes, nothing can be proved, and the ledger in memory
    lacks \<open>count_events\<close> and \<open>get_latest_event\<close>. The locale \<open>event_reader\<close> is what the services need of a ledger; the
    PostgreSQL ledger interprets it, and the ledger in memory with an added \<open>count_events\<close>, for the examples
    (\<open>example_count\<close>, and \<open>example_latest\<close> in \<open>Validators\<close>, are no code of the repository).
  \<^item> \<open>Audit_Export\<close> (\<open>ledger_export.py\<close>, \<open>ledger_export_service.py\<close>): the export, its search for personal data and its
    JSON text. \<open>Audit_Verification\<close> (\<open>verification_result.py\<close>, \<open>independent_verification_service.py\<close>): what a verification
    result says, the tampering its own checks do not notice, and why a file that was exported cannot be verified.
  \<^item> \<open>Epochs\<close> (\<open>epoch_manager.py\<close>, \<open>merkle_tree_port.py\<close>): stretches of the ledger with a Merkle root each, which commits
    to the hashed events of the stretch and is never published.

  \<^bold>\<open>Tasks and halt.\<close>

  \<^item> \<open>Task_State\<close> (\<open>domain/governance/task/\<close>): the lifecycle; it interprets \<open>transition_table\<close>.
  \<^item> \<open>Governance_World\<close>: the state the task services share, that is task store, ledger, clock and ids.
  \<^item> \<open>Coercion_Filter\<close> (\<open>coercion_filter_service.py\<close>, \<open>domain/governance/filter/\<close>, \<open>yaml_pattern_library_adapter.py\<close>):
    what a text must pass before it is sent. \<open>Task_Activation\<close> (\<open>task_activation_service.py\<close>): an Earl's request
    becomes a task and, if the filter lets its text through, is routed; over the pattern file the filter lets nothing
    through. The times that service stores are naive in the code; the other theories take every stored time as aware.
  \<^item> \<open>Task_Consent\<close>, \<open>Task_Timeout\<close>, \<open>Halt_Transition\<close> (\<open>task_consent_service.py\<close>, \<open>task_timeout_service.py\<close>,
    \<open>halt_task_transition_service.py\<close>): each operation on every branch, what it does to tasks and what it logs; the
    same over the strict vocabulary of events, which refuses their events.
  \<^item> \<open>Task_Result\<close> (\<open>task_result_service.py\<close>, \<open>task_result_port.py\<close>, \<open>problem_report.py\<close>): results and problem reports.
  \<^item> \<open>Cluster_Exit\<close> (\<open>domain/governance/exit/\<close>, \<open>exit_service.py\<close>, \<open>obligation_release_service.py\<close>,
    \<open>contribution_preservation_service.py\<close>, \<open>contact_prevention_service.py\<close>): a Cluster leaves; what is asked of the
    collaborators, call by call (\<open>exit_log\<close>), to release it from its tasks.
  \<^item> \<open>Halt_Circuit\<close> (\<open>domain/governance/halt/\<close>, \<open>halt_circuit_adapter.py\<close>, \<open>halt_port.py\<close>, \<open>halt_service.py\<close>): the
    circuit, which latches until it is reset for testing, and the service in front of it.
  \<^item> \<open>Cessation\<close> (\<open>domain/governance/cessation/\<close>, \<open>cessation_trigger_service.py\<close>, \<open>cessation_record_service.py\<close>,
    \<open>reconstitution_validation_service.py\<close>): the end of a system, which happens and is reported as failed; what may follow.
  \<^item> \<open>Legitimacy\<close> (\<open>domain/governance/legitimacy/\<close>, \<open>legitimacy_decay_service.py\<close>,
    \<open>legitimacy_restoration_service.py\<close>, \<open>violation_event_subscriber.py\<close>): bands, decay and restoration.

  \<^bold>\<open>Petitions.\<close>

  \<^item> \<open>Petition\<close> (\<open>domain/models/petition_submission.py\<close>): states, matrix and submission; \<open>Petition_World\<close>: the two
    repositories, models of the locale \<open>fate_store\<close>, in which no petition gets two fates; \<open>Petition_Service\<close>
    (\<open>petition_submission_service.py\<close>): submission, fate with its event or rollback, withdrawal.
  \<^item> \<open>Deliberation_Session\<close>, \<open>Consensus\<close> (\<open>domain/models/\<close>): the aggregate of a deliberation and the resolution of
    votes; \<open>Deliberation_Services\<close> (deadlock, timeout, substitution); \<open>Deliberation_Orchestrator\<close>: the protocol of
    four phases.
  \<^item> \<open>Acknowledgment\<close> (\<open>acknowledgment_execution_service.py\<close>, \<open>domain/models/acknowledgment.py\<close>): acknowledging by archons,
    by the system and by a King, over arbitrary collaborators whose commands are logged (\<open>ask\<close>, \<open>tell\<close>); what is left
    when it fails half-way.
  \<^item> \<open>Co_Sign\<close>: repositories, identity, rate limit, thresholds, automatic escalation and the service; the locales
    \<open>co_sign_store\<close> and \<open>escalating_store\<close> have an in-memory and a PostgreSQL model each.
  \<^item> \<open>Promotion_Budget\<close>: the three budget stores refine one specification (locale \<open>promotion_budget\<close>); \<open>Adoption\<close>
    (\<open>petition_adoption_service.py\<close>, \<open>event_writer_stub.py\<close>): the King's adoption over any of them (locale
    \<open>adoption_budget\<close>), with either event writer.

  \<^bold>\<open>How code becomes definitions.\<close> A dataclass is a record, its \<open>__post_init__\<close> a function \<open>mk_...\<close> into \<open>exn + 'a\<close>; an
  enum is a datatype; a coroutine is an action on the state of its component, and awaits are sequential except where a
  theory says what else may run (other transactions in \<open>pg_assign_fate_cas\<close>, arbitrary ports in the services). An
  exception carries its class and its message. Clocks and \<open>uuid4\<close> are sequences of values read in order, so every
  call the code makes is a read in the model. Ports without an implementation under \<open>src/\<close>, digests, Redis, brokers,
  language models, \<open>difflib\<close> and the readers of JSON, ids and times are parameters; what a theorem assumes of them it says.

  \<^bold>\<open>Bounds.\<close> Strings are ASCII. A datetime is an integer of microseconds, a float its text; the integral hours that
  the code computes by floating division are exact below a million hours. A query of the task store returns at most a
  hundred tasks, as in the code. The rounds of a deliberation have fuel: the configured maximum of rounds is enough,
  and \<open>orchestrate_settles\<close> says so. The loop that reads the ledger in batches ends because each batch that is not empty
  brings it closer to the count (\<open>read_batches\<close>).

  \<^bold>\<open>Not modelled.\<close> The conclave and the executive and administrative pipelines, which exchange free text with language
  models; HTTP routes, response models and dependency wiring; Kafka workers; projections, scripts and metrics; logging
  everywhere; loading the pattern file and the log of filter decisions; connection failures of PostgreSQL. Of the
  petition system: referral, queues and decision packages; of the rate limiters: the one in memory
  only.
\<close>

end
